(* ===== verification/Prelude.thy ===== *)
theory Prelude
  imports Main "HOL-Library.Word"
begin

text \<open>
  What every component theory shares: Python strings and bytes, the exception classes of the
  program, computations that may raise, computations that may raise and change state, and
  time stamps.

  A Python \<open>str\<close> is a sequence of Unicode code points, so \<open>pystr\<close> is a list of naturals;
  \<open>str\<close> turns an Isabelle literal into one.  A \<open>bytes\<close> value is a list of 8-bit words.
  A call that may raise returns \<open>exc + 'a\<close>, \<open>Inl\<close> being the exception.  A method that may
  raise and mutates its object is a function from the state to the outcome and the state
  after the call; an exception keeps the mutations made before it.
\<close>

named_theorems py_simps "evaluation rules of the Python primitives"
named_theorems exc_elims "inversion of a successful computation"

section \<open>Strings and bytes\<close>

type_synonym pystr = "nat list"
type_synonym byte = "8 word"
type_synonym bytes = "byte list"

definition str :: "string \<Rightarrow> pystr" where
  "str s = map of_char s"

lemma str_Nil [simp]: "str [] = []"
  by (simp add: str_def)

lemma str_eq_Nil [simp]: "str s = [] \<longleftrightarrow> s = []"
  by (simp add: str_def)

lemma str_eq_iff [simp]: "str a = str b \<longleftrightarrow> a = b"
  unfolding str_def by (metis inj_of_char inj_map_eq_map)

lemma length_str [simp]: "length (str s) = length s"
  by (simp add: str_def)

lemma str_append: "str (a @ b) = str a @ str b"
  by (simp add: str_def)

text \<open>The code points for which \<open>str.isspace\<close> holds; \<open>str.strip\<close> removes the same ones.\<close>

definition isspace :: "nat \<Rightarrow> bool" where
  "isspace c \<longleftrightarrow> (9 \<le> c \<and> c \<le> 13) \<or> (28 \<le> c \<and> c \<le> 32) \<or> c = 133 \<or> c = 160 \<or> c = 5760
     \<or> (8192 \<le> c \<and> c \<le> 8202) \<or> c = 8232 \<or> c = 8233 \<or> c = 8239 \<or> c = 8287 \<or> c = 12288"

definition lstrip :: "pystr \<Rightarrow> pystr" where
  "lstrip s = dropWhile isspace s"

definition rstrip :: "pystr \<Rightarrow> pystr" where
  "rstrip s = rev (dropWhile isspace (rev s))"

definition strip :: "pystr \<Rightarrow> pystr" where
  "strip s = rstrip (lstrip s)"

definition startswith :: "pystr \<Rightarrow> pystr \<Rightarrow> bool" where
  "startswith s p \<longleftrightarrow> take (length p) s = p"

lemma startswith_append [simp]: "startswith (p @ s) p"
  by (simp add: startswith_def)

lemma startswith_iff: "startswith s p \<longleftrightarrow> (\<exists>r. s = p @ r)"
  by (metis append_take_drop_id startswith_append startswith_def)

text \<open>\<open>fragment in text\<close> for strings.\<close>

fun substring :: "pystr \<Rightarrow> pystr \<Rightarrow> bool" where
  "substring p [] = (p = [])"
| "substring p (c # s) = (startswith (c # s) p \<or> substring p s)"

lemma substring_iff: "substring p s \<longleftrightarrow> (\<exists>a b. s = a @ p @ b)"
proof (induction s)
  case Nil
  then show ?case by auto
next
  case (Cons c s)
  have "substring p (c # s) \<longleftrightarrow> (\<exists>r. c # s = p @ r) \<or> (\<exists>a b. s = a @ p @ b)"
    by (simp only: substring.simps startswith_iff Cons.IH)
  also have "\<dots> \<longleftrightarrow> (\<exists>a b. c # s = a @ p @ b)"
    by (metis (no_types, opaque_lifting) append_Cons append_Nil list.exhaust list.inject)
  finally show ?case .
qed

text \<open>\<open>"\n".join(parts)\<close>.\<close>

fun join :: "pystr \<Rightarrow> pystr list \<Rightarrow> pystr" where
  "join sep [] = []"
| "join sep [x] = x"
| "join sep (x # y # xs) = x @ sep @ join sep (y # xs)"

text \<open>Decimal rendering of integers, \<open>str(n)\<close>.\<close>

fun digits_of :: "nat \<Rightarrow> pystr" where
  "digits_of n = (if n < 10 then [48 + n] else digits_of (n div 10) @ [48 + n mod 10])"

declare digits_of.simps [simp del]

definition show_int :: "int \<Rightarrow> pystr" where
  "show_int i = (if i < 0 then 45 # digits_of (nat (- i)) else digits_of (nat i))"

definition is_ascii_digit :: "nat \<Rightarrow> bool" where
  "is_ascii_digit c \<longleftrightarrow> 48 \<le> c \<and> c \<le> 57"

definition digits_value :: "pystr \<Rightarrow> nat" where
  "digits_value s = foldl (\<lambda>n c. 10 * n + (c - 48)) 0 s"

lemma digits_of_all: "list_all is_ascii_digit (digits_of n)"
proof (induction n rule: digits_of.induct)
  case (1 n)
  have "is_ascii_digit (48 + n mod 10)" "n < 10 \<Longrightarrow> is_ascii_digit (48 + n)"
    unfolding is_ascii_digit_def by simp_all
  with 1 show ?case
    by (cases "n < 10"; subst digits_of.simps) simp_all
qed

lemma digits_of_nonempty [simp]: "digits_of n \<noteq> []"
  by (subst digits_of.simps) simp

lemma digits_value_snoc: "digits_value (s @ [c]) = 10 * digits_value s + (c - 48)"
  by (simp add: digits_value_def)

lemma digits_value_of: "digits_value (digits_of n) = n"
proof (induction n rule: digits_of.induct)
  case (1 n)
  show ?case
  proof (cases "n < 10")
    case True
    then show ?thesis by (subst digits_of.simps) (simp add: digits_value_def)
  next
    case False
    with 1 show ?thesis by (subst digits_of.simps) (simp add: digits_value_snoc)
  qed
qed

lemma digits_of_hd: "hd (digits_of n) = 48 \<longleftrightarrow> n = 0"
proof (induction n rule: digits_of.induct)
  case (1 n)
  show ?case
  proof (cases "n < 10")
    case True
    then show ?thesis by (subst digits_of.simps) simp
  next
    case False
    then have "n div 10 \<noteq> 0" by simp
    with 1 False show ?thesis by (subst digits_of.simps) (simp add: hd_append)
  qed
qed

section \<open>Exceptions\<close>

text \<open>
  The exception classes the modelled code and its libraries raise, each with its message;
  \<open>ConfigParserError\<close> is \<open>configparser.Error\<close>, \<open>ClientError\<close> that of aiohttp, and \<open>AsyncioTimeoutError\<close> is
  \<open>asyncio.TimeoutError\<close> on Python 3.10, where it is neither \<open>TimeoutError\<close> nor \<open>OSError\<close>.  The
  class hierarchy matters, because the handlers catch base classes: \<open>is_value_error\<close>,
  \<open>is_os_error\<close> and \<open>is_runtime_error\<close> are the \<open>isinstance\<close> tests of the handlers.
\<close>

datatype exc =
    IdentifierError string | TunnelProtocolError string | SecretError string
  | AuditError string | ConfigError string | EnrollmentError string | AdminError string
  | ValueError string
  | AuthError string | TunnelAuthError string | JumpError string | SshServerError string
  | TunnelStateError string | AgentTunnelError string | TunnelReconnectLimitError string
  | AgentEnrollmentError string | ReplayError string | MigrationError string
  | RuntimeError string
  | OSError string | FileNotFoundError string | TimeoutError string
  | EOFError | IncompleteReadError bytes
  | KeyError | TypeError string | OverflowError string | AttributeError string
  | PostgresError string | AsyncSshError string
  | ConfigParserError string | ClientError string | AsyncioTimeoutError string

fun is_value_error :: "exc \<Rightarrow> bool" where
  "is_value_error (IdentifierError _) = True"
| "is_value_error (TunnelProtocolError _) = True"
| "is_value_error (SecretError _) = True"
| "is_value_error (AuditError _) = True"
| "is_value_error (ConfigError _) = True"
| "is_value_error (EnrollmentError _) = True"
| "is_value_error (AdminError _) = True"
| "is_value_error (ValueError _) = True"
| "is_value_error _ = False"

fun is_os_error :: "exc \<Rightarrow> bool" where
  "is_os_error (AuthError _) = True"
| "is_os_error (TunnelAuthError _) = True"
| "is_os_error (JumpError _) = True"
| "is_os_error (SshServerError _) = True"
| "is_os_error (OSError _) = True"
| "is_os_error (FileNotFoundError _) = True"
| "is_os_error (TimeoutError _) = True"
| "is_os_error _ = False"

fun is_eof_error :: "exc \<Rightarrow> bool" where
  "is_eof_error EOFError = True"
| "is_eof_error (IncompleteReadError _) = True"
| "is_eof_error _ = False"

fun is_runtime_error :: "exc \<Rightarrow> bool" where
  "is_runtime_error (TunnelStateError _) = True"
| "is_runtime_error (AgentTunnelError _) = True"
| "is_runtime_error (TunnelReconnectLimitError _) = True"
| "is_runtime_error (AgentEnrollmentError _) = True"
| "is_runtime_error (ReplayError _) = True"
| "is_runtime_error (MigrationError _) = True"
| "is_runtime_error (RuntimeError _) = True"
| "is_runtime_error _ = False"

fun is_secret_error :: "exc \<Rightarrow> bool" where
  "is_secret_error (SecretError _) = True"
| "is_secret_error _ = False"

section \<open>Computations that may raise\<close>

type_synonym 'a result = "exc + 'a"

definition rbind :: "'a result \<Rightarrow> ('a \<Rightarrow> 'b result) \<Rightarrow> 'b result" where
  "rbind m k = (case m of Inl e \<Rightarrow> Inl e | Inr x \<Rightarrow> k x)"

definition require :: "bool \<Rightarrow> exc \<Rightarrow> unit result" where
  "require b e = (if b then Inr () else Inl e)"

text \<open>\<open>try: m except E as exc: raise h(exc) from exc\<close>, with \<open>p\<close> the handler's class test.\<close>

definition rewrap :: "'a result \<Rightarrow> (exc \<Rightarrow> bool) \<Rightarrow> (exc \<Rightarrow> exc) \<Rightarrow> 'a result" where
  "rewrap m p h = (case m of Inl e \<Rightarrow> Inl (if p e then h e else e) | Inr x \<Rightarrow> Inr x)"

text \<open>A comprehension that validates each item and stops at the first exception.\<close>

fun rmap :: "('a \<Rightarrow> 'b result) \<Rightarrow> 'a list \<Rightarrow> 'b list result" where
  "rmap f [] = Inr []"
| "rmap f (x # xs) = rbind (f x) (\<lambda>y. rbind (rmap f xs) (\<lambda>ys. Inr (y # ys)))"

lemma rbind_simps [simp]:
  "rbind (Inr x) k = k x" "rbind (Inl e) k = Inl e"
  by (simp_all add: rbind_def)

lemma rbind_eq_Inr [exc_elims]: "rbind m k = Inr y \<longleftrightarrow> (\<exists>x. m = Inr x \<and> k x = Inr y)"
  by (cases m) auto

lemma rbind_eq_Inl [exc_elims]:
  "rbind m k = Inl e \<longleftrightarrow> m = Inl e \<or> (\<exists>x. m = Inr x \<and> k x = Inl e)"
  by (cases m) auto

lemma require_simps [simp]: "require True e = Inr ()" "require False e = Inl e"
  by (simp_all add: require_def)

lemma require_eq [exc_elims]:
  "require b e = Inr u \<longleftrightarrow> b" "require b e = Inl e' \<longleftrightarrow> \<not> b \<and> e' = e"
  by (auto simp: require_def)

lemma rewrap_simps [simp]:
  "rewrap (Inr x) p h = Inr x" "rewrap (Inl e) p h = Inl (if p e then h e else e)"
  by (simp_all add: rewrap_def)

lemma rewrap_eq_Inr [exc_elims]: "rewrap m p h = Inr x \<longleftrightarrow> m = Inr x"
  by (cases m) auto

lemma rmap_eq_Inr: "rmap f xs = Inr ys \<longleftrightarrow> list_all2 (\<lambda>x y. f x = Inr y) xs ys"
  by (induction xs arbitrary: ys) (auto simp: rbind_eq_Inr list_all2_Cons1)

lemma rmap_id:
  assumes "\<And>x y. f x = Inr y \<Longrightarrow> y = x"
  shows "rmap f xs = Inr ys \<longleftrightarrow> ys = xs \<and> (\<forall>x \<in> set xs. f x = Inr x)"
proof (induction xs arbitrary: ys)
  case Nil
  then show ?case by auto
next
  case (Cons x xs)
  show ?case
  proof (cases "f x")
    case (Inl e)
    then show ?thesis by simp
  next
    case (Inr y)
    with assms have "y = x" by simp
    with Inr show ?thesis by (auto simp: rbind_eq_Inr Cons.IH)
  qed
qed

section \<open>Computations that may raise and change state\<close>

type_synonym ('s, 'a) op = "'s \<Rightarrow> 'a result \<times> 's"

definition sret :: "'a \<Rightarrow> ('s, 'a) op" where
  "sret x s = (Inr x, s)"

definition sraise :: "exc \<Rightarrow> ('s, 'a) op" where
  "sraise e s = (Inl e, s)"

definition sbind :: "('s, 'a) op \<Rightarrow> ('a \<Rightarrow> ('s, 'b) op) \<Rightarrow> ('s, 'b) op" where
  "sbind m k s = (case m s of (Inl e, t) \<Rightarrow> (Inl e, t) | (Inr x, t) \<Rightarrow> k x t)"

definition slift :: "'a result \<Rightarrow> ('s, 'a) op" where
  "slift r s = (r, s)"

definition sget :: "('s \<Rightarrow> 'a) \<Rightarrow> ('s, 'a) op" where
  "sget f s = (Inr (f s), s)"

definition smodify :: "('s \<Rightarrow> 's) \<Rightarrow> ('s, unit) op" where
  "smodify f s = (Inr (), f s)"

definition srequire :: "bool \<Rightarrow> exc \<Rightarrow> ('s, unit) op" where
  "srequire b e s = (require b e, s)"

text \<open>\<open>try: m except E: handler\<close>; the handler starts in the state the exception left.\<close>

definition stry :: "('s, 'a) op \<Rightarrow> (exc \<Rightarrow> bool) \<Rightarrow> (exc \<Rightarrow> ('s, 'a) op) \<Rightarrow> ('s, 'a) op" where
  "stry m p h s = (case m s of (Inl e, t) \<Rightarrow> if p e then h e t else (Inl e, t) | (Inr x, t) \<Rightarrow> (Inr x, t))"

lemma sret_simp [simp]: "sret x s = (Inr x, s)"
  by (simp add: sret_def)

lemma sraise_simp [simp]: "sraise e s = (Inl e, s)"
  by (simp add: sraise_def)

lemma slift_simp [simp]: "slift r s = (r, s)"
  by (simp add: slift_def)

lemma sget_simp [simp]: "sget f s = (Inr (f s), s)"
  by (simp add: sget_def)

lemma smodify_simp [simp]: "smodify f s = (Inr (), f s)"
  by (simp add: smodify_def)

lemma srequire_simp [simp]: "srequire b e s = (require b e, s)"
  by (simp add: srequire_def)

lemma sbind_Inr: "m s = (Inr x, t) \<Longrightarrow> sbind m k s = k x t"
  by (simp add: sbind_def)

lemma sbind_Inl: "m s = (Inl e, t) \<Longrightarrow> sbind m k s = (Inl e, t)"
  by (simp add: sbind_def)

lemma sbind_eq_Inr [exc_elims]:
  "sbind m k s = (Inr y, u) \<longleftrightarrow> (\<exists>x t. m s = (Inr x, t) \<and> k x t = (Inr y, u))"
  by (auto simp: sbind_def split: prod.splits sum.splits)

lemma sbind_eq_Inl [exc_elims]:
  "sbind m k s = (Inl e, u) \<longleftrightarrow>
     m s = (Inl e, u) \<or> (\<exists>x t. m s = (Inr x, t) \<and> k x t = (Inl e, u))"
  by (auto simp: sbind_def split: prod.splits sum.splits)

section \<open>Time stamps\<close>

text \<open>
  A \<open>datetime\<close> is a wall-clock reading in microseconds with an optional UTC offset
  (\<open>tzinfo is None\<close> is no offset).  Every module has the same \<open>_as_utc\<close>; the readings are
  unbounded, so the \<open>OverflowError\<close> of the year 9999 is outside the model.
\<close>

record datetime =
  wall :: int
  utcoffset :: "int option"

definition as_utc :: "datetime \<Rightarrow> datetime" where
  "as_utc v = (case utcoffset v of
     None \<Rightarrow> v\<lparr>utcoffset := Some 0\<rparr>
   | Some off \<Rightarrow> \<lparr>wall = wall v - off, utcoffset = Some 0\<rparr>)"

text \<open>The instant a reading denotes once a missing offset is read as UTC.\<close>

definition instant :: "datetime \<Rightarrow> int" where
  "instant v = wall v - (case utcoffset v of None \<Rightarrow> 0 | Some off \<Rightarrow> off)"

definition utc :: "int \<Rightarrow> datetime" where
  "utc t = \<lparr>wall = t, utcoffset = Some 0\<rparr>"

definition seconds :: "int \<Rightarrow> int" where
  "seconds n = n * 1000000"

lemma as_utc_eq: "as_utc v = utc (instant v)"
  by (cases v) (auto simp: as_utc_def utc_def instant_def split: option.splits)

lemma wall_as_utc [simp]: "wall (as_utc v) = instant v"
  by (simp add: as_utc_eq utc_def)

lemma instant_utc [simp]: "instant (utc t) = t"
  by (simp add: instant_def utc_def)

lemma instant_as_utc [simp]: "instant (as_utc v) = instant v"
  by (simp add: as_utc_eq)

lemma as_utc_idem [simp]: "as_utc (as_utc v) = as_utc v"
  by (simp add: as_utc_eq)

lemma seconds_mono: "seconds a \<le> seconds b \<longleftrightarrow> a \<le> b"
  by (simp add: seconds_def)

end
