(* ===== verification/Regex.thy ===== *)
theory Regex
  imports Prelude
begin

text \<open>
  The fragment of Python's \<open>re\<close> the program uses: classes, sequences, alternatives, bounded and
  unbounded repetition.  \<open>rx_match\<close> decides a match of the whole string by derivatives and is
  proved equal to membership in the language \<open>rx_lang\<close>.  \<open>fullmatch\<close> of a pattern
  \<open>^r$\<close> is \<open>rx_match r\<close>; \<open>match\<close> of \<open>^r$\<close> also accepts one trailing newline, because \<open>$\<close>
  matches before it.
\<close>

datatype rx =
    RNone | REps | RCls "nat \<Rightarrow> bool" | RSeq rx rx | RAlt rx rx
  | RRep rx nat nat | RStar rx

fun rx_lang :: "rx \<Rightarrow> pystr set" where
  "rx_lang RNone = {}"
| "rx_lang REps = {[]}"
| "rx_lang (RCls p) = {[c] | c. p c}"
| "rx_lang (RSeq a b) = {u @ v | u v. u \<in> rx_lang a \<and> v \<in> rx_lang b}"
| "rx_lang (RAlt a b) = rx_lang a \<union> rx_lang b"
| "rx_lang (RRep r m n) =
     {concat ws | ws. set ws \<subseteq> rx_lang r \<and> m \<le> length ws \<and> length ws \<le> n}"
| "rx_lang (RStar r) = {concat ws | ws. set ws \<subseteq> rx_lang r}"

fun nullable :: "rx \<Rightarrow> bool" where
  "nullable RNone = False"
| "nullable REps = True"
| "nullable (RCls p) = False"
| "nullable (RSeq a b) = (nullable a \<and> nullable b)"
| "nullable (RAlt a b) = (nullable a \<or> nullable b)"
| "nullable (RRep r m n) = (m \<le> n \<and> (m = 0 \<or> nullable r))"
| "nullable (RStar r) = True"

fun deriv :: "nat \<Rightarrow> rx \<Rightarrow> rx" where
  "deriv c RNone = RNone"
| "deriv c REps = RNone"
| "deriv c (RCls p) = (if p c then REps else RNone)"
| "deriv c (RSeq a b) =
     (if nullable a then RAlt (RSeq (deriv c a) b) (deriv c b) else RSeq (deriv c a) b)"
| "deriv c (RAlt a b) = RAlt (deriv c a) (deriv c b)"
| "deriv c (RRep r m n) =
     (if n = 0 then RNone else RSeq (deriv c r) (RRep r (m - 1) (n - 1)))"
| "deriv c (RStar r) = RSeq (deriv c r) (RStar r)"

fun rx_match :: "rx \<Rightarrow> pystr \<Rightarrow> bool" where
  "rx_match r [] = nullable r"
| "rx_match r (c # s) = rx_match (deriv c r) s"

definition py_fullmatch :: "rx \<Rightarrow> pystr \<Rightarrow> bool" where
  "py_fullmatch r s = rx_match r s"

definition py_match_dollar :: "rx \<Rightarrow> pystr \<Rightarrow> bool" where
  "py_match_dollar r s \<longleftrightarrow>
     rx_match r s \<or> (s \<noteq> [] \<and> last s = 10 \<and> rx_match r (butlast s))"

lemma concat_all_Nil: "\<forall>w \<in> set ws. w = [] \<Longrightarrow> concat ws = []"
  by (induction ws) auto

lemma nullable_lang: "nullable r \<longleftrightarrow> [] \<in> rx_lang r"
proof (induction r)
  case (RRep r m n)
  show ?case
  proof
    assume "nullable (RRep r m n)"
    then have "m \<le> n" and "m = 0 \<or> [] \<in> rx_lang r" using RRep.IH by auto
    then have "set (replicate m []) \<subseteq> rx_lang r" and "m \<le> n" by auto
    then show "[] \<in> rx_lang (RRep r m n)"
      by (auto intro!: exI [of _ "replicate m []"])
  next
    assume "[] \<in> rx_lang (RRep r m n)"
    then obtain ws where ws: "set ws \<subseteq> rx_lang r" "m \<le> length ws" "length ws \<le> n"
      "concat ws = []" by auto
    then show "nullable (RRep r m n)" using RRep.IH by (cases ws) auto
  qed
next
  case (RStar r)
  show ?case by (auto intro!: exI [of _ "[]"])
qed auto

text \<open>A product that starts with \<open>c\<close> can be rearranged to have the word with \<open>c\<close> in front.\<close>

lemma concat_first_nonempty:
  assumes "concat ws = c # s"
  shows "\<exists>u vs. c # u \<in> set ws \<and> s = u @ concat vs \<and> set vs \<subseteq> set ws \<and> Suc (length vs) = length ws"
  using assms
proof (induction ws)
  case Nil
  then show ?case by simp
next
  case (Cons w ws)
  show ?case
  proof (cases w)
    case (Cons d u)
    with Cons.prems show ?thesis by (intro exI [of _ u] exI [of _ ws]) auto
  next
    case Nil
    with Cons.prems have "concat ws = c # s" by simp
    with Cons.IH obtain u vs where "c # u \<in> set ws" "s = u @ concat vs" "set vs \<subseteq> set ws"
      "Suc (length vs) = length ws" by blast
    with Nil show ?thesis by (intro exI [of _ u] exI [of _ "[] # vs"]) auto
  qed
qed

lemma deriv_rep:
  assumes IH: "\<And>s. s \<in> rx_lang (deriv c r) \<longleftrightarrow> c # s \<in> rx_lang r"
  shows "s \<in> rx_lang (deriv c (RRep r m n)) \<longleftrightarrow> c # s \<in> rx_lang (RRep r m n)"
proof
  assume "s \<in> rx_lang (deriv c (RRep r m n))"
  then obtain u ws where "n \<noteq> 0" "s = u @ concat ws" "c # u \<in> rx_lang r"
    "set ws \<subseteq> rx_lang r" "m - 1 \<le> length ws" "length ws \<le> n - 1"
    by (auto simp: IH split: if_splits)
  then show "c # s \<in> rx_lang (RRep r m n)"
    by (auto intro!: exI [of _ "(c # u) # ws"])
next
  assume "c # s \<in> rx_lang (RRep r m n)"
  then obtain ws where ws: "concat ws = c # s" "set ws \<subseteq> rx_lang r" "m \<le> length ws"
    "length ws \<le> n" by auto
  obtain u vs where "c # u \<in> set ws" "s = u @ concat vs" "set vs \<subseteq> set ws"
    "Suc (length vs) = length ws" using concat_first_nonempty [OF ws(1)] by blast
  with ws have "n \<noteq> 0" "s = u @ concat vs" "u \<in> rx_lang (deriv c r)"
    "concat vs \<in> rx_lang (RRep r (m - 1) (n - 1))"
    by (auto simp: IH intro!: exI [of _ vs])
  then show "s \<in> rx_lang (deriv c (RRep r m n))"
    by (auto simp del: rx_lang.simps(6))
qed

lemma deriv_star:
  assumes IH: "\<And>s. s \<in> rx_lang (deriv c r) \<longleftrightarrow> c # s \<in> rx_lang r"
  shows "s \<in> rx_lang (deriv c (RStar r)) \<longleftrightarrow> c # s \<in> rx_lang (RStar r)"
proof
  assume "s \<in> rx_lang (deriv c (RStar r))"
  then obtain u ws where "s = u @ concat ws" "c # u \<in> rx_lang r" "set ws \<subseteq> rx_lang r"
    by (auto simp: IH)
  then show "c # s \<in> rx_lang (RStar r)" by (auto intro!: exI [of _ "(c # u) # ws"])
next
  assume "c # s \<in> rx_lang (RStar r)"
  then obtain ws where ws: "concat ws = c # s" "set ws \<subseteq> rx_lang r" by auto
  obtain u vs where "c # u \<in> set ws" "s = u @ concat vs" "set vs \<subseteq> set ws"
    using concat_first_nonempty [OF ws(1)] by blast
  with ws have "s = u @ concat vs" "u \<in> rx_lang (deriv c r)"
    "concat vs \<in> rx_lang (RStar r)"
    by (auto simp: IH intro!: exI [of _ vs])
  then show "s \<in> rx_lang (deriv c (RStar r))"
    by (auto simp del: rx_lang.simps(7))
qed

lemma deriv_lang: "s \<in> rx_lang (deriv c r) \<longleftrightarrow> c # s \<in> rx_lang r"
proof (induction r arbitrary: s)
  case (RSeq a b)
  have "s \<in> rx_lang (deriv c (RSeq a b)) \<longleftrightarrow>
      (\<exists>u v. s = u @ v \<and> c # u \<in> rx_lang a \<and> v \<in> rx_lang b)
      \<or> ([] \<in> rx_lang a \<and> c # s \<in> rx_lang b)"
    by (auto simp: RSeq.IH nullable_lang)
  also have "\<dots> \<longleftrightarrow> c # s \<in> rx_lang (RSeq a b)"
    by (auto simp: Cons_eq_append_conv)
  finally show ?case .
next
  case (RRep r m n)
  then show ?case by (rule deriv_rep)
next
  case (RStar r)
  then show ?case by (rule deriv_star)
qed auto

theorem rx_match_lang: "rx_match r s \<longleftrightarrow> s \<in> rx_lang r"
  by (induction s arbitrary: r) (simp_all add: nullable_lang deriv_lang)

lemma concat_singletons:
  "(\<forall>w \<in> set ws. \<exists>c. w = [c] \<and> p c) \<Longrightarrow> list_all p (concat ws) \<and> length (concat ws) = length ws"
  by (induction ws) auto

lemma rep_cls_lang:
  "rx_lang (RRep (RCls p) m n) = {s. list_all p s \<and> m \<le> length s \<and> length s \<le> n}"
proof (intro set_eqI iffI)
  fix s assume "s \<in> rx_lang (RRep (RCls p) m n)"
  then obtain ws where "s = concat ws" "m \<le> length ws" "length ws \<le> n"
    "\<forall>w \<in> set ws. \<exists>c. w = [c] \<and> p c" by auto
  then show "s \<in> {s. list_all p s \<and> m \<le> length s \<and> length s \<le> n}"
    using concat_singletons [of ws p] by simp
next
  fix s assume "s \<in> {s. list_all p s \<and> m \<le> length s \<and> length s \<le> n}"
  then show "s \<in> rx_lang (RRep (RCls p) m n)"
    by (auto simp: list_all_iff intro!: exI [of _ "map (\<lambda>c. [c]) s"])
qed

lemma Cons_seq_lang:
  "c # r \<in> {u @ v | u v. u \<in> {[c] | c. p c} \<and> v \<in> L} \<longleftrightarrow> p c \<and> r \<in> L"
  by (auto intro: exI [of _ "[c]", OF exI [of _ r]])

lemma seq_cls_rep_match:
  "rx_match (RSeq (RCls p) (RRep (RCls q) m n)) s \<longleftrightarrow>
     (case s of [] \<Rightarrow> False | c # r \<Rightarrow> p c \<and> list_all q r \<and> m \<le> length r \<and> length r \<le> n)"
proof (cases s)
  case Nil
  then show ?thesis by simp
next
  case (Cons c r)
  have "rx_match (RSeq (RCls p) (RRep (RCls q) m n)) s \<longleftrightarrow>
      p c \<and> r \<in> rx_lang (RRep (RCls q) m n)"
    unfolding rx_match_lang rx_lang.simps(3,4) Cons by (rule Cons_seq_lang)
  then show ?thesis unfolding rep_cls_lang Cons by auto
qed

end
