(* ===== verification/Identifiers.thy ===== *)
theory Identifiers
  imports Regex
begin

text \<open>
  \<open>vibeconnect_common/identifiers.py\<close>: node names, labels and certificate principals.  The two
  compiled patterns are regular expressions of theory \<open>Regex\<close>; the closed forms of what they
  accept are lemmas.
\<close>

definition is_alnum_cp :: "nat \<Rightarrow> bool" where
  "is_alnum_cp c \<longleftrightarrow> (97 \<le> c \<and> c \<le> 122) \<or> (65 \<le> c \<and> c \<le> 90) \<or> (48 \<le> c \<and> c \<le> 57)"

definition node_char :: "nat \<Rightarrow> bool" where
  "node_char c \<longleftrightarrow> is_alnum_cp c \<or> c \<in> set (str ''_.-'')"

definition label_char :: "nat \<Rightarrow> bool" where
  "label_char c \<longleftrightarrow> is_alnum_cp c \<or> c \<in> set (str ''_.:/-'')"

definition NODE_NAME_PATTERN :: rx where
  "NODE_NAME_PATTERN = RSeq (RCls is_alnum_cp) (RRep (RCls node_char) 0 62)"

definition LABEL_PATTERN :: rx where
  "LABEL_PATTERN = RSeq (RCls is_alnum_cp) (RRep (RCls label_char) 0 127)"

definition USERNAME_FORBIDDEN_CHARS :: "nat list" where
  "USERNAME_FORBIDDEN_CHARS = str ''/:''"

text \<open>\<open>&;|<>$`\"'(){}[]*?!\<close>; 92, 34 and 39 are the backslash and the two quotes.\<close>

definition USERNAME_FORBIDDEN_SHELL_CHARS :: "nat list" where
  "USERNAME_FORBIDDEN_SHELL_CHARS = str ''&;|<>$`'' @ [92, 34, 39] @ str ''(){}[]*?!''"

definition validate_node_name :: "pystr \<Rightarrow> pystr result" where
  "validate_node_name value =
     (if \<not> py_fullmatch NODE_NAME_PATTERN value then Inl (IdentifierError ''invalid node_name'')
      else Inr value)"

definition validate_label :: "pystr \<Rightarrow> pystr result" where
  "validate_label value =
     (if \<not> py_fullmatch LABEL_PATTERN value then Inl (IdentifierError ''invalid label'')
      else Inr value)"

definition principal_char_ok :: "nat \<Rightarrow> bool" where
  "principal_char_ok c \<longleftrightarrow>
     \<not> (c = 0 \<or> isspace c \<or> c < 32 \<or> c \<in> set USERNAME_FORBIDDEN_CHARS
        \<or> c \<in> set USERNAME_FORBIDDEN_SHELL_CHARS)"

definition validate_username_principal :: "pystr \<Rightarrow> pystr result" where
  "validate_username_principal value =
     (if value = [] \<or> value = str ''root''
      then Inl (IdentifierError ''invalid username principal'')
      else if \<exists>c \<in> set value. \<not> principal_char_ok c
      then Inl (IdentifierError ''invalid username principal'')
      else Inr value)"

section \<open>What the validators accept\<close>

lemma validate_node_name_Inr [exc_elims]:
  "validate_node_name v = Inr w \<longleftrightarrow> w = v \<and> py_fullmatch NODE_NAME_PATTERN v"
  by (auto simp: validate_node_name_def)

lemma validate_label_Inr [exc_elims]:
  "validate_label v = Inr w \<longleftrightarrow> w = v \<and> py_fullmatch LABEL_PATTERN v"
  by (auto simp: validate_label_def)

lemma validate_username_principal_Inr [exc_elims]:
  "validate_username_principal v = Inr w \<longleftrightarrow>
     w = v \<and> v \<noteq> [] \<and> v \<noteq> str ''root'' \<and> (\<forall>c \<in> set v. principal_char_ok c)"
  by (auto simp: validate_username_principal_def)

lemma validate_node_name_Inl:
  "validate_node_name v = Inl e \<Longrightarrow> e = IdentifierError ''invalid node_name''"
  by (auto simp: validate_node_name_def split: if_splits)

lemma validate_label_Inl:
  "validate_label v = Inl e \<Longrightarrow> e = IdentifierError ''invalid label''"
  by (auto simp: validate_label_def split: if_splits)

lemma validate_username_principal_Inl:
  "validate_username_principal v = Inl e \<Longrightarrow> e = IdentifierError ''invalid username principal''"
  by (auto simp: validate_username_principal_def split: if_splits)

lemma node_name_closed:
  "py_fullmatch NODE_NAME_PATTERN v \<longleftrightarrow>
     (case v of [] \<Rightarrow> False | c # r \<Rightarrow> is_alnum_cp c \<and> list_all node_char r \<and> length r \<le> 62)"
  unfolding py_fullmatch_def NODE_NAME_PATTERN_def seq_cls_rep_match by (simp split: list.splits)

lemma label_closed:
  "py_fullmatch LABEL_PATTERN v \<longleftrightarrow>
     (case v of [] \<Rightarrow> False | c # r \<Rightarrow> is_alnum_cp c \<and> list_all label_char r \<and> length r \<le> 127)"
  unfolding py_fullmatch_def LABEL_PATTERN_def seq_cls_rep_match by (simp split: list.splits)

lemma node_char_cases:
  "node_char c \<Longrightarrow> 45 \<le> c \<and> c \<le> 122 \<and> c \<noteq> 47 \<and> c \<noteq> 58 \<and> \<not> isspace c"
  by (auto simp: node_char_def is_alnum_cp_def str_def isspace_def)

lemma is_alnum_node_char: "is_alnum_cp c \<Longrightarrow> node_char c"
  by (simp add: node_char_def)

lemma is_alnum_label_char: "is_alnum_cp c \<Longrightarrow> label_char c"
  by (simp add: label_char_def)

lemma label_char_cases: "label_char c \<Longrightarrow> 45 \<le> c \<and> c \<le> 122 \<and> \<not> isspace c"
  by (auto simp: label_char_def is_alnum_cp_def str_def isspace_def)

lemma valid_node_name_chars:
  "py_fullmatch NODE_NAME_PATTERN v \<Longrightarrow> v \<noteq> [] \<and> length v \<le> 63 \<and> (\<forall>c \<in> set v. node_char c)"
  by (auto simp: node_name_closed list_all_iff is_alnum_node_char split: list.splits)

lemma valid_label_chars:
  "py_fullmatch LABEL_PATTERN v \<Longrightarrow> v \<noteq> [] \<and> length v \<le> 128 \<and> (\<forall>c \<in> set v. label_char c)"
  by (auto simp: label_closed list_all_iff is_alnum_label_char split: list.splits)

text \<open>Every node name is a label, so a node name can always be used as one.\<close>

lemma node_name_is_label:
  "py_fullmatch NODE_NAME_PATTERN v \<Longrightarrow> py_fullmatch LABEL_PATTERN v"
  unfolding node_name_closed label_closed
  by (auto simp: list_all_iff node_char_def label_char_def str_def split: list.splits)

text \<open>A valid node name is never changed by stripping.\<close>

lemma dropWhile_none: "\<forall>c \<in> set v. \<not> p c \<Longrightarrow> dropWhile p v = v"
  by (cases v) auto

lemma no_space_strip: "\<forall>c \<in> set v. \<not> isspace c \<Longrightarrow> strip v = v"
  unfolding strip_def lstrip_def rstrip_def
  by (simp add: dropWhile_none)

lemma valid_node_name_strip: "py_fullmatch NODE_NAME_PATTERN v \<Longrightarrow> strip v = v"
  using valid_node_name_chars node_char_cases no_space_strip by blast

end
