(* ===== verification/Utf8.thy ===== *)
theory Utf8
  imports Prelude
begin

text \<open>
  UTF-8 as \<open>str.encode("utf-8")\<close> and \<open>bytes.decode("utf-8")\<close> do it, in strict mode: surrogates
  cannot be encoded (\<open>UnicodeEncodeError\<close>, here \<open>None\<close>), and overlong forms, encoded surrogates
  and truncated sequences cannot be decoded (\<open>UnicodeDecodeError\<close>, here \<open>None\<close>).
\<close>

definition scalar :: "nat \<Rightarrow> bool" where
  "scalar c \<longleftrightarrow> c < 55296 \<or> (57344 \<le> c \<and> c < 1114112)"

definition enc_cp :: "nat \<Rightarrow> nat list" where
  "enc_cp c =
     (if c < 128 then [c]
      else if c < 2048 then [192 + c div 64, 128 + c mod 64]
      else if c < 65536 then [224 + c div 4096, 128 + c div 64 mod 64, 128 + c mod 64]
      else [240 + c div 262144, 128 + c div 4096 mod 64, 128 + c div 64 mod 64, 128 + c mod 64])"

definition utf8_encode :: "pystr \<Rightarrow> bytes option" where
  "utf8_encode s =
     (if list_all scalar s then Some (map of_nat (concat (map enc_cp s))) else None)"

definition cont :: "nat \<Rightarrow> bool" where
  "cont b \<longleftrightarrow> 128 \<le> b \<and> b \<le> 191"

fun dec_cp :: "nat list \<Rightarrow> (nat \<times> nat list) option" where
  "dec_cp [] = None"
| "dec_cp (a # r) =
     (if a < 128 then Some (a, r)
      else if 194 \<le> a \<and> a \<le> 223 then
        (case r of b # r' \<Rightarrow> if cont b then Some ((a - 192) * 64 + (b - 128), r') else None | _ \<Rightarrow> None)
      else if 224 \<le> a \<and> a \<le> 239 then
        (case r of b # c # r' \<Rightarrow>
             if cont b \<and> cont c \<and> (a = 224 \<longrightarrow> 160 \<le> b) \<and> (a = 237 \<longrightarrow> b \<le> 159)
             then Some ((a - 224) * 4096 + (b - 128) * 64 + (c - 128), r') else None
         | _ \<Rightarrow> None)
      else if 240 \<le> a \<and> a \<le> 244 then
        (case r of b # c # d # r' \<Rightarrow>
             if cont b \<and> cont c \<and> cont d \<and> (a = 240 \<longrightarrow> 144 \<le> b) \<and> (a = 244 \<longrightarrow> b \<le> 143)
             then Some ((a - 240) * 262144 + (b - 128) * 4096 + (c - 128) * 64 + (d - 128), r')
             else None
         | _ \<Rightarrow> None)
      else None)"

lemma dec_cp_shorter: "dec_cp s = Some (c, r) \<Longrightarrow> length r < length s"
  by (cases s) (auto split: if_splits list.splits)

function dec_all :: "nat list \<Rightarrow> nat list option" where
  "dec_all s = (if s = [] then Some [] else
     (case dec_cp s of None \<Rightarrow> None | Some (c, r) \<Rightarrow> map_option ((#) c) (dec_all r)))"
  by pat_completeness auto
termination
  by (relation "measure length") (auto dest: dec_cp_shorter)

declare dec_all.simps [simp del]

definition utf8_decode :: "bytes \<Rightarrow> pystr option" where
  "utf8_decode b = dec_all (map unat b)"

lemma dec_all_Nil [simp]: "dec_all [] = Some []"
  by (subst dec_all.simps) simp

lemma dec_all_step:
  assumes "dec_cp s = Some (c, r)"
  shows "dec_all s = map_option ((#) c) (dec_all r)"
proof -
  from assms have "s \<noteq> []" by auto
  with assms show ?thesis by (subst dec_all.simps) simp
qed

lemma enc_cp_bytes: "scalar c \<Longrightarrow> \<forall>b \<in> set (enc_cp c). b < 256"
proof -
  assume "scalar c"
  then have "c < 1114112" by (auto simp: scalar_def)
  then have "c div 262144 \<le> 4" by auto
  moreover have "c < 2048 \<Longrightarrow> c div 64 \<le> 31" "c < 65536 \<Longrightarrow> c div 4096 \<le> 15" by auto
  moreover have "128 + n mod 64 < 256" for n :: nat
    using mod_less_divisor [of 64 n] by linarith
  ultimately show ?thesis by (auto simp: enc_cp_def)
qed

lemma cont_mod [simp]: "cont (128 + n mod 64)"
  using mod_less_divisor [of 64 n] unfolding cont_def by linarith

lemma split64:
  fixes c :: nat
  shows "c div 64 * 64 + c mod 64 = c"
    and "c div 4096 * 4096 + c div 64 mod 64 * 64 + c mod 64 = c"
    and "c div 262144 * 262144 + c div 4096 mod 64 * 4096 + c div 64 mod 64 * 64 + c mod 64 = c"
proof -
  show a: "c div 64 * 64 + c mod 64 = c" by simp
  have b: "c div 64 = c div 4096 * 64 + c div 64 mod 64"
    using div_mult_mod_eq [of "c div 64" 64] by (simp add: div_mult2_eq [symmetric])
  then show e: "c div 4096 * 4096 + c div 64 mod 64 * 64 + c mod 64 = c"
    using a by linarith
  have "c div 4096 = c div 262144 * 64 + c div 4096 mod 64"
    using div_mult_mod_eq [of "c div 4096" 64] by (simp add: div_mult2_eq [symmetric])
  then show "c div 262144 * 262144 + c div 4096 mod 64 * 4096 + c div 64 mod 64 * 64 + c mod 64 = c"
    using e by linarith
qed

lemma dec_enc_cp: "scalar c \<Longrightarrow> dec_cp (enc_cp c @ r) = Some (c, r)"
proof -
  assume s: "scalar c"
  consider (a) "c < 128" | (b) "128 \<le> c" "c < 2048" | (c) "2048 \<le> c" "c < 65536"
    | (d) "65536 \<le> c" by linarith
  then show ?thesis
  proof cases
    case a
    then show ?thesis by (simp add: enc_cp_def)
  next
    case b
    define q where "q = c div 64"
    have "2 \<le> q" "q \<le> 31" "q * 64 + c mod 64 = c" using b by (auto simp: q_def)
    moreover have "enc_cp c = [192 + q, 128 + c mod 64]" using b by (simp add: enc_cp_def q_def)
    ultimately show ?thesis by simp
  next
    case c
    have h: "c div 4096 \<le> 15" using c by auto
    have lo: "c div 4096 = 0 \<Longrightarrow> 32 \<le> c div 64 mod 64"
      using c split64(2) [of c] mod_less_divisor [of 64 c] by linarith
    have hi: "c div 4096 = 13 \<Longrightarrow> c div 64 mod 64 \<le> 31"
      using s c split64(2) [of c] mod_less_divisor [of 64 c]
        mod_less_divisor [of 64 "c div 64"] unfolding scalar_def by linarith
    show ?thesis using c h lo hi split64(2) [of c] by (auto simp: enc_cp_def)
  next
    case d
    have h: "1114112 > c" using s d by (auto simp: scalar_def)
    then have q: "c div 262144 \<le> 4" by auto
    have lo: "c div 262144 = 0 \<Longrightarrow> 16 \<le> c div 4096 mod 64"
      using d split64(3) [of c] mod_less_divisor [of 64 c] mod_less_divisor [of 64 "c div 64"]
      by linarith
    have hi: "c div 262144 = 4 \<Longrightarrow> c div 4096 mod 64 \<le> 15"
      using h split64(3) [of c] by linarith
    show ?thesis using d q lo hi split64(3) [of c] by (auto simp: enc_cp_def)
  qed
qed

lemma dec_all_enc: "list_all scalar s \<Longrightarrow> dec_all (concat (map enc_cp s)) = Some s"
  by (induction s) (simp_all add: dec_all_step [OF dec_enc_cp])

lemma unat_of_nat_byte: "n < 256 \<Longrightarrow> unat (of_nat n :: byte) = n"
  by (simp add: unat_of_nat)

lemma map_unat_of_nat: "\<forall>n \<in> set ns. n < 256 \<Longrightarrow> map unat (map of_nat ns :: bytes) = ns"
  by (induction ns) (simp_all add: unat_of_nat_byte)

lemma enc_all_bytes: "list_all scalar s \<Longrightarrow> \<forall>b \<in> set (concat (map enc_cp s)). b < 256"
  using enc_cp_bytes by (induction s) auto

text \<open>Decoding an encoded text gives the text back.\<close>

lemma utf8_roundtrip: "utf8_encode s = Some b \<Longrightarrow> utf8_decode b = Some s"
  unfolding utf8_encode_def utf8_decode_def
  using map_unat_of_nat [OF enc_all_bytes, of s] dec_all_enc [of s] by (auto split: if_splits)

text \<open>ASCII text, which is all that \<open>json.dumps\<close> produces, is one byte per character.\<close>

definition ascii :: "pystr \<Rightarrow> bool" where
  "ascii s \<longleftrightarrow> (\<forall>c \<in> set s. c < 128)"

definition ascii_bytes :: "pystr \<Rightarrow> bytes" where
  "ascii_bytes s = map of_nat s"

lemma utf8_encode_ascii: "ascii s \<Longrightarrow> utf8_encode s = Some (ascii_bytes s)"
proof -
  assume "ascii s"
  then have "list_all scalar s" "concat (map enc_cp s) = s"
    by (induction s) (auto simp: ascii_def scalar_def enc_cp_def)
  then show ?thesis by (simp add: utf8_encode_def ascii_bytes_def)
qed

lemma utf8_decode_ascii: "ascii s \<Longrightarrow> utf8_decode (ascii_bytes s) = Some s"
  using utf8_encode_ascii utf8_roundtrip by blast

lemma length_ascii_bytes [simp]: "length (ascii_bytes s) = length s"
  by (simp add: ascii_bytes_def)

section \<open>Undecodable bytes kept as surrogates\<close>

text \<open>
  \<open>errors="surrogateescape"\<close>: a byte that does not start a well-formed sequence is decoded to the
  surrogate \<open>56320 + b\<close> (\<open>U+DC80\<close> to \<open>U+DCFF\<close>), and encoded back to the byte.
\<close>

function dec_escape :: "nat list \<Rightarrow> nat list" where
  "dec_escape [] = []"
| "dec_escape (b # s) = (case dec_cp (b # s) of
     Some (c, r) \<Rightarrow> c # dec_escape r
   | None \<Rightarrow> (56320 + b) # dec_escape s)"
  by pat_completeness auto
termination
proof (relation "measure length")
  fix b s x c r
  assume "dec_cp (b # s) = Some x" "(c, r) = x"
  then show "(r, b # s) \<in> measure length" using dec_cp_shorter [of "b # s" c r] by simp
qed auto

declare dec_escape.simps(2) [simp del]

definition decode_surrogateescape :: "bytes \<Rightarrow> pystr" where
  "decode_surrogateescape b = dec_escape (map unat b)"

definition enc_escape_cp :: "nat \<Rightarrow> nat list" where
  "enc_escape_cp c = (if 56448 \<le> c \<and> c \<le> 56575 then [c - 56320] else enc_cp c)"

definition encode_surrogateescape :: "pystr \<Rightarrow> bytes" where
  "encode_surrogateescape s = map of_nat (concat (map enc_escape_cp s))"

lemma base64:
  fixes x y z w :: nat
  assumes "y < 64" "z < 64" "w < 64"
  shows "(x * 64 + y) div 64 = x" "(x * 64 + y) mod 64 = y"
    "(x * 4096 + y * 64 + z) div 4096 = x" "(x * 4096 + y * 64 + z) div 64 mod 64 = y"
    "(x * 4096 + y * 64 + z) mod 64 = z"
    "(x * 262144 + y * 4096 + z * 64 + w) div 262144 = x"
    "(x * 262144 + y * 4096 + z * 64 + w) div 4096 mod 64 = y"
    "(x * 262144 + y * 4096 + z * 64 + w) div 64 mod 64 = z"
    "(x * 262144 + y * 4096 + z * 64 + w) mod 64 = w"
proof -
  have 1: "(u * 64 + v) div 64 = u" "(u * 64 + v) mod 64 = v" if "v < 64" for u v :: nat
    using that by simp_all
  show "(x * 64 + y) div 64 = x" "(x * 64 + y) mod 64 = y" using 1 assms by simp_all
  have 2: "p * 4096 + q * 64 + r = (p * 64 + q) * 64 + r" for p q r :: nat by simp
  show "(x * 4096 + y * 64 + z) div 64 mod 64 = y" "(x * 4096 + y * 64 + z) mod 64 = z"
    by (simp_all only: 2 1 [OF assms(1)] 1 [OF assms(2)])
  have "(x * 4096 + y * 64 + z) div 64 div 64 = x" by (simp only: 2 1 [OF assms(1)] 1 [OF assms(2)])
  then show "(x * 4096 + y * 64 + z) div 4096 = x" by (simp add: div_mult2_eq [symmetric])
  have 3: "x * 262144 + y * 4096 + z * 64 + w = ((x * 64 + y) * 64 + z) * 64 + w" by simp
  show "(x * 262144 + y * 4096 + z * 64 + w) div 64 mod 64 = z"
    "(x * 262144 + y * 4096 + z * 64 + w) mod 64 = w"
    by (simp_all only: 3 1 [OF assms(1)] 1 [OF assms(2)] 1 [OF assms(3)])
  have "(x * 262144 + y * 4096 + z * 64 + w) div 64 div 64 mod 64 = y"
    "(x * 262144 + y * 4096 + z * 64 + w) div 64 div 64 div 64 = x"
    by (simp_all only: 3 1 [OF assms(1)] 1 [OF assms(2)] 1 [OF assms(3)])
  then show "(x * 262144 + y * 4096 + z * 64 + w) div 4096 mod 64 = y"
    "(x * 262144 + y * 4096 + z * 64 + w) div 262144 = x"
    by (simp_all add: div_mult2_eq [symmetric])
qed

lemma contE:
  assumes "cont b"
  obtains y where "b = 128 + y" "y < 64"
  using assms that [of "b - 128"] by (auto simp: cont_def)

lemma dec_cp_inverse:
  assumes "dec_cp s = Some (c, r)"
  shows "scalar c \<and> s = enc_cp c @ r"
proof (cases s)
  case Nil
  with assms show ?thesis by simp
next
  case (Cons a t)
  consider (1) "a < 128" | (2) "194 \<le> a" "a \<le> 223" | (3) "224 \<le> a" "a \<le> 239"
    | (4) "240 \<le> a" "a \<le> 244" | (5) "128 \<le> a" "a < 194" | (6) "244 < a" by linarith
  then show ?thesis
  proof cases
    case 1
    with assms Cons show ?thesis by (auto simp: scalar_def enc_cp_def)
  next
    case 2
    define x where "x = a - 192"
    have x: "a = 192 + x" "2 \<le> x" "x \<le> 31" using 2 by (auto simp: x_def)
    obtain b where t: "t = b # r" "cont b" "c = x * 64 + (b - 128)"
      using assms Cons 2 by (auto simp: x_def split: list.splits if_splits)
    obtain y where y: "b = 128 + y" "y < 64" using t(2) by (rule contE)
    have c: "c = x * 64 + y" "128 \<le> c" "c < 2048" using t(3) x y by auto
    then show ?thesis using x y t(1) Cons base64(1,2) [OF y(2), of 0 0 x] by (simp add: enc_cp_def scalar_def)
  next
    case 3
    define x where "x = a - 224"
    have x: "a = 224 + x" "x \<le> 15" using 3 by (auto simp: x_def)
    obtain b d where t: "t = b # d # r" "cont b" "cont d" "c = x * 4096 + (b - 128) * 64 + (d - 128)"
      "a = 224 \<longrightarrow> 160 \<le> b" "a = 237 \<longrightarrow> b \<le> 159"
      using assms Cons 3 by (auto simp: x_def split: list.splits if_splits)
    obtain y where y: "b = 128 + y" "y < 64" using t(2) by (rule contE)
    obtain z where z: "d = 128 + z" "z < 64" using t(3) by (rule contE)
    have c: "c = x * 4096 + y * 64 + z" using t(4) y z by simp
    have "2048 \<le> c" "c < 65536" using c x y z t(5) by auto
    moreover have "scalar c"
    proof (cases "x = 13")
      case True
      then have "y \<le> 31" using t(6) x y by auto
      then show ?thesis using True c z by (simp add: scalar_def)
    next
      case False
      then have "x \<le> 12 \<or> 14 \<le> x" by auto
      then show ?thesis using c x y z by (auto simp: scalar_def)
    qed
    ultimately show ?thesis
      using x y z t(1) Cons base64(3,4,5) [OF y(2) z(2), of 0 x] by (simp add: enc_cp_def c)
  next
    case 4
    define x where "x = a - 240"
    have x: "a = 240 + x" "x \<le> 4" using 4 by (auto simp: x_def)
    obtain b d e where t: "t = b # d # e # r" "cont b" "cont d" "cont e"
      "c = x * 262144 + (b - 128) * 4096 + (d - 128) * 64 + (e - 128)"
      "a = 240 \<longrightarrow> 144 \<le> b" "a = 244 \<longrightarrow> b \<le> 143"
      using assms Cons 4 by (auto simp: x_def split: list.splits if_splits)
    obtain y where y: "b = 128 + y" "y < 64" using t(2) by (rule contE)
    obtain z where z: "d = 128 + z" "z < 64" using t(3) by (rule contE)
    obtain w where w: "e = 128 + w" "w < 64" using t(4) by (rule contE)
    have c: "c = x * 262144 + y * 4096 + z * 64 + w" using t(5) y z w by simp
    have "65536 \<le> c" using c x y z w t(6) by auto
    moreover have "c < 1114112"
    proof (cases "x = 4")
      case True
      then have "y \<le> 15" using t(7) x y by auto
      then show ?thesis using True c z w by simp
    next
      case False
      then show ?thesis using c x y z w by auto
    qed
    ultimately show ?thesis
      using x y z w t(1) Cons base64(6-9) [OF y(2) z(2) w(2), of x] by (simp add: enc_cp_def scalar_def c)
  qed (use assms Cons in auto)
qed

lemma dec_cp_ascii_start: "dec_cp (b # s) = None \<Longrightarrow> 128 \<le> b"
  by (auto split: if_splits)

lemma escape_roundtrip: "\<forall>b \<in> set s. b < 256 \<Longrightarrow> concat (map enc_escape_cp (dec_escape s)) = s"
proof (induction s rule: dec_escape.induct)
  case (2 b s)
  show ?case
  proof (cases "dec_cp (b # s)")
    case None
    have "128 \<le> b" "b < 256" using dec_cp_ascii_start [OF None] 2(3) by simp_all
    moreover have "concat (map enc_escape_cp (dec_escape s)) = s" using 2(1) [OF None] 2(3) by simp
    moreover have "enc_escape_cp (56320 + b) = [b]"
      using calculation(1,2) by (simp add: enc_escape_cp_def)
    ultimately show ?thesis unfolding dec_escape.simps None by simp
  next
    case (Some p)
    obtain c r where p: "p = (c, r)" by fastforce
    have i: "scalar c" "b # s = enc_cp c @ r" using dec_cp_inverse [OF Some [unfolded p]] by simp_all
    have "\<not> (56448 \<le> c \<and> c \<le> 56575)" using i(1) by (auto simp: scalar_def)
    moreover have "\<forall>b \<in> set r. b < 256" using 2(3) i(2) by (metis Un_iff set_append)
    then have "concat (map enc_escape_cp (dec_escape r)) = r"
      using 2(2) [OF Some p [symmetric]] by (simp add: p)
    moreover have "dec_escape (b # s) = c # dec_escape r"
      by (simp add: dec_escape.simps(2) Some p del: dec_cp.simps)
    moreover have "enc_escape_cp c = enc_cp c" using calculation(1) by (auto simp: enc_escape_cp_def)
    ultimately show ?thesis using i(2) by simp
  qed
qed simp

text \<open>Any bytes survive being decoded to text and encoded again.\<close>

lemma surrogateescape_roundtrip: "encode_surrogateescape (decode_surrogateescape b) = b"
proof -
  have "concat (map enc_escape_cp (dec_escape (map unat b))) = map unat b"
    using unsigned_less [where 'b = 8] by (intro escape_roundtrip) auto
  moreover have "map of_nat (map unat b) = b" by (induction b) simp_all
  ultimately show ?thesis by (simp only: encode_surrogateescape_def decode_surrogateescape_def)
qed

lemma dec_escape_cps:
  "\<forall>b \<in> set s. b < 256 \<Longrightarrow> c \<in> set (dec_escape s) \<Longrightarrow> scalar c \<or> (56448 \<le> c \<and> c \<le> 56575)"
proof (induction s rule: dec_escape.induct)
  case (2 b s)
  show ?case
  proof (cases "dec_cp (b # s)")
    case None
    have b: "128 \<le> b" "b < 256" using dec_cp_ascii_start [OF None] 2(3) by simp_all
    have "c = 56320 + b \<or> c \<in> set (dec_escape s)" using 2(4) unfolding dec_escape.simps None by simp
    with b 2(1) [OF None] 2(3) show ?thesis by auto
  next
    case (Some p)
    obtain d r where p: "p = (d, r)" by fastforce
    have i: "scalar d" "b # s = enc_cp d @ r" using dec_cp_inverse [OF Some [unfolded p]] by simp_all
    have "\<forall>b \<in> set r. b < 256" using 2(3) i(2) by (metis Un_iff set_append)
    then have "c \<in> set (dec_escape r) \<Longrightarrow> scalar c \<or> (56448 \<le> c \<and> c \<le> 56575)"
      using 2(2) [OF Some p [symmetric]] by (simp add: p)
    moreover have "c = d \<or> c \<in> set (dec_escape r)"
      using 2(4) unfolding dec_escape.simps Some p by simp
    ultimately show ?thesis using i(1) by auto
  qed
qed simp

end
