(* ===== verification/Sha256.thy ===== *)
theory Sha256
  imports Prelude
begin

text \<open>
  \<open>hashlib.sha256(data).hexdigest()\<close> of the standard library, on 32-bit words as FIPS 180-4
  defines it.  The program stores and compares only these digests.
\<close>

unbundle bit_operations_syntax

type_synonym w32 = "32 word"

text \<open>
  The constants are the first 32 bits of the fractional parts of the cube roots of the first
  sixty-four primes and of the square roots of the first eight.  \<open>root_bits k n i r\<close> adds to \<open>r\<close> the
  largest multiple below \<open>2 ^ i\<close> whose \<open>k\<close>-th power stays within \<open>n\<close>.
\<close>

fun root_bits :: "nat \<Rightarrow> nat \<Rightarrow> nat \<Rightarrow> nat \<Rightarrow> nat" where
  "root_bits k n 0 r = r"
| "root_bits k n (Suc i) r = root_bits k n i (if (r + 2 ^ i) ^ k \<le> n then r + 2 ^ i else r)"

definition small_primes :: "nat list" where
  "small_primes = filter (\<lambda>n. \<forall>d \<in> set [2 ..< n]. n mod d \<noteq> 0) [2 ..< 312]"

definition sha_k :: "w32 list" where
  "sha_k = map (\<lambda>p. of_nat (root_bits 3 (p * 2 ^ 96) 37 0)) small_primes"

definition sha_init :: "w32 list" where
  "sha_init = map (\<lambda>p. of_nat (root_bits 2 (p * 2 ^ 64) 37 0)) [2, 3, 5, 7, 11, 13, 17, 19]"

definition shr :: "nat \<Rightarrow> w32 \<Rightarrow> w32" where
  "shr n x = drop_bit n x"

definition rotr :: "nat \<Rightarrow> w32 \<Rightarrow> w32" where
  "rotr n x = (drop_bit n x) OR (push_bit (32 - n) x)"

definition big_endian :: "nat \<Rightarrow> nat \<Rightarrow> bytes" where
  "big_endian k n = map (\<lambda>i. of_nat (n div 256 ^ (k - 1 - i) mod 256)) [0 ..< k]"

definition sha_pad :: "bytes \<Rightarrow> bytes" where
  "sha_pad m = m @ [128] @ replicate ((119 - length m mod 64) mod 64) 0 @ big_endian 8 (8 * length m)"

fun words_of :: "bytes \<Rightarrow> w32 list" where
  "words_of (a # b # c # d # r) =
     (of_nat (((unat a * 256 + unat b) * 256 + unat c) * 256 + unat d)) # words_of r"
| "words_of _ = []"

text \<open>The message schedule, newest word first.\<close>

definition next_word :: "w32 list \<Rightarrow> w32" where
  "next_word ws =
     (let a = ws ! 1; b = ws ! 14
      in (rotr 17 a XOR rotr 19 a XOR shr 10 a) + ws ! 6
         + (rotr 7 b XOR rotr 18 b XOR shr 3 b) + ws ! 15)"

fun extend_words :: "nat \<Rightarrow> w32 list \<Rightarrow> w32 list" where
  "extend_words 0 ws = ws"
| "extend_words (Suc n) ws = extend_words n (next_word ws # ws)"

fun sha_round :: "w32 list \<Rightarrow> w32 \<times> w32 \<Rightarrow> w32 list" where
  "sha_round [a, b, c, d, e, f, g, h] (k, w) =
     (let t1 = h + (rotr 6 e XOR rotr 11 e XOR rotr 25 e) + ((e AND f) XOR ((NOT e) AND g)) + k + w;
          t2 = (rotr 2 a XOR rotr 13 a XOR rotr 22 a) + ((a AND b) XOR (a AND c) XOR (b AND c))
      in [t1 + t2, a, b, c, d + t1, e, f, g])"
| "sha_round s _ = s"

definition sha_block :: "w32 list \<Rightarrow> w32 list \<Rightarrow> w32 list" where
  "sha_block hs ws =
     map2 (+) hs (foldl sha_round hs (zip sha_k (rev (extend_words 48 (rev ws)))))"

function sha_blocks :: "w32 list \<Rightarrow> w32 list \<Rightarrow> w32 list" where
  "sha_blocks hs ws = (if ws = [] then hs else sha_blocks (sha_block hs (take 16 ws)) (drop 16 ws))"
  by pat_completeness auto
termination by (relation "measure (\<lambda>(hs, ws). length ws)") auto

declare sha_blocks.simps [simp del]

definition hex_char :: "nat \<Rightarrow> nat" where
  "hex_char n = (if n < 10 then 48 + n else 87 + n)"

definition hex_word :: "w32 \<Rightarrow> pystr" where
  "hex_word w = map (\<lambda>i. hex_char (unat w div 16 ^ (7 - i) mod 16)) [0 ..< 8]"

definition sha256_hexdigest :: "bytes \<Rightarrow> pystr" where
  "sha256_hexdigest m = concat (map hex_word (sha_blocks sha_init (words_of (sha_pad m))))"

section \<open>The digest is sixty-four hexadecimal digits\<close>

lemma length_sha_round: "length s = 8 \<Longrightarrow> length (sha_round s kw) = 8"
  by (cases "(s, kw)" rule: sha_round.cases) (auto simp: Let_def)

lemma length_sha_rounds: "length s = 8 \<Longrightarrow> length (foldl sha_round s kws) = 8"
  by (induction kws arbitrary: s) (auto simp: length_sha_round)

lemma length_sha_blocks: "length hs = 8 \<Longrightarrow> length (sha_blocks hs ws) = 8"
proof (induction hs ws rule: sha_blocks.induct)
  case (1 hs ws)
  then have "length (sha_block hs (take 16 ws)) = 8"
    by (simp add: sha_block_def length_sha_rounds)
  with 1 show ?case by (subst sha_blocks.simps) simp
qed

lemma length_hex_words: "length (concat (map hex_word ws)) = 8 * length ws"
  by (induction ws) (auto simp: hex_word_def)

lemma length_sha256_hexdigest [simp]: "length (sha256_hexdigest m) = 64"
proof -
  have "length (sha_blocks sha_init (words_of (sha_pad m))) = 8"
    by (rule length_sha_blocks) (simp add: sha_init_def)
  then show ?thesis by (simp add: sha256_hexdigest_def length_hex_words)
qed

lemma hex_char_range: "48 \<le> hex_char (n mod 16) \<and> hex_char (n mod 16) \<le> 102"
  using mod_less_divisor [of 16 n] unfolding hex_char_def by auto

lemma sha256_hexdigest_ascii: "c \<in> set (sha256_hexdigest m) \<Longrightarrow> 48 \<le> c \<and> c \<le> 102"
  using hex_char_range by (auto simp: sha256_hexdigest_def hex_word_def simp del: upt_Suc)

end
