(* ===== verification/Crypto.thy ===== *)
theory Crypto
  imports Identifiers Utf8 Sha256
begin

text \<open>
  \<open>vibeconnect_common/crypto.py\<close>: generated secrets, the two certificate issuers and the
  redaction of secret metadata.  Random values (serial numbers, keys) are arguments; what the
  X.509 and OpenSSH libraries sign is the record of the fields the code hands to them.
\<close>

definition GENERATED_SECRET_MIN_CHARS :: nat where
  "GENERATED_SECRET_MIN_CHARS = 43"

definition AGENT_CERT_DEFAULT_LIFETIME_DAYS :: int where
  "AGENT_CERT_DEFAULT_LIFETIME_DAYS = 90"

definition USER_CERT_DEFAULT_TTL_HOURS :: int where
  "USER_CERT_DEFAULT_TTL_HOURS = 4"

definition USER_CERT_SOURCE_ADDRESS :: pystr where
  "USER_CERT_SOURCE_ADDRESS = str ''127.0.0.0/8''"

definition SECRET_REDACTION :: pystr where
  "SECRET_REDACTION = str ''[REDACTED]''"

definition SECRET_KEY_FRAGMENTS :: "pystr list" where
  "SECRET_KEY_FRAGMENTS = map str
     [''token'', ''secret'', ''password'', ''private_key'', ''bearer'', ''authorization'',
      ''replay_payload'', ''provider_response'', ''dsn'']"

section \<open>Secrets\<close>

datatype secret = Secret (reveal: pystr)

text \<open>\<open>SecretValue(value)\<close> with its \<open>__post_init__\<close>.\<close>

definition SecretValue :: "pystr \<Rightarrow> secret result" where
  "SecretValue v =
     (if length v < GENERATED_SECRET_MIN_CHARS
      then Inl (SecretError ''secret value must be generated with at least 256 bits'')
      else Inr (Secret v))"

definition secret_repr :: "secret \<Rightarrow> pystr" where
  "secret_repr s = SECRET_REDACTION"

lemma SecretValue_Inr [exc_elims]:
  "SecretValue v = Inr s \<longleftrightarrow> s = Secret v \<and> 43 \<le> length v"
  by (auto simp: SecretValue_def GENERATED_SECRET_MIN_CHARS_def)

definition sha256_hex :: "secret \<Rightarrow> pystr result" where
  "sha256_hex s = (case utf8_encode (reveal s) of
     None \<Rightarrow> Inl (ValueError ''surrogates not allowed'')
   | Some b \<Rightarrow> Inr (sha256_hexdigest b))"

text \<open>\<open>hmac.compare_digest\<close> refuses strings that are not ASCII.\<close>

definition constant_time_equal :: "pystr \<Rightarrow> pystr \<Rightarrow> bool result" where
  "constant_time_equal left right =
     (if ascii left \<and> ascii right then Inr (left = right)
      else Inl (TypeError ''comparing strings with non-ASCII characters is not supported''))"

definition verify_secret_hash :: "secret \<Rightarrow> pystr \<Rightarrow> bool result" where
  "verify_secret_hash s expected_hash =
     rbind (sha256_hex s) (\<lambda>h. constant_time_equal h expected_hash)"

lemma sha256_hexdigest_is_ascii: "ascii (sha256_hexdigest b)"
proof -
  have "c < 128" if "c \<in> set (sha256_hexdigest b)" for c
    using sha256_hexdigest_ascii [OF that] by simp
  then show ?thesis by (simp add: ascii_def)
qed

lemma sha256_hex_ascii: "sha256_hex s = Inr h \<Longrightarrow> ascii h \<and> length h = 64"
  by (auto simp: sha256_hex_def sha256_hexdigest_is_ascii split: option.splits)

lemma verify_secret_hash_True [exc_elims]:
  "verify_secret_hash s h = Inr True \<longleftrightarrow> sha256_hex s = Inr h"
  using sha256_hex_ascii [of s]
  by (cases "sha256_hex s") (auto simp: verify_secret_hash_def constant_time_equal_def)

section \<open>Certificates\<close>

text \<open>
  What \<open>x509.CertificateBuilder\<close> signs: the subject common name, the issuer name, the public
  key, the serial number, the validity and the two extensions.
\<close>

record x509_cert =
  x_common_name :: pystr
  x_issuer :: pystr
  x_public_key :: bytes
  x_serial :: nat
  x_not_before :: datetime
  x_not_after :: datetime
  x_san_uri :: pystr
  x_client_auth :: bool

record IssuedAgentCertificate =
  iac_certificate :: x509_cert
  iac_serial :: pystr
  iac_expires_at :: datetime

fun hex_of :: "nat \<Rightarrow> pystr" where
  "hex_of n = (if n < 16 then [hex_char n] else hex_of (n div 16) @ [hex_char (n mod 16)])"

declare hex_of.simps [simp del]

definition days :: "int \<Rightarrow> int" where
  "days n = seconds (86400 * n)"

definition hours :: "int \<Rightarrow> int" where
  "hours n = seconds (3600 * n)"

definition plus_delta :: "datetime \<Rightarrow> int \<Rightarrow> datetime" where
  "plus_delta t d = t\<lparr>wall := wall t + d\<rparr>"

lemma instant_plus [simp]: "instant (plus_delta t d) = instant t + d"
  by (simp add: instant_def plus_delta_def)

text \<open>
  \<open>issuer\<close> is the subject of the CA certificate, \<open>agent_id\<close> the text of the UUID, \<open>serial\<close> the
  value \<open>random_serial_number\<close> returned and \<open>now\<close> the clock or the caller's time.
\<close>

definition issue_agent_client_certificate ::
  "pystr \<Rightarrow> bytes \<Rightarrow> pystr \<Rightarrow> pystr \<Rightarrow> nat \<Rightarrow> datetime \<Rightarrow> int \<Rightarrow> IssuedAgentCertificate result" where
  "issue_agent_client_certificate issuer agent_public_key node_name agent_id serial now lifetime_days =
     (if lifetime_days \<le> 0 then Inl (ValueError ''agent certificate lifetime must be positive'')
      else rbind (validate_node_name node_name) (\<lambda>safe_node_name.
        let actual_now = as_utc now; expires_at = plus_delta actual_now (days lifetime_days)
        in Inr \<lparr>iac_certificate =
                  \<lparr>x_common_name = safe_node_name, x_issuer = issuer,
                   x_public_key = agent_public_key, x_serial = serial,
                   x_not_before = actual_now, x_not_after = expires_at,
                   x_san_uri = str ''urn:vibeconnect:agent:'' @ agent_id, x_client_auth = True\<rparr>,
                iac_serial = hex_of serial, iac_expires_at = expires_at\<rparr>))"

text \<open>What \<open>generate_user_certificate\<close> signs.\<close>

record ssh_user_cert =
  s_public_key :: bytes
  s_key_id :: pystr
  s_serial :: int
  s_principals :: "pystr list"
  s_valid_after :: datetime
  s_valid_before :: datetime
  s_source_address :: "pystr list"
  s_permit_x11_forwarding :: bool
  s_permit_agent_forwarding :: bool
  s_permit_port_forwarding :: bool
  s_permit_pty :: bool
  s_permit_user_rc :: bool

record IssuedUserCertificate =
  iuc_private_key :: bytes
  iuc_certificate :: ssh_user_cert
  iuc_serial :: int
  iuc_username :: pystr
  iuc_valid_after :: datetime
  iuc_valid_before :: datetime

text \<open>\<open>session_key\<close> is the fresh key pair: its private part and its public part.\<close>

definition issue_user_ssh_certificate ::
  "bytes \<times> bytes \<Rightarrow> pystr \<Rightarrow> pystr \<Rightarrow> int \<Rightarrow> datetime \<Rightarrow> int \<Rightarrow> IssuedUserCertificate result" where
  "issue_user_ssh_certificate session_key username session_id serial now ttl_hours =
     (if \<not> (1 \<le> ttl_hours \<and> ttl_hours \<le> 12)
      then Inl (ValueError ''user certificate TTL must be between 1 and 12 hours'')
      else if serial < 1 then Inl (ValueError ''user certificate serial must be positive'')
      else rbind (validate_username_principal username) (\<lambda>safe_username.
        let actual_now = as_utc now; valid_before = plus_delta actual_now (hours ttl_hours)
        in Inr \<lparr>iuc_private_key = fst session_key,
                iuc_certificate =
                  \<lparr>s_public_key = snd session_key, s_key_id = session_id, s_serial = serial,
                   s_principals = [safe_username], s_valid_after = actual_now,
                   s_valid_before = valid_before,
                   s_source_address = [USER_CERT_SOURCE_ADDRESS],
                   s_permit_x11_forwarding = False, s_permit_agent_forwarding = False,
                   s_permit_port_forwarding = False, s_permit_pty = True,
                   s_permit_user_rc = False\<rparr>,
                iuc_serial = serial, iuc_username = safe_username,
                iuc_valid_after = actual_now, iuc_valid_before = valid_before\<rparr>))"

section \<open>Redaction\<close>

text \<open>
  JSON-like metadata as Python holds it.  \<open>PFloat\<close> keeps the decimal spelling; \<open>PList\<close> and
  \<open>PTuple\<close> are the \<open>Sequence\<close>s that are neither text nor bytes; \<open>POther\<close> is any other object
  (\<open>json.dumps\<close> refuses it).  A dict has string keys, as every caller in the program builds it.
\<close>

datatype pyval =
    PNone | PBool bool | PInt int | PFloat pystr | PStr pystr | PBytes bytes
  | PSecret secret | PList "pyval list" | PTuple "pyval list" | PDict "(pystr \<times> pyval) list"
  | POther pystr

text \<open>
  \<open>str.lower\<close> as far as a search for ASCII text can see it: of the code points beyond ASCII only
  the Kelvin sign and the dotted capital I have a lower case form with an ASCII letter.
\<close>

definition lower_cp :: "nat \<Rightarrow> pystr" where
  "lower_cp c =
     (if 65 \<le> c \<and> c \<le> 90 then [c + 32]
      else if c = 8490 then [107] else if c = 304 then [105, 775] else [c])"

definition lower :: "pystr \<Rightarrow> pystr" where
  "lower s = concat (map lower_cp s)"

definition underscore :: nat where
  "underscore = 95"

definition is_secret_key :: "pystr \<Rightarrow> bool" where
  "is_secret_key key =
     (let normalized = map (\<lambda>c. if c = 45 then underscore else c) (lower key);
          compact = filter (\<lambda>c. c \<noteq> underscore) normalized
      in \<exists>fragment \<in> set SECRET_KEY_FRAGMENTS.
           substring fragment normalized \<or>
           substring (filter (\<lambda>c. c \<noteq> underscore) fragment) compact)"

fun scrub_secret_metadata :: "pyval \<Rightarrow> pyval" where
  "scrub_secret_metadata (PDict kvs) =
     PDict (map (\<lambda>(key, item). (key,
       if is_secret_key key then PStr SECRET_REDACTION else scrub_secret_metadata item)) kvs)"
| "scrub_secret_metadata (PList xs) = PList (map scrub_secret_metadata xs)"
| "scrub_secret_metadata (PTuple xs) = PList (map scrub_secret_metadata xs)"
| "scrub_secret_metadata (PSecret s) = PStr SECRET_REDACTION"
| "scrub_secret_metadata v = v"

text \<open>
  The promise of the redaction: no \<open>SecretValue\<close> anywhere, and under a secret-looking key
  nothing but the redaction mark.
\<close>

fun secret_free :: "pyval \<Rightarrow> bool" where
  "secret_free (PSecret s) = False"
| "secret_free (PList xs) = (\<forall>x \<in> set xs. secret_free x)"
| "secret_free (PTuple xs) = (\<forall>x \<in> set xs. secret_free x)"
| "secret_free (PDict kvs) =
     (\<forall>kv \<in> set kvs. secret_free (snd kv) \<and>
        (is_secret_key (fst kv) \<longrightarrow> snd kv = PStr SECRET_REDACTION))"
| "secret_free v = True"

lemma scrub_secret_free: "secret_free (scrub_secret_metadata v)"
  by (induction v rule: scrub_secret_metadata.induct) auto

lemma scrub_dict:
  "scrub_secret_metadata (PDict kvs) =
     PDict (map (\<lambda>kv. (fst kv, if is_secret_key (fst kv) then PStr SECRET_REDACTION
                               else scrub_secret_metadata (snd kv))) kvs)"
  by (simp add: case_prod_beta)

lemma scrub_fixed: "secret_free v \<Longrightarrow> scrub_secret_metadata (scrub_secret_metadata v) = scrub_secret_metadata v"
  by (induction v rule: scrub_secret_metadata.induct) (auto simp: case_prod_beta)

lemma scrub_idem: "scrub_secret_metadata (scrub_secret_metadata v) = scrub_secret_metadata v"
  by (induction v rule: scrub_secret_metadata.induct) (auto simp: case_prod_beta)

section \<open>Validity windows\<close>

lemma issue_agent_window:
  "issue_agent_client_certificate issuer pk n aid sn now d = Inr c \<Longrightarrow>
     0 < d \<and> py_fullmatch NODE_NAME_PATTERN n \<and> x_common_name (iac_certificate c) = n \<and>
     x_san_uri (iac_certificate c) = str ''urn:vibeconnect:agent:'' @ aid \<and>
     x_client_auth (iac_certificate c) \<and>
     instant (x_not_before (iac_certificate c)) = instant now \<and>
     instant (iac_expires_at c) = instant now + days d \<and>
     x_not_after (iac_certificate c) = iac_expires_at c"
  by (auto simp: issue_agent_client_certificate_def Let_def exc_elims as_utc_eq utc_def instant_def
        plus_delta_def split: if_splits)

lemma issue_user_window:
  "issue_user_ssh_certificate k u sid sn now h = Inr c \<Longrightarrow>
     1 \<le> sn \<and> 1 \<le> h \<and> h \<le> 12 \<and> validate_username_principal u = Inr u \<and>
     s_principals (iuc_certificate c) = [u] \<and> s_key_id (iuc_certificate c) = sid \<and>
     s_serial (iuc_certificate c) = sn \<and> iuc_username c = u \<and>
     instant (s_valid_after (iuc_certificate c)) = instant now \<and>
     instant (s_valid_before (iuc_certificate c)) = instant now + hours h \<and>
     s_source_address (iuc_certificate c) = [USER_CERT_SOURCE_ADDRESS] \<and>
     s_permit_pty (iuc_certificate c) \<and>
     \<not> s_permit_agent_forwarding (iuc_certificate c) \<and>
     \<not> s_permit_port_forwarding (iuc_certificate c) \<and>
     \<not> s_permit_x11_forwarding (iuc_certificate c) \<and> \<not> s_permit_user_rc (iuc_certificate c)"
  by (auto simp: issue_user_ssh_certificate_def Let_def exc_elims as_utc_eq utc_def instant_def
        plus_delta_def split: if_splits)

end
