(* ===== verification/Models.thy ===== *)
theory Models
  imports Prelude
begin

text \<open>
  \<open>vibeconnect_common/models.py\<close>: the string enumerations with their values and the typed
  records.  \<open>Enum(value)\<close> is the function \<open>..._of_value\<close>, which is \<open>None\<close> where Python raises
  \<open>ValueError\<close>.  Paths are strings.
\<close>

datatype SessionStatus = OPEN | CLOSED | FAILED | TERMINATED

fun SessionStatus_value :: "SessionStatus \<Rightarrow> pystr" where
  "SessionStatus_value OPEN = str ''open''"
| "SessionStatus_value CLOSED = str ''closed''"
| "SessionStatus_value FAILED = str ''failed''"
| "SessionStatus_value TERMINATED = str ''terminated''"

datatype AuditEventType =
    ENROLLMENT_TOKEN_CREATED | ENROLLMENT_TOKEN_EXPIRED | ENROLLMENT_SUCCEEDED
  | ENROLLMENT_FAILED | AGENT_TUNNEL_CONNECTED | AGENT_TUNNEL_REJECTED
  | AGENT_TUNNEL_DISCONNECTED | AGENT_REVOKED | TUNNEL_SECRET_ROTATED
  | CA_ROTATION_STARTED | CA_ROTATION_COMPLETED | NODE_HOST_KEY_UPDATED
  | USER_LOGIN_SUCCEEDED | USER_LOGIN_FAILED | NODE_AUTHORIZATION_DENIED
  | SESSION_STARTED | SESSION_CLOSED | SESSION_FAILED | REPLAY_WRITE_FAILED | REPLAY_PRUNED

fun AuditEventType_value :: "AuditEventType \<Rightarrow> pystr" where
  "AuditEventType_value ENROLLMENT_TOKEN_CREATED = str ''enrollment_token_created''"
| "AuditEventType_value ENROLLMENT_TOKEN_EXPIRED = str ''enrollment_token_expired''"
| "AuditEventType_value ENROLLMENT_SUCCEEDED = str ''enrollment_succeeded''"
| "AuditEventType_value ENROLLMENT_FAILED = str ''enrollment_failed''"
| "AuditEventType_value AGENT_TUNNEL_CONNECTED = str ''agent_tunnel_connected''"
| "AuditEventType_value AGENT_TUNNEL_REJECTED = str ''agent_tunnel_rejected''"
| "AuditEventType_value AGENT_TUNNEL_DISCONNECTED = str ''agent_tunnel_disconnected''"
| "AuditEventType_value AGENT_REVOKED = str ''agent_revoked''"
| "AuditEventType_value TUNNEL_SECRET_ROTATED = str ''tunnel_secret_rotated''"
| "AuditEventType_value CA_ROTATION_STARTED = str ''ca_rotation_started''"
| "AuditEventType_value CA_ROTATION_COMPLETED = str ''ca_rotation_completed''"
| "AuditEventType_value NODE_HOST_KEY_UPDATED = str ''node_host_key_updated''"
| "AuditEventType_value USER_LOGIN_SUCCEEDED = str ''user_login_succeeded''"
| "AuditEventType_value USER_LOGIN_FAILED = str ''user_login_failed''"
| "AuditEventType_value NODE_AUTHORIZATION_DENIED = str ''node_authorization_denied''"
| "AuditEventType_value SESSION_STARTED = str ''session_started''"
| "AuditEventType_value SESSION_CLOSED = str ''session_closed''"
| "AuditEventType_value SESSION_FAILED = str ''session_failed''"
| "AuditEventType_value REPLAY_WRITE_FAILED = str ''replay_write_failed''"
| "AuditEventType_value REPLAY_PRUNED = str ''replay_pruned''"

datatype TunnelFrameType =
    AUTH | AUTH_OK | HEARTBEAT | OPEN_SESSION | SESSION_DATA | RESIZE_PTY | CLOSE_SESSION
  | RENEW_AGENT_CERT | ROTATE_TUNNEL_SECRET | ERROR

fun TunnelFrameType_value :: "TunnelFrameType \<Rightarrow> pystr" where
  "TunnelFrameType_value AUTH = str ''auth''"
| "TunnelFrameType_value AUTH_OK = str ''auth_ok''"
| "TunnelFrameType_value HEARTBEAT = str ''heartbeat''"
| "TunnelFrameType_value OPEN_SESSION = str ''open_session''"
| "TunnelFrameType_value SESSION_DATA = str ''session_data''"
| "TunnelFrameType_value RESIZE_PTY = str ''resize_pty''"
| "TunnelFrameType_value CLOSE_SESSION = str ''close_session''"
| "TunnelFrameType_value RENEW_AGENT_CERT = str ''renew_agent_cert''"
| "TunnelFrameType_value ROTATE_TUNNEL_SECRET = str ''rotate_tunnel_secret''"
| "TunnelFrameType_value ERROR = str ''error''"

definition all_frame_types :: "TunnelFrameType list" where
  "all_frame_types = [AUTH, AUTH_OK, HEARTBEAT, OPEN_SESSION, SESSION_DATA, RESIZE_PTY,
     CLOSE_SESSION, RENEW_AGENT_CERT, ROTATE_TUNNEL_SECRET, ERROR]"

definition TunnelFrameType_of_value :: "pystr \<Rightarrow> TunnelFrameType option" where
  "TunnelFrameType_of_value v = find (\<lambda>t. TunnelFrameType_value t = v) all_frame_types"

lemma TunnelFrameType_of_value_value [simp]:
  "TunnelFrameType_of_value (TunnelFrameType_value t) = Some t"
  by (cases t) (simp_all add: TunnelFrameType_of_value_def all_frame_types_def)

lemma TunnelFrameType_of_value_Some:
  "TunnelFrameType_of_value v = Some t \<longleftrightarrow> v = TunnelFrameType_value t"
  by (metis (mono_tags, lifting) TunnelFrameType_of_value_def TunnelFrameType_of_value_value
      find_Some_iff)

lemma TunnelFrameType_value_inj: "TunnelFrameType_value t = TunnelFrameType_value u \<longleftrightarrow> t = u"
  by (metis TunnelFrameType_of_value_value option.inject)

record TunnelFrame =
  tf_type :: TunnelFrameType
  tf_request_id :: pystr
  tf_channel_id :: "pystr option"
  tf_payload_length :: int

record FilePublicKeyEntry =
  fpk_username :: pystr
  fpk_public_keys :: "pystr list"

record PublicKeyAuthConfig =
  pk_source :: pystr
  pk_file_path :: "pystr option"
  pk_file_entries :: "FilePublicKeyEntry list"

record LdapConfig =
  ldap_enabled :: bool
  ldap_use_tls :: bool
  ldap_validate_tls :: bool

record AzureAdConfig =
  azure_enabled :: bool
  azure_client_secret_path :: "pystr option"
  azure_use_managed_identity :: bool

record AuthConfig =
  auth_public_keys :: PublicKeyAuthConfig
  auth_ldap :: LdapConfig
  auth_azure_ad :: AzureAdConfig
  auth_keyboard_interactive_verifier :: "pystr option"

record CertConfig =
  cert_agent_ca_key_path :: pystr
  cert_agent_ca_cert_path :: pystr
  cert_user_ca_key_path :: pystr
  cert_user_ca_public_key_path :: pystr
  cert_agent_cert_lifetime_days :: int
  cert_user_cert_ttl_hours :: int

record TunnelConfig =
  tun_max_sessions_per_agent :: int
  tun_heartbeat_seconds :: int
  tun_frame_max_bytes :: int
  tun_tls_ca_bundle :: pystr
  tun_node_ssh_port :: int

record ReplayConfig =
  replay_directory :: pystr
  replay_retention_days :: int
  replay_integrity_key_path :: pystr

record ServerConfig =
  cfg_certs :: CertConfig
  cfg_tunnel :: TunnelConfig
  cfg_auth :: AuthConfig
  cfg_replay :: ReplayConfig
  cfg_metrics_listen :: pystr
  cfg_install_dirs :: "pystr list"
  cfg_secret_paths :: "pystr list"

record AgentConfig =
  acfg_config_path :: pystr
  acfg_identity_path :: pystr
  acfg_enrollment_token :: "pystr option"
  acfg_enrollment_completed :: bool
  acfg_enrollment_tls_ca_bundle :: pystr
  acfg_tunnel_tls_ca_bundle :: pystr
  acfg_proxy_target_host :: pystr
  acfg_proxy_target_port :: int
  acfg_heartbeat_seconds :: int
  acfg_reconnect_backoff_max_seconds :: int
  acfg_max_reconnect_attempts :: int

end
