(* ===== verification/Json.thy ===== *)
theory Json
  imports Models "HOL-Library.AList"
begin

text \<open>
  What the program uses of the standard \<open>json\<close> module: \<open>dumps\<close> with
  \<open>separators=(",", ":")\<close>, \<open>sort_keys=True\<close> and ASCII-only output, and \<open>loads\<close>.  Numbers with a
  fraction or an exponent, and the constants \<open>NaN\<close> and \<open>Infinity\<close>, keep their spelling
  (\<open>JFloat\<close>); the program only tests that they are not integers.  The scanner takes fuel;
  \<open>json_fuel\<close> is enough for every text.  The recursion and digit limits of the
  interpreter are not modelled.
\<close>

datatype json =
    JNull | JBool bool | JInt int | JFloat pystr | JStr pystr
  | JArr "json list" | JObj "(pystr \<times> json) list"

section \<open>Printing\<close>

definition hex_digit :: "nat \<Rightarrow> nat" where
  "hex_digit n = (if n < 10 then 48 + n else 87 + n)"

definition hex4 :: "nat \<Rightarrow> pystr" where
  "hex4 n = [hex_digit (n div 4096 mod 16), hex_digit (n div 256 mod 16),
             hex_digit (n div 16 mod 16), hex_digit (n mod 16)]"

definition u_escape :: "nat \<Rightarrow> pystr" where
  "u_escape n = [92, 117] @ hex4 n"

definition escape_char :: "nat \<Rightarrow> pystr" where
  "escape_char c =
     (if c = 34 then [92, 34] else if c = 92 then [92, 92]
      else if c = 8 then [92, 98] else if c = 9 then [92, 116]
      else if c = 10 then [92, 110] else if c = 12 then [92, 102]
      else if c = 13 then [92, 114]
      else if 32 \<le> c \<and> c \<le> 126 then [c]
      else if c < 65536 then u_escape c
      else u_escape (55296 + (c - 65536) div 1024) @ u_escape (56320 + (c - 65536) mod 1024))"

definition print_string :: "pystr \<Rightarrow> pystr" where
  "print_string s = 34 # concat (map escape_char s) @ [34]"

fun json_print :: "json \<Rightarrow> pystr" where
  "json_print JNull = str ''null''"
| "json_print (JBool b) = (if b then str ''true'' else str ''false'')"
| "json_print (JInt i) = show_int i"
| "json_print (JFloat t) = t"
| "json_print (JStr s) = print_string s"
| "json_print (JArr xs) = 91 # join [44] (map json_print xs) @ [93]"
| "json_print (JObj kvs) =
     123 # join [44] (map (\<lambda>(k, v). print_string k @ 58 # json_print v) kvs) @ [125]"

text \<open>Code point order on strings, the order of \<open>sort_keys\<close>.\<close>

fun str_less :: "pystr \<Rightarrow> pystr \<Rightarrow> bool" where
  "str_less [] [] = False"
| "str_less [] (b # bs) = True"
| "str_less (a # as) [] = False"
| "str_less (a # as) (b # bs) = (a < b \<or> (a = b \<and> str_less as bs))"

fun insert_key :: "pystr \<times> 'v \<Rightarrow> (pystr \<times> 'v) list \<Rightarrow> (pystr \<times> 'v) list" where
  "insert_key kv [] = [kv]"
| "insert_key kv (x # xs) = (if str_less (fst x) (fst kv) then x # insert_key kv xs else kv # x # xs)"

fun sort_keys :: "json \<Rightarrow> json" where
  "sort_keys (JArr xs) = JArr (map sort_keys xs)"
| "sort_keys (JObj kvs) = JObj (foldr insert_key (map (\<lambda>(k, v). (k, sort_keys v)) kvs) [])"
| "sort_keys j = j"

definition json_dumps :: "json \<Rightarrow> pystr" where
  "json_dumps j = json_print (sort_keys j)"

section \<open>Scanning\<close>

definition json_ws :: "nat \<Rightarrow> bool" where
  "json_ws c \<longleftrightarrow> c = 32 \<or> c = 9 \<or> c = 10 \<or> c = 13"

definition skip_ws :: "pystr \<Rightarrow> pystr" where
  "skip_ws s = dropWhile json_ws s"

definition hex_value :: "nat \<Rightarrow> nat option" where
  "hex_value c =
     (if 48 \<le> c \<and> c \<le> 57 then Some (c - 48)
      else if 97 \<le> c \<and> c \<le> 102 then Some (c - 87)
      else if 65 \<le> c \<and> c \<le> 70 then Some (c - 55) else None)"

fun scan_hex4 :: "pystr \<Rightarrow> (nat \<times> pystr) option" where
  "scan_hex4 (a # b # c # d # r) =
     (case (hex_value a, hex_value b, hex_value c, hex_value d) of
        (Some x, Some y, Some z, Some w) \<Rightarrow> Some (((x * 16 + y) * 16 + z) * 16 + w, r)
      | _ \<Rightarrow> None)"
| "scan_hex4 _ = None"

text \<open>
  \<open>\uXXXX\<close> after the \<open>u\<close>: a high surrogate followed by an escaped low surrogate is one code
  point, any other value stands for itself.
\<close>

definition scan_unicode :: "pystr \<Rightarrow> (nat \<times> pystr) option" where
  "scan_unicode s = (case scan_hex4 s of
     None \<Rightarrow> None
   | Some (u, r) \<Rightarrow>
       if 55296 \<le> u \<and> u \<le> 56319 \<and> take 2 r = [92, 117] then
         (case scan_hex4 (drop 2 r) of
            None \<Rightarrow> None
          | Some (v, r') \<Rightarrow>
              if 56320 \<le> v \<and> v \<le> 57343
              then Some (65536 + (u - 55296) * 1024 + (v - 56320), r') else Some (u, r))
       else Some (u, r))"

definition simple_escape :: "nat \<Rightarrow> nat option" where
  "simple_escape e =
     (if e = 34 then Some 34 else if e = 92 then Some 92 else if e = 47 then Some 47
      else if e = 98 then Some 8 else if e = 102 then Some 12 else if e = 110 then Some 10
      else if e = 114 then Some 13 else if e = 116 then Some 9 else None)"

text \<open>One string after its opening quote; the fuel is at least the length of the text.\<close>

fun scan_string :: "nat \<Rightarrow> pystr \<Rightarrow> (pystr \<times> pystr) option" where
  "scan_string 0 s = None"
| "scan_string (Suc n) s = (case s of
     [] \<Rightarrow> None
   | c # r \<Rightarrow>
       if c = 34 then Some ([], r)
       else if c = 92 then
         (case r of
            [] \<Rightarrow> None
          | e # r' \<Rightarrow>
              (case (if e = 117 then scan_unicode r' else map_option (\<lambda>x. (x, r')) (simple_escape e)) of
                 None \<Rightarrow> None
               | Some (x, r'') \<Rightarrow> map_option (\<lambda>(t, q). (x # t, q)) (scan_string n r'')))
       else if c < 32 then None
       else map_option (\<lambda>(t, q). (c # t, q)) (scan_string n r))"

text \<open>
  The integer part \<open>-?(0|[1-9][0-9]*)\<close> of a number, its fraction \<open>.[0-9]+\<close> and exponent
  \<open>[eE][+-]?[0-9]+\<close>.
\<close>

definition scan_int :: "pystr \<Rightarrow> (pystr \<times> pystr) option" where
  "scan_int s =
     (let neg = (case s of c # _ \<Rightarrow> c = 45 | [] \<Rightarrow> False); t = (if neg then tl s else s);
          sign = (if neg then [45] else [])
      in case t of
           [] \<Rightarrow> None
         | c # r \<Rightarrow>
             if c = 48 then Some (sign @ [48], r)
             else if 49 \<le> c \<and> c \<le> 57
             then Some (sign @ takeWhile is_ascii_digit t, dropWhile is_ascii_digit t) else None)"

definition scan_frac :: "pystr \<Rightarrow> pystr \<times> pystr" where
  "scan_frac s = (case s of
     c # d # r \<Rightarrow> if c = 46 \<and> is_ascii_digit d
       then (c # takeWhile is_ascii_digit (d # r), dropWhile is_ascii_digit (d # r)) else ([], s)
   | _ \<Rightarrow> ([], s))"

definition scan_exp :: "pystr \<Rightarrow> pystr \<times> pystr" where
  "scan_exp s = (case s of
     c # r \<Rightarrow>
       if c = 101 \<or> c = 69 then
         (let sg = (case r of d # _ \<Rightarrow> if d = 43 \<or> d = 45 then [d] else [] | [] \<Rightarrow> []);
              t = drop (length sg) r
          in if takeWhile is_ascii_digit t \<noteq> []
             then (c # sg @ takeWhile is_ascii_digit t, dropWhile is_ascii_digit t) else ([], s))
       else ([], s)
   | [] \<Rightarrow> ([], s))"

definition int_of_text :: "pystr \<Rightarrow> int" where
  "int_of_text t = (case t of
     c # r \<Rightarrow> if c = 45 then - int (digits_value r) else int (digits_value t)
   | [] \<Rightarrow> 0)"

definition scan_number :: "pystr \<Rightarrow> (json \<times> pystr) option" where
  "scan_number s = (case scan_int s of
     None \<Rightarrow> None
   | Some (i, r) \<Rightarrow>
       (let (f, r1) = scan_frac r; (e, r2) = scan_exp r1
        in if f = [] \<and> e = [] then Some (JInt (int_of_text i), r)
           else Some (JFloat (i @ f @ e), r2)))"

definition scan_literal :: "pystr \<Rightarrow> (json \<times> pystr) option" where
  "scan_literal s =
     (if startswith s (str ''null'') then Some (JNull, drop 4 s)
      else if startswith s (str ''true'') then Some (JBool True, drop 4 s)
      else if startswith s (str ''false'') then Some (JBool False, drop 5 s)
      else if startswith s (str ''NaN'') then Some (JFloat (str ''NaN''), drop 3 s)
      else if startswith s (str ''Infinity'') then Some (JFloat (str ''Infinity''), drop 8 s)
      else if startswith s (str ''-Infinity'') then Some (JFloat (str ''-Infinity''), drop 9 s)
      else None)"

text \<open>\<open>dict(pairs)\<close>: the position of the first occurrence, the value of the last.\<close>

definition dict_of :: "(pystr \<times> json) list \<Rightarrow> (pystr \<times> json) list" where
  "dict_of kvs = foldl (\<lambda>d (k, v). AList.update k v d) [] kvs"

fun scan_value :: "nat \<Rightarrow> pystr \<Rightarrow> (json \<times> pystr) option"
and scan_elems :: "nat \<Rightarrow> pystr \<Rightarrow> (json list \<times> pystr) option"
and scan_members :: "nat \<Rightarrow> pystr \<Rightarrow> ((pystr \<times> json) list \<times> pystr) option" where
  "scan_value 0 s = None"
| "scan_value (Suc n) s = (case s of
     [] \<Rightarrow> None
   | c # r \<Rightarrow>
       if c = 34 then map_option (\<lambda>(t, q). (JStr t, q)) (scan_string (Suc (length r)) r)
       else if c = 91 then
         (case skip_ws r of
            [] \<Rightarrow> None
          | d # q \<Rightarrow> if d = 93 then Some (JArr [], q)
              else map_option (\<lambda>(xs, q). (JArr xs, q)) (scan_elems n (d # q)))
       else if c = 123 then
         (case skip_ws r of
            [] \<Rightarrow> None
          | d # q \<Rightarrow> if d = 125 then Some (JObj [], q)
              else map_option (\<lambda>(kvs, q). (JObj (dict_of kvs), q)) (scan_members n (d # q)))
       else (case scan_literal s of Some x \<Rightarrow> Some x | None \<Rightarrow> scan_number s))"
| "scan_elems 0 s = None"
| "scan_elems (Suc n) s = (case scan_value n s of
     None \<Rightarrow> None
   | Some (x, r) \<Rightarrow>
       (case skip_ws r of
          [] \<Rightarrow> None
        | d # q \<Rightarrow>
            if d = 93 then Some ([x], q)
            else if d = 44 then map_option (\<lambda>(xs, q). (x # xs, q)) (scan_elems n (skip_ws q))
            else None))"
| "scan_members 0 s = None"
| "scan_members (Suc n) s = (case s of
     [] \<Rightarrow> None
   | c # r \<Rightarrow>
       if c \<noteq> 34 then None else
       (case scan_string (Suc (length r)) r of
          None \<Rightarrow> None
        | Some (k, r1) \<Rightarrow>
            (case skip_ws r1 of
               [] \<Rightarrow> None
             | d # r2 \<Rightarrow>
                 if d \<noteq> 58 then None else
                 (case scan_value n (skip_ws r2) of
                    None \<Rightarrow> None
                  | Some (v, r3) \<Rightarrow>
                      (case skip_ws r3 of
                         [] \<Rightarrow> None
                       | e # r4 \<Rightarrow>
                           if e = 125 then Some ([(k, v)], r4)
                           else if e = 44
                           then map_option (\<lambda>(kvs, q). ((k, v) # kvs, q)) (scan_members n (skip_ws r4))
                           else None)))))"

declare scan_value.simps [simp del] scan_elems.simps [simp del] scan_members.simps [simp del]

definition json_fuel :: "pystr \<Rightarrow> nat" where
  "json_fuel s = 2 * length s + 2"

text \<open>\<open>json.loads(text)\<close>; \<open>None\<close> is \<open>JSONDecodeError\<close>.\<close>

definition json_loads :: "pystr \<Rightarrow> json option" where
  "json_loads s = (case scan_value (json_fuel s) (skip_ws s) of
     None \<Rightarrow> None
   | Some (j, r) \<Rightarrow> if skip_ws r = [] then Some j else None)"

text \<open>
  \<open>str(value)\<close> of a decoded JSON value; \<open>text_of\<close> stands for the \<open>repr\<close> of floats, lists and
  dicts.
\<close>

fun py_str :: "(json \<Rightarrow> pystr) \<Rightarrow> json \<Rightarrow> pystr" where
  "py_str text_of (JStr s) = s"
| "py_str text_of (JInt i) = show_int i"
| "py_str text_of (JBool b) = (if b then str ''True'' else str ''False'')"
| "py_str text_of JNull = str ''None''"
| "py_str text_of j = text_of j"

end
