(* ===== verification/Database.thy ===== *)
theory Database
  imports Crypto Json
begin

text \<open>
  UUIDs as \<open>uuid.UUID\<close> reads and prints them, and the tables of \<open>migrations/001_initial_schema.sql\<close>
  as lists of rows with the uniqueness, check and foreign-key constraints the statements of the
  program rely on.  \<open>wf_db\<close> is the conjunction of the constraints; every statement here keeps it.
  Time stamps of the database are aware UTC values.
\<close>

section \<open>UUIDs\<close>

type_synonym uuid = nat

text \<open>\<open>s.replace(p, "")\<close>.\<close>

function remove_sub :: "pystr \<Rightarrow> pystr \<Rightarrow> pystr" where
  "remove_sub p [] = []"
| "remove_sub p (c # s) =
     (if p \<noteq> [] \<and> startswith (c # s) p then remove_sub p (drop (length p - 1) s)
      else c # remove_sub p s)"
  by pat_completeness auto
termination by (relation "measure (\<lambda>(p, s). length s)") auto

text \<open>\<open>int(text, 16)\<close> for text whose digits are ASCII: an optional sign and \<open>0x\<close>, then digits with
  single underscores between them.\<close>

definition hex_digit_value :: "nat \<Rightarrow> nat option" where
  "hex_digit_value c =
     (if 48 \<le> c \<and> c \<le> 57 then Some (c - 48)
      else if 97 \<le> c \<and> c \<le> 102 then Some (c - 87)
      else if 65 \<le> c \<and> c \<le> 70 then Some (c - 55) else None)"

fun hex_digits :: "nat \<Rightarrow> pystr \<Rightarrow> nat option" where
  "hex_digits acc [] = Some acc"
| "hex_digits acc (c # s) =
     (if c = 95 then (case s of [] \<Rightarrow> None | d # r \<Rightarrow>
        (case hex_digit_value d of None \<Rightarrow> None | Some v \<Rightarrow> hex_digits (16 * acc + v) r))
      else (case hex_digit_value c of None \<Rightarrow> None | Some v \<Rightarrow> hex_digits (16 * acc + v) s))"

definition int_base16 :: "pystr \<Rightarrow> int option" where
  "int_base16 text =
     (let t = strip text;
          neg = (t \<noteq> [] \<and> hd t = 45);
          u = (if t \<noteq> [] \<and> (hd t = 45 \<or> hd t = 43) then tl t else t);
          v = (if take 2 u = str ''0x'' \<or> take 2 u = str ''0X''
               then (if take 1 (drop 2 u) = [95] then drop 3 u else drop 2 u) else u)
      in if v = [] \<or> hd v = 95 then None
         else map_option (\<lambda>n. if neg then - int n else int n) (hex_digits 0 v))"

definition brace :: "nat \<Rightarrow> bool" where
  "brace c \<longleftrightarrow> c = 123 \<or> c = 125"

definition uuid_of_text :: "pystr \<Rightarrow> uuid option" where
  "uuid_of_text text =
     (let a = remove_sub (str ''uuid:'') (remove_sub (str ''urn:'') text);
          b = rev (dropWhile brace (rev (dropWhile brace a)));
          hex = filter (\<lambda>c. c \<noteq> 45) b
      in if length hex \<noteq> 32 then None else
         (case int_base16 hex of
            None \<Rightarrow> None
          | Some i \<Rightarrow> if 0 \<le> i \<and> i < 2 ^ 128 then Some (nat i) else None))"

definition hex_fixed :: "nat \<Rightarrow> nat \<Rightarrow> pystr" where
  "hex_fixed k n = map (\<lambda>i. hex_char (n div 16 ^ (k - 1 - i) mod 16)) [0 ..< k]"

text \<open>\<open>str(uuid)\<close>.\<close>

definition uuid_text :: "uuid \<Rightarrow> pystr" where
  "uuid_text u =
     (let h = hex_fixed 32 u
      in take 8 h @ [45] @ take 4 (drop 8 h) @ [45] @ take 4 (drop 12 h) @ [45]
         @ take 4 (drop 16 h) @ [45] @ drop 20 h)"

lemma hex_fixed_Suc: "hex_fixed (Suc k) n = hex_char (n div 16 ^ k mod 16) # hex_fixed k n"
proof -
  have "[0 ..< Suc k] = 0 # map Suc [0 ..< k]" by (simp add: map_Suc_upt upt_conv_Cons del: upt_Suc)
  then show ?thesis by (simp add: hex_fixed_def comp_def del: upt_Suc)
qed

lemma hex_digit_value_char: "n < 16 \<Longrightarrow> hex_digit_value (hex_char n) = Some n \<and> hex_char n \<noteq> 95"
  by (auto simp: hex_digit_value_def hex_char_def)

lemma hex_digits_fixed: "hex_digits acc (hex_fixed k n) = Some (acc * 16 ^ k + n mod 16 ^ k)"
proof (induction k arbitrary: acc)
  case 0
  then show ?case by (simp add: hex_fixed_def)
next
  case (Suc k)
  have "n mod 16 ^ Suc k = 16 ^ k * (n div 16 ^ k mod 16) + n mod 16 ^ k"
    using mod_mult2_eq [of n "16 ^ k" 16] by (simp add: mult.commute)
  then show ?case
    using hex_digit_value_char [of "n div 16 ^ k mod 16"] Suc
    by (simp add: hex_fixed_Suc algebra_simps)
qed

lemma hex_fixed_chars: "c \<in> set (hex_fixed k n) \<Longrightarrow> (48 \<le> c \<and> c \<le> 57) \<or> (97 \<le> c \<and> c \<le> 102)"
proof -
  assume "c \<in> set (hex_fixed k n)"
  then obtain i where c: "c = hex_char (n div 16 ^ (k - 1 - i) mod 16)" by (auto simp: hex_fixed_def)
  have "m < 16 \<Longrightarrow> (48 \<le> hex_char m \<and> hex_char m \<le> 57) \<or> (97 \<le> hex_char m \<and> hex_char m \<le> 102)" for m
    by (auto simp: hex_char_def)
  then show ?thesis unfolding c by simp
qed

lemma length_hex_fixed [simp]: "length (hex_fixed k n) = k"
  by (simp add: hex_fixed_def)

lemma remove_sub_none: "p \<noteq> [] \<Longrightarrow> hd p \<notin> set s \<Longrightarrow> remove_sub p s = s"
  by (induction s) (auto simp: startswith_def neq_Nil_conv)

lemma uuid_text_chars:
  "c \<in> set (uuid_text u) \<Longrightarrow> (48 \<le> c \<and> c \<le> 57) \<or> (97 \<le> c \<and> c \<le> 102) \<or> c = 45"
  using hex_fixed_chars [of c 32 u]
  by (auto simp: uuid_text_def Let_def dest: in_set_takeD in_set_dropD)

text \<open>Printing a UUID and reading it back.\<close>

lemma uuid_roundtrip:
  assumes "u < 2 ^ 128"
  shows "uuid_of_text (uuid_text u) = Some u"
proof -
  let ?h = "hex_fixed 32 u"
  have hc: "\<forall>c \<in> set ?h. (48 \<le> c \<and> c \<le> 57) \<or> (97 \<le> c \<and> c \<le> 102)"
    using hex_fixed_chars by blast
  have f: "filter (\<lambda>c. c \<noteq> 45) xs = xs" if "set xs \<subseteq> set ?h" for xs
    using that hc by (intro filter_True) fastforce
  have p: "take 8 ?h @ take 4 (drop 8 ?h) @ take 4 (drop 12 ?h) @ take 4 (drop 16 ?h) @ drop 20 ?h = ?h"
  proof -
    have "drop 16 ?h = take 4 (drop 16 ?h) @ drop 20 ?h"
      using append_take_drop_id [of 4 "drop 16 ?h"] by simp
    moreover have "drop 12 ?h = take 4 (drop 12 ?h) @ drop 16 ?h"
      using append_take_drop_id [of 4 "drop 12 ?h"] by simp
    moreover have "drop 8 ?h = take 4 (drop 8 ?h) @ drop 12 ?h"
      using append_take_drop_id [of 4 "drop 8 ?h"] by simp
    ultimately show ?thesis by (metis append_take_drop_id)
  qed
  have fil: "filter (\<lambda>c. c \<noteq> 45) (uuid_text u) = ?h"
    unfolding uuid_text_def Let_def filter_append
    using p f [of "take 8 ?h"] f [of "take 4 (drop 8 ?h)"] f [of "take 4 (drop 12 ?h)"]
      f [of "take 4 (drop 16 ?h)"] f [of "drop 20 ?h"]
    by (simp add: subset_iff) (metis in_set_takeD in_set_dropD)
  have uc: "\<forall>c \<in> set (uuid_text u). (48 \<le> c \<and> c \<le> 57) \<or> (97 \<le> c \<and> c \<le> 102) \<or> c = 45"
    using uuid_text_chars by blast
  have r: "remove_sub (str ''urn:'') (uuid_text u) = uuid_text u"
    "remove_sub (str ''uuid:'') (uuid_text u) = uuid_text u"
    using uc by (auto intro!: remove_sub_none simp: str_def)
  have d: "dropWhile brace xs = xs" if "set xs \<subseteq> set (uuid_text u)" for xs
    using that uc by (intro dropWhile_none) (fastforce simp: brace_def)
  have sp: "\<forall>c \<in> set ?h. \<not> isspace c" using hc by (fastforce simp: isspace_def)
  obtain a b t where h: "?h = a # b # t" by (metis Suc_length_conv length_hex_fixed numeral_eq_Suc pred_numeral_simps(2))
  have "a \<in> set ?h" "b \<in> set ?h" using h by auto
  then have "a \<noteq> 45" "a \<noteq> 43" "a \<noteq> 95" "b \<noteq> 120" "b \<noteq> 88" using hc by fastforce+
  then have "int_base16 ?h = Some (int u)"
    using hex_digits_fixed [of 0 32 u] assms no_space_strip [OF sp] h
    by (simp add: int_base16_def Let_def str_def)
  then show ?thesis
    using assms d [of "rev (uuid_text u)"] d [of "uuid_text u"]
    by (simp add: uuid_of_text_def r fil Let_def)
qed

section \<open>Tables\<close>

record agents_row =
  ag_id :: uuid
  ag_node_name :: pystr
  ag_hostname :: "pystr option"
  ag_labels :: "pystr list"
  ag_x509_public_key :: pystr
  ag_node_ssh_host_public_key :: pystr
  ag_tunnel_secret_hash :: pystr
  ag_enrolled_at :: datetime
  ag_last_seen :: "datetime option"
  ag_revoked :: bool
  ag_revoked_at :: "datetime option"
  ag_cert_serial :: pystr
  ag_cert_expires_at :: datetime

record enrollment_tokens_row =
  tk_token_hash :: pystr
  tk_node_name :: pystr
  tk_labels :: "pystr list"
  tk_node_ssh_host_public_key :: pystr
  tk_created_by :: pystr
  tk_created_at :: datetime
  tk_expires_at :: datetime
  tk_used :: bool
  tk_used_at :: "datetime option"
  tk_disabled_at :: "datetime option"
  tk_agent_id :: "uuid option"

record sessions_row =
  se_id :: uuid
  se_agent_id :: uuid
  se_user_name :: pystr
  se_user_cert_serial :: int
  se_started_at :: datetime
  se_ended_at :: "datetime option"
  se_replay_path :: pystr
  se_replay_hmac :: "pystr option"
  se_status :: pystr

record audit_row =
  au_id :: uuid
  au_event_type :: AuditEventType
  au_actor :: pystr
  au_agent_id :: "uuid option"
  au_session_id :: "uuid option"
  au_node_name :: "pystr option"
  au_created_at :: datetime
  au_metadata :: pyval

record database =
  db_agents :: "agents_row list"
  db_tokens :: "enrollment_tokens_row list"
  db_sessions :: "sessions_row list"
  db_audit :: "audit_row list"
  db_next_serial :: int

section \<open>Constraints\<close>

definition token_active :: "enrollment_tokens_row \<Rightarrow> bool" where
  "token_active t \<longleftrightarrow> \<not> tk_used t \<and> tk_disabled_at t = None"

definition agents_ok :: "agents_row list \<Rightarrow> bool" where
  "agents_ok rs \<longleftrightarrow> distinct (map ag_id rs) \<and> distinct (map ag_node_name rs) \<and>
     distinct (map ag_cert_serial rs)"

definition tokens_ok :: "agents_row list \<Rightarrow> enrollment_tokens_row list \<Rightarrow> bool" where
  "tokens_ok as ts \<longleftrightarrow> distinct (map tk_token_hash ts) \<and>
     distinct (map tk_node_name (filter token_active ts)) \<and>
     (\<forall>t \<in> set ts. \<forall>a. tk_agent_id t = Some a \<longrightarrow> a \<in> ag_id ` set as)"

definition session_row_ok :: "sessions_row \<Rightarrow> bool" where
  "session_row_ok r \<longleftrightarrow>
     se_status r \<in> {str ''open'', str ''closed'', str ''failed'', str ''terminated''} \<and>
     (se_status r \<noteq> str ''closed'' \<or> se_replay_hmac r \<noteq> None)"

definition sessions_ok :: "agents_row list \<Rightarrow> sessions_row list \<Rightarrow> bool" where
  "sessions_ok as ss \<longleftrightarrow> distinct (map se_id ss) \<and> distinct (map se_user_cert_serial ss) \<and>
     (\<forall>s \<in> set ss. session_row_ok s \<and> se_agent_id s \<in> ag_id ` set as)"

definition audit_ok :: "agents_row list \<Rightarrow> sessions_row list \<Rightarrow> audit_row list \<Rightarrow> bool" where
  "audit_ok as ss rs \<longleftrightarrow> distinct (map au_id rs) \<and>
     (\<forall>r \<in> set rs. (\<forall>a. au_agent_id r = Some a \<longrightarrow> a \<in> ag_id ` set as) \<and>
        (\<forall>s. au_session_id r = Some s \<longrightarrow> s \<in> se_id ` set ss))"

text \<open>Evaluation of the two quantified constraints.\<close>

lemma tokens_ok_code [code]:
  "tokens_ok as ts \<longleftrightarrow> distinct (map tk_token_hash ts) \<and>
     distinct (map tk_node_name (filter token_active ts)) \<and>
     list_all (\<lambda>t. case tk_agent_id t of None \<Rightarrow> True | Some a \<Rightarrow> a \<in> ag_id ` set as) ts"
  by (auto simp: tokens_ok_def list_all_iff split: option.splits)

lemma audit_ok_code [code]:
  "audit_ok as ss rs \<longleftrightarrow> distinct (map au_id rs) \<and>
     list_all (\<lambda>r. (case au_agent_id r of None \<Rightarrow> True | Some a \<Rightarrow> a \<in> ag_id ` set as) \<and>
        (case au_session_id r of None \<Rightarrow> True | Some s \<Rightarrow> s \<in> se_id ` set ss)) rs"
  by (fastforce simp: audit_ok_def list_all_iff split: option.splits)

definition wf_db :: "database \<Rightarrow> bool" where
  "wf_db db \<longleftrightarrow> agents_ok (db_agents db) \<and> tokens_ok (db_agents db) (db_tokens db) \<and>
     sessions_ok (db_agents db) (db_sessions db) \<and>
     audit_ok (db_agents db) (db_sessions db) (db_audit db)"

text \<open>
  A statement that breaks a constraint raises and leaves the tables as they were.  \<open>checked\<close> is
  an \<open>INSERT\<close> or \<open>UPDATE\<close> with the constraints it can break; \<open>sql_write\<close> checks all of them.
\<close>

definition sql_write :: "(database \<Rightarrow> database) \<Rightarrow> (database, unit) op" where
  "sql_write f db =
     (if wf_db (f db) then (Inr (), f db) else (Inl (PostgresError ''constraint violation''), db))"

lemma sql_write_wf: "wf_db db \<Longrightarrow> wf_db (snd (sql_write f db))"
  by (simp add: sql_write_def)

lemma sql_write_Inr [exc_elims]:
  "sql_write f db = (Inr u, db') \<longleftrightarrow> wf_db (f db) \<and> db' = f db"
  by (auto simp: sql_write_def)

lemma sql_write_Inl [exc_elims]:
  "sql_write f db = (Inl e, db') \<longleftrightarrow>
     \<not> wf_db (f db) \<and> db' = db \<and> e = PostgresError ''constraint violation''"
  by (auto simp: sql_write_def)

text \<open>Rows changed by an \<open>UPDATE ... WHERE\<close>, and their number.\<close>

definition update_where :: "('r \<Rightarrow> bool) \<Rightarrow> ('r \<Rightarrow> 'r) \<Rightarrow> 'r list \<Rightarrow> 'r list" where
  "update_where p f rs = map (\<lambda>r. if p r then f r else r) rs"

lemma map_update_where:
  "(\<And>r. p r \<Longrightarrow> g (f r) = g r) \<Longrightarrow> map g (update_where p f rs) = map g rs"
  by (induction rs) (auto simp: update_where_def)

lemma set_update_where: "set (update_where p f rs) = (\<lambda>r. if p r then f r else r) ` set rs"
  by (simp add: update_where_def)

lemma find_update_where:
  assumes "\<And>r. p r \<Longrightarrow> q (f r) = q r"
  shows "find q (update_where p f rs) = map_option (\<lambda>r. if p r then f r else r) (find q rs)"
  using assms by (induction rs) (auto simp: update_where_def)

lemma image_update_where:
  "(\<And>r. p r \<Longrightarrow> g (f r) = g r) \<Longrightarrow> g ` set (update_where p f rs) = g ` set rs"
  unfolding set_update_where image_image by (rule image_cong) auto

lemma find_distinct:
  assumes "distinct (map k rs)" "r \<in> set rs"
  shows "find (\<lambda>x. k x = k r) rs = Some r"
  using assms by (induction rs) (auto simp: image_iff)

lemma find_keyD: "find (\<lambda>x. k x = v) rs = Some r \<Longrightarrow> r \<in> set rs \<and> k r = v"
  by (auto simp: find_Some_iff in_set_conv_nth)

text \<open>An update of agents that keeps ids, names and serials keeps the whole database well formed.\<close>

lemma wf_update_agents:
  assumes "wf_db db"
    and "\<And>r. p r \<Longrightarrow> ag_id (f r) = ag_id r \<and> ag_node_name (f r) = ag_node_name r \<and>
      ag_cert_serial (f r) = ag_cert_serial r"
  shows "wf_db (db\<lparr>db_agents := update_where p f (db_agents db)\<rparr>)"
proof -
  have m: "map ag_id (update_where p f rs) = map ag_id rs"
    "map ag_node_name (update_where p f rs) = map ag_node_name rs"
    "map ag_cert_serial (update_where p f rs) = map ag_cert_serial rs" for rs
    using assms(2) by (auto intro!: map_update_where)
  have "ag_id ` set (update_where p f rs) = ag_id ` set rs" for rs
    using assms(2) by (intro image_update_where) auto
  with m assms(1) show ?thesis
    by (simp add: wf_db_def agents_ok_def tokens_ok_def sessions_ok_def audit_ok_def)
qed

section \<open>Reading agents\<close>

definition agent_by_id :: "database \<Rightarrow> uuid \<Rightarrow> agents_row option" where
  "agent_by_id db a = find (\<lambda>r. ag_id r = a) (db_agents db)"

definition agent_by_name :: "database \<Rightarrow> pystr \<Rightarrow> agents_row option" where
  "agent_by_name db n = find (\<lambda>r. ag_node_name r = n) (db_agents db)"

lemma agent_by_idD: "agent_by_id db a = Some r \<Longrightarrow> r \<in> set (db_agents db) \<and> ag_id r = a"
  unfolding agent_by_id_def by (rule find_keyD)

lemma agent_by_nameD: "agent_by_name db n = Some r \<Longrightarrow> r \<in> set (db_agents db) \<and> ag_node_name r = n"
  unfolding agent_by_name_def by (rule find_keyD)

end
