(* ===== verification/Json_Facts.thy ===== *)
theory Json_Facts
  imports Json Utf8
begin

text \<open>
  Facts about \<open>dumps\<close> and \<open>loads\<close>: the printed text is ASCII, scanning it gives the value back,
  and the scanner's fuel is enough for every text.
\<close>

section \<open>Strings\<close>

lemma hex_value_digit: "n < 16 \<Longrightarrow> hex_value (hex_digit n) = Some n"
  by (auto simp: hex_value_def hex_digit_def)

lemma horner16: "c' = c \<Longrightarrow> b = c * 16 + b' \<Longrightarrow> a = b * 16 + a' \<Longrightarrow> n = a * 16 + n' \<Longrightarrow>
  ((c' * 16 + b') * 16 + a') * 16 + n' = (n::nat)"
  by simp

lemma hex4_split: "n < 65536 \<Longrightarrow>
  ((n div 4096 mod 16 * 16 + n div 256 mod 16) * 16 + n div 16 mod 16) * 16 + n mod 16 = (n::nat)"
proof -
  assume n: "n < 65536"
  define a b c where "a = n div 16" and "b = a div 16" and "c = b div 16"
  have q: "n div 256 = b" "n div 4096 = c" "n div 16 = a"
    unfolding a_def b_def c_def by (simp_all add: div_mult2_eq [symmetric])
  have "c mod 16 = c" using n unfolding a_def b_def c_def by (simp add: div_mult2_eq [symmetric])
  moreover have "b = c * 16 + b mod 16" "a = b * 16 + a mod 16" "n = a * 16 + n mod 16"
    unfolding c_def b_def a_def by (rule div_mult_mod_eq [symmetric])+
  ultimately show ?thesis unfolding q by (rule horner16)
qed

lemma scan_hex4_hex4: "n < 65536 \<Longrightarrow> scan_hex4 (hex4 n @ r) = Some (n, r)"
proof -
  assume n: "n < 65536"
  have d: "hex_value (hex_digit (k mod 16)) = Some (k mod 16)" for k
    by (rule hex_value_digit) simp
  have "scan_hex4 (hex4 n @ r) =
      Some (((n div 4096 mod 16 * 16 + n div 256 mod 16) * 16 + n div 16 mod 16) * 16 + n mod 16, r)"
    by (simp only: hex4_def append_Cons append_Nil scan_hex4.simps d option.case prod.case)
  then show ?thesis by (simp only: hex4_split [OF n])
qed

lemma scan_unicode_plain:
  assumes "n < 65536" "\<not> (55296 \<le> n \<and> n \<le> 56319)"
  shows "scan_unicode (hex4 n @ r) = Some (n, r)"
  using assms by (auto simp: scan_unicode_def scan_hex4_hex4)

lemma scan_unicode_pair:
  assumes "55296 \<le> u" "u \<le> 56319" "56320 \<le> v" "v \<le> 57343"
  shows "scan_unicode (hex4 u @ u_escape v @ r) =
    Some (65536 + (u - 55296) * 1024 + (v - 56320), r)"
  using assms by (auto simp: scan_unicode_def scan_hex4_hex4 u_escape_def)

lemma scan_string_quote [simp]: "scan_string (Suc n) (34 # r) = Some ([], r)"
  by (simp add: scan_string.simps)

declare scan_string.simps [simp del]

lemma surrogate_pair:
  assumes "65536 \<le> c" "c < 1114112"
  shows "scan_unicode (hex4 (55296 + (c - 65536) div 1024) @ u_escape (56320 + (c - 65536) mod 1024) @ r)
    = Some (c, r)"
proof -
  have d: "(c - 65536) div 1024 \<le> 1023" using assms by auto
  have m: "(c - 65536) mod 1024 \<le> 1023"
    using mod_less_divisor [of 1024 "c - 65536"] by linarith
  have "65536 + (c - 65536) div 1024 * 1024 + (c - 65536) mod 1024 = c"
    using assms div_mult_mod_eq [of "c - 65536" 1024] by linarith
  with d m show ?thesis
    using scan_unicode_pair [of "55296 + (c - 65536) div 1024" "56320 + (c - 65536) mod 1024" r]
    by simp
qed

text \<open>Code points that print and scan back one by one: all but high surrogates.\<close>

definition json_cp :: "nat \<Rightarrow> bool" where
  "json_cp c \<longleftrightarrow> c < 1114112 \<and> \<not> (55296 \<le> c \<and> c \<le> 56319)"

lemma scalar_json_cp: "scalar c \<Longrightarrow> json_cp c"
  by (auto simp: scalar_def json_cp_def)

lemma scalars_json_cp: "list_all scalar s \<Longrightarrow> list_all json_cp s"
  by (auto simp: list_all_iff scalar_json_cp)

lemma scan_string_escape:
  assumes "json_cp c"
  shows "scan_string (Suc n) (escape_char c @ r) = map_option (\<lambda>(t, q). (c # t, q)) (scan_string n r)"
proof -
  consider (s) "c \<in> {34, 92, 8, 9, 10, 12, 13}"
    | (p) "c \<notin> {34, 92, 8, 9, 10, 12, 13}" "32 \<le> c" "c \<le> 126"
    | (u) "c \<notin> {34, 92, 8, 9, 10, 12, 13}" "\<not> (32 \<le> c \<and> c \<le> 126)" "c < 65536"
    | (x) "65536 \<le> c" by force
  then show ?thesis
  proof cases
    case s
    then show ?thesis by (auto simp: escape_char_def simple_escape_def scan_string.simps)
  next
    case p
    then show ?thesis by (simp add: escape_char_def scan_string.simps)
  next
    case u
    with assms have "\<not> (55296 \<le> c \<and> c \<le> 56319)" by (simp add: json_cp_def)
    moreover from u have "escape_char c = [92, 117] @ hex4 c"
      by (auto simp: escape_char_def u_escape_def)
    ultimately show ?thesis using u by (simp add: scan_unicode_plain scan_string.simps)
  next
    case x
    with assms have "c < 1114112" by (simp add: json_cp_def)
    moreover from x have "escape_char c =
        [92, 117] @ hex4 (55296 + (c - 65536) div 1024) @ u_escape (56320 + (c - 65536) mod 1024)"
      by (simp add: escape_char_def u_escape_def)
    ultimately show ?thesis using x surrogate_pair [of c r] by (simp add: scan_string.simps)
  qed
qed

lemma escape_char_nonempty: "1 \<le> length (escape_char c)"
  by (auto simp: escape_char_def u_escape_def hex4_def)

lemma scan_string_print:
  assumes "list_all json_cp s" "length s < n"
  shows "scan_string n (concat (map escape_char s) @ 34 # r) = Some (s, r)"
  using assms
proof (induction s arbitrary: n)
  case Nil
  then obtain m where "n = Suc m" by (cases n) auto
  then show ?case by simp
next
  case (Cons c s)
  then obtain m where "n = Suc m" "length s < m" by (cases n) auto
  with Cons show ?case by (simp add: scan_string_escape)
qed

lemma length_escapes: "length s \<le> length (concat (map escape_char s))"
proof (induction s)
  case (Cons c s)
  then show ?case using escape_char_nonempty [of c] by simp
qed simp

lemma scan_string_printed_cp:
  assumes "list_all json_cp s"
  shows "scan_string (Suc (length (tl (print_string s) @ r))) (tl (print_string s) @ r) = Some (s, r)"
  using scan_string_print [OF assms, of _ r] length_escapes [of s]
  by (simp add: print_string_def)

lemmas scan_string_printed = scan_string_printed_cp [OF scalars_json_cp]

section \<open>Numbers\<close>

definition number_end :: "pystr \<Rightarrow> bool" where
  "number_end r \<longleftrightarrow> (case r of [] \<Rightarrow> True | c # _ \<Rightarrow> \<not> is_ascii_digit c \<and> c \<noteq> 46 \<and> c \<noteq> 101 \<and> c \<noteq> 69)"

lemma takeWhile_all_append:
  "list_all p s \<Longrightarrow> (case r of [] \<Rightarrow> True | c # _ \<Rightarrow> \<not> p c) \<Longrightarrow>
     takeWhile p (s @ r) = s \<and> dropWhile p (s @ r) = r"
  by (induction s) (auto split: list.splits)

lemma number_end_scan: "number_end r \<Longrightarrow> scan_frac r = ([], r) \<and> scan_exp r = ([], r)"
  by (auto simp: number_end_def scan_frac_def scan_exp_def split: list.splits)

definition digit_end :: "pystr \<Rightarrow> bool" where
  "digit_end r \<longleftrightarrow> (case r of [] \<Rightarrow> True | c # _ \<Rightarrow> \<not> is_ascii_digit c)"

lemma number_digit_end: "number_end r \<Longrightarrow> digit_end r"
  by (simp add: number_end_def digit_end_def split: list.splits)

lemma digits_end:
  "list_all is_ascii_digit s \<Longrightarrow> digit_end r \<Longrightarrow>
     takeWhile is_ascii_digit (s @ r) = s \<and> dropWhile is_ascii_digit (s @ r) = r"
  unfolding digit_end_def by (rule takeWhile_all_append)

lemma scan_int_stop:
  assumes "digit_end r"
  shows "scan_int (digits_of n @ r) = Some (digits_of n, r)"
    and "scan_int (45 # digits_of n @ r) = Some (45 # digits_of n, r)"
proof -
  obtain c ds where ds: "digits_of n = c # ds" by (cases "digits_of n") auto
  then have c: "is_ascii_digit c" and all: "list_all is_ascii_digit (digits_of n)"
    using digits_of_all [of n] by auto
  have zero: "c = 48 \<Longrightarrow> ds = []"
  proof -
    assume "c = 48"
    then have "n = 0" using ds digits_of_hd [of n] by simp
    then show "ds = []" using ds by (subst (asm) digits_of.simps) simp
  qed
  have w: "takeWhile is_ascii_digit (digits_of n @ r) = digits_of n \<and>
      dropWhile is_ascii_digit (digits_of n @ r) = r"
    using all assms by (rule digits_end)
  show "scan_int (digits_of n @ r) = Some (digits_of n, r)"
    using w zero c unfolding ds by (auto simp: scan_int_def is_ascii_digit_def Let_def)
  show "scan_int (45 # digits_of n @ r) = Some (45 # digits_of n, r)"
    using w zero c unfolding ds by (auto simp: scan_int_def is_ascii_digit_def Let_def)
qed

lemmas scan_int_digits = scan_int_stop [OF number_digit_end]

lemma int_of_text_digits:
  "int_of_text (digits_of n) = int n" "int_of_text (45 # digits_of n) = - int n"
proof -
  obtain c ds where ds: "digits_of n = c # ds" by (cases "digits_of n") auto
  then have "c \<noteq> 45" using digits_of_all [of n] by (auto simp: is_ascii_digit_def)
  with ds have "int_of_text (digits_of n) = int (digits_value (digits_of n))"
    by (simp add: int_of_text_def)
  then show "int_of_text (digits_of n) = int n" by (simp add: digits_value_of)
  show "int_of_text (45 # digits_of n) = - int n"
    by (simp add: int_of_text_def digits_value_of)
qed

lemma scan_number_int: "number_end r \<Longrightarrow> scan_number (show_int i @ r) = Some (JInt i, r)"
  by (auto simp: scan_number_def show_int_def scan_int_digits number_end_scan int_of_text_digits)

section \<open>Values\<close>

text \<open>
  The values that print and scan back: no float, every string made of scalar values, and
  the keys of every object distinct.
\<close>

fun plain :: "json \<Rightarrow> bool" where
  "plain (JFloat t) = False"
| "plain (JStr s) = list_all scalar s"
| "plain (JArr xs) = (\<forall>x \<in> set xs. plain x)"
| "plain (JObj kvs) = (distinct (map fst kvs) \<and> (\<forall>kv \<in> set kvs. list_all scalar (fst kv) \<and> plain (snd kv)))"
| "plain _ = True"

lemma foldl_update_distinct:
  "distinct (map fst (d @ kvs)) \<Longrightarrow> foldl (\<lambda>d (k, v). AList.update k v d) d kvs = d @ kvs"
proof (induction kvs arbitrary: d)
  case Nil
  then show ?case by simp
next
  case (Cons kv kvs)
  obtain k v where kv: "kv = (k, v)" by force
  have "AList.update k v d = d @ [(k, v)]"
    using Cons.prems kv by (induction d) auto
  then show ?case using Cons.IH [of "d @ [(k, v)]"] Cons.prems kv by simp
qed

lemma dict_of_distinct: "distinct (map fst kvs) \<Longrightarrow> dict_of kvs = kvs"
  unfolding dict_of_def using foldl_update_distinct [of "[]" kvs] by simp

definition value_start :: "nat \<Rightarrow> bool" where
  "value_start c \<longleftrightarrow> \<not> json_ws c \<and> c \<noteq> 93 \<and> c \<noteq> 125"

lemma print_start: "plain j \<Longrightarrow> \<exists>c r. json_print j = c # r \<and> value_start c"
proof (cases j)
  case (JInt i)
  have "\<exists>c r. digits_of n = c # r \<and> value_start c" for n
    using digits_of_all [of n]
    by (cases "digits_of n") (auto simp: is_ascii_digit_def value_start_def json_ws_def)
  with JInt show ?thesis by (auto simp: show_int_def value_start_def json_ws_def)
qed (auto simp: value_start_def json_ws_def print_string_def str_def)

lemma skip_ws_print: "plain j \<Longrightarrow> skip_ws (json_print j @ r) = json_print j @ r"
  using print_start [of j] by (auto simp: skip_ws_def value_start_def)

lemma skip_ws_punct [simp]:
  "skip_ws (44 # r) = 44 # r" "skip_ws (93 # r) = 93 # r" "skip_ws (125 # r) = 125 # r"
  "skip_ws (58 # r) = 58 # r" "skip_ws (34 # r) = 34 # r"
  by (simp_all add: skip_ws_def json_ws_def)

lemma scan_literal_int: "scan_literal (show_int i @ r) = None"
proof -
  have d: "\<exists>c t. digits_of n = c # t \<and> is_ascii_digit c" for n
    using digits_of_all [of n] by (cases "digits_of n") auto
  obtain c t where c: "digits_of (nat \<bar>i\<bar>) = c # t" "is_ascii_digit c" using d by blast
  show ?thesis
    using c by (cases "i < 0")
      (auto simp: scan_literal_def startswith_def str_def show_int_def is_ascii_digit_def)
qed

lemma length_join_map:
  "sum_list (map (\<lambda>x. length (f x)) xs) + (length xs - 1) = length (join [44] (map f xs))"
proof (induction xs)
  case Nil
  then show ?case by simp
next
  case (Cons x xs)
  then show ?case by (cases xs) auto
qed

lemma join_step: "xs \<noteq> [] \<Longrightarrow> join sep (x # xs) = x @ sep @ join sep xs"
  by (cases xs) auto

lemma join_map_start:
  assumes "xs \<noteq> []" "\<And>x. x \<in> set xs \<Longrightarrow> \<exists>c r. f x = c # r \<and> p c"
  shows "\<exists>c r. join [44] (map f xs) = c # r \<and> p c"
  using assms by (cases xs; cases "tl xs") fastforce+

definition scans :: "json \<Rightarrow> bool" where
  "scans j \<longleftrightarrow> (\<forall>n r. 2 * length (json_print j) \<le> n \<longrightarrow> number_end r \<longrightarrow>
     scan_value n (json_print j @ r) = Some (j, r))"

lemma scansD:
  "scans j \<Longrightarrow> 2 * length (json_print j) \<le> n \<Longrightarrow> number_end r \<Longrightarrow>
     scan_value n (json_print j @ r) = Some (j, r)"
  by (simp add: scans_def)

lemma number_end_punct [simp]:
  "number_end []" "number_end (44 # r)" "number_end (93 # r)" "number_end (125 # r)"
  by (simp_all add: number_end_def is_ascii_digit_def)

definition starts :: "json \<Rightarrow> bool" where
  "starts j \<longleftrightarrow> (\<exists>c r. json_print j = c # r \<and> value_start c)"

lemma scan_elems_starts:
  assumes "xs \<noteq> []" "\<forall>x \<in> set xs. starts x \<and> scans x"
    and "2 * length (join [44] (map json_print xs)) + 1 \<le> n"
  shows "scan_elems n (join [44] (map json_print xs) @ 93 # r) = Some (xs, r)"
  using assms
proof (induction xs arbitrary: n)
  case Nil
  then show ?case by simp
next
  case (Cons x xs)
  then obtain m where m: "n = Suc m" by (cases n) auto
  show ?case
  proof (cases "xs = []")
    case True
    with Cons.prems m show ?thesis
      by (simp add: scan_elems.simps scansD)
  next
    case False
    let ?t = "join [44] (map json_print xs)"
    have j: "join [44] (map json_print (x # xs)) = json_print x @ 44 # ?t"
      using False by (simp add: join_step)
    have "\<exists>c q. ?t = c # q \<and> value_start c"
      using join_map_start [OF False, of json_print value_start] Cons.prems(2) starts_def by auto
    then have ws: "skip_ws (?t @ 93 # r) = ?t @ 93 # r"
      by (auto simp: skip_ws_def value_start_def)
    have v: "scan_value m (json_print x @ 44 # ?t @ 93 # r) = Some (x, 44 # ?t @ 93 # r)"
      using Cons.prems m j by (intro scansD) auto
    have e: "scan_elems m (?t @ 93 # r) = Some (xs, r)"
      using Cons.IH [of m] Cons.prems False m j by auto
    show ?thesis using v e ws unfolding m j by (simp add: scan_elems.simps)
  qed
qed

lemma scan_elems_print:
  assumes "xs \<noteq> []" "\<forall>x \<in> set xs. plain x \<and> scans x"
    and "2 * length (join [44] (map json_print xs)) + 1 \<le> n"
  shows "scan_elems n (join [44] (map json_print xs) @ 93 # r) = Some (xs, r)"
  using assms print_start by (intro scan_elems_starts) (auto simp: starts_def)

lemma scans_array:
  assumes "xs \<noteq> []" "\<forall>x \<in> set xs. starts x \<and> scans x"
  shows "scans (JArr xs)"
  unfolding scans_def
proof (intro allI impI)
  fix n r assume n: "2 * length (json_print (JArr xs)) \<le> n"
  then obtain m where m: "n = Suc m" by (cases n) auto
  obtain c q where c: "join [44] (map json_print xs) = c # q" "value_start c"
    using join_map_start [OF assms(1), of json_print value_start] assms(2) starts_def by auto
  have "scan_elems m (join [44] (map json_print xs) @ 93 # r) = Some (xs, r)"
    using scan_elems_starts [OF assms] n m by auto
  with c m show "scan_value n (json_print (JArr xs) @ r) = Some (JArr xs, r)"
    by (simp add: scan_value.simps skip_ws_def value_start_def)
qed

text \<open>Strings with lone low surrogates also scan back.\<close>

lemma scans_string: "list_all json_cp s \<Longrightarrow> scans (JStr s)"
  unfolding scans_def
proof (intro allI impI)
  fix n r assume s: "list_all json_cp s" and "2 * length (json_print (JStr s)) \<le> n"
  then obtain m where "n = Suc m" by (cases n) (auto simp: print_string_def)
  then show "scan_value n (json_print (JStr s) @ r) = Some (JStr s, r)"
    using scan_string_printed_cp [OF s, of r] by (simp add: scan_value.simps print_string_def)
qed

definition member_text :: "pystr \<times> json \<Rightarrow> pystr" where
  "member_text kv = print_string (fst kv) @ 58 # json_print (snd kv)"

lemma json_print_obj: "json_print (JObj kvs) = 123 # join [44] (map member_text kvs) @ [125]"
proof -
  have "(\<lambda>(k, v). print_string k @ 58 # json_print v) = member_text"
    by (auto simp: member_text_def)
  then show ?thesis by simp
qed

lemma member_text_start: "\<exists>q. member_text kv = 34 # q"
  by (simp add: member_text_def print_string_def)

lemma scan_members_print:
  assumes "kvs \<noteq> []" "\<forall>kv \<in> set kvs. list_all scalar (fst kv) \<and> plain (snd kv) \<and> scans (snd kv)"
    and "2 * length (join [44] (map member_text kvs)) + 1 \<le> n"
  shows "scan_members n (join [44] (map member_text kvs) @ 125 # r) = Some (kvs, r)"
  using assms
proof (induction kvs arbitrary: n)
  case Nil
  then show ?case by simp
next
  case (Cons kv kvs)
  then obtain m where m: "n = Suc m" by (cases n) auto
  obtain k v where kv: "kv = (k, v)" by force
  have pk: "list_all scalar k" and pv: "plain v" "scans v" using Cons.prems(2) kv by auto
  have ps: "print_string k = 34 # tl (print_string k)" by (simp add: print_string_def)
  have step: "scan_members (Suc m) (member_text kv @ q) =
      (case scan_value m (json_print v @ q) of
         None \<Rightarrow> None
       | Some (v, r3) \<Rightarrow>
           (case skip_ws r3 of [] \<Rightarrow> None
            | e # r4 \<Rightarrow>
                if e = 125 then Some ([(k, v)], r4)
                else if e = 44
                then map_option (\<lambda>(kvs, q). ((k, v) # kvs, q)) (scan_members m (skip_ws r4))
                else None))" for q
  proof -
    let ?z = "58 # json_print v @ q"
    have "member_text kv @ q = 34 # (tl (print_string k) @ ?z)"
      using ps kv by (simp add: member_text_def)
    then show ?thesis
      using scan_string_printed [OF pk, of ?z] skip_ws_print [OF pv(1), of q]
      by (simp add: scan_members.simps)
  qed
  show ?case
  proof (cases "kvs = []")
    case True
    have "2 * length (json_print v) \<le> m" using Cons.prems(3) m True kv by (simp add: member_text_def)
    then have "scan_value m (json_print v @ 125 # r) = Some (v, 125 # r)"
      using pv by (intro scansD) auto
    with True kv step [of "125 # r"] show ?thesis unfolding m by simp
  next
    case False
    let ?t = "join [44] (map member_text kvs)"
    have j: "join [44] (map member_text (kv # kvs)) = member_text kv @ 44 # ?t"
      using False by (simp add: join_step)
    have "\<exists>c q. ?t = c # q \<and> c = 34"
      using join_map_start [OF False, of member_text "\<lambda>c. c = 34"] member_text_start by blast
    then have ws: "skip_ws (?t @ 125 # r) = ?t @ 125 # r" by auto
    have "length (member_text kv @ 44 # ?t) * 2 < n" using Cons.prems(3) unfolding j by simp
    then have "2 * length (json_print v) \<le> m" using m kv by (simp add: member_text_def)
    then have v: "scan_value m (json_print v @ 44 # ?t @ 125 # r) = Some (v, 44 # ?t @ 125 # r)"
      using pv by (intro scansD) auto
    have e: "scan_members m (?t @ 125 # r) = Some (kvs, r)"
      using Cons.IH [of m] Cons.prems False m j by auto
    show ?thesis using v e ws kv step [of "44 # ?t @ 125 # r"] unfolding m j by simp
  qed
qed

lemma scan_value_print: "plain j \<Longrightarrow> scans j"
proof (induction j)
  case (JStr s)
  then show ?case using scalars_json_cp by (intro scans_string) simp
next
  case (JArr xs)
  show ?case
  proof (cases "xs = []")
    case True
    have "scan_value n ([91, 93] @ r) = Some (JArr [], r)" if "2 * length (json_print (JArr [])) \<le> n" for n r
      using that by (cases n) (simp_all add: scan_value.simps)
    with True show ?thesis by (simp add: scans_def)
  next
    case False
    with JArr print_start show ?thesis by (intro scans_array) (auto simp: starts_def)
  qed
next
  case (JObj kvs)
  show ?case unfolding scans_def
  proof (intro allI impI)
    fix n r assume n: "2 * length (json_print (JObj kvs)) \<le> n"
    then obtain m where m: "n = Suc m" by (cases n) auto
    show "scan_value n (json_print (JObj kvs) @ r) = Some (JObj kvs, r)"
    proof (cases "kvs = []")
      case True
      with m show ?thesis by (simp add: scan_value.simps)
    next
      case False
      have all: "\<forall>kv \<in> set kvs. list_all scalar (fst kv) \<and> plain (snd kv) \<and> scans (snd kv)"
        using JObj by fastforce
      obtain c q where c: "join [44] (map member_text kvs) = c # q" "c = 34"
        using join_map_start [OF False, of member_text "\<lambda>c. c = 34"] member_text_start by blast
      have "scan_members m (join [44] (map member_text kvs) @ 125 # r) = Some (kvs, r)"
        using scan_members_print [OF False all] n m unfolding json_print_obj by auto
      moreover have "dict_of kvs = kvs" using JObj.prems by (simp add: dict_of_distinct)
      ultimately show ?thesis using c m unfolding json_print_obj by (simp add: scan_value.simps)
    qed
  qed
next
  case (JInt i)
  show ?case unfolding scans_def
  proof (intro allI impI)
    fix n r assume n: "2 * length (json_print (JInt i)) \<le> n" and r: "number_end r"
    obtain c q where c: "show_int i = c # q" "value_start c"
      using print_start [of "JInt i"] by auto
    have "c \<noteq> 34 \<and> c \<noteq> 91 \<and> c \<noteq> 123"
      using c(1) digits_of_all [of "nat i"]
      by (auto simp: show_int_def is_ascii_digit_def split: if_splits)
    moreover from n c(1) obtain m where "n = Suc m" by (cases n) auto
    ultimately show "scan_value n (json_print (JInt i) @ r) = Some (JInt i, r)"
      using scan_literal_int [of i r] scan_number_int [OF r, of i] c(1)
      by (simp add: scan_value.simps)
  qed
next
  case JNull
  show ?case unfolding scans_def
  proof (intro allI impI)
    fix n r assume "2 * length (json_print JNull) \<le> n"
    then obtain m where "n = Suc m" by (cases n) auto
    then show "scan_value n (json_print JNull @ r) = Some (JNull, r)"
      by (simp add: str_def scan_value.simps scan_literal_def startswith_def)
  qed
next
  case (JBool b)
  show ?case unfolding scans_def
  proof (intro allI impI)
    fix n r assume "2 * length (json_print (JBool b)) \<le> n"
    then obtain m where "n = Suc m" by (cases n) (auto split: if_splits)
    then show "scan_value n (json_print (JBool b) @ r) = Some (JBool b, r)"
      by (simp add: str_def scan_value.simps scan_literal_def startswith_def)
  qed
qed simp

section \<open>Round trip\<close>

lemma set_insert_key [simp]: "set (insert_key kv xs) = insert kv (set xs)"
  by (induction xs) auto

lemma distinct_insert_key:
  "distinct (map fst (insert_key kv xs)) \<longleftrightarrow> distinct (map fst (kv # xs))"
  by (induction xs) auto

lemma foldr_insert_key_facts:
  "set (foldr insert_key kvs []) = set kvs \<and>
   (distinct (map fst (foldr insert_key kvs [])) \<longleftrightarrow> distinct (map fst kvs))"
  by (induction kvs) (auto simp: distinct_insert_key image_iff)

lemma plain_sort_keys: "plain j \<Longrightarrow> plain (sort_keys j)"
proof (induction j)
  case (JObj kvs)
  let ?m = "map (\<lambda>(k, v). (k, sort_keys v)) kvs"
  have "map fst ?m = map fst kvs" by (simp add: case_prod_beta comp_def)
  with JObj foldr_insert_key_facts [of ?m] show ?case by (fastforce simp del: map_map)
qed auto

lemma json_loads_print:
  assumes "plain j"
  shows "json_loads (json_print j) = Some j"
proof -
  have "scan_value (json_fuel (json_print j)) (json_print j @ []) = Some (j, [])"
    using scan_value_print [OF assms] by (intro scansD) (simp_all add: json_fuel_def)
  then show ?thesis
    using skip_ws_print [OF assms, of "[]"] by (simp add: json_loads_def skip_ws_def)
qed

lemma json_loads_dumps: "plain j \<Longrightarrow> json_loads (json_dumps j) = Some (sort_keys j)"
  unfolding json_dumps_def by (intro json_loads_print plain_sort_keys)

lemma hex4_ascii: "ascii (hex4 n)"
proof -
  have "hex_digit (k mod 16) < 128" for k
    using mod_less_divisor [of 16 k] unfolding hex_digit_def by (auto intro: less_trans)
  then show ?thesis by (simp add: hex4_def ascii_def)
qed

lemma escape_char_ascii: "ascii (escape_char c)"
  using hex4_ascii unfolding escape_char_def u_escape_def ascii_def by auto

lemma print_string_ascii: "ascii (print_string s)"
  using escape_char_ascii by (auto simp: ascii_def print_string_def)

lemma digits_ascii: "ascii (digits_of n)"
  using digits_of_all [of n] by (auto simp: ascii_def list_all_iff is_ascii_digit_def)

lemma join_ascii: "\<forall>x \<in> set xs. ascii x \<Longrightarrow> ascii (join [44] xs)"
proof (induction xs)
  case (Cons x xs)
  then show ?case by (cases xs) (auto simp: ascii_def)
qed (simp add: ascii_def)

lemma json_print_ascii: "plain j \<Longrightarrow> ascii (json_print j)"
proof (induction j)
  case (JInt i)
  show ?case using digits_ascii by (auto simp: show_int_def ascii_def)
next
  case (JArr xs)
  then have "ascii (join [44] (map json_print xs))" by (intro join_ascii) auto
  then show ?case by (auto simp: ascii_def)
next
  case (JObj kvs)
  then have "\<forall>kv \<in> set kvs. ascii (member_text kv)"
    using print_string_ascii by (fastforce simp: member_text_def ascii_def)
  then have "ascii (join [44] (map member_text kvs))" by (intro join_ascii) auto
  then show ?case unfolding json_print_obj by (auto simp: ascii_def)
qed (auto simp: ascii_def str_def print_string_ascii [unfolded ascii_def])

lemma json_dumps_ascii: "plain j \<Longrightarrow> ascii (json_dumps j)"
  unfolding json_dumps_def by (intro json_print_ascii plain_sort_keys)

end
