(* ===== verification/Tunnel_Protocol.thy ===== *)
theory Tunnel_Protocol
  imports Crypto Json_Facts
begin

text \<open>
  \<open>vibeconnect_common/tunnel.py\<close>: the framed protocol.  A frame is a four-byte big-endian header
  length, a JSON header of at most 16 KiB and the payload.  The locale \<open>frame_codec\<close> states what
  the stream readers of the server and of the agent rely on: the header fits its prefix and
  determines the payload length, and decoding inverts encoding.
\<close>

definition FRAME_HEADER_MAX_BYTES :: nat where
  "FRAME_HEADER_MAX_BYTES = 16 * 1024"

definition DEFAULT_FRAME_MAX_BYTES :: int where
  "DEFAULT_FRAME_MAX_BYTES = 1024 * 1024"

record DecodedTunnelFrame =
  dec_frame :: TunnelFrame
  dec_payload :: bytes

record TunnelSecretRotation =
  rot_request_id :: pystr
  rot_node_name :: pystr
  rot_tunnel_secret :: secret

section \<open>Lengths in four bytes\<close>

text \<open>\<open>struct.pack("!I", n)\<close> and \<open>struct.unpack("!I", data)\<close>.\<close>

definition pack_u32 :: "nat \<Rightarrow> bytes" where
  "pack_u32 n = [of_nat (n div 16777216), of_nat (n div 65536 mod 256), of_nat (n div 256 mod 256),
                 of_nat (n mod 256)]"

fun unpack_u32 :: "bytes \<Rightarrow> nat" where
  "unpack_u32 [a, b, c, d] = ((unat a * 256 + unat b) * 256 + unat c) * 256 + unat d"
| "unpack_u32 _ = 0"

lemma length_pack_u32 [simp]: "length (pack_u32 n) = 4"
  by (simp add: pack_u32_def)

lemma horner256: "b = c * 256 + b' \<Longrightarrow> a = b * 256 + a' \<Longrightarrow> n = a * 256 + n' \<Longrightarrow>
  ((c * 256 + b') * 256 + a') * 256 + n' = (n::nat)"
  by simp

lemma unpack_pack_u32:
  assumes "n < 4294967296"
  shows "unpack_u32 (pack_u32 n) = n"
proof -
  define a b c where "a = n div 256" and "b = a div 256" and "c = b div 256"
  have q: "n div 65536 = b" "n div 16777216 = c" "n div 256 = a"
    unfolding a_def b_def c_def by (simp_all add: div_mult2_eq [symmetric])
  have c: "c < 256"
    using assms unfolding q(2) [symmetric] by (simp add: less_mult_imp_div_less)
  have u: "unat (of_nat (k mod 256) :: byte) = k mod 256" for k
    by (rule unat_of_nat_byte) simp
  have "unpack_u32 (pack_u32 n) = ((c * 256 + b mod 256) * 256 + a mod 256) * 256 + n mod 256"
    unfolding pack_u32_def q by (simp only: unpack_u32.simps u unat_of_nat_byte [OF c])
  also have "\<dots> = n"
  proof (rule horner256)
    show "b = c * 256 + b mod 256" unfolding c_def by (rule div_mult_mod_eq [symmetric])
    show "a = b * 256 + a mod 256" unfolding b_def by (rule div_mult_mod_eq [symmetric])
    show "n = a * 256 + n mod 256" unfolding a_def by (rule div_mult_mod_eq [symmetric])
  qed
  finally show ?thesis .
qed

lemma pack_unpack_u32:
  assumes "length b = 4"
  shows "pack_u32 (unpack_u32 b) = b"
proof -
  from assms obtain w x y z where b: "b = [w, x, y, z]"
    by (auto simp: numeral_eq_Suc length_Suc_conv)
  have l: "unat v < 256" for v :: byte by (rule order_less_le_trans [OF unsigned_less]) simp
  have d: "(k * 256 + c) div 256 = k \<and> (k * 256 + c) mod 256 = c" if "c < 256" for k c :: nat
    using that by simp
  define p q r where "p = unat w" and "q = p * 256 + unat x" and "r = q * 256 + unat y"
  let ?n = "r * 256 + unat z"
  have n: "?n div 256 = r" "?n mod 256 = unat z" "r div 256 = q" "r mod 256 = unat y"
    "q div 256 = p" "q mod 256 = unat x"
    unfolding q_def r_def by (simp_all only: d [OF l])
  have "?n div 16777216 = ?n div 256 div 256 div 256" "?n div 65536 = ?n div 256 div 256"
    by (simp_all only: div_mult2_eq [symmetric]) simp_all
  then have "?n div 16777216 = p" "?n div 65536 mod 256 = unat x" "?n div 256 mod 256 = unat y"
    by (simp_all only: n)
  then have "pack_u32 ?n = b"
    unfolding b pack_u32_def by (simp only: n p_def of_nat_unat ucast_id)
  moreover have "unpack_u32 b = ?n" unfolding b by (simp only: unpack_u32.simps p_def q_def r_def)
  ultimately show ?thesis by simp
qed

section \<open>Encoding\<close>

definition validate_payload_length :: "int \<Rightarrow> int \<Rightarrow> unit result" where
  "validate_payload_length payload_length max_frame_bytes =
     (if max_frame_bytes \<le> 0 then Inl (TunnelProtocolError ''max_frame_bytes must be positive'')
      else if payload_length > max_frame_bytes
      then Inl (TunnelProtocolError ''frame payload is too large'')
      else Inr ())"

definition validate_frame_size :: "bytes \<Rightarrow> int \<Rightarrow> unit result" where
  "validate_frame_size payload max_frame_bytes =
     validate_payload_length (int (length payload)) max_frame_bytes"

definition json_opt :: "pystr option \<Rightarrow> json" where
  "json_opt v = (case v of None \<Rightarrow> JNull | Some s \<Rightarrow> JStr s)"

definition frame_header :: "TunnelFrameType \<Rightarrow> pystr \<Rightarrow> pystr option \<Rightarrow> nat \<Rightarrow> json" where
  "frame_header frame_type request_id channel_id payload_length =
     JObj [(str ''type'', JStr (TunnelFrameType_value frame_type)),
           (str ''request_id'', JStr request_id),
           (str ''channel_id'', json_opt channel_id),
           (str ''payload_length'', JInt (int payload_length))]"

text \<open>\<open>json.dumps(...).encode("utf-8")\<close>; the text is ASCII, so encoding it cannot fail.\<close>

definition dumps_bytes :: "json \<Rightarrow> bytes" where
  "dumps_bytes j = ascii_bytes (json_dumps j)"

definition encode_frame ::
  "TunnelFrameType \<Rightarrow> pystr \<Rightarrow> pystr option \<Rightarrow> bytes \<Rightarrow> int \<Rightarrow> bytes result" where
  "encode_frame frame_type request_id channel_id payload max_frame_bytes =
     rbind (validate_frame_size payload max_frame_bytes) (\<lambda>_.
     if request_id = [] then Inl (TunnelProtocolError ''request_id is required'') else
     (let header_bytes = dumps_bytes (frame_header frame_type request_id channel_id (length payload))
      in if length header_bytes > FRAME_HEADER_MAX_BYTES
         then Inl (TunnelProtocolError ''frame header is too large'')
         else Inr (pack_u32 (length header_bytes) @ header_bytes @ payload)))"

section \<open>Decoding\<close>

text \<open>\<open>dict.get\<close> on a decoded object; an absent key is \<open>None\<close>, which is also how \<open>null\<close> reads.\<close>

definition jget :: "(pystr \<times> json) list \<Rightarrow> string \<Rightarrow> json" where
  "jget kvs k = (case map_of kvs (str k) of None \<Rightarrow> JNull | Some v \<Rightarrow> v)"

definition loads_bytes :: "bytes \<Rightarrow> json option" where
  "loads_bytes b = Option.bind (utf8_decode b) json_loads"

definition decode_frame_type :: "json \<Rightarrow> TunnelFrameType result" where
  "decode_frame_type v = (case v of
     JStr s \<Rightarrow> (case TunnelFrameType_of_value s of
         None \<Rightarrow> Inl (TunnelProtocolError ''unknown frame type'')
       | Some t \<Rightarrow> Inr t)
   | _ \<Rightarrow> Inl (TunnelProtocolError ''frame type is required''))"

definition decode_header ::
  "json \<Rightarrow> int \<Rightarrow> (TunnelFrameType \<times> pystr \<times> pystr option \<times> int) result" where
  "decode_header header max_frame_bytes = (case header of
     JObj kvs \<Rightarrow>
       rbind (decode_frame_type (jget kvs ''type'')) (\<lambda>frame_type.
       rbind (case jget kvs ''request_id'' of
                JStr r \<Rightarrow> if r = [] then Inl (TunnelProtocolError ''request_id is required'') else Inr r
              | _ \<Rightarrow> Inl (TunnelProtocolError ''request_id is required'')) (\<lambda>request_id.
       rbind (case jget kvs ''channel_id'' of
                JNull \<Rightarrow> Inr None
              | JStr c \<Rightarrow> Inr (Some c)
              | _ \<Rightarrow> Inl (TunnelProtocolError ''channel_id must be a string or null'')) (\<lambda>channel_id.
       rbind (case jget kvs ''payload_length'' of
                JInt i \<Rightarrow> Inr i
              | _ \<Rightarrow> Inl (TunnelProtocolError ''payload_length must be an integer'')) (\<lambda>payload_length.
       rbind (require (\<not> payload_length < 0)
               (TunnelProtocolError ''payload_length cannot be negative'')) (\<lambda>_.
       rbind (validate_payload_length payload_length max_frame_bytes) (\<lambda>_.
       Inr (frame_type, request_id, channel_id, payload_length)))))))
   | _ \<Rightarrow> Inl (TunnelProtocolError ''frame header must be an object''))"

definition decode_frame :: "bytes \<Rightarrow> int \<Rightarrow> DecodedTunnelFrame result" where
  "decode_frame data max_frame_bytes =
     (if length data < 4 then Inl (TunnelProtocolError ''frame header length is missing'') else
      let header_length = unpack_u32 (take 4 data); header_end = 4 + header_length
      in if header_length = 0 \<or> header_length > FRAME_HEADER_MAX_BYTES
         then Inl (TunnelProtocolError ''frame header length is invalid'')
         else if length data < header_end
         then Inl (TunnelProtocolError ''frame header is incomplete'')
         else (case loads_bytes (take header_length (drop 4 data)) of
             None \<Rightarrow> Inl (TunnelProtocolError ''frame header is not valid JSON'')
           | Some header \<Rightarrow>
               rbind (decode_header header max_frame_bytes)
                 (\<lambda>(frame_type, request_id, channel_id, payload_length).
                    let payload = drop header_end data
                    in if int (length payload) \<noteq> payload_length
                       then Inl (TunnelProtocolError ''frame payload length mismatch'')
                       else Inr \<lparr>dec_frame = \<lparr>tf_type = frame_type, tf_request_id = request_id,
                                   tf_channel_id = channel_id, tf_payload_length = payload_length\<rparr>,
                                 dec_payload = payload\<rparr>)))"

section \<open>Tunnel secret rotation\<close>

definition rotation_payload :: "pystr \<Rightarrow> secret \<Rightarrow> json" where
  "rotation_payload node_name tunnel_secret =
     JObj [(str ''node_name'', JStr node_name), (str ''tunnel_secret'', JStr (reveal tunnel_secret))]"

definition encode_tunnel_secret_rotation ::
  "pystr \<Rightarrow> pystr \<Rightarrow> secret \<Rightarrow> int \<Rightarrow> bytes result" where
  "encode_tunnel_secret_rotation request_id node_name tunnel_secret max_frame_bytes =
     rbind (validate_node_name node_name) (\<lambda>name.
     encode_frame ROTATE_TUNNEL_SECRET request_id None
       (dumps_bytes (rotation_payload name tunnel_secret)) max_frame_bytes)"

definition decode_tunnel_secret_rotation :: "bytes \<Rightarrow> int \<Rightarrow> TunnelSecretRotation result" where
  "decode_tunnel_secret_rotation data max_frame_bytes =
     rbind (decode_frame data max_frame_bytes) (\<lambda>decoded.
     if tf_type (dec_frame decoded) \<noteq> ROTATE_TUNNEL_SECRET
     then Inl (TunnelProtocolError ''frame is not a tunnel-secret rotation'')
     else if tf_channel_id (dec_frame decoded) \<noteq> None
     then Inl (TunnelProtocolError ''tunnel-secret rotation must be a control frame'')
     else (case loads_bytes (dec_payload decoded) of
         None \<Rightarrow> Inl (TunnelProtocolError ''tunnel-secret rotation payload is invalid'')
       | Some (JObj kvs) \<Rightarrow>
           (case jget kvs ''node_name'' of
              JStr node_name \<Rightarrow>
                (case jget kvs ''tunnel_secret'' of
                   JStr tunnel_secret \<Rightarrow>
                     if tunnel_secret = []
                     then Inl (TunnelProtocolError ''tunnel_secret is required'')
                     else rbind (validate_node_name node_name) (\<lambda>name.
                          rbind (SecretValue tunnel_secret) (\<lambda>s.
                          Inr \<lparr>rot_request_id = tf_request_id (dec_frame decoded),
                               rot_node_name = name, rot_tunnel_secret = s\<rparr>))
                 | _ \<Rightarrow> Inl (TunnelProtocolError ''tunnel_secret is required''))
            | _ \<Rightarrow> Inl (TunnelProtocolError ''node_name is required''))
       | Some _ \<Rightarrow> Inl (TunnelProtocolError ''tunnel-secret rotation payload must be an object'')))"

section \<open>Facts about headers\<close>

lemma sort_keys_obj:
  assumes "distinct (map fst kvs)"
  shows "\<exists>kvs'. sort_keys (JObj kvs) = JObj kvs' \<and>
     (\<forall>k. map_of kvs' k = map_option sort_keys (map_of kvs k))"
proof -
  let ?m = "map (\<lambda>(k, v). (k, sort_keys v)) kvs"
  let ?s = "foldr insert_key ?m []"
  have d: "distinct (map fst ?m)" using assms by (simp add: case_prod_beta comp_def)
  then have "map_of ?s = map_of ?m"
    using foldr_insert_key_facts [of ?m] map_of_inject_set [of ?s ?m] by simp
  moreover have "map_of ?m k = map_option sort_keys (map_of kvs k)" for k
    by (induction kvs) auto
  ultimately show ?thesis by simp
qed

lemma dumps_bytes_loads:
  assumes "plain j"
  shows "loads_bytes (dumps_bytes j) = Some (sort_keys j)"
  using assms utf8_decode_ascii [OF json_dumps_ascii [OF assms]] json_loads_dumps [OF assms]
  by (simp add: loads_bytes_def dumps_bytes_def)

lemma frame_type_scalar: "list_all scalar (TunnelFrameType_value t)"
  by (cases t) (simp_all add: str_def scalar_def)

definition text_ok :: "pystr option \<Rightarrow> bool" where
  "text_ok c \<longleftrightarrow> (case c of None \<Rightarrow> True | Some s \<Rightarrow> list_all scalar s)"

lemma keys_scalar:
  "list_all scalar (str ''type'')" "list_all scalar (str ''request_id'')"
  "list_all scalar (str ''channel_id'')" "list_all scalar (str ''payload_length'')"
  "list_all scalar (str ''node_name'')" "list_all scalar (str ''tunnel_secret'')"
  by (simp_all add: str_def scalar_def)

lemma frame_header_plain:
  "list_all scalar r \<Longrightarrow> text_ok c \<Longrightarrow> plain (frame_header t r c n)"
  by (auto simp: frame_header_def json_opt_def keys_scalar frame_type_scalar text_ok_def
      split: option.splits)

lemma decode_frame_header:
  assumes "r \<noteq> []" "validate_payload_length (int n) m = Inr ()"
  shows "decode_header (sort_keys (frame_header t r c n)) m = Inr (t, r, c, int n)"
proof -
  let ?kvs = "[(str ''type'', JStr (TunnelFrameType_value t)), (str ''request_id'', JStr r),
    (str ''channel_id'', json_opt c), (str ''payload_length'', JInt (int n))]"
  have "distinct (map fst ?kvs)" by simp
  then obtain kvs' where k: "sort_keys (JObj ?kvs) = JObj kvs'"
    "\<And>k. map_of kvs' k = map_option sort_keys (map_of ?kvs k)"
    using sort_keys_obj by blast
  have g: "jget kvs' ''type'' = JStr (TunnelFrameType_value t)" "jget kvs' ''request_id'' = JStr r"
    "jget kvs' ''channel_id'' = json_opt c" "jget kvs' ''payload_length'' = JInt (int n)"
    unfolding jget_def k(2) by (simp_all add: json_opt_def split: option.splits)
  show ?thesis
    unfolding frame_header_def k(1) decode_header_def using assms g
    by (simp add: decode_frame_type_def json_opt_def split: option.splits)
qed

section \<open>The interface of the stream readers\<close>

text \<open>
  What a reader of a byte stream relies on.  \<open>fits\<close> are the messages the sender may encode,
  \<open>enc\<close> their bytes, \<open>dec\<close> the decoder of a complete frame and \<open>plen\<close> the payload length a
  reader takes out of the header bytes.
\<close>

locale frame_codec =
  fixes fits :: "'m \<Rightarrow> bool"
    and enc :: "'m \<Rightarrow> bytes"
    and dec :: "bytes \<Rightarrow> 'm result"
    and plen :: "bytes \<Rightarrow> int result"
  assumes decode_encode: "fits m \<Longrightarrow> dec (enc m) = Inr m"
    and prefix: "fits m \<Longrightarrow> \<exists>h p. enc m = pack_u32 (length h) @ h @ p \<and> h \<noteq> [] \<and>
      length h \<le> FRAME_HEADER_MAX_BYTES \<and> plen h = Inr (int (length p))"
begin

text \<open>One frame off the front of a buffer, and all the frames of a buffer.\<close>

definition split1 :: "bytes \<Rightarrow> ('m \<times> bytes) result" where
  "split1 s =
     (if length s < 4 then Inl (IncompleteReadError s) else
      let n = unpack_u32 (take 4 s); r = drop 4 s
      in if n = 0 \<or> n > FRAME_HEADER_MAX_BYTES then Inl (TunnelProtocolError ''frame header length is invalid'')
         else if length r < n then Inl (IncompleteReadError r)
         else rbind (plen (take n r)) (\<lambda>k.
           let q = drop n r
           in if int (length q) < k then Inl (IncompleteReadError q)
              else rbind (dec (take 4 s @ take n r @ take (nat k) q)) (\<lambda>m. Inr (m, drop (nat k) q))))"

lemma split1_encode:
  assumes "fits m"
  shows "split1 (enc m @ rest) = Inr (m, rest)"
proof -
  obtain h p where e: "enc m = pack_u32 (length h) @ h @ p" "h \<noteq> []"
    "length h \<le> FRAME_HEADER_MAX_BYTES" "plen h = Inr (int (length p))"
    using prefix [OF assms] by blast
  have u: "unpack_u32 (pack_u32 (length h)) = length h"
    using e(3) by (intro unpack_pack_u32) (simp add: FRAME_HEADER_MAX_BYTES_def)
  have d: "dec (pack_u32 (length h) @ h @ p) = Inr m"
    using decode_encode [OF assms] e(1) by simp
  show ?thesis
    unfolding split1_def e(1) using e(2,3,4) u d by (simp add: Let_def)
qed

lemma split1_shorter:
  assumes "split1 s = Inr (m, r)"
  shows "length r < length s"
proof -
  define n where "n = unpack_u32 (take 4 s)"
  define q where "q = drop n (drop 4 s)"
  have 4: "4 \<le> length s"
    using assms by (auto simp: split1_def split: if_splits)
  have "rbind (plen (take n (drop 4 s))) (\<lambda>k. if int (length q) < k then Inl (IncompleteReadError q)
      else rbind (dec (take 4 s @ take n (drop 4 s) @ take (nat k) q)) (\<lambda>m. Inr (m, drop (nat k) q)))
      = Inr (m, r)"
    using assms unfolding split1_def Let_def n_def [symmetric] q_def [symmetric]
    by (simp split: if_splits)
  then obtain k where "r = drop (nat k) q"
    by (auto simp: rbind_eq_Inr split: if_splits)
  with 4 show ?thesis by (simp add: q_def)
qed

lemma encode_inj:
  assumes "fits m" "fits n" "enc m @ r = enc n @ q"
  shows "m = n \<and> r = q"
proof -
  have "Inr (m, r) = split1 (enc n @ q)"
    using split1_encode [OF assms(1), of r] unfolding assms(3) by (rule sym)
  also have "\<dots> = Inr (n, q)" by (rule split1_encode [OF assms(2)])
  finally show ?thesis by simp
qed

lemma concat_encode_inj:
  assumes "\<forall>m \<in> set ms. fits m" "\<forall>n \<in> set ns. fits n" "concat (map enc ms) = concat (map enc ns)"
  shows "ms = ns"
  using assms
proof (induction ms arbitrary: ns)
  case Nil
  have "enc n \<noteq> []" if "fits n" for n using prefix [OF that] by (auto simp: pack_u32_def)
  with Nil show ?case by (cases ns) fastforce+
next
  case (Cons m ms)
  have "enc m \<noteq> []" using prefix [of m] Cons.prems(1) by (auto simp: pack_u32_def)
  with Cons.prems(3) obtain n ns' where ns: "ns = n # ns'" by (cases ns) auto
  with Cons.prems encode_inj [of m n "concat (map enc ms)" "concat (map enc ns')"]
  show ?case using Cons.IH [of ns'] by simp
qed

end

section \<open>The codec of the program\<close>

text \<open>
  A message is a frame with its payload; \<open>frame_fits m\<close> holds when \<open>encode_frame\<close> accepts it
  under the frame limit and its texts have no lone surrogate.
\<close>

definition frame_of :: "TunnelFrameType \<Rightarrow> pystr \<Rightarrow> pystr option \<Rightarrow> bytes \<Rightarrow> DecodedTunnelFrame" where
  "frame_of t r c p = \<lparr>dec_frame = \<lparr>tf_type = t, tf_request_id = r, tf_channel_id = c,
     tf_payload_length = int (length p)\<rparr>, dec_payload = p\<rparr>"

definition encode_decoded :: "int \<Rightarrow> DecodedTunnelFrame \<Rightarrow> bytes result" where
  "encode_decoded m d =
     encode_frame (tf_type (dec_frame d)) (tf_request_id (dec_frame d)) (tf_channel_id (dec_frame d))
       (dec_payload d) m"

definition frame_fits :: "int \<Rightarrow> DecodedTunnelFrame \<Rightarrow> bool" where
  "frame_fits m d \<longleftrightarrow>
     tf_payload_length (dec_frame d) = int (length (dec_payload d)) \<and>
     list_all scalar (tf_request_id (dec_frame d)) \<and> text_ok (tf_channel_id (dec_frame d)) \<and>
     (\<exists>b. encode_decoded m d = Inr b)"

definition frame_bytes :: "int \<Rightarrow> DecodedTunnelFrame \<Rightarrow> bytes" where
  "frame_bytes m d = (case encode_decoded m d of Inr b \<Rightarrow> b | Inl e \<Rightarrow> [])"

definition header_payload_length :: "int \<Rightarrow> bytes \<Rightarrow> int result" where
  "header_payload_length m h = (case loads_bytes h of
     None \<Rightarrow> Inl (TunnelProtocolError ''frame header is not valid JSON'')
   | Some j \<Rightarrow> rbind (decode_header j m) (\<lambda>(t, r, c, n). Inr n))"

lemma encode_frame_Inr:
  "encode_frame t r c p m = Inr b \<longleftrightarrow>
     validate_payload_length (int (length p)) m = Inr () \<and> r \<noteq> [] \<and>
     (let h = dumps_bytes (frame_header t r c (length p))
      in length h \<le> FRAME_HEADER_MAX_BYTES \<and> b = pack_u32 (length h) @ h @ p)"
  by (auto simp: encode_frame_def validate_frame_size_def Let_def exc_elims split: if_splits)

lemma dumps_bytes_nonempty: "j = frame_header t r c n \<Longrightarrow> dumps_bytes j \<noteq> []"
  by (simp add: dumps_bytes_def json_dumps_def frame_header_def ascii_bytes_def)

lemma decode_of_parts:
  assumes "h \<noteq> []" "length h \<le> FRAME_HEADER_MAX_BYTES" "loads_bytes h = Some j"
    and "decode_header j m = Inr (t, r, c, int (length p))"
  shows "decode_frame (pack_u32 (length h) @ h @ p) m = Inr (frame_of t r c p)"
proof -
  have u: "unpack_u32 (pack_u32 (length h)) = length h"
    using assms(2) by (intro unpack_pack_u32) (simp add: FRAME_HEADER_MAX_BYTES_def)
  show ?thesis using assms u by (simp add: decode_frame_def Let_def frame_of_def)
qed

lemma decode_encode_frame:
  assumes "encode_frame t r c p m = Inr b" "list_all scalar r" "text_ok c"
  shows "decode_frame b m = Inr (frame_of t r c p)"
proof -
  let ?j = "frame_header t r c (length p)"
  from assms(1) have v: "validate_payload_length (int (length p)) m = Inr ()" and r: "r \<noteq> []"
    and h: "length (dumps_bytes ?j) \<le> FRAME_HEADER_MAX_BYTES"
    and b: "b = pack_u32 (length (dumps_bytes ?j)) @ dumps_bytes ?j @ p"
    by (auto simp: encode_frame_Inr Let_def)
  show ?thesis unfolding b
    by (rule decode_of_parts [OF dumps_bytes_nonempty [OF refl] h
          dumps_bytes_loads [OF frame_header_plain [OF assms(2,3)]] decode_frame_header [OF r v]])
qed

lemma frame_codec_prefix:
  assumes "frame_fits m d"
  shows "\<exists>h p. frame_bytes m d = pack_u32 (length h) @ h @ p \<and> h \<noteq> [] \<and>
    length h \<le> FRAME_HEADER_MAX_BYTES \<and> header_payload_length m h = Inr (int (length p))"
proof -
  let ?t = "tf_type (dec_frame d)" and ?r = "tf_request_id (dec_frame d)"
  let ?c = "tf_channel_id (dec_frame d)" and ?p = "dec_payload d"
  let ?j = "frame_header ?t ?r ?c (length ?p)"
  from assms obtain b where b: "encode_decoded m d = Inr b" "list_all scalar ?r" "text_ok ?c"
    by (auto simp: frame_fits_def)
  have e: "frame_bytes m d = b" using b(1) by (simp add: frame_bytes_def)
  have "encode_frame ?t ?r ?c ?p m = Inr b" using b(1) by (simp add: encode_decoded_def)
  then have v: "validate_payload_length (int (length ?p)) m = Inr ()" and r: "?r \<noteq> []"
    and h: "length (dumps_bytes ?j) \<le> FRAME_HEADER_MAX_BYTES"
    and b2: "b = pack_u32 (length (dumps_bytes ?j)) @ dumps_bytes ?j @ ?p"
    unfolding encode_frame_Inr Let_def by blast+
  have "header_payload_length m (dumps_bytes ?j) = Inr (int (length ?p))"
    using dumps_bytes_loads [OF frame_header_plain [OF b(2,3)]] decode_frame_header [OF r v]
    by (simp add: header_payload_length_def)
  with e b2 h dumps_bytes_nonempty [OF refl] show ?thesis by blast
qed

lemma frame_codec_decode:
  assumes "frame_fits m d"
  shows "decode_frame (frame_bytes m d) m = Inr d"
proof -
  from assms obtain b where b: "encode_decoded m d = Inr b" by (auto simp: frame_fits_def)
  then have "decode_frame b m = Inr (frame_of (tf_type (dec_frame d)) (tf_request_id (dec_frame d))
      (tf_channel_id (dec_frame d)) (dec_payload d))"
    using assms unfolding encode_decoded_def by (intro decode_encode_frame) (auto simp: frame_fits_def)
  also have "frame_of (tf_type (dec_frame d)) (tf_request_id (dec_frame d))
      (tf_channel_id (dec_frame d)) (dec_payload d) = d"
    using assms by (cases d; cases "dec_frame d") (simp add: frame_of_def frame_fits_def)
  finally show ?thesis using b by (simp add: frame_bytes_def)
qed

interpretation fc: frame_codec "frame_fits m" "frame_bytes m" "\<lambda>b. decode_frame b m" "header_payload_length m"
  by unfold_locales (auto simp: frame_codec_decode intro: frame_codec_prefix)

section \<open>What a decoded frame is\<close>

lemma validate_payload_length_Inr [exc_elims]:
  "validate_payload_length n m = Inr u \<longleftrightarrow> 0 < m \<and> n \<le> m"
  by (auto simp: validate_payload_length_def)

lemma decode_header_Inr:
  "decode_header j m = Inr (t, r, c, n) \<Longrightarrow> r \<noteq> [] \<and> 0 \<le> n \<and> n \<le> m \<and> 0 < m"
  by (auto simp: decode_header_def exc_elims split: json.splits if_splits)

lemma decode_frame_Inr:
  assumes "decode_frame b m = Inr d"
  shows "\<exists>h j. b = pack_u32 (length h) @ h @ dec_payload d \<and> h \<noteq> [] \<and>
     length h \<le> FRAME_HEADER_MAX_BYTES \<and> loads_bytes h = Some j \<and>
     decode_header j m = Inr (tf_type (dec_frame d), tf_request_id (dec_frame d),
       tf_channel_id (dec_frame d), tf_payload_length (dec_frame d)) \<and>
     tf_payload_length (dec_frame d) = int (length (dec_payload d))"
proof -
  let ?n = "unpack_u32 (take 4 b)"
  let ?h = "take ?n (drop 4 b)"
  have 1: "4 \<le> length b" "?n \<noteq> 0" "?n \<le> FRAME_HEADER_MAX_BYTES" "4 + ?n \<le> length b"
    using assms by (auto simp: decode_frame_def Let_def split: if_splits)
  obtain j t r c n where 2: "loads_bytes ?h = Some j" "decode_header j m = Inr (t, r, c, n)"
    "n = int (length (drop (4 + ?n) b))"
    "d = \<lparr>dec_frame = \<lparr>tf_type = t, tf_request_id = r, tf_channel_id = c, tf_payload_length = n\<rparr>,
       dec_payload = drop (4 + ?n) b\<rparr>"
    using assms by (auto simp: decode_frame_def Let_def exc_elims split: if_splits option.splits)
  have len: "length ?h = ?n" using 1 by simp
  have "b = take 4 b @ ?h @ drop (4 + ?n) b"
    by (metis add.commute append_take_drop_id drop_drop)
  moreover have "take 4 b = pack_u32 ?n" using 1(1) by (intro pack_unpack_u32 [symmetric]) simp
  moreover have "dec_payload d = drop (4 + ?n) b" using 2(4) by simp
  ultimately have "b = pack_u32 (length ?h) @ ?h @ dec_payload d" using len by metis
  moreover have "?h \<noteq> []" using len 1(2) by auto
  ultimately show ?thesis using 1 2 len by (intro exI [of _ ?h] exI [of _ j]) auto
qed

section \<open>How long a header is\<close>

lemma sorted_frame_header:
  "sort_keys (frame_header t r c n) =
     JObj [(str ''channel_id'', json_opt c), (str ''payload_length'', JInt (int n)),
           (str ''request_id'', JStr r), (str ''type'', JStr (TunnelFrameType_value t))]"
  by (cases c) (simp_all add: frame_header_def json_opt_def str_def)

lemma length_digits_of: "n < 10 ^ k \<Longrightarrow> 0 < k \<Longrightarrow> length (digits_of n) \<le> k"
proof (induction n arbitrary: k rule: digits_of.induct)
  case (1 n)
  show ?case
  proof (cases "n < 10")
    case True
    with 1 show ?thesis by (subst digits_of.simps) simp
  next
    case False
    then obtain j where j: "k = Suc j" "0 < j" using 1(2,3) by (cases k; cases "k - 1") auto
    with 1(2) have "n div 10 < 10 ^ j" by (simp add: less_mult_imp_div_less)
    with 1(1) False j show ?thesis by (subst digits_of.simps) simp
  qed
qed

lemma length_escape_char: "length (escape_char c) \<le> 12"
  by (auto simp: escape_char_def u_escape_def hex4_def)

lemma length_print_string: "length (print_string s) \<le> 12 * length s + 2"
proof -
  have "length (concat (map escape_char s)) \<le> 12 * length s"
  proof (induction s)
    case (Cons c s)
    then show ?case using length_escape_char [of c] by simp
  qed simp
  then show ?thesis by (simp add: print_string_def)
qed

lemma length_type_value: "length (TunnelFrameType_value t) \<le> 20"
  by (cases t) simp_all

definition opt_length :: "pystr option \<Rightarrow> nat" where
  "opt_length c = (case c of None \<Rightarrow> 0 | Some s \<Rightarrow> length s)"

lemma length_json_opt: "length (json_print (json_opt c)) \<le> 12 * opt_length c + 4"
proof (cases c)
  case (Some s)
  then show ?thesis using length_print_string [of s] by (simp add: json_opt_def opt_length_def)
qed (simp add: json_opt_def opt_length_def)

lemma length_frame_header:
  assumes "n < 10 ^ 100"
  shows "length (dumps_bytes (frame_header t r c n)) \<le> 12 * (length r + opt_length c) + 2000"
proof -
  have "length (show_int (int n)) \<le> 100"
    using length_digits_of [OF assms] by (simp add: show_int_def)
  then show ?thesis
    using length_print_string [of r] length_json_opt [of c] length_type_value [of t]
      length_print_string [of "TunnelFrameType_value t"]
      length_print_string [of "str ''channel_id''"] length_print_string [of "str ''payload_length''"]
      length_print_string [of "str ''request_id''"] length_print_string [of "str ''type''"]
    unfolding dumps_bytes_def json_dumps_def sorted_frame_header
    by simp
qed

lemma encode_frame_accepts:
  assumes "r \<noteq> []" "length r + opt_length c \<le> 1000" "0 < m" "int (length p) \<le> m"
    and "length p < 10 ^ 100"
  shows "\<exists>b. encode_frame t r c p m = Inr b"
proof -
  have "length (dumps_bytes (frame_header t r c (length p))) \<le> FRAME_HEADER_MAX_BYTES"
    using length_frame_header [OF assms(5), of t r c] assms(2) by (simp add: FRAME_HEADER_MAX_BYTES_def)
  with assms show ?thesis by (simp add: encode_frame_Inr exc_elims Let_def)
qed

lemma small_frame:
  "length p \<le> 60 \<Longrightarrow> r \<noteq> [] \<Longrightarrow> length r + opt_length c \<le> 1000 \<Longrightarrow> \<exists>b. encode_frame t r c p 64 = Inr b"
proof -
  assume *: "length p \<le> 60" "r \<noteq> []" "length r + opt_length c \<le> 1000"
  have "(60::nat) < 10 ^ 100" by simp
  with * show ?thesis by (intro encode_frame_accepts) auto
qed

section \<open>Properties\<close>

text \<open>C3: Every frame the encoder accepts decodes, under the same limit, to its type, request id,
  channel id and payload, provided the two ids have no lone surrogate.\<close>

theorem frame_roundtrip:
  assumes "encode_frame t r c p m = Inr b" "list_all scalar r" "text_ok c"
  shows "decode_frame b m = Inr (frame_of t r c p)"
  using assms by (rule decode_encode_frame)

theorem frame_roundtrip_witness:
  "\<exists>b. decode_frame b 64 = Inr (frame_of SESSION_DATA (str ''r1'') (Some (str ''c9'')) [1, 2, 255])"
proof -
  obtain b where b: "encode_frame SESSION_DATA (str ''r1'') (Some (str ''c9'')) [1, 2, 255] 64 = Inr b"
    using small_frame [of "[1, 2, 255]" "str ''r1''" "Some (str ''c9'')"] by (auto simp: opt_length_def)
  show ?thesis
    by (rule exI, rule frame_roundtrip [OF b]) (simp_all add: str_def scalar_def text_ok_def)
qed

text \<open>The encoder accepts every payload up to the limit under ids of at most 1000 characters in
  all, and refuses an empty request id, a limit that is not positive and a payload beyond it.\<close>

theorem encode_frame_domain:
  assumes "length r + opt_length c \<le> 1000" "length p < 10 ^ 100"
  shows "(\<exists>b. encode_frame t r c p m = Inr b) \<longleftrightarrow> r \<noteq> [] \<and> 0 < m \<and> int (length p) \<le> m"
  using encode_frame_accepts [of r c m p t] assms
  by (auto simp: encode_frame_Inr exc_elims)

theorem encode_frame_domain_witness:
  "(\<exists>b. encode_frame HEARTBEAT (str ''r1'') None [1, 2] 2 = Inr b) \<and>
   \<not> (\<exists>b. encode_frame HEARTBEAT (str ''r1'') None [1, 2] 1 = Inr b)"
proof -
  have "(2::nat) < 10 ^ 100" by simp
  then show ?thesis
    using encode_frame_domain [of "str ''r1''" None "[1, 2]" HEARTBEAT 2]
      encode_frame_domain [of "str ''r1''" None "[1, 2]" HEARTBEAT 1] by (simp add: opt_length_def)
qed

text \<open>A decoded frame is bounded: the input is a four-byte length, a header of at most 16 KiB
  and the payload, whose length is the announced one and at most the limit; the request id is
  never empty.\<close>

theorem decode_frame_bounds:
  assumes "decode_frame b m = Inr d"
  shows "tf_payload_length (dec_frame d) = int (length (dec_payload d)) \<and>
    int (length (dec_payload d)) \<le> m \<and> tf_request_id (dec_frame d) \<noteq> [] \<and>
    (\<exists>h. b = pack_u32 (length h) @ h @ dec_payload d \<and> 0 < length h \<and>
         length h \<le> FRAME_HEADER_MAX_BYTES)"
  using decode_frame_Inr [OF assms] by (force dest: decode_header_Inr)

theorem decode_frame_bounds_witness:
  "\<exists>b d. decode_frame b 64 = Inr d \<and> int (length (dec_payload d)) \<le> 64 \<and>
     tf_request_id (dec_frame d) \<noteq> []"
proof -
  obtain b where b: "encode_frame AUTH (str ''r1'') None [7] 64 = Inr b"
    using small_frame [of "[7]" "str ''r1''" None] by (auto simp: opt_length_def)
  have "decode_frame b 64 = Inr (frame_of AUTH (str ''r1'') None [7])"
    by (rule decode_encode_frame [OF b]) (simp_all add: str_def scalar_def text_ok_def)
  with decode_frame_bounds [OF this] show ?thesis by blast
qed

text \<open>A byte stream determines its frames: two sequences of encoded frames with the same
  concatenation are the same sequence, so no frame boundary is ambiguous.\<close>

theorem frame_stream_unambiguous:
  assumes "\<forall>d \<in> set ds. frame_fits m d" "\<forall>d \<in> set es. frame_fits m d"
    and "concat (map (frame_bytes m) ds) = concat (map (frame_bytes m) es)"
  shows "ds = es"
  using assms by (rule fc.concat_encode_inj)

lemma frame_fits_of:
  "encode_frame t r c p m = Inr b \<Longrightarrow> list_all scalar r \<Longrightarrow> text_ok c \<Longrightarrow> frame_fits m (frame_of t r c p)"
  by (simp add: frame_fits_def frame_of_def encode_decoded_def)

theorem frame_stream_unambiguous_witness:
  "concat (map (frame_bytes 64) [frame_of AUTH (str ''r1'') None [7]]) \<noteq>
     concat (map (frame_bytes 64) [frame_of AUTH (str ''r1'') None [8]])"
proof
  have fits: "frame_fits 64 (frame_of AUTH (str ''r1'') None [b])" for b
  proof -
    obtain d where "encode_frame AUTH (str ''r1'') None [b] 64 = Inr d"
      using small_frame [of "[b]" "str ''r1''" None] by (auto simp: opt_length_def)
    then show ?thesis by (rule frame_fits_of) (simp_all add: str_def scalar_def text_ok_def)
  qed
  assume "concat (map (frame_bytes 64) [frame_of AUTH (str ''r1'') None [7]]) =
    concat (map (frame_bytes 64) [frame_of AUTH (str ''r1'') None [8]])"
  from frame_stream_unambiguous [OF _ _ this] fits
  show False by (simp add: frame_of_def)
qed

text \<open>A tunnel-secret rotation survives the wire: decoding what the server encoded gives the
  request id, the node name and the new secret back.\<close>

theorem rotation_roundtrip:
  assumes "encode_tunnel_secret_rotation r n s m = Inr b"
    and "list_all scalar r" "list_all scalar (reveal s)" "43 \<le> length (reveal s)"
  shows "decode_tunnel_secret_rotation b m =
    Inr \<lparr>rot_request_id = r, rot_node_name = n, rot_tunnel_secret = s\<rparr>"
proof -
  from assms(1) have n: "py_fullmatch NODE_NAME_PATTERN n"
    and e: "encode_frame ROTATE_TUNNEL_SECRET r None (dumps_bytes (rotation_payload n s)) m = Inr b"
    by (auto simp: encode_tunnel_secret_rotation_def exc_elims)
  have d: "decode_frame b m =
      Inr (frame_of ROTATE_TUNNEL_SECRET r None (dumps_bytes (rotation_payload n s)))"
    by (rule decode_encode_frame [OF e assms(2)]) (simp add: text_ok_def)
  have "list_all scalar n"
    using valid_node_name_chars [OF n] node_char_cases by (fastforce simp: list_all_iff scalar_def)
  then have p: "plain (rotation_payload n s)"
    using assms(3) by (simp add: rotation_payload_def keys_scalar)
  let ?kvs = "[(str ''node_name'', JStr n), (str ''tunnel_secret'', JStr (reveal s))]"
  obtain kvs' where k: "sort_keys (JObj ?kvs) = JObj kvs'"
    "\<And>k. map_of kvs' k = map_option sort_keys (map_of ?kvs k)"
    using sort_keys_obj [of ?kvs] by auto
  have g: "jget kvs' ''node_name'' = JStr n" "jget kvs' ''tunnel_secret'' = JStr (reveal s)"
    unfolding jget_def k(2) by simp_all
  have "loads_bytes (dumps_bytes (rotation_payload n s)) = Some (JObj kvs')"
    using dumps_bytes_loads [OF p] k(1) by (simp add: rotation_payload_def)
  moreover have "SecretValue (reveal s) = Inr s" "validate_node_name n = Inr n" "reveal s \<noteq> []"
    using assms(4) n by (auto simp: exc_elims)
  ultimately show ?thesis using g by (simp add: decode_tunnel_secret_rotation_def d frame_of_def)
qed

theorem rotation_roundtrip_witness:
  "\<exists>b. decode_tunnel_secret_rotation b 4096 =
    Inr \<lparr>rot_request_id = str ''r1'', rot_node_name = str ''web-1'',
         rot_tunnel_secret = Secret (replicate 43 65)\<rparr>"
proof -
  have n: "validate_node_name (str ''web-1'') = Inr (str ''web-1'')"
    by (simp add: validate_node_name_def node_name_closed str_def is_alnum_cp_def node_char_def)
  let ?p = "dumps_bytes (rotation_payload (str ''web-1'') (Secret (replicate 43 65)))"
  have l: "length ?p \<le> 4000"
    using length_print_string [of "str ''node_name''"] length_print_string [of "str ''web-1''"]
      length_print_string [of "str ''tunnel_secret''"] length_print_string [of "replicate 43 65"]
    by (simp add: dumps_bytes_def json_dumps_def rotation_payload_def str_def)
  have "(4000::nat) < 10 ^ 100" by simp
  with l have "length ?p < 10 ^ 100" by linarith
  then obtain b where b: "encode_tunnel_secret_rotation (str ''r1'') (str ''web-1'')
      (Secret (replicate 43 65)) 4096 = Inr b"
    using encode_frame_accepts [of "str ''r1''" None 4096 ?p ROTATE_TUNNEL_SECRET] l
    by (auto simp: encode_tunnel_secret_rotation_def n opt_length_def)
  show ?thesis
    by (rule exI, rule rotation_roundtrip [OF b]) (simp_all add: str_def scalar_def list_all_iff)
qed

end
