(* ===== verification/Tunnel_State.thy ===== *)
theory Tunnel_State
  imports Database Tunnel_Protocol
begin

text \<open>
  The state of \<open>server/tunnel.py\<close> below the broker: the stored agent records and the two stores,
  the authenticator, the registry of active tunnels, the channel registry of one tunnel, heartbeat
  freshness, backpressure accounting and certificate renewal.  The locale \<open>tunnel_store\<close> is what
  the authenticator and the renewer rely on, \<open>channel_ids\<close> what the broker relies on.
\<close>

section \<open>Records\<close>

record AgentTunnelRecord =
  tr_agent_id :: uuid
  tr_node_name :: pystr
  tr_x509_public_key :: pystr
  tr_tunnel_secret_hash :: pystr
  tr_cert_serial :: pystr
  tr_cert_expires_at :: datetime
  tr_revoked_at :: "datetime option"

record TunnelAuthRequest =
  rq_agent_id :: uuid
  rq_node_name :: pystr
  rq_cert_serial :: pystr
  rq_cert_public_key :: pystr
  rq_tunnel_secret :: pystr

record PeerCertificateBinding =
  pb_cert_serial :: pystr
  pb_cert_public_key :: pystr

record RenewedAgentCertificate =
  rn_public_key_pem :: pystr
  rn_certificate :: x509_cert
  rn_cert_serial :: pystr
  rn_cert_expires_at :: datetime

section \<open>Stores\<close>

text \<open>\<open>PostgresAgentTunnelStore\<close>.\<close>

definition record_of_row :: "agents_row \<Rightarrow> AgentTunnelRecord" where
  "record_of_row row =
     \<lparr>tr_agent_id = ag_id row, tr_node_name = ag_node_name row,
      tr_x509_public_key = ag_x509_public_key row,
      tr_tunnel_secret_hash = ag_tunnel_secret_hash row, tr_cert_serial = ag_cert_serial row,
      tr_cert_expires_at = as_utc (ag_cert_expires_at row),
      tr_revoked_at = map_option as_utc (ag_revoked_at row)\<rparr>"

definition pg_get_agent :: "database \<Rightarrow> uuid \<Rightarrow> AgentTunnelRecord option" where
  "pg_get_agent db agent_id = map_option record_of_row (agent_by_id db agent_id)"

definition pg_update_agent_certificate ::
  "uuid \<Rightarrow> pystr \<Rightarrow> pystr \<Rightarrow> datetime \<Rightarrow> (database, unit) op" where
  "pg_update_agent_certificate agent_id public_key_pem cert_serial expires_at =
     sql_write (\<lambda>db. db\<lparr>db_agents := update_where
       (\<lambda>r. ag_id r = agent_id \<and> \<not> ag_revoked r)
       (\<lambda>r. r\<lparr>ag_x509_public_key := public_key_pem, ag_cert_serial := cert_serial,
              ag_cert_expires_at := as_utc expires_at\<rparr>) (db_agents db)\<rparr>)"

definition pg_update_last_seen :: "uuid \<Rightarrow> datetime \<Rightarrow> (database, unit) op" where
  "pg_update_last_seen agent_id now =
     sql_write (\<lambda>db. db\<lparr>db_agents := update_where
       (\<lambda>r. ag_id r = agent_id \<and> \<not> ag_revoked r)
       (\<lambda>r. r\<lparr>ag_last_seen := Some (as_utc now)\<rparr>) (db_agents db)\<rparr>)"

text \<open>\<open>InMemoryAgentTunnelStore\<close>.\<close>

record memory_tunnel_store =
  ms_records :: "uuid \<rightharpoonup> AgentTunnelRecord"
  ms_last_seen :: "uuid \<rightharpoonup> datetime"

definition mem_get_agent :: "memory_tunnel_store \<Rightarrow> uuid \<Rightarrow> AgentTunnelRecord option" where
  "mem_get_agent s agent_id = ms_records s agent_id"

definition mem_update_agent_certificate ::
  "uuid \<Rightarrow> pystr \<Rightarrow> pystr \<Rightarrow> datetime \<Rightarrow> (memory_tunnel_store, unit) op" where
  "mem_update_agent_certificate agent_id public_key_pem cert_serial expires_at s =
     (case ms_records s agent_id of
        None \<Rightarrow> (Inl KeyError, s)
      | Some record \<Rightarrow>
          (Inr (), s\<lparr>ms_records := (ms_records s)(agent_id \<mapsto>
             record\<lparr>tr_x509_public_key := public_key_pem, tr_cert_serial := cert_serial,
                    tr_cert_expires_at := expires_at\<rparr>)\<rparr>))"

definition mem_update_last_seen :: "uuid \<Rightarrow> datetime \<Rightarrow> (memory_tunnel_store, unit) op" where
  "mem_update_last_seen agent_id now s =
     (Inr (), s\<lparr>ms_last_seen := (ms_last_seen s)(agent_id \<mapsto> as_utc now)\<rparr>)"

section \<open>Authentication\<close>

text \<open>\<open>TunnelAuthenticator.authenticate\<close> over the store's lookup.\<close>

definition authenticate ::
  "(uuid \<Rightarrow> AgentTunnelRecord option) \<Rightarrow> TunnelAuthRequest \<Rightarrow> datetime \<Rightarrow> AgentTunnelRecord result" where
  "authenticate get_agent request now = (case get_agent (rq_agent_id request) of
     None \<Rightarrow> Inl (TunnelAuthError ''agent is unknown'')
   | Some record \<Rightarrow>
       if tr_revoked_at record \<noteq> None then Inl (TunnelAuthError ''agent is revoked'')
       else if instant (as_utc (tr_cert_expires_at record)) \<le> instant (as_utc now)
       then Inl (TunnelAuthError ''agent certificate is expired'')
       else if tr_node_name record \<noteq> rq_node_name request
       then Inl (TunnelAuthError ''node binding mismatch'')
       else if tr_cert_serial record \<noteq> rq_cert_serial request
       then Inl (TunnelAuthError ''certificate serial mismatch'')
       else if tr_x509_public_key record \<noteq> rq_cert_public_key request
       then Inl (TunnelAuthError ''certificate public key mismatch'')
       else rbind (rewrap
         (rbind (SecretValue (rq_tunnel_secret request))
            (\<lambda>s. verify_secret_hash s (tr_tunnel_secret_hash record)))
         is_secret_error (\<lambda>e. TunnelAuthError ''tunnel secret mismatch'')) (\<lambda>secret_matches.
         if \<not> secret_matches then Inl (TunnelAuthError ''tunnel secret mismatch'')
         else Inr record))"

section \<open>Active tunnels\<close>

type_synonym active_registry = "uuid \<rightharpoonup> pystr"

definition registry_connect :: "uuid \<Rightarrow> pystr \<Rightarrow> (active_registry, unit) op" where
  "registry_connect agent_id connection_id active =
     (case active agent_id of
        Some current \<Rightarrow>
          if current \<noteq> connection_id then (Inl (TunnelStateError ''duplicate active tunnel''), active)
          else (Inr (), active(agent_id \<mapsto> connection_id))
      | None \<Rightarrow> (Inr (), active(agent_id \<mapsto> connection_id)))"

definition registry_disconnect :: "uuid \<Rightarrow> pystr \<Rightarrow> active_registry \<Rightarrow> active_registry" where
  "registry_disconnect agent_id connection_id active =
     (if active agent_id = Some connection_id then active(agent_id := None) else active)"

definition registry_revoke :: "uuid \<Rightarrow> active_registry \<Rightarrow> pystr option \<times> active_registry" where
  "registry_revoke agent_id active = (active agent_id, active(agent_id := None))"

section \<open>Channels of one tunnel\<close>

record TunnelChannelRegistry =
  ch_max_sessions :: int
  ch_open :: "pystr set"
  ch_retired :: "pystr set"

definition new_channel_registry :: "int \<Rightarrow> TunnelChannelRegistry result" where
  "new_channel_registry max_sessions =
     (if max_sessions \<le> 0 then Inl (TunnelStateError ''max_sessions must be positive'')
      else Inr \<lparr>ch_max_sessions = max_sessions, ch_open = {}, ch_retired = {}\<rparr>)"

definition open_channel :: "pystr \<Rightarrow> (TunnelChannelRegistry, unit) op" where
  "open_channel channel_id r =
     (if channel_id = [] then (Inl (TunnelStateError ''channel_id is required''), r)
      else if channel_id \<in> ch_open r \<or> channel_id \<in> ch_retired r
      then (Inl (TunnelStateError ''channel_id reuse''), r)
      else if int (card (ch_open r)) \<ge> ch_max_sessions r
      then (Inl (TunnelStateError ''max sessions exceeded''), r)
      else (Inr (), r\<lparr>ch_open := insert channel_id (ch_open r)\<rparr>))"

definition close_channel :: "pystr \<Rightarrow> (TunnelChannelRegistry, unit) op" where
  "close_channel channel_id r =
     (if channel_id \<notin> ch_open r then (Inl (TunnelStateError ''unknown channel''), r)
      else (Inr (), r\<lparr>ch_open := ch_open r - {channel_id},
                      ch_retired := insert channel_id (ch_retired r)\<rparr>))"

definition require_open :: "pystr \<Rightarrow> TunnelChannelRegistry \<Rightarrow> unit result" where
  "require_open channel_id r =
     (if channel_id \<notin> ch_open r then Inl (TunnelStateError ''unknown channel'') else Inr ())"

definition apply_channel_frame ::
  "TunnelFrameType \<Rightarrow> pystr option \<Rightarrow> (TunnelChannelRegistry, unit) op" where
  "apply_channel_frame frame_type channel_id r =
     (if frame_type = OPEN_SESSION then
        (case channel_id of
           None \<Rightarrow> (Inl (TunnelStateError ''channel_id is required''), r)
         | Some c \<Rightarrow> open_channel c r)
      else if frame_type \<in> {SESSION_DATA, RESIZE_PTY, CLOSE_SESSION} then
        (case channel_id of
           None \<Rightarrow> (Inl (TunnelStateError ''channel_id is required''), r)
         | Some c \<Rightarrow>
             (case require_open c r of
                Inl e \<Rightarrow> (Inl e, r)
              | Inr _ \<Rightarrow> if frame_type = CLOSE_SESSION then close_channel c r else (Inr (), r)))
      else (Inr (), r))"

definition channels_ok :: "TunnelChannelRegistry \<Rightarrow> bool" where
  "channels_ok r \<longleftrightarrow> 0 < ch_max_sessions r \<and> finite (ch_open r) \<and> finite (ch_retired r) \<and>
     ch_open r \<inter> ch_retired r = {} \<and> int (card (ch_open r)) \<le> ch_max_sessions r \<and>
     [] \<notin> ch_open r"

section \<open>Freshness and backpressure\<close>

record HeartbeatState =
  hb_seconds :: int
  hb_last_seen :: "datetime option"

definition new_heartbeat :: "int \<Rightarrow> HeartbeatState result" where
  "new_heartbeat heartbeat_seconds =
     (if heartbeat_seconds \<le> 0 then Inl (TunnelStateError ''heartbeat_seconds must be positive'')
      else Inr \<lparr>hb_seconds = heartbeat_seconds, hb_last_seen = None\<rparr>)"

definition mark_seen :: "datetime \<Rightarrow> HeartbeatState \<Rightarrow> HeartbeatState" where
  "mark_seen now h = h\<lparr>hb_last_seen := Some (as_utc now)\<rparr>"

definition allows_new_jump :: "datetime \<Rightarrow> HeartbeatState \<Rightarrow> bool" where
  "allows_new_jump now h = (case hb_last_seen h of
     None \<Rightarrow> False
   | Some t \<Rightarrow> instant (plus_delta t (seconds (hb_seconds h * 2))) > instant (as_utc now))"

record TunnelBackpressure =
  bp_max :: int
  bp_pending :: int

definition new_backpressure :: "int \<Rightarrow> TunnelBackpressure result" where
  "new_backpressure max_pending_bytes =
     (if max_pending_bytes \<le> 0 then Inl (TunnelStateError ''max_pending_bytes must be positive'')
      else Inr \<lparr>bp_max = max_pending_bytes, bp_pending = 0\<rparr>)"

definition bp_queue :: "bytes \<Rightarrow> (TunnelBackpressure, unit) op" where
  "bp_queue payload b =
     (if bp_pending b + int (length payload) > bp_max b
      then (Inl (TunnelStateError ''downstream backpressure limit exceeded''), b)
      else (Inr (), b\<lparr>bp_pending := bp_pending b + int (length payload)\<rparr>))"

definition bp_drain :: "int \<Rightarrow> (TunnelBackpressure, unit) op" where
  "bp_drain byte_count b =
     (if byte_count < 0 then (Inl (TunnelStateError ''byte_count cannot be negative''), b)
      else (Inr (), b\<lparr>bp_pending := max 0 (bp_pending b - byte_count)\<rparr>))"

section \<open>Renewal\<close>

text \<open>
  \<open>load_pem\<close> stands for \<open>load_pem_public_key\<close> of the cryptography library: the raw key and
  whether it is an Ed25519 key, or the exception.
\<close>

definition load_ed25519_public_key :: "(pystr \<Rightarrow> (bool \<times> bytes) result) \<Rightarrow> pystr \<Rightarrow> bytes result" where
  "load_ed25519_public_key load_pem public_key_pem =
     (if \<not> ascii public_key_pem then Inl (ValueError ''ordinal not in range(128)'')
      else rbind (load_pem public_key_pem) (\<lambda>(is_ed25519, key).
        if \<not> is_ed25519 then Inl (TunnelAuthError ''agent public key must be Ed25519'') else Inr key))"

text \<open>\<open>AgentCertificateRenewer.renew\<close>; \<open>issuer\<close> and \<open>serial\<close> as in \<open>issue_agent_client_certificate\<close>.\<close>

definition renew ::
  "('s \<Rightarrow> uuid \<Rightarrow> AgentTunnelRecord option) \<Rightarrow>
   (uuid \<Rightarrow> pystr \<Rightarrow> pystr \<Rightarrow> datetime \<Rightarrow> ('s, unit) op) \<Rightarrow>
   (pystr \<Rightarrow> (bool \<times> bytes) result) \<Rightarrow> pystr \<Rightarrow> nat \<Rightarrow>
   uuid \<Rightarrow> pystr \<Rightarrow> pystr \<Rightarrow> datetime \<Rightarrow> ('s, RenewedAgentCertificate) op" where
  "renew get_agent update_agent_certificate load_pem issuer serial agent_id node_name new_public_key_pem now s =
     (let may = (case get_agent s agent_id of None \<Rightarrow> False
                 | Some record \<Rightarrow> tr_revoked_at record = None \<and> tr_node_name record = node_name)
      in if \<not> may then (Inl (TunnelAuthError ''agent cannot renew certificate''), s) else
      (case load_ed25519_public_key load_pem new_public_key_pem of
         Inl e \<Rightarrow> (Inl e, s)
       | Inr public_key \<Rightarrow>
           (case issue_agent_client_certificate issuer public_key node_name (uuid_text agent_id) serial now
                   AGENT_CERT_DEFAULT_LIFETIME_DAYS of
              Inl e \<Rightarrow> (Inl e, s)
            | Inr issued \<Rightarrow>
                sbind (update_agent_certificate agent_id new_public_key_pem (iac_serial issued)
                         (iac_expires_at issued))
                  (\<lambda>_. sret \<lparr>rn_public_key_pem = new_public_key_pem,
                             rn_certificate = iac_certificate issued,
                             rn_cert_serial = iac_serial issued,
                             rn_cert_expires_at = iac_expires_at issued\<rparr>) s)))"

section \<open>What authentication accepts\<close>

definition binds :: "AgentTunnelRecord \<Rightarrow> TunnelAuthRequest \<Rightarrow> bool" where
  "binds r q \<longleftrightarrow> tr_node_name r = rq_node_name q \<and> tr_cert_serial r = rq_cert_serial q \<and>
     tr_x509_public_key r = rq_cert_public_key q \<and> 43 \<le> length (rq_tunnel_secret q) \<and>
     sha256_hex (Secret (rq_tunnel_secret q)) = Inr (tr_tunnel_secret_hash r)"

lemma secret_check_True:
  "rbind (SecretValue v) (\<lambda>s. verify_secret_hash s h) = Inr True \<longleftrightarrow>
     43 \<le> length v \<and> sha256_hex (Secret v) = Inr h"
  by (auto simp: exc_elims)

lemma secret_check_step:
  "rbind (rewrap m p h) (\<lambda>b. if \<not> b then Inl e else Inr x) = Inr y \<longleftrightarrow> m = Inr True \<and> y = x"
  by (cases m) auto

lemma authenticate_iff:
  "authenticate g q now = Inr r \<longleftrightarrow>
     g (rq_agent_id q) = Some r \<and> tr_revoked_at r = None \<and>
     instant now < instant (tr_cert_expires_at r) \<and> binds r q"
proof (cases "g (rq_agent_id q)")
  case None
  then show ?thesis by (simp add: authenticate_def)
next
  case (Some x)
  then show ?thesis
    unfolding authenticate_def binds_def
    by (simp add: secret_check_step secret_check_True) auto
qed

lemma secret_check_error:
  assumes "rbind (SecretValue v) (\<lambda>s. verify_secret_hash s h) = Inl e"
  shows "is_secret_error e \<or> (e = ValueError ''surrogates not allowed'' \<and> \<not> list_all scalar v) \<or>
    ((\<exists>m. e = TypeError m) \<and> \<not> ascii h)"
  using assms
  by (auto simp: exc_elims SecretValue_def verify_secret_hash_def sha256_hex_def utf8_encode_def
      constant_time_equal_def sha256_hexdigest_is_ascii split: option.splits if_splits)

lemma authenticate_error:
  assumes "authenticate g q now = Inl e"
  shows "(\<exists>m. e = TunnelAuthError m) \<or>
     (e = ValueError ''surrogates not allowed'' \<and> \<not> list_all scalar (rq_tunnel_secret q)) \<or>
     ((\<exists>m. e = TypeError m) \<and> (\<exists>r. g (rq_agent_id q) = Some r \<and> \<not> ascii (tr_tunnel_secret_hash r)))"
proof (cases "g (rq_agent_id q)")
  case None
  with assms show ?thesis by (auto simp: authenticate_def)
next
  case (Some x)
  let ?m = "rbind (SecretValue (rq_tunnel_secret q)) (\<lambda>s. verify_secret_hash s (tr_tunnel_secret_hash x))"
  show ?thesis
  proof (cases ?m)
    case (Inl e')
    with assms Some have "(\<exists>m. e = TunnelAuthError m) \<or> e = e' \<and> \<not> is_secret_error e'"
      by (auto simp: authenticate_def split: if_splits)
    with secret_check_error [OF Inl] Some show ?thesis by auto
  next
    case (Inr b)
    with assms Some show ?thesis by (auto simp: authenticate_def split: if_splits)
  qed
qed

section \<open>The contract of a tunnel store\<close>

locale tunnel_store =
  fixes get :: "'s \<Rightarrow> uuid \<Rightarrow> AgentTunnelRecord option"
    and upd :: "uuid \<Rightarrow> pystr \<Rightarrow> pystr \<Rightarrow> datetime \<Rightarrow> ('s, unit) op"
    and seen :: "uuid \<Rightarrow> datetime \<Rightarrow> ('s, unit) op"
    and inv :: "'s \<Rightarrow> bool"
  assumes seen_ok: "inv s \<Longrightarrow> \<exists>t. seen a now s = (Inr (), t) \<and> inv t \<and> get t = get s"
    and upd_ok: "inv s \<Longrightarrow> upd a pk sn ex s = (Inr u, t) \<Longrightarrow> inv t"
    and upd_other: "inv s \<Longrightarrow> upd a pk sn ex s = (Inr u, t) \<Longrightarrow> b \<noteq> a \<Longrightarrow> get t b = get s b"
    and upd_same: "inv s \<Longrightarrow> upd a pk sn ex s = (Inr u, t) \<Longrightarrow> get s a = Some r \<Longrightarrow>
      tr_revoked_at r = None \<Longrightarrow> \<exists>x. instant x = instant ex \<and>
      get t a = Some (r\<lparr>tr_x509_public_key := pk, tr_cert_serial := sn, tr_cert_expires_at := x\<rparr>)"
    and upd_fail: "upd a pk sn ex s = (Inl e, t) \<Longrightarrow> t = s"
begin

lemma renewE:
  assumes "renew get upd ld is k a n pk now s = (Inr c, t)"
  obtains r u where "get s a = Some r" "tr_revoked_at r = None" "tr_node_name r = n"
    "upd a pk (rn_cert_serial c) (rn_cert_expires_at c) s = (Inr u, t)"
    "rn_public_key_pem c = pk" "instant (rn_cert_expires_at c) = instant now + days 90"
    "py_fullmatch NODE_NAME_PATTERN n"
proof -
  from assms obtain r where r: "get s a = Some r" "tr_revoked_at r = None" "tr_node_name r = n"
    by (auto simp: renew_def Let_def split: if_splits option.splits)
  from assms r obtain key i where i: "load_ed25519_public_key ld pk = Inr key"
    "issue_agent_client_certificate is key n (uuid_text a) k now AGENT_CERT_DEFAULT_LIFETIME_DAYS = Inr i"
    by (auto simp: renew_def Let_def split: if_splits sum.splits)
  with assms r obtain u where u: "upd a pk (iac_serial i) (iac_expires_at i) s = (Inr u, t)"
    "c = \<lparr>rn_public_key_pem = pk, rn_certificate = iac_certificate i, rn_cert_serial = iac_serial i,
      rn_cert_expires_at = iac_expires_at i\<rparr>"
    by (auto simp: renew_def Let_def exc_elims)
  show ?thesis
    using that [of r u] r u issue_agent_window [OF i(2)]
    by (simp add: AGENT_CERT_DEFAULT_LIFETIME_DAYS_def)
qed

lemma renew_fail: "renew get upd ld is k a n pk now s = (Inl e, t) \<Longrightarrow> t = s"
  by (auto simp: renew_def Let_def exc_elims upd_fail split: if_splits sum.splits)

lemma renew_inv: "inv s \<Longrightarrow> renew get upd ld is k a n pk now s = (Inr c, t) \<Longrightarrow> inv t"
  by (elim renewE) (rule upd_ok)

text \<open>After a renewal only the renewed certificate authenticates, with the old secret.\<close>

lemma renew_auth:
  assumes "inv s" "renew get upd ld is k a n pk now s = (Inr c, t)" "rq_agent_id q = a"
  shows "(\<exists>r. authenticate (get t) q later = Inr r) \<longleftrightarrow>
    (\<exists>r. get s a = Some r \<and> rq_node_name q = n \<and> rq_cert_serial q = rn_cert_serial c \<and>
         rq_cert_public_key q = pk \<and> 43 \<le> length (rq_tunnel_secret q) \<and>
         sha256_hex (Secret (rq_tunnel_secret q)) = Inr (tr_tunnel_secret_hash r) \<and>
         instant later < instant now + days 90)"
proof -
  obtain r u where r: "get s a = Some r" "tr_revoked_at r = None" "tr_node_name r = n"
    "upd a pk (rn_cert_serial c) (rn_cert_expires_at c) s = (Inr u, t)"
    "instant (rn_cert_expires_at c) = instant now + days 90"
    using assms(2) by (rule renewE)
  obtain x where x: "instant x = instant now + days 90"
    "get t a = Some (r\<lparr>tr_x509_public_key := pk, tr_cert_serial := rn_cert_serial c,
       tr_cert_expires_at := x\<rparr>)"
    using upd_same [OF assms(1) r(4,1,2)] r(5) by auto
  show ?thesis using assms(3) r(1,2,3) x by (auto simp: authenticate_iff binds_def)
qed

lemma renew_others:
  "inv s \<Longrightarrow> renew get upd ld is k a n pk now s = (Inr c, t) \<Longrightarrow> b \<noteq> a \<Longrightarrow> get t b = get s b"
  by (elim renewE) (rule upd_other)

lemma seen_auth:
  "inv s \<Longrightarrow> authenticate (get (snd (seen a now s))) q later = authenticate (get s) q later"
  using seen_ok [of s a now] by (auto simp: authenticate_def)

end

text \<open>The Postgres store: the rows are well formed and the two revocation columns agree.\<close>

definition revocation_consistent :: "database \<Rightarrow> bool" where
  "revocation_consistent db \<longleftrightarrow> (\<forall>r \<in> set (db_agents db). ag_revoked r \<longleftrightarrow> ag_revoked_at r \<noteq> None)"

definition pg_inv :: "database \<Rightarrow> bool" where
  "pg_inv db \<longleftrightarrow> wf_db db \<and> revocation_consistent db"

lemma find_agent_update:
  "(\<And>r. p r \<Longrightarrow> ag_id (f r) = ag_id r) \<Longrightarrow>
   agent_by_id (db\<lparr>db_agents := update_where p f (db_agents db)\<rparr>) a =
     map_option (\<lambda>r. if p r then f r else r) (agent_by_id db a)"
  unfolding agent_by_id_def by (simp add: find_update_where)

lemma revocation_consistent_update:
  "revocation_consistent db \<Longrightarrow>
   (\<And>r. p r \<Longrightarrow> ag_revoked (f r) = ag_revoked r \<and> ag_revoked_at (f r) = ag_revoked_at r) \<Longrightarrow>
   revocation_consistent (db\<lparr>db_agents := update_where p f (db_agents db)\<rparr>)"
  by (auto simp: revocation_consistent_def set_update_where)

interpretation pg: tunnel_store pg_get_agent pg_update_agent_certificate pg_update_last_seen pg_inv
proof unfold_locales
  fix s a now assume inv: "pg_inv s"
  let ?p = "\<lambda>r. ag_id r = a \<and> \<not> ag_revoked r"
  let ?f = "\<lambda>r. r\<lparr>ag_last_seen := Some (as_utc now)\<rparr>"
  let ?t = "s\<lparr>db_agents := update_where ?p ?f (db_agents s)\<rparr>"
  have "wf_db ?t" using inv by (intro wf_update_agents) (auto simp: pg_inv_def)
  moreover have "revocation_consistent ?t"
    using inv by (intro revocation_consistent_update) (auto simp: pg_inv_def)
  moreover have "pg_get_agent ?t = pg_get_agent s"
    by (rule ext) (auto simp: pg_get_agent_def find_agent_update option.map_comp comp_def
        record_of_row_def intro!: option.map_cong)
  ultimately show "\<exists>t. pg_update_last_seen a now s = (Inr (), t) \<and> pg_inv t \<and> pg_get_agent t = pg_get_agent s"
    by (auto simp: pg_update_last_seen_def sql_write_def pg_inv_def)
next
  fix s a pk sn ex u t
  assume inv: "pg_inv s" and u: "pg_update_agent_certificate a pk sn ex s = (Inr u, t)"
  show "pg_inv t"
    using inv u revocation_consistent_update [of s]
    by (auto simp: pg_inv_def pg_update_agent_certificate_def exc_elims)
next
  fix s a pk sn ex u t b
  assume inv: "pg_inv s" and u: "pg_update_agent_certificate a pk sn ex s = (Inr u, t)" and "b \<noteq> a"
  then show "pg_get_agent t b = pg_get_agent s b"
    by (auto simp: pg_get_agent_def pg_update_agent_certificate_def exc_elims find_agent_update
        option.map_comp comp_def dest!: agent_by_idD intro!: option.map_cong)
next
  fix s a pk sn ex u t r
  assume inv: "pg_inv s" and u: "pg_update_agent_certificate a pk sn ex s = (Inr u, t)"
    and r: "pg_get_agent s a = Some r" "tr_revoked_at r = None"
  from r obtain row where row: "agent_by_id s a = Some row" "r = record_of_row row"
    by (auto simp: pg_get_agent_def)
  then have "row \<in> set (db_agents s)" "ag_id row = a" using agent_by_idD by blast+
  moreover from this r(2) row(2) inv have "\<not> ag_revoked row"
    by (auto simp: pg_inv_def revocation_consistent_def record_of_row_def)
  ultimately show "\<exists>x. instant x = instant ex \<and> pg_get_agent t a =
      Some (r\<lparr>tr_x509_public_key := pk, tr_cert_serial := sn, tr_cert_expires_at := x\<rparr>)"
    using u row by (intro exI [of _ "as_utc ex"])
      (auto simp: pg_get_agent_def pg_update_agent_certificate_def exc_elims find_agent_update
        record_of_row_def)
next
  fix s a pk sn ex e t
  assume "pg_update_agent_certificate a pk sn ex s = (Inl e, t)"
  then show "t = s" by (auto simp: pg_update_agent_certificate_def exc_elims)
qed

interpretation mem: tunnel_store mem_get_agent mem_update_agent_certificate mem_update_last_seen "\<lambda>_. True"
  by unfold_locales
    (auto simp: mem_get_agent_def mem_update_agent_certificate_def mem_update_last_seen_def fun_eq_iff
      split: option.splits)

section \<open>Channel identifiers\<close>

text \<open>
  A set of open ids and a growing set of used ids: an id may be opened only when it was never
  used, so over one tunnel every id names at most one session.
\<close>

datatype 'c channel_event = Open 'c | Close 'c

locale channel_ids =
  fixes opn cls :: "'c \<Rightarrow> ('s, unit) op"
    and opened used :: "'s \<Rightarrow> 'c set"
    and inv :: "'s \<Rightarrow> bool"
  assumes opn_Inr: "inv s \<Longrightarrow> opn c s = (Inr u, t) \<Longrightarrow>
      inv t \<and> c \<notin> used s \<and> opened t = insert c (opened s) \<and> used t = insert c (used s)"
    and opn_Inl: "opn c s = (Inl e, t) \<Longrightarrow> t = s"
    and cls_Inr: "inv s \<Longrightarrow> cls c s = (Inr u, t) \<Longrightarrow>
      inv t \<and> c \<in> opened s \<and> opened t = opened s - {c} \<and> used t = used s"
    and cls_Inl: "cls c s = (Inl e, t) \<Longrightarrow> t = s"
    and opened_used: "inv s \<Longrightarrow> opened s \<subseteq> used s"
begin

text \<open>The ids opened with success, in order, by a run that ignores refused operations.\<close>

fun run :: "'c channel_event list \<Rightarrow> 's \<Rightarrow> 'c list \<times> 's" where
  "run [] s = ([], s)"
| "run (Open c # es) s = (case opn c s of
     (Inr _, t) \<Rightarrow> (c # fst (run es t), snd (run es t)) | (Inl _, t) \<Rightarrow> run es t)"
| "run (Close c # es) s = run es (snd (cls c s))"

lemma opn_cases:
  assumes "inv s"
  obtains e where "opn c s = (Inl e, s)"
    | u t where "opn c s = (Inr u, t)" "inv t" "c \<notin> used s" "opened t = insert c (opened s)"
        "used t = insert c (used s)"
proof (cases "opn c s")
  case (Pair r t)
  then show thesis using that opn_Inl opn_Inr [OF assms] by (cases r) blast+
qed

lemma cls_cases:
  assumes "inv s"
  shows "inv (snd (cls c s)) \<and> opened (snd (cls c s)) \<subseteq> opened s \<and> used (snd (cls c s)) = used s"
proof (cases "cls c s")
  case (Pair r t)
  then show ?thesis using assms cls_Inl cls_Inr [OF assms] by (cases r) fastforce+
qed

lemma run_facts:
  "inv s \<Longrightarrow> inv (snd (run es s)) \<and> distinct (fst (run es s)) \<and>
     set (fst (run es s)) \<inter> used s = {} \<and> used (snd (run es s)) = used s \<union> set (fst (run es s))"
proof (induction es arbitrary: s)
  case Nil
  then show ?case by simp
next
  case (Cons e es)
  show ?case
  proof (cases e)
    case (Open c)
    from \<open>inv s\<close> show ?thesis
    proof (cases rule: opn_cases [of s c])
      case (1 x)
      with Cons Open show ?thesis by simp
    next
      case (2 u t)
      with Cons.IH [of t] Open show ?thesis by auto
    qed
  next
    case (Close c)
    with Cons.IH [of "snd (cls c s)"] Cons.prems cls_cases [of s c] show ?thesis by auto
  qed
qed

lemma opened_once: "inv s \<Longrightarrow> distinct (fst (run es s))"
  using run_facts by blast

lemma closed_for_good:
  "inv s \<Longrightarrow> c \<in> used s \<Longrightarrow> c \<notin> opened s \<Longrightarrow> c \<notin> opened (snd (run es s))"
proof (induction es arbitrary: s)
  case Nil
  then show ?case by simp
next
  case (Cons e es)
  show ?case
  proof (cases e)
    case (Open d)
    from \<open>inv s\<close> show ?thesis
    proof (cases rule: opn_cases [of s d])
      case (1 x)
      with Cons Open show ?thesis by simp
    next
      case (2 u t)
      with Cons.IH [of t] Cons.prems Open show ?thesis by auto
    qed
  next
    case (Close d)
    with Cons.IH [of "snd (cls d s)"] Cons.prems cls_cases [of s d] show ?thesis by auto
  qed
qed

end

definition used_channels :: "TunnelChannelRegistry \<Rightarrow> pystr set" where
  "used_channels r = ch_open r \<union> ch_retired r"

lemma open_channel_Inr [exc_elims]:
  "open_channel c r = (Inr u, t) \<longleftrightarrow> c \<noteq> [] \<and> c \<notin> used_channels r \<and>
     int (card (ch_open r)) < ch_max_sessions r \<and> t = r\<lparr>ch_open := insert c (ch_open r)\<rparr>"
  by (auto simp: open_channel_def used_channels_def)

lemma close_channel_Inr [exc_elims]:
  "close_channel c r = (Inr u, t) \<longleftrightarrow> c \<in> ch_open r \<and>
     t = r\<lparr>ch_open := ch_open r - {c}, ch_retired := insert c (ch_retired r)\<rparr>"
  by (auto simp: close_channel_def)

lemma open_channel_ok:
  "channels_ok r \<Longrightarrow> open_channel c r = (Inr u, t) \<Longrightarrow> channels_ok t"
  by (auto simp: open_channel_Inr channels_ok_def used_channels_def card_insert_if)

lemma close_channel_ok:
  "channels_ok r \<Longrightarrow> close_channel c r = (Inr u, t) \<Longrightarrow> channels_ok t"
  by (auto simp: close_channel_Inr channels_ok_def card_Diff_singleton_if)

interpretation ch: channel_ids open_channel close_channel ch_open used_channels channels_ok
proof unfold_locales
  fix s t :: TunnelChannelRegistry and c u
  assume ok: "channels_ok s"
  show "open_channel c s = (Inr u, t) \<Longrightarrow> channels_ok t \<and> c \<notin> used_channels s \<and>
      ch_open t = insert c (ch_open s) \<and> used_channels t = insert c (used_channels s)"
    using open_channel_ok [OF ok] by (auto simp: open_channel_Inr used_channels_def)
  show "close_channel c s = (Inr u, t) \<Longrightarrow> channels_ok t \<and> c \<in> ch_open s \<and>
      ch_open t = ch_open s - {c} \<and> used_channels t = used_channels s"
    using close_channel_ok [OF ok] by (auto simp: close_channel_Inr used_channels_def)
qed (auto simp: open_channel_def close_channel_def used_channels_def split: if_splits)

lemma new_channel_registry_ok: "new_channel_registry m = Inr r \<Longrightarrow> channels_ok r"
  by (auto simp: new_channel_registry_def channels_ok_def split: if_splits)

lemma apply_open: "apply_channel_frame OPEN_SESSION (Some c) = open_channel c"
  by (auto simp: apply_channel_frame_def fun_eq_iff)

lemma apply_close: "apply_channel_frame CLOSE_SESSION (Some c) r = close_channel c r"
  by (auto simp: apply_channel_frame_def require_open_def close_channel_def)

lemma apply_data:
  "t \<in> {SESSION_DATA, RESIZE_PTY} \<Longrightarrow> apply_channel_frame t (Some c) r = (require_open c r, r)"
  by (auto simp: apply_channel_frame_def require_open_def)

lemma apply_channel_frame_ok:
  "channels_ok r \<Longrightarrow> channels_ok (snd (apply_channel_frame t c r))"
  by (auto simp: apply_channel_frame_def open_channel_def close_channel_def require_open_def
      channels_ok_def card_insert_if card_Diff_singleton_if split: option.splits sum.splits)

lemma fresh_iff:
  "allows_new_jump now h \<longleftrightarrow> (\<exists>t. hb_last_seen h = Some t \<and>
     wall t + seconds (2 * hb_seconds h) - (case utcoffset t of None \<Rightarrow> 0 | Some off \<Rightarrow> off) > instant now)"
  by (auto simp: allows_new_jump_def plus_delta_def instant_def as_utc_eq utc_def mult.commute
      split: option.splits)

lemma fresh_after_seen:
  "allows_new_jump now (mark_seen t h) \<longleftrightarrow> instant now < instant t + seconds (2 * hb_seconds h)"
  by (simp add: fresh_iff mark_seen_def as_utc_eq utc_def)

text \<open>Any sequence of \<open>queue\<close> and \<open>drain\<close> calls keeps the pending count between 0 and the bound.\<close>

definition bp_ok :: "TunnelBackpressure \<Rightarrow> bool" where
  "bp_ok b \<longleftrightarrow> 0 \<le> bp_pending b \<and> bp_pending b \<le> bp_max b"

lemma bp_steps_ok:
  "bp_ok b \<Longrightarrow> bp_ok (snd (bp_queue p b))" "bp_ok b \<Longrightarrow> bp_ok (snd (bp_drain n b))"
  "new_backpressure m = Inr b \<Longrightarrow> bp_ok b"
  by (auto simp: bp_ok_def bp_queue_def bp_drain_def new_backpressure_def split: if_splits)

section \<open>Properties\<close>

text \<open>C4: A tunnel authenticates exactly when the agent is stored and not revoked, its certificate
  has not expired, node name, serial and public key are the stored ones, and the SHA-256 digest of
  the presented secret of at least 43 characters is the stored one.\<close>

theorem authenticate_exactly:
  "authenticate g q now = Inr r \<longleftrightarrow>
     g (rq_agent_id q) = Some r \<and> tr_revoked_at r = None \<and>
     instant now < instant (tr_cert_expires_at r) \<and>
     tr_node_name r = rq_node_name q \<and> tr_cert_serial r = rq_cert_serial q \<and>
     tr_x509_public_key r = rq_cert_public_key q \<and> 43 \<le> length (rq_tunnel_secret q) \<and>
     sha256_hex (Secret (rq_tunnel_secret q)) = Inr (tr_tunnel_secret_hash r)"
  by (simp add: authenticate_iff binds_def)

text \<open>Authentication fails closed with \<open>TunnelAuthError\<close> in all cases but two: a secret with a
  lone surrogate raises the \<open>UnicodeEncodeError\<close> of its encoding, and a stored digest that is not
  ASCII raises the \<open>TypeError\<close> of the comparison.\<close>

theorem authenticate_failures:
  assumes "authenticate g q now = Inl e"
  shows "(\<exists>m. e = TunnelAuthError m) \<or>
     (e = ValueError ''surrogates not allowed'' \<and> \<not> list_all scalar (rq_tunnel_secret q)) \<or>
     ((\<exists>m. e = TypeError m) \<and> (\<exists>r. g (rq_agent_id q) = Some r \<and> \<not> ascii (tr_tunnel_secret_hash r)))"
  using assms by (rule authenticate_error)

definition sample_record :: AgentTunnelRecord where
  "sample_record = \<lparr>tr_agent_id = 7, tr_node_name = str ''web-1'', tr_x509_public_key = str ''pem'',
     tr_tunnel_secret_hash = sha256_hexdigest (ascii_bytes (replicate 43 65)),
     tr_cert_serial = str ''1f'', tr_cert_expires_at = utc 100, tr_revoked_at = None\<rparr>"

definition sample_request :: TunnelAuthRequest where
  "sample_request = \<lparr>rq_agent_id = 7, rq_node_name = str ''web-1'', rq_cert_serial = str ''1f'',
     rq_cert_public_key = str ''pem'', rq_tunnel_secret = replicate 43 65\<rparr>"

theorem authenticate_failures_witness:
  "\<exists>e m. authenticate [7 \<mapsto> sample_record] sample_request (utc 100) = Inl e \<and> e = TunnelAuthError m"
proof -
  have a: "authenticate [7 \<mapsto> sample_record] sample_request (utc 100) =
      Inl (TunnelAuthError ''agent certificate is expired'')"
    by (simp add: authenticate_def sample_record_def sample_request_def)
  from authenticate_failures [OF a] a show ?thesis by blast
qed

text \<open>After a renewal only the renewed certificate authenticates: a request of that agent
  succeeds exactly when it carries the new serial and the new public key with the node name and
  secret of before, within ninety days.\<close>

theorem renewal_replaces_certificate:
  assumes "pg_inv db"
    and "renew pg_get_agent pg_update_agent_certificate ld issuer k a n pk now db = (Inr c, db')"
    and "rq_agent_id q = a"
  shows "(\<exists>r. authenticate (pg_get_agent db') q later = Inr r) \<longleftrightarrow>
    (\<exists>r. pg_get_agent db a = Some r \<and> rq_node_name q = n \<and> rq_cert_serial q = rn_cert_serial c \<and>
         rq_cert_public_key q = pk \<and> 43 \<le> length (rq_tunnel_secret q) \<and>
         sha256_hex (Secret (rq_tunnel_secret q)) = Inr (tr_tunnel_secret_hash r) \<and>
         instant later < instant now + days 90)"
  using assms by (rule pg.renew_auth)

definition sample_agent :: agents_row where
  "sample_agent = \<lparr>ag_id = 7, ag_node_name = str ''web-1'', ag_hostname = None, ag_labels = [],
     ag_x509_public_key = str ''pem'', ag_node_ssh_host_public_key = str ''ssh-ed25519 AAAA'',
     ag_tunnel_secret_hash = sha256_hexdigest (ascii_bytes (replicate 43 65)),
     ag_enrolled_at = utc 0, ag_last_seen = None, ag_revoked = False, ag_revoked_at = None,
     ag_cert_serial = str ''1f'', ag_cert_expires_at = utc 100\<rparr>"

definition sample_db :: database where
  "sample_db = \<lparr>db_agents = [sample_agent], db_tokens = [], db_sessions = [], db_audit = [],
     db_next_serial = 1\<rparr>"

lemma sample_db_inv: "pg_inv sample_db"
  by (simp add: pg_inv_def wf_db_def sample_db_def sample_agent_def agents_ok_def tokens_ok_def
      sessions_ok_def audit_ok_def revocation_consistent_def)

lemma web1_valid: "py_fullmatch NODE_NAME_PATTERN (str ''web-1'')"
  by (simp add: node_name_closed str_def is_alnum_cp_def node_char_def)

theorem renewal_replaces_certificate_witness:
  "\<exists>c db'. renew pg_get_agent pg_update_agent_certificate (\<lambda>_. Inr (True, [1])) (str ''ca'') 44 7
      (str ''web-1'') (str ''new'') (utc 50) sample_db = (Inr c, db') \<and>
     \<not> (\<exists>r. authenticate (pg_get_agent db') sample_request (utc 60) = Inr r)"
proof -
  let ?ren = "renew pg_get_agent pg_update_agent_certificate (\<lambda>_. Inr (True, [1])) (str ''ca'') 44 7
      (str ''web-1'') (str ''new'') (utc 50)"
  have "\<exists>c db'. ?ren sample_db = (Inr c, db')"
    by (simp add: renew_def pg_get_agent_def agent_by_id_def sample_db_def sample_agent_def
        record_of_row_def load_ed25519_public_key_def ascii_def str_def [of "''new''"]
        issue_agent_client_certificate_def AGENT_CERT_DEFAULT_LIFETIME_DAYS_def
        validate_node_name_def web1_valid pg_update_agent_certificate_def sql_write_def
        update_where_def wf_db_def agents_ok_def tokens_ok_def sessions_ok_def audit_ok_def
        sbind_def Let_def)
  then obtain c db' where r: "?ren sample_db = (Inr c, db')" by blast
  have "rq_agent_id sample_request = 7" by (simp add: sample_request_def)
  from renewal_replaces_certificate [OF sample_db_inv r this, of "utc 60"]
  have "\<not> (\<exists>r. authenticate (pg_get_agent db') sample_request (utc 60) = Inr r)"
    by (simp add: sample_request_def)
  with r show ?thesis by blast
qed

text \<open>Over one tunnel no channel id is opened twice, whatever opens and closes are tried, and
  the number of open channels never exceeds the session limit.\<close>

theorem channel_ids_single_use:
  assumes "new_channel_registry m = Inr r"
  shows "distinct (fst (ch.run es r)) \<and> int (card (ch_open (snd (ch.run es r)))) \<le> m"
proof -
  have ok: "channels_ok r" using assms by (rule new_channel_registry_ok)
  have "ch_max_sessions (snd (ch.run es s)) = ch_max_sessions s" for s
  proof (induction es arbitrary: s)
    case Nil
    then show ?case by simp
  next
    case (Cons e es)
    have o: "ch_max_sessions (snd (open_channel c s)) = ch_max_sessions s"
      "ch_max_sessions (snd (close_channel c s)) = ch_max_sessions s" for c
      by (auto simp: open_channel_def close_channel_def)
    show ?case
    proof (cases e)
      case (Open c)
      obtain x t where "open_channel c s = (x, t)" by force
      with o [of c] Open Cons.IH [of t] show ?thesis by (auto split: sum.splits)
    next
      case (Close c)
      with o [of c] Cons.IH show ?thesis by simp
    qed
  qed
  moreover have "channels_ok (snd (ch.run es r))" using ch.run_facts [OF ok] by blast
  moreover have "ch_max_sessions r = m"
    using assms by (auto simp: new_channel_registry_def split: if_splits)
  ultimately show ?thesis using ch.opened_once [OF ok] by (simp add: channels_ok_def)
qed

theorem channel_ids_single_use_witness:
  "\<exists>r. new_channel_registry 2 = Inr r \<and>
     distinct (fst (ch.run [Open (str ''a''), Close (str ''a''), Open (str ''a'')] r))"
proof -
  have n: "new_channel_registry 2 = Inr \<lparr>ch_max_sessions = 2, ch_open = {}, ch_retired = {}\<rparr>"
    by (simp add: new_channel_registry_def)
  from channel_ids_single_use [OF n] n show ?thesis by blast
qed

end
