(* ===== verification/Tunnel_Stream.thy ===== *)
theory Tunnel_Stream
  imports Tunnel_State
begin

text \<open>
  Reading frames off a byte stream and the handshake values of \<open>server/tunnel.py\<close>, with the
  reader of \<open>agent/tunnel.py\<close>.  A reader is the list of bytes still to come before the end of the
  stream; \<open>readexactly\<close> consumes what is left when there is too little.  The locale
  \<open>frame_reader\<close> extends \<open>frame_codec\<close> by a reader that undoes the encoder; both readers are
  interpretations of it, so each side receives the frames the other wrote, in order.
\<close>

definition readexactly :: "nat \<Rightarrow> (bytes, bytes) op" where
  "readexactly n s =
     (if length s < n then (Inl (IncompleteReadError s), []) else (Inr (take n s), drop n s))"

lemma readexactly_append [simp]: "length a = n \<Longrightarrow> readexactly n (a @ b) = (Inr a, b)"
  by (simp add: readexactly_def)

lemma readexactly_Inr [exc_elims]:
  "readexactly n s = (Inr a, b) \<longleftrightarrow> s = a @ b \<and> length a = n"
  by (auto simp: readexactly_def)

lemma readexactly_Inl [exc_elims]:
  "readexactly n s = (Inl e, b) \<longleftrightarrow> length s < n \<and> e = IncompleteReadError s \<and> b = []"
  by (auto simp: readexactly_def)

section \<open>The server's reader and writer\<close>

text \<open>The payload length in the header, as \<open>_read_one_frame\<close> of the server extracts it.\<close>

definition server_payload_length :: "int \<Rightarrow> bytes \<Rightarrow> int result" where
  "server_payload_length max_frame_bytes header = (case loads_bytes header of
     None \<Rightarrow> Inl (TunnelProtocolError ''frame header is not valid JSON'')
   | Some (JObj kvs) \<Rightarrow>
       (case jget kvs ''payload_length'' of
          JInt payload_length \<Rightarrow>
            if payload_length < 0 \<or> payload_length > max_frame_bytes
            then Inl (TunnelProtocolError ''frame payload is too large'') else Inr payload_length
        | _ \<Rightarrow> Inl (TunnelProtocolError ''payload_length must be an integer''))
   | Some _ \<Rightarrow> Inl (TunnelProtocolError ''frame header must be an object''))"

definition server_read_one_frame :: "int \<Rightarrow> (bytes, DecodedTunnelFrame) op" where
  "server_read_one_frame max_frame_bytes =
     sbind (readexactly 4) (\<lambda>header_prefix.
     let header_length = unpack_u32 header_prefix in
     if header_length = 0 \<or> header_length > FRAME_HEADER_MAX_BYTES
     then sraise (TunnelProtocolError ''frame header length is invalid'')
     else sbind (readexactly header_length) (\<lambda>header.
     sbind (slift (server_payload_length max_frame_bytes header)) (\<lambda>payload_length.
     sbind (readexactly (nat payload_length)) (\<lambda>payload.
     slift (decode_frame (header_prefix @ header @ payload) max_frame_bytes)))))"

text \<open>A writer is the bytes written so far; \<open>drain\<close> returns.\<close>

definition server_write_frame ::
  "TunnelFrameType \<Rightarrow> pystr \<Rightarrow> pystr option \<Rightarrow> bytes \<Rightarrow> int \<Rightarrow> (bytes, unit) op" where
  "server_write_frame frame_type request_id channel_id payload max_frame_bytes w =
     (case encode_frame frame_type request_id channel_id payload max_frame_bytes of
        Inl e \<Rightarrow> (Inl e, w)
      | Inr b \<Rightarrow> (Inr (), w @ b))"

text \<open>\<open>_best_effort_error\<close>: an \<open>ERROR\<close> frame under a one-megabyte limit, every failure ignored.\<close>

definition best_effort_error :: "pystr \<Rightarrow> bytes \<Rightarrow> bytes" where
  "best_effort_error request_id w = snd (server_write_frame ERROR request_id None [] (1024 * 1024) w)"

section \<open>The agent's reader and writer\<close>

definition agent_payload_length :: "bytes \<Rightarrow> int result" where
  "agent_payload_length header = (case loads_bytes header of
     None \<Rightarrow> Inl (AgentTunnelError ''tunnel frame header is not valid JSON'')
   | Some (JObj kvs) \<Rightarrow>
       (case jget kvs ''payload_length'' of
          JInt payload_length \<Rightarrow>
            if payload_length < 0
            then Inl (AgentTunnelError ''tunnel frame payload_length cannot be negative'')
            else Inr payload_length
        | _ \<Rightarrow> Inl (AgentTunnelError ''tunnel frame payload_length must be an integer''))
   | Some _ \<Rightarrow> Inl (AgentTunnelError ''tunnel frame header must be an object''))"

text \<open>\<open>None\<close> is a clean end of the stream, between two frames.\<close>

definition agent_read_one_frame :: "int \<Rightarrow> (bytes, bytes option) op" where
  "agent_read_one_frame max_frame_bytes s = (case readexactly 4 s of
     (Inl e, t) \<Rightarrow>
       (case e of
          IncompleteReadError partial \<Rightarrow>
            if partial \<noteq> [] then (Inl (AgentTunnelError ''partial tunnel frame header''), t)
            else (Inr None, t)
        | _ \<Rightarrow> (Inl e, t))
   | (Inr header_length_bytes, t) \<Rightarrow>
       (let header_length = unpack_u32 header_length_bytes in
        if header_length = 0 \<or> header_length > FRAME_HEADER_MAX_BYTES
        then (Inl (AgentTunnelError ''tunnel frame header length is invalid''), t)
        else sbind (readexactly header_length) (\<lambda>header_bytes.
             sbind (slift (agent_payload_length header_bytes)) (\<lambda>payload_length.
             if payload_length > max_frame_bytes
             then sraise (AgentTunnelError ''tunnel frame payload is too large'')
             else sbind (readexactly (nat payload_length)) (\<lambda>payload.
             sret (Some (header_length_bytes @ header_bytes @ payload))))) t))"

text \<open>One turn of the agent's loop reads a frame and decodes it; \<open>None\<close> ends the loop.\<close>

definition agent_read_decoded :: "int \<Rightarrow> (bytes, DecodedTunnelFrame option) op" where
  "agent_read_decoded max_frame_bytes =
     sbind (agent_read_one_frame max_frame_bytes) (\<lambda>data.
     case data of None \<Rightarrow> sret None
     | Some b \<Rightarrow> sbind (slift (decode_frame b max_frame_bytes)) (\<lambda>d. sret (Some d)))"

definition agent_write_frame ::
  "TunnelFrameType \<Rightarrow> pystr \<Rightarrow> pystr option \<Rightarrow> bytes \<Rightarrow> int \<Rightarrow> (bytes, unit) op" where
  "agent_write_frame frame_type request_id channel_id payload max_frame_bytes w =
     (case encode_frame frame_type request_id channel_id payload max_frame_bytes of
        Inl e \<Rightarrow> (Inl e, w)
      | Inr b \<Rightarrow> (Inr (), w @ b))"

section \<open>Handshake values\<close>

definition require_key :: "(pystr \<times> json) list \<Rightarrow> string \<Rightarrow> json result" where
  "require_key kvs k = (case map_of kvs (str k) of None \<Rightarrow> Inl KeyError | Some v \<Rightarrow> Inr v)"

definition is_key_or_value_error :: "exc \<Rightarrow> bool" where
  "is_key_or_value_error e \<longleftrightarrow> e = KeyError \<or> is_value_error e"

definition decode_auth_payload :: "(json \<Rightarrow> pystr) \<Rightarrow> bytes \<Rightarrow> TunnelAuthRequest result" where
  "decode_auth_payload text_of payload = (case loads_bytes payload of
     None \<Rightarrow> Inl (TunnelProtocolError ''auth payload is invalid'')
   | Some (JObj kvs) \<Rightarrow>
       rewrap
         (rbind (require_key kvs ''agent_id'') (\<lambda>a.
          rbind (case uuid_of_text (py_str text_of a) of
                   None \<Rightarrow> Inl (ValueError ''badly formed hexadecimal UUID string'')
                 | Some u \<Rightarrow> Inr u) (\<lambda>agent_id.
          rbind (require_key kvs ''node_name'') (\<lambda>node_name.
          rbind (require_key kvs ''cert_serial'') (\<lambda>cert_serial.
          rbind (require_key kvs ''cert_public_key'') (\<lambda>cert_public_key.
          rbind (require_key kvs ''tunnel_secret'') (\<lambda>tunnel_secret.
          Inr \<lparr>rq_agent_id = agent_id, rq_node_name = py_str text_of node_name,
               rq_cert_serial = py_str text_of cert_serial,
               rq_cert_public_key = py_str text_of cert_public_key,
               rq_tunnel_secret = py_str text_of tunnel_secret\<rparr>)))))))
         is_key_or_value_error
         (\<lambda>e. TunnelProtocolError ''auth payload is incomplete'')
   | Some _ \<Rightarrow> Inl (TunnelProtocolError ''auth payload must be an object''))"

definition verify_peer_certificate_binding ::
  "TunnelAuthRequest \<Rightarrow> PeerCertificateBinding \<Rightarrow> unit result" where
  "verify_peer_certificate_binding auth_request peer_certificate =
     (if rq_cert_serial auth_request \<noteq> pb_cert_serial peer_certificate
      then Inl (TunnelAuthError ''mTLS certificate serial mismatch'')
      else if rq_cert_public_key auth_request \<noteq> pb_cert_public_key peer_certificate
      then Inl (TunnelAuthError ''mTLS certificate public key mismatch'')
      else Inr ())"

text \<open>
  \<open>_peer_certificate_binding\<close>.  \<open>cert_der\<close> is what \<open>getpeercert\<close> returned, \<open>None\<close> when the writer
  has no TLS object or no certificate; \<open>load_der\<close> stands for the X.509 parser and gives the validity
  window, the serial number and the PEM text of the public key.
\<close>

record peer_cert =
  pc_not_before :: datetime
  pc_not_after :: datetime
  pc_serial :: nat
  pc_public_key_pem :: pystr

definition peer_certificate_binding ::
  "(bytes \<Rightarrow> peer_cert result) \<Rightarrow> bytes option \<Rightarrow> datetime \<Rightarrow> PeerCertificateBinding result" where
  "peer_certificate_binding load_der cert_der now = (case cert_der of
     None \<Rightarrow> Inl (TunnelAuthError ''mTLS peer certificate is unavailable'')
   | Some der \<Rightarrow>
       if der = [] then Inl (TunnelAuthError ''mTLS peer certificate is unavailable'') else
       rbind (rewrap (load_der der) is_value_error
               (\<lambda>e. TunnelAuthError ''mTLS peer certificate is invalid'')) (\<lambda>cert.
       if instant (pc_not_before cert) > instant now \<or> instant (pc_not_after cert) \<le> instant now
       then Inl (TunnelAuthError ''mTLS peer certificate is outside its validity window'')
       else Inr \<lparr>pb_cert_serial = hex_of (pc_serial cert),
                 pb_cert_public_key = pc_public_key_pem cert\<rparr>))"

section \<open>The contract of a frame reader\<close>

locale frame_reader = frame_codec +
  fixes rd :: "(bytes, 'a) op"
  assumes read_encode: "fits m \<Longrightarrow> rd (enc m @ rest) = (Inr m, rest)"
    and read_error_eof: "rd [] = (Inl e, t) \<Longrightarrow> t = []"
begin

fun read_many :: "nat \<Rightarrow> (bytes, 'a list) op" where
  "read_many 0 s = (Inr [], s)"
| "read_many (Suc n) s = sbind rd (\<lambda>m. sbind (read_many n) (\<lambda>ms. sret (m # ms))) s"

text \<open>What was written in order is read in order.\<close>

lemma read_written:
  "\<forall>m \<in> set ms. fits m \<Longrightarrow>
     read_many (length ms) (concat (map enc ms) @ rest) = (Inr ms, rest)"
proof (induction ms)
  case Nil
  then show ?case by simp
next
  case (Cons m ms)
  then have "rd (enc m @ concat (map enc ms) @ rest) = (Inr m, concat (map enc ms) @ rest)"
    by (intro read_encode) simp
  with Cons show ?case by (simp add: sbind_def)
qed

end

lemma loads_header_length:
  assumes "decode_header j m = Inr (t, r, c, n)"
  shows "\<exists>kvs. j = JObj kvs \<and> jget kvs ''payload_length'' = JInt n \<and> 0 \<le> n \<and> n \<le> m"
  using assms by (auto simp: decode_header_def exc_elims split: json.splits if_splits)

lemma header_payload_lengthD:
  assumes "header_payload_length m h = Inr n"
  shows "server_payload_length m h = Inr n" "agent_payload_length h = Inr n" "n \<le> m"
  using assms
  by (auto simp: header_payload_length_def exc_elims server_payload_length_def
      agent_payload_length_def split: option.splits dest!: loads_header_length)

lemma frame_parts:
  assumes "frame_fits m d"
  obtains h p where "frame_bytes m d = pack_u32 (length h) @ h @ p" "h \<noteq> []"
    "length h \<le> FRAME_HEADER_MAX_BYTES" "server_payload_length m h = Inr (int (length p))"
    "agent_payload_length h = Inr (int (length p))" "int (length p) \<le> m"
    "decode_frame (pack_u32 (length h) @ h @ p) m = Inr d" "unpack_u32 (pack_u32 (length h)) = length h"
proof -
  obtain h p where hp: "frame_bytes m d = pack_u32 (length h) @ h @ p" "h \<noteq> []"
    "length h \<le> FRAME_HEADER_MAX_BYTES" "header_payload_length m h = Inr (int (length p))"
    using frame_codec_prefix [OF assms] by blast
  moreover have "unpack_u32 (pack_u32 (length h)) = length h"
    using hp(3) by (intro unpack_pack_u32) (simp add: FRAME_HEADER_MAX_BYTES_def)
  moreover have "decode_frame (pack_u32 (length h) @ h @ p) m = Inr d"
    using frame_codec_decode [OF assms] hp(1) by simp
  ultimately show thesis using that header_payload_lengthD [OF hp(4)] by blast
qed

lemma server_read_encoded:
  assumes "frame_fits m d"
  shows "server_read_one_frame m (frame_bytes m d @ rest) = (Inr d, rest)"
  using frame_parts [OF assms]
proof cases
  case (1 h p)
  then show ?thesis by (simp add: server_read_one_frame_def sbind_def Let_def)
qed

lemma agent_read_encoded:
  assumes "frame_fits m d"
  shows "agent_read_decoded m (frame_bytes m d @ rest) = (Inr (Some d), rest)"
  using frame_parts [OF assms]
proof cases
  case (1 h p)
  then show ?thesis
    by (simp add: agent_read_decoded_def agent_read_one_frame_def sbind_def Let_def)
qed

text \<open>For the agent, a clean end of the stream is an end-of-file to the reader of frames.\<close>

definition agent_next_frame :: "int \<Rightarrow> (bytes, DecodedTunnelFrame) op" where
  "agent_next_frame m = sbind (agent_read_decoded m) (\<lambda>d.
     case d of None \<Rightarrow> sraise EOFError | Some f \<Rightarrow> sret f)"

lemma agent_next_encoded:
  "frame_fits m d \<Longrightarrow> agent_next_frame m (frame_bytes m d @ rest) = (Inr d, rest)"
  by (simp add: agent_next_frame_def sbind_def agent_read_encoded)

lemma read_eof:
  "server_read_one_frame m [] = (Inl (IncompleteReadError []), [])"
  "agent_read_one_frame m [] = (Inr None, [])"
  "agent_next_frame m [] = (Inl EOFError, [])"
  by (simp_all add: server_read_one_frame_def agent_next_frame_def agent_read_decoded_def
      agent_read_one_frame_def sbind_def readexactly_def)

interpretation sr: frame_reader "frame_fits m" "frame_bytes m" "\<lambda>b. decode_frame b m"
  "header_payload_length m" "server_read_one_frame m"
  by unfold_locales (simp_all only: server_read_encoded read_eof, simp)

interpretation ar: frame_reader "frame_fits m" "frame_bytes m" "\<lambda>b. decode_frame b m"
  "header_payload_length m" "agent_next_frame m"
  by unfold_locales (simp_all only: agent_next_encoded read_eof, simp)

section \<open>What a reader returns\<close>

lemma server_read_sound:
  assumes "server_read_one_frame m s = (Inr d, t)"
  shows "\<exists>b. s = b @ t \<and> decode_frame b m = Inr d"
  using assms unfolding server_read_one_frame_def
  by (fastforce simp: exc_elims Let_def split: if_splits)

lemma agent_read_sound:
  assumes "agent_read_decoded m s = (Inr (Some d), t)"
  shows "\<exists>b. s = b @ t \<and> decode_frame b m = Inr d"
proof -
  from assms obtain b where b: "agent_read_one_frame m s = (Inr (Some b), t)" "decode_frame b m = Inr d"
    by (auto simp: agent_read_decoded_def exc_elims split: option.splits)
  from b(1) have "s = b @ t"
    unfolding agent_read_one_frame_def
    by (auto simp: exc_elims Let_def split: prod.splits sum.splits exc.splits if_splits)
  with b(2) show ?thesis by blast
qed

lemma decode_length:
  assumes "decode_frame b m = Inr d"
  shows "int (length b) \<le> 4 + 16384 + m"
  using decode_frame_Inr [OF assms] by (auto simp: FRAME_HEADER_MAX_BYTES_def dest!: decode_header_Inr)

section \<open>What the handshake accepts\<close>

lemma decode_auth_errors:
  "decode_auth_payload f p = Inl e \<Longrightarrow> \<exists>m. e = TunnelProtocolError m"
  unfolding decode_auth_payload_def
  by (auto simp: rewrap_def require_key_def is_key_or_value_error_def rbind_def
      split: option.splits json.splits sum.splits if_splits)

lemma verify_binding_Inr [exc_elims]:
  "verify_peer_certificate_binding q p = Inr u \<longleftrightarrow>
     rq_cert_serial q = pb_cert_serial p \<and> rq_cert_public_key q = pb_cert_public_key p"
  by (auto simp: verify_peer_certificate_binding_def)

lemma verify_binding_Inl:
  "verify_peer_certificate_binding q p = Inl e \<Longrightarrow> \<exists>m. e = TunnelAuthError m"
  by (auto simp: verify_peer_certificate_binding_def split: if_splits)

lemma peer_binding_Inr:
  "peer_certificate_binding ld der now = Inr p \<longleftrightarrow>
     (\<exists>b c. der = Some b \<and> b \<noteq> [] \<and> ld b = Inr c \<and> instant (pc_not_before c) \<le> instant now \<and>
        instant now < instant (pc_not_after c) \<and>
        p = \<lparr>pb_cert_serial = hex_of (pc_serial c), pb_cert_public_key = pc_public_key_pem c\<rparr>)"
  by (auto simp: peer_certificate_binding_def rewrap_def rbind_def
      split: option.splits sum.splits if_splits)

section \<open>Properties\<close>

text \<open>Both directions of the tunnel deliver in order: frames written one after the other, each
  within the limit, are what the server's reader and the agent's reader return, and nothing of the
  stream is left or lost.\<close>

theorem frames_delivered_in_order:
  assumes "\<forall>d \<in> set ds. frame_fits m d"
  shows "sr.read_many m (length ds) (concat (map (frame_bytes m) ds) @ rest) = (Inr ds, rest) \<and>
    ar.read_many m (length ds) (concat (map (frame_bytes m) ds) @ rest) = (Inr ds, rest)"
  using sr.read_written [OF assms] ar.read_written [OF assms] by blast

theorem frames_delivered_in_order_witness:
  "sr.read_many 64 2 (concat (map (frame_bytes 64) [frame_of AUTH (str ''r1'') None [7],
      frame_of HEARTBEAT (str ''r2'') None []]) @ [0, 0]) =
    (Inr [frame_of AUTH (str ''r1'') None [7], frame_of HEARTBEAT (str ''r2'') None []], [0, 0])"
proof -
  have fits: "frame_fits 64 (frame_of t r None p)"
    if p: "length p \<le> 60" and r: "r \<noteq> []" "length r \<le> 1000" "list_all scalar r" for t r p
  proof -
    obtain b where "encode_frame t r None p 64 = Inr b"
      using small_frame [of p r None t] p r by (auto simp: opt_length_def)
    then show ?thesis by (rule frame_fits_of) (simp_all add: r text_ok_def)
  qed
  have "\<forall>d \<in> set [frame_of AUTH (str ''r1'') None [7], frame_of HEARTBEAT (str ''r2'') None []].
      frame_fits 64 d"
    by (auto intro!: fits simp: str_def scalar_def)
  from frames_delivered_in_order [OF this, of "[0, 0]"] show ?thesis by (simp add: numeral_2_eq_2)
qed

text \<open>A reader never takes more than a prefix, a header of 16 KiB and the frame limit off the
  stream for one frame, and what it returns is the decoding of exactly those bytes.\<close>

theorem reader_consumes_one_frame:
  assumes "server_read_one_frame m s = (Inr d, t) \<or> agent_read_decoded m s = (Inr (Some d), t)"
  shows "\<exists>b. s = b @ t \<and> decode_frame b m = Inr d \<and> int (length b) \<le> 4 + 16384 + m"
  using assms server_read_sound agent_read_sound decode_length by blast

theorem reader_consumes_one_frame_witness:
  "\<exists>b. frame_bytes 64 (frame_of AUTH (str ''r1'') None [7]) @ [1] = b @ [1] \<and>
     int (length b) \<le> 4 + 16384 + 64"
proof -
  obtain b where "encode_frame AUTH (str ''r1'') None [7] 64 = Inr b"
    using small_frame [of "[7]" "str ''r1''" None] by (auto simp: opt_length_def)
  then have "frame_fits 64 (frame_of AUTH (str ''r1'') None [7])"
    by (rule frame_fits_of) (simp_all add: str_def scalar_def text_ok_def)
  from reader_consumes_one_frame [OF disjI1 [OF server_read_encoded [OF this, of "[1]"]]]
  show ?thesis by blast
qed

end
