(* ===== verification/Broker.thy ===== *)
theory Broker
  imports Tunnel_Stream
begin

text \<open>
  \<open>ServerTunnelBroker\<close> and \<open>BrokerTunnelStream\<close> of \<open>server/tunnel.py\<close>.  Connection objects and stream
  objects are shared by reference, so the state holds them in stores: connections under their
  connection id, streams under the connection id and the channel id, with the maps of the code
  (\<open>_connections\<close>, \<open>_channel_agents\<close>, \<open>adapters\<close>) holding references.  Each definition is the code
  between two awaits of a network or database call, so a method with an await in its middle is
  two definitions.  The bytes written to each connection are recorded.
\<close>

type_synonym conn_id = pystr
type_synonym channel_id = pystr
type_synonym stream_ref = "conn_id \<times> channel_id"

record BrokerTunnelStream =
  bs_agent_id :: uuid
  bs_channel_id :: channel_id
  bs_buffer :: bytes
  bs_closed :: bool

record BrokerTunnelConnection =
  bc_agent :: AgentTunnelRecord
  bc_connection_id :: conn_id
  bc_channels :: TunnelChannelRegistry
  bc_heartbeat :: HeartbeatState
  bc_adapters :: "channel_id \<rightharpoonup> stream_ref"

record ServerTunnelBroker =
  bk_max_sessions :: int
  bk_heartbeat_seconds :: int
  bk_max_frame_bytes :: int
  bk_registry :: active_registry
  bk_connections :: "uuid \<rightharpoonup> conn_id"
  bk_channel_agents :: "channel_id \<rightharpoonup> uuid"
  bk_conns :: "conn_id \<rightharpoonup> BrokerTunnelConnection"
  bk_streams :: "stream_ref \<rightharpoonup> BrokerTunnelStream"
  bk_written :: "conn_id \<Rightarrow> bytes"
  bk_writer_closed :: "conn_id set"

definition new_broker :: "int \<Rightarrow> int \<Rightarrow> int \<Rightarrow> ServerTunnelBroker result" where
  "new_broker max_sessions_per_agent heartbeat_seconds max_frame_bytes =
     (if max_frame_bytes \<le> 0 then Inl (TunnelStateError ''max_frame_bytes must be positive'')
      else Inr \<lparr>bk_max_sessions = max_sessions_per_agent, bk_heartbeat_seconds = heartbeat_seconds,
                bk_max_frame_bytes = max_frame_bytes, bk_registry = Map.empty,
                bk_connections = Map.empty, bk_channel_agents = Map.empty, bk_conns = Map.empty,
                bk_streams = Map.empty, bk_written = (\<lambda>_. []), bk_writer_closed = {}\<rparr>)"

section \<open>Streams\<close>

text \<open>\<open>read\<close> blocks on an empty open stream: \<open>None\<close>.  A negative \<open>n\<close> reads everything.\<close>

definition stream_read :: "int \<Rightarrow> BrokerTunnelStream \<Rightarrow> (bytes \<times> BrokerTunnelStream) option" where
  "stream_read n s =
     (if bs_buffer s = [] \<and> \<not> bs_closed s then None
      else if n < 0 \<or> n \<ge> int (length (bs_buffer s)) then Some (bs_buffer s, s\<lparr>bs_buffer := []\<rparr>)
      else Some (take (nat n) (bs_buffer s), s\<lparr>bs_buffer := drop (nat n) (bs_buffer s)\<rparr>))"

definition feed_data :: "bytes \<Rightarrow> BrokerTunnelStream \<Rightarrow> BrokerTunnelStream" where
  "feed_data payload s = s\<lparr>bs_buffer := bs_buffer s @ payload\<rparr>"

definition feed_eof :: "BrokerTunnelStream \<Rightarrow> BrokerTunnelStream" where
  "feed_eof s = s\<lparr>bs_closed := True\<rparr>"

section \<open>Helpers of the broker\<close>

definition write_frame ::
  "conn_id \<Rightarrow> TunnelFrameType \<Rightarrow> pystr \<Rightarrow> channel_id option \<Rightarrow> bytes \<Rightarrow> (ServerTunnelBroker, unit) op" where
  "write_frame cid frame_type request_id channel_id payload b =
     (case server_write_frame frame_type request_id channel_id payload (bk_max_frame_bytes b)
             (bk_written b cid) of
        (Inl e, _) \<Rightarrow> (Inl e, b)
      | (Inr _, w) \<Rightarrow> (Inr (), b\<lparr>bk_written := (bk_written b)(cid := w)\<rparr>))"

definition update_conn ::
  "conn_id \<Rightarrow> (BrokerTunnelConnection \<Rightarrow> BrokerTunnelConnection) \<Rightarrow> ServerTunnelBroker \<Rightarrow> ServerTunnelBroker" where
  "update_conn cid f b = b\<lparr>bk_conns := (bk_conns b)(cid := map_option f (bk_conns b cid))\<rparr>"

definition update_stream ::
  "stream_ref \<Rightarrow> (BrokerTunnelStream \<Rightarrow> BrokerTunnelStream) \<Rightarrow> ServerTunnelBroker \<Rightarrow> ServerTunnelBroker" where
  "update_stream ref f b = b\<lparr>bk_streams := (bk_streams b)(ref := map_option f (bk_streams b ref))\<rparr>"

definition require_connection :: "uuid \<Rightarrow> channel_id \<Rightarrow> ServerTunnelBroker \<Rightarrow> conn_id result" where
  "require_connection agent_id channel_id b =
     (if channel_id = [] then Inl (TunnelStateError ''channel_id is required'')
      else (case bk_connections b agent_id of
              None \<Rightarrow> Inl (TunnelStateError ''agent tunnel is not connected'')
            | Some cid \<Rightarrow> Inr cid))"

definition require_channel_connection :: "channel_id \<Rightarrow> ServerTunnelBroker \<Rightarrow> conn_id result" where
  "require_channel_connection channel_id b =
     (case bk_channel_agents b channel_id of
        None \<Rightarrow> Inl (TunnelStateError ''channel is not open'')
      | Some agent_id \<Rightarrow>
          (case bk_connections b agent_id of None \<Rightarrow> Inl KeyError | Some cid \<Rightarrow> Inr cid))"

text \<open>The object behind a reference the code holds; references never dangle.\<close>

definition conn_at :: "conn_id \<Rightarrow> ServerTunnelBroker \<Rightarrow> BrokerTunnelConnection" where
  "conn_at cid b = the (bk_conns b cid)"

definition on_channels ::
  "conn_id \<Rightarrow> (TunnelChannelRegistry, unit) op \<Rightarrow> (ServerTunnelBroker, unit) op" where
  "on_channels cid f b =
     (case f (bc_channels (conn_at cid b)) of
        (r, ch) \<Rightarrow> (r, update_conn cid (\<lambda>c. c\<lparr>bc_channels := ch\<rparr>) b))"

definition retire_channel :: "conn_id \<Rightarrow> channel_id \<Rightarrow> (ServerTunnelBroker, unit) op" where
  "retire_channel cid channel_id =
     sbind (on_channels cid (apply_channel_frame CLOSE_SESSION (Some channel_id))) (\<lambda>_.
     smodify (\<lambda>b.
       (update_conn cid (\<lambda>c. c\<lparr>bc_adapters := (bc_adapters c)(channel_id := None)\<rparr>) b)
         \<lparr>bk_channel_agents := (bk_channel_agents b)(channel_id := None)\<rparr>))"

text \<open>\<open>_drop_connection\<close>: every stream of the connection sees its end, its channels lose their route.\<close>

definition drop_connection :: "uuid \<Rightarrow> conn_id \<Rightarrow> ServerTunnelBroker \<Rightarrow> ServerTunnelBroker" where
  "drop_connection agent_id connection_id b =
     (case bk_connections b agent_id of
        Some cid \<Rightarrow>
          if bc_connection_id (conn_at cid b) \<noteq> connection_id
          then b\<lparr>bk_registry := registry_disconnect agent_id connection_id (bk_registry b)\<rparr>
          else (let adapters = bc_adapters (conn_at cid b) in
            b\<lparr>bk_connections := (bk_connections b)(agent_id := None),
              bk_streams := (\<lambda>ref. if ref \<in> ran adapters then map_option feed_eof (bk_streams b ref)
                                  else bk_streams b ref),
              bk_channel_agents := (\<lambda>c. if c \<in> dom adapters then None else bk_channel_agents b c),
              bk_registry := registry_disconnect agent_id connection_id (bk_registry b)\<rparr>)
      | None \<Rightarrow> b\<lparr>bk_registry := registry_disconnect agent_id connection_id (bk_registry b)\<rparr>)"

section \<open>Sessions opened by the server\<close>

definition session_payload :: "pystr \<Rightarrow> pystr \<Rightarrow> bytes" where
  "session_payload node_name username =
     dumps_bytes (JObj [(str ''node_name'', JStr node_name), (str ''username'', JStr username)])"

text \<open>\<open>now\<close> is \<open>_utc_now()\<close> and \<open>request_id\<close> the fresh UUID of the frame.\<close>

definition open_session ::
  "uuid \<Rightarrow> channel_id \<Rightarrow> pystr \<Rightarrow> pystr \<Rightarrow> pystr \<Rightarrow> IssuedUserCertificate \<Rightarrow> datetime \<Rightarrow> pystr \<Rightarrow>
   (ServerTunnelBroker, unit) op" where
  "open_session agent_id channel_id node_name node_ssh_host_public_key username user_certificate now request_id =
     sbind (srequire (iuc_username user_certificate = username)
       (TunnelStateError ''user certificate principal mismatch'')) (\<lambda>_.
     sbind (srequire (node_ssh_host_public_key \<noteq> [])
       (TunnelStateError ''node sshd host key is not pinned'')) (\<lambda>_.
     sbind (\<lambda>b. (require_connection agent_id channel_id b, b)) (\<lambda>cid.
     sbind (\<lambda>b. (require (allows_new_jump now (bc_heartbeat (conn_at cid b)))
                   (TunnelStateError ''agent heartbeat is stale''), b)) (\<lambda>_.
     sbind (on_channels cid (apply_channel_frame OPEN_SESSION (Some channel_id))) (\<lambda>_.
     sbind (smodify (\<lambda>b.
       (update_conn cid (\<lambda>c. c\<lparr>bc_adapters := (bc_adapters c)(channel_id \<mapsto> (cid, channel_id))\<rparr>) b)
         \<lparr>bk_streams := (bk_streams b)((cid, channel_id) \<mapsto>
            \<lparr>bs_agent_id = agent_id, bs_channel_id = channel_id, bs_buffer = [], bs_closed = False\<rparr>),
          bk_channel_agents := (bk_channel_agents b)(channel_id \<mapsto> agent_id)\<rparr>)) (\<lambda>_.
     write_frame cid OPEN_SESSION request_id (Some channel_id) (session_payload node_name username)))))))"

definition connector_for_agent :: "uuid \<Rightarrow> channel_id \<Rightarrow> ServerTunnelBroker \<Rightarrow> stream_ref result" where
  "connector_for_agent agent_id channel_id b =
     rbind (require_connection agent_id channel_id b) (\<lambda>cid.
     case bc_adapters (conn_at cid b) channel_id of
       None \<Rightarrow> Inl (TunnelStateError ''channel is not open'') | Some ref \<Rightarrow> Inr ref)"

definition on_open_channel :: "channel_id \<Rightarrow> (conn_id \<Rightarrow> (ServerTunnelBroker, unit) op) \<Rightarrow> (ServerTunnelBroker, unit) op" where
  "on_open_channel channel_id k =
     sbind (\<lambda>b. (require_channel_connection channel_id b, b)) (\<lambda>cid.
     sbind (\<lambda>b. (require_open channel_id (bc_channels (conn_at cid b)), b)) (\<lambda>_. k cid))"

definition send_data :: "channel_id \<Rightarrow> bytes \<Rightarrow> pystr \<Rightarrow> (ServerTunnelBroker, unit) op" where
  "send_data channel_id payload request_id =
     on_open_channel channel_id (\<lambda>cid. write_frame cid SESSION_DATA request_id (Some channel_id) payload)"

definition resize_payload :: "int \<Rightarrow> int \<Rightarrow> bytes" where
  "resize_payload width height =
     dumps_bytes (JObj [(str ''width'', JInt width), (str ''height'', JInt height)])"

definition resize_pty :: "channel_id \<Rightarrow> int \<Rightarrow> int \<Rightarrow> pystr \<Rightarrow> (ServerTunnelBroker, unit) op" where
  "resize_pty channel_id width height request_id =
     on_open_channel channel_id (\<lambda>cid.
       write_frame cid RESIZE_PTY request_id (Some channel_id) (resize_payload width height))"

text \<open>\<open>close_session\<close> up to the await of the write, with the connection it holds across it; then
  \<open>retire_channel\<close> of that connection.\<close>

definition close_session_begin :: "channel_id \<Rightarrow> pystr \<Rightarrow> (ServerTunnelBroker, conn_id) op" where
  "close_session_begin channel_id request_id =
     sbind (\<lambda>b. (require_channel_connection channel_id b, b)) (\<lambda>cid.
     sbind (\<lambda>b. (require_open channel_id (bc_channels (conn_at cid b)), b)) (\<lambda>_.
     sbind (write_frame cid CLOSE_SESSION request_id (Some channel_id) []) (\<lambda>_.
     sret cid)))"

definition close_session :: "channel_id \<Rightarrow> pystr \<Rightarrow> (ServerTunnelBroker, unit) op" where
  "close_session channel_id request_id =
     sbind (close_session_begin channel_id request_id) (\<lambda>cid. retire_channel cid channel_id)"

text \<open>The asynchronous methods of a stream object, on the object behind \<open>ref\<close>.\<close>

definition stream_write :: "stream_ref \<Rightarrow> bytes \<Rightarrow> pystr \<Rightarrow> (ServerTunnelBroker, unit) op" where
  "stream_write ref data request_id b = send_data (bs_channel_id (the (bk_streams b ref))) data request_id b"

definition stream_close :: "stream_ref \<Rightarrow> pystr \<Rightarrow> (ServerTunnelBroker, unit) op" where
  "stream_close ref request_id b =
     (if bs_closed (the (bk_streams b ref)) then (Inr (), b)
      else close_session (bs_channel_id (the (bk_streams b ref))) request_id
             (update_stream ref (\<lambda>s. s\<lparr>bs_closed := True\<rparr>) b))"

section \<open>Frames from the agent\<close>

definition handle_agent_frame :: "conn_id \<Rightarrow> DecodedTunnelFrame \<Rightarrow> (ServerTunnelBroker, unit) op" where
  "handle_agent_frame cid decoded b =
     (let frame_type = tf_type (dec_frame decoded); channel = tf_channel_id (dec_frame decoded);
          c = conn_at cid b
      in if frame_type = HEARTBEAT then (Inr (), b)
         else if frame_type = SESSION_DATA then
           (case channel of
              None \<Rightarrow> (Inl (TunnelStateError ''channel_id is required''), b)
            | Some ch \<Rightarrow>
                (case require_open ch (bc_channels c) of
                   Inl e \<Rightarrow> (Inl e, b)
                 | Inr _ \<Rightarrow>
                     (case bc_adapters c ch of
                        None \<Rightarrow> (Inl KeyError, b)
                      | Some ref \<Rightarrow> (Inr (), update_stream ref (feed_data (dec_payload decoded)) b))))
         else if frame_type = CLOSE_SESSION then
           (case channel of
              None \<Rightarrow> (Inl (TunnelStateError ''channel_id is required''), b)
            | Some ch \<Rightarrow>
                (case require_open ch (bc_channels c) of
                   Inl e \<Rightarrow> (Inl e, b)
                 | Inr _ \<Rightarrow>
                     (case bc_adapters c ch of
                        None \<Rightarrow> (Inl KeyError, b)
                      | Some ref \<Rightarrow> retire_channel cid ch (update_stream ref feed_eof b))))
         else (Inl (TunnelProtocolError ''agent frame type is not accepted''), b))"

section \<open>One tunnel stream from the handshake to its end\<close>

text \<open>
  \<open>handle_stream\<close>.  The handshake reads the first frame and authenticates it; \<open>make_connection\<close>
  builds the connection object; \<open>connect_tunnel\<close> is the code from the registry to the \<open>AUTH_OK\<close> frame,
  which no other task interrupts; \<open>serve_frames\<close> is the loop, which only an exception leaves;
  \<open>finish_stream\<close> is the handlers and the \<open>finally\<close> clause.
\<close>

definition tunnel_handshake ::
  "(json \<Rightarrow> pystr) \<Rightarrow> PeerCertificateBinding \<Rightarrow> datetime \<Rightarrow> int \<Rightarrow> database \<Rightarrow>
   (bytes, AgentTunnelRecord \<times> pystr) op" where
  "tunnel_handshake text_of peer_certificate now max_frame_bytes db =
     sbind (server_read_one_frame max_frame_bytes) (\<lambda>first.
     sbind (srequire (tf_type (dec_frame first) = AUTH)
       (TunnelAuthError ''tunnel must start with auth'')) (\<lambda>_.
     sbind (slift (decode_auth_payload text_of (dec_payload first))) (\<lambda>auth_request.
     sbind (slift (verify_peer_certificate_binding auth_request peer_certificate)) (\<lambda>_.
     sbind (slift (authenticate (pg_get_agent db) auth_request now)) (\<lambda>authenticated.
     sret (authenticated, tf_request_id (dec_frame first)))))))"

definition make_connection ::
  "AgentTunnelRecord \<Rightarrow> conn_id \<Rightarrow> datetime \<Rightarrow> ServerTunnelBroker \<Rightarrow> BrokerTunnelConnection result" where
  "make_connection authenticated connection_id seen_at b =
     rbind (new_channel_registry (bk_max_sessions b)) (\<lambda>channels.
     rbind (new_heartbeat (bk_heartbeat_seconds b)) (\<lambda>heartbeat.
     Inr \<lparr>bc_agent = authenticated, bc_connection_id = connection_id, bc_channels = channels,
          bc_heartbeat = mark_seen seen_at heartbeat, bc_adapters = Map.empty\<rparr>))"

definition connect_tunnel :: "BrokerTunnelConnection \<Rightarrow> pystr \<Rightarrow> (ServerTunnelBroker, unit) op" where
  "connect_tunnel connection request_id b =
     (let agent_id = tr_agent_id (bc_agent connection); cid = bc_connection_id connection
      in case registry_connect agent_id cid (bk_registry b) of
           (Inl e, _) \<Rightarrow> (Inl e, b)
         | (Inr _, reg) \<Rightarrow>
             write_frame cid AUTH_OK request_id None []
               (b\<lparr>bk_registry := reg, bk_connections := (bk_connections b)(agent_id \<mapsto> cid),
                  bk_conns := (bk_conns b)(cid \<mapsto> connection)\<rparr>))"

definition frame_seen :: "conn_id \<Rightarrow> datetime \<Rightarrow> ServerTunnelBroker \<Rightarrow> ServerTunnelBroker" where
  "frame_seen cid now = update_conn cid (\<lambda>c. c\<lparr>bc_heartbeat := mark_seen now (bc_heartbeat c)\<rparr>)"

lemma server_read_shorter:
  "server_read_one_frame m s = (Inr d, t) \<Longrightarrow> length t < length s"
  using server_read_sound [of m s d t] decode_frame_bounds by fastforce

function serve_frames ::
  "conn_id \<Rightarrow> uuid \<Rightarrow> (nat \<Rightarrow> datetime) \<Rightarrow> nat \<Rightarrow> ServerTunnelBroker \<Rightarrow> database \<Rightarrow> bytes \<Rightarrow>
   exc \<times> ServerTunnelBroker \<times> database" where
  "serve_frames cid agent_id clock i b db s =
     (case server_read_one_frame (bk_max_frame_bytes b) s of
        (Inl e, _) \<Rightarrow> (e, b, db)
      | (Inr decoded, t) \<Rightarrow>
          (let b1 = frame_seen cid (clock i) b in
           case pg_update_last_seen agent_id (clock i) db of
             (Inl e, db1) \<Rightarrow> (e, b1, db1)
           | (Inr _, db1) \<Rightarrow>
               (case handle_agent_frame cid decoded b1 of
                  (Inl e, b2) \<Rightarrow> (e, b2, db1)
                | (Inr _, b2) \<Rightarrow> serve_frames cid agent_id clock (Suc i) b2 db1 t)))"
  by pat_completeness auto
termination
  by (relation "measure (\<lambda>(cid, a, clock, i, b, db, s). length s)")
    (auto dest!: server_read_shorter [OF sym])

declare serve_frames.simps [simp del]

definition ends_quietly :: "exc \<Rightarrow> bool" where
  "ends_quietly e \<longleftrightarrow> is_eof_error e \<or> (case e of TimeoutError _ \<Rightarrow> True | _ \<Rightarrow> False)"

fun is_tunnel_error :: "exc \<Rightarrow> bool" where
  "is_tunnel_error (TunnelAuthError _) = True"
| "is_tunnel_error (TunnelProtocolError _) = True"
| "is_tunnel_error (TunnelStateError _) = True"
| "is_tunnel_error _ = False"

definition finish_stream ::
  "AgentTunnelRecord option \<Rightarrow> conn_id \<Rightarrow> pystr \<Rightarrow> exc \<Rightarrow> (ServerTunnelBroker, unit) op" where
  "finish_stream authenticated connection_id error_request_id e b =
     (let b1 = (if \<not> ends_quietly e \<and> is_tunnel_error e
                then b\<lparr>bk_written := (bk_written b)(connection_id :=
                       best_effort_error error_request_id (bk_written b connection_id))\<rparr>
                else b);
          b2 = (case authenticated of None \<Rightarrow> b1
                | Some r \<Rightarrow> drop_connection (tr_agent_id r) connection_id b1)
      in (if ends_quietly e \<or> is_tunnel_error e then Inr () else Inl e,
          b2\<lparr>bk_writer_closed := insert connection_id (bk_writer_closed b2)\<rparr>))"

text \<open>
  One stream with no other task in between: \<open>connection_id\<close> is the fresh UUID, \<open>now\<close> the time of the
  authentication, \<open>clock\<close> the times of the heartbeats, \<open>s\<close> the bytes up to the end of the stream.
\<close>

definition handle_stream ::
  "(json \<Rightarrow> pystr) \<Rightarrow> PeerCertificateBinding \<Rightarrow> conn_id \<Rightarrow> pystr \<Rightarrow> datetime \<Rightarrow> (nat \<Rightarrow> datetime) \<Rightarrow> bytes \<Rightarrow>
   ServerTunnelBroker \<Rightarrow> database \<Rightarrow> unit result \<times> ServerTunnelBroker \<times> database" where
  "handle_stream text_of peer_certificate connection_id error_request_id now clock s b db =
     (let finish = (\<lambda>authenticated e b db.
            case finish_stream authenticated connection_id error_request_id e b of (r, b') \<Rightarrow> (r, b', db))
      in case tunnel_handshake text_of peer_certificate now (bk_max_frame_bytes b) db s of
           (Inl e, _) \<Rightarrow> finish None e b db
         | (Inr (authenticated, request_id), t) \<Rightarrow>
             (case make_connection authenticated connection_id (clock 0) b of
                Inl e \<Rightarrow> finish (Some authenticated) e b db
              | Inr connection \<Rightarrow>
                  (case pg_update_last_seen (tr_agent_id authenticated) (clock 0) db of
                     (Inl e, db1) \<Rightarrow> finish (Some authenticated) e b db1
                   | (Inr _, db1) \<Rightarrow>
                       (case connect_tunnel connection request_id b of
                          (Inl e, b1) \<Rightarrow> finish (Some authenticated) e b1 db1
                        | (Inr _, b1) \<Rightarrow>
                            (case serve_frames connection_id (tr_agent_id authenticated) clock 1 b1 db1 t of
                               (e, b2, db2) \<Rightarrow> finish (Some authenticated) e b2 db2)))))"

section \<open>All interleavings\<close>

text \<open>
  One step is the code some task runs between two awaits.  The relation allows more orders than the
  tasks do: a connection may see frames after its end, a retirement may come without the close
  that announced it, a stream may finish at any time.  The handler of a connection that has been made
  finishes with the agent it authenticated; \<open>bk_writer_closed\<close> has the handlers that are over.
\<close>

inductive broker_step :: "ServerTunnelBroker \<Rightarrow> ServerTunnelBroker \<Rightarrow> bool" where
  connect: "bk_conns b cid = None \<Longrightarrow> make_connection r cid now b = Inr c \<Longrightarrow>
    connect_tunnel c rid b = (res, b') \<Longrightarrow> broker_step b b'"
| seen: "bk_conns b cid = Some c \<Longrightarrow> broker_step b (frame_seen cid now b)"
| frame: "bk_conns b cid = Some c \<Longrightarrow> handle_agent_frame cid d b = (res, b') \<Longrightarrow> broker_step b b'"
| finish: "(\<And>c. bk_conns b cid = Some c \<Longrightarrow> r = Some (bc_agent c)) \<Longrightarrow>
    finish_stream r cid rid e b = (res, b') \<Longrightarrow> broker_step b b'"
| session: "open_session a ch n k u cert now rid b = (res, b') \<Longrightarrow> broker_step b b'"
| data: "send_data ch p rid b = (res, b') \<Longrightarrow> broker_step b b'"
| resize: "resize_pty ch w h rid b = (res, b') \<Longrightarrow> broker_step b b'"
| close_begin: "close_session_begin ch rid b = (res, b') \<Longrightarrow> broker_step b b'"
| retire: "bk_conns b cid = Some c \<Longrightarrow> retire_channel cid ch b = (res, b') \<Longrightarrow> broker_step b b'"
| read: "bk_streams b ref = Some s \<Longrightarrow> stream_read n s = Some (data, s') \<Longrightarrow>
    broker_step b (update_stream ref (\<lambda>_. s') b)"
| mark_closed: "bk_streams b ref = Some s \<Longrightarrow>
    broker_step b (update_stream ref (\<lambda>s. s\<lparr>bs_closed := True\<rparr>) b)"

inductive reachable :: "ServerTunnelBroker \<Rightarrow> bool" where
  start: "new_broker m h f = Inr b \<Longrightarrow> reachable b"
| step: "reachable b \<Longrightarrow> broker_step b b' \<Longrightarrow> reachable b'"

end
