(* ===== verification/Broker_Facts.thy ===== *)
theory Broker_Facts
  imports Broker
begin

text \<open>
  Facts about the broker: the invariant of every interleaving, and what it gives: one live tunnel
  per agent, every route leads to the connection whose open channel it names, no lookup fails,
  and a frame reaches only streams of its own connection.
\<close>

section \<open>Writes\<close>

definition same_but_written :: "ServerTunnelBroker \<Rightarrow> ServerTunnelBroker \<Rightarrow> bool" where
  "same_but_written b b' \<longleftrightarrow> (\<exists>w. b' = b\<lparr>bk_written := w\<rparr>)"

lemma same_refl [simp]: "same_but_written b b"
  unfolding same_but_written_def by (rule exI [of _ "bk_written b"]) simp

lemma write_frame_same:
  "write_frame cid t rid ch p b = (res, b') \<Longrightarrow> same_but_written b b'"
  by (auto simp: write_frame_def server_write_frame_def same_but_written_def split: sum.splits)
    (rule same_refl [unfolded same_but_written_def])

lemma write_frame_error:
  "write_frame cid t rid ch p b = (Inl e, b') \<Longrightarrow> b' = b \<and> (\<exists>m. e = TunnelProtocolError m)"
  by (auto simp: write_frame_def server_write_frame_def encode_frame_def validate_frame_size_def
      validate_payload_length_def Let_def split: sum.splits if_splits)

lemma write_frame_Inr:
  "write_frame cid t rid ch p b = (Inr u, b') \<longleftrightarrow>
     (\<exists>bs. encode_frame t rid ch p (bk_max_frame_bytes b) = Inr bs \<and>
       b' = b\<lparr>bk_written := (bk_written b)(cid := bk_written b cid @ bs)\<rparr>)"
  by (auto simp: write_frame_def server_write_frame_def split: sum.splits)

section \<open>The invariant\<close>

definition conn_ok :: "ServerTunnelBroker \<Rightarrow> conn_id \<Rightarrow> BrokerTunnelConnection \<Rightarrow> bool" where
  "conn_ok b cid c \<longleftrightarrow> bc_connection_id c = cid \<and> channels_ok (bc_channels c) \<and>
     ch_max_sessions (bc_channels c) = bk_max_sessions b \<and>
     (\<forall>ch ref. bc_adapters c ch = Some ref \<longleftrightarrow> ch \<in> ch_open (bc_channels c) \<and> ref = (cid, ch)) \<and>
     (\<forall>ch. ch \<in> used_channels (bc_channels c) \<longleftrightarrow> (\<exists>s. bk_streams b (cid, ch) = Some s)) \<and>
     (\<forall>ch s. bk_streams b (cid, ch) = Some s \<longrightarrow>
        bs_channel_id s = ch \<and> bs_agent_id s = tr_agent_id (bc_agent c))"

definition conns_ok :: "ServerTunnelBroker \<Rightarrow> bool" where
  "conns_ok b \<longleftrightarrow> (\<forall>cid c. bk_conns b cid = Some c \<longrightarrow> conn_ok b cid c)"

definition streams_ok :: "ServerTunnelBroker \<Rightarrow> bool" where
  "streams_ok b \<longleftrightarrow> (\<forall>cid ch s. bk_streams b (cid, ch) = Some s \<longrightarrow> bk_conns b cid \<noteq> None)"

definition live_ok :: "ServerTunnelBroker \<Rightarrow> bool" where
  "live_ok b \<longleftrightarrow> bk_registry b = bk_connections b \<and>
     (\<forall>a cid. bk_connections b a = Some cid \<longrightarrow>
        (\<exists>c. bk_conns b cid = Some c \<and> tr_agent_id (bc_agent c) = a))"

definition routes_ok :: "ServerTunnelBroker \<Rightarrow> bool" where
  "routes_ok b \<longleftrightarrow> (\<forall>ch a. bk_channel_agents b ch = Some a \<longrightarrow>
     (\<exists>cid c. bk_connections b a = Some cid \<and> bk_conns b cid = Some c \<and> ch \<in> ch_open (bc_channels c)))"

definition broker_inv :: "ServerTunnelBroker \<Rightarrow> bool" where
  "broker_inv b \<longleftrightarrow> conns_ok b \<and> streams_ok b \<and> live_ok b \<and> routes_ok b"

lemma broker_invI:
  "conns_ok b \<Longrightarrow> streams_ok b \<Longrightarrow> live_ok b \<Longrightarrow> routes_ok b \<Longrightarrow> broker_inv b"
  by (simp add: broker_inv_def)

lemma inv_written: "same_but_written b b' \<Longrightarrow> broker_inv b' = broker_inv b"
  by (elim same_but_written_def [THEN iffD1, THEN exE])
    (simp add: broker_inv_def conns_ok_def conn_ok_def streams_ok_def live_ok_def routes_ok_def)

lemma inv_conn: "broker_inv b \<Longrightarrow> bk_conns b cid = Some c \<Longrightarrow> conn_ok b cid c"
  by (simp add: broker_inv_def conns_ok_def)

lemma inv_new: "new_broker m h f = Inr b \<Longrightarrow> broker_inv b"
  by (auto simp: new_broker_def broker_inv_def conns_ok_def streams_ok_def live_ok_def routes_ok_def
      split: if_splits)

lemma inv_live:
  assumes "broker_inv b" "bk_connections b a = Some cid"
  obtains c where "bk_conns b cid = Some c" "conn_ok b cid c" "tr_agent_id (bc_agent c) = a"
    "conn_at cid b = c"
proof -
  from assms obtain c where c: "bk_conns b cid = Some c" "tr_agent_id (bc_agent c) = a"
    by (auto simp: broker_inv_def live_ok_def)
  with that inv_conn [OF assms(1) c(1)] show thesis by (simp add: conn_at_def)
qed

text \<open>Objects that keep what the invariant speaks of.\<close>

definition like_conn :: "BrokerTunnelConnection \<Rightarrow> BrokerTunnelConnection \<Rightarrow> bool" where
  "like_conn c c' \<longleftrightarrow> bc_agent c' = bc_agent c \<and> bc_connection_id c' = bc_connection_id c \<and>
     bc_channels c' = bc_channels c \<and> bc_adapters c' = bc_adapters c"

definition like_stream :: "BrokerTunnelStream \<Rightarrow> BrokerTunnelStream \<Rightarrow> bool" where
  "like_stream s s' \<longleftrightarrow> bs_channel_id s' = bs_channel_id s \<and> bs_agent_id s' = bs_agent_id s"

lemma like_refl [simp]: "like_conn c c" "like_stream s s"
  by (simp_all add: like_conn_def like_stream_def)

lemma rel_optionD:
  "rel_option R x y \<Longrightarrow> y = Some b \<Longrightarrow> \<exists>a. x = Some a \<and> R a b"
  "rel_option R x y \<Longrightarrow> x = Some a \<Longrightarrow> \<exists>b. y = Some b \<and> R a b"
  by (cases x; cases y; simp)+

lemma conn_ok_like:
  assumes "conn_ok b cid c" "like_conn c c'" "bk_max_sessions b' = bk_max_sessions b"
    and s: "\<And>ch. rel_option like_stream (bk_streams b (cid, ch)) (bk_streams b' (cid, ch))"
  shows "conn_ok b' cid c'"
proof -
  have 1: "(\<exists>s. bk_streams b' (cid, ch) = Some s) \<longleftrightarrow> (\<exists>s. bk_streams b (cid, ch) = Some s)" for ch
    using rel_optionD [OF s [of ch]] by blast
  have 2: "bs_channel_id s = ch \<and> bs_agent_id s = tr_agent_id (bc_agent c)"
    if "bk_streams b' (cid, ch) = Some s" for ch s
    using rel_optionD(1) [OF s [of ch] that] assms(1) by (auto simp: conn_ok_def like_stream_def)
  show ?thesis using assms(1,2,3) 1 2 unfolding conn_ok_def like_conn_def by simp
qed

lemma inv_like:
  assumes inv: "broker_inv b"
    and eq: "bk_registry b' = bk_registry b" "bk_connections b' = bk_connections b"
      "bk_channel_agents b' = bk_channel_agents b" "bk_max_sessions b' = bk_max_sessions b"
    and c: "\<And>cid. rel_option like_conn (bk_conns b cid) (bk_conns b' cid)"
    and s: "\<And>ref. rel_option like_stream (bk_streams b ref) (bk_streams b' ref)"
  shows "broker_inv b'"
proof (rule broker_invI)
  show "conns_ok b'"
    unfolding conns_ok_def
  proof (intro allI impI)
    fix cid c' assume "bk_conns b' cid = Some c'"
    with rel_optionD(1) [OF c] obtain x where "bk_conns b cid = Some x" "like_conn x c'" by blast
    with inv_conn [OF inv] eq(4) s show "conn_ok b' cid c'" by (blast intro: conn_ok_like)
  qed
  show "streams_ok b'"
    unfolding streams_ok_def
  proof (intro allI impI)
    fix cid ch t assume "bk_streams b' (cid, ch) = Some t"
    with rel_optionD(1) [OF s] inv obtain x where "bk_conns b cid = Some x"
      by (fastforce simp: broker_inv_def streams_ok_def)
    with rel_optionD(2) [OF c] show "bk_conns b' cid \<noteq> None" by fastforce
  qed
  have "live_ok b" "routes_ok b" using inv by (simp_all add: broker_inv_def)
  then show "live_ok b'" "routes_ok b'"
    unfolding live_ok_def routes_ok_def eq
    using rel_optionD(2) [OF c] unfolding like_conn_def by (metis (no_types, lifting))+
qed

lemma inv_update_conn:
  assumes "broker_inv b" "\<And>c. like_conn c (f c)"
  shows "broker_inv (update_conn cid f b)"
  by (rule inv_like [OF assms(1)])
    (use assms(2) in \<open>auto simp: update_conn_def option.rel_map option.rel_refl\<close>)

lemma inv_seen: "broker_inv b \<Longrightarrow> broker_inv (frame_seen cid now b)"
  unfolding frame_seen_def by (erule inv_update_conn) (simp add: like_conn_def)

lemma inv_update_stream:
  assumes "broker_inv b" "\<And>s. bk_streams b ref = Some s \<Longrightarrow> like_stream s (f s)"
  shows "broker_inv (update_stream ref f b)"
proof (rule inv_like [OF assms(1)])
  fix r
  show "rel_option like_stream (bk_streams b r) (bk_streams (update_stream ref f b) r)"
    using assms(2) by (cases "bk_streams b r") (auto simp: update_stream_def)
qed (auto simp: update_stream_def option.rel_refl)

section \<open>Preservation\<close>

lemma make_connection_Inr:
  "make_connection r cid now b = Inr c \<Longrightarrow>
     bc_agent c = r \<and> bc_connection_id c = cid \<and> bc_adapters c = Map.empty \<and>
     bc_channels c = \<lparr>ch_max_sessions = bk_max_sessions b, ch_open = {}, ch_retired = {}\<rparr> \<and>
     channels_ok (bc_channels c) \<and>
     bc_heartbeat c = \<lparr>hb_seconds = bk_heartbeat_seconds b, hb_last_seen = Some (as_utc now)\<rparr>"
  by (auto simp: make_connection_def exc_elims new_channel_registry_def new_heartbeat_def
      mark_seen_def channels_ok_def split: if_splits)

lemma inv_connect:
  assumes inv: "broker_inv b" and fresh: "bk_conns b cid = None"
    and mk: "make_connection r cid now b = Inr c" and run: "connect_tunnel c rid b = (res, b')"
  shows "broker_inv b'"
proof -
  note m = make_connection_Inr [OF mk]
  let ?a = "tr_agent_id r"
  let ?b = "\<lambda>reg. b\<lparr>bk_registry := reg, bk_connections := (bk_connections b)(?a \<mapsto> cid),
    bk_conns := (bk_conns b)(cid \<mapsto> c)\<rparr>"
  from run m consider (1) "b' = b" | (2) reg where "registry_connect ?a cid (bk_registry b) = (Inr (), reg)"
      "same_but_written (?b reg) b'"
    by (auto simp: connect_tunnel_def Let_def dest: write_frame_same split: prod.splits sum.splits)
  then show ?thesis
  proof cases
    case 1
    with inv show ?thesis by simp
  next
    case (2 reg)
    have live: "live_ok b" and str: "streams_ok b" and con: "conns_ok b" and rt: "routes_ok b"
      using inv by (simp_all add: broker_inv_def)
    have none: "bk_connections b ?a = None"
    proof (rule ccontr)
      assume "bk_connections b ?a \<noteq> None"
      then obtain cid' where "bk_connections b ?a = Some cid'" by auto
      moreover have "cid' \<noteq> cid"
      proof
        assume "cid' = cid"
        with \<open>bk_connections b ?a = Some cid'\<close> live fresh show False by (fastforce simp: live_ok_def)
      qed
      ultimately show False using 2(1) live by (simp add: registry_connect_def live_ok_def)
    qed
    then have reg: "reg = (bk_connections b)(?a \<mapsto> cid)"
      using 2(1) live by (simp add: registry_connect_def live_ok_def)
    have no: "bk_streams b (cid, ch) = None" for ch
      using str fresh unfolding streams_ok_def by (metis not_None_eq)
    have "conns_ok (?b reg)"
      using con m no by (auto simp: conns_ok_def conn_ok_def used_channels_def)
    moreover have "streams_ok (?b reg)" using str by (auto simp: streams_ok_def)
    moreover have "live_ok (?b reg)"
    proof -
      have "bk_connections b a \<noteq> Some cid" for a
        using live fresh by (fastforce simp: live_ok_def)
      then show ?thesis using live m reg by (auto simp: live_ok_def)
    qed
    moreover have "routes_ok (?b reg)"
      using rt none fresh by (fastforce simp: routes_ok_def)
    ultimately have "broker_inv (?b reg)" by (rule broker_invI)
    with 2(2) inv_written show ?thesis by blast
  qed
qed

lemma retire_channel_unfold:
  assumes "bk_conns b cid = Some c"
  shows "retire_channel cid ch b =
    (if ch \<in> ch_open (bc_channels c)
     then (Inr (), b\<lparr>bk_conns := (bk_conns b)(cid \<mapsto>
             c\<lparr>bc_channels := (bc_channels c)\<lparr>ch_open := ch_open (bc_channels c) - {ch},
                  ch_retired := insert ch (ch_retired (bc_channels c))\<rparr>,
               bc_adapters := (bc_adapters c)(ch := None)\<rparr>),
           bk_channel_agents := (bk_channel_agents b)(ch := None)\<rparr>)
     else (Inl (TunnelStateError ''unknown channel''), b))"
proof -
  have "(bk_conns b)(cid \<mapsto> c) = bk_conns b" using assms by (simp add: map_upd_triv)
  then show ?thesis
    using assms
    by (simp add: retire_channel_def on_channels_def apply_close close_channel_def conn_at_def
        update_conn_def sbind_def)
qed

lemma inv_retire:
  assumes inv: "broker_inv b" and c: "bk_conns b cid = Some c" and run: "retire_channel cid ch b = (res, b')"
  shows "broker_inv b'"
proof (cases "ch \<in> ch_open (bc_channels c)")
  case False
  with run inv show ?thesis by (simp add: retire_channel_unfold [OF c])
next
  case True
  let ?chs = "(bc_channels c)\<lparr>ch_open := ch_open (bc_channels c) - {ch},
    ch_retired := insert ch (ch_retired (bc_channels c))\<rparr>"
  let ?c = "c\<lparr>bc_channels := ?chs, bc_adapters := (bc_adapters c)(ch := None)\<rparr>"
  have b': "b' = b\<lparr>bk_conns := (bk_conns b)(cid \<mapsto> ?c),
      bk_channel_agents := (bk_channel_agents b)(ch := None)\<rparr>"
    using run True by (simp add: retire_channel_unfold [OF c])
  have ok: "conn_ok b cid c" using inv c by (rule inv_conn)
  have "channels_ok ?chs"
    using ok True close_channel_ok [of "bc_channels c" ch "()"] by (auto simp: conn_ok_def close_channel_Inr)
  moreover have "used_channels ?chs = used_channels (bc_channels c)"
    using True by (auto simp: used_channels_def)
  ultimately have "conn_ok b' cid ?c" using ok by (auto simp: conn_ok_def b')
  then have "conns_ok b'" using inv by (auto simp: broker_inv_def conns_ok_def conn_ok_def b')
  moreover have "streams_ok b'" using inv c by (auto simp: broker_inv_def streams_ok_def b')
  moreover have "live_ok b'"
    using inv c unfolding broker_inv_def live_ok_def b' by fastforce
  moreover have "routes_ok b'"
  proof -
    have "\<exists>cid' c'. bk_connections b' a = Some cid' \<and> bk_conns b' cid' = Some c' \<and> x \<in> ch_open (bc_channels c')"
      if "bk_channel_agents b' x = Some a" for x a
    proof -
      from that have x: "x \<noteq> ch" "bk_channel_agents b x = Some a" by (auto simp: b' split: if_splits)
      then obtain cid' c' where "bk_connections b a = Some cid'" "bk_conns b cid' = Some c'"
        "x \<in> ch_open (bc_channels c')"
        using inv by (force simp: broker_inv_def routes_ok_def)
      with x c show ?thesis by (cases "cid' = cid") (auto simp: b')
    qed
    then show ?thesis by (simp add: routes_ok_def)
  qed
  ultimately show ?thesis by (rule broker_invI)
qed

lemma inv_drop:
  assumes inv: "broker_inv b"
  shows "broker_inv (drop_connection a cid b)"
proof (cases "bk_connections b a")
  case None
  then have "registry_disconnect a cid (bk_registry b) = bk_registry b"
    using inv by (auto simp: registry_disconnect_def broker_inv_def live_ok_def)
  with None inv show ?thesis by (simp add: drop_connection_def)
next
  case (Some x)
  with inv obtain c where c: "bk_conns b x = Some c" "conn_ok b x c" "tr_agent_id (bc_agent c) = a"
    "conn_at x b = c" by (rule inv_live)
  then have x: "bc_connection_id c = x" by (simp add: conn_ok_def)
  have reg: "bk_registry b = bk_connections b" using inv by (simp add: broker_inv_def live_ok_def)
  show ?thesis
  proof (cases "x = cid")
    case False
    then have "registry_disconnect a cid (bk_registry b) = bk_registry b"
      using Some reg by (auto simp: registry_disconnect_def)
    with Some False inv c x show ?thesis by (simp add: drop_connection_def)
  next
    case True
    have d: "dom (bc_adapters c) = ch_open (bc_channels c)"
      using c(2) by (auto simp: conn_ok_def dom_def)
    let ?b = "drop_connection a cid b"
    have f: "bk_conns ?b = bk_conns b" "bk_connections ?b = (bk_connections b)(a := None)"
      "bk_registry ?b = (bk_connections b)(a := None)" "bk_max_sessions ?b = bk_max_sessions b"
      "bk_channel_agents ?b = (\<lambda>ch. if ch \<in> ch_open (bc_channels c) then None else bk_channel_agents b ch)"
      "bk_streams ?b = (\<lambda>ref. if ref \<in> ran (bc_adapters c) then map_option feed_eof (bk_streams b ref)
         else bk_streams b ref)"
      using Some True c x reg d by (simp_all add: drop_connection_def registry_disconnect_def)
    have rel: "rel_option like_stream (bk_streams b ref) (bk_streams ?b ref)" for ref
      by (cases "bk_streams b ref") (auto simp: f(6) feed_eof_def like_stream_def)
    have "conns_ok ?b"
      using inv_conn [OF inv] rel f(1,4) unfolding conns_ok_def
      by (metis conn_ok_like like_refl(1))
    moreover have "streams_ok ?b"
      using inv rel_optionD(1) [OF rel] unfolding broker_inv_def streams_ok_def f(1) by blast
    moreover have "live_ok ?b" using inv unfolding broker_inv_def live_ok_def f by auto
    moreover have "routes_ok ?b"
      unfolding routes_ok_def f
    proof (intro allI impI)
      fix ch a' assume "(if ch \<in> ch_open (bc_channels c) then None else bk_channel_agents b ch) = Some a'"
      then have ch: "ch \<notin> ch_open (bc_channels c)" "bk_channel_agents b ch = Some a'"
        by (auto split: if_splits)
      then obtain cid' c' where c': "bk_connections b a' = Some cid'" "bk_conns b cid' = Some c'"
        "ch \<in> ch_open (bc_channels c')"
        using inv by (force simp: broker_inv_def routes_ok_def)
      with ch(1) Some c True have "a' \<noteq> a" by auto
      with c' show "\<exists>cid c. ((bk_connections b)(a := None)) a' = Some cid \<and> bk_conns b cid = Some c \<and>
        ch \<in> ch_open (bc_channels c)" by auto
    qed
    ultimately show ?thesis by (rule broker_invI)
  qed
qed

lemma inv_finish:
  assumes "broker_inv b" "finish_stream r cid rid e b = (res, b')"
  shows "broker_inv b'"
proof -
  have w: "broker_inv (b\<lparr>bk_written := w\<rparr>)" for w
    using assms(1) inv_written [of b "b\<lparr>bk_written := w\<rparr>"] unfolding same_but_written_def by blast
  have c: "broker_inv x \<Longrightarrow> broker_inv (x\<lparr>bk_writer_closed := y\<rparr>)" for x y
    by (simp add: broker_inv_def conns_ok_def conn_ok_def streams_ok_def live_ok_def routes_ok_def)
  show ?thesis
    using assms(2) by (auto simp: finish_stream_def Let_def intro!: c inv_drop w assms(1)
        split: option.splits if_splits)
qed

text \<open>The state after the bookkeeping of \<open>open_session\<close>, before the frame is written.\<close>

definition with_session :: "uuid \<Rightarrow> conn_id \<Rightarrow> BrokerTunnelConnection \<Rightarrow> channel_id \<Rightarrow> ServerTunnelBroker \<Rightarrow> ServerTunnelBroker" where
  "with_session a cid c ch b = b\<lparr>
     bk_conns := (bk_conns b)(cid \<mapsto> c\<lparr>
       bc_channels := (bc_channels c)\<lparr>ch_open := insert ch (ch_open (bc_channels c))\<rparr>,
       bc_adapters := (bc_adapters c)(ch \<mapsto> (cid, ch))\<rparr>),
     bk_streams := (bk_streams b)((cid, ch) \<mapsto>
       \<lparr>bs_agent_id = a, bs_channel_id = ch, bs_buffer = [], bs_closed = False\<rparr>),
     bk_channel_agents := (bk_channel_agents b)(ch \<mapsto> a)\<rparr>"

definition may_open :: "uuid \<Rightarrow> channel_id \<Rightarrow> datetime \<Rightarrow> conn_id \<Rightarrow> BrokerTunnelConnection \<Rightarrow> ServerTunnelBroker \<Rightarrow> bool" where
  "may_open a ch now cid c b \<longleftrightarrow> bk_connections b a = Some cid \<and> bk_conns b cid = Some c \<and>
     allows_new_jump now (bc_heartbeat c) \<and> ch \<noteq> [] \<and> ch \<notin> used_channels (bc_channels c) \<and>
     int (card (ch_open (bc_channels c))) < ch_max_sessions (bc_channels c)"

lemma open_session_cases:
  assumes inv: "broker_inv b" and run: "open_session a ch n k u cert now rid b = (res, b')"
  obtains m where "b' = b" "res = Inl (TunnelStateError m)"
    | cid c where "may_open a ch now cid c b" "iuc_username cert = u" "k \<noteq> []"
      "write_frame cid OPEN_SESSION rid (Some ch) (session_payload n u) (with_session a cid c ch b) = (res, b')"
proof (cases "iuc_username cert = u \<and> k \<noteq> [] \<and> ch \<noteq> [] \<and> bk_connections b a \<noteq> None")
  case False
  with run that(1) show thesis
    by (auto simp: open_session_def sbind_def require_connection_def require_def
        split: if_splits option.splits)
next
  case True
  then obtain cid where cid: "bk_connections b a = Some cid" by auto
  with inv obtain c where c: "bk_conns b cid = Some c" "conn_at cid b = c" by (rule inv_live)
  have same: "(bk_conns b)(cid \<mapsto> c) = bk_conns b" using c(1) by (simp add: map_upd_triv)
  show thesis
  proof (cases "may_open a ch now cid c b")
    case False
    with run True cid c that(1) same show thesis
      by (auto simp: open_session_def sbind_def require_connection_def require_def may_open_def
          on_channels_def apply_open open_channel_def used_channels_def update_conn_def
          split: if_splits)
  next
    case ok: True
    have "write_frame cid OPEN_SESSION rid (Some ch) (session_payload n u) (with_session a cid c ch b)
        = (res, b')"
      using run True cid c ok
      by (simp add: open_session_def sbind_def require_connection_def may_open_def on_channels_def
          apply_open open_channel_def used_channels_def update_conn_def with_session_def)
    with ok True that(2) show thesis by blast
  qed
qed

lemma inv_with_session:
  assumes inv: "broker_inv b" and may: "may_open a ch now cid c b"
  shows "broker_inv (with_session a cid c ch b)"
proof -
  let ?b = "with_session a cid c ch b"
  let ?c = "c\<lparr>bc_channels := (bc_channels c)\<lparr>ch_open := insert ch (ch_open (bc_channels c))\<rparr>,
    bc_adapters := (bc_adapters c)(ch \<mapsto> (cid, ch))\<rparr>"
  from may have c: "bk_conns b cid = Some c" and a: "bk_connections b a = Some cid"
    and fresh: "ch \<notin> used_channels (bc_channels c)" by (simp_all add: may_open_def)
  have ok: "conn_ok b cid c" using inv c by (rule inv_conn)
  have ag: "tr_agent_id (bc_agent c) = a"
    using inv a by (rule inv_live) (use c in simp)
  have "channels_ok (bc_channels ?c)"
    using open_channel_ok [of "bc_channels c" ch "()"] ok may
    by (auto simp: conn_ok_def open_channel_Inr may_open_def)
  moreover have "used_channels (bc_channels ?c) = insert ch (used_channels (bc_channels c))"
    by (auto simp: used_channels_def)
  moreover have "(\<exists>s. bk_streams ?b (cid, x) = Some s) \<longleftrightarrow> x = ch \<or> (\<exists>s. bk_streams b (cid, x) = Some s)" for x
    by (auto simp: with_session_def)
  moreover have "bs_channel_id s = x \<and> bs_agent_id s = a" if "bk_streams ?b (cid, x) = Some s" for x s
    using that ok ag by (cases "x = ch") (auto simp: with_session_def conn_ok_def)
  ultimately have 1: "conn_ok ?b cid ?c"
    using ok ag unfolding conn_ok_def by (simp add: with_session_def) auto
  have 2: "conn_ok ?b x y" if "x \<noteq> cid" "bk_conns b x = Some y" for x y
    using inv_conn [OF inv that(2)] that(1) unfolding conn_ok_def by (simp add: with_session_def)
  have "conns_ok ?b" unfolding conns_ok_def
  proof (intro allI impI)
    fix x y assume "bk_conns ?b x = Some y"
    then show "conn_ok ?b x y" using 1 2 [of x y] by (cases "x = cid") (auto simp: with_session_def)
  qed
  moreover have "streams_ok ?b"
    using inv by (auto simp: broker_inv_def streams_ok_def with_session_def)
  moreover have "live_ok ?b"
    unfolding live_ok_def
  proof (intro conjI allI impI)
    show "bk_registry ?b = bk_connections ?b"
      using inv by (simp add: broker_inv_def live_ok_def with_session_def)
    fix x y assume "bk_connections ?b x = Some y"
    then have "bk_connections b x = Some y" by (simp add: with_session_def)
    with inv obtain z where "bk_conns b y = Some z" "tr_agent_id (bc_agent z) = x" by (rule inv_live)
    then show "\<exists>c. bk_conns ?b y = Some c \<and> tr_agent_id (bc_agent c) = x"
      using c by (cases "y = cid") (auto simp: with_session_def)
  qed
  moreover have "routes_ok ?b"
    unfolding routes_ok_def
  proof (intro allI impI)
    fix x y assume r: "bk_channel_agents ?b x = Some y"
    show "\<exists>cid c. bk_connections ?b y = Some cid \<and> bk_conns ?b cid = Some c \<and> x \<in> ch_open (bc_channels c)"
    proof (cases "x = ch")
      case True
      with r a show ?thesis by (auto simp: with_session_def)
    next
      case False
      with r inv obtain p q where "bk_connections b y = Some p" "bk_conns b p = Some q"
        "x \<in> ch_open (bc_channels q)"
        by (force simp: with_session_def broker_inv_def routes_ok_def)
      then show ?thesis using c by (cases "p = cid") (auto simp: with_session_def)
    qed
  qed
  ultimately show ?thesis by (rule broker_invI)
qed

lemma inv_session:
  assumes "broker_inv b" "open_session a ch n k u cert now rid b = (res, b')"
  shows "broker_inv b'"
  using assms
proof (cases rule: open_session_cases)
  case (1 m)
  with assms show ?thesis by simp
next
  case (2 cid c)
  then show ?thesis using inv_with_session [OF assms(1)] write_frame_same inv_written by blast
qed

lemma on_open_channel_same:
  assumes "on_open_channel ch k b = (res, b')" "\<And>cid x r. k cid b = (r, x) \<Longrightarrow> same_but_written b x"
  shows "same_but_written b b'"
  using assms by (auto simp: on_open_channel_def sbind_def split: sum.splits prod.splits)

lemma send_same:
  "send_data ch p rid b = (res, b') \<Longrightarrow> same_but_written b b'"
  "resize_pty ch w h rid b = (res, b') \<Longrightarrow> same_but_written b b'"
  unfolding send_data_def resize_pty_def by (erule on_open_channel_same, erule write_frame_same)+

lemma close_begin_same:
  "close_session_begin ch rid b = (r, b') \<Longrightarrow> same_but_written b b'"
  by (auto simp: close_session_begin_def sbind_def dest: write_frame_same
      split: sum.splits prod.splits)

section \<open>Frames\<close>

lemma handle_agent_frame_cases:
  assumes inv: "broker_inv b" and c: "bk_conns b cid = Some c"
    and run: "handle_agent_frame cid d b = (res, b')"
  obtains
      (beat) "tf_type (dec_frame d) = HEARTBEAT" "res = Inr ()" "b' = b"
    | (data) ch where "tf_type (dec_frame d) = SESSION_DATA" "tf_channel_id (dec_frame d) = Some ch"
        "ch \<in> ch_open (bc_channels c)" "res = Inr ()"
        "b' = update_stream (cid, ch) (feed_data (dec_payload d)) b"
    | (close) ch where "tf_type (dec_frame d) = CLOSE_SESSION" "tf_channel_id (dec_frame d) = Some ch"
        "ch \<in> ch_open (bc_channels c)" "res = Inr ()"
        "retire_channel cid ch (update_stream (cid, ch) feed_eof b) = (Inr (), b')"
    | (refused) e where "res = Inl e" "b' = b" "is_tunnel_error e"
proof -
  have ad: "bc_adapters c ch = (if ch \<in> ch_open (bc_channels c) then Some (cid, ch) else None)" for ch
  proof -
    have "bc_adapters c ch = Some ref \<longleftrightarrow> ch \<in> ch_open (bc_channels c) \<and> ref = (cid, ch)" for ref
      using inv_conn [OF inv c] unfolding conn_ok_def by blast
    then show ?thesis by (cases "bc_adapters c ch") auto
  qed
  have at: "conn_at cid b = c" using c by (simp add: conn_at_def)
  let ?t = "tf_type (dec_frame d)"
  consider "?t = HEARTBEAT" | "?t = SESSION_DATA" | "?t = CLOSE_SESSION"
    | "?t \<notin> {HEARTBEAT, SESSION_DATA, CLOSE_SESSION}" by blast
  then show thesis
  proof cases
    case 1
    with run beat show thesis by (simp add: handle_agent_frame_def)
  next
    case 2
    with run data refused at ad show thesis
      by (auto simp: handle_agent_frame_def Let_def require_open_def split: option.splits if_splits)
  next
    case 3
    show thesis
    proof (cases "\<exists>ch. tf_channel_id (dec_frame d) = Some ch \<and> ch \<in> ch_open (bc_channels c)")
      case False
      with 3 run refused at show thesis
        by (auto simp: handle_agent_frame_def Let_def require_open_def split: option.splits if_splits)
    next
      case True
      then obtain ch where ch: "tf_channel_id (dec_frame d) = Some ch" "ch \<in> ch_open (bc_channels c)" by blast
      let ?b = "update_stream (cid, ch) feed_eof b"
      have "retire_channel cid ch ?b = (res, b')"
        using 3 run at ad ch by (simp add: handle_agent_frame_def Let_def require_open_def)
      moreover have "bk_conns ?b cid = Some c" using c by (simp add: update_stream_def)
      ultimately have "res = Inr ()" "retire_channel cid ch ?b = (Inr (), b')"
        using ch(2) by (simp_all add: retire_channel_unfold)
      with 3 ch close show thesis by blast
    qed
  next
    case 4
    with run refused show thesis by (auto simp: handle_agent_frame_def Let_def)
  qed
qed

lemma like_feed [simp]:
  "like_stream s (feed_data p s)" "like_stream s (feed_eof s)" "like_stream s (s\<lparr>bs_closed := x\<rparr>)"
  by (simp_all add: like_stream_def feed_data_def feed_eof_def)

lemma inv_frame:
  assumes inv: "broker_inv b" and c: "bk_conns b cid = Some c"
    and run: "handle_agent_frame cid d b = (res, b')"
  shows "broker_inv b'"
  using assms
proof (cases rule: handle_agent_frame_cases)
  case (data ch)
  then show ?thesis using inv_update_stream [OF inv] by simp
next
  case (close ch)
  have "broker_inv (update_stream (cid, ch) feed_eof b)" by (rule inv_update_stream [OF inv]) simp
  moreover have "bk_conns (update_stream (cid, ch) feed_eof b) cid = Some c"
    using c by (simp add: update_stream_def)
  ultimately show ?thesis using close inv_retire by blast
qed (use inv in simp_all)

lemma like_read: "stream_read n s = Some (p, s') \<Longrightarrow> like_stream s s'"
  by (auto simp: stream_read_def like_stream_def split: if_splits)

section \<open>Reachable states\<close>

lemma inv_step: "broker_step b b' \<Longrightarrow> broker_inv b \<Longrightarrow> broker_inv b'"
proof (induction rule: broker_step.induct)
  case (read b ref s n p s')
  then show ?case using inv_update_stream [of b ref "\<lambda>_. s'"] like_read by fastforce
next
  case (data ch p rid b res b')
  then show ?case using send_same(1) inv_written by blast
next
  case (resize ch w h rid b res b')
  then show ?case using send_same(2) inv_written by blast
next
  case (close_begin ch rid b res b')
  then show ?case using close_begin_same inv_written by blast
next
  case (mark_closed b ref s)
  then show ?case using inv_update_stream by (metis like_feed(3))
qed (blast intro: inv_connect inv_seen inv_frame inv_finish inv_session inv_retire)+

lemma inv_reachable: "reachable b \<Longrightarrow> broker_inv b"
  by (induction rule: reachable.induct) (auto intro: inv_new inv_step)

section \<open>Operations in a reachable state\<close>

lemma route:
  assumes inv: "broker_inv b" and r: "bk_channel_agents b ch = Some a"
  obtains cid c where "bk_connections b a = Some cid" "bk_conns b cid = Some c" "conn_at cid b = c"
    "ch \<in> ch_open (bc_channels c)" "tr_agent_id (bc_agent c) = a"
proof -
  from assms obtain cid c where c: "bk_connections b a = Some cid" "bk_conns b cid = Some c"
    "ch \<in> ch_open (bc_channels c)"
    by (force simp: broker_inv_def routes_ok_def)
  from inv c(1) obtain c' where "bk_conns b cid = Some c'" "tr_agent_id (bc_agent c') = a"
    "conn_at cid b = c'" by (rule inv_live)
  with c that show thesis by simp
qed

lemma on_open_channel_eq:
  assumes inv: "broker_inv b"
  shows "on_open_channel ch k b =
    (case bk_channel_agents b ch of None \<Rightarrow> (Inl (TunnelStateError ''channel is not open''), b)
     | Some a \<Rightarrow> k (the (bk_connections b a)) b)"
proof (cases "bk_channel_agents b ch")
  case None
  then show ?thesis by (simp add: on_open_channel_def sbind_def require_channel_connection_def)
next
  case (Some a)
  with inv obtain cid c where "bk_connections b a = Some cid" "conn_at cid b = c"
    "ch \<in> ch_open (bc_channels c)" by (rule route)
  with Some show ?thesis
    by (simp add: on_open_channel_def sbind_def require_channel_connection_def require_open_def)
qed

lemma close_begin_eq:
  assumes inv: "broker_inv b"
  shows "close_session_begin ch rid b =
    (case bk_channel_agents b ch of None \<Rightarrow> (Inl (TunnelStateError ''channel is not open''), b)
     | Some a \<Rightarrow> sbind (write_frame (the (bk_connections b a)) CLOSE_SESSION rid (Some ch) [])
         (\<lambda>_. sret (the (bk_connections b a))) b)"
proof (cases "bk_channel_agents b ch")
  case None
  then show ?thesis by (simp add: close_session_begin_def sbind_def require_channel_connection_def)
next
  case (Some a)
  with inv obtain cid c where "bk_connections b a = Some cid" "conn_at cid b = c"
    "ch \<in> ch_open (bc_channels c)" by (rule route)
  with Some show ?thesis
    by (simp add: close_session_begin_def sbind_def require_channel_connection_def require_open_def)
qed

definition tunnel_failure :: "'a result \<Rightarrow> bool" where
  "tunnel_failure r \<longleftrightarrow> (\<forall>e. r = Inl e \<longrightarrow> is_tunnel_error e)"

lemma write_frame_failure: "tunnel_failure (fst (write_frame cid t rid ch p b))"
  using write_frame_error [of cid t rid ch p b] unfolding tunnel_failure_def
  by (cases "write_frame cid t rid ch p b") auto

lemma send_failure:
  assumes "broker_inv b"
  shows "tunnel_failure (fst (send_data ch p rid b))" "tunnel_failure (fst (resize_pty ch w h rid b))"
    "tunnel_failure (fst (close_session_begin ch rid b))"
proof -
  show "tunnel_failure (fst (send_data ch p rid b))" "tunnel_failure (fst (resize_pty ch w h rid b))"
    unfolding send_data_def resize_pty_def on_open_channel_eq [OF assms]
    by (auto simp: write_frame_failure split: option.split) (simp_all add: tunnel_failure_def)
  show "tunnel_failure (fst (close_session_begin ch rid b))"
  proof (cases "bk_channel_agents b ch")
    case (Some a)
    then show ?thesis
      using write_frame_failure [of "the (bk_connections b a)" CLOSE_SESSION rid "Some ch" "[]" b]
      unfolding close_begin_eq [OF assms] tunnel_failure_def
      by (auto simp: sbind_def split: prod.splits sum.splits)
  qed (simp add: close_begin_eq [OF assms] tunnel_failure_def)
qed

lemma frame_failure:
  assumes "broker_inv b" "bk_conns b cid = Some c"
  shows "tunnel_failure (fst (handle_agent_frame cid d b))"
proof -
  obtain res b' where r: "handle_agent_frame cid d b = (res, b')" by force
  from assms r show ?thesis
    by (cases rule: handle_agent_frame_cases) (simp_all add: r tunnel_failure_def)
qed

lemma session_failure:
  assumes "broker_inv b"
  shows "tunnel_failure (fst (open_session a ch n k u cert now rid b))"
proof -
  obtain res b' where r: "open_session a ch n k u cert now rid b = (res, b')" by force
  from assms r show ?thesis
  proof (cases rule: open_session_cases)
    case (2 cid c)
    then show ?thesis using write_frame_failure r by (metis fst_conv)
  qed (simp add: r tunnel_failure_def)
qed

lemma connector_failure: "tunnel_failure (connector_for_agent a ch b)"
  by (auto simp: connector_for_agent_def require_connection_def tunnel_failure_def
      split: option.splits if_splits)

lemma drop_streams:
  assumes inv: "broker_inv b" and live: "bk_connections b a = Some cid" and c: "bk_conns b cid = Some c"
    and ch: "ch \<in> ch_open (bc_channels c)"
  shows "\<exists>s. bk_streams b (cid, ch) = Some s \<and>
      bk_streams (drop_connection a cid b) (cid, ch) = Some (feed_eof s) \<and>
      bk_channel_agents (drop_connection a cid b) ch = None \<and>
      bk_connections (drop_connection a cid b) a = None"
proof -
  have ok: "conn_ok b cid c" using inv c by (rule inv_conn)
  then have "bc_connection_id c = cid" by (simp add: conn_ok_def)
  have ad: "bc_adapters c ch = Some (cid, ch)" using ok ch by (simp add: conn_ok_def)
  then have "(cid, ch) \<in> ran (bc_adapters c)" by (auto simp: ran_def)
  moreover have "ch \<in> dom (bc_adapters c)" using ad by auto
  moreover have "\<exists>s. bk_streams b (cid, ch) = Some s"
    using ok ch by (auto simp: conn_ok_def used_channels_def)
  ultimately show ?thesis
    using live c \<open>bc_connection_id c = cid\<close> by (auto simp: drop_connection_def conn_at_def Let_def)
qed

lemma finish_closes:
  assumes "reachable b" "bk_connections b a = Some cid" "bk_conns b cid = Some c"
    and "finish_stream (Some (bc_agent c)) cid rid e b = (res, b')" "ch \<in> ch_open (bc_channels c)"
  shows "(\<exists>s. bk_streams b' (cid, ch) = Some s \<and> bs_closed s) \<and>
    bk_connections b' a = None \<and> bk_registry b' a = None \<and>
    send_data ch p rid' b' = (Inl (TunnelStateError ''channel is not open''), b')"
proof -
  have inv: "broker_inv b" using assms(1) by (rule inv_reachable)
  have ag: "tr_agent_id (bc_agent c) = a"
    using inv assms(2) by (rule inv_live) (use assms(3) in simp)
  define b1 where "b1 = (if \<not> ends_quietly e \<and> is_tunnel_error e
    then b\<lparr>bk_written := (bk_written b)(cid := best_effort_error rid (bk_written b cid))\<rparr> else b)"
  have same: "same_but_written b b1"
  proof (cases "\<not> ends_quietly e \<and> is_tunnel_error e")
    case True
    then show ?thesis by (auto simp: b1_def same_but_written_def)
  next
    case False
    then have "b1 = b" by (auto simp: b1_def)
    then show ?thesis by simp
  qed
  have inv1: "broker_inv b1" using inv same inv_written by blast
  have f: "bk_connections b1 = bk_connections b" "bk_conns b1 = bk_conns b"
    using same by (auto simp: same_but_written_def)
  from drop_streams [OF inv1, of a cid c ch] assms(2,3,5) f
  obtain s where s: "bk_streams (drop_connection a cid b1) (cid, ch) = Some (feed_eof s)"
    "bk_channel_agents (drop_connection a cid b1) ch = None"
    "bk_connections (drop_connection a cid b1) a = None" by auto
  have b': "b' = (drop_connection a cid b1)\<lparr>bk_writer_closed := insert cid
      (bk_writer_closed (drop_connection a cid b1))\<rparr>"
    using assms(4) ag unfolding finish_stream_def b1_def Let_def by auto
  have "broker_inv (drop_connection a cid b1)" using inv1 by (rule inv_drop)
  then have "bk_registry (drop_connection a cid b1) a = None"
    using s(3) by (simp add: broker_inv_def live_ok_def)
  with s show ?thesis
    by (simp add: b' feed_eof_def send_data_def on_open_channel_def sbind_def
        require_channel_connection_def)
qed

section \<open>A whole stream\<close>

lemma frame_keeps:
  assumes "reachable b" "bk_conns b cid = Some c" "handle_agent_frame cid d b = (res, b')"
  shows "bk_connections b' = bk_connections b \<and> bk_max_frame_bytes b' = bk_max_frame_bytes b \<and>
    (\<exists>c'. bk_conns b' cid = Some c' \<and> bc_connection_id c' = bc_connection_id c)"
  using inv_reachable [OF assms(1)] assms(2,3)
proof (cases rule: handle_agent_frame_cases)
  case (close ch)
  have "bk_conns (update_stream (cid, ch) feed_eof b) cid = Some c"
    using assms(2) by (simp add: update_stream_def)
  from retire_channel_unfold [OF this, of ch] close show ?thesis by (auto simp: update_stream_def)
qed (use assms(2) in \<open>auto simp: update_stream_def\<close>)

lemma serve_frames_keeps:
  assumes "reachable b" "bk_conns b cid = Some c" "serve_frames cid a clock i b db s = (e, b', db')"
  shows "reachable b' \<and> bk_connections b' = bk_connections b \<and>
    (\<exists>c'. bk_conns b' cid = Some c' \<and> bc_connection_id c' = bc_connection_id c)"
  using assms
proof (induction cid a clock i b db s arbitrary: c rule: serve_frames.induct)
  case (1 cid a clock i b db s)
  obtain r t where rd: "server_read_one_frame (bk_max_frame_bytes b) s = (r, t)" by force
  show ?case
  proof (cases r)
    case (Inl x)
    with rd 1(2-4) show ?thesis by (simp add: serve_frames.simps [of cid a clock i b db s])
  next
    case (Inr d)
    let ?b1 = "frame_seen cid (clock i) b"
    have r1: "reachable ?b1" using 1(2,3) by (blast intro: reachable.step broker_step.seen)
    obtain c1 where c1: "bk_conns ?b1 cid = Some c1" "bc_connection_id c1 = bc_connection_id c"
      using 1(3) by (auto simp: frame_seen_def update_conn_def)
    have k1: "bk_connections ?b1 = bk_connections b" by (simp add: frame_seen_def update_conn_def)
    obtain u db1 where u: "pg_update_last_seen a (clock i) db = (u, db1)" by force
    show ?thesis
    proof (cases u)
      case (Inl x)
      with rd Inr u 1(4) r1 c1 k1 show ?thesis
        by (simp add: serve_frames.simps [of cid a clock i b db s] Let_def)
    next
      case u': (Inr y)
      obtain h b2 where h: "handle_agent_frame cid d ?b1 = (h, b2)" by force
      have r2: "reachable b2" using r1 c1(1) h by (blast intro: reachable.step broker_step.frame)
      from frame_keeps [OF r1 c1(1) h] c1(2) k1 obtain c2 where c2: "bk_conns b2 cid = Some c2"
        "bc_connection_id c2 = bc_connection_id c" "bk_connections b2 = bk_connections b" by auto
      show ?thesis
      proof (cases h)
        case (Inl x)
        with rd Inr u u' h 1(4) r2 c2 show ?thesis
          by (simp add: serve_frames.simps [of cid a clock i b db s] Let_def)
      next
        case h': (Inr z)
        have "serve_frames cid a clock (Suc i) b2 db1 t = (e, b', db')"
          using rd Inr u u' h h' 1(4) by (simp add: serve_frames.simps [of cid a clock i b db s] Let_def)
        with 1(1) [OF rd [symmetric] Inr refl u [symmetric] u' h [symmetric] h' r2 c2(1)] c2(2,3)
        show ?thesis by simp
      qed
    qed
  qed
qed

lemma connect_cases:
  assumes "connect_tunnel c rid b = (res, b')"
  obtains e where "res = Inl e" "b' = b"
    | w where "b' = b\<lparr>bk_registry := (bk_registry b)(tr_agent_id (bc_agent c) \<mapsto> bc_connection_id c),
        bk_connections := (bk_connections b)(tr_agent_id (bc_agent c) \<mapsto> bc_connection_id c),
        bk_conns := (bk_conns b)(bc_connection_id c \<mapsto> c), bk_written := w\<rparr>"
      "bk_registry b (tr_agent_id (bc_agent c)) \<in> {None, Some (bc_connection_id c)}"
proof -
  let ?a = "tr_agent_id (bc_agent c)" and ?i = "bc_connection_id c"
  let ?b = "b\<lparr>bk_registry := (bk_registry b)(?a \<mapsto> ?i), bk_connections := (bk_connections b)(?a \<mapsto> ?i),
    bk_conns := (bk_conns b)(?i \<mapsto> c)\<rparr>"
  show thesis
  proof (cases "bk_registry b ?a \<in> {None, Some ?i}")
    case True
    then have "write_frame ?i AUTH_OK rid None [] ?b = (res, b')"
      using assms by (auto simp: connect_tunnel_def Let_def registry_connect_def)
    then have "same_but_written ?b b'" by (rule write_frame_same)
    with True that(2) show thesis by (auto simp: same_but_written_def)
  next
    case False
    then have "connect_tunnel c rid b = (Inl (TunnelStateError ''duplicate active tunnel''), b)"
      by (auto simp: connect_tunnel_def Let_def registry_connect_def)
    with assms that(1) show thesis by auto
  qed
qed

lemma finish_connections:
  assumes "finish_stream (Some r) cid rid e b = (res, b')"
    and "\<forall>x. bk_connections b (tr_agent_id r) = Some x \<longrightarrow> bc_connection_id (conn_at x b) = x"
  shows "bk_connections b' = (if bk_connections b (tr_agent_id r) = Some cid
      then (bk_connections b)(tr_agent_id r := None) else bk_connections b) \<and> cid \<in> bk_writer_closed b'"
proof -
  define b1 where "b1 = (if \<not> ends_quietly e \<and> is_tunnel_error e
    then b\<lparr>bk_written := (bk_written b)(cid := best_effort_error rid (bk_written b cid))\<rparr> else b)"
  have f: "bk_connections b1 = bk_connections b" "bk_conns b1 = bk_conns b" by (auto simp: b1_def)
  have b': "b' = (drop_connection (tr_agent_id r) cid b1)\<lparr>bk_writer_closed := insert cid
      (bk_writer_closed (drop_connection (tr_agent_id r) cid b1))\<rparr>"
    using assms(1) unfolding finish_stream_def b1_def Let_def by auto
  show ?thesis
    using assms(2) f by (cases "bk_connections b (tr_agent_id r)")
      (auto simp: b' drop_connection_def Let_def conn_at_def)
qed

lemma live_ids:
  assumes "broker_inv b" "bk_connections b a = Some x"
  shows "bc_connection_id (conn_at x b) = x"
  using assms by (elim inv_live) (auto simp: conn_ok_def)

lemma handle_stream_ends:
  assumes r: "reachable b" and fresh: "bk_conns b cid = None"
    and run: "handle_stream text_of peer cid rid now clock s b db = (res, b', db')"
  shows "bk_connections b' = bk_connections b \<and> cid \<in> bk_writer_closed b'"
proof -
  have no: "bk_connections b a \<noteq> Some cid" for a
    using inv_reachable [OF r] fresh by (auto elim: inv_live)
  obtain h t where hs: "tunnel_handshake text_of peer now (bk_max_frame_bytes b) db s = (h, t)" by force
  show ?thesis
  proof (cases h)
    case (Inl e)
    with run hs show ?thesis by (auto simp: handle_stream_def finish_stream_def Let_def)
  next
    case (Inr x)
    obtain ag rq where x: "x = (ag, rq)" by force
    have fin: "bk_connections b'' = bk_connections b \<and> cid \<in> bk_writer_closed b''"
      if "finish_stream (Some ag) cid rid e b = (z, b'')" for e z b''
      using finish_connections [OF that] live_ids [OF inv_reachable [OF r]] no by auto
    show ?thesis
    proof (cases "make_connection ag cid (clock 0) b")
      case (Inl e)
      with run hs Inr x fin show ?thesis by (auto simp: handle_stream_def Let_def split: prod.splits)
    next
      case mk: (Inr c)
      note c = make_connection_Inr [OF mk]
      obtain u db1 where u: "pg_update_last_seen (tr_agent_id ag) (clock 0) db = (u, db1)" by force
      show ?thesis
      proof (cases u)
        case (Inl e)
        with run hs Inr x mk u fin show ?thesis by (auto simp: handle_stream_def Let_def split: prod.splits)
      next
        case u': (Inr y)
        obtain v b1 where v: "connect_tunnel c rq b = (v, b1)" by force
        have r1: "reachable b1" using r fresh mk v by (blast intro: reachable.step broker_step.connect)
        from v show ?thesis
        proof (cases rule: connect_cases)
          case (1 e)
          with run hs Inr x mk u u' v fin show ?thesis
            by (auto simp: handle_stream_def Let_def split: prod.splits)
        next
          case (2 w)
          have conn: "bk_connections b1 = (bk_connections b)(tr_agent_id ag \<mapsto> cid)"
            and c1: "bk_conns b1 cid = Some c" using 2(1) c by simp_all
          have none: "bk_connections b (tr_agent_id ag) = None"
            using 2(2) c no inv_reachable [OF r] by (auto simp: broker_inv_def live_ok_def)
          obtain e b2 db2 where sv: "(case v of Inl e \<Rightarrow> (e, b1, db1)
              | Inr _ \<Rightarrow> serve_frames cid (tr_agent_id ag) clock 1 b1 db1 t) = (e, b2, db2)"
            by (metis prod_cases3)
          have r2: "reachable b2 \<and> bk_connections b2 = bk_connections b1"
            using sv r1 serve_frames_keeps [OF r1 c1] by (cases v) auto
          have f2: "finish_stream (Some ag) cid rid e b2 = (res, b')"
            using run hs Inr x mk u u' v sv
            by (cases v) (auto simp: handle_stream_def Let_def split: prod.splits)
          have live: "bk_connections b2 (tr_agent_id ag) = Some cid" using r2 conn by simp
          then have "bc_connection_id (conn_at cid b2) = cid"
            using live_ids [of b2] inv_reachable [of b2] r2 by blast
          with finish_connections [OF f2] live
          have "bk_connections b' = (bk_connections b2)(tr_agent_id ag := None) \<and> cid \<in> bk_writer_closed b'"
            by simp
          moreover have "(bk_connections b2)(tr_agent_id ag := None) = bk_connections b"
            using r2 conn none by (simp add: fun_upd_idem)
          ultimately show ?thesis by simp
        qed
      qed
    qed
  qed
qed

section \<open>A sample run\<close>

text \<open>One agent connects and two sessions are opened on its tunnel; the witnesses use this state.\<close>

definition sample_cert :: IssuedUserCertificate where
  "sample_cert = \<lparr>iuc_private_key = [], iuc_certificate =
     \<lparr>s_public_key = [], s_key_id = str ''s1'', s_serial = 1, s_principals = [str ''alice''],
      s_valid_after = utc 0, s_valid_before = utc 0, s_source_address = [],
      s_permit_x11_forwarding = False, s_permit_agent_forwarding = False,
      s_permit_port_forwarding = False, s_permit_pty = True, s_permit_user_rc = False\<rparr>,
     iuc_serial = 1, iuc_username = str ''alice'', iuc_valid_after = utc 0, iuc_valid_before = utc 0\<rparr>"

definition sample_state :: "channel_id list \<Rightarrow> ServerTunnelBroker \<Rightarrow> bool" where
  "sample_state chs b \<longleftrightarrow> reachable b \<and> bk_max_frame_bytes b = 4096 \<and> bk_writer_closed b = {} \<and>
     bk_connections b 7 = Some (str ''c1'') \<and>
     (\<exists>c. bk_conns b (str ''c1'') = Some c \<and> bc_agent c = sample_record \<and>
        ch_open (bc_channels c) = set chs \<and> ch_retired (bc_channels c) = {} \<and>
        ch_max_sessions (bc_channels c) = 2 \<and>
        bc_heartbeat c = \<lparr>hb_seconds = 30, hb_last_seen = Some (utc 0)\<rparr>) \<and>
     (\<forall>ch \<in> set chs. bk_channel_agents b ch = Some 7)"

lemma encode_4096:
  assumes "r \<noteq> []" "length r + opt_length c \<le> 1000" "length p \<le> 4000"
  obtains bs where "encode_frame t r c p 4096 = Inr bs"
proof -
  have "(4000::nat) < 10 ^ 100" by simp
  with assms(3) have "length p < 10 ^ 100" by linarith
  then show thesis using encode_frame_accepts [OF assms(1,2), of 4096 p t] assms(3) that by auto
qed

lemma sample_connected: "\<exists>b. sample_state [] b \<and> bk_conns b (str ''c2'') = None"
proof -
  obtain b0 where b0: "new_broker 2 30 4096 = Inr b0" by (simp add: new_broker_def)
  let ?c = "\<lparr>bc_agent = sample_record, bc_connection_id = str ''c1'',
    bc_channels = \<lparr>ch_max_sessions = 2, ch_open = {}, ch_retired = {}\<rparr>,
    bc_heartbeat = \<lparr>hb_seconds = 30, hb_last_seen = Some (utc 0)\<rparr>, bc_adapters = Map.empty\<rparr>"
  have z: "b0 = \<lparr>bk_max_sessions = 2, bk_heartbeat_seconds = 30, bk_max_frame_bytes = 4096,
      bk_registry = Map.empty, bk_connections = Map.empty, bk_channel_agents = Map.empty,
      bk_conns = Map.empty, bk_streams = Map.empty, bk_written = (\<lambda>_. []), bk_writer_closed = {}\<rparr>"
    using b0 by (simp add: new_broker_def)
  have mk: "make_connection sample_record (str ''c1'') (utc 0) b0 = Inr ?c"
    by (simp add: z make_connection_def new_channel_registry_def new_heartbeat_def mark_seen_def as_utc_eq)
  obtain bs where bs: "encode_frame AUTH_OK (str ''r'') None [] 4096 = Inr bs"
    by (rule encode_4096 [of "str ''r''" None "[]"]) (simp_all add: opt_length_def)
  have "tr_agent_id sample_record = 7" by (simp add: sample_record_def)
  then obtain b1 where b1: "connect_tunnel ?c (str ''r'') b0 = (Inr (), b1)"
    and f: "bk_max_frame_bytes b1 = 4096" "bk_connections b1 = [7 \<mapsto> str ''c1'']"
      "bk_conns b1 = [str ''c1'' \<mapsto> ?c]" "bk_writer_closed b1 = {}"
    using bs by (simp add: connect_tunnel_def z registry_connect_def write_frame_def
        server_write_frame_def Let_def)
  have "reachable b1"
    using reachable.step [OF reachable.start [OF b0] broker_step.connect [OF _ mk b1]]
    by (simp add: z)
  with f show ?thesis by (auto simp: sample_state_def)
qed

lemma sample_open:
  assumes st: "sample_state chs b" and ch: "ch \<notin> set chs" "ch \<noteq> []" "length ch \<le> 100"
    and n: "length chs < 2" "distinct chs"
  shows "\<exists>b'. open_session 7 ch (str ''web-1'') (str ''k'') (str ''alice'') sample_cert (utc 1) (str ''r'') b
      = (Inr (), b') \<and> sample_state (ch # chs) b'"
proof -
  obtain c where c: "bk_conns b (str ''c1'') = Some c" "bc_agent c = sample_record"
    "ch_open (bc_channels c) = set chs" "ch_retired (bc_channels c) = {}"
    "ch_max_sessions (bc_channels c) = 2"
    "bc_heartbeat c = \<lparr>hb_seconds = 30, hb_last_seen = Some (utc 0)\<rparr>"
    and b: "reachable b" "bk_max_frame_bytes b = 4096" "bk_connections b 7 = Some (str ''c1'')"
      "\<forall>ch \<in> set chs. bk_channel_agents b ch = Some 7" "bk_writer_closed b = {}"
    using st unfolding sample_state_def by blast
  let ?p = "session_payload (str ''web-1'') (str ''alice'')"
  have "length ?p \<le> 4000"
    using length_print_string [of "str ''node_name''"] length_print_string [of "str ''web-1''"]
      length_print_string [of "str ''username''"] length_print_string [of "str ''alice''"]
    by (simp add: session_payload_def dumps_bytes_def json_dumps_def str_def)
  then obtain bs where bs: "encode_frame OPEN_SESSION (str ''r'') (Some ch) ?p 4096 = Inr bs"
    using ch(3) encode_4096 [of "str ''r''" "Some ch" ?p OPEN_SESSION] by (auto simp: opt_length_def)
  obtain res b' where r: "open_session 7 ch (str ''web-1'') (str ''k'') (str ''alice'') sample_cert (utc 1)
      (str ''r'') b = (res, b')" by force
  have may: "may_open 7 ch (utc 1) (str ''c1'') c b"
    using b c ch n distinct_card [of chs]
    by (simp add: may_open_def fresh_iff utc_def seconds_def instant_def used_channels_def)
  from inv_reachable [OF b(1)] r show ?thesis
  proof (cases rule: open_session_cases)
    case (1 m)
    have "res = Inr ()"
    proof -
      have "(bk_conns b)(str ''c1'' \<mapsto> c) = bk_conns b" using c(1) by (simp add: map_upd_triv)
      then show ?thesis
        using r may b(3) c(1) bs b(2)
        by (auto simp: open_session_def sbind_def sample_cert_def require_connection_def may_open_def
            on_channels_def apply_open open_channel_def used_channels_def update_conn_def conn_at_def
            write_frame_def server_write_frame_def)
    qed
    with 1 show ?thesis by simp
  next
    case (2 cid c')
    then have [simp]: "cid = str ''c1''" "c' = c" using b(3) c(1) by (auto simp: may_open_def)
    have w: "bk_max_frame_bytes (with_session 7 (str ''c1'') c ch b) = 4096"
      using b(2) by (simp add: with_session_def)
    then have res: "res = Inr ()"
      and b': "b' = (with_session 7 (str ''c1'') c ch b)\<lparr>bk_written :=
        (bk_written b)(str ''c1'' := bk_written b (str ''c1'') @ bs)\<rparr>"
      using 2(4) bs by (auto simp: write_frame_def server_write_frame_def with_session_def)
    have "reachable b'" using reachable.step [OF b(1) broker_step.session [OF r]] .
    then have "sample_state (ch # chs) b'"
      using b c by (auto simp: sample_state_def b' with_session_def)
    with res r show ?thesis by blast
  qed
qed

lemma sample_sessions:
  obtains b where "sample_state [str ''s2'', str ''s1''] b"
proof -
  obtain b0 where "sample_state [] b0" using sample_connected by blast
  from sample_open [OF this, of "str ''s1''"] obtain b1 where "sample_state [str ''s1''] b1" by auto
  from sample_open [OF this, of "str ''s2''"] that show thesis by auto
qed

section \<open>Running tunnels\<close>

text \<open>
  A tunnel runs from the moment its connection is made until its handler has closed the writer.  The
  steps between keep what the claim on running tunnels speaks of.
\<close>

definition tunnel_runs :: "ServerTunnelBroker \<Rightarrow> conn_id \<Rightarrow> BrokerTunnelConnection \<Rightarrow> bool" where
  "tunnel_runs b cid c \<longleftrightarrow> bk_conns b cid = Some c \<and> cid \<notin> bk_writer_closed b"

definition running_ok :: "ServerTunnelBroker \<Rightarrow> bool" where
  "running_ok b \<longleftrightarrow> (\<forall>cid c. tunnel_runs b cid c \<longrightarrow> bk_connections b (tr_agent_id (bc_agent c)) = Some cid)"

definition same_tunnels :: "ServerTunnelBroker \<Rightarrow> ServerTunnelBroker \<Rightarrow> bool" where
  "same_tunnels b b' \<longleftrightarrow> bk_connections b' = bk_connections b \<and> bk_writer_closed b' = bk_writer_closed b \<and>
     (\<forall>cid. map_option bc_agent (bk_conns b' cid) = map_option bc_agent (bk_conns b cid))"

lemma same_tunnels_running:
  assumes "same_tunnels b b'" "running_ok b"
  shows "running_ok b'"
  unfolding running_ok_def
proof (intro allI impI)
  fix cid c assume r: "tunnel_runs b' cid c"
  have "map_option bc_agent (bk_conns b cid) = Some (bc_agent c)"
    using assms(1) r by (metis same_tunnels_def tunnel_runs_def option.map(2))
  then obtain x where x: "bk_conns b cid = Some x" "bc_agent x = bc_agent c" by auto
  then have "tunnel_runs b cid x" using assms(1) r by (simp add: same_tunnels_def tunnel_runs_def)
  with assms x(2) show "bk_connections b' (tr_agent_id (bc_agent c)) = Some cid"
    unfolding running_ok_def same_tunnels_def by metis
qed

lemma same_tunnels_written: "same_but_written b b' \<Longrightarrow> same_tunnels b b'"
  by (auto simp: same_but_written_def same_tunnels_def)

lemma same_tunnels_stream: "same_tunnels b (update_stream ref f b)"
  by (simp add: same_tunnels_def update_stream_def)

lemma same_tunnels_seen: "same_tunnels b (frame_seen cid now b)"
  by (simp add: same_tunnels_def frame_seen_def update_conn_def option.map_comp comp_def)

lemma same_tunnels_retire:
  assumes "bk_conns b cid = Some c" "retire_channel cid ch b = (res, b')"
  shows "same_tunnels b b'"
  using assms by (auto simp: retire_channel_unfold [OF assms(1)] same_tunnels_def split: if_splits)

lemma same_tunnels_frame:
  assumes "broker_inv b" "bk_conns b cid = Some c" "handle_agent_frame cid d b = (res, b')"
  shows "same_tunnels b b'"
  using assms
proof (cases rule: handle_agent_frame_cases)
  case (close ch)
  have "bk_conns (update_stream (cid, ch) feed_eof b) cid = Some c"
    using assms(2) by (simp add: update_stream_def)
  from retire_channel_unfold [OF this, of ch] close show ?thesis
    using assms(2) by (auto simp: update_stream_def same_tunnels_def)
qed (auto simp: update_stream_def same_tunnels_def)

lemma same_tunnels_session:
  assumes "broker_inv b" "open_session a ch n k u cert now rid b = (res, b')"
  shows "same_tunnels b b'"
  using assms
proof (cases rule: open_session_cases)
  case (2 cid c)
  then show ?thesis
    by (auto simp: with_session_def same_tunnels_def may_open_def dest!: write_frame_same simp: same_but_written_def)
qed (simp add: same_tunnels_def)

lemma connect_running:
  assumes "broker_inv b" "running_ok b" "bk_conns b cid = None" "make_connection r cid now b = Inr c"
    and "connect_tunnel c rid b = (res, b')"
  shows "running_ok b'"
  using assms(5)
proof (cases rule: connect_cases)
  case 1
  with assms(2) show ?thesis by simp
next
  case (2 w)
  note m = make_connection_Inr [OF assms(4)]
  have reg: "bk_registry b = bk_connections b" using assms(1) by (simp add: broker_inv_def live_ok_def)
  have "bk_connections b (tr_agent_id r) \<noteq> Some cid" using assms(1,3) by (auto elim: inv_live)
  then have none: "bk_connections b (tr_agent_id r) = None" using 2(2) m reg by simp
  show ?thesis
    unfolding running_ok_def
  proof (intro allI impI)
    fix x y assume r: "tunnel_runs b' x y"
    show "bk_connections b' (tr_agent_id (bc_agent y)) = Some x"
    proof (cases "x = cid")
      case True
      then show ?thesis using r 2(1) m by (simp add: tunnel_runs_def)
    next
      case False
      then have "tunnel_runs b x y" using r 2(1) m by (simp add: tunnel_runs_def)
      then have "bk_connections b (tr_agent_id (bc_agent y)) = Some x" using assms(2) by (simp add: running_ok_def)
      with none show ?thesis using 2(1) m by auto
    qed
  qed
qed

lemma finish_running:
  assumes "broker_inv b" "running_ok b" "\<And>c. bk_conns b cid = Some c \<Longrightarrow> r = Some (bc_agent c)"
    and "finish_stream r cid rid e b = (res, b')"
  shows "running_ok b'"
proof -
  have d: "bk_conns (drop_connection a i x) = bk_conns x" "bk_writer_closed (drop_connection a i x) = bk_writer_closed x" for a i x
    by (auto simp: drop_connection_def Let_def split: option.split)
  have f: "bk_conns b' = bk_conns b" "bk_writer_closed b' = insert cid (bk_writer_closed b)"
    using assms(4) by (auto simp: finish_stream_def Let_def d split: option.splits if_splits)
  have k: "bk_connections b' = bk_connections b \<or>
      (\<exists>a. r = Some a \<and> bk_connections b (tr_agent_id a) = Some cid \<and> bk_connections b' = (bk_connections b)(tr_agent_id a := None))"
  proof (cases r)
    case None
    then show ?thesis using assms(4) by (auto simp: finish_stream_def Let_def split: if_splits)
  next
    case (Some a)
    then show ?thesis using finish_connections [of a cid rid e b res b'] assms(4) live_ids [OF assms(1)] by auto
  qed
  show ?thesis
    unfolding running_ok_def
  proof (intro allI impI)
    fix x y assume r: "tunnel_runs b' x y"
    then have x: "tunnel_runs b x y" "x \<noteq> cid" using f by (auto simp: tunnel_runs_def)
    then have "bk_connections b (tr_agent_id (bc_agent y)) = Some x" using assms(2) by (simp add: running_ok_def)
    with k x(2) show "bk_connections b' (tr_agent_id (bc_agent y)) = Some x" by auto
  qed
qed

lemma running_step: "broker_step b b' \<Longrightarrow> broker_inv b \<Longrightarrow> running_ok b \<Longrightarrow> running_ok b'"
proof (induction rule: broker_step.induct)
  case (connect b cid r now c rid res b')
  then show ?case using connect_running by blast
next
  case (seen b cid c now)
  then show ?case using same_tunnels_seen same_tunnels_running by blast
next
  case (frame b cid c d res b')
  then show ?case using same_tunnels_frame same_tunnels_running by blast
next
  case (finish b cid r rid e res b')
  then show ?case using finish_running by blast
next
  case (session a ch n k u cert now rid b res b')
  then show ?case using same_tunnels_session same_tunnels_running by blast
next
  case (data ch p rid b res b')
  then show ?case using send_same(1) same_tunnels_written same_tunnels_running by blast
next
  case (resize ch w h rid b res b')
  then show ?case using send_same(2) same_tunnels_written same_tunnels_running by blast
next
  case (close_begin ch rid b res b')
  then show ?case using close_begin_same same_tunnels_written same_tunnels_running by blast
next
  case (retire b cid c ch res b')
  then show ?case using same_tunnels_retire same_tunnels_running by blast
next
  case (read b ref s n p s')
  then show ?case using same_tunnels_stream same_tunnels_running by blast
next
  case (mark_closed b ref s)
  then show ?case using same_tunnels_stream same_tunnels_running by blast
qed

lemma running_reachable: "reachable b \<Longrightarrow> running_ok b"
proof (induction rule: reachable.induct)
  case (start m h f b)
  then show ?case by (auto simp: new_broker_def running_ok_def tunnel_runs_def split: if_splits)
next
  case (step b b')
  then show ?case using running_step inv_reachable by blast
qed

section \<open>Properties\<close>

text \<open>C5: an agent has at most one running tunnel.  In every interleaving of connects, frames, ends and
  server calls, a tunnel that has been made and whose handler is not over is the one the registry and the
  connection table have for its agent; so two running tunnels of one agent are the same, a second
  handshake being refused.  The tunnel has at most the configured number of open channels, none of them
  retired, and exactly these have a stream.\<close>

theorem one_live_tunnel_per_agent:
  assumes "reachable b" "tunnel_runs b cid c"
  shows "bk_connections b (tr_agent_id (bc_agent c)) = Some cid \<and> bk_registry b (tr_agent_id (bc_agent c)) = Some cid \<and>
    (\<forall>cid' c'. tunnel_runs b cid' c' \<and> tr_agent_id (bc_agent c') = tr_agent_id (bc_agent c) \<longrightarrow> cid' = cid) \<and>
    (\<forall>other rid. tr_agent_id (bc_agent other) = tr_agent_id (bc_agent c) \<and> bc_connection_id other \<noteq> cid \<longrightarrow>
       connect_tunnel other rid b = (Inl (TunnelStateError ''duplicate active tunnel''), b)) \<and>
    bc_connection_id c = cid \<and> int (card (ch_open (bc_channels c))) \<le> bk_max_sessions b \<and>
    ch_open (bc_channels c) \<inter> ch_retired (bc_channels c) = {} \<and> dom (bc_adapters c) = ch_open (bc_channels c)"
proof -
  have inv: "broker_inv b" and run: "running_ok b"
    using assms(1) by (simp_all add: inv_reachable running_reachable)
  have live: "bk_connections b (tr_agent_id (bc_agent c)) = Some cid" using run assms(2) by (simp add: running_ok_def)
  have reg: "bk_registry b = bk_connections b" using inv by (simp add: broker_inv_def live_ok_def)
  have ok: "conn_ok b cid c" using inv assms(2) by (auto simp: tunnel_runs_def dest: inv_conn)
  then have "dom (bc_adapters c) = ch_open (bc_channels c)" by (auto simp: conn_ok_def dom_def)
  moreover have "cid' = cid" if "tunnel_runs b cid' c'" "tr_agent_id (bc_agent c') = tr_agent_id (bc_agent c)" for cid' c'
    using run [unfolded running_ok_def, rule_format, OF that(1)] that(2) live by simp
  moreover have "connect_tunnel other rid b = (Inl (TunnelStateError ''duplicate active tunnel''), b)"
    if "tr_agent_id (bc_agent other) = tr_agent_id (bc_agent c)" "bc_connection_id other \<noteq> cid" for other rid
    using that live reg by (simp add: connect_tunnel_def Let_def registry_connect_def)
  ultimately show ?thesis using live reg ok by (auto simp: conn_ok_def channels_ok_def)
qed

theorem one_live_tunnel_per_agent_witness:
  "\<exists>b c. reachable b \<and> tunnel_runs b (str ''c1'') c \<and> bk_registry b 7 = Some (str ''c1'') \<and>
     connect_tunnel (c\<lparr>bc_connection_id := str ''c2''\<rparr>) (str ''r'') b = (Inl (TunnelStateError ''duplicate active tunnel''), b)"
proof -
  obtain b where st: "sample_state [str ''s2'', str ''s1''] b" by (rule sample_sessions)
  then obtain c where c: "reachable b" "tunnel_runs b (str ''c1'') c" "tr_agent_id (bc_agent c) = 7"
    by (auto simp: sample_state_def tunnel_runs_def sample_record_def)
  from one_live_tunnel_per_agent [OF c(1,2)] c show ?thesis
    by (intro exI [of _ b] exI [of _ c]) (simp add: str_eq_iff)
qed

text \<open>C6: A channel is routed only to the live tunnel of the agent it was opened on: data sent by the
  server is written, as one \<open>SESSION_DATA\<close> frame, to that connection and to no other.\<close>

theorem data_goes_to_the_owner:
  assumes "reachable b" "send_data ch p rid b = (Inr (), b')"
  shows "\<exists>a cid c bs. bk_channel_agents b ch = Some a \<and> bk_connections b a = Some cid \<and>
    bk_conns b cid = Some c \<and> tr_agent_id (bc_agent c) = a \<and> ch \<in> ch_open (bc_channels c) \<and>
    encode_frame SESSION_DATA rid (Some ch) p (bk_max_frame_bytes b) = Inr bs \<and>
    b' = b\<lparr>bk_written := (bk_written b)(cid := bk_written b cid @ bs)\<rparr>"
proof -
  have inv: "broker_inv b" using assms(1) by (rule inv_reachable)
  from assms(2) obtain a where a: "bk_channel_agents b ch = Some a"
    unfolding send_data_def on_open_channel_eq [OF inv] by (auto split: option.splits)
  with inv obtain cid c where "bk_connections b a = Some cid" "bk_conns b cid = Some c"
    "ch \<in> ch_open (bc_channels c)" "tr_agent_id (bc_agent c) = a" by (rule route)
  with a assms(2) show ?thesis
    unfolding send_data_def on_open_channel_eq [OF inv] by (auto simp: write_frame_Inr)
qed

theorem data_goes_to_the_owner_witness:
  "\<exists>b b' a. reachable b \<and> send_data (str ''s1'') [1, 2] (str ''r'') b = (Inr (), b') \<and>
     bk_channel_agents b (str ''s1'') = Some a"
proof -
  obtain b where st: "sample_state [str ''s2'', str ''s1''] b" by (rule sample_sessions)
  then have r: "reachable b" and m: "bk_max_frame_bytes b = 4096"
    and a: "bk_channel_agents b (str ''s1'') = Some 7"
    by (auto simp: sample_state_def)
  obtain bs where "encode_frame SESSION_DATA (str ''r'') (Some (str ''s1'')) [1, 2] 4096 = Inr bs"
    by (rule encode_4096 [of "str ''r''" "Some (str ''s1'')" "[1, 2]"]) (simp_all add: opt_length_def)
  then obtain b' where "send_data (str ''s1'') [1, 2] (str ''r'') b = (Inr (), b')"
    unfolding send_data_def on_open_channel_eq [OF inv_reachable [OF r]]
    using a m by (simp add: write_frame_def server_write_frame_def)
  with data_goes_to_the_owner [OF r this] r show ?thesis by blast
qed

text \<open>No lookup of the broker fails: in a reachable state every call of the server and every frame
  of an agent either succeeds or raises one of the three tunnel exceptions, never a \<open>KeyError\<close>.\<close>

theorem broker_calls_never_raise_key_error:
  assumes "reachable b" "bk_conns b cid = Some c"
  shows "tunnel_failure (fst (send_data ch p rid b)) \<and> tunnel_failure (fst (resize_pty ch w h rid b)) \<and>
    tunnel_failure (fst (close_session_begin ch rid b)) \<and>
    tunnel_failure (fst (open_session a ch n k u cert now rid b)) \<and>
    tunnel_failure (connector_for_agent a ch b) \<and> tunnel_failure (fst (handle_agent_frame cid d b))"
  using assms(2) inv_reachable [OF assms(1)]
  by (simp add: send_failure session_failure connector_failure frame_failure)

theorem broker_calls_never_raise_key_error_witness:
  "\<exists>b. reachable b \<and> tunnel_failure (fst (send_data (str ''s9'') [1] (str ''r'') b))"
proof -
  obtain b where st: "sample_state [str ''s2'', str ''s1''] b" by (rule sample_sessions)
  then obtain c where "reachable b" "bk_conns b (str ''c1'') = Some c" by (auto simp: sample_state_def)
  with broker_calls_never_raise_key_error [OF this, of "str ''s9''" "[1]" "str ''r''"] show ?thesis by blast
qed

text \<open>C7: A frame of one agent touches only the streams of its own connection; the payload of a data
  frame is appended to the stream of its channel, unchanged.\<close>

theorem frames_stay_in_their_tunnel:
  assumes "reachable b" "bk_conns b cid = Some c" "handle_agent_frame cid d b = (res, b')"
  shows "(\<forall>ref. fst ref \<noteq> cid \<longrightarrow> bk_streams b' ref = bk_streams b ref) \<and>
    (\<forall>x. x \<noteq> cid \<longrightarrow> bk_conns b' x = bk_conns b x) \<and> bk_written b' = bk_written b \<and>
    (tf_type (dec_frame d) = SESSION_DATA \<and> res = Inr () \<longrightarrow>
      (\<exists>ch s. tf_channel_id (dec_frame d) = Some ch \<and> bk_streams b (cid, ch) = Some s \<and>
        bk_streams b' = (bk_streams b)((cid, ch) \<mapsto> s\<lparr>bs_buffer := bs_buffer s @ dec_payload d\<rparr>)))"
  using inv_reachable [OF assms(1)] assms(2,3)
proof (cases rule: handle_agent_frame_cases)
  case (data ch)
  have "\<exists>s. bk_streams b (cid, ch) = Some s"
    using inv_conn [OF inv_reachable [OF assms(1)] assms(2)] data(3)
    by (auto simp: conn_ok_def used_channels_def)
  with data show ?thesis by (auto simp: update_stream_def feed_data_def)
next
  case (close ch)
  have "bk_conns (update_stream (cid, ch) feed_eof b) cid = Some c"
    using assms(2) by (simp add: update_stream_def)
  from retire_channel_unfold [OF this, of ch] close show ?thesis by (auto simp: update_stream_def)
qed auto

theorem frames_stay_in_their_tunnel_witness:
  "\<exists>b b' s. handle_agent_frame (str ''c1'')
      (frame_of SESSION_DATA (str ''r'') (Some (str ''s1'')) [9]) b = (Inr (), b') \<and>
     bk_streams b' = (bk_streams b)((str ''c1'', str ''s1'') \<mapsto> s\<lparr>bs_buffer := bs_buffer s @ [9]\<rparr>)"
proof -
  let ?d = "frame_of SESSION_DATA (str ''r'') (Some (str ''s1'')) [9]"
  obtain b where st: "sample_state [str ''s2'', str ''s1''] b" by (rule sample_sessions)
  then obtain c where r: "reachable b" and c: "bk_conns b (str ''c1'') = Some c"
    "str ''s1'' \<in> ch_open (bc_channels c)" by (auto simp: sample_state_def)
  have "bc_adapters c (str ''s1'') = Some (str ''c1'', str ''s1'')"
    using inv_conn [OF inv_reachable [OF r] c(1)] c(2) by (simp add: conn_ok_def)
  then obtain b' where h: "handle_agent_frame (str ''c1'') ?d b = (Inr (), b')"
    using c by (simp add: handle_agent_frame_def frame_of_def conn_at_def require_open_def)
  from frames_stay_in_their_tunnel [OF r c(1) h] h show ?thesis by (auto simp: frame_of_def)
qed

text \<open>C8: When a tunnel ends, every session still open on it sees the end of its stream, loses its
  route, and the agent has no live tunnel any more.\<close>

theorem tunnel_end_closes_its_sessions:
  assumes "reachable b" "bk_connections b a = Some cid" "bk_conns b cid = Some c"
    and "finish_stream (Some (bc_agent c)) cid rid e b = (res, b')" "ch \<in> ch_open (bc_channels c)"
  shows "(\<exists>s. bk_streams b' (cid, ch) = Some s \<and> bs_closed s) \<and>
    bk_connections b' a = None \<and> bk_registry b' a = None \<and>
    send_data ch p rid' b' = (Inl (TunnelStateError ''channel is not open''), b')"
  using assms by (rule finish_closes)

theorem tunnel_end_closes_its_sessions_witness:
  "\<exists>b b' s. finish_stream (Some sample_record) (str ''c1'') (str ''r'') EOFError b = (Inr (), b') \<and>
     bk_streams b' (str ''c1'', str ''s1'') = Some s \<and> bs_closed s"
proof -
  obtain b where st: "sample_state [str ''s2'', str ''s1''] b" by (rule sample_sessions)
  then obtain c where r: "reachable b" and c: "bk_connections b 7 = Some (str ''c1'')"
    "bk_conns b (str ''c1'') = Some c" "bc_agent c = sample_record"
    "str ''s1'' \<in> ch_open (bc_channels c)" by (auto simp: sample_state_def)
  obtain b' where f: "finish_stream (Some (bc_agent c)) (str ''c1'') (str ''r'') EOFError b = (Inr (), b')"
    by (simp add: finish_stream_def ends_quietly_def Let_def)
  from tunnel_end_closes_its_sessions [OF r c(1,2) f c(4)] f show ?thesis unfolding c(3) by blast
qed

text \<open>C9: A data frame that was already on its way when the server closed its session ends the whole
  tunnel: the handler raises \<open>TunnelStateError\<close>, and the end of the stream closes every other session
  of the agent.\<close>

theorem late_data_ends_the_tunnel:
  assumes "reachable b" "bk_channel_agents b ch = Some a" "bk_connections b a = Some cid"
    and "close_session ch rid b = (Inr (), b1)" "bk_conns b1 cid = Some c"
    and "tf_type (dec_frame d) = SESSION_DATA" "tf_channel_id (dec_frame d) = Some ch"
    and "finish_stream (Some (bc_agent c)) cid rid' e b1 = (res, b2)"
    and "e = TunnelStateError ''unknown channel''"
  shows "handle_agent_frame cid d b1 = (Inl e, b1) \<and>
    (\<forall>other \<in> ch_open (bc_channels c). \<exists>s. bk_streams b2 (cid, other) = Some s \<and> bs_closed s)"
proof -
  have inv: "broker_inv b" using assms(1) by (rule inv_reachable)
  from assms(4) obtain y x where x: "close_session_begin ch rid b = (Inr y, x)"
    "retire_channel y ch x = (Inr (), b1)"
    by (auto simp: close_session_def exc_elims)
  have "y = cid"
    using x(1) assms(2,3) unfolding close_begin_eq [OF inv] by (auto simp: exc_elims)
  note x = x [unfolded this]
  have same: "same_but_written b x" using x(1) by (rule close_begin_same)
  have "broker_step b x" using x(1) by (rule broker_step.close_begin)
  with assms(1) have rx: "reachable x" by (rule reachable.step)
  from inv assms(3) obtain c0 where c0: "bk_conns b cid = Some c0" by (rule inv_live)
  then have c0x: "bk_conns x cid = Some c0" using same by (auto simp: same_but_written_def)
  then have "broker_step x b1" using x(2) by (rule broker_step.retire)
  with rx have r1: "reachable b1" by (rule reachable.step)
  note u = retire_channel_unfold [OF c0x, of ch]
  have ch: "ch \<in> ch_open (bc_channels c0)" and "ch \<notin> ch_open (bc_channels c)"
    using u x(2) assms(5) by (auto split: if_splits)
  then have "handle_agent_frame cid d b1 = (Inl e, b1)"
    using assms(5,6,7,9) by (simp add: handle_agent_frame_def conn_at_def require_open_def)
  moreover have "bk_connections b1 a = Some cid"
    using u x(2) ch assms(3) same by (auto simp: same_but_written_def)
  ultimately show ?thesis
    using finish_closes [OF r1 _ assms(5,8)] by blast
qed

theorem late_data_ends_the_tunnel_witness:
  "\<exists>b1 b2 s. handle_agent_frame (str ''c1'')
      (frame_of SESSION_DATA (str ''r'') (Some (str ''s1'')) [9]) b1 =
        (Inl (TunnelStateError ''unknown channel''), b1) \<and>
     finish_stream (Some sample_record) (str ''c1'') (str ''r'') (TunnelStateError ''unknown channel'') b1
       = (Inr (), b2) \<and>
     bk_streams b2 (str ''c1'', str ''s2'') = Some s \<and> bs_closed s"
proof -
  let ?e = "TunnelStateError ''unknown channel''"
  let ?d = "frame_of SESSION_DATA (str ''r'') (Some (str ''s1'')) [9]"
  obtain b where st: "sample_state [str ''s2'', str ''s1''] b" by (rule sample_sessions)
  then obtain c where r: "reachable b" and m: "bk_max_frame_bytes b = 4096"
    and a: "bk_channel_agents b (str ''s1'') = Some 7" and l: "bk_connections b 7 = Some (str ''c1'')"
    and c: "bk_conns b (str ''c1'') = Some c" "ch_open (bc_channels c) = {str ''s2'', str ''s1''}"
      "bc_agent c = sample_record"
    by (auto simp: sample_state_def)
  obtain bs where "encode_frame CLOSE_SESSION (str ''r'') (Some (str ''s1'')) [] 4096 = Inr bs"
    by (rule encode_4096 [of "str ''r''" "Some (str ''s1'')" "[]"]) (simp_all add: opt_length_def)
  then have "close_session_begin (str ''s1'') (str ''r'') b = (Inr (str ''c1''),
      b\<lparr>bk_written := (bk_written b)(str ''c1'' := bk_written b (str ''c1'') @ bs)\<rparr>)"
    unfolding close_begin_eq [OF inv_reachable [OF r]] using a l m
    by (simp add: sbind_def write_frame_def server_write_frame_def)
  then obtain b1 c1 where b1: "close_session (str ''s1'') (str ''r'') b = (Inr (), b1)"
    "bk_conns b1 (str ''c1'') = Some c1" "str ''s2'' \<in> ch_open (bc_channels c1)"
    "bc_agent c1 = sample_record"
    using c by (simp add: close_session_def sbind_def retire_channel_unfold)
  obtain b2 where b2: "finish_stream (Some (bc_agent c1)) (str ''c1'') (str ''r'') ?e b1 = (Inr (), b2)"
    by (simp add: finish_stream_def ends_quietly_def Let_def)
  have "tf_type (dec_frame ?d) = SESSION_DATA" "tf_channel_id (dec_frame ?d) = Some (str ''s1'')"
    by (simp_all add: frame_of_def)
  from late_data_ends_the_tunnel [OF r a l b1(1,2) this b2 refl]
  have h: "handle_agent_frame (str ''c1'') ?d b1 = (Inl ?e, b1)"
    and "\<forall>x \<in> ch_open (bc_channels c1). \<exists>s. bk_streams b2 (str ''c1'', x) = Some s \<and> bs_closed s"
    by blast+
  from this(2) b1(3) obtain s where "bk_streams b2 (str ''c1'', str ''s2'') = Some s" "bs_closed s" by blast
  with h b2 [unfolded b1(4)] show ?thesis by blast
qed

text \<open>A session opens only on a fresh tunnel: after \<open>open_session\<close> returns, the last frame of the
  agent is less than two heartbeat intervals old, the certificate is for the requested principal,
  the host key is pinned, the channel id was never used on this tunnel, and the stream the
  connector returns is new, empty and open.\<close>

theorem open_session_guards:
  assumes "reachable b" "open_session a ch n k u cert now rid b = (Inr (), b')"
  shows "\<exists>cid c t. bk_connections b a = Some cid \<and> bk_conns b cid = Some c \<and>
    hb_last_seen (bc_heartbeat c) = Some t \<and> allows_new_jump now (bc_heartbeat c) \<and>
    iuc_username cert = u \<and> k \<noteq> [] \<and> ch \<noteq> [] \<and> ch \<notin> used_channels (bc_channels c) \<and>
    bk_streams b (cid, ch) = None \<and> connector_for_agent a ch b' = Inr (cid, ch) \<and>
    bk_streams b' (cid, ch) = Some \<lparr>bs_agent_id = a, bs_channel_id = ch, bs_buffer = [], bs_closed = False\<rparr>"
  using inv_reachable [OF assms(1)] assms(2)
proof (cases rule: open_session_cases)
  case (2 cid c)
  then have c: "bk_connections b a = Some cid" "bk_conns b cid = Some c" "ch \<noteq> []"
    "ch \<notin> used_channels (bc_channels c)" "allows_new_jump now (bc_heartbeat c)"
    by (simp_all add: may_open_def)
  have no: "bk_streams b (cid, ch) = None"
    using inv_conn [OF inv_reachable [OF assms(1)] c(2)] c(4)
    by (cases "bk_streams b (cid, ch)") (auto simp: conn_ok_def)
  obtain bs where b': "b' = (with_session a cid c ch b)\<lparr>bk_written :=
      (bk_written (with_session a cid c ch b))(cid := bk_written (with_session a cid c ch b) cid @ bs)\<rparr>"
    using 2(4) by (auto simp: write_frame_Inr)
  have "connector_for_agent a ch b' = Inr (cid, ch)"
    using c by (simp add: b' with_session_def connector_for_agent_def require_connection_def conn_at_def)
  moreover have "\<exists>t. hb_last_seen (bc_heartbeat c) = Some t" using c(5) by (simp add: fresh_iff) blast
  ultimately show ?thesis using 2 c no by (auto simp: b' with_session_def)
qed simp

theorem open_session_guards_witness:
  "\<exists>b b'. open_session 7 (str ''s1'') (str ''web-1'') (str ''k'') (str ''alice'') sample_cert (utc 1) (str ''r'') b
      = (Inr (), b') \<and> connector_for_agent 7 (str ''s1'') b' = Inr (str ''c1'', str ''s1'')"
proof -
  obtain b where st: "sample_state [] b" using sample_connected by blast
  then have r: "reachable b" and l: "bk_connections b 7 = Some (str ''c1'')" by (auto simp: sample_state_def)
  obtain b' where "open_session 7 (str ''s1'') (str ''web-1'') (str ''k'') (str ''alice'') sample_cert (utc 1)
      (str ''r'') b = (Inr (), b')"
    using sample_open [OF st, of "str ''s1''"] by auto
  with open_session_guards [OF r this] l show ?thesis by auto
qed

text \<open>However a tunnel stream ends, by end of file, a refused handshake, a malformed frame, a
  database error or any other exception, its writer is closed and the table of live tunnels is what
  it was before the stream.\<close>

theorem handle_stream_cleans_up:
  assumes "reachable b" "bk_conns b cid = None"
    and "handle_stream text_of peer cid rid now clock s b db = (res, b', db')"
  shows "bk_connections b' = bk_connections b \<and> cid \<in> bk_writer_closed b'"
  using assms by (rule handle_stream_ends)

theorem handle_stream_cleans_up_witness:
  "\<exists>b b' db' res. bk_connections b 7 = Some (str ''c1'') \<and>
     handle_stream (\<lambda>_. []) \<lparr>pb_cert_serial = [], pb_cert_public_key = []\<rparr> (str ''c2'') (str ''r'') (utc 0)
       (\<lambda>_. utc 0) [0, 0, 0] b sample_db = (res, b', db') \<and>
     bk_connections b' 7 = Some (str ''c1'') \<and> str ''c2'' \<in> bk_writer_closed b'"
proof -
  obtain b where st: "sample_state [] b \<and> bk_conns b (str ''c2'') = None" using sample_connected by blast
  then have r: "reachable b" and l: "bk_connections b 7 = Some (str ''c1'')" and n: "bk_conns b (str ''c2'') = None"
    by (auto simp: sample_state_def)
  obtain res b' db' where h: "handle_stream (\<lambda>_. []) \<lparr>pb_cert_serial = [], pb_cert_public_key = []\<rparr>
      (str ''c2'') (str ''r'') (utc 0) (\<lambda>_. utc 0) [0, 0, 0] b sample_db = (res, b', db')"
    by (metis prod_cases3)
  from handle_stream_cleans_up [OF r n h] h l show ?thesis by auto
qed

end
