(* ===== verification/Agent_Tunnel.thy ===== *)
theory Agent_Tunnel
  imports Tunnel_Stream Complex_Main
begin

text \<open>
  \<open>agent/tunnel.py\<close> and the tunnel half of \<open>agent/main.py\<close>: the dispatch loop between the framed tunnel
  and the local sshd, the tasks that forward local output, the reconnect loop and its backoff.
  A local connection is the bytes written to it and the state of its forwarding task; the tunnel
  writer is the bytes written so far.  Which local reads happen between two frames, and whether a
  local connect succeeds, is chosen by the arguments.  Seconds are rationals instead of binary
  floating point; the one float effect that matters, the overflow of converting \<open>2**attempt\<close>, is kept.
\<close>

record ProxyTarget =
  px_host :: pystr
  px_port :: int

definition validate_proxy_target :: "pystr \<Rightarrow> int \<Rightarrow> ProxyTarget result" where
  "validate_proxy_target host port =
     (if \<not> startswith host (str ''127.'')
      then Inl (AgentTunnelError ''agent proxy target must be IPv4 loopback'')
      else if \<not> (1 \<le> port \<and> port \<le> 65535)
      then Inl (AgentTunnelError ''agent proxy target port is outside TCP bounds'')
      else Inr \<lparr>px_host = host, px_port = port\<rparr>)"

definition next_reconnect_delay :: "int \<Rightarrow> rat \<Rightarrow> rat \<Rightarrow> rat \<Rightarrow> rat result" where
  "next_reconnect_delay attempt base_seconds max_seconds actual_jitter =
     (if attempt < 0 then Inl (AgentTunnelError ''attempt cannot be negative'')
      else if base_seconds \<le> 0 \<or> max_seconds \<le> 0
      then Inl (AgentTunnelError ''backoff values must be positive'')
      else if actual_jitter < 0 \<or> actual_jitter > 1
      then Inl (AgentTunnelError ''jitter must be between 0 and 1'')
      else if attempt \<ge> 1024 then Inl (OverflowError ''int too large to convert to float'')
      else let exponential = min max_seconds (base_seconds * 2 ^ nat attempt)
           in Inr (min max_seconds (exponential * (1 / 2 + actual_jitter))))"

section \<open>Missed heartbeats\<close>

record MissedHeartbeatTracker =
  mh_max :: int
  mh_missed :: int

definition new_missed_tracker :: "int \<Rightarrow> MissedHeartbeatTracker result" where
  "new_missed_tracker max_missed =
     (if max_missed \<le> 0 then Inl (AgentTunnelError ''max_missed must be positive'')
      else Inr \<lparr>mh_max = max_missed, mh_missed = 0\<rparr>)"

definition mh_mark_seen :: "MissedHeartbeatTracker \<Rightarrow> MissedHeartbeatTracker" where
  "mh_mark_seen t = t\<lparr>mh_missed := 0\<rparr>"

definition mh_mark_missed :: "MissedHeartbeatTracker \<Rightarrow> MissedHeartbeatTracker" where
  "mh_mark_missed t = t\<lparr>mh_missed := mh_missed t + 1\<rparr>"

definition should_reconnect :: "MissedHeartbeatTracker \<Rightarrow> bool" where
  "should_reconnect t \<longleftrightarrow> mh_missed t \<ge> mh_max t"

section \<open>The dispatch loop\<close>

datatype task_state = Running | Finished | Failed exc

record LocalChannel =
  lc_written :: bytes
  lc_task :: task_state

text \<open>\<open>channels\<close> is a dict in insertion order; \<open>at_closed\<close> are the local connections closed.\<close>

record agent_state =
  at_channels :: "(pystr \<times> LocalChannel) list"
  at_out :: bytes
  at_closed :: "(pystr \<times> LocalChannel) list"

definition forward_ssh_payload :: "bytes \<Rightarrow> bytes" where
  "forward_ssh_payload payload = payload"

definition require_channel_id :: "pystr option \<Rightarrow> pystr result" where
  "require_channel_id channel_id = (case channel_id of
     None \<Rightarrow> Inl (AgentTunnelError ''tunnel channel_id is required'')
   | Some c \<Rightarrow> if c = [] then Inl (AgentTunnelError ''tunnel channel_id is required'') else Inr c)"

definition agent_send ::
  "TunnelFrameType \<Rightarrow> pystr \<Rightarrow> pystr option \<Rightarrow> bytes \<Rightarrow> int \<Rightarrow> (agent_state, unit) op" where
  "agent_send frame_type request_id channel_id payload max_frame_bytes st =
     (case agent_write_frame frame_type request_id channel_id payload max_frame_bytes (at_out st) of
        (r, w) \<Rightarrow> (r, st\<lparr>at_out := w\<rparr>))"

definition set_channel :: "pystr \<Rightarrow> LocalChannel \<Rightarrow> agent_state \<Rightarrow> agent_state" where
  "set_channel c lc st = st\<lparr>at_channels := AList.update c lc (at_channels st)\<rparr>"

text \<open>
  One read of a forwarding task: no bytes end the task, a failed write is the task's exception.
  Nothing happens when the channel is gone (its task was cancelled) or its task is done.
\<close>

definition data_suffix :: pystr where
  "data_suffix = str '':data''"

definition forward_local_to_tunnel :: "pystr \<Rightarrow> bytes \<Rightarrow> int \<Rightarrow> agent_state \<Rightarrow> agent_state" where
  "forward_local_to_tunnel channel_id payload max_frame_bytes st =
     (case map_of (at_channels st) channel_id of
        None \<Rightarrow> st
      | Some lc \<Rightarrow>
          if lc_task lc \<noteq> Running then st
          else if payload = [] then set_channel channel_id (lc\<lparr>lc_task := Finished\<rparr>) st
          else (case agent_send SESSION_DATA (channel_id @ data_suffix) (Some channel_id)
                       (forward_ssh_payload payload) max_frame_bytes st of
                  (Inr _, st') \<Rightarrow> st'
                | (Inl e, st') \<Rightarrow> set_channel channel_id (lc\<lparr>lc_task := Failed e\<rparr>) st'))"

text \<open>
  \<open>_close_channel\<close>: the exception of a failed task comes out of awaiting it, before the local
  writer is closed; a running task is cancelled, a finished one is done.
\<close>

definition close_local_channel :: "pystr \<Rightarrow> LocalChannel \<Rightarrow> (agent_state, unit) op" where
  "close_local_channel c lc st = (case lc_task lc of
     Failed e \<Rightarrow> (Inl e, st)
   | _ \<Rightarrow> (Inr (), st\<lparr>at_closed := at_closed st @ [(c, lc)]\<rparr>))"

definition agent_dispatch :: "exc option \<Rightarrow> DecodedTunnelFrame \<Rightarrow> (agent_state, unit) op" where
  "agent_dispatch connect_failure decoded st =
     (let frame = dec_frame decoded; frame_type = tf_type frame in
      if frame_type = AUTH_OK then (Inr (), st)
      else if frame_type = HEARTBEAT
      then agent_send HEARTBEAT (tf_request_id frame) None [] DEFAULT_FRAME_MAX_BYTES st
      else if frame_type = OPEN_SESSION then
        (case require_channel_id (tf_channel_id frame) of
           Inl e \<Rightarrow> (Inl e, st)
         | Inr channel_id \<Rightarrow>
             if map_of (at_channels st) channel_id \<noteq> None
             then (Inl (AgentTunnelError ''tunnel channel reuse rejected''), st)
             else (case connect_failure of
                     Some e \<Rightarrow> (Inl e, st)
                   | None \<Rightarrow> (Inr (), set_channel channel_id \<lparr>lc_written = [], lc_task = Running\<rparr> st)))
      else if frame_type = SESSION_DATA then
        (case require_channel_id (tf_channel_id frame) of
           Inl e \<Rightarrow> (Inl e, st)
         | Inr channel_id \<Rightarrow>
             (case map_of (at_channels st) channel_id of
                None \<Rightarrow> (Inl (AgentTunnelError ''session_data for unknown tunnel channel''), st)
              | Some lc \<Rightarrow>
                  (Inr (), set_channel channel_id
                     (lc\<lparr>lc_written := lc_written lc @ forward_ssh_payload (dec_payload decoded)\<rparr>) st)))
      else if frame_type = RESIZE_PTY then
        (case require_channel_id (tf_channel_id frame) of
           Inl e \<Rightarrow> (Inl e, st)
         | Inr channel_id \<Rightarrow>
             if map_of (at_channels st) channel_id = None
             then (Inl (AgentTunnelError ''resize_pty for unknown tunnel channel''), st)
             else (Inr (), st))
      else if frame_type = CLOSE_SESSION then
        (case require_channel_id (tf_channel_id frame) of
           Inl e \<Rightarrow> (Inl e, st)
         | Inr channel_id \<Rightarrow>
             (case map_of (at_channels st) channel_id of
                None \<Rightarrow> (Inr (), st)
              | Some lc \<Rightarrow>
                  close_local_channel channel_id lc
                    (st\<lparr>at_channels := AList.delete channel_id (at_channels st)\<rparr>)))
      else (Inl (AgentTunnelError ''unsupported agent tunnel frame''), st))"

text \<open>The \<open>finally\<close> clause: close what is left, in order, until one close raises.\<close>

fun close_all :: "(pystr \<times> LocalChannel) list \<Rightarrow> (agent_state, unit) op" where
  "close_all [] st = (Inr (), st)"
| "close_all ((c, lc) # rest) st = (case close_local_channel c lc st of
     (Inl e, st') \<Rightarrow> (Inl e, st') | (Inr _, st') \<Rightarrow> close_all rest st')"

fun local_reads :: "int \<Rightarrow> (pystr \<times> bytes) list \<Rightarrow> agent_state \<Rightarrow> agent_state" where
  "local_reads m [] st = st"
| "local_reads m ((c, p) # ps) st = local_reads m ps (forward_local_to_tunnel c p m st)"

lemma agent_read_shorter:
  "agent_read_decoded m s = (Inr (Some d), t) \<Longrightarrow> length t < length s"
  using agent_read_sound [of m s d t] decode_frame_Inr by fastforce

text \<open>
  The loop up to its end, \<open>Inr ()\<close> at a clean end of the stream.  \<open>reads i\<close> are the local reads before
  the \<open>i\<close>-th frame, \<open>connects i\<close> the failure of the local connect that frame may ask for.
\<close>

function agent_loop ::
  "int \<Rightarrow> (nat \<Rightarrow> (pystr \<times> bytes) list) \<Rightarrow> (nat \<Rightarrow> exc option) \<Rightarrow> nat \<Rightarrow> agent_state \<Rightarrow> bytes \<Rightarrow>
   unit result \<times> agent_state" where
  "agent_loop m reads connects i st s =
     (let st1 = local_reads m (reads i) st in
      case agent_read_decoded m s of
        (Inl e, _) \<Rightarrow> (Inl e, st1)
      | (Inr None, _) \<Rightarrow> (Inr (), st1)
      | (Inr (Some decoded), t) \<Rightarrow>
          (case agent_dispatch (connects i) decoded st1 of
             (Inl e, st2) \<Rightarrow> (Inl e, st2)
           | (Inr _, st2) \<Rightarrow> agent_loop m reads connects (Suc i) st2 t))"
  by pat_completeness auto
termination
  by (relation "measure (\<lambda>(m, reads, connects, i, st, s). length s)")
    (auto dest!: agent_read_shorter [OF sym])

declare agent_loop.simps [simp del]

definition empty_agent :: agent_state where
  "empty_agent = \<lparr>at_channels = [], at_out = [], at_closed = []\<rparr>"

text \<open>An exception of the \<open>finally\<close> clause replaces the outcome of the loop.\<close>

definition handle_agent_tunnel_stream ::
  "int \<Rightarrow> (nat \<Rightarrow> (pystr \<times> bytes) list) \<Rightarrow> (nat \<Rightarrow> exc option) \<Rightarrow> bytes \<Rightarrow> unit result \<times> agent_state" where
  "handle_agent_tunnel_stream max_frame_bytes reads connects s =
     (case agent_loop max_frame_bytes reads connects 0 empty_agent s of
        (r, st) \<Rightarrow> (case close_all (at_channels st) (st\<lparr>at_channels := []\<rparr>) of
                    (Inl e, st') \<Rightarrow> (Inl e, st') | (Inr _, st') \<Rightarrow> (r, st')))"

section \<open>Authentication and reconnecting\<close>

text \<open>
  \<open>_auth_frame\<close>: the serial number and the PEM public key are those of the certificate in
  \<open>identity.json\<close>, which the X.509 library parses; \<open>agent_id\<close> and \<open>tunnel_secret\<close> are the texts of the
  identity, \<open>node_name\<close> the text of \<open>agent.conf\<close>.
\<close>

definition auth_payload :: "pystr \<Rightarrow> pystr \<Rightarrow> nat \<Rightarrow> pystr \<Rightarrow> pystr \<Rightarrow> json" where
  "auth_payload agent_id node_name cert_serial cert_public_key tunnel_secret =
     JObj [(str ''agent_id'', JStr agent_id), (str ''node_name'', JStr node_name),
           (str ''cert_serial'', JStr (hex_of cert_serial)),
           (str ''cert_public_key'', JStr cert_public_key),
           (str ''tunnel_secret'', JStr tunnel_secret)]"

definition auth_frame :: "pystr \<Rightarrow> pystr option \<Rightarrow> nat \<Rightarrow> pystr \<Rightarrow> pystr \<Rightarrow> bytes result" where
  "auth_frame agent_id node_name cert_serial cert_public_key tunnel_secret =
     (case node_name of
        None \<Rightarrow> Inl (ConfigError ''enrollment.node_name is required'')
      | Some n \<Rightarrow>
          if n = [] then Inl (ConfigError ''enrollment.node_name is required'')
          else encode_frame AUTH (str ''agent-auth'') None
                 (dumps_bytes (auth_payload agent_id n cert_serial cert_public_key tunnel_secret))
                 DEFAULT_FRAME_MAX_BYTES)"

text \<open>The classes the reconnect loop catches.\<close>

fun is_reconnectable :: "exc \<Rightarrow> bool" where
  "is_reconnectable (AgentTunnelError _) = True"
| "is_reconnectable (TunnelReconnectLimitError _) = True"
| "is_reconnectable (IncompleteReadError _) = True"
| "is_reconnectable e = is_os_error e"

text \<open>
  \<open>_run_tunnel\<close>.  The loop has no end of its own, so it takes fuel; \<open>None\<close> is still running.
  \<open>outcome k\<close> is what the \<open>k\<close>-th connection ends with and \<open>jitter k\<close> the random number before the
  next; the result is the exception that leaves the loop and the delays slept before it.
\<close>

fun run_tunnel :: "nat \<Rightarrow> AgentConfig \<Rightarrow> (nat \<Rightarrow> unit result) \<Rightarrow> (nat \<Rightarrow> rat) \<Rightarrow> nat \<Rightarrow> int \<Rightarrow> (exc \<times> rat list) option" where
  "run_tunnel 0 config outcome jitter k attempt = None"
| "run_tunnel (Suc fuel) config outcome jitter k attempt = (case outcome k of
     Inr _ \<Rightarrow> run_tunnel fuel config outcome jitter (Suc k) 0
   | Inl e \<Rightarrow>
       if \<not> is_reconnectable e then Some (e, [])
       else if acfg_max_reconnect_attempts config > 0 \<and> attempt \<ge> acfg_max_reconnect_attempts config
       then Some (TunnelReconnectLimitError ''exhausted reconnect attempts'', [])
       else (case next_reconnect_delay attempt 1
                    (of_int (acfg_reconnect_backoff_max_seconds config)) (jitter k) of
               Inl e' \<Rightarrow> Some (e', [])
             | Inr delay \<Rightarrow>
                 map_option (\<lambda>(x, ds). (x, delay # ds))
                   (run_tunnel fuel config outcome jitter (Suc k) (attempt + 1))))"

end
