(* ===== verification/Agent_Facts.thy ===== *)
theory Agent_Facts
  imports Agent_Tunnel
begin

text \<open>
  Facts about the agent: what each frame does to the channels, that the loop cleans up, what the
  backoff guarantees, and how the reconnect loop ends.
\<close>

section \<open>Channels\<close>

definition chan :: "pystr \<Rightarrow> agent_state \<Rightarrow> LocalChannel option" where
  "chan c st = map_of (at_channels st) c"

lemma chan_set [simp]: "chan c (set_channel d lc st) = (if c = d then Some lc else chan c st)"
  by (simp add: chan_def set_channel_def update_conv')

lemma out_set [simp]:
  "at_out (set_channel d lc st) = at_out st" "at_closed (set_channel d lc st) = at_closed st"
  by (simp_all add: set_channel_def)

lemma chan_send [simp]: "chan c (snd (agent_send t r ch p m st)) = chan c st"
  by (simp add: agent_send_def chan_def split: prod.split)

lemma agent_send_cases:
  assumes "agent_send t r ch p m st = (res, st')"
  obtains e where "res = Inl e" "encode_frame t r ch p m = Inl e" "st' = st"
    | b where "res = Inr ()" "encode_frame t r ch p m = Inr b" "st' = st\<lparr>at_out := at_out st @ b\<rparr>"
  using assms by (auto simp: agent_send_def agent_write_frame_def split: sum.splits)

definition opens :: "pystr \<Rightarrow> DecodedTunnelFrame \<Rightarrow> bool" where
  "opens c d \<longleftrightarrow> tf_type (dec_frame d) = OPEN_SESSION \<and> tf_channel_id (dec_frame d) = Some c"

lemma dispatch_open:
  assumes "tf_type (dec_frame d) = OPEN_SESSION" "tf_channel_id (dec_frame d) = Some c" "c \<noteq> []"
    "chan c st = None"
  shows "agent_dispatch None d st = (Inr (), set_channel c \<lparr>lc_written = [], lc_task = Running\<rparr> st)"
  using assms by (simp add: agent_dispatch_def require_channel_id_def chan_def Let_def)

lemma dispatch_data:
  assumes "tf_type (dec_frame d) = SESSION_DATA" "tf_channel_id (dec_frame d) = Some c" "c \<noteq> []"
    "chan c st = Some lc"
  shows "agent_dispatch f d st =
    (Inr (), set_channel c (lc\<lparr>lc_written := lc_written lc @ dec_payload d\<rparr>) st)"
  using assms by (simp add: agent_dispatch_def require_channel_id_def chan_def Let_def forward_ssh_payload_def)

lemma dispatch_close:
  assumes "tf_type (dec_frame d) = CLOSE_SESSION" "tf_channel_id (dec_frame d) = Some c" "c \<noteq> []"
    "chan c st = Some lc"
  shows "agent_dispatch f d st =
    close_local_channel c lc (st\<lparr>at_channels := AList.delete c (at_channels st)\<rparr>)"
  using assms by (simp add: agent_dispatch_def require_channel_id_def chan_def Let_def)

text \<open>A frame for one channel leaves every other channel alone.\<close>

lemma dispatch_other:
  assumes "tf_channel_id (dec_frame d) \<noteq> Some c"
  shows "chan c (snd (agent_dispatch f d st)) = chan c st"
proof -
  have del: "c \<noteq> x \<Longrightarrow> map_of (AList.delete x (at_channels st)) c = map_of (at_channels st) c" for x
    by (simp add: delete_conv')
  have s: "chan c (snd (agent_send HEARTBEAT r None [] DEFAULT_FRAME_MAX_BYTES st)) = chan c st" for r
    by simp
  show ?thesis
    using assms s
    by (auto simp: agent_dispatch_def Let_def require_channel_id_def close_local_channel_def
        split: option.splits task_state.splits if_splits)
      (auto simp: chan_def del set_channel_def update_conv')
qed

lemma close_all_ok:
  assumes "\<forall>x \<in> set cs. \<forall>e. lc_task (snd x) \<noteq> Failed e"
  shows "close_all cs st = (Inr (), st\<lparr>at_closed := at_closed st @ cs\<rparr>)"
  using assms
proof (induction cs arbitrary: st)
  case (Cons x cs)
  then show ?case
    by (cases x; cases "lc_task (snd x)") (auto simp: close_local_channel_def)
qed simp

section \<open>Backoff\<close>

lemma delay_Inr:
  assumes "next_reconnect_delay a b m j = Inr d"
  shows "0 \<le> a \<and> a < 1024 \<and> 0 < b \<and> 0 < m \<and> 0 \<le> j \<and> j \<le> 1 \<and>
    d = min m (min m (b * 2 ^ nat a) * (1 / 2 + j))"
  using assms by (auto simp: next_reconnect_delay_def Let_def split: if_splits)

lemma delay_total:
  "0 \<le> a \<Longrightarrow> a < 1024 \<Longrightarrow> 0 < m \<Longrightarrow> 0 \<le> j \<Longrightarrow> j \<le> 1 \<Longrightarrow> \<exists>d. next_reconnect_delay a 1 m j = Inr d"
  by (simp add: next_reconnect_delay_def Let_def)

text \<open>When every connection fails, the loop stops after \<open>limit\<close> delays.\<close>

definition failure_limit :: "AgentConfig \<Rightarrow> nat" where
  "failure_limit config =
     (if acfg_max_reconnect_attempts config > 0
      then nat (min 1024 (acfg_max_reconnect_attempts config)) else 1024)"

definition failure_exit :: "AgentConfig \<Rightarrow> exc" where
  "failure_exit config =
     (if 0 < acfg_max_reconnect_attempts config \<and> acfg_max_reconnect_attempts config \<le> 1024
      then TunnelReconnectLimitError ''exhausted reconnect attempts''
      else OverflowError ''int too large to convert to float'')"

lemma run_tunnel_failing:
  assumes fail: "\<forall>k. \<exists>e. outcome k = Inl e \<and> is_reconnectable e"
    and jit: "\<forall>k. 0 \<le> jitter k \<and> jitter k \<le> 1" and m: "0 < acfg_reconnect_backoff_max_seconds config"
  shows "n \<le> failure_limit config \<Longrightarrow>
    \<exists>ds. run_tunnel (Suc n) config outcome jitter k (int (failure_limit config - n)) =
        Some (failure_exit config, ds) \<and> length ds = n"
proof (induction n arbitrary: k)
  case 0
  obtain e where e: "outcome k = Inl e" "is_reconnectable e" using fail by blast
  let ?mx = "acfg_max_reconnect_attempts config"
  show ?case
  proof (cases "0 < ?mx \<and> ?mx \<le> 1024")
    case True
    with e show ?thesis by (simp add: failure_limit_def failure_exit_def)
  next
    case False
    then have l: "failure_limit config = 1024" by (auto simp: failure_limit_def)
    have no: "\<not> (0 < ?mx \<and> (1024::int) \<ge> ?mx)" using False by auto
    have "next_reconnect_delay 1024 1 (of_int (acfg_reconnect_backoff_max_seconds config)) (jitter k) =
        Inl (OverflowError ''int too large to convert to float'')"
      using m jit by (simp add: next_reconnect_delay_def) (metis linorder_not_less)
    with e l no False show ?thesis by (auto simp: failure_exit_def)
  qed
next
  case (Suc n)
  obtain e where e: "outcome k = Inl e" "is_reconnectable e" using fail by blast
  let ?a = "int (failure_limit config - Suc n)"
  have a: "0 \<le> ?a" "?a < 1024"
    using Suc.prems by (auto simp: failure_limit_def split: if_splits)
  have lim: "\<not> (0 < acfg_max_reconnect_attempts config \<and> ?a \<ge> acfg_max_reconnect_attempts config)"
    using Suc.prems by (auto simp: failure_limit_def split: if_splits)
  obtain d where d: "next_reconnect_delay ?a 1 (of_int (acfg_reconnect_backoff_max_seconds config)) (jitter k) = Inr d"
    using delay_total [OF a, of "of_int (acfg_reconnect_backoff_max_seconds config)" "jitter k"] jit m
    by auto
  have next_attempt: "?a + 1 = int (failure_limit config - n)" using Suc.prems by simp
  obtain ds where ds: "run_tunnel (Suc n) config outcome jitter (Suc k) (int (failure_limit config - n)) =
      Some (failure_exit config, ds)" "length ds = n"
    using Suc.IH Suc.prems by (meson Suc_leD)
  have "run_tunnel (Suc (Suc n)) config outcome jitter k ?a =
      map_option (\<lambda>(x, ds). (x, d # ds)) (run_tunnel (Suc n) config outcome jitter (Suc k) (?a + 1))"
    by (subst run_tunnel.simps(2)) (use e lim d in auto)
  with ds show ?case unfolding next_attempt by auto
qed

section \<open>Properties\<close>

text \<open>The agent is an opaque relay: a data frame appends exactly its payload to the local
  connection of its channel and writes nothing to the tunnel, and a frame for one channel changes
  no other channel.\<close>

theorem agent_relays_payload_unchanged:
  assumes "chan c st = Some lc" "c \<noteq> []" "tf_type (dec_frame d) = SESSION_DATA"
    and "tf_channel_id (dec_frame d) = Some c"
  shows "fst (agent_dispatch f d st) = Inr () \<and>
    chan c (snd (agent_dispatch f d st)) = Some (lc\<lparr>lc_written := lc_written lc @ dec_payload d\<rparr>) \<and>
    at_out (snd (agent_dispatch f d st)) = at_out st \<and>
    (\<forall>x. x \<noteq> c \<longrightarrow> chan x (snd (agent_dispatch f d st)) = chan x st)"
  using dispatch_data [OF assms(3,4,2,1)] by simp

definition one_channel :: agent_state where
  "one_channel = set_channel (str ''s1'') \<lparr>lc_written = [1], lc_task = Running\<rparr> empty_agent"

lemma one_channel_chan:
  "chan c one_channel = (if c = str ''s1'' then Some \<lparr>lc_written = [1], lc_task = Running\<rparr> else None)"
  by (simp add: one_channel_def) (simp add: chan_def empty_agent_def)

theorem agent_relays_payload_unchanged_witness:
  "chan (str ''s1'') (snd (agent_dispatch None (frame_of SESSION_DATA (str ''r'') (Some (str ''s1'')) [2, 3])
     one_channel)) = Some \<lparr>lc_written = [1, 2, 3], lc_task = Running\<rparr>"
  using agent_relays_payload_unchanged [of "str ''s1''" one_channel "\<lparr>lc_written = [1], lc_task = Running\<rparr>"
      "frame_of SESSION_DATA (str ''r'') (Some (str ''s1'')) [2, 3]" None]
  by (simp add: one_channel_chan frame_of_def)

text \<open>When the local sshd ends its side, the server is not told: the forwarding task ends without a
  frame, the channel stays in the table, and data for it is still written to the local
  connection.\<close>

theorem local_end_is_not_announced:
  assumes "chan c st = Some lc" "lc_task lc = Running"
  shows "at_out (forward_local_to_tunnel c [] m st) = at_out st \<and>
    chan c (forward_local_to_tunnel c [] m st) = Some (lc\<lparr>lc_task := Finished\<rparr>) \<and>
    (\<forall>d. tf_type (dec_frame d) = SESSION_DATA \<and> tf_channel_id (dec_frame d) = Some c \<and> c \<noteq> [] \<longrightarrow>
      fst (agent_dispatch None d (forward_local_to_tunnel c [] m st)) = Inr ())"
proof -
  have f: "forward_local_to_tunnel c [] m st = set_channel c (lc\<lparr>lc_task := Finished\<rparr>) st"
    using assms by (simp add: forward_local_to_tunnel_def chan_def)
  show ?thesis
    using dispatch_data [of _ c "set_channel c (lc\<lparr>lc_task := Finished\<rparr>) st" "lc\<lparr>lc_task := Finished\<rparr>" None]
    by (simp add: f)
qed

theorem local_end_is_not_announced_witness:
  "at_out (forward_local_to_tunnel (str ''s1'') [] 64 one_channel) = []"
  using local_end_is_not_announced [of "str ''s1''" one_channel "\<lparr>lc_written = [1], lc_task = Running\<rparr>" 64]
  by (simp add: one_channel_chan one_channel_def empty_agent_def)

text \<open>The agent forgets a closed channel: after a close it opens the same channel id again as a new
  local connection.\<close>

theorem agent_reopens_closed_channel:
  assumes "chan c st = Some lc" "lc_task lc = Running \<or> lc_task lc = Finished" "c \<noteq> []"
    and "tf_type (dec_frame d) = CLOSE_SESSION" "tf_channel_id (dec_frame d) = Some c"
    and "tf_type (dec_frame e) = OPEN_SESSION" "tf_channel_id (dec_frame e) = Some c"
  shows "\<exists>st1 st2. agent_dispatch None d st = (Inr (), st1) \<and> chan c st1 = None \<and>
    agent_dispatch None e st1 = (Inr (), st2) \<and>
    chan c st2 = Some \<lparr>lc_written = [], lc_task = Running\<rparr>"
proof -
  let ?st1 = "st\<lparr>at_channels := AList.delete c (at_channels st), at_closed := at_closed st @ [(c, lc)]\<rparr>"
  have 1: "agent_dispatch None d st = (Inr (), ?st1)"
    using dispatch_close [OF assms(4,5,3,1)] assms(2) by (auto simp: close_local_channel_def)
  have 2: "chan c ?st1 = None" by (simp add: chan_def delete_conv')
  from dispatch_open [OF assms(6,7,3) 2] 1 2 show ?thesis by simp
qed

theorem agent_reopens_closed_channel_witness:
  "\<exists>st1 st2. agent_dispatch None (frame_of CLOSE_SESSION (str ''r'') (Some (str ''s1'')) []) one_channel = (Inr (), st1) \<and>
     agent_dispatch None (frame_of OPEN_SESSION (str ''q'') (Some (str ''s1'')) []) st1 = (Inr (), st2)"
proof -
  have c: "chan (str ''s1'') one_channel = Some \<lparr>lc_written = [1], lc_task = Running\<rparr>"
    by (simp add: one_channel_chan)
  from agent_reopens_closed_channel [OF c,
      of "frame_of CLOSE_SESSION (str ''r'') (Some (str ''s1'')) []"
         "frame_of OPEN_SESSION (str ''q'') (Some (str ''s1'')) []"]
  show ?thesis by (auto simp: frame_of_def)
qed

text \<open>Closing a channel whose forwarding task has failed raises that task's exception out of the
  dispatch loop, and its local connection is never closed.\<close>

theorem close_after_failed_task_raises:
  assumes "chan c st = Some lc" "lc_task lc = Failed e" "c \<noteq> []"
    and "tf_type (dec_frame d) = CLOSE_SESSION" "tf_channel_id (dec_frame d) = Some c"
  shows "\<exists>st'. agent_dispatch None d st = (Inl e, st') \<and> chan c st' = None \<and> at_closed st' = at_closed st"
  using dispatch_close [OF assms(4,5,3,1)] assms(2)
  by (auto simp: close_local_channel_def chan_def delete_conv')

theorem close_after_failed_task_raises_witness:
  "\<exists>st'. agent_dispatch None (frame_of CLOSE_SESSION (str ''r'') (Some (str ''s2'')) [])
     (set_channel (str ''s2'') \<lparr>lc_written = [], lc_task = Failed EOFError\<rparr> one_channel) = (Inl EOFError, st')"
proof -
  have "chan (str ''s2'') (set_channel (str ''s2'') \<lparr>lc_written = [], lc_task = Failed EOFError\<rparr> one_channel)
      = Some \<lparr>lc_written = [], lc_task = Failed EOFError\<rparr>" by simp
  from close_after_failed_task_raises [OF this,
      where e = EOFError and d = "frame_of CLOSE_SESSION (str ''r'') (Some (str ''s2'')) []"]
  show ?thesis by (auto simp: frame_of_def)
qed

text \<open>The reconnect delay is positive and at most the maximum, at least half of the capped
  exponential, and exists exactly for non-negative attempts below 1024 with positive bounds and a
  jitter between 0 and 1.\<close>

theorem reconnect_delay_bounds:
  assumes "next_reconnect_delay a b m j = Inr d"
  shows "0 < d \<and> d \<le> m \<and> min m (b * 2 ^ nat a) / 2 \<le> d \<and> 0 \<le> a \<and> a < 1024"
proof -
  note f = delay_Inr [OF assms]
  let ?x = "min m (b * 2 ^ nat a)"
  have x: "0 < ?x" using f by simp
  have "?x * (1 / 2) \<le> ?x * (1 / 2 + j)" using x f by (intro mult_left_mono) auto
  then have "?x / 2 \<le> ?x * (1 / 2 + j)" by simp
  moreover have "?x / 2 \<le> m" using x f by (simp add: min_def)
  ultimately show ?thesis using f x by auto
qed

theorem reconnect_delay_bounds_witness: "\<exists>d. next_reconnect_delay 3 1 60 (1 / 4) = Inr d \<and> 4 \<le> d \<and> d \<le> 60"
proof -
  obtain d where d: "next_reconnect_delay 3 1 60 (1 / 4) = Inr d"
    using delay_total [of 3 60 "1 / 4"] by auto
  from reconnect_delay_bounds [OF d] d show ?thesis by (simp add: min_def)
qed

text \<open>C13: When every connection attempt fails, the agent gives up: with a positive limit of at most 1024
  attempts it raises \<open>TunnelReconnectLimitError\<close> after that many delays; with the default limit 0,
  which means no limit, the backoff overflows after 1024 delays and \<open>OverflowError\<close> ends the agent.\<close>

theorem failing_agent_stops:
  assumes "\<forall>k. \<exists>e. outcome k = Inl e \<and> is_reconnectable e" "\<forall>k. 0 \<le> jitter k \<and> jitter k \<le> 1"
    and "0 < acfg_reconnect_backoff_max_seconds config"
  shows "(acfg_max_reconnect_attempts config = 0 \<longrightarrow>
      (\<exists>ds. run_tunnel 1025 config outcome jitter 0 0 =
        Some (OverflowError ''int too large to convert to float'', ds) \<and> length ds = 1024)) \<and>
    (0 < acfg_max_reconnect_attempts config \<and> acfg_max_reconnect_attempts config \<le> 1024 \<longrightarrow>
      (\<exists>ds. run_tunnel (Suc (nat (acfg_max_reconnect_attempts config))) config outcome jitter 0 0 =
        Some (TunnelReconnectLimitError ''exhausted reconnect attempts'', ds) \<and>
        length ds = nat (acfg_max_reconnect_attempts config)))"
proof -
  have r: "\<exists>ds. run_tunnel (Suc (failure_limit config)) config outcome jitter 0 0 =
      Some (failure_exit config, ds) \<and> length ds = failure_limit config"
    using run_tunnel_failing [OF assms, of "failure_limit config" 0]
    by (simp del: run_tunnel.simps)
  then show ?thesis
  proof (cases "acfg_max_reconnect_attempts config = 0")
    case True
    then have "failure_limit config = 1024" "failure_exit config = OverflowError ''int too large to convert to float''"
      by (simp_all add: failure_limit_def failure_exit_def)
    with r True show ?thesis by (simp del: run_tunnel.simps)
  next
    case False
    have "failure_limit config = nat (acfg_max_reconnect_attempts config) \<and>
        failure_exit config = TunnelReconnectLimitError ''exhausted reconnect attempts''"
      if "0 < acfg_max_reconnect_attempts config" "acfg_max_reconnect_attempts config \<le> 1024"
      using that by (simp add: failure_limit_def failure_exit_def min_def)
    with r False show ?thesis by (auto simp del: run_tunnel.simps)
  qed
qed

definition sample_agent_config :: AgentConfig where
  "sample_agent_config = \<lparr>acfg_config_path = [], acfg_identity_path = [], acfg_enrollment_token = None,
     acfg_enrollment_completed = True, acfg_enrollment_tls_ca_bundle = [], acfg_tunnel_tls_ca_bundle = [],
     acfg_proxy_target_host = [], acfg_proxy_target_port = 22, acfg_heartbeat_seconds = 30,
     acfg_reconnect_backoff_max_seconds = 300, acfg_max_reconnect_attempts = 0\<rparr>"

theorem failing_agent_stops_witness:
  "\<exists>ds. run_tunnel 1025 sample_agent_config (\<lambda>_. Inl (OSError ''refused'')) (\<lambda>_. 1 / 2) 0 0 =
     Some (OverflowError ''int too large to convert to float'', ds)"
  using failing_agent_stops [where outcome = "\<lambda>_. Inl (OSError ''refused'')" and
      jitter = "\<lambda>_. 1 / 2" and config = sample_agent_config]
  by (auto simp: sample_agent_config_def)

end

