(* ===== verification/End_To_End.thy ===== *)
theory End_To_End
  imports Broker_Facts Agent_Facts
begin

text \<open>
  The two ends of a tunnel together: the agent's authentication frame against the server's
  handshake, payload bytes in both directions, and who sends heartbeats.
\<close>

section \<open>Frames under two limits\<close>

lemma encode_other_limit:
  "encode_frame t r c p m = Inr b \<Longrightarrow> 0 < m' \<Longrightarrow> int (length p) \<le> m' \<Longrightarrow> encode_frame t r c p m' = Inr b"
  by (auto simp: encode_frame_Inr exc_elims Let_def)

lemma read_other_side:
  assumes "encode_frame t r c p m = Inr b" "list_all scalar r" "text_ok c" "0 < m'" "int (length p) \<le> m'"
  shows "server_read_one_frame m' (b @ rest) = (Inr (frame_of t r c p), rest)"
    and "agent_read_decoded m' (b @ rest) = (Inr (Some (frame_of t r c p)), rest)"
proof -
  have e: "encode_frame t r c p m' = Inr b" using assms(1,4,5) by (rule encode_other_limit)
  then have "frame_fits m' (frame_of t r c p)" using assms(2,3) by (rule frame_fits_of)
  moreover have "frame_bytes m' (frame_of t r c p) = b"
    using e by (simp add: frame_bytes_def encode_decoded_def frame_of_def)
  ultimately show "server_read_one_frame m' (b @ rest) = (Inr (frame_of t r c p), rest)"
    and "agent_read_decoded m' (b @ rest) = (Inr (Some (frame_of t r c p)), rest)"
    using server_read_encoded agent_read_encoded by metis+
qed

section \<open>The handshake\<close>

lemma hex_of_scalar: "list_all scalar (hex_of n)"
proof (induction n rule: hex_of.induct)
  case (1 n)
  have "scalar (hex_char (n mod 16))" using hex_char_range [of n] by (simp add: scalar_def)
  moreover have "n < 16 \<Longrightarrow> scalar (hex_char n)" using hex_char_range [of n] by (simp add: scalar_def)
  ultimately show ?case using 1 by (subst hex_of.simps) simp
qed

lemma auth_payload_decodes:
  assumes "a < 2 ^ 128" "list_all scalar n" "list_all scalar pk" "list_all scalar sec"
  shows "decode_auth_payload text_of (dumps_bytes (auth_payload (uuid_text a) n sn pk sec)) =
    Inr \<lparr>rq_agent_id = a, rq_node_name = n, rq_cert_serial = hex_of sn, rq_cert_public_key = pk,
         rq_tunnel_secret = sec\<rparr>"
proof -
  let ?kvs = "[(str ''agent_id'', JStr (uuid_text a)), (str ''node_name'', JStr n),
    (str ''cert_serial'', JStr (hex_of sn)), (str ''cert_public_key'', JStr pk),
    (str ''tunnel_secret'', JStr sec)]"
  have u: "list_all scalar (uuid_text a)"
  proof -
    have "scalar c" if "c \<in> set (uuid_text a)" for c
      using uuid_text_chars [OF that] by (auto simp: scalar_def)
    then show ?thesis by (simp add: list_all_iff)
  qed
  have k: "list_all scalar (str ''agent_id'')" "list_all scalar (str ''cert_serial'')"
    "list_all scalar (str ''cert_public_key'')"
    by (simp_all add: str_def scalar_def)
  have p: "plain (auth_payload (uuid_text a) n sn pk sec)"
    using assms u k keys_scalar hex_of_scalar [of sn] by (simp add: auth_payload_def)
  have "distinct (map fst ?kvs)" by simp
  then obtain kvs' where s: "sort_keys (JObj ?kvs) = JObj kvs'"
    "\<And>k. map_of kvs' k = map_option sort_keys (map_of ?kvs k)"
    using sort_keys_obj by blast
  have l: "loads_bytes (dumps_bytes (auth_payload (uuid_text a) n sn pk sec)) = Some (JObj kvs')"
    using dumps_bytes_loads [OF p] s(1) by (simp add: auth_payload_def)
  show ?thesis
    unfolding decode_auth_payload_def l
    by (simp add: require_key_def s(2) uuid_roundtrip [OF assms(1)])
qed

definition auth_accepted_record :: "database \<Rightarrow> uuid \<Rightarrow> pystr \<Rightarrow> nat \<Rightarrow> pystr \<Rightarrow> pystr \<Rightarrow> datetime \<Rightarrow> AgentTunnelRecord \<Rightarrow> bool" where
  "auth_accepted_record db a n sn pk sec now r \<longleftrightarrow> pg_get_agent db a = Some r \<and> tr_revoked_at r = None \<and>
     instant now < instant (tr_cert_expires_at r) \<and> tr_node_name r = n \<and> tr_cert_serial r = hex_of sn \<and>
     tr_x509_public_key r = pk \<and> 43 \<le> length sec \<and> sha256_hex (Secret sec) = Inr (tr_tunnel_secret_hash r)"

lemma agent_handshake:
  assumes f: "auth_frame (uuid_text a) (Some n) sn pk sec = Inr b"
    and a: "a < 2 ^ 128" and t: "list_all scalar n" "list_all scalar pk" "list_all scalar sec"
    and m: "0 < m" "int (length (dumps_bytes (auth_payload (uuid_text a) n sn pk sec))) \<le> m"
    and r: "auth_accepted_record db a n sn pk sec now r"
    and peer: "pb_cert_serial peer = hex_of sn" "pb_cert_public_key peer = pk"
  shows "tunnel_handshake text_of peer now m db (b @ rest) = (Inr (r, str ''agent-auth''), rest)"
proof -
  let ?p = "dumps_bytes (auth_payload (uuid_text a) n sn pk sec)"
  have e: "encode_frame AUTH (str ''agent-auth'') None ?p DEFAULT_FRAME_MAX_BYTES = Inr b"
    using f by (simp add: auth_frame_def split: if_splits)
  have rd: "server_read_one_frame m (b @ rest) = (Inr (frame_of AUTH (str ''agent-auth'') None ?p), rest)"
    by (rule read_other_side(1) [OF e _ _ m]) (simp_all add: str_def scalar_def text_ok_def)
  have "authenticate (pg_get_agent db) \<lparr>rq_agent_id = a, rq_node_name = n, rq_cert_serial = hex_of sn,
      rq_cert_public_key = pk, rq_tunnel_secret = sec\<rparr> now = Inr r"
    using r by (simp add: authenticate_iff binds_def auth_accepted_record_def)
  then show ?thesis
    using peer by (simp add: tunnel_handshake_def sbind_def rd frame_of_def auth_payload_decodes [OF a t]
        verify_peer_certificate_binding_def)
qed

section \<open>Payload in both directions\<close>

lemma written_by_send:
  assumes "reachable b" "send_data ch p rid b = (Inr (), b')"
  shows "\<exists>a cid bs. bk_channel_agents b ch = Some a \<and> bk_connections b a = Some cid \<and>
    encode_frame SESSION_DATA rid (Some ch) p (bk_max_frame_bytes b) = Inr bs \<and>
    bk_written b' cid = bk_written b cid @ bs \<and> ch \<noteq> []"
proof -
  have inv: "broker_inv b" using assms(1) by (rule inv_reachable)
  from assms(2) obtain a where a: "bk_channel_agents b ch = Some a"
    unfolding send_data_def on_open_channel_eq [OF inv] by (auto split: option.splits)
  with inv obtain cid c where c: "bk_connections b a = Some cid" "bk_conns b cid = Some c"
    "ch \<in> ch_open (bc_channels c)" by (rule route)
  have "ch \<noteq> []" using inv_conn [OF inv c(2)] c(3) by (auto simp: conn_ok_def channels_ok_def)
  with a c assms(2) show ?thesis
    unfolding send_data_def on_open_channel_eq [OF inv] by (auto simp: write_frame_Inr)
qed

lemma forward_written:
  assumes "chan c st = Some lc" "lc_task lc = Running" "p \<noteq> []"
    and "encode_frame SESSION_DATA (c @ data_suffix) (Some c) p m = Inr bs"
  shows "at_out (forward_local_to_tunnel c p m st) = at_out st @ bs"
  using assms
  by (simp add: forward_local_to_tunnel_def chan_def agent_send_def agent_write_frame_def
      forward_ssh_payload_def)

section \<open>Who sends heartbeats\<close>

definition server_frame_types :: "TunnelFrameType set" where
  "server_frame_types = {AUTH_OK, OPEN_SESSION, SESSION_DATA, RESIZE_PTY, CLOSE_SESSION, ERROR}"

definition only_server_frames :: "bytes \<Rightarrow> bool" where
  "only_server_frames w \<longleftrightarrow> (\<exists>fs. w = concat (map snd fs) \<and>
     (\<forall>(t, bs) \<in> set fs. t \<in> server_frame_types \<and> (\<exists>r c p m. encode_frame t r c p m = Inr bs)))"

lemma only_server_frames_Nil: "only_server_frames []"
  unfolding only_server_frames_def by (rule exI [of _ "[]"]) simp

lemma only_server_frames_snoc:
  assumes "only_server_frames w" "encode_frame t r c p m = Inr bs" "t \<in> server_frame_types"
  shows "only_server_frames (w @ bs)"
proof -
  from assms(1) obtain fs where "w = concat (map snd fs)"
    "\<forall>(t, bs) \<in> set fs. t \<in> server_frame_types \<and> (\<exists>r c p m. encode_frame t r c p m = Inr bs)"
    by (auto simp: only_server_frames_def)
  with assms(2,3) show ?thesis
    unfolding only_server_frames_def by (intro exI [of _ "fs @ [(t, bs)]"]) auto
qed

definition writes_ok :: "ServerTunnelBroker \<Rightarrow> bool" where
  "writes_ok b \<longleftrightarrow> (\<forall>cid. only_server_frames (bk_written b cid))"

lemma writes_ok_frame:
  assumes "writes_ok b" "write_frame cid t rid ch p b = (res, b')" "t \<in> server_frame_types"
  shows "writes_ok b'"
proof (cases res)
  case (Inl e)
  with assms(1,2) show ?thesis using write_frame_error by blast
next
  case (Inr u)
  with assms(2) obtain bs where bs: "encode_frame t rid ch p (bk_max_frame_bytes b) = Inr bs"
    "b' = b\<lparr>bk_written := (bk_written b)(cid := bk_written b cid @ bs)\<rparr>"
    by (auto simp: write_frame_Inr)
  have "only_server_frames (bk_written b cid @ bs)"
    by (rule only_server_frames_snoc [OF _ bs(1) assms(3)]) (use assms(1) in \<open>simp add: writes_ok_def\<close>)
  with assms(1) bs(2) show ?thesis by (simp add: writes_ok_def)
qed

lemma writes_ok_step:
  assumes inv: "broker_inv b" and w: "writes_ok b" and st: "broker_step b b'"
  shows "writes_ok b'"
  using st
proof cases
  case (connect cid r now c rid res)
  have "writes_ok (b\<lparr>bk_registry := reg, bk_connections := cs, bk_conns := co\<rparr>)" for reg cs co
    using w by (simp add: writes_ok_def)
  note base = this
  show ?thesis
  proof (cases "registry_connect (tr_agent_id (bc_agent c)) (bc_connection_id c) (bk_registry b)")
    case (Pair z reg)
    show ?thesis
    proof (cases z)
      case (Inl e)
      with Pair connect(3) w show ?thesis by (simp add: connect_tunnel_def Let_def)
    next
      case (Inr u)
      with Pair connect(3) show ?thesis
        unfolding connect_tunnel_def Let_def
        by (auto simp: server_frame_types_def intro: writes_ok_frame [OF base])
    qed
  qed
next
  case (seen cid c now)
  with w show ?thesis by (simp add: writes_ok_def frame_seen_def update_conn_def)
next
  case (frame cid c d res)
  from inv frame(1,2) show ?thesis
  proof (cases rule: handle_agent_frame_cases)
    case (close ch)
    have "bk_conns (update_stream (cid, ch) feed_eof b) cid = Some c"
      using frame(1) by (simp add: update_stream_def)
    from retire_channel_unfold [OF this, of ch] close w show ?thesis
      by (auto simp: writes_ok_def update_stream_def)
  qed (use w in \<open>auto simp: writes_ok_def update_stream_def\<close>)
next
  case (finish cid r rid e res)
  have drop: "bk_written (drop_connection a x y) = bk_written y" for a x y
    by (simp add: drop_connection_def Let_def split: option.split)
  have err: "only_server_frames (best_effort_error rid (bk_written b cid))"
    using w by (auto simp: best_effort_error_def server_write_frame_def writes_ok_def server_frame_types_def
        split: sum.splits intro: only_server_frames_snoc)
  from finish(2) w err show ?thesis
    by (auto simp: finish_stream_def Let_def writes_ok_def drop split: option.splits if_splits)
next
  case (session a ch n k u cert now rid res)
  from inv session show ?thesis
  proof (cases rule: open_session_cases)
    case (2 cid c)
    have "writes_ok (with_session a cid c ch b)" using w by (simp add: writes_ok_def with_session_def)
    from writes_ok_frame [OF this 2(4)] show ?thesis by (simp add: server_frame_types_def)
  qed (use w in simp)
next
  case (data ch p rid res)
  then show ?thesis using w unfolding send_data_def on_open_channel_eq [OF inv]
    by (auto simp: server_frame_types_def split: option.splits intro: writes_ok_frame)
next
  case (resize ch x h rid res)
  then show ?thesis using w unfolding resize_pty_def on_open_channel_eq [OF inv]
    by (auto simp: server_frame_types_def split: option.splits intro: writes_ok_frame)
next
  case (close_begin ch rid res)
  then show ?thesis using w unfolding close_begin_eq [OF inv]
    by (auto simp: server_frame_types_def sbind_def split: option.splits prod.splits sum.splits
        intro: writes_ok_frame)
next
  case (retire cid c ch res)
  from retire_channel_unfold [OF retire(1), of ch] retire(2) w show ?thesis
    by (auto simp: writes_ok_def split: if_splits)
next
  case (read ref s n data s')
  with w show ?thesis by (simp add: writes_ok_def update_stream_def)
next
  case (mark_closed ref s)
  with w show ?thesis by (simp add: writes_ok_def update_stream_def)
qed

lemma writes_ok_reachable: "reachable b \<Longrightarrow> writes_ok b"
proof (induction rule: reachable.induct)
  case (start m h f b)
  then show ?case by (auto simp: new_broker_def writes_ok_def only_server_frames_Nil split: if_splits)
next
  case (step b b')
  then show ?case using writes_ok_step inv_reachable by blast
qed

section \<open>Properties\<close>

text \<open>C10: The server accepts a tunnel only after a complete handshake: the first frame is \<open>AUTH\<close>, its
  serial and public key are those of the TLS peer certificate, and the stored agent is not revoked,
  not expired and matches node name, serial, key and secret digest.\<close>

theorem handshake_sound:
  assumes "tunnel_handshake text_of peer now m db s = (Inr (r, rid), t)"
  shows "\<exists>d q. server_read_one_frame m s = (Inr d, t) \<and> tf_type (dec_frame d) = AUTH \<and>
    tf_request_id (dec_frame d) = rid \<and> decode_auth_payload text_of (dec_payload d) = Inr q \<and>
    rq_cert_serial q = pb_cert_serial peer \<and> rq_cert_public_key q = pb_cert_public_key peer \<and>
    pg_get_agent db (rq_agent_id q) = Some r \<and> tr_revoked_at r = None \<and>
    instant now < instant (tr_cert_expires_at r) \<and> binds r q"
  using assms by (auto simp: tunnel_handshake_def exc_elims authenticate_iff)

text \<open>An enrolled agent gets in: the authentication frame the agent builds from its identity passes
  the server's handshake when the stored record is valid and the TLS certificate is the one in the
  identity, for every frame limit of the server that admits the payload.\<close>

theorem agent_handshake_accepted:
  assumes "auth_frame (uuid_text a) (Some n) sn pk sec = Inr b" "a < 2 ^ 128"
    and "list_all scalar n" "list_all scalar pk" "list_all scalar sec" "0 < m"
    and "int (length (dumps_bytes (auth_payload (uuid_text a) n sn pk sec))) \<le> m"
    and "auth_accepted_record db a n sn pk sec now r"
    and "pb_cert_serial peer = hex_of sn" "pb_cert_public_key peer = pk"
  shows "tunnel_handshake text_of peer now m db (b @ rest) = (Inr (r, str ''agent-auth''), rest)"
  using assms by (rule agent_handshake)

definition sample_peer :: PeerCertificateBinding where
  "sample_peer = \<lparr>pb_cert_serial = str ''1f'', pb_cert_public_key = str ''pem''\<rparr>"

lemma hex_of_31: "hex_of 31 = str ''1f''"
  by (simp add: hex_of.simps hex_char_def str_def)

lemma sample_accepted:
  "auth_accepted_record sample_db 7 (str ''web-1'') 31 (str ''pem'') (replicate 43 65) (utc 50)
     (record_of_row sample_agent)"
proof -
  have "ascii (replicate 43 65)" by (simp add: ascii_def)
  then have "sha256_hex (Secret (replicate 43 65)) = Inr (sha256_hexdigest (ascii_bytes (replicate 43 65)))"
    by (simp only: sha256_hex_def secret.sel utf8_encode_ascii option.case)
  then show ?thesis
    by (simp add: auth_accepted_record_def pg_get_agent_def agent_by_id_def sample_db_def sample_agent_def
        record_of_row_def hex_of_31 as_utc_eq)
qed

lemma sample_auth_frame:
  obtains b where "auth_frame (uuid_text 7) (Some (str ''web-1'')) 31 (str ''pem'') (replicate 43 65) = Inr b"
    "length (dumps_bytes (auth_payload (uuid_text 7) (str ''web-1'') 31 (str ''pem'') (replicate 43 65))) \<le> 4000"
proof -
  let ?p = "dumps_bytes (auth_payload (uuid_text 7) (str ''web-1'') 31 (str ''pem'') (replicate 43 65))"
  have l: "length (uuid_text 7) = 36" by (simp add: uuid_text_def Let_def)
  have "length ?p \<le> 4000"
    using length_print_string [of "str ''agent_id''"] length_print_string [of "uuid_text 7"]
      length_print_string [of "str ''node_name''"] length_print_string [of "str ''web-1''"]
      length_print_string [of "str ''cert_serial''"] length_print_string [of "str ''1f''"]
      length_print_string [of "str ''cert_public_key''"] length_print_string [of "str ''pem''"]
      length_print_string [of "str ''tunnel_secret''"] length_print_string [of "replicate 43 65"] l
    by (simp add: auth_payload_def dumps_bytes_def json_dumps_def str_def hex_of_31)
  moreover obtain b where "encode_frame AUTH (str ''agent-auth'') None ?p 4096 = Inr b"
    by (rule encode_4096 [of "str ''agent-auth''" None ?p AUTH]) (use calculation in \<open>simp_all add: opt_length_def\<close>)
  then have "encode_frame AUTH (str ''agent-auth'') None ?p DEFAULT_FRAME_MAX_BYTES = Inr b"
    by (rule encode_other_limit) (use calculation in \<open>simp_all add: DEFAULT_FRAME_MAX_BYTES_def\<close>)
  ultimately show thesis using that by (simp add: auth_frame_def)
qed

lemma sample_handshake:
  "\<exists>s. tunnel_handshake (\<lambda>_. []) sample_peer (utc 50) 4096 sample_db s =
     (Inr (record_of_row sample_agent, str ''agent-auth''), [])"
proof -
  obtain b where b: "auth_frame (uuid_text 7) (Some (str ''web-1'')) 31 (str ''pem'') (replicate 43 65) = Inr b"
    "length (dumps_bytes (auth_payload (uuid_text 7) (str ''web-1'') 31 (str ''pem'') (replicate 43 65))) \<le> 4000"
    by (rule sample_auth_frame)
  have "tunnel_handshake (\<lambda>_. []) sample_peer (utc 50) 4096 sample_db (b @ []) =
     (Inr (record_of_row sample_agent, str ''agent-auth''), [])"
    by (rule agent_handshake [OF b(1) _ _ _ _ _ _ sample_accepted])
      (use b(2) in \<open>simp_all add: str_def scalar_def list_all_iff sample_peer_def hex_of_31\<close>)
  then show ?thesis by blast
qed

theorem handshake_sound_witness:
  "\<exists>s d. server_read_one_frame 4096 s = (Inr d, []) \<and> tf_type (dec_frame d) = AUTH \<and>
     tunnel_handshake (\<lambda>_. []) sample_peer (utc 50) 4096 sample_db s =
       (Inr (record_of_row sample_agent, str ''agent-auth''), [])"
proof -
  obtain s where s: "tunnel_handshake (\<lambda>_. []) sample_peer (utc 50) 4096 sample_db s =
     (Inr (record_of_row sample_agent, str ''agent-auth''), [])"
    using sample_handshake by blast
  from handshake_sound [OF s] s show ?thesis by blast
qed

theorem agent_handshake_accepted_witness:
  "\<exists>b. tunnel_handshake (\<lambda>_. []) sample_peer (utc 50) 4096 sample_db (b @ [1]) =
     (Inr (record_of_row sample_agent, str ''agent-auth''), [1])"
proof -
  obtain b where b: "auth_frame (uuid_text 7) (Some (str ''web-1'')) 31 (str ''pem'') (replicate 43 65) = Inr b"
    "length (dumps_bytes (auth_payload (uuid_text 7) (str ''web-1'') 31 (str ''pem'') (replicate 43 65))) \<le> 4000"
    by (rule sample_auth_frame)
  show ?thesis
    by (rule exI, rule agent_handshake_accepted [OF b(1) _ _ _ _ _ _ sample_accepted])
      (use b(2) in \<open>simp_all add: str_def scalar_def list_all_iff sample_peer_def hex_of_31\<close>)
qed

text \<open>C11: Bytes the server sends on a channel arrive unchanged at the local sshd of that channel: what
  \<open>send_data\<close> writes is one frame, and the agent that reads it appends exactly the payload to the
  local connection.  The payload has to be within the agent's frame limit, the channel open there, and the
  two ids texts without surrogates, which UTF-8 can encode.\<close>

theorem server_payload_reaches_local_sshd:
  assumes "reachable b" "send_data ch p rid b = (Inr (), b')" "list_all scalar rid" "list_all scalar ch"
    and "0 < m" "int (length p) \<le> m" "chan ch st = Some lc"
  shows "\<exists>cid w. bk_written b' cid = bk_written b cid @ w \<and>
    (\<forall>rest. \<exists>d. agent_read_decoded m (w @ rest) = (Inr (Some d), rest) \<and>
      agent_dispatch None d st = (Inr (), set_channel ch (lc\<lparr>lc_written := lc_written lc @ p\<rparr>) st))"
proof -
  obtain cid w where w: "encode_frame SESSION_DATA rid (Some ch) p (bk_max_frame_bytes b) = Inr w"
    "bk_written b' cid = bk_written b cid @ w" "ch \<noteq> []"
    using written_by_send [OF assms(1,2)] by blast
  have rd: "agent_read_decoded m (w @ rest) = (Inr (Some (frame_of SESSION_DATA rid (Some ch) p)), rest)" for rest
    by (rule read_other_side(2) [OF w(1) assms(3) _ assms(5,6)]) (simp add: text_ok_def assms(4))
  have "agent_dispatch None (frame_of SESSION_DATA rid (Some ch) p) st =
      (Inr (), set_channel ch (lc\<lparr>lc_written := lc_written lc @ p\<rparr>) st)"
    using dispatch_data [of "frame_of SESSION_DATA rid (Some ch) p" ch st lc None] w(3) assms(7)
    by (simp add: frame_of_def)
  with rd w(2) show ?thesis by blast
qed

theorem server_payload_reaches_local_sshd_witness:
  "\<exists>b b' w cid. send_data (str ''s1'') [5, 6] (str ''r'') b = (Inr (), b') \<and>
     bk_written b' cid = bk_written b cid @ w \<and>
     (\<exists>d. agent_read_decoded 64 (w @ []) = (Inr (Some d), []) \<and>
       agent_dispatch None d one_channel =
         (Inr (), set_channel (str ''s1'') \<lparr>lc_written = [1, 5, 6], lc_task = Running\<rparr> one_channel))"
proof -
  obtain b where st: "sample_state [str ''s2'', str ''s1''] b" by (rule sample_sessions)
  then have r: "reachable b" and m: "bk_max_frame_bytes b = 4096"
    and a: "bk_channel_agents b (str ''s1'') = Some 7"
    by (auto simp: sample_state_def)
  obtain bs where "encode_frame SESSION_DATA (str ''r'') (Some (str ''s1'')) [5, 6] 4096 = Inr bs"
    by (rule encode_4096 [of "str ''r''" "Some (str ''s1'')" "[5, 6]"]) (simp_all add: opt_length_def)
  then obtain b' where s: "send_data (str ''s1'') [5, 6] (str ''r'') b = (Inr (), b')"
    unfolding send_data_def on_open_channel_eq [OF inv_reachable [OF r]]
    using a m by (simp add: write_frame_def server_write_frame_def)
  have c: "chan (str ''s1'') one_channel = Some \<lparr>lc_written = [1], lc_task = Running\<rparr>"
    by (simp add: one_channel_chan)
  have sc: "list_all scalar (str ''r'')" "list_all scalar (str ''s1'')" by (simp_all add: str_def scalar_def)
  from server_payload_reaches_local_sshd [OF r s sc _ _ c, of 64] obtain cid w where
    "bk_written b' cid = bk_written b cid @ w"
    "\<forall>rest. \<exists>d. agent_read_decoded 64 (w @ rest) = (Inr (Some d), rest) \<and>
      agent_dispatch None d one_channel =
        (Inr (), set_channel (str ''s1'') \<lparr>lc_written = [1, 5, 6], lc_task = Running\<rparr> one_channel)"
    by auto
  with s show ?thesis by blast
qed

text \<open>C12: Bytes the local sshd writes arrive unchanged in the stream of that session on the server: the
  frame the forwarding task writes is read by the server, and handling it appends exactly those
  bytes to the stream's buffer.\<close>

theorem local_output_reaches_the_stream:
  assumes "chan c st = Some lc" "lc_task lc = Running" "p \<noteq> []" "list_all scalar c"
    and "encode_frame SESSION_DATA (c @ data_suffix) (Some c) p m = Inr w"
    and "reachable b" "bk_conns b cid = Some k" "c \<in> ch_open (bc_channels k)"
    and "int (length p) \<le> bk_max_frame_bytes b"
  shows "at_out (forward_local_to_tunnel c p m st) = at_out st @ w \<and>
    (\<exists>d s. server_read_one_frame (bk_max_frame_bytes b) (w @ rest) = (Inr d, rest) \<and>
      bk_streams b (cid, c) = Some s \<and>
      handle_agent_frame cid d b = (Inr (), update_stream (cid, c) (feed_data p) b))"
proof -
  let ?d = "frame_of SESSION_DATA (c @ data_suffix) (Some c) p"
  have inv: "broker_inv b" using assms(6) by (rule inv_reachable)
  have ok: "conn_ok b cid k" using inv assms(7) by (rule inv_conn)
  have "0 < length p" using assms(3) by simp
  then have m: "0 < bk_max_frame_bytes b" using assms(9) by linarith
  have rd: "server_read_one_frame (bk_max_frame_bytes b) (w @ rest) = (Inr ?d, rest)"
    by (rule read_other_side(1) [OF assms(5) _ _ m assms(9)])
      (use assms(4) in \<open>simp_all add: data_suffix_def str_def scalar_def text_ok_def\<close>)
  have "bc_adapters k c = Some (cid, c)" using ok assms(8) by (simp add: conn_ok_def)
  then have "handle_agent_frame cid ?d b = (Inr (), update_stream (cid, c) (feed_data p) b)"
    using assms(7,8) by (simp add: handle_agent_frame_def frame_of_def conn_at_def require_open_def)
  moreover have "\<exists>s. bk_streams b (cid, c) = Some s"
    using ok assms(8) by (auto simp: conn_ok_def used_channels_def)
  ultimately show ?thesis using forward_written [OF assms(1,2,3,5)] rd by blast
qed

theorem local_output_reaches_the_stream_witness:
  "\<exists>b w d. at_out (forward_local_to_tunnel (str ''s1'') [8] 4096 one_channel) = w \<and>
     server_read_one_frame (bk_max_frame_bytes b) (w @ []) = (Inr d, []) \<and>
     handle_agent_frame (str ''c1'') d b = (Inr (), update_stream (str ''c1'', str ''s1'') (feed_data [8]) b)"
proof -
  obtain b where st: "sample_state [str ''s2'', str ''s1''] b" by (rule sample_sessions)
  then obtain k where r: "reachable b" and m: "bk_max_frame_bytes b = 4096"
    and k: "bk_conns b (str ''c1'') = Some k" "str ''s1'' \<in> ch_open (bc_channels k)"
    by (auto simp: sample_state_def)
  obtain w where w: "encode_frame SESSION_DATA (str ''s1'' @ data_suffix) (Some (str ''s1'')) [8] 4096 = Inr w"
    by (rule encode_4096 [of "str ''s1'' @ data_suffix" "Some (str ''s1'')" "[8]"])
      (simp_all add: opt_length_def data_suffix_def)
  have c: "chan (str ''s1'') one_channel = Some \<lparr>lc_written = [1], lc_task = Running\<rparr>"
    by (simp add: one_channel_chan)
  have sc: "list_all scalar (str ''s1'')" by (simp add: str_def scalar_def)
  have o: "at_out one_channel = []" by (simp add: one_channel_def empty_agent_def)
  from local_output_reaches_the_stream [OF c _ _ sc w r k, of "[]"] m o
  have "at_out (forward_local_to_tunnel (str ''s1'') [8] 4096 one_channel) = w \<and>
    (\<exists>d. server_read_one_frame (bk_max_frame_bytes b) (w @ []) = (Inr d, []) \<and>
      handle_agent_frame (str ''c1'') d b = (Inr (), update_stream (str ''c1'', str ''s1'') (feed_data [8]) b))"
    by simp blast
  then show ?thesis by blast
qed

text \<open>The server never sends a heartbeat: in every reachable state the bytes written to a tunnel are
  a sequence of encoded \<open>AUTH_OK\<close>, \<open>OPEN_SESSION\<close>, \<open>SESSION_DATA\<close>, \<open>RESIZE_PTY\<close>, \<open>CLOSE_SESSION\<close> and \<open>ERROR\<close>
  frames.  The agent answers heartbeats only, so nothing keeps an idle tunnel fresh.\<close>

theorem server_never_sends_heartbeat:
  assumes "reachable b"
  shows "\<exists>fs. bk_written b cid = concat (map snd fs) \<and> (\<forall>(t, bs) \<in> set fs. t \<noteq> HEARTBEAT \<and>
    t \<in> server_frame_types \<and> (\<exists>r c p m. encode_frame t r c p m = Inr bs))"
proof -
  obtain fs where "bk_written b cid = concat (map snd fs)"
    "\<forall>(t, bs) \<in> set fs. t \<in> server_frame_types \<and> (\<exists>r c p m. encode_frame t r c p m = Inr bs)"
    using writes_ok_reachable [OF assms] unfolding writes_ok_def only_server_frames_def by blast
  then show ?thesis by (intro exI [of _ fs]) (auto simp: server_frame_types_def)
qed

theorem server_never_sends_heartbeat_witness:
  "\<exists>b fs. reachable b \<and> bk_connections b 7 = Some (str ''c1'') \<and> bk_written b (str ''c1'') = concat (map snd fs) \<and>
     HEARTBEAT \<notin> fst ` set fs"
proof -
  obtain b where st: "sample_state [str ''s2'', str ''s1''] b" by (rule sample_sessions)
  then have r: "reachable b" and l: "bk_connections b 7 = Some (str ''c1'')" by (auto simp: sample_state_def)
  from server_never_sends_heartbeat [OF r, of "str ''c1''"] obtain fs where
    fs: "bk_written b (str ''c1'') = concat (map snd fs)" "\<forall>(t, bs) \<in> set fs. t \<noteq> HEARTBEAT"
    by fast
  then have "HEARTBEAT \<notin> fst ` set fs" by auto
  with fs(1) l r show ?thesis by blast
qed

end
