(* ===== verification/Auth.thy ===== *)
theory Auth
  imports Identifiers Json "HOL-Library.List_Lexorder"
begin

text \<open>
  \<open>server/auth.py\<close>: who a presented public key belongs to, which nodes an identity sees and what
  the restricted shell accepts.  The LDAP bind and the Graph client are arguments; the Graph client
  threads a state of its own, so that two requests for one link may differ.  A frozenset is a set;
  a \<open>Mapping\<close> that is iterated is a list of pairs, one that is only looked up a partial map.
\<close>

record ResolvedIdentity =
  id_username :: pystr
  id_public_key :: pystr
  id_groups :: "pystr set"

record NodeInventoryEntry =
  ni_node_name :: pystr
  ni_labels :: "pystr set"

record ProviderPublicKeyRecord =
  pp_username :: pystr
  pp_public_keys :: "pystr list"
  pp_groups :: "pystr set"

section \<open>LDAP\<close>

definition escape_ldap_char :: "nat \<Rightarrow> pystr" where
  "escape_ldap_char c =
     (if c = 0 then [92, 48, 48] else if c = 42 then [92, 50, 97] else if c = 40 then [92, 50, 56]
      else if c = 41 then [92, 50, 57] else if c = 92 then [92, 53, 99] else [c])"

definition escape_ldap_filter_value :: "pystr \<Rightarrow> pystr" where
  "escape_ldap_filter_value value = concat (map escape_ldap_char value)"

definition validate_ldap_tls :: "bool \<Rightarrow> bool \<Rightarrow> unit result" where
  "validate_ldap_tls use_tls validate_tls =
     (if \<not> use_tls \<or> \<not> validate_tls
      then Inl (AuthError ''LDAP requires TLS certificate validation'') else Inr ())"

definition verify_ldap_password_bind ::
  "pystr \<Rightarrow> pystr \<Rightarrow> bool \<Rightarrow> bool \<Rightarrow> (pystr \<Rightarrow> pystr \<Rightarrow> bool result) \<Rightarrow> pystr result" where
  "verify_ldap_password_bind username password use_tls validate_tls bind =
     rbind (validate_ldap_tls use_tls validate_tls) (\<lambda>_.
     rbind (validate_username_principal username) (\<lambda>safe_username.
       if password = [] then Inl (AuthError ''password is required'')
       else rbind (bind safe_username password) (\<lambda>bound.
         if \<not> bound then Inl (AuthError ''LDAP bind denied'') else Inr safe_username)))"

section \<open>Public keys\<close>

definition resolve_provider_public_key_identity ::
  "pystr \<Rightarrow> pystr \<Rightarrow> ProviderPublicKeyRecord list \<Rightarrow> ResolvedIdentity result" where
  "resolve_provider_public_key_identity login_username presented_public_key records =
     rbind (validate_username_principal login_username) (\<lambda>safe_login.
       let matches = filter (\<lambda>r. presented_public_key \<in> set (pp_public_keys r)) records
       in rbind (rmap (\<lambda>r. validate_username_principal (pp_username r)) matches) (\<lambda>names.
            let matched_usernames = set names
            in if card matched_usernames > 1
               then Inl (AuthError ''public key maps to multiple usernames'')
               else if matched_usernames \<noteq> {safe_login} \<or> length matches \<noteq> 1
               then Inl (AuthError ''public key identity mismatch'')
               else Inr \<lparr>id_username = safe_login, id_public_key = presented_public_key,
                         id_groups = pp_groups (hd matches)\<rparr>))"

definition resolve_ldap_public_key_identity ::
  "pystr \<Rightarrow> pystr \<Rightarrow> ProviderPublicKeyRecord list \<Rightarrow> ResolvedIdentity result" where
  "resolve_ldap_public_key_identity login_username presented_public_key records =
     resolve_provider_public_key_identity login_username presented_public_key records"

definition resolve_azure_public_key_identity ::
  "pystr \<Rightarrow> pystr \<Rightarrow> ProviderPublicKeyRecord list \<Rightarrow> ResolvedIdentity result" where
  "resolve_azure_public_key_identity login_username presented_public_key records =
     resolve_provider_public_key_identity login_username presented_public_key records"

definition resolve_file_public_key_identity ::
  "pystr \<Rightarrow> pystr \<Rightarrow> (pystr \<times> pystr list) list \<Rightarrow> ResolvedIdentity result" where
  "resolve_file_public_key_identity login_username presented_public_key authorized_keys =
     rbind (validate_username_principal login_username) (\<lambda>safe_login.
     rbind (rmap (\<lambda>entry. validate_username_principal (fst entry))
              (filter (\<lambda>entry. presented_public_key \<in> set (snd entry)) authorized_keys)) (\<lambda>names.
       if card (set names) > 1 then Inl (AuthError ''public key maps to multiple usernames'')
       else if set names \<noteq> {safe_login} then Inl (AuthError ''public key identity mismatch'')
       else Inr \<lparr>id_username = safe_login, id_public_key = presented_public_key, id_groups = {}\<rparr>))"

section \<open>Azure AD groups\<close>

text \<open>One decoded JSON object per page.  The two handlers name both classes of a timeout.\<close>

type_synonym page = "(pystr \<times> json) list"
type_synonym 's graph = "pystr \<Rightarrow> ('s, page) op"

fun is_timeout :: "exc \<Rightarrow> bool" where
  "is_timeout (TimeoutError _) = True"
| "is_timeout (AsyncioTimeoutError _) = True"
| "is_timeout _ = False"

definition page_get :: "page \<Rightarrow> string \<Rightarrow> json" where
  "page_get p k = (case map_of p (str k) of None \<Rightarrow> JNull | Some v \<Rightarrow> v)"

definition group_id :: "json \<Rightarrow> pystr result" where
  "group_id entry = (case entry of
     JObj kvs \<Rightarrow> (case page_get kvs ''id'' of JStr g \<Rightarrow> Inr g
        | _ \<Rightarrow> Inl (AuthError ''Graph response contains partial group entry''))
   | _ \<Rightarrow> Inl (AuthError ''Graph response contains partial group entry''))"

text \<open>The groups of one page and the next link, empty at the end.\<close>

definition read_page :: "page \<Rightarrow> (pystr list \<times> pystr) result" where
  "read_page p = (case page_get p ''value'' of
     JArr values \<Rightarrow>
       rbind (rmap group_id values) (\<lambda>ids.
         case page_get p ''@odata.nextLink'' of
           JNull \<Rightarrow> Inr (ids, [])
         | JStr link \<Rightarrow> Inr (ids, link)
         | _ \<Rightarrow> Inl (AuthError ''Graph nextLink is invalid''))
   | _ \<Rightarrow> Inl (AuthError ''Graph response missing value list''))"

text \<open>The \<open>while url\<close> loop; the fuel counts the requests, and running out of it is \<open>None\<close>.\<close>

fun azure_pages :: "nat \<Rightarrow> 's graph \<Rightarrow> pystr \<Rightarrow> pystr set \<Rightarrow> 's \<Rightarrow> (pystr set result \<times> 's) option" where
  "azure_pages n get_json [] groups s = Some (Inr groups, s)"
| "azure_pages 0 get_json (c # url) groups s = None"
| "azure_pages (Suc n) get_json (c # url) groups s =
     (case get_json (c # url) s of
        (Inl e, t) \<Rightarrow> Some (Inl e, t)
      | (Inr p, t) \<Rightarrow>
          (case read_page p of
             Inl e \<Rightarrow> Some (Inl e, t)
           | Inr (ids, next_url) \<Rightarrow> azure_pages n get_json next_url (groups \<union> set ids) t))"

definition azure_url :: "pystr \<Rightarrow> bool \<Rightarrow> pystr" where
  "azure_url user_id transitive =
     str ''/users/'' @ user_id @ str ''/'' @
       (if transitive then str ''transitiveMemberOf'' else str ''memberOf'') @ str ''?$select=id''"

definition resolve_azure_ad_groups ::
  "nat \<Rightarrow> 's graph \<Rightarrow> pystr \<Rightarrow> bool \<Rightarrow> int \<Rightarrow> 's \<Rightarrow> (pystr set result \<times> 's) option" where
  "resolve_azure_ad_groups fuel get_json user_id transitive timeout_seconds s =
     (if timeout_seconds \<le> 0 then Some (Inl (AuthError ''Graph timeout must be positive''), s)
      else map_option (\<lambda>(r, t). (rewrap r is_timeout (\<lambda>e. AuthError ''Graph lookup timed out''), t))
             (azure_pages fuel get_json (azure_url user_id transitive) {} s))"

section \<open>Authorization\<close>

definition lookup_all :: "(pystr \<rightharpoonup> pystr list) \<Rightarrow> pystr \<Rightarrow> pystr set" where
  "lookup_all m k = (case m k of None \<Rightarrow> {} | Some xs \<Rightarrow> set xs)"

text \<open>The labels are validated while the set is built; any invalid one raises.\<close>

definition labels_for_groups ::
  "pystr set \<Rightarrow> (pystr \<rightharpoonup> pystr list) \<Rightarrow> (pystr \<rightharpoonup> pystr list) \<Rightarrow> pystr set result" where
  "labels_for_groups groups group_to_roles role_to_labels =
     (let roles = \<Union> (lookup_all group_to_roles ` groups);
          labels = \<Union> (lookup_all role_to_labels ` roles)
      in if \<exists>label \<in> labels. \<not> py_fullmatch LABEL_PATTERN label
         then Inl (IdentifierError ''invalid label'') else Inr labels)"

text \<open>\<open>sorted\<close> on strings is the lexicographic order of \<open>List_Lexorder\<close> on code points.\<close>

definition visible_nodes_for_identity ::
  "ResolvedIdentity \<Rightarrow> NodeInventoryEntry list \<Rightarrow> (pystr \<rightharpoonup> pystr list) \<Rightarrow>
   (pystr \<rightharpoonup> pystr list) \<Rightarrow> pystr list result" where
  "visible_nodes_for_identity identity nodes group_to_roles role_to_labels =
     rbind (labels_for_groups (id_groups identity) group_to_roles role_to_labels) (\<lambda>allowed_labels.
     rbind (rmap (\<lambda>node. validate_node_name (ni_node_name node))
              (filter (\<lambda>node. ni_labels node \<inter> allowed_labels \<noteq> {}) nodes)) (\<lambda>visible.
       Inr (sort visible)))"

section \<open>The restricted shell\<close>

definition parse_restricted_shell_command :: "pystr \<Rightarrow> pystr list \<Rightarrow> pystr result" where
  "parse_restricted_shell_command command allowed_nodes =
     (let stripped = strip command
      in if stripped \<noteq> command \<and> stripped = [] then Inl (AuthError ''empty command'')
         else rbind (rmap validate_node_name allowed_nodes) (\<lambda>nodes.
           if stripped \<in> set nodes then Inr stripped
           else Inl (AuthError ''restricted shell accepts only an exact node name'')))"

definition validate_ssh_request_policy ::
  "pystr \<Rightarrow> pystr option \<Rightarrow> pystr option \<Rightarrow> bool \<Rightarrow> bool \<Rightarrow> bool \<Rightarrow> unit result" where
  "validate_ssh_request_policy username command subsystem direct_tcpip agent_forwarding x11_forwarding =
     rbind (rewrap (validate_username_principal username) (\<lambda>e. case e of IdentifierError _ \<Rightarrow> True | _ \<Rightarrow> False)
              (\<lambda>e. AuthError ''username is denied'')) (\<lambda>_.
     if subsystem \<noteq> None then Inl (AuthError ''subsystems are denied'')
     else if direct_tcpip then Inl (AuthError ''forwarding is denied'')
     else if agent_forwarding then Inl (AuthError ''agent forwarding is denied'')
     else if x11_forwarding then Inl (AuthError ''X11 forwarding is denied'')
     else if command \<in> {Some (str ''scp''), Some (str ''sftp'')}
     then Inl (AuthError ''SCP and SFTP are denied'') else Inr ())"

section \<open>Facts\<close>

text \<open>What a directory server reads back from an escaped filter value.\<close>

fun unescape_ldap :: "pystr \<Rightarrow> pystr" where
  "unescape_ldap [] = []"
| "unescape_ldap (c # a # b # r) =
     (if c = 92 then (case (hex_value a, hex_value b) of
        (Some x, Some y) \<Rightarrow> (16 * x + y) # unescape_ldap r | _ \<Rightarrow> c # unescape_ldap (a # b # r))
      else c # unescape_ldap (a # b # r))"
| "unescape_ldap (c # r) = c # unescape_ldap r"

lemma unescape_char: "unescape_ldap (escape_ldap_char c @ r) = c # unescape_ldap r"
proof -
  have "c \<noteq> 92 \<Longrightarrow> unescape_ldap (c # r) = c # unescape_ldap r"
    by (cases r; cases "tl r") auto
  then show ?thesis by (auto simp: escape_ldap_char_def hex_value_def)
qed

lemma unescape_escape: "unescape_ldap (escape_ldap_filter_value v) = v"
  by (induction v) (simp_all add: escape_ldap_filter_value_def unescape_char)

lemma escape_chars:
  "\<forall>c \<in> set (escape_ldap_filter_value v). c \<noteq> 0 \<and> c \<noteq> 42 \<and> c \<noteq> 40 \<and> c \<noteq> 41"
  by (auto simp: escape_ldap_filter_value_def escape_ldap_char_def split: if_splits)

lemma filter_one: "length (filter p xs) = 1 \<longleftrightarrow> (\<exists>x. filter p xs = [x])"
  by (cases "filter p xs") auto

lemma provider_Inr:
  "resolve_provider_public_key_identity u k rs = Inr i \<longleftrightarrow>
     (\<exists>r. filter (\<lambda>r. k \<in> set (pp_public_keys r)) rs = [r] \<and> pp_username r = u \<and>
        validate_username_principal u = Inr u \<and>
        i = \<lparr>id_username = u, id_public_key = k, id_groups = pp_groups r\<rparr>)"
proof -
  let ?m = "filter (\<lambda>r. k \<in> set (pp_public_keys r)) rs"
  have one: "length ?m \<noteq> 1 \<Longrightarrow> (\<nexists>r. ?m = [r])" by auto
  show ?thesis
  proof (cases "length ?m = 1")
    case False
    then show ?thesis
      by (auto simp: resolve_provider_public_key_identity_def Let_def exc_elims split: if_splits)
  next
    case True
    then obtain r where r: "?m = [r]" unfolding filter_one by blast
    show ?thesis
      unfolding resolve_provider_public_key_identity_def Let_def r
      by (auto simp: exc_elims split: if_splits)
  qed
qed

lemma parse_shell_Inr:
  "parse_restricted_shell_command c ns = Inr n \<longleftrightarrow>
     n = strip c \<and> n \<in> set ns \<and> (\<forall>x \<in> set ns. py_fullmatch NODE_NAME_PATTERN x)"
proof -
  have v: "rmap validate_node_name ns = Inr ys \<longleftrightarrow>
      ys = ns \<and> (\<forall>x \<in> set ns. py_fullmatch NODE_NAME_PATTERN x)" for ys
    by (subst rmap_id) (auto simp: exc_elims)
  show ?thesis
    unfolding parse_restricted_shell_command_def Let_def
    using valid_node_name_chars by (auto simp: exc_elims v)
qed

lemma labels_for_groups_Inr:
  "labels_for_groups g gr rl = Inr L \<longleftrightarrow>
     L = {l. \<exists>x \<in> g. \<exists>r \<in> lookup_all gr x. l \<in> lookup_all rl r} \<and>
     (\<forall>l \<in> L. py_fullmatch LABEL_PATTERN l)"
  unfolding labels_for_groups_def Let_def by auto

lemma visible_Inr:
  assumes "visible_nodes_for_identity i ns gr rl = Inr vs"
  shows "vs = sort (map ni_node_name (filter (\<lambda>n. \<exists>l \<in> ni_labels n.
     \<exists>g \<in> id_groups i. \<exists>r \<in> lookup_all gr g. l \<in> lookup_all rl r) ns)) \<and>
     (\<forall>v \<in> set vs. py_fullmatch NODE_NAME_PATTERN v)"
proof -
  let ?L = "{l. \<exists>x \<in> id_groups i. \<exists>r \<in> lookup_all gr x. l \<in> lookup_all rl r}"
  let ?f = "filter (\<lambda>node. ni_labels node \<inter> ?L \<noteq> {}) ns"
  from assms obtain ws where w: "rmap (\<lambda>node. validate_node_name (ni_node_name node)) ?f = Inr ws"
    "vs = sort ws"
    by (auto simp: visible_nodes_for_identity_def exc_elims labels_for_groups_Inr)
  have e: "ws = map ni_node_name ?f" "\<forall>v \<in> set ws. py_fullmatch NODE_NAME_PATTERN v"
    using w(1) unfolding rmap_eq_Inr
    by (induction rule: list_all2_induct) (auto simp: exc_elims)
  have "?f = filter (\<lambda>n. \<exists>l \<in> ni_labels n. \<exists>g \<in> id_groups i. \<exists>r \<in> lookup_all gr g. l \<in> lookup_all rl r) ns"
    by (rule filter_cong) auto
  with w(2) e show ?thesis by simp
qed

lemma azure_pages_more:
  "azure_pages n g url G s = Some x \<Longrightarrow> n \<le> m \<Longrightarrow> azure_pages m g url G s = Some x"
proof (induction n g url G s arbitrary: m rule: azure_pages.induct)
  case (3 n g c url G s)
  obtain k where m: "m = Suc k" "n \<le> k" using 3(3) by (cases m) auto
  obtain r t where g: "g (c # url) s = (r, t)" by fastforce
  show ?case
  proof (cases r)
    case (Inl e)
    with 3(2) g m show ?thesis by simp
  next
    case (Inr p)
    show ?thesis
    proof (cases "read_page p")
      case (Inl e)
      with 3(2) g m Inr show ?thesis by simp
    next
      case r: (Inr q)
      obtain ids nx where q: "q = (ids, nx)" by fastforce
      from 3(2) have "azure_pages n g nx (G \<union> set ids) t = Some x" by (simp add: g Inr r q)
      then have "azure_pages k g nx (G \<union> set ids) t = Some x"
        using 3(1) [OF g [symmetric] Inr r q [symmetric] _ m(2)] by blast
      then show ?thesis by (simp add: m(1) g Inr r q)
    qed
  qed
qed auto

text \<open>A finished enumeration: the pages a client was served and the groups on each.\<close>

inductive graph_run :: "'s graph \<Rightarrow> pystr \<Rightarrow> 's \<Rightarrow> pystr list list \<Rightarrow> 's \<Rightarrow> bool" for g where
  run_end: "graph_run g [] s [] s"
| run_page: "url \<noteq> [] \<Longrightarrow> g url s = (Inr p, t) \<Longrightarrow> read_page p = Inr (ids, next_url) \<Longrightarrow>
    graph_run g next_url t idss u \<Longrightarrow> graph_run g url s (ids # idss) u"

lemma azure_pages_sound:
  "azure_pages n g url G s = Some (Inr H, t) \<Longrightarrow>
     \<exists>idss. graph_run g url s idss t \<and> H = G \<union> \<Union> (set ` set idss)"
proof (induction n g url G s rule: azure_pages.induct)
  case (1 n g G s)
  then show ?case using run_end by fastforce
next
  case (3 n g c url G s)
  obtain r u where g: "g (c # url) s = (r, u)" by fastforce
  from 3(2) g obtain p where p: "r = Inr p" by (cases r) auto
  from 3(2) g p obtain ids nx where q: "read_page p = Inr (ids, nx)" by (cases "read_page p") auto
  have "azure_pages n g nx (G \<union> set ids) u = Some (Inr H, t)" using 3(2) by (simp add: g p q)
  then obtain idss where i: "graph_run g nx u idss t" "H = (G \<union> set ids) \<union> \<Union> (set ` set idss)"
    using 3(1) [OF g [symmetric] p q refl] by blast
  have "graph_run g (c # url) s (ids # idss) t"
    using run_page [OF _ g [unfolded p] q i(1)] by simp
  moreover have "H = G \<union> \<Union> (set ` set (ids # idss))" using i(2) by auto
  ultimately show ?case by blast
qed auto

lemma azure_pages_complete:
  "graph_run g url s idss t \<Longrightarrow>
     azure_pages (length idss) g url G s = Some (Inr (G \<union> \<Union> (set ` set idss)), t)"
proof (induction arbitrary: G rule: graph_run.induct)
  case (run_page url s p t ids next_url idss u)
  then show ?case by (cases url) (auto simp: Un_assoc)
qed simp

text \<open>C15: The public-key login of LDAP and Azure AD resolves a key to an identity exactly when one
  single directory record lists the key and that record belongs to the user who logs in, whose
  name is a safe principal; the identity then has this name, this key and the groups of the
  record.  A key found in two records, of one user or of two, is refused.\<close>

theorem key_has_one_owner:
  "resolve_ldap_public_key_identity u k rs = Inr i \<longleftrightarrow>
     (\<exists>r. filter (\<lambda>r. k \<in> set (pp_public_keys r)) rs = [r] \<and> pp_username r = u \<and>
        u \<noteq> [] \<and> u \<noteq> str ''root'' \<and> (\<forall>c \<in> set u. principal_char_ok c) \<and>
        i = \<lparr>id_username = u, id_public_key = k, id_groups = pp_groups r\<rparr>)"
  unfolding resolve_ldap_public_key_identity_def provider_Inr
  by (auto simp: exc_elims)

lemma key_has_one_owner_witness:
  "resolve_ldap_public_key_identity (str ''bob'') [1]
     [\<lparr>pp_username = str ''bob'', pp_public_keys = [[1], [2]], pp_groups = {[9]}\<rparr>] =
   Inr \<lparr>id_username = str ''bob'', id_public_key = [1], id_groups = {[9]}\<rparr>"
  unfolding key_has_one_owner
  by (simp add: str_def principal_char_ok_def isspace_def USERNAME_FORBIDDEN_CHARS_def
      USERNAME_FORBIDDEN_SHELL_CHARS_def)

text \<open>An identity sees exactly the nodes that carry a label of one of its roles: a node is in
  the answer if and only if the inventory has an entry of that name with a label that some role of
  some group of the identity grants, compared exactly.  The answer is in code point order and every
  name in it is a valid node name.\<close>

theorem visible_nodes_exact:
  assumes "visible_nodes_for_identity i ns gr rl = Inr vs"
  shows "sorted vs \<and>
    (\<forall>v. v \<in> set vs \<longleftrightarrow> (\<exists>n \<in> set ns. ni_node_name n = v \<and>
       (\<exists>l \<in> ni_labels n. \<exists>g \<in> id_groups i. \<exists>r \<in> lookup_all gr g. l \<in> lookup_all rl r))) \<and>
    (\<forall>v \<in> set vs. py_fullmatch NODE_NAME_PATTERN v)"
  using visible_Inr [OF assms] by auto

definition sample_identity :: ResolvedIdentity where
  "sample_identity = \<lparr>id_username = str ''bob'', id_public_key = [1], id_groups = {[71]}\<rparr>"

lemma visible_nodes_exact_witness:
  "\<exists>vs. visible_nodes_for_identity sample_identity
     [\<lparr>ni_node_name = [98], ni_labels = {[76]}\<rparr>, \<lparr>ni_node_name = [97], ni_labels = {[76]}\<rparr>,
      \<lparr>ni_node_name = [99], ni_labels = {[77]}\<rparr>] [[71] \<mapsto> [[82]]] [[82] \<mapsto> [[76]]] = Inr vs
     \<and> sorted vs"
proof -
  have "visible_nodes_for_identity sample_identity
     [\<lparr>ni_node_name = [98], ni_labels = {[76]}\<rparr>, \<lparr>ni_node_name = [97], ni_labels = {[76]}\<rparr>,
      \<lparr>ni_node_name = [99], ni_labels = {[77]}\<rparr>] [[71] \<mapsto> [[82]]] [[82] \<mapsto> [[76]]] = Inr [[97], [98]]"
    by (simp add: visible_nodes_for_identity_def labels_for_groups_def lookup_all_def
        sample_identity_def validate_node_name_def node_name_closed label_closed is_alnum_cp_def)
  from visible_nodes_exact [OF this] show ?thesis using \<open>_ = Inr [[97], [98]]\<close> by blast
qed

text \<open>The restricted shell runs nothing but the name of an allowed node: a command is accepted
  exactly when, without the white space around it, it is one of the allowed nodes and all allowed
  nodes have valid names; what is returned is that name, so it never contains a shell character,
  white space or a second word.\<close>

theorem restricted_shell_exact:
  "parse_restricted_shell_command c ns = Inr n \<longleftrightarrow>
     n = strip c \<and> n \<in> set ns \<and> (\<forall>x \<in> set ns. py_fullmatch NODE_NAME_PATTERN x) \<and>
     n \<noteq> [] \<and> (\<forall>d \<in> set n. node_char d)"
  unfolding parse_shell_Inr using valid_node_name_chars by blast

lemma restricted_shell_exact_witness:
  "parse_restricted_shell_command (str '' web1 '') [str ''web1''] = Inr (str ''web1'')"
  unfolding restricted_shell_exact
  by (simp add: str_def node_name_closed is_alnum_cp_def node_char_def strip_def lstrip_def
      rstrip_def isspace_def)

text \<open>The Azure AD lookup gives the groups of all pages and nothing less: it returns a set of
  groups, for enough requests, exactly when the timeout is positive and the client was served a
  chain of well-formed pages that ends without a next link, and the set is the union of their
  groups.  A malformed page or entry, or a timeout, never gives a partial set.\<close>

theorem azure_groups_exact:
  "(\<exists>fuel. resolve_azure_ad_groups fuel g user tr secs s = Some (Inr G, t)) \<longleftrightarrow>
     0 < secs \<and> (\<exists>idss. graph_run g (azure_url user tr) s idss t \<and> G = \<Union> (set ` set idss))"
    (is "?l = ?r")
proof
  assume ?l
  then obtain n where n: "0 < secs" "azure_pages n g (azure_url user tr) {} s = Some (Inr G, t)"
    by (auto simp: resolve_azure_ad_groups_def exc_elims split: if_splits)
  from azure_pages_sound [OF n(2)] n(1) show ?r by auto
next
  assume ?r
  then obtain idss where i: "0 < secs" "graph_run g (azure_url user tr) s idss t"
    "G = \<Union> (set ` set idss)" by blast
  have "resolve_azure_ad_groups (length idss) g user tr secs s = Some (Inr G, t)"
    using azure_pages_complete [OF i(2), of "{}"] i(1,3)
    by (simp add: resolve_azure_ad_groups_def)
  then show ?l by blast
qed

lemma azure_groups_exact_witness:
  "\<exists>fuel. resolve_azure_ad_groups fuel
     (\<lambda>url n. (Inr [(str ''value'', JArr [JObj [(str ''id'', JStr [65, n])]]),
                  (str ''@odata.nextLink'', if n = 0 then JStr [47] else JNull)], Suc n))
     (str ''u1'') True 5 0 = Some (Inr {[65, 0], [65, 1]}, 2)"
proof -
  let ?g = "\<lambda>url n. (Inr [(str ''value'', JArr [JObj [(str ''id'', JStr [65, n])]]),
                  (str ''@odata.nextLink'', if n = 0 then JStr [47] else JNull)] :: page result, Suc n)"
  have "graph_run ?g [47] 1 [[[65, 1]]] 2"
    by (rule run_page [where ids = "[[65, 1]]" and next_url = "[]" and t = 2])
       (auto simp: read_page_def page_get_def group_id_def str_def intro: run_end)
  then have "graph_run ?g (azure_url (str ''u1'') True) 0 [[[65, 0]], [[65, 1]]] 2"
    by (intro run_page [where ids = "[[65, 0]]" and next_url = "[47]" and t = 1])
       (auto simp: read_page_def page_get_def group_id_def str_def azure_url_def)
  then show ?thesis
    unfolding azure_groups_exact by (intro conjI exI [of _ "[[[65, 0]], [[65, 1]]]"]) auto
qed

end
