(* ===== verification/Audit_Log.thy ===== *)
theory Audit_Log
  imports Database Json_Facts
begin

text \<open>
  \<open>vibeconnect_common/audit.py\<close>: the writer every component logs through.  The event id and the
  clock are arguments.  \<open>to_json\<close> is what \<open>json.dumps\<close> makes of a metadata value, \<open>TypeError\<close> for
  objects it cannot serialise.  \<open>pg_text\<close> and \<open>pg_jsonb\<close> are the values PostgreSQL stores in a
  \<open>text\<close> and a \<open>jsonb\<close> column: no NUL, no lone surrogate, no \<open>NaN\<close>.
\<close>

definition AUDIT_METADATA_MAX_BYTES :: nat where
  "AUDIT_METADATA_MAX_BYTES = 16 * 1024"

record AuditEvent =
  ev_id :: uuid
  ev_event_type :: AuditEventType
  ev_actor :: pystr
  ev_agent_id :: "uuid option"
  ev_session_id :: "uuid option"
  ev_node_name :: "pystr option"
  ev_created_at :: datetime
  ev_metadata :: pyval

lemma rmap_cong [fundef_cong]: "xs = ys \<Longrightarrow> (\<And>x. x \<in> set ys \<Longrightarrow> f x = g x) \<Longrightarrow> rmap f xs = rmap g ys"
  by (induction ys arbitrary: xs) auto

fun to_json :: "pyval \<Rightarrow> json result" where
  "to_json PNone = Inr JNull"
| "to_json (PBool b) = Inr (JBool b)"
| "to_json (PInt i) = Inr (JInt i)"
| "to_json (PFloat t) = Inr (JFloat t)"
| "to_json (PStr s) = Inr (JStr s)"
| "to_json (PList xs) = rbind (rmap to_json xs) (\<lambda>js. Inr (JArr js))"
| "to_json (PTuple xs) = rbind (rmap to_json xs) (\<lambda>js. Inr (JArr js))"
| "to_json (PDict kvs) =
     rbind (rmap (\<lambda>kv. rbind (to_json (snd kv)) (\<lambda>j. Inr (fst kv, j))) kvs) (\<lambda>js. Inr (JObj js))"
| "to_json _ = Inl (TypeError ''object is not JSON serializable'')"

definition pg_text :: "pystr \<Rightarrow> bool" where
  "pg_text s \<longleftrightarrow> list_all (\<lambda>c. c \<noteq> 0 \<and> scalar c) s"

fun pg_jsonb :: "json \<Rightarrow> bool" where
  "pg_jsonb (JStr s) = pg_text s"
| "pg_jsonb (JFloat t) = (t \<notin> {str ''NaN'', str ''Infinity'', str ''-Infinity''})"
| "pg_jsonb (JArr xs) = (\<forall>x \<in> set xs. pg_jsonb x)"
| "pg_jsonb (JObj kvs) = (\<forall>kv \<in> set kvs. pg_text (fst kv) \<and> pg_jsonb (snd kv))"
| "pg_jsonb _ = True"

definition dumps_text :: "pyval \<Rightarrow> pystr result" where
  "dumps_text v = rbind (to_json v) (\<lambda>j. Inr (json_dumps j))"

fun is_dict :: "pyval \<Rightarrow> bool" where
  "is_dict (PDict _) = True"
| "is_dict _ = False"

definition sanitize_metadata :: "pyval \<Rightarrow> pyval result" where
  "sanitize_metadata metadata =
     (let scrubbed = scrub_secret_metadata metadata
      in if \<not> is_dict scrubbed then Inl (AuditError ''audit metadata must be a JSON object'')
         else rbind (dumps_text scrubbed) (\<lambda>text. case utf8_encode text of
             None \<Rightarrow> Inl (ValueError ''surrogates not allowed'')
           | Some encoded \<Rightarrow>
               if length encoded > AUDIT_METADATA_MAX_BYTES
               then Inl (AuditError ''audit metadata exceeds 16 KiB'') else Inr scrubbed))"

text \<open>The \<open>INSERT INTO audit_events\<close> of \<open>write\<close>.\<close>

definition audit_row_of :: "AuditEvent \<Rightarrow> audit_row" where
  "audit_row_of e =
     \<lparr>au_id = ev_id e, au_event_type = ev_event_type e, au_actor = ev_actor e,
      au_agent_id = ev_agent_id e, au_session_id = ev_session_id e, au_node_name = ev_node_name e,
      au_created_at = ev_created_at e, au_metadata = ev_metadata e\<rparr>"

definition insert_audit_event :: "AuditEvent \<Rightarrow> (database, unit) op" where
  "insert_audit_event e db =
     (case to_json (ev_metadata e) of
        Inl x \<Rightarrow> (Inl x, db)
      | Inr j \<Rightarrow>
          if pg_text (ev_actor e) \<and> (case ev_node_name e of None \<Rightarrow> True | Some n \<Rightarrow> pg_text n)
             \<and> pg_jsonb j
          then sql_write (\<lambda>d. d\<lparr>db_audit := db_audit d @ [audit_row_of e]\<rparr>) db
          else (Inl (PostgresError ''invalid text''), db))"

record audit_request =
  aq_event_type :: AuditEventType
  aq_actor :: pystr
  aq_metadata :: pyval
  aq_agent_id :: "uuid option"
  aq_session_id :: "uuid option"
  aq_node_name :: "pystr option"
  aq_now :: "datetime option"

definition audit_write :: "uuid \<Rightarrow> datetime \<Rightarrow> audit_request \<Rightarrow> (database, AuditEvent) op" where
  "audit_write uid clock q =
     sbind (srequire (aq_actor q \<noteq> []) (AuditError ''audit actor is required'')) (\<lambda>_.
     sbind (slift (sanitize_metadata (aq_metadata q))) (\<lambda>sanitized.
       let event = \<lparr>ev_id = uid, ev_event_type = aq_event_type q, ev_actor = aq_actor q,
             ev_agent_id = aq_agent_id q, ev_session_id = aq_session_id q,
             ev_node_name = aq_node_name q,
             ev_created_at = (case aq_now q of None \<Rightarrow> clock | Some t \<Rightarrow> as_utc t),
             ev_metadata = sanitized\<rparr>
       in sbind (insert_audit_event event) (\<lambda>_. sret event)))"

section \<open>What is written\<close>

text \<open>The promise of the log: a row has an actor and a small JSON object without secrets.\<close>

definition metadata_size :: "pyval \<Rightarrow> nat option" where
  "metadata_size v = (case dumps_text v of Inl _ \<Rightarrow> None | Inr t \<Rightarrow> map_option length (utf8_encode t))"

definition row_safe :: "audit_row \<Rightarrow> bool" where
  "row_safe r \<longleftrightarrow> au_actor r \<noteq> [] \<and> is_dict (au_metadata r) \<and> secret_free (au_metadata r) \<and>
     (case metadata_size (au_metadata r) of None \<Rightarrow> False | Some n \<Rightarrow> n \<le> AUDIT_METADATA_MAX_BYTES)"

lemma sanitize_Inr:
  "sanitize_metadata m = Inr v \<longleftrightarrow> v = scrub_secret_metadata m \<and> is_dict v \<and>
     (case metadata_size v of None \<Rightarrow> False | Some n \<Rightarrow> n \<le> AUDIT_METADATA_MAX_BYTES)"
  by (auto simp: sanitize_metadata_def metadata_size_def Let_def exc_elims not_le
      split: sum.splits option.splits if_splits)

lemma rmap_Inl: "rmap f xs = Inl e \<Longrightarrow> \<exists>x \<in> set xs. f x = Inl e"
  by (induction xs) (auto simp: rbind_eq_Inl)

lemma to_json_Inl: "to_json v = Inl e \<Longrightarrow> e = TypeError ''object is not JSON serializable''"
  by (induction v rule: to_json.induct) (auto simp: rbind_eq_Inl dest!: rmap_Inl)

lemma sanitize_Inl:
  "sanitize_metadata m = Inl e \<Longrightarrow> is_value_error e \<or> (\<exists>x. e = TypeError x)"
  by (auto simp: sanitize_metadata_def dumps_text_def Let_def exc_elims
      split: option.splits if_splits dest: to_json_Inl)

lemma insert_audit_event_Inr:
  "insert_audit_event e db = (Inr u, db') \<Longrightarrow>
     db' = db\<lparr>db_audit := db_audit db @ [audit_row_of e]\<rparr> \<and> wf_db db'"
  by (auto simp: insert_audit_event_def exc_elims split: sum.splits if_splits)

lemma insert_audit_event_Inl:
  "insert_audit_event e db = (Inl x, db') \<Longrightarrow>
     db' = db \<and> ((\<exists>m. x = TypeError m) \<or> (\<exists>m. x = PostgresError m))"
  by (auto simp: insert_audit_event_def exc_elims split: sum.splits if_splits dest: to_json_Inl)

lemma audit_write_Inr:
  assumes "audit_write i c q db = (Inr ev, db')"
  shows "db' = db\<lparr>db_audit := db_audit db @ [audit_row_of ev]\<rparr>" "wf_db db'"
    "row_safe (audit_row_of ev)" "ev_event_type ev = aq_event_type q" "ev_actor ev = aq_actor q"
    "ev_agent_id ev = aq_agent_id q" "ev_session_id ev = aq_session_id q"
    "ev_node_name ev = aq_node_name q" "ev_metadata ev = scrub_secret_metadata (aq_metadata q)"
    "ev_id ev = i" "instant (ev_created_at ev) = instant (case aq_now q of None \<Rightarrow> c | Some t \<Rightarrow> t)"
  using assms
  by (auto simp: audit_write_def Let_def exc_elims sanitize_Inr row_safe_def audit_row_of_def
      scrub_secret_free split: option.splits dest!: insert_audit_event_Inr)

lemma audit_write_Inl:
  assumes "audit_write i c q db = (Inl e, db')"
  shows "db' = db \<and> (is_value_error e \<or> (\<exists>m. e = TypeError m) \<or> (\<exists>m. e = PostgresError m))"
  using assms
  by (auto simp: audit_write_def Let_def exc_elims dest!: insert_audit_event_Inl sanitize_Inl)

text \<open>Every write keeps the rows there were, the constraints and the safety of the log.\<close>

definition audit_safe :: "database \<Rightarrow> bool" where
  "audit_safe db \<longleftrightarrow> (\<forall>r \<in> set (db_audit db). row_safe r)"

definition audit_only :: "database \<Rightarrow> database \<Rightarrow> bool" where
  "audit_only db db' \<longleftrightarrow> (\<exists>rs. db' = db\<lparr>db_audit := db_audit db @ rs\<rparr>)"

lemma audit_only_refl [simp]: "audit_only db db"
  unfolding audit_only_def by (rule exI [of _ "[]"]) simp

lemma audit_only_fields:
  "audit_only db db' \<Longrightarrow> db_agents db' = db_agents db \<and> db_tokens db' = db_tokens db \<and>
     db_sessions db' = db_sessions db \<and> db_next_serial db' = db_next_serial db"
  by (auto simp: audit_only_def)

lemma audit_write_frame:
  "audit_write i c q db = (r, db') \<Longrightarrow>
     audit_only db db' \<and> (wf_db db \<longrightarrow> wf_db db') \<and> (audit_safe db \<longrightarrow> audit_safe db')"
proof (cases r)
  case (Inl e)
  assume "audit_write i c q db = (r, db')"
  with Inl have "db' = db" using audit_write_Inl by blast
  then show ?thesis by simp
next
  case (Inr ev)
  assume a: "audit_write i c q db = (r, db')"
  note w = audit_write_Inr [OF a [unfolded Inr]]
  have "audit_only db db'" unfolding audit_only_def w(1) by blast
  moreover have "audit_safe db \<longrightarrow> audit_safe db'" using w(1,3) by (auto simp: audit_safe_def)
  ultimately show ?thesis using w(2) by simp
qed

text \<open>C14: The audit log never holds a secret.  If every row of the log has an actor and a JSON
  object of at most 16 KiB of encoded metadata without secret values and with redacted secret
  keys, this still holds after any call of the writer, whatever metadata the caller passed.  A
  call that fails changes no table and raises \<open>AuditError\<close>, another \<open>ValueError\<close>, \<open>TypeError\<close> or a
  database error; a call that succeeds appends exactly one row with the fields it was given.\<close>

theorem audit_log_never_holds_secrets:
  assumes "audit_safe db" "audit_write i c q db = (r, db')"
  shows "audit_safe db' \<and> (case r of
      Inl e \<Rightarrow> db' = db \<and> (is_value_error e \<or> (\<exists>m. e = TypeError m) \<or> (\<exists>m. e = PostgresError m))
    | Inr ev \<Rightarrow> db' = db\<lparr>db_audit := db_audit db @ [audit_row_of ev]\<rparr> \<and>
        ev_actor ev = aq_actor q \<and> ev_event_type ev = aq_event_type q \<and>
        ev_agent_id ev = aq_agent_id q \<and> ev_session_id ev = aq_session_id q \<and>
        ev_metadata ev = scrub_secret_metadata (aq_metadata q))"
proof (cases r)
  case (Inl e)
  then show ?thesis
    using audit_write_frame [OF assms(2)] assms(1) audit_write_Inl [of i c q db e db'] assms(2) by simp
next
  case (Inr ev)
  then show ?thesis
    using audit_write_frame [OF assms(2)] assms(1) audit_write_Inr [of i c q db ev db'] assms(2) by simp
qed

definition empty_db :: database where
  "empty_db = \<lparr>db_agents = [], db_tokens = [], db_sessions = [], db_audit = [], db_next_serial = 1\<rparr>"

lemma wf_empty_db [simp]: "wf_db empty_db"
  by (simp add: wf_db_def empty_db_def agents_ok_def tokens_ok_def sessions_ok_def audit_ok_def)

definition sample_audit :: audit_request where
  "sample_audit = \<lparr>aq_event_type = USER_LOGIN_FAILED, aq_actor = str ''bob'',
     aq_metadata = PDict [(str ''password'', PStr (str ''hunter2'')), (str ''try'', PInt 2)],
     aq_agent_id = None, aq_session_id = None, aq_node_name = None, aq_now = None\<rparr>"

lemma audit_log_never_holds_secrets_witness:
  "audit_safe empty_db \<and> audit_safe (snd (audit_write 7 (utc 0) sample_audit empty_db))"
  using audit_log_never_holds_secrets [of empty_db 7 "utc 0" sample_audit
      "fst (audit_write 7 (utc 0) sample_audit empty_db)" "snd (audit_write 7 (utc 0) sample_audit empty_db)"]
  by (simp add: audit_safe_def empty_db_def)

end
