(* ===== verification/Host_Keys.thy ===== *)
theory Host_Keys
  imports Identifiers
begin

text \<open>
  \<open>server/host_keys.py\<close>: the normal form of a node's OpenSSH host key.  \<open>import_key\<close> stands for
  \<open>asyncssh.import_public_key\<close>: nothing, or the exception it raises.
\<close>

text \<open>\<open>s.split()\<close>: the maximal runs of characters that are not white space.\<close>

fun split_ws :: "pystr \<Rightarrow> pystr list" where
  "split_ws [] = []"
| "split_ws (c # s) =
     (if isspace c then split_ws s
      else (case s of
              [] \<Rightarrow> [[c]]
            | d # _ \<Rightarrow> if isspace d then [c] # split_ws s
                else (case split_ws s of [] \<Rightarrow> [[c]] | w # ws \<Rightarrow> (c # w) # ws)))"

fun is_asyncssh_error :: "exc \<Rightarrow> bool" where
  "is_asyncssh_error (AsyncSshError _) = True"
| "is_asyncssh_error _ = False"

definition validate_node_ssh_host_public_key :: "(pystr \<Rightarrow> unit result) \<Rightarrow> pystr \<Rightarrow> pystr result" where
  "validate_node_ssh_host_public_key import_key v =
     (let host_key = strip v
      in if host_key = [] then Inl (ValueError ''node sshd host key is required'')
         else rbind (rewrap (import_key host_key) (\<lambda>e. is_asyncssh_error e \<or> is_value_error e)
                       (\<lambda>e. ValueError ''node sshd host key is invalid'')) (\<lambda>_.
           let key_parts = split_ws host_key
           in if length key_parts < 2 then Inl (ValueError ''node sshd host key is invalid'')
              else Inr (join [32] (take 2 key_parts))))"

section \<open>The normal form\<close>

definition word :: "pystr \<Rightarrow> bool" where
  "word w \<longleftrightarrow> w \<noteq> [] \<and> (\<forall>c \<in> set w. \<not> isspace c)"

lemma split_ws_words: "\<forall>w \<in> set (split_ws s). word w"
proof (induction s)
  case Nil
  then show ?case by simp
next
  case (Cons c s)
  show ?case
  proof (cases s)
    case Nil
    then show ?thesis by (simp add: word_def)
  next
    case s: (Cons d t)
    show ?thesis
    proof (cases "split_ws s")
      case Nil
      with Cons show ?thesis by (simp add: s word_def del: split_ws.simps(2) add: split_ws.simps(2) [of c s, unfolded s])
    next
      case w: (Cons w ws)
      with Cons.IH have "word w" "\<forall>x \<in> set ws. word x" by auto
      then have "\<not> isspace c \<Longrightarrow> word (c # w)" "\<not> isspace c \<Longrightarrow> word [c]" by (auto simp: word_def)
      with Cons.IH w \<open>word w\<close> show ?thesis by (subst split_ws.simps(2)) (simp add: s del: split_ws.simps)
    qed
  qed
qed

lemma split_ws_word: "word w \<Longrightarrow> split_ws w = [w]"
proof (induction w)
  case (Cons c w)
  then show ?case by (cases w) (auto simp: word_def)
qed (simp add: word_def)

lemma split_ws_sep:
  "word w \<Longrightarrow> isspace d \<Longrightarrow> split_ws (w @ d # s) = w # split_ws s"
proof (induction w)
  case (Cons c w)
  then show ?case by (cases w) (auto simp: word_def)
qed (simp add: word_def)

lemma space_isspace [simp]: "isspace 32"
  by (simp add: isspace_def)

lemma split_two: "word a \<Longrightarrow> word b \<Longrightarrow> split_ws (a @ 32 # b) = [a, b]"
  by (simp add: split_ws_sep split_ws_word)

lemma strip_two:
  assumes "word a" "word b"
  shows "strip (a @ 32 # b) = a @ 32 # b"
proof -
  obtain c u where a: "a = c # u" "\<not> isspace c" using assms(1) by (cases a) (auto simp: word_def)
  have "\<forall>c \<in> set (rev b). \<not> isspace c" "rev b \<noteq> []" using assms(2) by (simp_all add: word_def)
  then obtain d v where b: "rev b = d # v" "\<not> isspace d" by (cases "rev b") simp_all
  have "lstrip (a @ 32 # b) = a @ 32 # b" by (simp add: lstrip_def a)
  moreover have "rstrip (a @ 32 # b) = a @ 32 # b"
    unfolding rstrip_def using b by (simp flip: rev_swap)
  ultimately show ?thesis by (simp add: strip_def)
qed

lemma validated_host_key:
  assumes "validate_node_ssh_host_public_key imp v = Inr k"
  obtains a b where "k = a @ 32 # b" "word a" "word b" "imp (strip v) = Inr ()"
    "\<exists>r. split_ws (strip v) = a # b # r"
proof -
  from assms have "2 \<le> length (split_ws (strip v))" "k = join [32] (take 2 (split_ws (strip v)))"
    "imp (strip v) = Inr ()"
    by (auto simp: validate_node_ssh_host_public_key_def Let_def exc_elims split: if_splits)
  moreover from this(1) obtain a b r where "split_ws (strip v) = a # b # r"
    by (auto simp: numeral_2_eq_2 Suc_le_length_iff)
  ultimately show ?thesis
    using that [of a b] split_ws_words [of "strip v"] by auto
qed

lemma validated_host_key_idem:
  assumes "validate_node_ssh_host_public_key imp v = Inr k" "imp k = Inr ()"
  shows "validate_node_ssh_host_public_key imp k = Inr k"
  using assms(1)
proof (rule validated_host_key)
  fix a b assume k: "k = a @ 32 # b" "word a" "word b"
  then show ?thesis
    using assms(2) by (simp add: validate_node_ssh_host_public_key_def Let_def strip_two split_two)
qed

lemma validate_host_key_Inl:
  assumes "validate_node_ssh_host_public_key imp v = Inl e"
  shows "is_value_error e \<or> imp (strip v) = Inl e"
  using assms
  by (cases "imp (strip v)") (auto simp: validate_node_ssh_host_public_key_def Let_def split: if_splits)

end
