(* ===== verification/Enrollment.thy ===== *)
theory Enrollment
  imports Audit_Log Host_Keys
begin

text \<open>
  \<open>server/enrollment.py\<close>: the two token stores, the failure limiter, the enrollment service and the
  body of the HTTP handler.  A service works on a store of any type \<open>'s\<close>; \<open>enrollment_deps\<close> holds
  the operations it was built with.  The time, the UUIDs and the generated secrets are arguments.
\<close>

definition ENROLLMENT_TOKEN_LIFETIME_DAYS :: int where
  "ENROLLMENT_TOKEN_LIFETIME_DAYS = 7"

record EnrollmentConfigPackage =
  cp_node_name :: pystr
  cp_labels :: "pystr list"
  cp_token :: secret
  cp_token_hash :: pystr
  cp_agent_conf :: pystr
  cp_enrollment_tls_ca_bundle :: pystr

record EnrollmentTokenRecord =
  et_token_hash :: pystr
  et_node_name :: pystr
  et_labels :: "pystr list"
  et_node_ssh_host_public_key :: pystr

record EnrollmentRequest =
  er_node_name :: pystr
  er_token :: pystr
  er_agent_x509_public_key :: pystr
  er_node_ssh_host_public_key :: pystr
  er_source_address :: pystr

record EnrollmentResponse =
  es_agent_id :: uuid
  es_agent_x509_cert :: x509_cert
  es_tunnel_ca_bundle :: pystr
  es_tunnel_host :: pystr
  es_tunnel_port :: int
  es_tunnel_secret :: secret

record StoredAgent =
  sa_agent_id :: uuid
  sa_node_name :: pystr
  sa_labels :: "pystr list"
  sa_x509_public_key :: pystr
  sa_node_ssh_host_public_key :: pystr
  sa_tunnel_secret_hash :: pystr
  sa_cert_serial :: pystr
  sa_cert_expires_at :: datetime

section \<open>The PostgreSQL store\<close>

text \<open>
  \<open>_labels\<close>; \<open>text_of\<close> as in \<open>py_str\<close>.  The driver returns the \<open>jsonb\<close> column as text, \<open>labels_text\<close>.
\<close>

definition enrollment_labels :: "(json \<Rightarrow> pystr) \<Rightarrow> json \<Rightarrow> pystr list result" where
  "enrollment_labels text_of v =
     rbind (case v of
         JStr t \<Rightarrow> (case json_loads t of None \<Rightarrow> Inl (ValueError ''JSONDecodeError'') | Some j \<Rightarrow> Inr j)
       | _ \<Rightarrow> Inr v) (\<lambda>loaded. case loaded of
         JArr xs \<Rightarrow> rmap (\<lambda>label. validate_label (py_str text_of label)) xs
       | _ \<Rightarrow> Inl (EnrollmentError ''enrollment labels must be an array''))"

definition labels_text :: "pystr list \<Rightarrow> json" where
  "labels_text labels = JStr (json_print (JArr (map JStr labels)))"

definition pg_disable_tokens :: "datetime \<Rightarrow> pystr \<Rightarrow> (database, unit) op" where
  "pg_disable_tokens now node_name =
     sql_write (\<lambda>db. db\<lparr>db_tokens := update_where
       (\<lambda>t. tk_node_name t = node_name \<and> \<not> tk_used t \<and> tk_disabled_at t = None)
       (\<lambda>t. t\<lparr>tk_disabled_at := Some now\<rparr>) (db_tokens db)\<rparr>)"

definition pg_create_enrollment_token ::
  "datetime \<Rightarrow> pystr \<Rightarrow> pystr \<Rightarrow> pystr list \<Rightarrow> pystr \<Rightarrow> pystr \<Rightarrow> datetime \<Rightarrow> (database, unit) op" where
  "pg_create_enrollment_token now token_hash node_name labels host_key created_by expires_at =
     sbind (pg_disable_tokens now node_name) (\<lambda>_.
     sql_write (\<lambda>db. db\<lparr>db_tokens := db_tokens db @
       [\<lparr>tk_token_hash = token_hash, tk_node_name = node_name, tk_labels = labels,
         tk_node_ssh_host_public_key = host_key, tk_created_by = created_by, tk_created_at = now,
         tk_expires_at = as_utc expires_at, tk_used = False, tk_used_at = None,
         tk_disabled_at = None, tk_agent_id = None\<rparr>]\<rparr>))"

definition token_matches :: "pystr \<Rightarrow> pystr \<Rightarrow> datetime \<Rightarrow> enrollment_tokens_row \<Rightarrow> bool" where
  "token_matches token_hash node_name now t \<longleftrightarrow> tk_token_hash t = token_hash \<and>
     tk_node_name t = node_name \<and> \<not> tk_used t \<and> tk_disabled_at t = None \<and>
     instant now < instant (tk_expires_at t)"

definition pg_consume_enrollment_token ::
  "(json \<Rightarrow> pystr) \<Rightarrow> pystr \<Rightarrow> pystr \<Rightarrow> datetime \<Rightarrow> (database, EnrollmentTokenRecord option) op" where
  "pg_consume_enrollment_token text_of token_hash node_name now db =
     (case find (token_matches token_hash node_name now) (db_tokens db) of
        None \<Rightarrow> (Inr None, db)
      | Some row \<Rightarrow>
          sbind (sql_write (\<lambda>d. d\<lparr>db_tokens := update_where (token_matches token_hash node_name now)
              (\<lambda>t. t\<lparr>tk_used := True, tk_used_at := Some (as_utc now)\<rparr>) (db_tokens d)\<rparr>)) (\<lambda>_.
          sbind (slift (enrollment_labels text_of (labels_text (tk_labels row)))) (\<lambda>labels.
          sret (Some \<lparr>et_token_hash = tk_token_hash row, et_node_name = tk_node_name row,
                      et_labels = labels,
                      et_node_ssh_host_public_key = tk_node_ssh_host_public_key row\<rparr>))) db)"

definition pg_persist_agent :: "datetime \<Rightarrow> StoredAgent \<Rightarrow> (database, unit) op" where
  "pg_persist_agent now agent =
     sbind (sql_write (\<lambda>db. db\<lparr>db_agents := db_agents db @
       [\<lparr>ag_id = sa_agent_id agent, ag_node_name = sa_node_name agent, ag_hostname = None,
         ag_labels = sa_labels agent, ag_x509_public_key = sa_x509_public_key agent,
         ag_node_ssh_host_public_key = sa_node_ssh_host_public_key agent,
         ag_tunnel_secret_hash = sa_tunnel_secret_hash agent, ag_enrolled_at = now,
         ag_last_seen = None, ag_revoked = False, ag_revoked_at = None,
         ag_cert_serial = sa_cert_serial agent,
         ag_cert_expires_at = as_utc (sa_cert_expires_at agent)\<rparr>]\<rparr>)) (\<lambda>_.
     sql_write (\<lambda>db. db\<lparr>db_tokens := update_where
       (\<lambda>t. tk_node_name t = sa_node_name agent \<and> tk_used t \<and> tk_agent_id t = None)
       (\<lambda>t. t\<lparr>tk_agent_id := Some (sa_agent_id agent)\<rparr>) (db_tokens db)\<rparr>))"

section \<open>The in-memory store\<close>

record memory_token =
  mt_node_name :: pystr
  mt_labels :: "pystr list"
  mt_node_ssh_host_public_key :: pystr
  mt_created_by :: pystr
  mt_expires_at :: datetime
  mt_used :: bool
  mt_used_at :: "datetime option"
  mt_disabled_at :: "datetime option"

record memory_enrollment_store =
  me_tokens :: "pystr \<rightharpoonup> memory_token"
  me_agents :: "uuid \<rightharpoonup> StoredAgent"

definition mem_create_enrollment_token ::
  "datetime \<Rightarrow> pystr \<Rightarrow> pystr \<Rightarrow> pystr list \<Rightarrow> pystr \<Rightarrow> pystr \<Rightarrow> datetime \<Rightarrow>
   (memory_enrollment_store, unit) op" where
  "mem_create_enrollment_token now token_hash node_name labels host_key created_by expires_at =
     smodify (\<lambda>s. s\<lparr>me_tokens :=
       (\<lambda>h. map_option (\<lambda>row. if mt_node_name row = node_name \<and> \<not> mt_used row \<and> mt_disabled_at row = None
              then row\<lparr>mt_disabled_at := Some now\<rparr> else row) (me_tokens s h))
       (token_hash \<mapsto> \<lparr>mt_node_name = node_name, mt_labels = labels,
          mt_node_ssh_host_public_key = host_key, mt_created_by = created_by,
          mt_expires_at = expires_at, mt_used = False, mt_used_at = None, mt_disabled_at = None\<rparr>)\<rparr>)"

text \<open>\<open>left <= right\<close> on \<open>datetime\<close>; an aware and a naive one cannot be compared.\<close>

definition datetime_le :: "datetime \<Rightarrow> datetime \<Rightarrow> bool result" where
  "datetime_le l r =
     (if (utcoffset l = None) = (utcoffset r = None) then Inr (instant l \<le> instant r)
      else Inl (TypeError ''can't compare offset-naive and offset-aware datetimes''))"

definition mem_consume_enrollment_token ::
  "pystr \<Rightarrow> pystr \<Rightarrow> datetime \<Rightarrow> (memory_enrollment_store, EnrollmentTokenRecord option) op" where
  "mem_consume_enrollment_token token_hash node_name now s =
     (case me_tokens s token_hash of
        None \<Rightarrow> (Inr None, s)
      | Some row \<Rightarrow>
          if mt_node_name row \<noteq> node_name then (Inr None, s)
          else if mt_used row \<or> mt_disabled_at row \<noteq> None then (Inr None, s)
          else (case datetime_le (mt_expires_at row) now of
             Inl e \<Rightarrow> (Inl e, s)
           | Inr expired \<Rightarrow>
               if expired then (Inr None, s)
               else (Inr (Some \<lparr>et_token_hash = token_hash, et_node_name = node_name,
                            et_labels = mt_labels row,
                            et_node_ssh_host_public_key = mt_node_ssh_host_public_key row\<rparr>),
                     s\<lparr>me_tokens := (me_tokens s)(token_hash \<mapsto>
                         row\<lparr>mt_used := True, mt_used_at := Some now\<rparr>)\<rparr>)))"

definition mem_persist_agent :: "StoredAgent \<Rightarrow> (memory_enrollment_store, unit) op" where
  "mem_persist_agent agent =
     smodify (\<lambda>s. s\<lparr>me_agents := (me_agents s)(sa_agent_id agent \<mapsto> agent)\<rparr>)"

section \<open>The failure limiter\<close>

record EnrollmentRateLimiter =
  rl_max_source_failures :: int
  rl_max_token_failures :: int
  rl_window_seconds :: int
  rl_source_failures :: "pystr \<rightharpoonup> datetime list"
  rl_token_failures :: "pystr \<rightharpoonup> datetime list"

definition new_rate_limiter :: EnrollmentRateLimiter where
  "new_rate_limiter = \<lparr>rl_max_source_failures = 10, rl_max_token_failures = 5,
     rl_window_seconds = 600, rl_source_failures = Map.empty, rl_token_failures = Map.empty\<rparr>"

text \<open>\<open>defaultdict(deque)\<close>.\<close>

definition deque_at :: "(pystr \<rightharpoonup> datetime list) \<Rightarrow> pystr \<Rightarrow> datetime list" where
  "deque_at m k = (case m k of None \<Rightarrow> [] | Some d \<Rightarrow> d)"

text \<open>\<open>_count\<close>: what is left of the deque after dropping the old failures from its front.\<close>

definition drop_old :: "int \<Rightarrow> datetime \<Rightarrow> datetime list \<Rightarrow> datetime list" where
  "drop_old window_seconds now failures =
     dropWhile (\<lambda>t. instant t \<le> instant (plus_delta now (- seconds window_seconds))) failures"

definition is_limited ::
  "pystr \<Rightarrow> pystr \<Rightarrow> datetime \<Rightarrow> EnrollmentRateLimiter \<Rightarrow> bool \<times> EnrollmentRateLimiter" where
  "is_limited source_address token_hash now l =
     (let d = drop_old (rl_window_seconds l) now (deque_at (rl_source_failures l) source_address);
          l1 = l\<lparr>rl_source_failures := (rl_source_failures l)(source_address \<mapsto> d)\<rparr>
      in if int (length d) \<ge> rl_max_source_failures l then (True, l1)
         else (let e = drop_old (rl_window_seconds l) now (deque_at (rl_token_failures l1) token_hash)
               in (int (length e) \<ge> rl_max_token_failures l,
                   l1\<lparr>rl_token_failures := (rl_token_failures l1)(token_hash \<mapsto> e)\<rparr>)))"

definition record_failure ::
  "pystr \<Rightarrow> pystr \<Rightarrow> datetime \<Rightarrow> EnrollmentRateLimiter \<Rightarrow> EnrollmentRateLimiter" where
  "record_failure source_address token_hash now l =
     l\<lparr>rl_source_failures := (rl_source_failures l)
          (source_address \<mapsto> deque_at (rl_source_failures l) source_address @ [now]),
       rl_token_failures := (rl_token_failures l)
          (token_hash \<mapsto> deque_at (rl_token_failures l) token_hash @ [now])\<rparr>"

section \<open>The service\<close>

record 's enrollment_deps =
  ed_create :: "datetime \<Rightarrow> pystr \<Rightarrow> pystr \<Rightarrow> pystr list \<Rightarrow> pystr \<Rightarrow> pystr \<Rightarrow> datetime \<Rightarrow> ('s, unit) op"
  ed_consume :: "pystr \<Rightarrow> pystr \<Rightarrow> datetime \<Rightarrow> ('s, EnrollmentTokenRecord option) op"
  ed_persist :: "datetime \<Rightarrow> StoredAgent \<Rightarrow> ('s, unit) op"
  ed_audit :: "(audit_request \<Rightarrow> ('s, unit) op) option"
  ed_import_key :: "pystr \<Rightarrow> unit result"
  ed_load_pem :: "pystr \<Rightarrow> (bool \<times> bytes) result"
  ed_issuer :: pystr
  ed_tunnel_ca_bundle :: pystr
  ed_tunnel_host :: pystr
  ed_tunnel_port :: int
  ed_enrollment_tls_ca_bundle :: pystr

definition render_agent_conf :: "pystr \<Rightarrow> secret \<Rightarrow> pystr \<Rightarrow> pystr" where
  "render_agent_conf node_name token host_key =
     join [10]
       [str ''[enrollment]'', str ''node_name = '' @ node_name, str ''token = '' @ reveal token,
        str ''api_url = https://server:4443/enroll'',
        str ''tls_ca_bundle = /etc/vibeconnect/ca.crt'',
        str ''node_ssh_host_public_key = '' @ host_key, str '''', str ''[tunnel]'',
        str ''server_url = https://server:4444/tunnel'',
        str ''tls_ca_bundle = /etc/vibeconnect/ca.crt'', str ''heartbeat_seconds = 30'', str '''',
        str ''[proxy]'', str ''target = 127.0.0.1:2222'', str '''', str ''[identity]'',
        str ''path = /var/lib/vibeconnect/identity.json'', str '''']"

definition write_audit :: "'s enrollment_deps \<Rightarrow> audit_request \<Rightarrow> ('s, unit) op" where
  "write_audit deps q = (case ed_audit deps of None \<Rightarrow> sret () | Some w \<Rightarrow> w q)"

text \<open>
  \<open>create_agent\<close>; \<open>token\<close> is the value the generator returned, \<open>clock\<close> the time the store reads and
  \<open>now\<close> the time of the caller.
\<close>

definition create_agent ::
  "'s enrollment_deps \<Rightarrow> secret \<Rightarrow> datetime \<Rightarrow> datetime \<Rightarrow> pystr \<Rightarrow> pystr list \<Rightarrow> pystr \<Rightarrow> pystr \<Rightarrow>
   ('s, EnrollmentConfigPackage) op" where
  "create_agent deps token clock now node_name labels host_key created_by =
     sbind (slift (validate_node_name node_name)) (\<lambda>safe_node_name.
     sbind (slift (rmap validate_label labels)) (\<lambda>safe_labels.
     sbind (slift (sha256_hex token)) (\<lambda>token_hash.
     let actual_now = as_utc now in
     sbind (slift (rewrap (validate_node_ssh_host_public_key (ed_import_key deps) host_key)
              is_value_error (\<lambda>e. EnrollmentError (case e of ValueError m \<Rightarrow> m | _ \<Rightarrow> [])))) (\<lambda>safe_node_host_key.
     sbind (ed_create deps clock token_hash safe_node_name safe_labels safe_node_host_key created_by
              (plus_delta actual_now (days ENROLLMENT_TOKEN_LIFETIME_DAYS))) (\<lambda>_.
     sbind (write_audit deps
              \<lparr>aq_event_type = ENROLLMENT_TOKEN_CREATED, aq_actor = created_by,
               aq_metadata = PDict [(str ''labels'', PList (map PStr safe_labels)),
                                    (str ''token_hash'', PStr token_hash)],
               aq_agent_id = None, aq_session_id = None, aq_node_name = Some safe_node_name,
               aq_now = None\<rparr>) (\<lambda>_.
     sret \<lparr>cp_node_name = safe_node_name, cp_labels = safe_labels, cp_token = token,
           cp_token_hash = token_hash,
           cp_agent_conf = render_agent_conf safe_node_name token safe_node_host_key,
           cp_enrollment_tls_ca_bundle = ed_enrollment_tls_ca_bundle deps\<rparr>))))))"

definition load_agent_public_key :: "(pystr \<Rightarrow> (bool \<times> bytes) result) \<Rightarrow> pystr \<Rightarrow> bytes result" where
  "load_agent_public_key load_pem public_key_pem =
     (if \<not> ascii public_key_pem then Inl (ValueError ''ordinal not in range(128)'')
      else rbind (load_pem public_key_pem) (\<lambda>(is_ed25519, key).
        if \<not> is_ed25519 then Inl (EnrollmentError ''agent public key must be Ed25519'') else Inr key))"

definition best_effort_token_hash :: "pystr \<Rightarrow> pystr result" where
  "best_effort_token_hash token =
     (if token = [] then Inr (str ''empty'')
      else (case rbind (SecretValue token) sha256_hex of
          Inl e \<Rightarrow> if is_secret_error e then Inr (str ''invalid'') else Inl e
        | Inr h \<Rightarrow> Inr h))"

record 's enrollment_state =
  st_store :: 's
  st_limiter :: EnrollmentRateLimiter

text \<open>An operation of the store in the state of the service.\<close>

definition in_store :: "('s, 'a) op \<Rightarrow> ('s enrollment_state, 'a) op" where
  "in_store m st = (case m (st_store st) of (r, s) \<Rightarrow> (r, st\<lparr>st_store := s\<rparr>))"

text \<open>\<open>exc.__class__.__name__\<close> is \<open>class_name e\<close>.\<close>

definition record_enrollment_failure ::
  "'s enrollment_deps \<Rightarrow> (exc \<Rightarrow> pystr) \<Rightarrow> EnrollmentRequest \<Rightarrow> datetime \<Rightarrow> exc \<Rightarrow>
   ('s enrollment_state, unit) op" where
  "record_enrollment_failure deps class_name request now e =
     sbind (slift (best_effort_token_hash (er_token request))) (\<lambda>token_hash.
     sbind (smodify (\<lambda>st. st\<lparr>st_limiter :=
              record_failure (er_source_address request) token_hash now (st_limiter st)\<rparr>)) (\<lambda>_.
     in_store (write_audit deps
              \<lparr>aq_event_type = ENROLLMENT_FAILED, aq_actor = str ''enrollment-api'',
               aq_metadata = scrub_secret_metadata (PDict
                 [(str ''source_address'', PStr (er_source_address request)),
                  (str ''reason'', PStr (class_name e)), (str ''token_hash'', PStr token_hash)]),
               aq_agent_id = None, aq_session_id = None,
               aq_node_name = Some (er_node_name request), aq_now = None\<rparr>)))"

text \<open>The values generated for one request.\<close>

record fresh_values =
  fr_agent_id :: uuid
  fr_tunnel_secret :: secret
  fr_serial :: nat
  fr_now :: datetime

text \<open>The \<open>try\<close> block of \<open>enroll\<close> after the rate limit, from the consumption of the token on.\<close>

definition complete_enrollment ::
  "'s enrollment_deps \<Rightarrow> fresh_values \<Rightarrow> EnrollmentRequest \<Rightarrow> datetime \<Rightarrow> pystr \<Rightarrow> pystr \<Rightarrow>
   ('s, EnrollmentResponse) op" where
  "complete_enrollment deps fr request now safe_node_name token_hash =
     sbind (ed_consume deps token_hash safe_node_name now) (\<lambda>found. case found of
       None \<Rightarrow> sraise (EnrollmentError ''invalid_token'')
     | Some record \<Rightarrow>
         sbind (slift (rewrap (validate_node_ssh_host_public_key (ed_import_key deps)
                  (er_node_ssh_host_public_key request)) is_value_error
                  (\<lambda>e. EnrollmentError ''node_host_key_mismatch''))) (\<lambda>request_node_host_key.
         sbind (srequire (request_node_host_key = et_node_ssh_host_public_key record)
                  (EnrollmentError ''node_host_key_mismatch'')) (\<lambda>_.
         sbind (slift (load_agent_public_key (ed_load_pem deps) (er_agent_x509_public_key request)))
           (\<lambda>agent_public_key.
         sbind (slift (issue_agent_client_certificate (ed_issuer deps) agent_public_key safe_node_name
                  (uuid_text (fr_agent_id fr)) (fr_serial fr) now AGENT_CERT_DEFAULT_LIFETIME_DAYS))
           (\<lambda>issued_cert.
         sbind (slift (sha256_hex (fr_tunnel_secret fr))) (\<lambda>secret_hash.
         sbind (ed_persist deps (fr_now fr)
                  \<lparr>sa_agent_id = fr_agent_id fr, sa_node_name = safe_node_name,
                   sa_labels = et_labels record,
                   sa_x509_public_key = er_agent_x509_public_key request,
                   sa_node_ssh_host_public_key = et_node_ssh_host_public_key record,
                   sa_tunnel_secret_hash = secret_hash, sa_cert_serial = iac_serial issued_cert,
                   sa_cert_expires_at = iac_expires_at issued_cert\<rparr>) (\<lambda>_.
         sbind (write_audit deps
                  \<lparr>aq_event_type = ENROLLMENT_SUCCEEDED, aq_actor = str ''enrollment-api'',
                   aq_metadata = PDict [(str ''source_address'', PStr (er_source_address request))],
                   aq_agent_id = Some (fr_agent_id fr), aq_session_id = None,
                   aq_node_name = Some safe_node_name, aq_now = None\<rparr>) (\<lambda>_.
         sret \<lparr>es_agent_id = fr_agent_id fr, es_agent_x509_cert = iac_certificate issued_cert,
               es_tunnel_ca_bundle = ed_tunnel_ca_bundle deps,
               es_tunnel_host = ed_tunnel_host deps, es_tunnel_port = ed_tunnel_port deps,
               es_tunnel_secret = fr_tunnel_secret fr\<rparr>))))))))"

text \<open>The token hash of a request, and the whole \<open>try\<close> block.\<close>

definition request_identity :: "EnrollmentRequest \<Rightarrow> (pystr \<times> pystr) result" where
  "request_identity request =
     rbind (validate_node_name (er_node_name request)) (\<lambda>safe_node_name.
     rbind (SecretValue (er_token request)) (\<lambda>token.
     rbind (sha256_hex token) (\<lambda>token_hash. Inr (safe_node_name, token_hash))))"

definition try_enroll ::
  "'s enrollment_deps \<Rightarrow> fresh_values \<Rightarrow> EnrollmentRequest \<Rightarrow> datetime \<Rightarrow>
   ('s enrollment_state, EnrollmentResponse) op" where
  "try_enroll deps fr request now st =
     (case request_identity request of
        Inl e \<Rightarrow> (Inl e, st)
      | Inr (safe_node_name, token_hash) \<Rightarrow>
          (case is_limited (er_source_address request) token_hash now (st_limiter st) of
             (limited, l) \<Rightarrow>
               if limited then (Inl (EnrollmentError ''rate_limited''), st\<lparr>st_limiter := l\<rparr>)
               else in_store (complete_enrollment deps fr request now safe_node_name token_hash)
                      (st\<lparr>st_limiter := l\<rparr>)))"

definition enroll ::
  "'s enrollment_deps \<Rightarrow> (exc \<Rightarrow> pystr) \<Rightarrow> fresh_values \<Rightarrow> EnrollmentRequest \<Rightarrow> datetime \<Rightarrow>
   ('s enrollment_state, EnrollmentResponse) op" where
  "enroll deps class_name fr request now =
     stry (try_enroll deps fr request (as_utc now)) (\<lambda>e. True) (\<lambda>e.
       sbind (record_enrollment_failure deps class_name request (as_utc now) e) (\<lambda>_.
       sraise (EnrollmentError ''enrollment failed'')))"

section \<open>The HTTP handler\<close>

definition response_json :: "(x509_cert \<Rightarrow> pystr) \<Rightarrow> EnrollmentResponse \<Rightarrow> json" where
  "response_json pem_of r =
     JObj [(str ''agent_id'', JStr (uuid_text (es_agent_id r))),
           (str ''agent_x509_cert'', JStr (pem_of (es_agent_x509_cert r))),
           (str ''tunnel_ca_bundle'', JStr (es_tunnel_ca_bundle r)),
           (str ''tunnel_host'', JStr (es_tunnel_host r)),
           (str ''tunnel_port'', JInt (es_tunnel_port r)),
           (str ''tunnel_secret'', JStr (reveal (es_tunnel_secret r)))]"

definition GENERIC_ENROLLMENT_ERROR :: json where
  "GENERIC_ENROLLMENT_ERROR = JObj [(str ''error'', JStr (str ''enrollment failed''))]"

definition body_field :: "(json \<Rightarrow> pystr) \<Rightarrow> (pystr \<times> json) list \<Rightarrow> string \<Rightarrow> pystr" where
  "body_field text_of kvs k = (case map_of kvs (str k) of None \<Rightarrow> [] | Some v \<Rightarrow> py_str text_of v)"

fun is_enrollment_error :: "exc \<Rightarrow> bool" where
  "is_enrollment_error (EnrollmentError _) = True"
| "is_enrollment_error _ = False"

text \<open>\<open>POST /enroll\<close>: the decoded body and the peer address to the status and body of the answer.\<close>

definition enroll_handler ::
  "'s enrollment_deps \<Rightarrow> (exc \<Rightarrow> pystr) \<Rightarrow> (json \<Rightarrow> pystr) \<Rightarrow> (x509_cert \<Rightarrow> pystr) \<Rightarrow> fresh_values \<Rightarrow>
   json \<Rightarrow> pystr option \<Rightarrow> datetime \<Rightarrow> ('s enrollment_state, int \<times> json) op" where
  "enroll_handler deps class_name text_of pem_of fr body remote now =
     (case body of
        JObj kvs \<Rightarrow>
          stry (sbind (enroll deps class_name fr
              \<lparr>er_node_name = body_field text_of kvs ''node_name'',
               er_token = body_field text_of kvs ''token'',
               er_agent_x509_public_key = body_field text_of kvs ''agent_x509_public_key'',
               er_node_ssh_host_public_key = body_field text_of kvs ''node_ssh_host_public_key'',
               er_source_address = (case remote of None \<Rightarrow> str ''unknown''
                  | Some a \<Rightarrow> if a = [] then str ''unknown'' else a)\<rparr> now)
              (\<lambda>response. sret (200, response_json pem_of response)))
            is_enrollment_error (\<lambda>e. sret (400, GENERIC_ENROLLMENT_ERROR))
      | _ \<Rightarrow> sret (400, GENERIC_ENROLLMENT_ERROR))"

end
