(* ===== verification/Enrollment_Facts.thy ===== *)
theory Enrollment_Facts
  imports Enrollment
begin

text \<open>
  What the enrollment code guarantees.  The locale \<open>token_store\<close> is the contract of a store, seen
  through \<open>view\<close>: the tokens that can still be used, each with its node, labels, pinned host key
  and expiry.  Both stores of the code are interpretations.  The failure limiter is shown to count
  the failures of the last ten minutes.
\<close>

section \<open>The contract of a token store\<close>

type_synonym token_view = "pystr \<times> pystr list \<times> pystr \<times> int"

definition labels_valid :: "pystr list \<Rightarrow> bool" where
  "labels_valid ls \<longleftrightarrow> (\<forall>l \<in> set ls. py_fullmatch LABEL_PATTERN l)"

definition aware :: "datetime \<Rightarrow> bool" where
  "aware t \<longleftrightarrow> utcoffset t \<noteq> None"

lemma aware_as_utc [simp]: "aware (as_utc t)"
  by (simp add: as_utc_eq utc_def aware_def)

lemma aware_plus [simp]: "aware (plus_delta t d) \<longleftrightarrow> aware t"
  by (simp add: plus_delta_def aware_def)

text \<open>What is left of the tokens once those of one node are disabled.\<close>

definition without_node :: "pystr \<Rightarrow> (pystr \<rightharpoonup> token_view) \<Rightarrow> (pystr \<rightharpoonup> token_view)" where
  "without_node n v = (\<lambda>h. case v h of None \<Rightarrow> None | Some x \<Rightarrow> if fst x = n then None else Some x)"

text \<open>One call of a store; its outcome says whether a token was handed out.\<close>

datatype store_call =
    Create datetime pystr pystr "pystr list" pystr pystr datetime
  | Consume pystr pystr datetime
  | Persist datetime StoredAgent

fun call_ok :: "store_call \<Rightarrow> bool" where
  "call_ok (Create _ _ _ labels _ _ expires_at) = (labels_valid labels \<and> aware expires_at)"
| "call_ok (Consume _ _ now) = aware now"
| "call_ok (Persist _ _) = True"

fun creates :: "pystr \<Rightarrow> store_call \<Rightarrow> bool" where
  "creates h (Create _ k _ _ _ _ _) = (k = h)"
| "creates h _ = False"

text \<open>The state after a call with the hash of the token it handed out, and a whole history.\<close>

primrec perform ::
  "(datetime \<Rightarrow> pystr \<Rightarrow> pystr \<Rightarrow> pystr list \<Rightarrow> pystr \<Rightarrow> pystr \<Rightarrow> datetime \<Rightarrow> ('s, unit) op) \<Rightarrow>
   (pystr \<Rightarrow> pystr \<Rightarrow> datetime \<Rightarrow> ('s, EnrollmentTokenRecord option) op) \<Rightarrow>
   (datetime \<Rightarrow> StoredAgent \<Rightarrow> ('s, unit) op) \<Rightarrow> store_call \<Rightarrow> 's \<Rightarrow> pystr option \<times> 's" where
  "perform create consume persist (Create c h n ls k cb ex) s =
     (None, snd (create c h n ls k cb ex s))"
| "perform create consume persist (Consume h n now) s = (case consume h n now s of
     (Inr (Some r), t) \<Rightarrow> (Some (et_token_hash r), t) | (_, t) \<Rightarrow> (None, t))"
| "perform create consume persist (Persist c a) s = (None, snd (persist c a s))"

primrec handed_out :: "(store_call \<Rightarrow> 's \<Rightarrow> pystr option \<times> 's) \<Rightarrow> store_call list \<Rightarrow> 's \<Rightarrow> pystr list" where
  "handed_out f [] s = []"
| "handed_out f (q # qs) s = (case f q s of
     (None, t) \<Rightarrow> handed_out f qs t | (Some h, t) \<Rightarrow> h # handed_out f qs t)"

locale token_store =
  fixes create :: "datetime \<Rightarrow> pystr \<Rightarrow> pystr \<Rightarrow> pystr list \<Rightarrow> pystr \<Rightarrow> pystr \<Rightarrow> datetime \<Rightarrow> ('s, unit) op"
    and consume :: "pystr \<Rightarrow> pystr \<Rightarrow> datetime \<Rightarrow> ('s, EnrollmentTokenRecord option) op"
    and persist :: "datetime \<Rightarrow> StoredAgent \<Rightarrow> ('s, unit) op"
    and inv :: "'s \<Rightarrow> bool"
    and view :: "'s \<Rightarrow> pystr \<rightharpoonup> token_view"
  assumes create_ok: "inv s \<Longrightarrow> labels_valid ls \<Longrightarrow> aware ex \<Longrightarrow>
      create c h n ls k cb ex s = (Inr u, t) \<Longrightarrow>
      inv t \<and> view t = (without_node n (view s))(h \<mapsto> (n, ls, k, instant ex))"
    and create_fail: "inv s \<Longrightarrow> create c h n ls k cb ex s = (Inl e, t) \<Longrightarrow>
      inv t \<and> (view t = view s \<or> view t = without_node n (view s))"
    and consume_some: "inv s \<Longrightarrow> aware now \<Longrightarrow> consume h n now s = (Inr (Some r), t) \<Longrightarrow>
      inv t \<and> et_token_hash r = h \<and> et_node_name r = n \<and>
      (\<exists>ex. view s h = Some (n, et_labels r, et_node_ssh_host_public_key r, ex) \<and> instant now < ex) \<and>
      view t = (view s)(h := None)"
    and consume_none: "inv s \<Longrightarrow> aware now \<Longrightarrow> consume h n now s = (Inr None, t) \<Longrightarrow>
      t = s \<and> \<not> (\<exists>ls k ex. view s h = Some (n, ls, k, ex) \<and> instant now < ex)"
    and consume_total: "inv s \<Longrightarrow> aware now \<Longrightarrow> consume h n now s \<noteq> (Inl e, t)"
    and persist_ok: "inv s \<Longrightarrow> persist c a s = (out, t) \<Longrightarrow> inv t \<and> view t = view s"
begin

lemma perform_inv:
  assumes "inv s" "call_ok q"
  shows "inv (snd (perform create consume persist q s))"
proof (cases q)
  case (Create c h n ls k cb ex)
  obtain r t where r: "create c h n ls k cb ex s = (r, t)" by (cases "create c h n ls k cb ex s")
  have "inv t"
  proof (cases r)
    case (Inl e)
    with create_fail [OF assms(1)] r show ?thesis by blast
  next
    case (Inr u)
    with create_ok [OF assms(1)] r assms(2) Create show ?thesis by fastforce
  qed
  with r Create show ?thesis by simp
next
  case (Consume h n now)
  obtain r t where r: "consume h n now s = (r, t)" by (cases "consume h n now s")
  have a: "aware now" using assms(2) Consume by simp
  obtain x where x: "r = Inr x" using consume_total [OF assms(1) a] r by (cases r) auto
  have "inv t"
  proof (cases x)
    case None
    with consume_none [OF assms(1) a] r x assms(1) show ?thesis by blast
  next
    case (Some y)
    with consume_some [OF assms(1) a] r x show ?thesis by blast
  qed
  with r x Consume show ?thesis by (cases x) simp_all
next
  case (Persist c a)
  obtain r t where r: "persist c a s = (r, t)" by (cases "persist c a s")
  with persist_ok [OF assms(1)] have "inv t" by blast
  with r Persist show ?thesis by simp
qed

text \<open>A call makes a token usable only by creating it, and what it hands out was usable.\<close>

lemma perform_view:
  assumes "inv s" "call_ok q" "perform create consume persist q s = (x, t)"
  shows "view t h \<noteq> None \<Longrightarrow> view s h \<noteq> None \<or> creates h q"
    and "x = Some h \<Longrightarrow> view s h \<noteq> None \<and> view t h = None"
    and "x = Some h \<Longrightarrow> \<not> creates h q"
proof -
  have "(view t h \<noteq> None \<longrightarrow> view s h \<noteq> None \<or> creates h q) \<and>
    (x = Some h \<longrightarrow> view s h \<noteq> None \<and> view t h = None \<and> \<not> creates h q)"
  proof (cases q)
    case (Create c k n ls hk cb ex)
    obtain r u where r: "create c k n ls hk cb ex s = (r, u)" by (cases "create c k n ls hk cb ex s")
    with assms Create have x: "x = None" "u = t" by auto
    have w: "without_node n (view s) h \<noteq> None \<Longrightarrow> view s h \<noteq> None"
      by (cases "view s h") (simp_all add: without_node_def)
    show ?thesis
    proof (cases r)
      case (Inl e)
      from create_fail [OF assms(1)] r Inl x have "view t = view s \<or> view t = without_node n (view s)"
        by auto
      with w x show ?thesis by auto
    next
      case (Inr v)
      have "view t = (without_node n (view s))(k \<mapsto> (n, ls, hk, instant ex))"
        using create_ok [OF assms(1)] assms(2) r Inr x Create by auto
      with w x Create show ?thesis by auto
    qed
  next
    case (Consume k n now)
    obtain r u where r: "consume k n now s = (r, u)" by (cases "consume k n now s")
    have a: "aware now" using assms(2) Consume by simp
    obtain y where y: "r = Inr y" using consume_total [OF assms(1) a] r by (cases r) auto
    show ?thesis
    proof (cases y)
      case None
      with consume_none [OF assms(1) a] r y have "u = s" by auto
      with None assms(3) Consume r y show ?thesis by auto
    next
      case (Some z)
      from consume_some [OF assms(1) a r [unfolded y Some]]
      obtain ex where "et_token_hash z = k" "view u = (view s)(k := None)"
        "view s k = Some (n, et_labels z, et_node_ssh_host_public_key z, ex)" by blast
      with Some assms(3) Consume r y show ?thesis by auto
    qed
  next
    case (Persist c a)
    obtain r u where "persist c a s = (r, u)" by (cases "persist c a s")
    with persist_ok [OF assms(1)] assms(3) Persist have "view t = view s" "x = None" by auto
    then show ?thesis by auto
  qed
  then show "view t h \<noteq> None \<Longrightarrow> view s h \<noteq> None \<or> creates h q"
    and "x = Some h \<Longrightarrow> view s h \<noteq> None \<and> view t h = None"
    and "x = Some h \<Longrightarrow> \<not> creates h q" by blast+
qed

text \<open>In any history a token is handed out at most once per creation.\<close>

lemma handed_out_bound:
  "inv s \<Longrightarrow> list_all call_ok qs \<Longrightarrow>
     count_list (handed_out (perform create consume persist) qs s) h \<le>
       length (filter (creates h) qs) + (if view s h = None then 0 else 1)"
proof (induction qs arbitrary: s)
  case (Cons q qs)
  obtain x t where p: "perform create consume persist q s = (x, t)" by (cases "perform create consume persist q s")
  have inv: "inv t" using perform_inv [of s q] Cons.prems p by simp
  have IH: "count_list (handed_out (perform create consume persist) qs t) h \<le>
      length (filter (creates h) qs) + (if view t h = None then 0 else 1)"
    using Cons.IH [OF inv] Cons.prems(2) by simp
  have v: "view t h \<noteq> None \<Longrightarrow> view s h \<noteq> None \<or> creates h q"
    "x = Some h \<Longrightarrow> view s h \<noteq> None \<and> view t h = None"
    "x = Some h \<Longrightarrow> \<not> creates h q"
    using perform_view [OF Cons.prems(1) _ p] Cons.prems(2) by simp_all
  show ?case
  proof (cases "x = Some h")
    case True
    with v have "view s h \<noteq> None" "view t h = None" "\<not> creates h q" by simp_all
    with True IH p show ?thesis by auto
  next
    case False
    then have "count_list (handed_out (perform create consume persist) (q # qs) s) h = count_list (handed_out (perform create consume persist) qs t) h"
      using p by (cases x) auto
    with IH v(1) show ?thesis by (cases "view t h") auto
  qed
qed simp

end

section \<open>The in-memory store keeps the contract\<close>

definition mem_token_view :: "memory_token \<Rightarrow> token_view option" where
  "mem_token_view t =
     (if mt_used t \<or> mt_disabled_at t \<noteq> None then None
      else Some (mt_node_name t, mt_labels t, mt_node_ssh_host_public_key t, instant (mt_expires_at t)))"

definition mem_view :: "memory_enrollment_store \<Rightarrow> pystr \<rightharpoonup> token_view" where
  "mem_view s h = Option.bind (me_tokens s h) mem_token_view"

definition mem_inv :: "memory_enrollment_store \<Rightarrow> bool" where
  "mem_inv s \<longleftrightarrow> (\<forall>h t. me_tokens s h = Some t \<longrightarrow> aware (mt_expires_at t))"

interpretation mtok: token_store mem_create_enrollment_token mem_consume_enrollment_token
  "\<lambda>c. mem_persist_agent" mem_inv mem_view
proof unfold_locales
  fix s :: memory_enrollment_store and ls ex c h n k cb u t
  assume a: "mem_inv s" "aware ex" "mem_create_enrollment_token c h n ls k cb ex s = (Inr u, t)"
  have "aware (mt_expires_at x)" if "me_tokens t j = Some x" for j x
    using that a
    by (cases "me_tokens s j") (auto simp: mem_create_enrollment_token_def mem_inv_def split: if_splits)
  then have "mem_inv t" by (simp add: mem_inv_def)
  moreover have "mem_view t = (without_node n (mem_view s))(h \<mapsto> (n, ls, k, instant ex))"
  proof
    fix j
    show "mem_view t j = ((without_node n (mem_view s))(h \<mapsto> (n, ls, k, instant ex))) j"
      using a(3)
      by (cases "me_tokens s j")
         (auto simp: mem_create_enrollment_token_def mem_view_def mem_token_view_def without_node_def)
  qed
  ultimately show "mem_inv t \<and> mem_view t = (without_node n (mem_view s))(h \<mapsto> (n, ls, k, instant ex))" ..
next
  fix s :: memory_enrollment_store and now h n r t
  assume a: "mem_inv s" "aware now" "mem_consume_enrollment_token h n now s = (Inr (Some r), t)"
  then obtain row where row: "me_tokens s h = Some row" "mt_node_name row = n" "\<not> mt_used row"
    "mt_disabled_at row = None" "instant now < instant (mt_expires_at row)"
    "r = \<lparr>et_token_hash = h, et_node_name = n, et_labels = mt_labels row,
       et_node_ssh_host_public_key = mt_node_ssh_host_public_key row\<rparr>"
    "t = s\<lparr>me_tokens := (me_tokens s)(h \<mapsto> row\<lparr>mt_used := True, mt_used_at := Some now\<rparr>)\<rparr>"
    by (auto simp: mem_consume_enrollment_token_def datetime_le_def split: option.splits if_splits sum.splits)
  have "mem_inv t" using a(1) row(1,7) by (auto simp: mem_inv_def)
  moreover have "mem_view t = (mem_view s)(h := None)"
    by (rule ext) (simp add: row(7) mem_view_def mem_token_view_def)
  ultimately show "mem_inv t \<and> et_token_hash r = h \<and> et_node_name r = n \<and>
      (\<exists>ex. mem_view s h = Some (n, et_labels r, et_node_ssh_host_public_key r, ex) \<and> instant now < ex) \<and>
      mem_view t = (mem_view s)(h := None)"
    using row by (simp add: mem_view_def mem_token_view_def)
next
  fix s :: memory_enrollment_store and now h n t
  assume "mem_inv s" "aware now" "mem_consume_enrollment_token h n now s = (Inr None, t)"
  then show "t = s \<and> \<not> (\<exists>ls k ex. mem_view s h = Some (n, ls, k, ex) \<and> instant now < ex)"
    by (auto simp: mem_consume_enrollment_token_def datetime_le_def mem_view_def mem_token_view_def
        split: option.splits if_splits sum.splits)
next
  fix s :: memory_enrollment_store and now h n e t
  assume a: "mem_inv s" "aware now"
  show "mem_consume_enrollment_token h n now s \<noteq> (Inl e, t)"
  proof (cases "me_tokens s h")
    case (Some row)
    with a have "aware (mt_expires_at row)" by (simp add: mem_inv_def)
    with a(2) obtain z y where "utcoffset now = Some z" "utcoffset (mt_expires_at row) = Some y"
      by (auto simp: aware_def)
    with Some show ?thesis by (simp add: mem_consume_enrollment_token_def datetime_le_def)
  qed (simp add: mem_consume_enrollment_token_def)
qed (auto simp: mem_create_enrollment_token_def mem_persist_agent_def mem_inv_def mem_view_def)

section \<open>The PostgreSQL store keeps the contract\<close>

definition pg_token_view :: "enrollment_tokens_row \<Rightarrow> token_view option" where
  "pg_token_view t =
     (if tk_used t \<or> tk_disabled_at t \<noteq> None then None
      else Some (tk_node_name t, tk_labels t, tk_node_ssh_host_public_key t, instant (tk_expires_at t)))"

definition token_row :: "database \<Rightarrow> pystr \<Rightarrow> enrollment_tokens_row option" where
  "token_row db h = find (\<lambda>t. tk_token_hash t = h) (db_tokens db)"

definition pg_view :: "database \<Rightarrow> pystr \<rightharpoonup> token_view" where
  "pg_view db h = Option.bind (token_row db h) pg_token_view"

definition pg_tokens_inv :: "database \<Rightarrow> bool" where
  "pg_tokens_inv db \<longleftrightarrow> wf_db db \<and> (\<forall>t \<in> set (db_tokens db). labels_valid (tk_labels t))"

lemma token_row_update:
  assumes "\<And>t. p t \<Longrightarrow> tk_token_hash (f t) = tk_token_hash t"
  shows "token_row (db\<lparr>db_tokens := update_where p f (db_tokens db)\<rparr>) h =
    map_option (\<lambda>t. if p t then f t else t) (token_row db h)"
  using assms by (simp add: token_row_def find_update_where)

lemma find_snoc: "find p (xs @ [x]) = (case find p xs of None \<Rightarrow> if p x then Some x else None | Some y \<Rightarrow> Some y)"
  by (induction xs) auto

lemma token_row_insert:
  "token_row (db\<lparr>db_tokens := db_tokens db @ [r]\<rparr>) h =
     (case token_row db h of None \<Rightarrow> if tk_token_hash r = h then Some r else None | Some t \<Rightarrow> Some t)"
  by (simp add: token_row_def find_snoc)

lemma labels_update:
  "(\<And>t. p t \<Longrightarrow> tk_labels (f t) = tk_labels t) \<Longrightarrow>
   \<forall>t \<in> set ts. labels_valid (tk_labels t) \<Longrightarrow>
   \<forall>t \<in> set (update_where p f ts). labels_valid (tk_labels t)"
  by (auto simp: set_update_where)

text \<open>A label list read back from its column.\<close>

lemma label_scalar: "py_fullmatch LABEL_PATTERN l \<Longrightarrow> list_all scalar l"
  using valid_label_chars [of l] label_char_cases by (fastforce simp: list_all_iff scalar_def)

lemma enrollment_labels_text:
  assumes "labels_valid ls"
  shows "enrollment_labels f (labels_text ls) = Inr ls"
proof -
  have p: "plain (JArr (map JStr ls))"
    using assms by (auto simp: labels_valid_def label_scalar)
  have "rmap (\<lambda>x. validate_label (py_str f x)) (map JStr ls) = Inr ls"
    using assms by (auto simp: rmap_eq_Inr list_all2_conv_all_nth labels_valid_def validate_label_Inr)
  with json_loads_print [OF p] show ?thesis
    by (simp add: enrollment_labels_def labels_text_def)
qed

lemma disable_ok:
  assumes "pg_tokens_inv db" "pg_disable_tokens c n db = (r, t)"
  shows "pg_tokens_inv t \<and> (r = Inr () \<longrightarrow> pg_view t = without_node n (pg_view db)) \<and>
    (r \<noteq> Inr () \<longrightarrow> t = db)"
proof -
  let ?p = "\<lambda>t. tk_node_name t = n \<and> \<not> tk_used t \<and> tk_disabled_at t = None"
  let ?f = "\<lambda>t. t\<lparr>tk_disabled_at := Some c\<rparr>"
  let ?t = "db\<lparr>db_tokens := update_where ?p ?f (db_tokens db)\<rparr>"
  have row: "token_row ?t h = map_option (\<lambda>t. if ?p t then ?f t else t) (token_row db h)" for h
    by (rule token_row_update) simp
  have "pg_view ?t h = without_node n (pg_view db) h" for h
    unfolding pg_view_def without_node_def row
    by (cases "token_row db h") (auto simp: pg_token_view_def)
  then have v: "pg_view ?t = without_node n (pg_view db)" by blast
  have l: "\<forall>t \<in> set (db_tokens ?t). labels_valid (tk_labels t)"
    using labels_update [of ?p ?f "db_tokens db"] assms(1) by (simp add: pg_tokens_inv_def)
  show ?thesis
  proof (cases "wf_db ?t")
    case True
    with assms(2) have "t = ?t" "r = Inr ()" by (simp_all add: pg_disable_tokens_def sql_write_def)
    with v l True show ?thesis by (simp add: pg_tokens_inv_def)
  next
    case False
    with assms(2) have "t = db" "r \<noteq> Inr ()" by (auto simp: pg_disable_tokens_def sql_write_def)
    with assms(1) show ?thesis by simp
  qed
qed

lemma distinct_active_sub:
  "distinct (map g (filter p xs)) \<Longrightarrow> distinct (map g (filter (\<lambda>x. p x \<and> q x) xs))"
  using distinct_map_filter [of g "filter p xs" q] by (simp add: conj_commute)

lemma consume_wf:
  assumes "wf_db db"
  shows "wf_db (db\<lparr>db_tokens := update_where (token_matches h n now)
     (\<lambda>t. t\<lparr>tk_used := True, tk_used_at := Some w\<rparr>) (db_tokens db)\<rparr>)"
proof -
  let ?f = "\<lambda>t. t\<lparr>tk_used := True, tk_used_at := Some w\<rparr>"
  let ?ts = "update_where (token_matches h n now) ?f (db_tokens db)"
  have "map tk_node_name (filter token_active (update_where (token_matches h n now) ?f ts)) =
      map tk_node_name (filter (\<lambda>t. token_active t \<and> \<not> token_matches h n now t) ts)" for ts
    by (induction ts) (auto simp: update_where_def token_active_def)
  then have "distinct (map tk_node_name (filter token_active ?ts))"
    using assms distinct_active_sub [of tk_node_name token_active "db_tokens db"]
    by (simp add: wf_db_def tokens_ok_def)
  moreover have "map tk_token_hash ?ts = map tk_token_hash (db_tokens db)"
    by (rule map_update_where) simp
  moreover have "\<forall>t \<in> set ?ts. \<forall>a. tk_agent_id t = Some a \<longrightarrow> a \<in> ag_id ` set (db_agents db)"
    using assms by (auto simp: set_update_where wf_db_def tokens_ok_def split: if_splits)
  ultimately show ?thesis using assms by (simp add: wf_db_def tokens_ok_def)
qed

lemma find_matches:
  assumes "wf_db db"
  shows "find (token_matches h n now) (db_tokens db) =
    (case token_row db h of None \<Rightarrow> None | Some t \<Rightarrow> if token_matches h n now t then Some t else None)"
proof -
  have "distinct (map tk_token_hash ts) \<Longrightarrow> find (token_matches h n now) ts =
    (case find (\<lambda>t. tk_token_hash t = h) ts of None \<Rightarrow> None
     | Some t \<Rightarrow> if token_matches h n now t then Some t else None)" for ts
  proof (induction ts)
    case (Cons t ts)
    show ?case
    proof (cases "tk_token_hash t = h")
      case True
      with Cons.prems have "find (token_matches h n now) ts = None"
        by (auto simp: find_None_iff token_matches_def image_iff)
      with True show ?thesis by simp
    next
      case False
      then have "\<not> token_matches h n now t" by (simp add: token_matches_def)
      with False Cons show ?thesis by simp
    qed
  qed simp
  with assms show ?thesis by (simp add: wf_db_def tokens_ok_def token_row_def)
qed

lemma pg_create_ok:
  assumes "pg_tokens_inv db" "labels_valid ls"
    "pg_create_enrollment_token c h n ls k cb ex db = (Inr u, t)"
  shows "pg_tokens_inv t \<and> pg_view t = (without_node n (pg_view db))(h \<mapsto> (n, ls, k, instant ex))"
proof -
  let ?row = "\<lparr>tk_token_hash = h, tk_node_name = n, tk_labels = ls,
         tk_node_ssh_host_public_key = k, tk_created_by = cb, tk_created_at = c,
         tk_expires_at = as_utc ex, tk_used = False, tk_used_at = None,
         tk_disabled_at = None, tk_agent_id = None\<rparr>"
  obtain d where d: "pg_disable_tokens c n db = (Inr (), d)" "wf_db t"
    "t = d\<lparr>db_tokens := db_tokens d @ [?row]\<rparr>"
    using assms(3) by (auto simp: pg_create_enrollment_token_def exc_elims)
  from disable_ok [OF assms(1) d(1)] have i: "pg_tokens_inv d" "pg_view d = without_node n (pg_view db)"
    by simp_all
  have "h \<notin> tk_token_hash ` set (db_tokens d)" using d(2) by (simp add: d(3) wf_db_def tokens_ok_def)
  then have none: "token_row d h = None" by (auto simp: token_row_def find_None_iff)
  have "pg_view t j = ((pg_view d)(h \<mapsto> (n, ls, k, instant ex))) j" for j
  proof (cases "j = h")
    case True
    with none show ?thesis unfolding pg_view_def d(3) token_row_insert by (simp add: pg_token_view_def)
  next
    case False
    then show ?thesis unfolding pg_view_def d(3) token_row_insert by (cases "token_row d j") auto
  qed
  then have "pg_view t = (pg_view d)(h \<mapsto> (n, ls, k, instant ex))" by blast
  moreover have "pg_tokens_inv t" using i(1) d(2) assms(2) by (simp add: pg_tokens_inv_def d(3))
  ultimately show ?thesis using i(2) by simp
qed

lemma pg_create_fail:
  assumes "pg_tokens_inv db" "pg_create_enrollment_token c h n ls k cb ex db = (Inl e, t)"
  shows "pg_tokens_inv t \<and> (pg_view t = pg_view db \<or> pg_view t = without_node n (pg_view db))"
proof -
  obtain r d where d: "pg_disable_tokens c n db = (r, d)" by fastforce
  note ok = disable_ok [OF assms(1) d]
  show ?thesis
  proof (cases r)
    case (Inl x)
    with assms d ok show ?thesis by (simp add: pg_create_enrollment_token_def sbind_def)
  next
    case (Inr u)
    with assms(2) d have "t = d" by (auto simp: pg_create_enrollment_token_def sbind_def sql_write_def split: if_splits)
    with ok Inr show ?thesis by simp
  qed
qed

lemma pg_consume_found:
  assumes "pg_tokens_inv db" "token_row db h = Some row" "token_matches h n now row"
  shows "\<exists>t. pg_consume_enrollment_token f h n now db =
      (Inr (Some \<lparr>et_token_hash = h, et_node_name = n, et_labels = tk_labels row,
                 et_node_ssh_host_public_key = tk_node_ssh_host_public_key row\<rparr>), t) \<and>
    pg_tokens_inv t \<and> pg_view t = (pg_view db)(h := None)"
proof -
  let ?p = "token_matches h n now"
  let ?f = "\<lambda>t. t\<lparr>tk_used := True, tk_used_at := Some (as_utc now)\<rparr>"
  let ?t = "db\<lparr>db_tokens := update_where ?p ?f (db_tokens db)\<rparr>"
  have wf: "wf_db ?t" using assms(1) by (intro consume_wf) (simp add: pg_tokens_inv_def)
  have r: "find ?p (db_tokens db) = Some row"
    using find_matches [of db h n now] assms by (simp add: pg_tokens_inv_def)
  have "row \<in> set (db_tokens db)" using assms(2) find_keyD unfolding token_row_def by fast
  then have l: "labels_valid (tk_labels row)" using assms(1) by (simp add: pg_tokens_inv_def)
  have row: "token_row ?t j = map_option (\<lambda>t. if ?p t then ?f t else t) (token_row db j)" for j
    by (rule token_row_update) simp
  have m: "tk_token_hash row = h" "tk_node_name row = n" using assms(3) by (simp_all add: token_matches_def)
  have other: "token_row db j = Some x \<Longrightarrow> j \<noteq> h \<Longrightarrow> \<not> ?p x" for j x
    using find_keyD [of tk_token_hash j "db_tokens db" x] by (auto simp: token_row_def token_matches_def)
  have "pg_view ?t j = ((pg_view db)(h := None)) j" for j
    unfolding pg_view_def row
    using assms(2,3) other [of j] by (cases "token_row db j") (auto simp: pg_token_view_def)
  then have "pg_view ?t = (pg_view db)(h := None)" by blast
  moreover have "pg_tokens_inv ?t"
    using wf labels_update [of ?p ?f "db_tokens db"] assms(1) by (simp add: pg_tokens_inv_def)
  moreover have "pg_consume_enrollment_token f h n now db =
      (Inr (Some \<lparr>et_token_hash = h, et_node_name = n, et_labels = tk_labels row,
                 et_node_ssh_host_public_key = tk_node_ssh_host_public_key row\<rparr>), ?t)"
    unfolding pg_consume_enrollment_token_def r
    by (simp add: sbind_def sql_write_def wf enrollment_labels_text [OF l] m)
  ultimately show ?thesis by blast
qed

lemma pg_consume_missing:
  assumes "pg_tokens_inv db" "\<nexists>row. token_row db h = Some row \<and> token_matches h n now row"
  shows "pg_consume_enrollment_token f h n now db = (Inr None, db)"
  using find_matches [of db h n now] assms
  by (auto simp: pg_tokens_inv_def pg_consume_enrollment_token_def split: option.splits)

lemma pg_view_matches:
  "(\<exists>row. token_row db h = Some row \<and> token_matches h n now row) \<longleftrightarrow>
     (\<exists>ls k ex. pg_view db h = Some (n, ls, k, ex) \<and> instant now < ex)"
proof (cases "token_row db h")
  case None
  then show ?thesis by (simp add: pg_view_def)
next
  case (Some row)
  moreover have "tk_token_hash row = h" using Some find_keyD unfolding token_row_def by fast
  ultimately show ?thesis by (auto simp: pg_view_def pg_token_view_def token_matches_def)
qed

lemma pg_persist_ok:
  assumes "pg_tokens_inv db" "pg_persist_agent c a db = (r, t)"
  shows "pg_tokens_inv t \<and> pg_view t = pg_view db"
proof -
  define d where "d = db\<lparr>db_agents := db_agents db @
       [\<lparr>ag_id = sa_agent_id a, ag_node_name = sa_node_name a, ag_hostname = None,
         ag_labels = sa_labels a, ag_x509_public_key = sa_x509_public_key a,
         ag_node_ssh_host_public_key = sa_node_ssh_host_public_key a,
         ag_tunnel_secret_hash = sa_tunnel_secret_hash a, ag_enrolled_at = c,
         ag_last_seen = None, ag_revoked = False, ag_revoked_at = None,
         ag_cert_serial = sa_cert_serial a,
         ag_cert_expires_at = as_utc (sa_cert_expires_at a)\<rparr>]\<rparr>"
  let ?p = "\<lambda>t. tk_node_name t = sa_node_name a \<and> tk_used t \<and> tk_agent_id t = None"
  let ?f = "\<lambda>t. t\<lparr>tk_agent_id := Some (sa_agent_id a)\<rparr>"
  let ?e = "d\<lparr>db_tokens := update_where ?p ?f (db_tokens d)\<rparr>"
  have t: "t = db \<or> t = d \<and> wf_db d \<or> t = ?e \<and> wf_db ?e"
    using assms(2) unfolding pg_persist_agent_def sbind_def sql_write_def d_def [symmetric]
    by (auto split: if_splits)
  have "db_tokens d = db_tokens db" by (simp add: d_def)
  then have row: "token_row d j = token_row db j" for j by (simp add: token_row_def)
  have "token_row ?e j = map_option (\<lambda>t. if ?p t then ?f t else t) (token_row db j)" for j
    using token_row_update [of ?p ?f d j] by (simp add: row)
  then have "pg_view ?e j = pg_view db j" for j
    unfolding pg_view_def by (cases "token_row db j") (auto simp: pg_token_view_def)
  then have v: "pg_view ?e = pg_view db" "pg_view d = pg_view db"
    by (auto simp: pg_view_def row)
  have "\<forall>t \<in> set (db_tokens ?e). labels_valid (tk_labels t)" "\<forall>t \<in> set (db_tokens d). labels_valid (tk_labels t)"
    using labels_update [of ?p ?f "db_tokens db"] assms(1) by (simp_all add: pg_tokens_inv_def d_def)
  with t v assms(1) show ?thesis by (auto simp: pg_tokens_inv_def)
qed

interpretation ptok: token_store pg_create_enrollment_token "pg_consume_enrollment_token text_of"
  pg_persist_agent pg_tokens_inv pg_view
  for text_of
proof (unfold_locales, goal_cases)
  case 1
  then show ?case using pg_create_ok by blast
next
  case 2
  then show ?case using pg_create_fail by blast
next
  case (3 s now h n r t)
  then obtain row where row: "token_row s h = Some row" "token_matches h n now row"
    using pg_consume_missing [of s h n now text_of] by auto
  have "pg_view s h = Some (n, tk_labels row, tk_node_ssh_host_public_key row, instant (tk_expires_at row))"
    "instant now < instant (tk_expires_at row)"
    using row by (auto simp: pg_view_def pg_token_view_def token_matches_def)
  with 3 pg_consume_found [OF 3(1) row, of text_of] show ?case by auto
next
  case (4 s now h n t)
  have "\<not> (\<exists>row. token_row s h = Some row \<and> token_matches h n now row)"
  proof
    assume "\<exists>row. token_row s h = Some row \<and> token_matches h n now row"
    then obtain row where "token_row s h = Some row" "token_matches h n now row" by blast
    from pg_consume_found [OF 4(1) this, of text_of] 4(3) show False by auto
  qed
  with 4 pg_consume_missing [OF 4(1) this, of text_of] show ?case unfolding pg_view_matches by auto
next
  case (5 s now h n e t)
  then show ?case
    using pg_consume_found [OF 5(1), of h _ n now text_of] pg_consume_missing [OF 5(1), of h n now text_of]
    by fastforce
next
  case 6
  then show ?case using pg_persist_ok by blast
qed

section \<open>Tokens are used at most once\<close>

definition pg_perform :: "(json \<Rightarrow> pystr) \<Rightarrow> store_call \<Rightarrow> database \<Rightarrow> pystr option \<times> database" where
  "pg_perform text_of =
     perform pg_create_enrollment_token (pg_consume_enrollment_token text_of) pg_persist_agent"

definition mem_perform ::
  "store_call \<Rightarrow> memory_enrollment_store \<Rightarrow> pystr option \<times> memory_enrollment_store" where
  "mem_perform = perform mem_create_enrollment_token mem_consume_enrollment_token (\<lambda>c. mem_persist_agent)"

text \<open>C16: An enrollment token is handed out at most once for every time it was created.  In any
  sequence of creations, consumptions and agent insertions on the database store, and likewise on
  the in-memory store, starting from any state that satisfies the constraints, the number of
  successful consumptions of a token hash is at most the number of its creations in the sequence
  plus one if it was usable at the start.\<close>

theorem tokens_are_single_use:
  assumes "list_all call_ok qs"
  shows "(pg_tokens_inv db \<longrightarrow> count_list (handed_out (pg_perform text_of) qs db) h \<le>
      length (filter (creates h) qs) + (if pg_view db h = None then 0 else 1)) \<and>
    (mem_inv s \<longrightarrow> count_list (handed_out mem_perform qs s) h \<le>
      length (filter (creates h) qs) + (if mem_view s h = None then 0 else 1))"
  using ptok.handed_out_bound [OF _ assms, of db text_of h] mtok.handed_out_bound [OF _ assms, of s h]
  by (simp add: pg_perform_def mem_perform_def)

definition sample_calls :: "store_call list" where
  "sample_calls = [Create (utc 0) [1] [2] [] [3] [4] (utc 9), Consume [1] [2] (utc 5), Consume [1] [2] (utc 6)]"

lemma tokens_are_single_use_witness:
  "count_list (handed_out mem_perform sample_calls \<lparr>me_tokens = Map.empty, me_agents = Map.empty\<rparr>) [1] = 1"
proof -
  let ?s = "\<lparr>me_tokens = Map.empty, me_agents = Map.empty\<rparr>"
  have "list_all call_ok sample_calls" by (simp add: sample_calls_def labels_valid_def aware_def utc_def)
  from tokens_are_single_use [OF this, of empty_db "\<lambda>j. []" "[1]" ?s]
  have "count_list (handed_out mem_perform sample_calls ?s) [1] \<le> 1"
    by (simp add: mem_inv_def mem_view_def sample_calls_def)
  moreover have "[1] \<in> set (handed_out mem_perform sample_calls ?s)"
    by (simp add: sample_calls_def mem_perform_def mem_create_enrollment_token_def
        mem_consume_enrollment_token_def datetime_le_def utc_def instant_def)
  then have "0 < count_list (handed_out mem_perform sample_calls ?s) [1]"
    using count_list_0_iff by (metis gr0I)
  ultimately show ?thesis by simp
qed

section \<open>The limiter counts a sliding window\<close>

datatype limiter_call = Check pystr pystr datetime | Fail pystr pystr datetime

primrec call_time :: "limiter_call \<Rightarrow> int" where
  "call_time (Check s t now) = instant now"
| "call_time (Fail s t now) = instant now"

primrec limiter_step :: "limiter_call \<Rightarrow> EnrollmentRateLimiter \<Rightarrow> EnrollmentRateLimiter" where
  "limiter_step (Check s t now) l = snd (is_limited s t now l)"
| "limiter_step (Fail s t now) l = record_failure s t now l"

text \<open>The specification: the failures that satisfy \<open>p\<close>, and those of a window ending now.\<close>

fun failures :: "(pystr \<Rightarrow> pystr \<Rightarrow> bool) \<Rightarrow> limiter_call list \<Rightarrow> datetime list" where
  "failures p [] = []"
| "failures p (Check s t now # qs) = failures p qs"
| "failures p (Fail s t now # qs) = (if p s t then now # failures p qs else failures p qs)"

definition recent :: "int \<Rightarrow> datetime \<Rightarrow> datetime list \<Rightarrow> datetime list" where
  "recent w now ts = filter (\<lambda>t. instant now - seconds w < instant t) ts"

lemma drop_old_sorted: "sorted (map instant d) \<Longrightarrow> drop_old w now d = recent w now d"
proof (induction d)
  case (Cons t d)
  show ?case
  proof (cases "instant t \<le> instant now - seconds w")
    case True
    with Cons show ?thesis by (simp add: drop_old_def recent_def)
  next
    case False
    with Cons.prems have "\<forall>x \<in> set (t # d). instant now - seconds w < instant x" by auto
    then have "recent w now (t # d) = t # d" unfolding recent_def by (intro filter_True)
    with False show ?thesis by (simp add: drop_old_def)
  qed
qed (simp add: drop_old_def recent_def)

lemma recent_append: "recent w now (a @ b) = recent w now a @ recent w now b"
  by (simp add: recent_def)

lemma recent_recent:
  "instant now \<le> instant later \<Longrightarrow> recent w later (recent w now d) = recent w later d"
  by (auto simp: recent_def intro: filter_cong)

lemma failures_snoc: "failures p (qs @ [q]) = failures p qs @ failures p [q]"
  by (induction p qs rule: failures.induct) simp_all

text \<open>One deque agrees with the specification from a time on.\<close>

definition agrees :: "int \<Rightarrow> int \<Rightarrow> datetime list \<Rightarrow> datetime list \<Rightarrow> bool" where
  "agrees w lim d ts \<longleftrightarrow> sorted (map instant d) \<and> (\<forall>t \<in> set d. instant t \<le> lim) \<and>
     (\<forall>now. lim \<le> instant now \<longrightarrow> recent w now d = recent w now ts)"

lemma agrees_later: "agrees w lim d ts \<Longrightarrow> lim \<le> lim' \<Longrightarrow> agrees w lim' d ts"
  by (fastforce simp: agrees_def)

lemma agrees_drop:
  assumes "agrees w lim d ts" "lim \<le> instant now"
  shows "drop_old w now d = recent w now ts" "agrees w (instant now) (drop_old w now d) ts"
proof -
  show 1: "drop_old w now d = recent w now ts"
    using assms drop_old_sorted [of d w now] by (simp add: agrees_def)
  have eq: "drop_old w now d = recent w now d" using assms(1) drop_old_sorted by (simp add: agrees_def)
  have "sorted (map instant (recent w now d))"
    using assms(1) unfolding recent_def by (simp add: agrees_def sorted_filter)
  moreover have "\<forall>t \<in> set d. instant t \<le> lim" using assms(1) by (simp add: agrees_def)
  then have "\<forall>t \<in> set (recent w now d). instant t \<le> instant now"
    using assms(2) unfolding recent_def by fastforce
  ultimately have "sorted (map instant (recent w now ts))" "\<forall>t \<in> set (recent w now ts). instant t \<le> instant now"
    using 1 eq by simp_all
  then show "agrees w (instant now) (drop_old w now d) ts"
    unfolding agrees_def 1 by (simp add: recent_recent)
qed

lemma agrees_snoc:
  "agrees w lim d ts \<Longrightarrow> lim \<le> instant now \<Longrightarrow> agrees w (instant now) (d @ [now]) (ts @ [now])"
  by (fastforce simp: agrees_def sorted_append recent_append)

definition limiter_rel :: "int \<Rightarrow> limiter_call list \<Rightarrow> EnrollmentRateLimiter \<Rightarrow> bool" where
  "limiter_rel lim qs l \<longleftrightarrow> rl_max_source_failures l = 10 \<and> rl_max_token_failures l = 5 \<and>
     rl_window_seconds l = 600 \<and>
     (\<forall>k. agrees 600 lim (deque_at (rl_source_failures l) k) (failures (\<lambda>s t. s = k) qs)) \<and>
     (\<forall>k. agrees 600 lim (deque_at (rl_token_failures l) k) (failures (\<lambda>s t. t = k) qs))"

lemma deque_at_upd: "deque_at (m(k \<mapsto> d)) j = (if j = k then d else deque_at m j)"
  by (simp add: deque_at_def)

lemma limiter_rel_check:
  assumes "limiter_rel lim qs l" "lim \<le> instant now"
  shows "fst (is_limited s t now l) \<longleftrightarrow>
      10 \<le> length (recent 600 now (failures (\<lambda>a b. a = s) qs)) \<or>
      5 \<le> length (recent 600 now (failures (\<lambda>a b. b = t) qs))"
    and "limiter_rel (instant now) qs (snd (is_limited s t now l))"
proof -
  have src: "agrees 600 lim (deque_at (rl_source_failures l) k) (failures (\<lambda>a b. a = k) qs)" for k
    using assms(1) by (simp add: limiter_rel_def)
  have tok: "agrees 600 lim (deque_at (rl_token_failures l) k) (failures (\<lambda>a b. b = k) qs)" for k
    using assms(1) by (simp add: limiter_rel_def)
  have w: "rl_max_source_failures l = 10" "rl_max_token_failures l = 5" "rl_window_seconds l = 600"
    using assms(1) by (simp_all add: limiter_rel_def)
  show "fst (is_limited s t now l) \<longleftrightarrow>
      10 \<le> length (recent 600 now (failures (\<lambda>a b. a = s) qs)) \<or>
      5 \<le> length (recent 600 now (failures (\<lambda>a b. b = t) qs))"
    using agrees_drop(1) [OF src assms(2)] agrees_drop(1) [OF tok assms(2)]
    by (simp add: is_limited_def Let_def w)
  show "limiter_rel (instant now) qs (snd (is_limited s t now l))"
    using agrees_drop(2) [OF src assms(2)] agrees_drop(2) [OF tok assms(2)]
      agrees_later [OF src assms(2)] agrees_later [OF tok assms(2)]
    by (simp add: limiter_rel_def is_limited_def Let_def w deque_at_upd)
qed

lemma limiter_rel_step:
  assumes "limiter_rel lim qs l" "lim \<le> call_time q"
  shows "limiter_rel (call_time q) (qs @ [q]) (limiter_step q l)"
proof (cases q)
  case (Check s t now)
  then show ?thesis
    using limiter_rel_check(2) [OF assms(1), of now s t] assms(2)
    by (simp add: limiter_rel_def failures_snoc)
next
  case (Fail s t now)
  have src: "agrees 600 lim (deque_at (rl_source_failures l) k) (failures (\<lambda>a b. a = k) qs)" for k
    using assms(1) by (simp add: limiter_rel_def)
  have tok: "agrees 600 lim (deque_at (rl_token_failures l) k) (failures (\<lambda>a b. b = k) qs)" for k
    using assms(1) by (simp add: limiter_rel_def)
  have n: "lim \<le> instant now" using assms(2) Fail by simp
  show ?thesis
    using agrees_snoc [OF src n] agrees_snoc [OF tok n] agrees_later [OF src n] agrees_later [OF tok n]
      assms(1)
    by (simp add: Fail limiter_rel_def record_failure_def deque_at_upd failures_snoc)
qed

lemma limiter_rel_run:
  "limiter_rel lim ps l \<Longrightarrow> sorted (lim # map call_time qs) \<Longrightarrow>
     \<exists>lim'. limiter_rel lim' (ps @ qs) (fold limiter_step qs l) \<and>
       lim' = (if qs = [] then lim else call_time (last qs))"
proof (induction qs arbitrary: lim ps l)
  case (Cons q qs)
  have "limiter_rel (call_time q) (ps @ [q]) (limiter_step q l)"
    using Cons.prems by (intro limiter_rel_step) auto
  from Cons.IH [OF this] Cons.prems(2) show ?case by auto
qed simp

text \<open>C17: The failure limiter implements the promised limits: after any sequence of checks and
  recorded failures in the order of time, a request is limited exactly when its source address had
  at least ten failures, or its token hash at least five, in the ten minutes before it; dropping
  old entries while checking never changes an answer.\<close>

theorem limiter_counts_the_window:
  assumes "sorted (map call_time (qs @ [Check s t now]))"
  shows "fst (is_limited s t now (fold limiter_step qs new_rate_limiter)) \<longleftrightarrow>
    10 \<le> length (recent 600 now (failures (\<lambda>a b. a = s) qs)) \<or>
    5 \<le> length (recent 600 now (failures (\<lambda>a b. b = t) qs))"
proof -
  define first where "first = (case qs of [] \<Rightarrow> instant now | q # _ \<Rightarrow> call_time q)"
  have rel: "limiter_rel first [] new_rate_limiter"
    by (simp add: limiter_rel_def new_rate_limiter_def agrees_def deque_at_def)
  have "sorted (first # map call_time qs)"
    using assms by (cases qs) (auto simp: first_def sorted_append)
  from limiter_rel_run [OF rel this] obtain l where
    l: "limiter_rel l qs (fold limiter_step qs new_rate_limiter)"
      "l = (if qs = [] then first else call_time (last qs))" by auto
  have "l \<le> instant now"
    using assms l(2) by (cases qs rule: rev_cases) (auto simp: first_def sorted_append)
  with l(1) show ?thesis by (rule limiter_rel_check(1))
qed

lemma limiter_counts_the_window_witness:
  "\<not> fst (is_limited [1] [2] (utc (seconds 700))
      (fold limiter_step [Fail [1] [2] (utc 0), Fail [1] [2] (utc 5)] new_rate_limiter))"
  using limiter_counts_the_window [of "[Fail [1] [2] (utc 0), Fail [1] [2] (utc 5)]" "[1]" "[2]" "utc (seconds 700)"]
  by (simp add: seconds_def recent_def)

end
