(* ===== verification/Enrollment_Service.thy ===== *)
theory Enrollment_Service
  imports Enrollment_Facts
begin

text \<open>
  The enrollment service on the database store: what a successful enrollment implies, what a
  failed one leaves behind, and what the HTTP handler answers.
\<close>

text \<open>
  The service as \<open>server/main.py\<close> builds it: the store and the audit writer share the database.
  \<open>uid\<close> gives the fresh id of an audit row and \<open>clock\<close> the time the writer reads.
\<close>

definition pg_audit :: "(audit_request \<Rightarrow> uuid) \<Rightarrow> datetime \<Rightarrow> audit_request \<Rightarrow> (database, unit) op" where
  "pg_audit uid clock q = sbind (audit_write (uid q) clock q) (\<lambda>_. sret ())"

definition pg_service :: "database enrollment_deps \<Rightarrow> bool" where
  "pg_service deps \<longleftrightarrow> ed_create deps = pg_create_enrollment_token \<and>
     (\<exists>text_of. ed_consume deps = pg_consume_enrollment_token text_of) \<and>
     ed_persist deps = pg_persist_agent \<and>
     (ed_audit deps = None \<or> (\<exists>uid clock. ed_audit deps = Some (pg_audit uid clock)))"

lemma write_audit_frame:
  assumes "pg_service deps" "write_audit deps q db = (r, db')" "pg_tokens_inv db"
  shows "pg_tokens_inv db' \<and> pg_view db' = pg_view db \<and> db_agents db' = db_agents db"
proof -
  have "audit_only db db' \<and> (wf_db db \<longrightarrow> wf_db db')"
  proof (cases "ed_audit deps")
    case None
    with assms(2) show ?thesis by (simp add: write_audit_def)
  next
    case (Some w)
    then obtain uid clock where "w = pg_audit uid clock" using assms(1) by (auto simp: pg_service_def)
    moreover obtain x y where "audit_write (uid q) clock q db = (x, y)" by (cases "audit_write (uid q) clock q db")
    ultimately show ?thesis
      using Some assms(2) audit_write_frame [of "uid q" clock q db x y]
      by (cases x) (auto simp: write_audit_def pg_audit_def sbind_def)
  qed
  then show ?thesis
    using assms(3) audit_only_fields [of db db']
    by (simp add: pg_tokens_inv_def pg_view_def token_row_def fun_eq_iff)
qed

lemma persist_Inr:
  assumes "pg_persist_agent c a db = (Inr u, t)"
  shows "\<exists>row. db_agents t = db_agents db @ [row] \<and> ag_id row = sa_agent_id a \<and>
    ag_node_name row = sa_node_name a \<and> ag_labels row = sa_labels a \<and>
    ag_x509_public_key row = sa_x509_public_key a \<and>
    ag_node_ssh_host_public_key row = sa_node_ssh_host_public_key a \<and>
    ag_tunnel_secret_hash row = sa_tunnel_secret_hash a \<and> ag_cert_serial row = sa_cert_serial a \<and>
    instant (ag_cert_expires_at row) = instant (sa_cert_expires_at a) \<and> \<not> ag_revoked row \<and>
    sa_node_name a \<notin> ag_node_name ` set (db_agents db)"
  using assms
  by (auto simp: pg_persist_agent_def exc_elims wf_db_def agents_ok_def)

text \<open>The steps of a completed enrollment.\<close>

lemma complete_Inr:
  assumes "complete_enrollment deps fr q now n h db = (Inr resp, db')"
  obtains rec d key cert sh e where
    "ed_consume deps h n now db = (Inr (Some rec), d)"
    "validate_node_ssh_host_public_key (ed_import_key deps) (er_node_ssh_host_public_key q) =
       Inr (et_node_ssh_host_public_key rec)"
    "load_agent_public_key (ed_load_pem deps) (er_agent_x509_public_key q) = Inr key"
    "issue_agent_client_certificate (ed_issuer deps) key n (uuid_text (fr_agent_id fr)) (fr_serial fr)
       now AGENT_CERT_DEFAULT_LIFETIME_DAYS = Inr cert"
    "sha256_hex (fr_tunnel_secret fr) = Inr sh"
    "ed_persist deps (fr_now fr)
       \<lparr>sa_agent_id = fr_agent_id fr, sa_node_name = n, sa_labels = et_labels rec,
        sa_x509_public_key = er_agent_x509_public_key q,
        sa_node_ssh_host_public_key = et_node_ssh_host_public_key rec,
        sa_tunnel_secret_hash = sh, sa_cert_serial = iac_serial cert,
        sa_cert_expires_at = iac_expires_at cert\<rparr> d = (Inr (), e)"
    "\<exists>req. write_audit deps req e = (Inr (), db')"
    "es_agent_id resp = fr_agent_id fr" "es_tunnel_secret resp = fr_tunnel_secret fr"
    "es_agent_x509_cert resp = iac_certificate cert"
  using assms unfolding complete_enrollment_def
  by (auto simp: exc_elims split: option.splits; blast)

text \<open>On the database, whatever the outcome, the presented token is spent.\<close>

lemma complete_spends:
  assumes "pg_service deps" "pg_tokens_inv db" "aware now"
    "pg_view db h = Some (n, ls, k, ex)" "instant now < ex"
    "complete_enrollment deps fr q now n h db = (r, db')"
  shows "pg_tokens_inv db' \<and> pg_view db' h = None"
proof -
  obtain f where f: "ed_consume deps = pg_consume_enrollment_token f" using assms(1) by (auto simp: pg_service_def)
  obtain row where row: "token_row db h = Some row" "token_matches h n now row"
    using assms(4,5) pg_view_matches [of db h n now] by blast
  obtain d where d: "ed_consume deps h n now db =
      (Inr (Some \<lparr>et_token_hash = h, et_node_name = n, et_labels = tk_labels row,
         et_node_ssh_host_public_key = tk_node_ssh_host_public_key row\<rparr>), d)"
    "pg_tokens_inv d" "pg_view d h = None"
    using pg_consume_found [OF assms(2) row, of f] f by auto
  have keep: "pg_tokens_inv y \<and> pg_view y h = None"
    if "ed_persist deps c a x = (z, y)" "pg_tokens_inv x" "pg_view x h = None" for c a x y z
    using that pg_persist_ok [OF that(2)] assms(1) by (simp add: pg_service_def)
  have audit: "pg_tokens_inv y \<and> pg_view y h = None"
    if "write_audit deps a x = (z, y)" "pg_tokens_inv x" "pg_view x h = None" for a x y z
    using that write_audit_frame [OF assms(1)] by simp
  show ?thesis
    using assms(6) d(2,3) unfolding complete_enrollment_def
    by (cases r) (auto simp: exc_elims d(1) dest: keep audit)
qed

section \<open>A request\<close>

lemma request_identity_Inr:
  "request_identity q = Inr (n, h) \<longleftrightarrow> n = er_node_name q \<and> py_fullmatch NODE_NAME_PATTERN n \<and>
     43 \<le> length (er_token q) \<and> sha256_hex (Secret (er_token q)) = Inr h"
  by (auto simp: request_identity_def exc_elims)

lemma try_enroll_Inr:
  assumes "try_enroll deps fr q now st = (Inr resp, st')"
  obtains n h where "request_identity q = Inr (n, h)"
    "\<not> fst (is_limited (er_source_address q) h now (st_limiter st))"
    "complete_enrollment deps fr q now n h (st_store st) = (Inr resp, st_store st')"
  using assms unfolding try_enroll_def
  by (auto simp: in_store_def split: sum.splits prod.splits if_splits)

lemma enroll_Inr:
  "enroll deps cn fr q now st = (Inr resp, st') \<longleftrightarrow> try_enroll deps fr q (as_utc now) st = (Inr resp, st')"
  by (auto simp: enroll_def stry_def sbind_def split: prod.splits sum.splits)

text \<open>What the failure handler does to the store: at most an audit row.\<close>

lemma record_failure_store:
  assumes "record_enrollment_failure deps cn q now e st = (r, st')"
  shows "st_store st' = st_store st \<or>
    (\<exists>a x. write_audit deps a (st_store st) = (x, st_store st'))"
  using assms
  by (auto simp: record_enrollment_failure_def sbind_def in_store_def split: sum.splits prod.splits)

lemma enroll_store:
  assumes "pg_service deps" "enroll deps cn fr q now st = (r, st')"
    and "try_enroll deps fr q (as_utc now) st = (z, u)" "pg_tokens_inv (st_store u)"
  shows "pg_tokens_inv (st_store st') \<and> pg_view (st_store st') = pg_view (st_store u) \<and>
    db_agents (st_store st') = db_agents (st_store u)"
proof (cases z)
  case (Inr resp)
  with assms show ?thesis by (simp add: enroll_def stry_def)
next
  case (Inl e)
  obtain y v where y: "record_enrollment_failure deps cn q (as_utc now) e u = (y, v)"
    by (cases "record_enrollment_failure deps cn q (as_utc now) e u")
  have "st' = v" using assms(2,3) Inl y by (auto simp: enroll_def stry_def sbind_def split: sum.splits)
  with record_failure_store [OF y] write_audit_frame [OF assms(1) _ assms(4)] assms(4) show ?thesis
    by auto
qed

lemma complete_row:
  assumes "pg_service deps" "pg_tokens_inv db" "aware now"
    "complete_enrollment deps fr q now n h db = (Inr resp, db')"
  shows "\<exists>ls k ex row. pg_view db h = Some (n, ls, k, ex) \<and> instant now < ex \<and>
     validate_node_ssh_host_public_key (ed_import_key deps) (er_node_ssh_host_public_key q) = Inr k \<and>
     db_agents db' = db_agents db @ [row] \<and> ag_id row = es_agent_id resp \<and>
     ag_node_name row = n \<and> ag_labels row = ls \<and> ag_node_ssh_host_public_key row = k \<and>
     ag_x509_public_key row = er_agent_x509_public_key q \<and> \<not> ag_revoked row \<and>
     sha256_hex (es_tunnel_secret resp) = Inr (ag_tunnel_secret_hash row) \<and>
     instant (ag_cert_expires_at row) = instant now + days 90 \<and>
     x_common_name (es_agent_x509_cert resp) = n \<and> n \<notin> ag_node_name ` set (db_agents db)"
proof -
  obtain rec d key cert sh e where c:
    "ed_consume deps h n now db = (Inr (Some rec), d)"
    "validate_node_ssh_host_public_key (ed_import_key deps) (er_node_ssh_host_public_key q) =
       Inr (et_node_ssh_host_public_key rec)"
    "issue_agent_client_certificate (ed_issuer deps) key n (uuid_text (fr_agent_id fr)) (fr_serial fr)
       now AGENT_CERT_DEFAULT_LIFETIME_DAYS = Inr cert"
    "sha256_hex (fr_tunnel_secret fr) = Inr sh"
    "ed_persist deps (fr_now fr)
       \<lparr>sa_agent_id = fr_agent_id fr, sa_node_name = n, sa_labels = et_labels rec,
        sa_x509_public_key = er_agent_x509_public_key q,
        sa_node_ssh_host_public_key = et_node_ssh_host_public_key rec,
        sa_tunnel_secret_hash = sh, sa_cert_serial = iac_serial cert,
        sa_cert_expires_at = iac_expires_at cert\<rparr> d = (Inr (), e)"
    "\<exists>req. write_audit deps req e = (Inr (), db')"
    "es_agent_id resp = fr_agent_id fr" "es_tunnel_secret resp = fr_tunnel_secret fr"
    "es_agent_x509_cert resp = iac_certificate cert"
    using assms(4) by (rule complete_Inr)
  obtain f where f: "ed_consume deps = pg_consume_enrollment_token f"
    using assms(1) by (auto simp: pg_service_def)
  note cs = ptok.consume_some [OF assms(2,3) c(1) [unfolded f]]
  have da: "db_agents d = db_agents db"
    using c(1) f by (auto simp: pg_consume_enrollment_token_def exc_elims split: option.splits)
  have p: "pg_persist_agent (fr_now fr)
       \<lparr>sa_agent_id = fr_agent_id fr, sa_node_name = n, sa_labels = et_labels rec,
        sa_x509_public_key = er_agent_x509_public_key q,
        sa_node_ssh_host_public_key = et_node_ssh_host_public_key rec,
        sa_tunnel_secret_hash = sh, sa_cert_serial = iac_serial cert,
        sa_cert_expires_at = iac_expires_at cert\<rparr> d = (Inr (), e)"
    using c(5) assms(1) by (simp add: pg_service_def)
  have "pg_tokens_inv e" using pg_persist_ok [OF _ p] cs by simp
  then have ea: "db_agents db' = db_agents e" using c(6) write_audit_frame [OF assms(1)] by blast
  note w = issue_agent_window [OF c(3)]
  show ?thesis
    using persist_Inr [OF p] cs c(2,4,7,8,9) w
    by (auto simp: ea da AGENT_CERT_DEFAULT_LIFETIME_DAYS_def)
qed

text \<open>C18: A successful enrollment is authorised by its token and creates exactly the agent the token
  pins.  If the service on the database answers with an identity, the node name is valid, the hash
  of the presented token was usable, unexpired and issued for this very node, the source and the
  token were not rate limited, and the presented host key normalises to the pinned one; afterwards
  the token is spent and one new, unrevoked agent row exists with the node, the labels and the host
  key of the token, the key of the request, the hash of the secret that was returned and a
  certificate of 90 days.\<close>

theorem enrollment_is_authorised:
  assumes "pg_service deps" "pg_tokens_inv (st_store st)"
    "enroll deps cn fr q now st = (Inr resp, st')"
  shows "\<exists>h ls k ex row. py_fullmatch NODE_NAME_PATTERN (er_node_name q) \<and> 43 \<le> length (er_token q) \<and>
     sha256_hex (Secret (er_token q)) = Inr h \<and>
     pg_view (st_store st) h = Some (er_node_name q, ls, k, ex) \<and> instant now < ex \<and>
     \<not> fst (is_limited (er_source_address q) h (as_utc now) (st_limiter st)) \<and>
     validate_node_ssh_host_public_key (ed_import_key deps) (er_node_ssh_host_public_key q) = Inr k \<and>
     pg_view (st_store st') h = None \<and> db_agents (st_store st') = db_agents (st_store st) @ [row] \<and>
     ag_id row = es_agent_id resp \<and> ag_node_name row = er_node_name q \<and> ag_labels row = ls \<and>
     ag_node_ssh_host_public_key row = k \<and> ag_x509_public_key row = er_agent_x509_public_key q \<and>
     \<not> ag_revoked row \<and> sha256_hex (es_tunnel_secret resp) = Inr (ag_tunnel_secret_hash row) \<and>
     instant (ag_cert_expires_at row) = instant now + days 90 \<and>
     x_common_name (es_agent_x509_cert resp) = er_node_name q"
proof -
  have t: "try_enroll deps fr q (as_utc now) st = (Inr resp, st')" using assms(3) by (simp add: enroll_Inr)
  obtain n h where n: "request_identity q = Inr (n, h)"
    "\<not> fst (is_limited (er_source_address q) h (as_utc now) (st_limiter st))"
    "complete_enrollment deps fr q (as_utc now) n h (st_store st) = (Inr resp, st_store st')"
    using t by (rule try_enroll_Inr)
  obtain ls k ex row where r: "pg_view (st_store st) h = Some (n, ls, k, ex)" "instant (as_utc now) < ex"
    "validate_node_ssh_host_public_key (ed_import_key deps) (er_node_ssh_host_public_key q) = Inr k"
    "db_agents (st_store st') = db_agents (st_store st) @ [row]" "ag_id row = es_agent_id resp"
    "ag_node_name row = n" "ag_labels row = ls" "ag_node_ssh_host_public_key row = k"
    "ag_x509_public_key row = er_agent_x509_public_key q" "\<not> ag_revoked row"
    "sha256_hex (es_tunnel_secret resp) = Inr (ag_tunnel_secret_hash row)"
    "instant (ag_cert_expires_at row) = instant (as_utc now) + days 90"
    "x_common_name (es_agent_x509_cert resp) = n"
    using complete_row [OF assms(1,2) aware_as_utc n(3)] by blast
  have "pg_view (st_store st') h = None"
    using complete_spends [OF assms(1,2) aware_as_utc r(1,2) n(3)] by simp
  moreover have "n = er_node_name q" "py_fullmatch NODE_NAME_PATTERN (er_node_name q)"
    "43 \<le> length (er_token q)" "sha256_hex (Secret (er_token q)) = Inr h"
    using n(1) by (auto simp: request_identity_Inr)
  ultimately show ?thesis using r n(2)
    by - (rule exI [of _ h], rule exI [of _ ls], rule exI [of _ k], rule exI [of _ ex],
      rule exI [of _ row], simp)
qed

definition sample_token :: pystr where
  "sample_token = replicate 43 65"

definition sample_request_key :: pystr where
  "sample_request_key = [75, 32, 65]"

definition token_db :: "pystr \<Rightarrow> database" where
  "token_db h = empty_db\<lparr>db_tokens :=
     [\<lparr>tk_token_hash = h, tk_node_name = [119], tk_labels = [[100]],
       tk_node_ssh_host_public_key = sample_request_key, tk_created_by = [97], tk_created_at = utc 0,
       tk_expires_at = utc 100, tk_used = False, tk_used_at = None, tk_disabled_at = None,
       tk_agent_id = None\<rparr>]\<rparr>"

definition sample_deps :: "database enrollment_deps" where
  "sample_deps = \<lparr>ed_create = pg_create_enrollment_token,
     ed_consume = pg_consume_enrollment_token (\<lambda>j. []), ed_persist = pg_persist_agent,
     ed_audit = None, ed_import_key = (\<lambda>k. Inr ()), ed_load_pem = (\<lambda>k. Inr (True, [])),
     ed_issuer = [], ed_tunnel_ca_bundle = [98], ed_tunnel_host = [104], ed_tunnel_port = 4444,
     ed_enrollment_tls_ca_bundle = []\<rparr>"

definition sample_enrollment :: EnrollmentRequest where
  "sample_enrollment = \<lparr>er_node_name = [119], er_token = sample_token, er_agent_x509_public_key = [80],
     er_node_ssh_host_public_key = sample_request_key, er_source_address = [115]\<rparr>"

definition sample_fresh :: fresh_values where
  "sample_fresh = \<lparr>fr_agent_id = 5, fr_tunnel_secret = Secret sample_token, fr_serial = 9, fr_now = utc 1\<rparr>"

lemma sample_service: "pg_service sample_deps"
  by (auto simp: pg_service_def sample_deps_def)

lemma token_db_inv: "pg_tokens_inv (token_db h)"
  by (simp add: token_db_def empty_db_def pg_tokens_inv_def wf_db_def agents_ok_def tokens_ok_def
      sessions_ok_def audit_ok_def labels_valid_def label_closed is_alnum_cp_def)

lemma sample_hash: "\<exists>h. sha256_hex (Secret sample_token) = Inr h"
  by (simp add: sha256_hex_def utf8_encode_def scalar_def list_all_iff sample_token_def)

lemma sample_key_valid:
  "validate_node_ssh_host_public_key (\<lambda>k. Inr ()) sample_request_key = Inr sample_request_key"
proof -
  have "word [75]" "word [65]" by (simp_all add: word_def isspace_def)
  then show ?thesis
    using strip_two [of "[75]" "[65]"] split_two [of "[75]" "[65]"]
    by (simp add: validate_node_ssh_host_public_key_def sample_request_key_def Let_def)
qed

lemma sample_identity:
  "sha256_hex (Secret sample_token) = Inr h \<Longrightarrow> request_identity sample_enrollment = Inr ([119], h)"
  by (simp add: request_identity_Inr sample_enrollment_def node_name_closed is_alnum_cp_def sample_token_def)

lemma sample_row:
  "\<exists>row. token_row (token_db h) h = Some row \<and> token_matches h [119] (utc 0) row \<and>
     tk_node_ssh_host_public_key row = sample_request_key \<and> tk_labels row = [[100]]"
  by (simp add: token_row_def token_db_def token_matches_def)

lemma sample_enrolls:
  assumes "sha256_hex (Secret sample_token) = Inr h"
  shows "\<exists>resp st. enroll sample_deps (\<lambda>e. []) sample_fresh sample_enrollment (utc 0)
    \<lparr>st_store = token_db h, st_limiter = new_rate_limiter\<rparr> = (Inr resp, st)"
proof -
  obtain row where row: "token_row (token_db h) h = Some row" "token_matches h [119] (utc 0) row"
    "tk_node_ssh_host_public_key row = sample_request_key" "tk_labels row = [[100]]"
    using sample_row by blast
  obtain d where d: "pg_consume_enrollment_token (\<lambda>j. []) h [119] (utc 0) (token_db h) =
      (Inr (Some \<lparr>et_token_hash = h, et_node_name = [119], et_labels = [[100]],
         et_node_ssh_host_public_key = sample_request_key\<rparr>), d)" "pg_tokens_inv d"
    using pg_consume_found [OF token_db_inv row(1,2), of "\<lambda>j. []"] row(3,4) by auto
  have d2: "db_agents d = []" "db_sessions d = []" "db_audit d = []"
    "\<exists>t. db_tokens d = [t] \<and> tk_agent_id t = None \<and> tk_used t"
    using d(1)
    by (auto simp: pg_consume_enrollment_token_def exc_elims token_db_def empty_db_def update_where_def
        token_matches_def split: option.splits if_splits)
  have lim: "\<exists>l. is_limited [115] h (utc 0) new_rate_limiter = (False, l)"
    by (simp add: is_limited_def new_rate_limiter_def deque_at_def drop_old_def Let_def)
  have node: "validate_node_name [119] = Inr [119]"
    by (simp add: validate_node_name_Inr node_name_closed is_alnum_cp_def)
  have p: "\<exists>e. pg_persist_agent (utc 1) a d = (Inr (), e)" for a
  proof -
    obtain t where "db_tokens d = [t]" "tk_agent_id t = None" "tk_used t" using d2(4) by blast
    with d2(1-3) show ?thesis
      by (cases "tk_node_name t = sa_node_name a")
         (simp_all add: pg_persist_agent_def sbind_def sql_write_def wf_db_def agents_ok_def tokens_ok_def
            sessions_ok_def audit_ok_def update_where_def token_active_def)
  qed
  have pem: "load_agent_public_key (ed_load_pem sample_deps) [80] = Inr []"
    by (simp add: load_agent_public_key_def sample_deps_def ascii_def)
  have cert: "\<exists>c. issue_agent_client_certificate i [] [119] u 9 t AGENT_CERT_DEFAULT_LIFETIME_DAYS = Inr c" for i u t
    by (simp add: issue_agent_client_certificate_def AGENT_CERT_DEFAULT_LIFETIME_DAYS_def node Let_def)
  obtain c where c: "issue_agent_client_certificate [] [] [119] (uuid_text 5) 9 (utc 0)
      AGENT_CERT_DEFAULT_LIFETIME_DAYS = Inr c" using cert by blast
  obtain l where l: "is_limited [115] h (utc 0) new_rate_limiter = (False, l)" using lim by blast
  obtain e where e: "pg_persist_agent (utc 1)
     \<lparr>sa_agent_id = 5, sa_node_name = [119], sa_labels = [[100]], sa_x509_public_key = [80],
      sa_node_ssh_host_public_key = sample_request_key, sa_tunnel_secret_hash = h,
      sa_cert_serial = iac_serial c, sa_cert_expires_at = iac_expires_at c\<rparr> d = (Inr (), e)"
    using p by blast
  have "\<exists>resp f. complete_enrollment sample_deps sample_fresh sample_enrollment (utc 0) [119] h (token_db h)
      = (Inr resp, f)"
    using pem c e d(1) sample_key_valid assms
    by (simp add: complete_enrollment_def sbind_def sample_deps_def sample_fresh_def sample_enrollment_def
        write_audit_def)
  moreover have "er_source_address sample_enrollment = [115]" by (simp add: sample_enrollment_def)
  ultimately show ?thesis
    by (auto simp: enroll_Inr try_enroll_def sample_identity [OF assms] in_store_def l as_utc_eq)
qed

lemma enrollment_is_authorised_witness:
  "\<exists>h resp st st'. enroll sample_deps (\<lambda>e. []) sample_fresh sample_enrollment (utc 0) st = (Inr resp, st') \<and>
     st_store st = token_db h \<and> length (db_agents (st_store st')) = 1"
proof -
  obtain h where h: "sha256_hex (Secret sample_token) = Inr h" using sample_hash by blast
  let ?st = "\<lparr>st_store = token_db h, st_limiter = new_rate_limiter\<rparr>"
  obtain resp st' where s: "enroll sample_deps (\<lambda>e. []) sample_fresh sample_enrollment (utc 0) ?st = (Inr resp, st')"
    using sample_enrolls [OF h] by blast
  have "\<exists>row. db_agents (st_store st') = db_agents (st_store ?st) @ [row]"
    using enrollment_is_authorised [OF sample_service _ s] token_db_inv by auto
  then have "length (db_agents (st_store st')) = 1" by (auto simp: token_db_def empty_db_def)
  with s show ?thesis
    by (intro exI [of _ h] exI [of _ resp] exI [of _ ?st] exI [of _ st']) simp
qed

text \<open>C19: Presenting a token spends it, whatever happens next.  If a request names the node of a
  usable, unexpired token and is not rate limited, the token can never be used again afterwards,
  also when the enrollment fails; and it fails, without any change to the agents, when the
  presented host key is not the pinned one or when a row for the node exists already, revoked or
  not: one wrong request burns the token, and a node can be enrolled only once.\<close>

theorem presented_token_is_spent:
  assumes "pg_service deps" "pg_tokens_inv (st_store st)" "request_identity q = Inr (n, h)"
    "pg_view (st_store st) h = Some (n, ls, k, ex)" "instant now < ex"
    "\<not> fst (is_limited (er_source_address q) h (as_utc now) (st_limiter st))"
    "enroll deps cn fr q now st = (r, st')"
  shows "pg_tokens_inv (st_store st') \<and> pg_view (st_store st') h = None \<and>
    (validate_node_ssh_host_public_key (ed_import_key deps) (er_node_ssh_host_public_key q) \<noteq> Inr k \<or>
       n \<in> ag_node_name ` set (db_agents (st_store st)) \<longrightarrow>
     (\<exists>e. r = Inl e))"
proof -
  obtain l where l: "is_limited (er_source_address q) h (as_utc now) (st_limiter st) = (False, l)"
    using assms(6) by (cases "is_limited (er_source_address q) h (as_utc now) (st_limiter st)") auto
  obtain x d where c: "complete_enrollment deps fr q (as_utc now) n h (st_store st) = (x, d)"
    by (cases "complete_enrollment deps fr q (as_utc now) n h (st_store st)")
  have t: "try_enroll deps fr q (as_utc now) st = (x, st\<lparr>st_limiter := l, st_store := d\<rparr>)"
    by (simp add: try_enroll_def assms(3) l in_store_def c)
  have sp: "pg_tokens_inv d \<and> pg_view d h = None"
    using complete_spends [OF assms(1,2) aware_as_utc assms(4) _ c] assms(5) by simp
  have "pg_tokens_inv (st_store st') \<and> pg_view (st_store st') h = None"
    using enroll_store [OF assms(1,7) t] sp by simp
  moreover have "\<exists>e. r = Inl e" if bad: "validate_node_ssh_host_public_key (ed_import_key deps)
      (er_node_ssh_host_public_key q) \<noteq> Inr k \<or> n \<in> ag_node_name ` set (db_agents (st_store st))"
  proof (cases r)
    case (Inr resp)
    with assms(7) t have "x = Inr resp" by (simp add: enroll_Inr)
    with complete_row [OF assms(1,2) aware_as_utc c [unfolded this]] assms(4) bad show ?thesis by auto
  qed simp
  ultimately show ?thesis by blast
qed

lemma presented_token_is_spent_witness:
  "\<exists>h e st st'. st_store st = token_db h \<and>
     enroll sample_deps (\<lambda>e. []) sample_fresh
       (sample_enrollment\<lparr>er_node_ssh_host_public_key := []\<rparr>) (utc 0) st = (Inl e, st') \<and>
     pg_view (st_store st') h = None"
proof -
  obtain h where h: "sha256_hex (Secret sample_token) = Inr h" using sample_hash by blast
  let ?st = "\<lparr>st_store = token_db h, st_limiter = new_rate_limiter\<rparr>"
  let ?q = "sample_enrollment\<lparr>er_node_ssh_host_public_key := []\<rparr>"
  have q: "request_identity ?q = Inr ([119], h)"
    using sample_identity [OF h] by (simp add: request_identity_def)
  have v: "pg_view (token_db h) h = Some ([119], [[100]], sample_request_key, 100)"
    by (simp add: pg_view_def token_row_def token_db_def pg_token_view_def)
  have l: "\<not> fst (is_limited (er_source_address ?q) h (as_utc (utc 0)) (st_limiter ?st))"
    by (simp add: is_limited_def new_rate_limiter_def deque_at_def drop_old_def Let_def)
  obtain r st' where e: "enroll sample_deps (\<lambda>e. []) sample_fresh ?q (utc 0) ?st = (r, st')" by fastforce
  have k: "validate_node_ssh_host_public_key (ed_import_key sample_deps) (er_node_ssh_host_public_key ?q)
      \<noteq> Inr sample_request_key"
    by (simp add: validate_node_ssh_host_public_key_def strip_def lstrip_def rstrip_def)
  have "pg_view (st_store st') h = None \<and> (\<exists>e. r = Inl e)"
    using presented_token_is_spent [OF sample_service _ q _ _ l e, of "[[100]]" sample_request_key 100]
      v k token_db_inv by simp
  with e show ?thesis
    by (intro exI [of _ h] exI [of _ "projl r"] exI [of _ ?st] exI [of _ st']) auto
qed

text \<open>C20: Failed enrollments do not tell why.  Whatever the store, the keys and the request are, a
  failed call of the service raises \<open>EnrollmentError("enrollment failed")\<close>, unless the audit writer
  itself raised while recording the failure or the token contains a surrogate; then the other error
  escapes.  Unless the token contains a surrogate, the limiter records the failure before anything
  else can go wrong; a token with a surrogate is never counted.\<close>

theorem failures_are_generic:
  assumes "enroll deps cn fr q now st = (Inl e, st')"
  shows "(e = EnrollmentError ''enrollment failed'' \<or> \<not> list_all scalar (er_token q) \<or>
      (\<exists>w a s s'. ed_audit deps = Some w \<and> w a s = (Inl e, s'))) \<and>
    (list_all scalar (er_token q) \<longrightarrow>
      (\<exists>h l. best_effort_token_hash (er_token q) = Inr h \<and>
         (l = st_limiter st \<or> (\<exists>k. l = snd (is_limited (er_source_address q) k (as_utc now) (st_limiter st)))) \<and>
         st_limiter st' = record_failure (er_source_address q) h (as_utc now) l))"
proof -
  obtain z u where z: "try_enroll deps fr q (as_utc now) st = (z, u)"
    by (cases "try_enroll deps fr q (as_utc now) st")
  with assms obtain x where x: "z = Inl x" by (cases z) (auto simp: enroll_def stry_def)
  note t = z [unfolded x]
  have f: "(sbind (record_enrollment_failure deps cn q (as_utc now) x)
      (\<lambda>_. sraise (EnrollmentError ''enrollment failed'')) :: (_, EnrollmentResponse) op) u = (Inl e, st')"
    using assms t by (simp add: enroll_def stry_def)
  have u: "st_limiter u = st_limiter st \<or>
      (\<exists>k. st_limiter u = snd (is_limited (er_source_address q) k (as_utc now) (st_limiter st)))"
    using t by (auto simp: try_enroll_def in_store_def split: sum.splits prod.splits if_splits) (metis snd_conv)+
  have hash: "list_all scalar (er_token q) \<Longrightarrow> \<exists>h. best_effort_token_hash (er_token q) = Inr h"
    by (auto simp: best_effort_token_hash_def SecretValue_def sha256_hex_def utf8_encode_def
        split: sum.splits)
  show ?thesis
  proof (cases "best_effort_token_hash (er_token q)")
    case (Inl y)
    then show ?thesis using hash by auto
  next
    case (Inr h)
    let ?v = "u\<lparr>st_limiter := record_failure (er_source_address q) h (as_utc now) (st_limiter u)\<rparr>"
    have "(e = EnrollmentError ''enrollment failed'' \<or> (\<exists>w a s s'. ed_audit deps = Some w \<and> w a s = (Inl e, s')))
        \<and> st_limiter st' = st_limiter ?v"
      using f Inr
      by (auto simp: record_enrollment_failure_def sbind_def in_store_def write_audit_def
          split: sum.splits prod.splits option.splits)
    with u Inr show ?thesis by auto
  qed
qed

lemma failures_are_generic_witness:
  "\<exists>e st'. enroll sample_deps (\<lambda>e. []) sample_fresh (sample_enrollment\<lparr>er_token := []\<rparr>) (utc 0)
     \<lparr>st_store = empty_db, st_limiter = new_rate_limiter\<rparr> = (Inl e, st') \<and>
     e = EnrollmentError ''enrollment failed''"
proof -
  let ?q = "sample_enrollment\<lparr>er_token := []\<rparr>"
  let ?st = "\<lparr>st_store = empty_db, st_limiter = new_rate_limiter\<rparr>"
  have "request_identity ?q = Inl (SecretError ''secret value must be generated with at least 256 bits'')"
    by (simp add: request_identity_def sample_enrollment_def validate_node_name_def node_name_closed
        is_alnum_cp_def SecretValue_def GENERATED_SECRET_MIN_CHARS_def)
  then have t: "try_enroll sample_deps sample_fresh ?q (as_utc (utc 0)) ?st =
      (Inl (SecretError ''secret value must be generated with at least 256 bits''), ?st)"
    by (simp add: try_enroll_def)
  obtain r st' where r: "enroll sample_deps (\<lambda>e. []) sample_fresh ?q (utc 0) ?st = (r, st')" by fastforce
  with t obtain e where "r = Inl e" by (cases r) (auto simp: enroll_Inr)
  with r have e: "enroll sample_deps (\<lambda>e. []) sample_fresh ?q (utc 0) ?st = (Inl e, st')" by simp
  with failures_are_generic [OF e] show ?thesis by (auto simp: sample_deps_def)
qed

section \<open>Issuing a token\<close>

text \<open>Creating an agent leaves the node with exactly one usable token, the new one: after a
  successful call the hash of the returned token is usable for the node with the validated labels
  and the normalised host key for seven days, no other token of this node is usable any more, and
  the tokens of other nodes are as before.\<close>

theorem create_agent_issues_one_token:
  assumes "pg_service deps" "pg_tokens_inv db"
    "create_agent deps token clock now n labels hk cb db = (Inr p, db')"
  shows "pg_tokens_inv db' \<and> sha256_hex token = Inr (cp_token_hash p) \<and> cp_token p = token \<and>
    (\<exists>k. validate_node_ssh_host_public_key (ed_import_key deps) hk = Inr k \<and>
       pg_view db' (cp_token_hash p) = Some (n, labels, k, instant now + days 7)) \<and>
    (\<forall>h. h \<noteq> cp_token_hash p \<longrightarrow> pg_view db' h = without_node n (pg_view db) h)"
proof -
  obtain k d q where c: "py_fullmatch NODE_NAME_PATTERN n" "labels_valid labels"
    "sha256_hex token = Inr (cp_token_hash p)" "cp_token p = token"
    "validate_node_ssh_host_public_key (ed_import_key deps) hk = Inr k"
    "ed_create deps clock (cp_token_hash p) n labels k cb (plus_delta (as_utc now) (days 7)) db = (Inr (), d)"
    "write_audit deps q d = (Inr (), db')"
  proof -
    have lab: "rmap validate_label labels = Inr ls \<Longrightarrow> ls = labels \<and> labels_valid labels" for ls
      by (subst (asm) rmap_id) (auto simp: exc_elims labels_valid_def)
    show thesis
      using assms(3) that unfolding create_agent_def
      by (auto simp: exc_elims ENROLLMENT_TOKEN_LIFETIME_DAYS_def Let_def dest!: lab)
  qed
  have cr: "pg_create_enrollment_token clock (cp_token_hash p) n labels k cb
      (plus_delta (as_utc now) (days 7)) db = (Inr (), d)"
    using c(6) assms(1) by (simp add: pg_service_def)
  have d: "pg_tokens_inv d"
    "pg_view d = (without_node n (pg_view db))(cp_token_hash p \<mapsto> (n, labels, k, instant now + days 7))"
    using pg_create_ok [OF assms(2) c(2) cr] by simp_all
  show ?thesis using write_audit_frame [OF assms(1) c(7) d(1)] d c by auto
qed

lemma create_agent_issues_one_token_witness:
  "\<exists>p db'. create_agent sample_deps (Secret sample_token) (utc 0) (utc 0) [119] [[100]] sample_request_key [97]
     empty_db = (Inr p, db') \<and> pg_view db' (cp_token_hash p) = Some ([119], [[100]], sample_request_key, days 7)"
proof -
  obtain h where h: "sha256_hex (Secret sample_token) = Inr h" using sample_hash by blast
  have w: "wf_db empty_db" by simp
  have v: "rmap validate_label [[100]] = Inr [[100]]" "validate_node_name [119] = Inr [119]"
    by (simp_all add: validate_label_def validate_node_name_def label_closed node_name_closed is_alnum_cp_def)
  have "\<exists>p db'. create_agent sample_deps (Secret sample_token) (utc 0) (utc 0) [119] [[100]] sample_request_key [97]
     empty_db = (Inr p, db')"
    using h v sample_key_valid
    by (simp add: create_agent_def sbind_def sample_deps_def pg_create_enrollment_token_def
        pg_disable_tokens_def sql_write_def empty_db_def update_where_def wf_db_def agents_ok_def
        tokens_ok_def sessions_ok_def audit_ok_def write_audit_def Let_def)
  then obtain p db' where p: "create_agent sample_deps (Secret sample_token) (utc 0) (utc 0) [119] [[100]]
      sample_request_key [97] empty_db = (Inr p, db')" by blast
  have "pg_tokens_inv empty_db" by (simp add: pg_tokens_inv_def) (simp add: empty_db_def)
  from create_agent_issues_one_token [OF sample_service this p] p sample_key_valid show ?thesis
    by (auto simp: sample_deps_def)
qed

end
