(* ===== verification/Replay.thy ===== *)
theory Replay
  imports Audit_Log "HOL-Library.List_Lexorder"
begin

text \<open>
  \<open>vibeconnect_common/replay.py\<close>: asciinema recordings with an HMAC.  The replay directory is an
  association list from file names to contents and modification times.  Any input or output
  operation may raise \<open>OSError\<close>: \<open>fs_faults\<close> says of the next operations which do, and when it is
  used up none does.  The name of a temporary file and the spelling of a float are arguments.
\<close>

section \<open>HMAC-SHA-256\<close>

definition sha256_digest :: "bytes \<Rightarrow> bytes" where
  "sha256_digest m =
     concat (map (\<lambda>w. big_endian 4 (unat w)) (sha_blocks sha_init (words_of (sha_pad m))))"

definition hmac_block_key :: "bytes \<Rightarrow> bytes" where
  "hmac_block_key key =
     (let k = (if length key > 64 then sha256_digest key else key) in k @ replicate (64 - length k) 0)"

definition hmac_sha256_hex :: "bytes \<Rightarrow> bytes \<Rightarrow> pystr" where
  "hmac_sha256_hex key msg =
     (let k = hmac_block_key key
      in sha256_hexdigest (map (\<lambda>b. b XOR 92) k @ sha256_digest (map (\<lambda>b. b XOR 54) k @ msg)))"

section \<open>The replay directory\<close>

record replay_file =
  rf_content :: bytes
  rf_mtime :: int

record filesystem =
  fs_files :: "(pystr \<times> replay_file) list"
  fs_honours_modes :: bool
  fs_faults :: "bool list"

definition io :: "(filesystem \<Rightarrow> filesystem) \<Rightarrow> (filesystem, unit) op" where
  "io f fs = (case fs_faults fs of
     [] \<Rightarrow> (Inr (), f fs)
   | True # r \<Rightarrow> (Inl (OSError ''input/output error''), fs\<lparr>fs_faults := r\<rparr>)
   | False # r \<Rightarrow> (Inr (), f (fs\<lparr>fs_faults := r\<rparr>)))"

definition file_content :: "filesystem \<Rightarrow> pystr \<Rightarrow> bytes option" where
  "file_content fs n = map_option rf_content (map_of (fs_files fs) n)"

definition put_file :: "pystr \<Rightarrow> bytes \<Rightarrow> filesystem \<Rightarrow> filesystem" where
  "put_file n b fs = fs\<lparr>fs_files := AList.update n
     \<lparr>rf_content = b, rf_mtime = (case map_of (fs_files fs) n of None \<Rightarrow> 0 | Some f \<Rightarrow> rf_mtime f)\<rparr>
     (fs_files fs)\<rparr>"

definition remove_file :: "pystr \<Rightarrow> filesystem \<Rightarrow> filesystem" where
  "remove_file n fs = fs\<lparr>fs_files := AList.delete n (fs_files fs)\<rparr>"

text \<open>\<open>os.replace\<close>.\<close>

definition rename_file :: "pystr \<Rightarrow> pystr \<Rightarrow> filesystem \<Rightarrow> filesystem" where
  "rename_file a b fs = (case map_of (fs_files fs) a of
     None \<Rightarrow> fs | Some f \<Rightarrow> fs\<lparr>fs_files := AList.update b f (AList.delete a (fs_files fs))\<rparr>)"

definition unlink_if_exists :: "pystr \<Rightarrow> (filesystem, unit) op" where
  "unlink_if_exists n fs =
     (if map_of (fs_files fs) n = None then (Inr (), fs) else io (remove_file n) fs)"

section \<open>One recording\<close>

record ReplayRecorder =
  rr_session_id :: uuid
  rr_path :: pystr
  rr_temp_path :: pystr
  rr_written :: bytes
  rr_file_closed :: bool
  rr_integrity_key :: bytes
  rr_has_audit_sink :: bool
  rr_closed :: bool

record ReplayCloseResult =
  rc_path :: pystr
  rc_hmac_hex :: pystr
  rc_ended_at :: datetime

text \<open>The events handed to the audit sink, in order.\<close>

record replay_event =
  re_event_type :: AuditEventType
  re_session_id :: "uuid option"
  re_metadata :: pyval

record replay_world =
  rw_recorder :: ReplayRecorder
  rw_fs :: filesystem
  rw_events :: "replay_event list"

definition on_fs :: "(filesystem, 'a) op \<Rightarrow> (replay_world, 'a) op" where
  "on_fs m w = (case m (rw_fs w) of (r, fs) \<Rightarrow> (r, w\<lparr>rw_fs := fs\<rparr>))"

definition set_recorder :: "(ReplayRecorder \<Rightarrow> ReplayRecorder) \<Rightarrow> replay_world \<Rightarrow> replay_world" where
  "set_recorder f w = w\<lparr>rw_recorder := f (rw_recorder w)\<rparr>"

text \<open>What the buffered file object holds reaches the temporary file when it is flushed.\<close>

definition flush_recorder :: "(replay_world, unit) op" where
  "flush_recorder w =
     on_fs (io (put_file (rr_temp_path (rw_recorder w)) (rr_written (rw_recorder w)))) w"

definition write_line :: "pystr \<Rightarrow> (replay_world, unit) op" where
  "write_line line = (case utf8_encode line of
     None \<Rightarrow> sraise (ValueError ''surrogates not allowed'')
   | Some b \<Rightarrow> sbind (on_fs (io (\<lambda>fs. fs))) (\<lambda>_.
       smodify (set_recorder (\<lambda>r. r\<lparr>rr_written := rr_written r @ b @ [10]\<rparr>))))"

definition close_file :: "(replay_world, unit) op" where
  "close_file w =
     (if rr_file_closed (rw_recorder w) then (Inr (), w)
      else sbind flush_recorder (\<lambda>_. smodify (set_recorder (\<lambda>r. r\<lparr>rr_file_closed := True\<rparr>))) w)"

definition replay_fail :: "pystr \<Rightarrow> (replay_world, unit) op" where
  "replay_fail err w =
     (if rr_closed (rw_recorder w) then (Inr (), w)
      else sbind (smodify (set_recorder (\<lambda>r. r\<lparr>rr_closed := True\<rparr>))) (\<lambda>_.
           sbind close_file (\<lambda>_.
           sbind (smodify (\<lambda>w. if rr_has_audit_sink (rw_recorder w) then w\<lparr>rw_events := rw_events w @
               [\<lparr>re_event_type = REPLAY_WRITE_FAILED, re_session_id = Some (rr_session_id (rw_recorder w)),
                 re_metadata = PDict [(str ''replay_path'', PStr (rr_path (rw_recorder w))),
                                      (str ''error'', PStr err)]\<rparr>]\<rparr> else w)) (\<lambda>_.
           on_fs (unlink_if_exists (rr_temp_path (rw_recorder w)))))) w)"

definition replay_close :: "datetime \<Rightarrow> (replay_world, ReplayCloseResult) op" where
  "replay_close now w =
     (if rr_closed (rw_recorder w) then (Inl (ReplayError ''replay is already closed''), w)
      else let rec = rw_recorder w in
        sbind (smodify (set_recorder (\<lambda>r. r\<lparr>rr_closed := True\<rparr>))) (\<lambda>_.
        sbind flush_recorder (\<lambda>_.
        sbind (on_fs (io (\<lambda>fs. fs))) (\<lambda>_.
        sbind close_file (\<lambda>_.
        sbind (on_fs (io (rename_file (rr_temp_path rec) (rr_path rec)))) (\<lambda>_.
        sbind (on_fs (io (\<lambda>fs. fs))) (\<lambda>_.
        sbind (sget (\<lambda>w. file_content (rw_fs w) (rr_path rec))) (\<lambda>found. case found of
            None \<Rightarrow> sraise (FileNotFoundError ''replay file'')
          | Some replay_bytes \<Rightarrow>
              sret \<lparr>rc_path = rr_path rec, rc_hmac_hex = hmac_sha256_hex (rr_integrity_key rec) replay_bytes,
                    rc_ended_at = as_utc now\<rparr>))))))) w)"

text \<open>\<open>secs\<close> is \<open>repr\<close> of the float.\<close>

definition event_line :: "pystr \<Rightarrow> pystr \<Rightarrow> pystr \<Rightarrow> pystr" where
  "event_line secs stream data = json_print (JArr [JFloat secs, JStr stream, JStr data])"

fun os_message :: "exc \<Rightarrow> string" where
  "os_message (OSError m) = m"
| "os_message (FileNotFoundError m) = m"
| "os_message _ = []"

definition replay_record :: "pystr \<Rightarrow> pystr \<Rightarrow> pystr \<Rightarrow> (replay_world, unit) op" where
  "replay_record secs stream data w =
     (if rr_closed (rw_recorder w) then (Inl (ReplayError ''replay is already closed''), w)
      else stry (write_line (event_line secs stream data)) is_os_error (\<lambda>e.
             sbind (replay_fail (str (os_message e))) (\<lambda>_.
             sraise (ReplayError ''replay write failed''))) w)"

definition record_output :: "pystr \<Rightarrow> pystr \<Rightarrow> (replay_world, unit) op" where
  "record_output secs data = replay_record secs (str ''o'') data"

definition record_input :: "pystr \<Rightarrow> pystr \<Rightarrow> (replay_world, unit) op" where
  "record_input secs data = replay_record secs (str ''i'') data"

section \<open>Starting a recording\<close>

definition header_line :: "pystr \<Rightarrow> int \<Rightarrow> int \<Rightarrow> datetime \<Rightarrow> pystr" where
  "header_line node_name width height started_at =
     json_print (JObj [(str ''version'', JInt 2), (str ''command'', JStr node_name),
       (str ''width'', JInt width), (str ''height'', JInt height),
       (str ''timestamp'', JInt ((let t = instant started_at in
          if 0 \<le> t then t div 1000000 else - (- t div 1000000))))])"

definition prepare_replay_directory :: "(filesystem, unit) op" where
  "prepare_replay_directory =
     sbind (io (\<lambda>fs. fs)) (\<lambda>_.
     sbind (io (\<lambda>fs. fs)) (\<lambda>_.
     sbind (io (\<lambda>fs. fs)) (\<lambda>_.
     sbind (sget fs_honours_modes) (\<lambda>ok.
     srequire ok (ReplayError ''replay directory must have mode 0700'')))))"

definition new_recorder :: "uuid \<Rightarrow> pystr \<Rightarrow> bytes \<Rightarrow> bool \<Rightarrow> ReplayRecorder" where
  "new_recorder session_id temp_name key sink =
     \<lparr>rr_session_id = session_id, rr_path = uuid_text session_id @ str ''.cast'',
      rr_temp_path = temp_name, rr_written = [], rr_file_closed = False, rr_integrity_key = key,
      rr_has_audit_sink = sink, rr_closed = False\<rparr>"

text \<open>\<open>ReplayRecorder.__init__\<close>: the header is written.\<close>

definition open_recorder ::
  "ReplayRecorder \<Rightarrow> pystr \<Rightarrow> int \<Rightarrow> int \<Rightarrow> datetime \<Rightarrow> (filesystem, ReplayRecorder) op" where
  "open_recorder rec node_name width height started_at fs =
     (case write_line (header_line node_name width height started_at)
             \<lparr>rw_recorder = rec, rw_fs = fs, rw_events = []\<rparr> of
        (Inl e, w) \<Rightarrow> (Inl e, rw_fs w)
      | (Inr _, w) \<Rightarrow> (Inr (rw_recorder w), rw_fs w))"

text \<open>\<open>ReplayWriter.start\<close> of a writer with the given key and sink.\<close>

definition replay_start ::
  "bytes \<Rightarrow> bool \<Rightarrow> pystr \<Rightarrow> uuid \<Rightarrow> pystr \<Rightarrow> int \<Rightarrow> int \<Rightarrow> datetime \<Rightarrow> (filesystem, ReplayRecorder) op" where
  "replay_start key sink temp_name session_id node_name width height now =
     sbind prepare_replay_directory (\<lambda>_.
     sbind (stry (sbind (io (put_file temp_name [])) (\<lambda>_.
                  sbind (io (\<lambda>fs. fs)) (\<lambda>_. io (\<lambda>fs. fs)))) is_os_error
              (\<lambda>e. sraise (ReplayError ''replay file cannot be created''))) (\<lambda>_.
     stry (open_recorder (new_recorder session_id temp_name key sink) node_name width height (as_utc now))
       is_os_error (\<lambda>e.
         sbind (io (\<lambda>fs. fs)) (\<lambda>_.
         sbind (unlink_if_exists temp_name) (\<lambda>_.
         sraise (ReplayError ''replay file cannot be created''))))))"

definition ReplayWriter :: "bytes \<Rightarrow> bytes result" where
  "ReplayWriter integrity_key =
     (if integrity_key = [] then Inl (ReplayError ''replay integrity key is required'')
      else Inr integrity_key)"

definition verify_replay_hmac :: "pystr \<Rightarrow> bytes \<Rightarrow> pystr \<Rightarrow> (filesystem, bool) op" where
  "verify_replay_hmac path integrity_key expected_hmac =
     sbind (io (\<lambda>fs. fs)) (\<lambda>_.
     sbind (sget (\<lambda>fs. file_content fs path)) (\<lambda>found. case found of
       None \<Rightarrow> sraise (FileNotFoundError ''replay file'')
     | Some b \<Rightarrow> slift (constant_time_equal (hmac_sha256_hex integrity_key b) expected_hmac)))"

section \<open>Pruning\<close>

text \<open>\<open>path.stem\<close> of a name that ends in \<open>.cast\<close>.\<close>

definition cast_stem :: "pystr \<Rightarrow> pystr" where
  "cast_stem n = (if n = str ''.cast'' then n else take (length n - 5) n)"

definition is_cast :: "pystr \<Rightarrow> bool" where
  "is_cast n \<longleftrightarrow> drop (length n - 5) n = str ''.cast''"

record 's prune_world =
  pw_fs :: filesystem
  pw_store :: 's

definition prune_fs :: "(filesystem, 'a) op \<Rightarrow> ('s prune_world, 'a) op" where
  "prune_fs m w = (case m (pw_fs w) of (r, fs) \<Rightarrow> (r, w\<lparr>pw_fs := fs\<rparr>))"

definition prune_store :: "('s, 'a) op \<Rightarrow> ('s prune_world, 'a) op" where
  "prune_store m w = (case m (pw_store w) of (r, s) \<Rightarrow> (r, w\<lparr>pw_store := s\<rparr>))"

text \<open>The loop over the sorted names; \<open>clear\<close> is \<open>prune_replay_pointer\<close>.\<close>

fun prune_loop ::
  "(uuid \<Rightarrow> ('s, unit) op) \<Rightarrow> int \<Rightarrow> pystr list \<Rightarrow> pystr list \<Rightarrow> ('s prune_world, pystr list) op" where
  "prune_loop clear cutoff [] pruned w = (Inr pruned, w)"
| "prune_loop clear cutoff (n # ns) pruned w =
     (case map_of (fs_files (pw_fs w)) n of
        None \<Rightarrow> (Inl (FileNotFoundError ''replay file''), w)
      | Some f \<Rightarrow>
          sbind (prune_fs (io (\<lambda>fs. fs))) (\<lambda>_.
            if cutoff \<le> rf_mtime f then prune_loop clear cutoff ns pruned
            else (case uuid_of_text (cast_stem n) of
                None \<Rightarrow> sraise (ValueError ''badly formed hexadecimal UUID string'')
              | Some session_id \<Rightarrow>
                  sbind (prune_fs (io (remove_file n))) (\<lambda>_.
                  sbind (prune_store (clear session_id)) (\<lambda>_.
                  prune_loop clear cutoff ns (pruned @ [n]))))) w)"

definition replay_pruned_audit_metadata :: "pystr list \<Rightarrow> pyval" where
  "replay_pruned_audit_metadata paths =
     PDict [(str ''event_type'', PStr (AuditEventType_value REPLAY_PRUNED)),
            (str ''pruned_count'', PInt (int (length paths))),
            (str ''replay_paths'', PList (map PStr paths))]"

definition prune_replays ::
  "int \<Rightarrow> (uuid \<Rightarrow> ('s, unit) op) \<Rightarrow> (replay_event \<Rightarrow> ('s, unit) op) option \<Rightarrow> datetime \<Rightarrow>
   ('s prune_world, pystr list) op" where
  "prune_replays retention_days clear audit_sink now =
     sbind (srequire (1 \<le> retention_days) (ReplayError ''retention_days must be positive'')) (\<lambda>_.
     sbind (sget (\<lambda>w. sort (filter is_cast (map fst (fs_files (pw_fs w)))))) (\<lambda>names.
     sbind (prune_loop clear (instant (as_utc now) - days retention_days) names []) (\<lambda>pruned.
     sbind (case audit_sink of
         Some write_event \<Rightarrow>
           if pruned \<noteq> [] then prune_store (write_event \<lparr>re_event_type = REPLAY_PRUNED,
             re_session_id = None, re_metadata = replay_pruned_audit_metadata pruned\<rparr>)
           else sret ()
       | None \<Rightarrow> sret ()) (\<lambda>_.
     sret pruned))))"

end
