(* ===== verification/Jump.thy ===== *)
theory Jump
  imports Broker Auth Replay
begin

text \<open>
  \<open>server/jump.py\<close>: the session rows of a jump, the checks before a node connection is opened, and
  the bridge that records and forwards the bytes of an open session.  One state holds what the
  objects share: the database, the replay directory, the recorders by session id, the tunnel broker
  and the state \<open>'c\<close> of the node channel.  Fresh identifiers are arguments, and the AsyncSSH calls
  (\<open>asyncssh.connect\<close>, \<open>asyncssh.import_known_hosts\<close>) are parameters; \<open>connect\<close> may do anything to
  the broker, since the handshake runs through the tunnel.
\<close>

section \<open>Rows\<close>

record JumpTarget =
  jt_agent_id :: uuid
  jt_node_name :: pystr
  jt_node_ssh_host_public_key :: pystr
  jt_heartbeat :: HeartbeatState

record JumpSession =
  js_session_id :: uuid
  js_user_cert_serial :: int
  js_replay_path :: pystr
  js_started_at :: datetime

text \<open>\<open>sj_replay\<close> is a reference to the recorder, \<open>sj_node_connection\<close> the AsyncSSH connection.\<close>

record StartedJump =
  sj_session :: JumpSession
  sj_target :: JumpTarget
  sj_user_certificate :: IssuedUserCertificate
  sj_replay :: uuid
  sj_channel_id :: channel_id
  sj_node_connection :: nat

section \<open>PostgresJumpStore\<close>

definition get_jump_target :: "int \<Rightarrow> pystr \<Rightarrow> (database, JumpTarget option) op" where
  "get_jump_target heartbeat_seconds node_name db =
     (case find (\<lambda>r. ag_node_name r = node_name \<and> \<not> ag_revoked r) (db_agents db) of
        None \<Rightarrow> (Inr None, db)
      | Some r \<Rightarrow>
          (rbind (new_heartbeat heartbeat_seconds) (\<lambda>heartbeat.
             Inr (Some \<lparr>jt_agent_id = ag_id r, jt_node_name = ag_node_name r,
               jt_node_ssh_host_public_key = ag_node_ssh_host_public_key r,
               jt_heartbeat = (case ag_last_seen r of
                  None \<Rightarrow> heartbeat | Some t \<Rightarrow> mark_seen t heartbeat)\<rparr>)), db))"

text \<open>The serial is the next value of a sequence, which a failing insert also uses up.\<close>

definition open_row :: "uuid \<Rightarrow> uuid \<Rightarrow> pystr \<Rightarrow> pystr \<Rightarrow> datetime \<Rightarrow> int \<Rightarrow> sessions_row" where
  "open_row session_id agent_id username replay_path started_at serial =
     \<lparr>se_id = session_id, se_agent_id = agent_id, se_user_name = username,
      se_user_cert_serial = serial, se_started_at = as_utc started_at, se_ended_at = None,
      se_replay_path = replay_path, se_replay_hmac = None, se_status = SessionStatus_value OPEN\<rparr>"

definition pg_create_session ::
  "uuid \<Rightarrow> uuid \<Rightarrow> pystr \<Rightarrow> pystr \<Rightarrow> datetime \<Rightarrow> (database, JumpSession) op" where
  "pg_create_session session_id agent_id username replay_path started_at =
     sbind (srequire (pg_text username \<and> pg_text replay_path) (PostgresError ''invalid text'')) (\<lambda>_.
     sbind (sget db_next_serial) (\<lambda>serial.
     sbind (smodify (\<lambda>d. d\<lparr>db_next_serial := serial + 1\<rparr>)) (\<lambda>_.
     sbind (sql_write (\<lambda>d. d\<lparr>db_sessions := db_sessions d @
              [open_row session_id agent_id username replay_path started_at serial]\<rparr>)) (\<lambda>_.
     sret \<lparr>js_session_id = session_id, js_user_cert_serial = serial,
           js_replay_path = replay_path, js_started_at = as_utc started_at\<rparr>))))"

definition pg_close_session ::
  "uuid \<Rightarrow> SessionStatus \<Rightarrow> datetime \<Rightarrow> pystr \<Rightarrow> pystr option \<Rightarrow> (database, unit) op" where
  "pg_close_session session_id status ended_at replay_path replay_hmac =
     sbind (srequire (pg_text replay_path \<and> (case replay_hmac of None \<Rightarrow> True | Some h \<Rightarrow> pg_text h))
       (PostgresError ''invalid text'')) (\<lambda>_.
     sql_write (\<lambda>d. d\<lparr>db_sessions := update_where
       (\<lambda>r. se_id r = session_id \<and> se_status r = str ''open'')
       (\<lambda>r. r\<lparr>se_status := SessionStatus_value status, se_ended_at := Some (as_utc ended_at),
              se_replay_path := replay_path, se_replay_hmac := replay_hmac\<rparr>) (db_sessions d)\<rparr>))"

definition fail_session :: "uuid \<Rightarrow> datetime \<Rightarrow> (database, unit) op" where
  "fail_session session_id ended_at =
     pg_close_session session_id FAILED ended_at (uuid_text session_id @ str ''.cast'') None"

section \<open>The shared state\<close>

record 'c jump_world =
  jw_db :: database
  jw_fs :: filesystem
  jw_recorders :: "uuid \<rightharpoonup> ReplayRecorder"
  jw_events :: "replay_event list"
  jw_broker :: ServerTunnelBroker
  jw_channel :: 'c

definition jump_db :: "(database, 'a) op \<Rightarrow> ('c jump_world, 'a) op" where
  "jump_db m w = (case m (jw_db w) of (r, d) \<Rightarrow> (r, w\<lparr>jw_db := d\<rparr>))"

definition jump_fs :: "(filesystem, 'a) op \<Rightarrow> ('c jump_world, 'a) op" where
  "jump_fs m w = (case m (jw_fs w) of (r, fs) \<Rightarrow> (r, w\<lparr>jw_fs := fs\<rparr>))"

definition jump_broker :: "(ServerTunnelBroker, 'a) op \<Rightarrow> ('c jump_world, 'a) op" where
  "jump_broker m w = (case m (jw_broker w) of (r, b) \<Rightarrow> (r, w\<lparr>jw_broker := b\<rparr>))"

definition jump_channel :: "('c, 'a) op \<Rightarrow> ('c jump_world, 'a) op" where
  "jump_channel m w = (case m (jw_channel w) of (r, c) \<Rightarrow> (r, w\<lparr>jw_channel := c\<rparr>))"

text \<open>A method of the recorder behind a reference; references never dangle.\<close>

definition jump_replay :: "uuid \<Rightarrow> (replay_world, 'a) op \<Rightarrow> ('c jump_world, 'a) op" where
  "jump_replay ref m w =
     (case m \<lparr>rw_recorder = the (jw_recorders w ref), rw_fs = jw_fs w, rw_events = jw_events w\<rparr> of
        (r, v) \<Rightarrow> (r, w\<lparr>jw_recorders := (jw_recorders w)(ref \<mapsto> rw_recorder v), jw_fs := rw_fs v,
                      jw_events := rw_events v\<rparr>))"

section \<open>Host keys and node connections\<close>

definition validate_pinned_host_key :: "pystr option \<Rightarrow> pystr option \<Rightarrow> pystr result" where
  "validate_pinned_host_key expected_host_key presented_host_key =
     (if expected_host_key = None \<or> expected_host_key = Some []
      then Inl (JumpError ''node sshd host key is not pinned'')
      else if presented_host_key = None \<or> presented_host_key = Some []
      then Inl (JumpError ''node sshd host key was not presented'')
      else if presented_host_key \<noteq> expected_host_key
      then Inl (JumpError ''node sshd host key mismatch'')
      else Inr (the presented_host_key))"

text \<open>The keyword arguments of \<open>asyncssh.connect\<close>; \<open>known_hosts\<close> is the text that was imported.\<close>

record node_connect =
  nc_host :: pystr
  nc_port :: int
  nc_tunnel :: stream_ref
  nc_username :: pystr
  nc_client_key :: "bytes \<times> ssh_user_cert"
  nc_known_hosts :: pystr
  nc_agent_forwarding :: bool
  nc_x11_forwarding :: bool

record node_opener =
  no_node_port :: int
  no_import_known_hosts :: "pystr \<Rightarrow> unit result"
  no_connect :: "node_connect \<Rightarrow> (ServerTunnelBroker, nat) op"

fun is_asyncssh_error :: "exc \<Rightarrow> bool" where
  "is_asyncssh_error (AsyncSshError _) = True"
| "is_asyncssh_error _ = False"

definition AsyncSshNodeTunnelOpener ::
  "(pystr \<Rightarrow> unit result) \<Rightarrow> (node_connect \<Rightarrow> (ServerTunnelBroker, nat) op) \<Rightarrow> int \<Rightarrow> node_opener result" where
  "AsyncSshNodeTunnelOpener import_known_hosts connect node_port =
     (if \<not> (1 \<le> node_port \<and> node_port \<le> 65535)
      then Inl (JumpError ''node sshd port is outside valid TCP port bounds'')
      else Inr \<lparr>no_node_port = node_port, no_import_known_hosts = import_known_hosts, no_connect = connect\<rparr>)"

definition known_hosts_for_node :: "(pystr \<Rightarrow> unit result) \<Rightarrow> pystr \<Rightarrow> int \<Rightarrow> pystr \<Rightarrow> pystr result" where
  "known_hosts_for_node import_known_hosts node_name port host_public_key =
     (let host_pattern = (if port \<noteq> 22 then str ''['' @ node_name @ str '']:'' @ show_int port else node_name);
          text = host_pattern @ str '' '' @ strip host_public_key @ [10]
      in rewrap (rbind (import_known_hosts text) (\<lambda>_. Inr text)) is_asyncssh_error
           (\<lambda>e. JumpError ''node sshd host key is invalid''))"

text \<open>\<open>now\<close>, \<open>request_id\<close> and \<open>close_id\<close> are drawn by the broker.\<close>

definition opener_open_session ::
  "node_opener \<Rightarrow> datetime \<Rightarrow> pystr \<Rightarrow> pystr \<Rightarrow> uuid \<Rightarrow> channel_id \<Rightarrow> pystr \<Rightarrow> pystr \<Rightarrow> pystr \<Rightarrow>
   IssuedUserCertificate \<Rightarrow> (ServerTunnelBroker, nat) op" where
  "opener_open_session opener now request_id close_id agent_id channel_id node_name
       node_ssh_host_public_key username user_certificate =
     sbind (srequire (iuc_username user_certificate = username)
       (JumpError ''user certificate principal mismatch'')) (\<lambda>_.
     sbind (srequire (node_ssh_host_public_key \<noteq> [])
       (JumpError ''node sshd host key is not pinned'')) (\<lambda>_.
     sbind (open_session agent_id channel_id node_name node_ssh_host_public_key username
              user_certificate now request_id) (\<lambda>_.
     sbind (\<lambda>b. (connector_for_agent agent_id channel_id b, b)) (\<lambda>connector.
     sbind (slift (known_hosts_for_node (no_import_known_hosts opener) node_name
              (no_node_port opener) node_ssh_host_public_key)) (\<lambda>known_hosts.
     stry (no_connect opener
             \<lparr>nc_host = node_name, nc_port = no_node_port opener, nc_tunnel = connector,
              nc_username = username,
              nc_client_key = (iuc_private_key user_certificate, iuc_certificate user_certificate),
              nc_known_hosts = known_hosts, nc_agent_forwarding = False, nc_x11_forwarding = False\<rparr>)
       (\<lambda>e. is_os_error e \<or> is_asyncssh_error e)
       (\<lambda>e. sbind (close_session channel_id close_id) (\<lambda>_.
            sraise (JumpError ''node SSH connection failed''))))))))"

section \<open>The coordinator\<close>

text \<open>
  What \<open>ServerJumpCoordinator.__init__\<close> is given: the store and the writer are the ones of this
  development, the certificate issuer and the opener are objects with one method.
\<close>

record jump_deps =
  jd_heartbeat_seconds :: int
  jd_replay_key :: bytes
  jd_replay_sink :: bool
  jd_issue :: "pystr \<Rightarrow> uuid \<Rightarrow> int \<Rightarrow> datetime \<Rightarrow> IssuedUserCertificate result"
  jd_open_node :: "datetime \<Rightarrow> pystr \<Rightarrow> pystr \<Rightarrow> uuid \<Rightarrow> channel_id \<Rightarrow> pystr \<Rightarrow> pystr \<Rightarrow> pystr \<Rightarrow>
     IssuedUserCertificate \<Rightarrow> (ServerTunnelBroker, nat) op"
  jd_audit_sink :: bool

text \<open>\<open>_RuntimeUserCertificateIssuer.issue\<close> of \<open>server/main.py\<close>.\<close>

definition runtime_issue ::
  "bytes \<times> bytes \<Rightarrow> int \<Rightarrow> pystr \<Rightarrow> uuid \<Rightarrow> int \<Rightarrow> datetime \<Rightarrow> IssuedUserCertificate result" where
  "runtime_issue session_key ttl_hours username session_id serial now =
     issue_user_ssh_certificate session_key username (uuid_text session_id) serial now ttl_hours"

text \<open>The identifiers, file name and clock readings drawn during one jump.\<close>

record jump_fresh =
  jf_path_id :: uuid
  jf_session_id :: uuid
  jf_channel_id :: uuid
  jf_audit_id :: uuid
  jf_temp_name :: pystr
  jf_request_id :: pystr
  jf_close_id :: pystr
  jf_now :: datetime

fun is_auth_error :: "exc \<Rightarrow> bool" where
  "is_auth_error (AuthError _) = True"
| "is_auth_error _ = False"

fun is_jump_error :: "exc \<Rightarrow> bool" where
  "is_jump_error (JumpError _) = True"
| "is_jump_error _ = False"

fun is_replay_error :: "exc \<Rightarrow> bool" where
  "is_replay_error (ReplayError _) = True"
| "is_replay_error _ = False"

text \<open>\<open>str(exc)\<close> of the \<open>AuthError\<close> the handler caught.\<close>

fun auth_message :: "exc \<Rightarrow> pystr" where
  "auth_message (AuthError m) = str m"
| "auth_message _ = []"

definition jump_audit :: "jump_fresh \<Rightarrow> audit_request \<Rightarrow> ('c jump_world, unit) op" where
  "jump_audit f q = sbind (jump_db (audit_write (jf_audit_id f) (jf_now f) q)) (\<lambda>_. sret ())"

definition audit_denial ::
  "jump_deps \<Rightarrow> jump_fresh \<Rightarrow> pystr \<Rightarrow> uuid option \<Rightarrow> pystr option \<Rightarrow> pystr \<Rightarrow> datetime \<Rightarrow> uuid option \<Rightarrow>
   ('c jump_world, unit) op" where
  "audit_denial d f actor agent_id node_name reason now session_id =
     (if \<not> jd_audit_sink d then sret ()
      else jump_audit f \<lparr>aq_event_type = NODE_AUTHORIZATION_DENIED, aq_actor = actor,
             aq_metadata = PDict [(str ''reason'', PStr reason)], aq_agent_id = agent_id,
             aq_session_id = session_id, aq_node_name = node_name, aq_now = Some now\<rparr>)"

text \<open>The checks before the session row: command, target, host key and freshness.\<close>

definition select_node ::
  "jump_deps \<Rightarrow> jump_fresh \<Rightarrow> ResolvedIdentity \<Rightarrow> pystr \<Rightarrow> NodeInventoryEntry list \<Rightarrow> datetime \<Rightarrow>
   ('c jump_world, pystr) op" where
  "select_node d f identity command visible_nodes now =
     stry (slift (parse_restricted_shell_command command (map ni_node_name visible_nodes)))
       is_auth_error (\<lambda>e.
         sbind (audit_denial d f (id_username identity) None None (auth_message e) now None) (\<lambda>_.
         sraise (JumpError ''node command is not authorized'')))"

definition select_target ::
  "jump_deps \<Rightarrow> jump_fresh \<Rightarrow> ResolvedIdentity \<Rightarrow> pystr \<Rightarrow> pystr option \<Rightarrow> datetime \<Rightarrow>
   ('c jump_world, JumpTarget) op" where
  "select_target d f identity node_name presented now =
     sbind (jump_db (get_jump_target (jd_heartbeat_seconds d) node_name)) (\<lambda>found. case found of
       None \<Rightarrow>
         sbind (audit_denial d f (id_username identity) None (Some node_name) (str ''missing'') now None) (\<lambda>_.
         sraise (JumpError ''authorized node has no active tunnel''))
     | Some target \<Rightarrow>
         sbind (slift (validate_pinned_host_key (Some (jt_node_ssh_host_public_key target)) presented)) (\<lambda>_.
         if \<not> allows_new_jump now (jt_heartbeat target)
         then sbind (audit_denial d f (id_username identity) (Some (jt_agent_id target)) (Some node_name)
                       (str ''stale tunnel'') now None) (\<lambda>_.
              sraise (JumpError ''agent tunnel is not fresh enough for new jumps''))
         else sret target))"

text \<open>The mandatory recording; its recorder is stored under the session id.\<close>

definition start_recording ::
  "jump_deps \<Rightarrow> jump_fresh \<Rightarrow> ResolvedIdentity \<Rightarrow> JumpTarget \<Rightarrow> JumpSession \<Rightarrow> pystr \<Rightarrow> int \<Rightarrow> int \<Rightarrow>
   datetime \<Rightarrow> ('c jump_world, unit) op" where
  "start_recording d f identity target session node_name width height now =
     sbind (stry (jump_fs (replay_start (jd_replay_key d) (jd_replay_sink d) (jf_temp_name f)
              (js_session_id session) node_name width height (js_started_at session)))
        is_replay_error (\<lambda>e.
          sbind (jump_db (fail_session (js_session_id session) now)) (\<lambda>_.
          sbind (audit_denial d f (id_username identity) (Some (jt_agent_id target)) (Some node_name)
                   (str ''replay start failed'') now (Some (js_session_id session))) (\<lambda>_.
          sraise (JumpError ''replay capture is required''))))) (\<lambda>recorder.
     smodify (\<lambda>w. w\<lparr>jw_recorders := (jw_recorders w)(js_session_id session \<mapsto> recorder)\<rparr>))"

definition open_node_connection ::
  "jump_deps \<Rightarrow> jump_fresh \<Rightarrow> ResolvedIdentity \<Rightarrow> JumpTarget \<Rightarrow> JumpSession \<Rightarrow> pystr \<Rightarrow>
   IssuedUserCertificate \<Rightarrow> datetime \<Rightarrow> ('c jump_world, nat) op" where
  "open_node_connection d f identity target session node_name user_certificate now =
     stry (jump_broker (jd_open_node d (jf_now f) (jf_request_id f) (jf_close_id f) (jt_agent_id target)
             (uuid_text (jf_channel_id f)) node_name (jt_node_ssh_host_public_key target)
             (id_username identity) user_certificate))
       is_jump_error (\<lambda>e.
         sbind (jump_replay (js_session_id session) (replay_fail (str ''node SSH connection failed''))) (\<lambda>_.
         sbind (jump_db (fail_session (js_session_id session) now)) (\<lambda>_.
         sbind (audit_denial d f (id_username identity) (Some (jt_agent_id target)) (Some node_name)
                  (str ''node SSH connection failed'') now (Some (js_session_id session))) (\<lambda>_.
         sraise (JumpError ''node SSH connection failed'')))))"

text \<open>What follows the session row.\<close>

definition run_jump ::
  "jump_deps \<Rightarrow> jump_fresh \<Rightarrow> ResolvedIdentity \<Rightarrow> JumpTarget \<Rightarrow> JumpSession \<Rightarrow> pystr \<Rightarrow> int \<Rightarrow> int \<Rightarrow>
   datetime \<Rightarrow> ('c jump_world, StartedJump) op" where
  "run_jump d f identity target session node_name width height now =
     sbind (start_recording d f identity target session node_name width height now) (\<lambda>_.
     sbind (slift (jd_issue d (id_username identity) (js_session_id session)
              (js_user_cert_serial session) now)) (\<lambda>user_certificate.
     if iuc_username user_certificate \<noteq> id_username identity
     then sbind (jump_replay (js_session_id session) (replay_fail (str ''certificate principal mismatch''))) (\<lambda>_.
          sbind (jump_db (fail_session (js_session_id session) now)) (\<lambda>_.
          sraise (JumpError ''user certificate principal mismatch'')))
     else
     sbind (open_node_connection d f identity target session node_name user_certificate now) (\<lambda>node_connection.
     sbind (if \<not> jd_audit_sink d then sret ()
            else jump_audit f \<lparr>aq_event_type = SESSION_STARTED, aq_actor = id_username identity,
              aq_metadata = PDict [(str ''status'', PStr (SessionStatus_value OPEN))],
              aq_agent_id = Some (jt_agent_id target), aq_session_id = Some (js_session_id session),
              aq_node_name = Some node_name, aq_now = Some now\<rparr>) (\<lambda>_.
     sret \<lparr>sj_session = session, sj_target = target, sj_user_certificate = user_certificate,
           sj_replay = js_session_id session, sj_channel_id = uuid_text (jf_channel_id f),
           sj_node_connection = node_connection\<rparr>))))"

definition start_jump ::
  "jump_deps \<Rightarrow> jump_fresh \<Rightarrow> ResolvedIdentity \<Rightarrow> pystr \<Rightarrow> NodeInventoryEntry list \<Rightarrow> pystr option \<Rightarrow>
   int \<Rightarrow> int \<Rightarrow> datetime \<Rightarrow> ('c jump_world, StartedJump) op" where
  "start_jump d f identity command visible_nodes presented width height now =
     sbind (select_node d f identity command visible_nodes now) (\<lambda>node_name.
     sbind (select_target d f identity node_name presented now) (\<lambda>target.
     sbind (jump_db (pg_create_session (jf_session_id f) (jt_agent_id target) (id_username identity)
              (uuid_text (jf_path_id f) @ str ''.cast'') now)) (\<lambda>session.
     run_jump d f identity target session node_name width height now)))"

section \<open>The bridge of an open session\<close>

text \<open>
  The node channel is the \<open>TunnelPtyChannel\<close> interface over a state \<open>'c\<close>.  \<open>br_replay_dir\<close> is the
  text before the file name in \<open>str(replay_result.path)\<close>; the audit id and clock of the closing
  event are drawn when it is written.
\<close>

record 'c pty_channel =
  pc_send_data :: "channel_id \<Rightarrow> bytes \<Rightarrow> ('c, unit) op"
  pc_resize_pty :: "channel_id \<Rightarrow> int \<Rightarrow> int \<Rightarrow> ('c, unit) op"
  pc_close_session :: "channel_id \<Rightarrow> ('c, unit) op"

record 'c JumpPtyBridge =
  br_jump :: StartedJump
  br_channel :: "'c pty_channel"
  br_audit_sink :: bool
  br_session_state_store :: bool
  br_replay_dir :: pystr
  br_closed :: bool

record 'c bridge_world =
  bw_bridge :: "'c JumpPtyBridge"
  bw_world :: "'c jump_world"

definition bridge_do :: "('c jump_world, 'a) op \<Rightarrow> ('c bridge_world, 'a) op" where
  "bridge_do m s = (case m (bw_world s) of (r, w) \<Rightarrow> (r, s\<lparr>bw_world := w\<rparr>))"

definition ensure_open :: "('c bridge_world, unit) op" where
  "ensure_open s = (require (\<not> br_closed (bw_bridge s)) (JumpError ''jump channel is closed''), s)"

definition send_user_input :: "pystr \<Rightarrow> bytes \<Rightarrow> ('c bridge_world, unit) op" where
  "send_user_input secs payload s =
     (let j = br_jump (bw_bridge s); ch = br_channel (bw_bridge s) in
      sbind ensure_open (\<lambda>_.
      sbind (bridge_do (jump_replay (sj_replay j) (record_input secs (decode_surrogateescape payload)))) (\<lambda>_.
      bridge_do (jump_channel (pc_send_data ch (sj_channel_id j) payload)))) s)"

definition receive_node_output :: "pystr \<Rightarrow> bytes \<Rightarrow> ('c bridge_world, bytes) op" where
  "receive_node_output secs payload s =
     (let j = br_jump (bw_bridge s) in
      sbind ensure_open (\<lambda>_.
      sbind (bridge_do (jump_replay (sj_replay j) (record_output secs (decode_surrogateescape payload)))) (\<lambda>_.
      sret payload)) s)"

definition bridge_resize_pty :: "int \<Rightarrow> int \<Rightarrow> ('c bridge_world, unit) op" where
  "bridge_resize_pty width height s =
     (let j = br_jump (bw_bridge s); ch = br_channel (bw_bridge s) in
      sbind ensure_open (\<lambda>_.
      sbind (srequire (0 < width \<and> 0 < height) (JumpError ''PTY size must be positive'')) (\<lambda>_.
      bridge_do (jump_channel (pc_resize_pty ch (sj_channel_id j) width height)))) s)"

text \<open>\<open>error or status.value\<close>.\<close>

definition error_text :: "pystr option \<Rightarrow> SessionStatus \<Rightarrow> pystr" where
  "error_text err status = (case err of
     None \<Rightarrow> SessionStatus_value status
   | Some e \<Rightarrow> if e = [] then SessionStatus_value status else e)"

text \<open>The end of the recording: its result, the event and the metadata of the closing audit event.\<close>

definition end_recording ::
  "StartedJump \<Rightarrow> pystr \<Rightarrow> SessionStatus \<Rightarrow> datetime \<Rightarrow> pystr option \<Rightarrow>
   ('c jump_world, ReplayCloseResult option \<times> AuditEventType \<times> pyval) op" where
  "end_recording j dir status now err =
     (if status = CLOSED then
        sbind (jump_replay (sj_replay j) (replay_close now)) (\<lambda>replay_result.
        sret (Some replay_result, SESSION_CLOSED,
          PDict [(str ''status'', PStr (SessionStatus_value status)),
                 (str ''replay_path'', PStr (dir @ rc_path replay_result)),
                 (str ''replay_hmac'', PStr (rc_hmac_hex replay_result))]))
      else if status = FAILED \<or> status = TERMINATED then
        sbind (jump_replay (sj_replay j) (replay_fail (error_text err status))) (\<lambda>_.
        sret (None, SESSION_FAILED,
          PDict [(str ''status'', PStr (SessionStatus_value status)),
                 (str ''error'', PStr (error_text err status))]))
      else sraise (JumpError ''unsupported terminal session status''))"

definition bridge_close ::
  "uuid \<Rightarrow> datetime \<Rightarrow> SessionStatus \<Rightarrow> datetime \<Rightarrow> pystr option \<Rightarrow> ('c bridge_world, unit) op" where
  "bridge_close audit_id clock status now err s =
     (let b = bw_bridge s; j = br_jump b in
      if br_closed b then (Inr (), s)
      else sbind (smodify (\<lambda>s. s\<lparr>bw_bridge := (bw_bridge s)\<lparr>br_closed := True\<rparr>\<rparr>)) (\<lambda>_.
        bridge_do (
          sbind (end_recording j (br_replay_dir b) status now err) (\<lambda>(replay_result, event_type, metadata).
          sbind (if \<not> br_session_state_store b then sret ()
                 else jump_db (pg_close_session (js_session_id (sj_session j)) status now
                   (case replay_result of Some r \<Rightarrow> br_replay_dir b @ rc_path r
                                        | None \<Rightarrow> js_replay_path (sj_session j))
                   (map_option rc_hmac_hex replay_result))) (\<lambda>_.
          sbind (jump_channel (pc_close_session (br_channel b) (sj_channel_id j))) (\<lambda>_.
          if \<not> br_audit_sink b then sret ()
          else sbind (jump_db (audit_write audit_id clock
            \<lparr>aq_event_type = event_type, aq_actor = iuc_username (sj_user_certificate j),
             aq_metadata = metadata, aq_agent_id = Some (jt_agent_id (sj_target j)),
             aq_session_id = Some (js_session_id (sj_session j)),
             aq_node_name = Some (jt_node_name (sj_target j)), aq_now = Some now\<rparr>)) (\<lambda>_. sret ())))))) s)"

section \<open>AsyncSshJumpSessionLifecycle\<close>

text \<open>An exception is its \<open>str\<close> and the name of its class.\<close>

definition lifecycle_connection_lost ::
  "uuid \<Rightarrow> datetime \<Rightarrow> (pystr \<times> pystr) option \<Rightarrow> datetime \<Rightarrow> ('c bridge_world, unit) op" where
  "lifecycle_connection_lost audit_id clock exc now = (case exc of
     None \<Rightarrow> bridge_close audit_id clock CLOSED now None
   | Some (text, class_name) \<Rightarrow>
       bridge_close audit_id clock FAILED now (Some (if text \<noteq> [] then text else class_name)))"

definition lifecycle_terminate ::
  "uuid \<Rightarrow> datetime \<Rightarrow> pystr \<Rightarrow> datetime \<Rightarrow> ('c bridge_world, unit) op" where
  "lifecycle_terminate audit_id clock reason now =
     bridge_close audit_id clock TERMINATED now (Some reason)"

section \<open>TunnelStreamAdapter\<close>

record TunnelStreamAdapter =
  ts_channel_id :: channel_id
  ts_incoming :: "bytes option list"
  ts_closed :: bool
  ts_eof :: bool

record 'c adapter_world =
  aw_adapter :: TunnelStreamAdapter
  aw_channel :: 'c

definition new_stream_adapter :: "channel_id \<Rightarrow> TunnelStreamAdapter result" where
  "new_stream_adapter channel_id =
     (if channel_id = [] then Inl (JumpError ''channel_id is required'')
      else Inr \<lparr>ts_channel_id = channel_id, ts_incoming = [], ts_closed = False, ts_eof = False\<rparr>)"

text \<open>A read of an empty queue waits: \<open>None\<close>.\<close>

definition adapter_read :: "TunnelStreamAdapter \<Rightarrow> (bytes \<times> TunnelStreamAdapter) option" where
  "adapter_read a =
     (if ts_eof a \<and> ts_incoming a = [] then Some ([], a)
      else (case ts_incoming a of
         [] \<Rightarrow> None
       | None # r \<Rightarrow> Some ([], a\<lparr>ts_incoming := r, ts_eof := True\<rparr>)
       | Some payload # r \<Rightarrow> Some (payload, a\<lparr>ts_incoming := r\<rparr>)))"

definition adapter_feed_data :: "bytes \<Rightarrow> (TunnelStreamAdapter, unit) op" where
  "adapter_feed_data payload a =
     (if ts_closed a then (Inl (JumpError ''jump channel is closed''), a)
      else if ts_eof a then (Inl (JumpError ''jump channel has reached EOF''), a)
      else (Inr (), a\<lparr>ts_incoming := ts_incoming a @ [Some payload]\<rparr>))"

definition adapter_feed_eof :: "TunnelStreamAdapter \<Rightarrow> TunnelStreamAdapter" where
  "adapter_feed_eof a =
     (if ts_eof a then a else a\<lparr>ts_incoming := ts_incoming a @ [None], ts_eof := True\<rparr>)"

definition adapter_channel :: "('c, 'a) op \<Rightarrow> ('c adapter_world, 'a) op" where
  "adapter_channel m s = (case m (aw_channel s) of (r, c) \<Rightarrow> (r, s\<lparr>aw_channel := c\<rparr>))"

definition adapter_ensure_open :: "('c adapter_world, unit) op" where
  "adapter_ensure_open s = (require (\<not> ts_closed (aw_adapter s)) (JumpError ''jump channel is closed''), s)"

definition adapter_write :: "'c pty_channel \<Rightarrow> bytes \<Rightarrow> ('c adapter_world, unit) op" where
  "adapter_write ch payload s =
     sbind adapter_ensure_open (\<lambda>_.
       adapter_channel (pc_send_data ch (ts_channel_id (aw_adapter s)) payload)) s"

definition adapter_resize_pty :: "'c pty_channel \<Rightarrow> int \<Rightarrow> int \<Rightarrow> ('c adapter_world, unit) op" where
  "adapter_resize_pty ch width height s =
     sbind adapter_ensure_open (\<lambda>_.
     sbind (srequire (0 < width \<and> 0 < height) (JumpError ''PTY size must be positive'')) (\<lambda>_.
       adapter_channel (pc_resize_pty ch (ts_channel_id (aw_adapter s)) width height))) s"

definition adapter_close :: "'c pty_channel \<Rightarrow> ('c adapter_world, unit) op" where
  "adapter_close ch s =
     (if ts_closed (aw_adapter s) then (Inr (), s)
      else sbind (smodify (\<lambda>s. s\<lparr>aw_adapter := adapter_feed_eof ((aw_adapter s)\<lparr>ts_closed := True\<rparr>)\<rparr>)) (\<lambda>_.
           adapter_channel (pc_close_session ch (ts_channel_id (aw_adapter s)))) s)"

end
