(* ===== verification/Replay_Facts.thy ===== *)
theory Replay_Facts
  imports Replay
begin

text \<open>
  A published replay gives every byte back, and its HMAC covers exactly the published file; a
  recording that fails leaves no file behind.
\<close>

section \<open>Reading a replay\<close>

text \<open>A float as \<open>repr\<close> writes it in the positional form: digits, a point, digits.\<close>

definition float_text :: "pystr \<Rightarrow> bool" where
  "float_text t \<longleftrightarrow> (\<exists>n f. t = digits_of n @ 46 # f \<and> f \<noteq> [] \<and> list_all is_ascii_digit f)"

lemma float_starts: "float_text t \<Longrightarrow> \<exists>c r. t = c # r \<and> is_ascii_digit c"
  using digits_of_all digits_of_nonempty by (metis append_Cons float_text_def list.exhaust list.pred_inject(2))

lemma scan_literal_digit: "is_ascii_digit c \<Longrightarrow> scan_literal (c # r) = None"
  by (auto simp: scan_literal_def startswith_def str_def is_ascii_digit_def)

lemma scan_frac_digits:
  assumes "f \<noteq> []" "list_all is_ascii_digit f" "number_end r"
  shows "scan_frac (46 # f @ r) = (46 # f, r)"
proof -
  obtain d g where f: "f = d # g" "is_ascii_digit d" using assms(1,2) by (cases f) auto
  have "takeWhile is_ascii_digit (f @ r) = f" "dropWhile is_ascii_digit (f @ r) = r"
    using digits_end [OF assms(2) number_digit_end [OF assms(3)]] by simp_all
  with f show ?thesis by (simp add: scan_frac_def)
qed

lemma scan_number_float:
  assumes "float_text t" "number_end r"
  shows "scan_number (t @ r) = Some (JFloat t, r)"
proof -
  obtain n f where t: "t = digits_of n @ 46 # f" "f \<noteq> []" "list_all is_ascii_digit f"
    using assms(1) by (auto simp: float_text_def)
  have "scan_int (digits_of n @ 46 # f @ r) = Some (digits_of n, 46 # f @ r)"
    by (rule scan_int_stop) (simp add: digit_end_def is_ascii_digit_def)
  with scan_frac_digits [OF t(2,3) assms(2)] number_end_scan [OF assms(2)] show ?thesis
    by (simp add: scan_number_def t(1))
qed

lemma float_scans: "float_text t \<Longrightarrow> starts (JFloat t) \<and> scans (JFloat t)"
proof
  assume f: "float_text t"
  obtain c u where c: "t = c # u" "is_ascii_digit c" using float_starts [OF f] by blast
  then show "starts (JFloat t)" by (auto simp: starts_def value_start_def json_ws_def is_ascii_digit_def)
  show "scans (JFloat t)" unfolding scans_def
  proof (intro allI impI)
    fix n r assume "2 * length (json_print (JFloat t)) \<le> n" and r: "number_end r"
    then obtain m where n: "n = Suc m" using c by (cases n) auto
    have "scan_value (Suc m) (c # u @ r) =
        (case scan_literal (c # u @ r) of Some x \<Rightarrow> Some x | None \<Rightarrow> scan_number (c # u @ r))"
      using c(2) by (simp add: scan_value.simps is_ascii_digit_def)
    then show "scan_value n (json_print (JFloat t) @ r) = Some (JFloat t, r)"
      using scan_number_float [OF f r] scan_literal_digit [OF c(2)] by (simp add: n c(1))
  qed
qed

lemma string_starts: "starts (JStr s)"
  by (simp add: starts_def print_string_def value_start_def json_ws_def)

text \<open>One line of a replay reads back.\<close>

lemma event_line_loads:
  assumes "float_text t" "list_all json_cp k" "list_all json_cp d"
  shows "json_loads (event_line t k d) = Some (JArr [JFloat t, JStr k, JStr d])"
proof -
  let ?j = "JArr [JFloat t, JStr k, JStr d]"
  have s: "scans ?j" using float_scans [OF assms(1)] scans_string string_starts assms(2,3)
    by (intro scans_array) auto
  then have v: "scan_value (json_fuel (json_print ?j)) (json_print ?j @ []) = Some (?j, [])"
    by (intro scansD) (simp_all add: json_fuel_def)
  have w: "skip_ws (json_print ?j) = json_print ?j" by (simp add: skip_ws_def json_ws_def)
  show ?thesis using v w by (simp add: event_line_def json_loads_def skip_ws_def)
qed

text \<open>No line contains a line feed.\<close>

lemma hex4_printable: "c \<in> set (hex4 n) \<Longrightarrow> 48 \<le> c"
  by (auto simp: hex4_def hex_digit_def)

lemma escape_printable: "d \<in> set (escape_char c) \<Longrightarrow> 32 \<le> d"
  using hex4_printable by (fastforce simp: escape_char_def u_escape_def split: if_splits)

lemma print_string_printable: "c \<in> set (print_string s) \<Longrightarrow> 32 \<le> c"
  using escape_printable by (auto simp: print_string_def)

definition printable :: "pystr \<Rightarrow> bool" where
  "printable s \<longleftrightarrow> (\<forall>c \<in> set s. 32 \<le> c \<and> c < 128)"

lemma printable_string: "printable (print_string s)"
  using print_string_printable print_string_ascii by (auto simp: printable_def ascii_def)

lemma printable_append [simp]: "printable (a @ b) \<longleftrightarrow> printable a \<and> printable b"
  by (auto simp: printable_def)

lemma printable_Cons [simp]: "printable (c # s) \<longleftrightarrow> 32 \<le> c \<and> c < 128 \<and> printable s"
  by (auto simp: printable_def)

lemma printable_digits: "list_all is_ascii_digit s \<Longrightarrow> printable s"
  by (induction s) (auto simp: is_ascii_digit_def printable_def)

lemma printable_float: "float_text t \<Longrightarrow> printable t"
  using digits_of_all by (auto simp: float_text_def printable_digits)

lemma event_line_printable: "float_text t \<Longrightarrow> printable (event_line t k d)"
  using printable_float [of t] printable_string [of k] printable_string [of d]
  by (simp add: event_line_def) (simp add: printable_def)

lemma printable_int: "printable (show_int i)"
  using digits_of_all by (simp add: show_int_def printable_digits)

lemma header_line_printable: "printable (header_line n w h t)"
  using printable_string [of "str ''version''"] printable_string [of "str ''command''"] printable_string [of n]
    printable_string [of "str ''width''"] printable_string [of "str ''height''"]
    printable_string [of "str ''timestamp''"] printable_int
  unfolding header_line_def json_print.simps list.map join.simps prod.case
  by (simp add: Let_def) (simp add: printable_def)

lemma printable_ascii: "printable s \<Longrightarrow> ascii s"
  by (simp add: printable_def ascii_def)

fun split_lines :: "bytes \<Rightarrow> bytes \<Rightarrow> bytes list" where
  "split_lines acc [] = []"
| "split_lines acc (b # r) = (if b = 10 then rev acc # split_lines [] r else split_lines (b # acc) r)"

lemma split_lines_one: "10 \<notin> set l \<Longrightarrow> split_lines acc (l @ 10 # r) = (rev acc @ l) # split_lines [] r"
  by (induction l arbitrary: acc) auto

lemma split_lines_all: "\<forall>l \<in> set ls. 10 \<notin> set l \<Longrightarrow> split_lines [] (concat (map (\<lambda>l. l @ [10]) ls)) = ls"
  by (induction ls) (simp_all add: split_lines_one)

lemma printable_no_newline: "printable s \<Longrightarrow> 10 \<notin> set (ascii_bytes s)"
proof
  assume s: "printable s" and "10 \<in> set (ascii_bytes s)"
  then obtain c where c: "c \<in> set s" "(10 :: byte) = of_nat c" by (auto simp: ascii_bytes_def)
  with s have "32 \<le> c" "c < 128" by (auto simp: printable_def)
  moreover have "unat (of_nat c :: byte) = 10" unfolding c(2) [symmetric] by simp
  ultimately show False by (simp add: unat_of_nat_byte)
qed

section \<open>Recording\<close>

definition no_faults :: "replay_world \<Rightarrow> bool" where
  "no_faults w \<longleftrightarrow> fs_faults (rw_fs w) = []"

definition written :: "bytes \<Rightarrow> replay_world \<Rightarrow> replay_world" where
  "written b w = set_recorder (\<lambda>r. r\<lparr>rr_written := rr_written r @ b\<rparr>) w"

lemma io_ok [simp]: "fs_faults fs = [] \<Longrightarrow> io f fs = (Inr (), f fs)"
  by (simp add: io_def)

lemma io_fault [simp]:
  "fs_faults fs = True # r \<Longrightarrow> io f fs = (Inl (OSError ''input/output error''), fs\<lparr>fs_faults := r\<rparr>)"
  by (simp add: io_def)

lemma write_line_ok:
  "printable l \<Longrightarrow> no_faults w \<Longrightarrow> write_line l w = (Inr (), written (ascii_bytes l @ [10]) w)"
  by (simp add: write_line_def utf8_encode_ascii printable_ascii sbind_def on_fs_def no_faults_def written_def)

text \<open>One terminal event: input or output, its time and its bytes.\<close>

type_synonym pty_event = "bool \<times> pystr \<times> bytes"

definition event_text :: "pty_event \<Rightarrow> pystr" where
  "event_text ev = event_line (fst (snd ev)) (if fst ev then str ''i'' else str ''o'')
     (decode_surrogateescape (snd (snd ev)))"

fun play :: "pty_event list \<Rightarrow> (replay_world, unit) op" where
  "play [] w = (Inr (), w)"
| "play ((is_input, t, payload) # evs) w =
     sbind ((if is_input then record_input else record_output) t (decode_surrogateescape payload))
       (\<lambda>_. play evs) w"

definition events_ok :: "pty_event list \<Rightarrow> bool" where
  "events_ok evs \<longleftrightarrow> (\<forall>ev \<in> set evs. float_text (fst (snd ev)))"

definition lines_bytes :: "pystr list \<Rightarrow> bytes" where
  "lines_bytes ls = concat (map (\<lambda>l. l @ [10]) (map ascii_bytes ls))"

lemma lines_bytes_simps: "lines_bytes [] = []" "lines_bytes (l # ls) = ascii_bytes l @ 10 # lines_bytes ls"
  by (simp_all add: lines_bytes_def)

lemma written_written: "written b (written a w) = written (a @ b) w"
  by (simp add: written_def set_recorder_def)

lemma written_simps [simp]:
  "no_faults (written b w) = no_faults w" "rr_closed (rw_recorder (written b w)) = rr_closed (rw_recorder w)"
  "rw_fs (written b w) = rw_fs w" "written [] w = w"
  by (simp_all add: no_faults_def written_def set_recorder_def)

lemma play_ok:
  "events_ok evs \<Longrightarrow> no_faults w \<Longrightarrow> \<not> rr_closed (rw_recorder w) \<Longrightarrow>
     play evs w = (Inr (), written (lines_bytes (map event_text evs)) w)"
proof (induction evs w rule: play.induct)
  case (2 i t p evs w)
  have f: "float_text t" using 2(2) by (simp add: events_ok_def)
  have "(if i then record_input else record_output) t (decode_surrogateescape p) w =
      (Inr (), written (ascii_bytes (event_text (i, t, p)) @ [10]) w)"
    using write_line_ok [OF event_line_printable [OF f] 2(3)] 2(4)
    by (simp add: record_input_def record_output_def replay_record_def stry_def event_text_def)
  moreover have "play evs (written (ascii_bytes (event_text (i, t, p)) @ [10]) w) =
      (Inr (), written (lines_bytes (map event_text evs)) (written (ascii_bytes (event_text (i, t, p)) @ [10]) w))"
    using 2 by (intro 2(1)) (auto simp: events_ok_def)
  ultimately show ?case by (simp add: sbind_def written_written lines_bytes_simps)
qed (simp add: lines_bytes_simps)

text \<open>The events of a published file.\<close>

definition read_event :: "bytes \<Rightarrow> pty_event option" where
  "read_event l = (case utf8_decode l of
     None \<Rightarrow> None
   | Some t \<Rightarrow> (case json_loads t of
       Some (JArr [JFloat s, JStr k, JStr d]) \<Rightarrow> Some (k = str ''i'', s, encode_surrogateescape d)
     | _ \<Rightarrow> None))"

definition read_replay :: "bytes \<Rightarrow> pty_event list option" where
  "read_replay content = those (map read_event (tl (split_lines [] content)))"

lemma decoded_json_cp: "list_all json_cp (decode_surrogateescape b)"
proof -
  have "\<forall>x \<in> set (map unat b). x < 256" using unsigned_less [where 'b = 8] by auto
  then have "json_cp c" if "c \<in> set (dec_escape (map unat b))" for c
    using dec_escape_cps [OF _ that] by (auto simp: json_cp_def scalar_def)
  then show ?thesis by (simp add: decode_surrogateescape_def list_all_iff)
qed

lemma read_event_text: "float_text (fst (snd ev)) \<Longrightarrow> read_event (ascii_bytes (event_text ev)) = Some ev"
proof -
  assume f: "float_text (fst (snd ev))"
  have k: "list_all json_cp (if fst ev then str ''i'' else str ''o'')" by (simp add: str_def json_cp_def)
  have "ascii (event_text ev)"
    using printable_ascii [OF event_line_printable [OF f]] by (simp add: event_text_def)
  then show ?thesis
    using event_line_loads [OF f k decoded_json_cp]
    by (cases ev) (simp add: read_event_def utf8_decode_ascii event_text_def surrogateescape_roundtrip)
qed

lemma read_replay_lines:
  assumes "events_ok evs"
  shows "read_replay (lines_bytes (header_line n w h t # map event_text evs)) = Some evs"
proof -
  have "\<forall>l \<in> set (map ascii_bytes (header_line n w h t # map event_text evs)). 10 \<notin> set l"
    using assms printable_no_newline header_line_printable event_line_printable
    by (auto simp: events_ok_def event_text_def)
  then have "split_lines [] (lines_bytes (header_line n w h t # map event_text evs)) =
      map ascii_bytes (header_line n w h t # map event_text evs)"
    unfolding lines_bytes_def by (rule split_lines_all)
  moreover have "those (map read_event (map ascii_bytes (map event_text evs))) = Some evs"
    using assms by (induction evs) (auto simp: events_ok_def read_event_text)
  ultimately show ?thesis by (simp add: read_replay_def)
qed

section \<open>Publishing\<close>

lemma content_put [simp]:
  "file_content (put_file n b fs) m = (if m = n then Some b else file_content fs m)"
  by (simp add: file_content_def put_file_def update_conv')

lemma content_remove [simp]:
  "file_content (remove_file n fs) m = (if m = n then None else file_content fs m)"
  by (simp add: file_content_def remove_file_def delete_conv')

lemma content_rename:
  "file_content fs a = Some b \<Longrightarrow> a \<noteq> c \<Longrightarrow>
     file_content (rename_file a c fs) m = (if m = c then Some b else if m = a then None else file_content fs m)"
  by (auto simp: file_content_def rename_file_def update_conv' delete_conv' split: option.splits)

lemma faults_files [simp]:
  "fs_faults (put_file n b fs) = fs_faults fs" "fs_faults (remove_file n fs) = fs_faults fs"
  "fs_faults (rename_file n m fs) = fs_faults fs"
  by (simp_all add: put_file_def remove_file_def rename_file_def split: option.splits)

lemma close_ok:
  assumes "no_faults w" "\<not> rr_closed (rw_recorder w)" "\<not> rr_file_closed (rw_recorder w)"
    "rr_temp_path (rw_recorder w) \<noteq> rr_path (rw_recorder w)"
  shows "\<exists>w'. replay_close now w =
      (Inr \<lparr>rc_path = rr_path (rw_recorder w),
            rc_hmac_hex = hmac_sha256_hex (rr_integrity_key (rw_recorder w)) (rr_written (rw_recorder w)),
            rc_ended_at = as_utc now\<rparr>, w') \<and>
    no_faults w' \<and> rr_closed (rw_recorder w') \<and>
    (\<forall>m. file_content (rw_fs w') m =
       (if m = rr_path (rw_recorder w) then Some (rr_written (rw_recorder w))
        else if m = rr_temp_path (rw_recorder w) then None else file_content (rw_fs w) m))"
  using assms
  by (simp add: replay_close_def sbind_def flush_recorder_def on_fs_def set_recorder_def close_file_def
      no_faults_def Let_def content_rename)

lemma start_ok:
  assumes "fs_faults fs = []" "fs_honours_modes fs"
  shows "replay_start key sink temp sid n w h now fs =
    (Inr ((new_recorder sid temp key sink)\<lparr>rr_written := lines_bytes [header_line n w h (as_utc now)]\<rparr>),
     put_file temp [] fs)"
  using assms
  by (simp add: replay_start_def prepare_replay_directory_def sbind_def stry_def open_recorder_def
      write_line_ok header_line_printable no_faults_def written_def set_recorder_def new_recorder_def
      lines_bytes_simps put_file_def)

text \<open>A whole recording: start, the events, close.\<close>

definition record_session ::
  "bytes \<Rightarrow> bool \<Rightarrow> pystr \<Rightarrow> uuid \<Rightarrow> pystr \<Rightarrow> int \<Rightarrow> int \<Rightarrow> datetime \<Rightarrow> pty_event list \<Rightarrow> datetime \<Rightarrow>
   filesystem \<Rightarrow> ReplayCloseResult result \<times> filesystem" where
  "record_session key sink temp sid n w h now evs now' fs =
     (case replay_start key sink temp sid n w h now fs of
        (Inl e, fs') \<Rightarrow> (Inl e, fs')
      | (Inr rec, fs') \<Rightarrow>
          (case sbind (play evs) (\<lambda>_. replay_close now') \<lparr>rw_recorder = rec, rw_fs = fs', rw_events = []\<rparr> of
             (r, world) \<Rightarrow> (r, rw_fs world)))"

text \<open>C21: A replay gives every byte back.  On a directory where no operation fails, recording any
  terminal events, whatever bytes they carry, and closing publishes the file named after the session
  and nothing else; the published file reads back as exactly the recorded events in their order,
  with their times and their original bytes, the returned HMAC is the HMAC-SHA-256 of the published
  bytes, and verifying the file against it succeeds.\<close>

theorem replay_gives_every_byte_back:
  assumes "fs_faults fs = []" "fs_honours_modes fs" "events_ok evs"
    "temp \<noteq> uuid_text sid @ str ''.cast''" "file_content fs temp = None"
  shows "\<exists>res fs' content. record_session key sink temp sid n w h now evs now' fs = (Inr res, fs') \<and>
    rc_path res = uuid_text sid @ str ''.cast'' \<and> file_content fs' (rc_path res) = Some content \<and>
    read_replay content = Some evs \<and> rc_hmac_hex res = hmac_sha256_hex key content \<and>
    verify_replay_hmac (rc_path res) key (rc_hmac_hex res) fs' = (Inr True, fs') \<and>
    (\<forall>m. m \<noteq> rc_path res \<longrightarrow> file_content fs' m = file_content fs m)"
proof -
  define rec where "rec = (new_recorder sid temp key sink)\<lparr>rr_written := lines_bytes [header_line n w h (as_utc now)]\<rparr>"
  define w0 where "w0 = \<lparr>rw_recorder = rec, rw_fs = put_file temp [] fs, rw_events = []\<rparr>"
  define w1 where "w1 = written (lines_bytes (map event_text evs)) w0"
  have st: "replay_start key sink temp sid n w h now fs = (Inr rec, put_file temp [] fs)"
    using start_ok [OF assms(1,2)] by (simp add: rec_def)
  have w0: "no_faults w0" "\<not> rr_closed (rw_recorder w0)"
    using assms(1) by (simp_all add: w0_def no_faults_def rec_def new_recorder_def)
  have p: "play evs w0 = (Inr (), w1)" using play_ok [OF assms(3) w0] by (simp add: w1_def)
  have r1: "rw_recorder w1 = rec\<lparr>rr_written := lines_bytes (header_line n w h (as_utc now) # map event_text evs)\<rparr>"
    "rw_fs w1 = put_file temp [] fs"
    by (simp_all add: w1_def w0_def written_def set_recorder_def rec_def lines_bytes_simps)
  let ?content = "lines_bytes (header_line n w h (as_utc now) # map event_text evs)"
  have pre: "no_faults w1" "\<not> rr_closed (rw_recorder w1)" "\<not> rr_file_closed (rw_recorder w1)"
    "rr_temp_path (rw_recorder w1) \<noteq> rr_path (rw_recorder w1)"
    using w0 assms(4) by (simp_all add: w1_def) (simp_all add: written_def set_recorder_def w0_def rec_def new_recorder_def)
  obtain w2 where c: "replay_close now' w1 =
      (Inr \<lparr>rc_path = uuid_text sid @ str ''.cast'', rc_hmac_hex = hmac_sha256_hex key ?content,
            rc_ended_at = as_utc now'\<rparr>, w2)" "no_faults w2"
    "\<forall>m. file_content (rw_fs w2) m = (if m = uuid_text sid @ str ''.cast'' then Some ?content
        else if m = temp then None else file_content (put_file temp [] fs) m)"
    using close_ok [OF pre, of now'] unfolding r1 by (auto simp: rec_def new_recorder_def)
  have run: "record_session key sink temp sid n w h now evs now' fs =
      (Inr \<lparr>rc_path = uuid_text sid @ str ''.cast'', rc_hmac_hex = hmac_sha256_hex key ?content,
            rc_ended_at = as_utc now'\<rparr>, rw_fs w2)"
    using p c(1) by (simp add: record_session_def st sbind_def w0_def)
  have ver: "verify_replay_hmac (uuid_text sid @ str ''.cast'') key (hmac_sha256_hex key ?content) (rw_fs w2)
      = (Inr True, rw_fs w2)"
    using c(2,3)
    by (simp add: verify_replay_hmac_def sbind_def no_faults_def constant_time_equal_def
        sha256_hexdigest_is_ascii hmac_sha256_hex_def Let_def)
  show ?thesis
    using run ver c(3) read_replay_lines [OF assms(3), of n w h "as_utc now"] assms(5)
    by (intro exI [of _ "\<lparr>rc_path = uuid_text sid @ str ''.cast'',
        rc_hmac_hex = hmac_sha256_hex key ?content, rc_ended_at = as_utc now'\<rparr>"]
        exI [of _ "rw_fs w2"] exI [of _ ?content]) auto
qed

definition empty_fs :: filesystem where
  "empty_fs = \<lparr>fs_files = [], fs_honours_modes = True, fs_faults = []\<rparr>"

lemma replay_gives_every_byte_back_witness:
  "\<exists>res fs' content. record_session [1] True [46] 7 (str ''web1'') 80 24 (utc 0)
     [(True, str ''0.5'', [108, 115, 13]), (False, str ''1.25'', [255, 10, 34])] (utc 9) empty_fs = (Inr res, fs') \<and>
   file_content fs' (rc_path res) = Some content \<and>
   read_replay content = Some [(True, str ''0.5'', [108, 115, 13]), (False, str ''1.25'', [255, 10, 34])]"
proof -
  have "digits_of 0 = [48]" "digits_of 1 = [49]" by (simp_all add: digits_of.simps)
  then have "float_text (str ''0.5'')" "float_text (str ''1.25'')"
    unfolding float_text_def
    by (intro exI [of _ 0] exI [of _ "[53]"], simp add: str_def is_ascii_digit_def,
        intro exI [of _ 1] exI [of _ "[50, 53]"], simp add: str_def is_ascii_digit_def)
  then have "events_ok [(True, str ''0.5'', [108, 115, 13]), (False, str ''1.25'', [255, 10, 34])]"
    by (simp add: events_ok_def)
  from replay_gives_every_byte_back [OF _ _ this, of empty_fs "[46]" 7]
  show ?thesis by (simp add: empty_fs_def file_content_def uuid_text_def Let_def) (meson)
qed

section \<open>Failing writes\<close>

lemma unlink_ok:
  assumes "fs_faults fs = []"
  shows "\<exists>fs'. unlink_if_exists n fs = (Inr (), fs') \<and> fs_faults fs' = [] \<and>
    (\<forall>m. file_content fs' m = (if m = n then None else file_content fs m))"
  using assms by (simp add: unlink_if_exists_def) (simp add: file_content_def)

lemma fail_ok:
  assumes "no_faults w" "\<not> rr_closed (rw_recorder w)" "\<not> rr_file_closed (rw_recorder w)"
  shows "\<exists>w'. replay_fail err w = (Inr (), w') \<and> rr_closed (rw_recorder w') \<and>
    (\<forall>m. file_content (rw_fs w') m =
       (if m = rr_temp_path (rw_recorder w) then None else file_content (rw_fs w) m)) \<and>
    (rr_has_audit_sink (rw_recorder w) \<longrightarrow>
       map re_event_type (rw_events w') = map re_event_type (rw_events w) @ [REPLAY_WRITE_FAILED])"
proof -
  obtain rec fs evs where w: "w = \<lparr>rw_recorder = rec, rw_fs = fs, rw_events = evs\<rparr>" by (cases w)
  let ?fs = "put_file (rr_temp_path rec) (rr_written rec) fs"
  have "fs_faults ?fs = []" using assms(1) by (simp add: w no_faults_def)
  then obtain fs' where u: "unlink_if_exists (rr_temp_path rec) ?fs = (Inr (), fs')"
    "\<forall>m. file_content fs' m = (if m = rr_temp_path rec then None else file_content ?fs m)"
    using unlink_ok by blast
  show ?thesis
    using assms u
    by (cases "rr_has_audit_sink rec")
       (simp_all add: w no_faults_def replay_fail_def sbind_def set_recorder_def close_file_def
          flush_recorder_def on_fs_def)
qed

text \<open>A recording whose write fails cannot be continued and leaves no file.  If writing an event
  raises an \<open>OSError\<close> and the clean-up works, the call raises \<open>ReplayError\<close>, the temporary file is
  gone, nothing is published, the sink was told of the failure if there is one, and every later
  recording or closing of this replay raises \<open>ReplayError\<close> again.\<close>

theorem failed_write_ends_the_recording:
  assumes "\<not> rr_closed (rw_recorder w)" "\<not> rr_file_closed (rw_recorder w)"
    "fs_faults (rw_fs w) = [True]" "float_text t" "replay_record t k d w = (r, w')"
  shows "r = Inl (ReplayError ''replay write failed'') \<and>
    file_content (rw_fs w') (rr_temp_path (rw_recorder w)) = None \<and>
    (\<forall>m. m \<noteq> rr_temp_path (rw_recorder w) \<longrightarrow> file_content (rw_fs w') m = file_content (rw_fs w) m) \<and>
    (rr_has_audit_sink (rw_recorder w) \<longrightarrow>
       map re_event_type (rw_events w') = map re_event_type (rw_events w) @ [REPLAY_WRITE_FAILED]) \<and>
    (\<forall>t' k' d'. fst (replay_record t' k' d' w') = Inl (ReplayError ''replay is already closed'')) \<and>
    (\<forall>now. fst (replay_close now w') = Inl (ReplayError ''replay is already closed''))"
proof -
  let ?w = "w\<lparr>rw_fs := (rw_fs w)\<lparr>fs_faults := []\<rparr>\<rparr>"
  have "utf8_encode (event_line t k d) = Some (ascii_bytes (event_line t k d))"
    using utf8_encode_ascii [OF printable_ascii [OF event_line_printable [OF assms(4)]]] .
  then have wl: "write_line (event_line t k d) w = (Inl (OSError ''input/output error''), ?w)"
    using assms(3) by (simp add: write_line_def sbind_def on_fs_def)
  have "no_faults ?w" "\<not> rr_closed (rw_recorder ?w)" "\<not> rr_file_closed (rw_recorder ?w)"
    using assms(1,2) by (simp_all add: no_faults_def)
  from fail_ok [OF this, of "str ''input/output error''"] obtain w2 where
    f: "replay_fail (str ''input/output error'') ?w = (Inr (), w2)" "rr_closed (rw_recorder w2)"
      "\<forall>m. file_content (rw_fs w2) m =
         (if m = rr_temp_path (rw_recorder w) then None else file_content (rw_fs w) m)"
      "rr_has_audit_sink (rw_recorder w) \<longrightarrow>
         map re_event_type (rw_events w2) = map re_event_type (rw_events w) @ [REPLAY_WRITE_FAILED]"
    by (auto simp: file_content_def)
  have "r = Inl (ReplayError ''replay write failed'')" "w' = w2"
    using assms(1,5) wl f(1) by (auto simp: replay_record_def stry_def sbind_def)
  with f show ?thesis by (simp add: replay_record_def replay_close_def)
qed

lemma failed_write_ends_the_recording_witness:
  "\<exists>w w'. replay_record (str ''0.5'') [111] [120] w = (Inl (ReplayError ''replay write failed''), w') \<and>
     fs_faults (rw_fs w) = [True]"
proof -
  let ?w = "\<lparr>rw_recorder = new_recorder 7 [46] [1] True,
     rw_fs = \<lparr>fs_files = [], fs_honours_modes = True, fs_faults = [True]\<rparr>, rw_events = []\<rparr>"
  have "digits_of 0 = [48]" by (simp add: digits_of.simps)
  then have f: "float_text (str ''0.5'')"
    unfolding float_text_def
    by (intro exI [of _ 0] exI [of _ "[53]"]) (simp add: str_def is_ascii_digit_def)
  obtain r w' where "replay_record (str ''0.5'') [111] [120] ?w = (r, w')" by fastforce
  with failed_write_ends_the_recording [of ?w "str ''0.5''" "[111]" "[120]" r w'] f
  show ?thesis by (intro exI [of _ ?w] exI [of _ w']) (simp add: new_recorder_def)
qed

section \<open>Pruning\<close>

definition expired :: "int \<Rightarrow> filesystem \<Rightarrow> pystr \<Rightarrow> bool" where
  "expired cutoff fs n \<longleftrightarrow>
     (case map_of (fs_files fs) n of None \<Rightarrow> False | Some f \<Rightarrow> rf_mtime f < cutoff)"

definition clear_pointers :: "(uuid \<Rightarrow> ('s, unit) op) \<Rightarrow> pystr list \<Rightarrow> 's \<Rightarrow> 's" where
  "clear_pointers clear ns s = fold (\<lambda>n s. snd (clear (the (uuid_of_text (cast_stem n))) s)) ns s"

lemma sorted_filter': "sorted xs \<Longrightarrow> sorted (filter P xs)"
  using sorted_filter [of "\<lambda>x. x" xs P] by simp

lemma map_of_remove: "map_of (fs_files (remove_file n fs)) m = (if m = n then None else map_of (fs_files fs) m)"
  by (simp add: remove_file_def delete_conv')

lemma prune_loop_ok:
  assumes "\<And>u s. \<exists>t. clear u s = (Inr (), t)"
  shows "fs_faults (pw_fs w) = [] \<Longrightarrow> distinct ns \<Longrightarrow>
     \<forall>n \<in> set ns. map_of (fs_files (pw_fs w)) n \<noteq> None \<Longrightarrow>
     \<forall>n \<in> set ns. expired cutoff (pw_fs w) n \<longrightarrow> uuid_of_text (cast_stem n) \<noteq> None \<Longrightarrow>
     \<exists>w'. prune_loop clear cutoff ns pruned w =
         (Inr (pruned @ filter (expired cutoff (pw_fs w)) ns), w') \<and> fs_faults (pw_fs w') = [] \<and>
       (\<forall>m. map_of (fs_files (pw_fs w')) m =
          (if m \<in> set (filter (expired cutoff (pw_fs w)) ns) then None else map_of (fs_files (pw_fs w)) m)) \<and>
       pw_store w' = clear_pointers clear (filter (expired cutoff (pw_fs w)) ns) (pw_store w)"
proof (induction ns arbitrary: pruned w)
  case Nil
  then show ?case by (simp add: clear_pointers_def)
next
  case (Cons n ns)
  obtain f where f: "map_of (fs_files (pw_fs w)) n = Some f" using Cons.prems(3) by auto
  show ?case
  proof (cases "rf_mtime f < cutoff")
    case False
    then have ex: "\<not> expired cutoff (pw_fs w) n" by (simp add: expired_def f)
    have "prune_loop clear cutoff (n # ns) pruned w = prune_loop clear cutoff ns pruned w"
      using f False Cons.prems(1) by (simp add: sbind_def prune_fs_def)
    with Cons.IH [of w pruned] Cons.prems ex show ?thesis by simp
  next
    case True
    then have ex: "expired cutoff (pw_fs w) n" by (simp add: expired_def f)
    obtain u where u: "uuid_of_text (cast_stem n) = Some u" using Cons.prems(4) ex by auto
    obtain t where t: "clear u (pw_store w) = (Inr (), t)" using assms by blast
    let ?w = "w\<lparr>pw_fs := remove_file n (pw_fs w), pw_store := t\<rparr>"
    have run: "prune_loop clear cutoff (n # ns) pruned w = prune_loop clear cutoff ns (pruned @ [n]) ?w"
      using f True Cons.prems(1) u t by (simp add: sbind_def prune_fs_def prune_store_def)
    have same: "m \<noteq> n \<Longrightarrow> expired cutoff (pw_fs ?w) m = expired cutoff (pw_fs w) m" for m
      by (simp add: expired_def map_of_remove)
    have fil: "filter (expired cutoff (pw_fs ?w)) ns = filter (expired cutoff (pw_fs w)) ns"
    proof (rule filter_cong [OF refl])
      fix m
      assume "m \<in> set ns"
      then have "m \<noteq> n" using Cons.prems(2) by auto
      then show "expired cutoff (pw_fs ?w) m = expired cutoff (pw_fs w) m" by (rule same)
    qed
    have ne: "m \<in> set ns \<Longrightarrow> m \<noteq> n" for m using Cons.prems(2) by auto
    have pre: "fs_faults (pw_fs ?w) = []" "distinct ns"
      "\<forall>m \<in> set ns. map_of (fs_files (pw_fs ?w)) m \<noteq> None"
      using Cons.prems by (auto simp: map_of_remove)
    have ids: "\<forall>m \<in> set ns. expired cutoff (pw_fs ?w) m \<longrightarrow> uuid_of_text (cast_stem m) \<noteq> None"
    proof (intro ballI impI)
      fix m
      assume "m \<in> set ns" "expired cutoff (pw_fs ?w) m"
      then show "uuid_of_text (cast_stem m) \<noteq> None"
        using Cons.prems(4) same [OF ne] by (metis list.set_intros(2))
    qed
    obtain w' where w': "prune_loop clear cutoff ns (pruned @ [n]) ?w =
         (Inr ((pruned @ [n]) @ filter (expired cutoff (pw_fs w)) ns), w')" "fs_faults (pw_fs w') = []"
       "\<forall>m. map_of (fs_files (pw_fs w')) m =
          (if m \<in> set (filter (expired cutoff (pw_fs w)) ns) then None else map_of (fs_files (pw_fs ?w)) m)"
       "pw_store w' = clear_pointers clear (filter (expired cutoff (pw_fs w)) ns) t"
      using Cons.IH [OF pre ids, of "pruned @ [n]"] unfolding fil by auto
    show ?thesis
      using w' ex u t unfolding run by (auto simp: map_of_remove clear_pointers_def)
  qed
qed

text \<open>Pruning removes exactly the expired replays.  If no operation fails, every expired
  recording is named after a session and the session store accepts the updates, pruning returns the
  names of the \<open>.cast\<close> files older than the retention period in order, those files are gone and every
  other file is untouched, and the pointers of exactly these sessions were cleared, in order.\<close>

theorem prune_removes_expired_replays:
  assumes "\<forall>u s. \<exists>t. clear u s = (Inr (), t)" "fs_faults (pw_fs w) = []"
    "distinct (map fst (fs_files (pw_fs w)))" "1 \<le> retention"
    "\<forall>n \<in> fst ` set (fs_files (pw_fs w)). is_cast n \<and> expired (instant now - days retention) (pw_fs w) n \<longrightarrow>
       uuid_of_text (cast_stem n) \<noteq> None"
  shows "\<exists>pruned w'. prune_replays retention clear None now w = (Inr pruned, w') \<and> sorted pruned \<and>
    (\<forall>n. n \<in> set pruned \<longleftrightarrow> is_cast n \<and> expired (instant now - days retention) (pw_fs w) n) \<and>
    (\<forall>m. map_of (fs_files (pw_fs w')) m = (if m \<in> set pruned then None else map_of (fs_files (pw_fs w)) m)) \<and>
    pw_store w' = clear_pointers clear pruned (pw_store w)"
proof -
  let ?ns = "sort (filter is_cast (map fst (fs_files (pw_fs w))))"
  let ?c = "instant now - days retention"
  let ?p = "filter (expired ?c (pw_fs w)) ?ns"
  have cl: "\<And>u s. \<exists>t. clear u s = (Inr (), t)" using assms(1) by blast
  have pre: "distinct ?ns" "\<forall>n \<in> set ?ns. map_of (fs_files (pw_fs w)) n \<noteq> None"
    "\<forall>n \<in> set ?ns. expired ?c (pw_fs w) n \<longrightarrow> uuid_of_text (cast_stem n) \<noteq> None"
    using assms(3,5) by (auto simp: map_of_eq_None_iff distinct_map_filter)
  obtain w' where w': "prune_loop clear ?c ?ns [] w = (Inr ?p, w')"
    "\<forall>m. map_of (fs_files (pw_fs w')) m = (if m \<in> set ?p then None else map_of (fs_files (pw_fs w)) m)"
    "pw_store w' = clear_pointers clear ?p (pw_store w)"
    using prune_loop_ok [where clear = clear, OF cl assms(2) pre, where pruned = "[]"] by auto
  have "prune_replays retention clear None now w = (Inr ?p, w')"
    using w'(1) assms(4) by (simp add: prune_replays_def sbind_def)
  moreover have "n \<in> set ?p \<longleftrightarrow> is_cast n \<and> expired ?c (pw_fs w) n" for n
    using map_of_eq_None_iff [of "fs_files (pw_fs w)" n]
    by (cases "map_of (fs_files (pw_fs w)) n") (auto simp: expired_def)
  ultimately show ?thesis
    using w'(2,3) by (intro exI [of _ ?p] exI [of _ w']) (simp add: sorted_filter')
qed

lemma prune_removes_expired_replays_witness:
  "\<exists>pruned w'. prune_replays 1 (\<lambda>u s. (Inr (), u # s)) None (utc (days 9))
     \<lparr>pw_fs = \<lparr>fs_files = [(str ''notes'', \<lparr>rf_content = [], rf_mtime = 0\<rparr>),
         (str ''00000000-0000-0000-0000-00000000000a.cast'', \<lparr>rf_content = [], rf_mtime = 0\<rparr>)],
        fs_honours_modes = True, fs_faults = []\<rparr>, pw_store = []\<rparr> = (Inr pruned, w') \<and> sorted pruned \<and>
     set pruned = {str ''00000000-0000-0000-0000-00000000000a.cast''}"
proof -
  let ?c = "str ''00000000-0000-0000-0000-00000000000a.cast''"
  let ?w = "\<lparr>pw_fs = \<lparr>fs_files = [(str ''notes'', \<lparr>rf_content = [], rf_mtime = 0\<rparr>),
         (?c, \<lparr>rf_content = [], rf_mtime = 0\<rparr>)],
        fs_honours_modes = True, fs_faults = []\<rparr>, pw_store = []\<rparr> :: uuid list prune_world"
  have n: "\<not> is_cast (str ''notes'')" "is_cast ?c" "str ''notes'' \<noteq> ?c" "uuid_of_text (cast_stem ?c) \<noteq> None"
    by code_simp+
  have e: "expired (instant (utc (days 9)) - days 1) (pw_fs ?w) m \<longleftrightarrow> m = str ''notes'' \<or> m = ?c" for m
    by (simp add: expired_def days_def utc_def instant_def seconds_def)
  show ?thesis
    using prune_removes_expired_replays [of "\<lambda>u s. (Inr (), u # s)" ?w 1 "utc (days 9)"] n e
    by (auto simp: set_eq_iff)
qed

end
