(* ===== verification/Jump_Facts.thy ===== *)
theory Jump_Facts
  imports Jump Replay_Facts
begin

text \<open>
  Facts of the jump: a session row is closed once, what a started jump implies, what a failed one
  leaves behind, what the bridge records and forwards, and the queue of the stream adapter.
\<close>

section \<open>Closing session rows\<close>

record closing =
  cl_session :: uuid
  cl_status :: SessionStatus
  cl_ended_at :: datetime
  cl_path :: pystr
  cl_hmac :: "pystr option"

definition pg_close :: "closing \<Rightarrow> (database, unit) op" where
  "pg_close c = pg_close_session (cl_session c) (cl_status c) (cl_ended_at c) (cl_path c) (cl_hmac c)"

definition close_row :: "closing \<Rightarrow> sessions_row \<Rightarrow> sessions_row" where
  "close_row c r = r\<lparr>se_status := SessionStatus_value (cl_status c), se_ended_at := Some (as_utc (cl_ended_at c)),
     se_replay_path := cl_path c, se_replay_hmac := cl_hmac c\<rparr>"

definition closable :: "uuid \<Rightarrow> sessions_row \<Rightarrow> bool" where
  "closable sid r \<longleftrightarrow> se_id r = sid \<and> se_status r = str ''open''"

definition closing_texts :: "closing \<Rightarrow> bool" where
  "closing_texts c \<longleftrightarrow> pg_text (cl_path c) \<and> (case cl_hmac c of None \<Rightarrow> True | Some h \<Rightarrow> pg_text h)"

text \<open>What the \<open>CHECK\<close> constraint and the column types accept.\<close>

definition accepted :: "closing \<Rightarrow> bool" where
  "accepted c \<longleftrightarrow> closing_texts c \<and> (cl_status c = CLOSED \<longrightarrow> cl_hmac c \<noteq> None)"

definition closed_db :: "closing \<Rightarrow> database \<Rightarrow> database" where
  "closed_db c db = db\<lparr>db_sessions := update_where (closable (cl_session c)) (close_row c) (db_sessions db)\<rparr>"

lemma pg_close_eq:
  "pg_close c db =
     (if closing_texts c then sql_write (closed_db c) db else (Inl (PostgresError ''invalid text''), db))"
proof -
  have "closable i = (\<lambda>r. se_id r = i \<and> se_status r = str ''open'')" for i
    by (simp add: closable_def fun_eq_iff)
  moreover have "close_row c = (\<lambda>r. r\<lparr>se_status := SessionStatus_value (cl_status c),
      se_ended_at := Some (as_utc (cl_ended_at c)), se_replay_path := cl_path c, se_replay_hmac := cl_hmac c\<rparr>)"
    by (simp add: close_row_def fun_eq_iff)
  moreover have "closed_db c = (\<lambda>d. d\<lparr>db_sessions :=
      update_where (closable (cl_session c)) (close_row c) (db_sessions d)\<rparr>)"
    by (simp add: closed_db_def fun_eq_iff)
  ultimately show ?thesis
    by (simp add: pg_close_def pg_close_session_def sbind_def require_def closing_texts_def)
qed

lemma status_values:
  "SessionStatus_value s \<in> {str ''open'', str ''closed'', str ''failed'', str ''terminated''}"
  "SessionStatus_value s = str ''open'' \<longleftrightarrow> s = OPEN" "SessionStatus_value s = str ''closed'' \<longleftrightarrow> s = CLOSED"
  by (cases s; simp)+

lemma session_keys:
  "map se_id (update_where (closable i) (close_row c) rs) = map se_id rs"
  "map se_user_cert_serial (update_where (closable i) (close_row c) rs) = map se_user_cert_serial rs"
  "se_id ` set (update_where (closable i) (close_row c) rs) = se_id ` set rs"
  by (auto intro!: map_update_where image_update_where simp: close_row_def)

lemma wf_closed_db:
  assumes "wf_db db"
  shows "wf_db (closed_db c db) \<longleftrightarrow>
    (cl_status c = CLOSED \<and> cl_hmac c = None \<longrightarrow> (\<forall>r \<in> set (db_sessions db). \<not> closable (cl_session c) r))"
proof -
  let ?rs = "db_sessions db" and ?p = "closable (cl_session c)"
  have ag: "se_agent_id (close_row c r) = se_agent_id r" for r by (simp add: close_row_def)
  have ok: "session_row_ok (close_row c r) \<longleftrightarrow> \<not> (cl_status c = CLOSED \<and> cl_hmac c = None)" for r
    using status_values [of "cl_status c"] by (auto simp: session_row_ok_def close_row_def)
  have rows: "(\<forall>s \<in> set (update_where ?p (close_row c) ?rs). session_row_ok s \<and> se_agent_id s \<in> A) \<longleftrightarrow>
      (cl_status c = CLOSED \<and> cl_hmac c = None \<longrightarrow> (\<forall>r \<in> set ?rs. \<not> ?p r))"
    if "\<forall>s \<in> set ?rs. session_row_ok s \<and> se_agent_id s \<in> A" for A
  proof -
    have "(\<forall>s \<in> set (update_where ?p (close_row c) ?rs). session_row_ok s \<and> se_agent_id s \<in> A) \<longleftrightarrow>
        (\<forall>r \<in> set ?rs. ?p r \<longrightarrow> session_row_ok (close_row c r))"
      unfolding set_update_where ball_simps using that ag by auto
    then show ?thesis unfolding ok by auto
  qed
  show ?thesis
    using assms rows [of "ag_id ` set (db_agents db)"]
    by (simp add: wf_db_def sessions_ok_def closed_db_def session_keys audit_ok_def)
qed

lemma find_closed:
  "find (\<lambda>r. se_id r = i) (update_where (closable j) (close_row c) rs) =
     map_option (\<lambda>r. if closable j r then close_row c r else r) (find (\<lambda>r. se_id r = i) rs)"
  by (rule find_update_where) (simp add: close_row_def)

text \<open>The row of a session after one call: only an open row changes, only by its own session's call.\<close>

lemma row_after_close:
  assumes "wf_db db" "find (\<lambda>r. se_id r = i) (db_sessions db) = Some r"
  shows "wf_db (snd (pg_close c db)) \<and> find (\<lambda>r. se_id r = i) (db_sessions (snd (pg_close c db))) =
    Some (if closable (cl_session c) r \<and> accepted c then close_row c r else r)"
proof -
  have "find (\<lambda>r. se_id r = i) (db_sessions (closed_db c db)) =
      Some (if closable (cl_session c) r then close_row c r else r)"
    using assms(2) find_closed by (simp add: closed_db_def)
  moreover have "closable (cl_session c) r \<Longrightarrow> closing_texts c \<Longrightarrow> \<not> accepted c \<Longrightarrow> \<not> wf_db (closed_db c db)"
    using find_keyD [OF assms(2)] by (auto simp: wf_closed_db [OF assms(1)] accepted_def)
  moreover have "accepted c \<Longrightarrow> wf_db (closed_db c db) \<and> closing_texts c"
    by (auto simp: wf_closed_db [OF assms(1)] accepted_def)
  ultimately show ?thesis
    using assms by (auto simp: pg_close_eq sql_write_def accepted_def)
qed

definition close_each :: "closing list \<Rightarrow> database \<Rightarrow> database" where
  "close_each cs db = fold (\<lambda>c db. snd (pg_close c db)) cs db"

lemma final_row_stays:
  "wf_db db \<Longrightarrow> find (\<lambda>r. se_id r = i) (db_sessions db) = Some r \<Longrightarrow> se_status r \<noteq> str ''open'' \<Longrightarrow>
     wf_db (close_each cs db) \<and> find (\<lambda>r. se_id r = i) (db_sessions (close_each cs db)) = Some r"
proof (induction cs arbitrary: db)
  case (Cons c cs)
  have "wf_db (snd (pg_close c db))" "find (\<lambda>r. se_id r = i) (db_sessions (snd (pg_close c db))) = Some r"
    using row_after_close [OF Cons.prems(1,2), of c] Cons.prems(3) by (simp_all add: closable_def)
  from Cons.IH [OF this Cons.prems(3)] show ?case by (simp add: close_each_def)
qed (simp add: close_each_def)

text \<open>C22: A session is closed once.  Whatever terminal closings of whatever sessions run in whatever
  order, the row of an open session ends up as the first acceptable closing of this session wrote it
  (acceptable: storable texts, and an HMAC when the state is \<open>closed\<close>), later closings change nothing,
  and without an acceptable closing the row is the open row it was.  The constraints of the tables
  hold throughout.\<close>

theorem session_is_closed_once:
  assumes "wf_db db" "find (\<lambda>r. se_id r = sid) (db_sessions db) = Some r" "se_status r = str ''open''"
    "\<forall>c \<in> set cs. cl_status c \<noteq> OPEN"
  shows "wf_db (close_each cs db) \<and> find (\<lambda>r. se_id r = sid) (db_sessions (close_each cs db)) =
    Some (case find (\<lambda>c. cl_session c = sid \<and> accepted c) cs of None \<Rightarrow> r | Some c \<Rightarrow> close_row c r)"
  using assms
proof (induction cs arbitrary: db)
  case (Cons c cs)
  have id: "se_id r = sid" using find_keyD [OF Cons.prems(2)] by simp
  have step: "wf_db (snd (pg_close c db))"
    "find (\<lambda>r. se_id r = sid) (db_sessions (snd (pg_close c db))) =
       Some (if cl_session c = sid \<and> accepted c then close_row c r else r)"
    using row_after_close [OF Cons.prems(1,2), of c] Cons.prems(3) id by (auto simp: closable_def)
  show ?case
  proof (cases "cl_session c = sid \<and> accepted c")
    case True
    then have "se_status (close_row c r) \<noteq> str ''open''"
      using Cons.prems(4) status_values(2) by (simp add: close_row_def)
    from final_row_stays [OF step(1) _ this] step(2) True show ?thesis by (simp add: close_each_def)
  next
    case False
    with step Cons.IH [OF step(1) _ Cons.prems(3)] Cons.prems(4) show ?thesis
      by (auto simp: close_each_def)
  qed
qed (simp add: close_each_def)

definition sample_agent_row :: agents_row where
  "sample_agent_row = \<lparr>ag_id = 3, ag_node_name = str ''web1'', ag_hostname = None, ag_labels = [str ''web''],
     ag_x509_public_key = [], ag_node_ssh_host_public_key = str ''ssh-ed25519 AAAA'', ag_tunnel_secret_hash = [],
     ag_enrolled_at = utc 0, ag_last_seen = Some (utc 0), ag_revoked = False, ag_revoked_at = None,
     ag_cert_serial = str ''1'', ag_cert_expires_at = utc 9\<rparr>"

definition sample_session_row :: sessions_row where
  "sample_session_row = open_row 7 3 (str ''bob'') (str ''r.cast'') (utc 0) 1"

definition sample_jump_db :: database where
  "sample_jump_db = empty_db\<lparr>db_agents := [sample_agent_row], db_sessions := [sample_session_row]\<rparr>"

lemma wf_sample_jump_db: "wf_db sample_jump_db"
  by (simp add: wf_db_def sample_jump_db_def empty_db_def agents_ok_def tokens_ok_def sessions_ok_def
      audit_ok_def session_row_ok_def sample_session_row_def sample_agent_row_def open_row_def)

definition sample_closing :: "SessionStatus \<Rightarrow> pystr option \<Rightarrow> closing" where
  "sample_closing s h = \<lparr>cl_session = 7, cl_status = s, cl_ended_at = utc 5, cl_path = str ''x'', cl_hmac = h\<rparr>"

lemma session_is_closed_once_witness:
  "find (\<lambda>r. se_id r = 7) (db_sessions (close_each [sample_closing CLOSED None, sample_closing TERMINATED None,
      sample_closing CLOSED (Some (str ''ab''))] sample_jump_db)) =
    Some (close_row (sample_closing TERMINATED None) sample_session_row)"
proof -
  have f: "find (\<lambda>r. se_id r = 7) (db_sessions sample_jump_db) = Some sample_session_row"
    "se_status sample_session_row = str ''open''"
    by (simp_all add: sample_jump_db_def sample_session_row_def open_row_def)
  have "\<not> accepted (sample_closing CLOSED None)" "accepted (sample_closing TERMINATED None)"
    by (simp_all add: accepted_def closing_texts_def sample_closing_def pg_text_def str_def scalar_def)
  then show ?thesis
    using session_is_closed_once [OF wf_sample_jump_db f, of "[sample_closing CLOSED None,
      sample_closing TERMINATED None, sample_closing CLOSED (Some (str ''ab''))]"]
    by (simp add: sample_closing_def)
qed

section \<open>Inversion of the stages\<close>

lemma stry_eq_Inr:
  "stry m p h s = (Inr x, t) \<longleftrightarrow>
     m s = (Inr x, t) \<or> (\<exists>e u. m s = (Inl e, u) \<and> p e \<and> h e u = (Inr x, t))"
  by (auto simp: stry_def split: prod.splits sum.splits)

lemma stry_eq_Inl:
  "stry m p h s = (Inl e, t) \<longleftrightarrow>
     m s = (Inl e, t) \<and> \<not> p e \<or> (\<exists>e' u. m s = (Inl e', u) \<and> p e' \<and> h e' u = (Inl e, t))"
  by (auto simp: stry_def split: prod.splits sum.splits)

lemma jump_db_eq: "jump_db m w = (r, w') \<longleftrightarrow> (\<exists>d. m (jw_db w) = (r, d) \<and> w' = w\<lparr>jw_db := d\<rparr>)"
  by (auto simp: jump_db_def split: prod.splits)

lemma jump_fs_eq: "jump_fs m w = (r, w') \<longleftrightarrow> (\<exists>d. m (jw_fs w) = (r, d) \<and> w' = w\<lparr>jw_fs := d\<rparr>)"
  by (auto simp: jump_fs_def split: prod.splits)

lemma jump_broker_eq:
  "jump_broker m w = (r, w') \<longleftrightarrow> (\<exists>d. m (jw_broker w) = (r, d) \<and> w' = w\<lparr>jw_broker := d\<rparr>)"
  by (auto simp: jump_broker_def split: prod.splits)

lemmas jump_elims = exc_elims stry_eq_Inr stry_eq_Inl jump_db_eq jump_fs_eq jump_broker_eq

text \<open>An audit write touches the audit table only.\<close>

lemma jump_audit_frame:
  assumes "jump_audit f q w = (r, w')"
  shows "\<exists>db. w' = w\<lparr>jw_db := db\<rparr> \<and> audit_only (jw_db w) db \<and>
    (case r of Inl e \<Rightarrow> \<not> is_jump_error e \<and> db = jw_db w
     | Inr u \<Rightarrow> \<exists>ev. audit_write (jf_audit_id f) (jf_now f) q (jw_db w) = (Inr ev, db))"
proof -
  obtain r1 db where a: "audit_write (jf_audit_id f) (jf_now f) q (jw_db w) = (r1, db)"
    by (cases "audit_write (jf_audit_id f) (jf_now f) q (jw_db w)")
  have fr: "audit_only (jw_db w) db" using audit_write_frame [OF a] by simp
  show ?thesis
  proof (cases r1)
    case (Inl e)
    then have "db = jw_db w" "is_value_error e \<or> (\<exists>m. e = TypeError m) \<or> (\<exists>m. e = PostgresError m)"
      using audit_write_Inl a by blast+
    then have "\<not> is_jump_error e" by (cases e) auto
    then show ?thesis
      using assms a Inl fr \<open>db = jw_db w\<close> by (auto simp: jump_audit_def sbind_def jump_db_def)
  next
    case (Inr ev)
    then show ?thesis
      using assms a fr by (auto simp: jump_audit_def sbind_def jump_db_def)
  qed
qed

lemma audit_denial_frame:
  assumes "audit_denial d f actor agent_id node_name reason now sid w = (r, w')"
  shows "\<exists>db. w' = w\<lparr>jw_db := db\<rparr> \<and> audit_only (jw_db w) db \<and>
    (case r of Inl e \<Rightarrow> \<not> is_jump_error e | Inr u \<Rightarrow> True)"
proof (cases "jd_audit_sink d")
  case True
  show ?thesis
  proof (cases r)
    case (Inl e)
    with jump_audit_frame [OF assms [unfolded audit_denial_def, simplified True, simplified]]
    show ?thesis by (intro exI [of _ "jw_db w"]) auto
  next
    case (Inr u)
    with jump_audit_frame [OF assms [unfolded audit_denial_def, simplified True, simplified]]
    obtain db where "w' = w\<lparr>jw_db := db\<rparr>" "audit_only (jw_db w) db" by auto
    with Inr show ?thesis by (intro exI [of _ db]) simp
  qed
next
  case False
  then have "w' = w\<lparr>jw_db := jw_db w\<rparr>" "r = Inr ()" using assms by (simp_all add: audit_denial_def)
  then show ?thesis by (intro exI [of _ "jw_db w"]) simp
qed

lemma select_node_Inr:
  "select_node d f identity command visible now w = (Inr n, w') \<longleftrightarrow>
     w' = w \<and> parse_restricted_shell_command command (map ni_node_name visible) = Inr n"
  by (auto simp: select_node_def jump_elims)

definition authorised_target :: "int \<Rightarrow> pystr option \<Rightarrow> datetime \<Rightarrow> pystr \<Rightarrow> database \<Rightarrow> JumpTarget \<Rightarrow> bool" where
  "authorised_target hs presented now n db target \<longleftrightarrow>
     (\<exists>r \<in> set (db_agents db). ag_id r = jt_agent_id target \<and> ag_node_name r = n \<and>
        jt_node_name target = n \<and> \<not> ag_revoked r \<and>
        jt_node_ssh_host_public_key target = ag_node_ssh_host_public_key r \<and>
        ag_node_ssh_host_public_key r \<noteq> [] \<and> presented = Some (ag_node_ssh_host_public_key r) \<and>
        (\<exists>t. ag_last_seen r = Some t \<and> instant now < instant t + seconds (2 * hs)))"

lemma get_jump_target_Some:
  assumes "get_jump_target hs n db = (Inr (Some target), db')"
  shows "db' = db \<and> (\<exists>r \<in> set (db_agents db). ag_id r = jt_agent_id target \<and> ag_node_name r = n \<and>
     jt_node_name target = n \<and> \<not> ag_revoked r \<and>
     jt_node_ssh_host_public_key target = ag_node_ssh_host_public_key r \<and>
     jt_heartbeat target = \<lparr>hb_seconds = hs, hb_last_seen = map_option as_utc (ag_last_seen r)\<rparr>)"
proof -
  obtain r where r: "find (\<lambda>r. ag_node_name r = n \<and> \<not> ag_revoked r) (db_agents db) = Some r"
    using assms by (auto simp: get_jump_target_def split: option.splits)
  then have "r \<in> set (db_agents db)" "ag_node_name r = n" "\<not> ag_revoked r"
    by (auto simp: find_Some_iff)
  then show ?thesis
    using assms r
    by (intro conjI bexI [of _ r])
       (auto simp: get_jump_target_def exc_elims new_heartbeat_def mark_seen_def
          split: if_splits option.splits)
qed

lemma select_target_Inr:
  assumes "select_target d f identity n presented now w = (Inr target, w')"
  shows "w' = w \<and> authorised_target (jd_heartbeat_seconds d) presented now n (jw_db w) target"
proof -
  obtain found db where g: "get_jump_target (jd_heartbeat_seconds d) n (jw_db w) = (Inr found, db)"
    using assms by (auto simp: select_target_def jump_elims)
  then have db: "db = jw_db w"
    by (auto simp: get_jump_target_def split: option.splits)
  from g assms obtain target' where s: "found = Some target'"
    by (cases found) (auto simp: select_target_def jump_elims)
  with g assms db have t: "target' = target" "w' = w"
    "validate_pinned_host_key (Some (jt_node_ssh_host_public_key target)) presented
       = Inr (jt_node_ssh_host_public_key target)" "allows_new_jump now (jt_heartbeat target)"
    by (auto simp: select_target_def jump_elims validate_pinned_host_key_def split: if_splits)
  from get_jump_target_Some [OF g [unfolded s t(1)]] obtain r where
    r: "r \<in> set (db_agents (jw_db w))" "ag_id r = jt_agent_id target" "ag_node_name r = n"
      "jt_node_name target = n" "\<not> ag_revoked r"
      "jt_node_ssh_host_public_key target = ag_node_ssh_host_public_key r"
      "jt_heartbeat target = \<lparr>hb_seconds = jd_heartbeat_seconds d, hb_last_seen = map_option as_utc (ag_last_seen r)\<rparr>"
    using db by blast
  have "ag_node_ssh_host_public_key r \<noteq> []" "presented = Some (ag_node_ssh_host_public_key r)"
    using t(3) r(6) by (auto simp: validate_pinned_host_key_def split: if_splits)
  moreover have "\<exists>t. ag_last_seen r = Some t \<and> instant now < instant t + seconds (2 * jd_heartbeat_seconds d)"
    using t(4) r(7) by (auto simp: allows_new_jump_def mult.commute split: option.splits)
  ultimately show ?thesis
    unfolding authorised_target_def using t(2) r by blast
qed

section \<open>A started jump\<close>

lemma replay_start_Inr:
  assumes "replay_start key sink temp sid n w h now fs = (Inr rec, fs')"
  shows "rec = (new_recorder sid temp key sink)\<lparr>rr_written := lines_bytes [header_line n w h (as_utc now)]\<rparr>"
proof -
  have e: "utf8_encode (header_line n w h (as_utc now)) = Some (ascii_bytes (header_line n w h (as_utc now)))"
    by (rule utf8_encode_ascii [OF printable_ascii [OF header_line_printable]])
  obtain t where "stry (open_recorder (new_recorder sid temp key sink) n w h (as_utc now)) is_os_error
       (\<lambda>e. sbind (io (\<lambda>fs. fs)) (\<lambda>_. sbind (unlink_if_exists temp) (\<lambda>_.
          sraise (ReplayError ''replay file cannot be created'')))) t = (Inr rec, fs')"
    using assms unfolding replay_start_def sbind_eq_Inr by blast
  then have o: "open_recorder (new_recorder sid temp key sink) n w h (as_utc now) t = (Inr rec, fs')"
    by (simp add: stry_eq_Inr sbind_eq_Inr)
  let ?w = "\<lparr>rw_recorder = new_recorder sid temp key sink, rw_fs = t, rw_events = []\<rparr>"
  obtain r fs1 where io: "io (\<lambda>fs. fs) t = (r, fs1)" by (cases "io (\<lambda>fs. fs) t")
  show ?thesis
    using o io
    by (cases r) (auto simp: open_recorder_def write_line_def e sbind_def on_fs_def set_recorder_def
        new_recorder_def lines_bytes_simps)
qed

text \<open>The whole path of a successful start, each stage with the state it ends in.\<close>

definition session_of :: "jump_fresh \<Rightarrow> database \<Rightarrow> datetime \<Rightarrow> JumpSession" where
  "session_of f db now = \<lparr>js_session_id = jf_session_id f, js_user_cert_serial = db_next_serial db,
     js_replay_path = uuid_text (jf_path_id f) @ str ''.cast'', js_started_at = as_utc now\<rparr>"

definition new_session_row :: "jump_fresh \<Rightarrow> uuid \<Rightarrow> pystr \<Rightarrow> datetime \<Rightarrow> int \<Rightarrow> sessions_row" where
  "new_session_row f agent_id username now serial =
     open_row (jf_session_id f) agent_id username (uuid_text (jf_path_id f) @ str ''.cast'') now serial"

lemma create_session_Inr:
  "pg_create_session (jf_session_id f) a u (uuid_text (jf_path_id f) @ str ''.cast'') now db = (Inr session, db') \<longleftrightarrow>
     pg_text u \<and> pg_text (uuid_text (jf_path_id f) @ str ''.cast'') \<and> session = session_of f db now \<and>
     db' = db\<lparr>db_next_serial := db_next_serial db + 1,
       db_sessions := db_sessions db @ [new_session_row f a u now (db_next_serial db)]\<rparr> \<and> wf_db db'"
  by (auto simp: pg_create_session_def jump_elims session_of_def new_session_row_def)

lemma audit_only_trans: "audit_only a b \<Longrightarrow> audit_only b c \<Longrightarrow> audit_only a c"
proof -
  assume "audit_only a b" "audit_only b c"
  then obtain xs ys where "b = a\<lparr>db_audit := db_audit a @ xs\<rparr>" "c = b\<lparr>db_audit := db_audit b @ ys\<rparr>"
    by (auto simp: audit_only_def)
  then have "c = a\<lparr>db_audit := db_audit a @ (xs @ ys)\<rparr>" by simp
  then show ?thesis unfolding audit_only_def by blast
qed

lemma run_jump_Inr:
  assumes "run_jump d f identity target session n width height now w = (Inr j, w')"
  shows "\<exists>rec fs b db. jd_issue d (id_username identity) (js_session_id session) (js_user_cert_serial session) now
        = Inr (sj_user_certificate j) \<and>
     iuc_username (sj_user_certificate j) = id_username identity \<and>
     replay_start (jd_replay_key d) (jd_replay_sink d) (jf_temp_name f) (js_session_id session) n width height
       (js_started_at session) (jw_fs w) = (Inr rec, fs) \<and>
     jd_open_node d (jf_now f) (jf_request_id f) (jf_close_id f) (jt_agent_id target) (uuid_text (jf_channel_id f)) n
       (jt_node_ssh_host_public_key target) (id_username identity) (sj_user_certificate j) (jw_broker w)
       = (Inr (sj_node_connection j), b) \<and>
     w' = w\<lparr>jw_fs := fs, jw_recorders := (jw_recorders w)(js_session_id session \<mapsto> rec), jw_broker := b, jw_db := db\<rparr> \<and>
     audit_only (jw_db w) db \<and>
     (jd_audit_sink d \<longrightarrow> (\<exists>ev. db = (jw_db w)\<lparr>db_audit := db_audit (jw_db w) @ [audit_row_of ev]\<rparr> \<and>
        ev_event_type ev = SESSION_STARTED \<and> ev_actor ev = id_username identity \<and>
        ev_session_id ev = Some (js_session_id session) \<and> ev_agent_id ev = Some (jt_agent_id target))) \<and>
     sj_session j = session \<and> sj_target j = target \<and> sj_replay j = js_session_id session \<and>
     sj_channel_id j = uuid_text (jf_channel_id f)"
proof -
  obtain w1 cert where s1: "start_recording d f identity target session n width height now w = (Inr (), w1)"
    and c: "jd_issue d (id_username identity) (js_session_id session) (js_user_cert_serial session) now = Inr cert"
    and r: "iuc_username cert = id_username identity"
    using assms by (auto simp: run_jump_def jump_elims split: if_splits)
  obtain rec fs where rs: "replay_start (jd_replay_key d) (jd_replay_sink d) (jf_temp_name f)
      (js_session_id session) n width height (js_started_at session) (jw_fs w) = (Inr rec, fs)"
    and w1: "w1 = w\<lparr>jw_fs := fs, jw_recorders := (jw_recorders w)(js_session_id session \<mapsto> rec)\<rparr>"
    using s1 by (auto simp: start_recording_def jump_elims)
  obtain w2 nc where o: "open_node_connection d f identity target session n cert now w1 = (Inr nc, w2)"
    using assms s1 c r by (auto simp: run_jump_def jump_elims)
  then obtain b where b: "jd_open_node d (jf_now f) (jf_request_id f) (jf_close_id f) (jt_agent_id target)
      (uuid_text (jf_channel_id f)) n (jt_node_ssh_host_public_key target) (id_username identity) cert (jw_broker w1)
      = (Inr nc, b)" "w2 = w1\<lparr>jw_broker := b\<rparr>"
    by (auto simp: open_node_connection_def jump_elims)
  define q where "q = \<lparr>aq_event_type = SESSION_STARTED, aq_actor = id_username identity,
              aq_metadata = PDict [(str ''status'', PStr (SessionStatus_value OPEN))],
              aq_agent_id = Some (jt_agent_id target), aq_session_id = Some (js_session_id session),
              aq_node_name = Some n, aq_now = Some now\<rparr>"
  have au: "(if \<not> jd_audit_sink d then sret () else jump_audit f q) w2 = (Inr (), w')"
    and j: "j = \<lparr>sj_session = session, sj_target = target, sj_user_certificate = cert,
           sj_replay = js_session_id session, sj_channel_id = uuid_text (jf_channel_id f),
           sj_node_connection = nc\<rparr>"
    using assms s1 c r o by (auto simp: run_jump_def jump_elims q_def)
  have "\<exists>db. w' = w2\<lparr>jw_db := db\<rparr> \<and> audit_only (jw_db w2) db \<and>
      (jd_audit_sink d \<longrightarrow> (\<exists>ev. audit_write (jf_audit_id f) (jf_now f) q (jw_db w2) = (Inr ev, db)))"
  proof (cases "jd_audit_sink d")
    case True
    with au jump_audit_frame [of f q w2 "Inr ()" w'] show ?thesis by auto
  next
    case False
    with au have "w' = w2\<lparr>jw_db := jw_db w2\<rparr>" by simp
    with False show ?thesis by (intro exI [of _ "jw_db w2"]) simp
  qed
  then obtain db where db: "w' = w2\<lparr>jw_db := db\<rparr>" "audit_only (jw_db w2) db"
    "jd_audit_sink d \<longrightarrow> (\<exists>ev. audit_write (jf_audit_id f) (jf_now f) q (jw_db w2) = (Inr ev, db))" by blast
  have ev: "\<exists>ev. db = (jw_db w)\<lparr>db_audit := db_audit (jw_db w) @ [audit_row_of ev]\<rparr> \<and>
        ev_event_type ev = SESSION_STARTED \<and> ev_actor ev = id_username identity \<and>
        ev_session_id ev = Some (js_session_id session) \<and> ev_agent_id ev = Some (jt_agent_id target)"
    if sink: "jd_audit_sink d"
  proof -
    obtain ev where e: "audit_write (jf_audit_id f) (jf_now f) q (jw_db w2) = (Inr ev, db)" using db(3) sink by blast
    have "jw_db w2 = jw_db w" using b w1 by simp
    with audit_write_Inr [OF e] show ?thesis by (intro exI [of _ ev]) (simp add: q_def)
  qed
  show ?thesis
    using c r rs b db(1,2) ev w1
    by (intro exI [of _ rec] exI [of _ fs] exI [of _ b] exI [of _ db]) (simp add: j)
qed

definition with_session :: "jump_fresh \<Rightarrow> uuid \<Rightarrow> pystr \<Rightarrow> datetime \<Rightarrow> database \<Rightarrow> database" where
  "with_session f agent_id username now db = db\<lparr>db_next_serial := db_next_serial db + 1,
     db_sessions := db_sessions db @ [new_session_row f agent_id username now (db_next_serial db)]\<rparr>"

lemma start_jump_Inr:
  assumes "start_jump d f identity command visible presented width height now w = (Inr j, w')"
  shows "\<exists>target. strip command \<in> ni_node_name ` set visible \<and>
     authorised_target (jd_heartbeat_seconds d) presented now (strip command) (jw_db w) target \<and>
     run_jump d f identity target (session_of f (jw_db w) now) (strip command) width height now
       (w\<lparr>jw_db := with_session f (jt_agent_id target) (id_username identity) now (jw_db w)\<rparr>) = (Inr j, w')"
proof -
  obtain n where n: "parse_restricted_shell_command command (map ni_node_name visible) = Inr n"
    and s1: "sbind (select_target d f identity n presented now) (\<lambda>target.
       sbind (jump_db (pg_create_session (jf_session_id f) (jt_agent_id target) (id_username identity)
              (uuid_text (jf_path_id f) @ str ''.cast'') now)) (\<lambda>session.
       run_jump d f identity target session n width height now)) w = (Inr j, w')"
    using assms unfolding start_jump_def sbind_eq_Inr [of "select_node _ _ _ _ _ _"] select_node_Inr by auto
  obtain target w1 where t: "select_target d f identity n presented now w = (Inr target, w1)"
    and s2: "sbind (jump_db (pg_create_session (jf_session_id f) (jt_agent_id target) (id_username identity)
              (uuid_text (jf_path_id f) @ str ''.cast'') now)) (\<lambda>session.
       run_jump d f identity target session n width height now) w1 = (Inr j, w')"
    using s1 unfolding sbind_eq_Inr [of "select_target _ _ _ _ _ _"] by blast
  note ta = select_target_Inr [OF t]
  have "run_jump d f identity target (session_of f (jw_db w) now) n width height now
      (w\<lparr>jw_db := with_session f (jt_agent_id target) (id_username identity) now (jw_db w)\<rparr>) = (Inr j, w')"
    using s2 ta unfolding sbind_eq_Inr [of "jump_db _"] jump_db_eq create_session_Inr
    by (auto simp: with_session_def)
  moreover have "n = strip command" "strip command \<in> ni_node_name ` set visible"
    using n unfolding parse_shell_Inr by auto
  ultimately show ?thesis using ta by blast
qed

text \<open>C23: What a started jump implies.  The command, stripped, is the name of a visible node; the
  agents table has an unrevoked row of this name whose non-empty host key is the presented one and
  whose last contact is less than two heartbeat periods old.  Exactly one session row was added, open,
  for this agent and user, with the next certificate serial; the certificate was issued for this
  user, session and serial; the opener connected to this agent with this certificate and host key on
  a fresh channel; and the recorder of the session is open with exactly the header written.  With an
  audit sink the last audit event is the start of this session, and no other table changed.\<close>

theorem started_jump_is_authorised:
  assumes "start_jump d f identity command visible presented width height now w = (Inr j, w')"
  shows "strip command \<in> ni_node_name ` set visible \<and>
    authorised_target (jd_heartbeat_seconds d) presented now (strip command) (jw_db w) (sj_target j) \<and>
    sj_session j = session_of f (jw_db w) now \<and>
    db_sessions (jw_db w') = db_sessions (jw_db w) @
      [new_session_row f (jt_agent_id (sj_target j)) (id_username identity) now (db_next_serial (jw_db w))] \<and>
    db_agents (jw_db w') = db_agents (jw_db w) \<and> db_tokens (jw_db w') = db_tokens (jw_db w) \<and>
    jd_issue d (id_username identity) (jf_session_id f) (db_next_serial (jw_db w)) now
      = Inr (sj_user_certificate j) \<and> iuc_username (sj_user_certificate j) = id_username identity \<and>
    jd_open_node d (jf_now f) (jf_request_id f) (jf_close_id f) (jt_agent_id (sj_target j)) (sj_channel_id j)
      (strip command) (jt_node_ssh_host_public_key (sj_target j)) (id_username identity)
      (sj_user_certificate j) (jw_broker w) = (Inr (sj_node_connection j), jw_broker w') \<and>
    jw_recorders w' (sj_replay j) = Some ((new_recorder (jf_session_id f) (jf_temp_name f) (jd_replay_key d)
      (jd_replay_sink d))\<lparr>rr_written := lines_bytes [header_line (strip command) width height (as_utc now)]\<rparr>) \<and>
    (jd_audit_sink d \<longrightarrow> (\<exists>ev. db_audit (jw_db w') = db_audit (jw_db w) @ [audit_row_of ev] \<and>
       ev_event_type ev = SESSION_STARTED \<and> ev_actor ev = id_username identity \<and>
       ev_session_id ev = Some (jf_session_id f)))"
proof -
  define n where "n = strip command"
  define session where "session = session_of f (jw_db w) now"
  define db1 where "db1 = (\<lambda>target :: JumpTarget. with_session f (jt_agent_id target) (id_username identity) now (jw_db w))"
  obtain target where st: "strip command \<in> ni_node_name ` set visible"
    "authorised_target (jd_heartbeat_seconds d) presented now (strip command) (jw_db w) target"
    and s3: "run_jump d f identity target session n width height now (w\<lparr>jw_db := db1 target\<rparr>) = (Inr j, w')"
    using start_jump_Inr [OF assms] by (auto simp: session_def n_def db1_def)
  obtain rec fs b db where r:
    "jd_issue d (id_username identity) (js_session_id session) (js_user_cert_serial session) now = Inr (sj_user_certificate j)"
    "iuc_username (sj_user_certificate j) = id_username identity"
    "replay_start (jd_replay_key d) (jd_replay_sink d) (jf_temp_name f) (js_session_id session) n width height
       (js_started_at session) (jw_fs w) = (Inr rec, fs)"
    "jd_open_node d (jf_now f) (jf_request_id f) (jf_close_id f) (jt_agent_id target) (uuid_text (jf_channel_id f)) n
       (jt_node_ssh_host_public_key target) (id_username identity) (sj_user_certificate j) (jw_broker w)
       = (Inr (sj_node_connection j), b)"
    "w' = w\<lparr>jw_fs := fs, jw_recorders := (jw_recorders w)(js_session_id session \<mapsto> rec), jw_broker := b, jw_db := db\<rparr>"
    "audit_only (db1 target) db"
    "jd_audit_sink d \<longrightarrow> (\<exists>ev. db = (db1 target)\<lparr>db_audit := db_audit (db1 target) @ [audit_row_of ev]\<rparr> \<and>
        ev_event_type ev = SESSION_STARTED \<and> ev_actor ev = id_username identity \<and>
        ev_session_id ev = Some (js_session_id session) \<and> ev_agent_id ev = Some (jt_agent_id target))"
    "sj_session j = session" "sj_target j = target" "sj_replay j = js_session_id session"
    "sj_channel_id j = uuid_text (jf_channel_id f)"
    using run_jump_Inr [OF s3, simplified] by blast
  have sf: "js_session_id session = jf_session_id f" "js_user_cert_serial session = db_next_serial (jw_db w)"
    "js_started_at session = as_utc now"
    by (simp_all add: session_def session_of_def)
  have ev: "jd_audit_sink d \<longrightarrow> (\<exists>ev. db_audit (jw_db w') = db_audit (jw_db w) @ [audit_row_of ev] \<and>
       ev_event_type ev = SESSION_STARTED \<and> ev_actor ev = id_username identity \<and>
       ev_session_id ev = Some (jf_session_id f))"
  proof
    assume "jd_audit_sink d"
    with r(7) obtain ev where e: "db = (db1 target)\<lparr>db_audit := db_audit (db1 target) @ [audit_row_of ev]\<rparr>"
      "ev_event_type ev = SESSION_STARTED" "ev_actor ev = id_username identity"
      "ev_session_id ev = Some (js_session_id session)" by blast
    have "db_audit (jw_db w') = db_audit (jw_db w) @ [audit_row_of ev]"
      unfolding r(5) e(1) by (simp add: db1_def with_session_def)
    with e(2-4) sf(1) show "\<exists>ev. db_audit (jw_db w') = db_audit (jw_db w) @ [audit_row_of ev] \<and>
       ev_event_type ev = SESSION_STARTED \<and> ev_actor ev = id_username identity \<and>
       ev_session_id ev = Some (jf_session_id f)" by (intro exI [of _ ev]) simp
  qed
  have rec: "rec = (new_recorder (jf_session_id f) (jf_temp_name f) (jd_replay_key d) (jd_replay_sink d))
      \<lparr>rr_written := lines_bytes [header_line n width height (as_utc now)]\<rparr>"
    using replay_start_Inr [OF r(3)] sf by simp
  have w': "jw_db w' = db" "jw_recorders w' (js_session_id session) = Some rec" "jw_broker w' = b"
    unfolding r(5) by simp_all
  have tables: "db_sessions (jw_db w') = db_sessions (jw_db w) @
      [new_session_row f (jt_agent_id (sj_target j)) (id_username identity) now (db_next_serial (jw_db w))]"
    "db_agents (jw_db w') = db_agents (jw_db w)" "db_tokens (jw_db w') = db_tokens (jw_db w)"
    unfolding w'(1) r(9) using audit_only_fields [OF r(6)] by (simp_all add: db1_def with_session_def)
  have issued: "jd_issue d (id_username identity) (jf_session_id f) (db_next_serial (jw_db w)) now
      = Inr (sj_user_certificate j)"
    using r(1) unfolding sf .
  have opened: "jd_open_node d (jf_now f) (jf_request_id f) (jf_close_id f) (jt_agent_id (sj_target j))
      (sj_channel_id j) n (jt_node_ssh_host_public_key (sj_target j)) (id_username identity)
      (sj_user_certificate j) (jw_broker w) = (Inr (sj_node_connection j), jw_broker w')"
    using r(4) unfolding r(9,11) w'(3) .
  have recorder: "jw_recorders w' (sj_replay j) = Some rec" unfolding r(10) by (rule w'(2))
  show ?thesis
    unfolding n_def [symmetric] session_def [symmetric] rec [symmetric] r(9) [symmetric]
    using st [folded n_def, folded r(9)] r(8) tables issued r(2) opened recorder ev
    by (intro conjI)
qed

type_synonym open_node = "datetime \<Rightarrow> pystr \<Rightarrow> pystr \<Rightarrow> uuid \<Rightarrow> channel_id \<Rightarrow> pystr \<Rightarrow> pystr \<Rightarrow> pystr \<Rightarrow>
     IssuedUserCertificate \<Rightarrow> (ServerTunnelBroker, nat) op"

definition sample_deps :: "open_node \<Rightarrow> jump_deps" where
  "sample_deps opn = \<lparr>jd_heartbeat_seconds = 30, jd_replay_key = [1], jd_replay_sink = False,
     jd_issue = runtime_issue ([5], [6]) 8, jd_open_node = opn,
     jd_audit_sink = False\<rparr>"

definition sample_fresh :: jump_fresh where
  "sample_fresh = \<lparr>jf_path_id = 8, jf_session_id = 9, jf_channel_id = 10, jf_audit_id = 11,
     jf_temp_name = str ''.tmp'', jf_request_id = [49], jf_close_id = [50], jf_now = utc 1\<rparr>"

definition sample_jump_world_on :: "'c \<Rightarrow> filesystem \<Rightarrow> 'c jump_world" where
  "sample_jump_world_on chan fs = \<lparr>jw_db = sample_jump_db\<lparr>db_next_serial := 2\<rparr>, jw_fs = fs, jw_recorders = Map.empty,
     jw_events = [], jw_broker = \<lparr>bk_max_sessions = 5, bk_heartbeat_seconds = 30, bk_max_frame_bytes = 100,
                bk_registry = Map.empty, bk_connections = Map.empty, bk_channel_agents = Map.empty,
                bk_conns = Map.empty, bk_streams = Map.empty, bk_written = (\<lambda>_. []), bk_writer_closed = {}\<rparr>,
     jw_channel = chan\<rparr>"

abbreviation sample_jump_world :: "filesystem \<Rightarrow> unit jump_world" where
  "sample_jump_world \<equiv> sample_jump_world_on ()"

lemma pg_text_cast: "pg_text (uuid_text u @ str ''.cast'')"
proof -
  have "\<forall>c \<in> set (uuid_text u). c \<noteq> 0 \<and> scalar c"
    using uuid_text_chars by (fastforce simp: scalar_def)
  moreover have "\<forall>c \<in> set (str ''.cast''). c \<noteq> 0 \<and> scalar c" by (simp add: str_def scalar_def)
  ultimately show ?thesis unfolding pg_text_def list_all_iff by auto
qed

lemma sample_selected:
  "select_node (sample_deps m) sample_fresh sample_identity (str ''web1'')
     [\<lparr>ni_node_name = str ''web1'', ni_labels = {}\<rparr>] (utc 1) (sample_jump_world_on chan fs) = (Inr (str ''web1''), sample_jump_world_on chan fs)"
  "select_target (sample_deps m) sample_fresh sample_identity (str ''web1'') (Some (str ''ssh-ed25519 AAAA'')) (utc 1)
     (sample_jump_world_on chan fs) = (Inr \<lparr>jt_agent_id = 3, jt_node_name = str ''web1'',
       jt_node_ssh_host_public_key = str ''ssh-ed25519 AAAA'',
       jt_heartbeat = \<lparr>hb_seconds = 30, hb_last_seen = Some (utc 0)\<rparr>\<rparr>, sample_jump_world_on chan fs)"
proof -
  have "strip (str ''web1'') = str ''web1''"
    by (simp add: strip_def lstrip_def rstrip_def isspace_def str_def)
  moreover have "py_fullmatch NODE_NAME_PATTERN (str ''web1'')"
    by (simp add: node_name_closed str_def is_alnum_cp_def node_char_def)
  ultimately show "select_node (sample_deps m) sample_fresh sample_identity (str ''web1'')
     [\<lparr>ni_node_name = str ''web1'', ni_labels = {}\<rparr>] (utc 1) (sample_jump_world_on chan fs) = (Inr (str ''web1''), sample_jump_world_on chan fs)"
    by (simp add: select_node_Inr parse_shell_Inr)
  show "select_target (sample_deps m) sample_fresh sample_identity (str ''web1'') (Some (str ''ssh-ed25519 AAAA'')) (utc 1)
     (sample_jump_world_on chan fs) = (Inr \<lparr>jt_agent_id = 3, jt_node_name = str ''web1'',
       jt_node_ssh_host_public_key = str ''ssh-ed25519 AAAA'',
       jt_heartbeat = \<lparr>hb_seconds = 30, hb_last_seen = Some (utc 0)\<rparr>\<rparr>, sample_jump_world_on chan fs)"
    by (simp add: select_target_def sample_jump_world_on_def sample_jump_db_def sample_agent_row_def sample_deps_def
        jump_db_def get_jump_target_def new_heartbeat_def mark_seen_def sbind_def validate_pinned_host_key_def
        allows_new_jump_def seconds_def as_utc_eq)
qed

definition sample_started_on :: "'c \<Rightarrow> open_node \<Rightarrow> filesystem \<Rightarrow> StartedJump result \<times> 'c jump_world" where
  "sample_started_on chan m fs = start_jump (sample_deps m) sample_fresh sample_identity (str ''web1'')
     [\<lparr>ni_node_name = str ''web1'', ni_labels = {}\<rparr>] (Some (str ''ssh-ed25519 AAAA'')) 80 24 (utc 1) (sample_jump_world_on chan fs)"

abbreviation sample_started :: "open_node \<Rightarrow> filesystem \<Rightarrow> StartedJump result \<times> unit jump_world" where
  "sample_started \<equiv> sample_started_on ()"

lemma sample_session: "pg_create_session (jf_session_id sample_fresh) 3 (id_username sample_identity)
     (uuid_text (jf_path_id sample_fresh) @ str ''.cast'') (utc 1) (jw_db (sample_jump_world_on chan fs)) =
   (Inr (session_of sample_fresh (jw_db (sample_jump_world_on chan fs)) (utc 1)),
    with_session sample_fresh 3 (id_username sample_identity) (utc 1) (jw_db (sample_jump_world_on chan fs)))"
proof -
  have "pg_text (id_username sample_identity)"
    by (simp add: sample_identity_def pg_text_def str_def scalar_def)
  moreover have "wf_db (with_session sample_fresh 3 (id_username sample_identity) (utc 1) (jw_db (sample_jump_world_on chan fs)))"
    by (simp add: wf_db_def sample_jump_world_on_def sample_jump_db_def empty_db_def agents_ok_def tokens_ok_def
      sessions_ok_def audit_ok_def session_row_ok_def sample_session_row_def sample_agent_row_def open_row_def
      with_session_def new_session_row_def sample_fresh_def)
  ultimately show ?thesis
    unfolding create_session_Inr by (simp add: pg_text_cast with_session_def)
qed

lemma sample_run: "sample_started_on chan m fs =
    run_jump (sample_deps m) sample_fresh sample_identity \<lparr>jt_agent_id = 3, jt_node_name = str ''web1'',
       jt_node_ssh_host_public_key = str ''ssh-ed25519 AAAA'',
       jt_heartbeat = \<lparr>hb_seconds = 30, hb_last_seen = Some (utc 0)\<rparr>\<rparr>
      (session_of sample_fresh (jw_db (sample_jump_world_on chan fs)) (utc 1)) (str ''web1'') 80 24 (utc 1)
      ((sample_jump_world_on chan fs)\<lparr>jw_db := with_session sample_fresh 3 (id_username sample_identity) (utc 1) (jw_db (sample_jump_world_on chan fs))\<rparr>)"
  by (simp add: sample_started_on_def start_jump_def sbind_def sample_selected jump_db_def sample_session)

lemma sample_issued: "\<exists>c. runtime_issue ([5], [6]) 8 (id_username sample_identity) i 2 (utc 1) = Inr c \<and>
    iuc_username c = id_username sample_identity"
  by (simp add: runtime_issue_def issue_user_ssh_certificate_def validate_username_principal_def
      sample_identity_def str_def Let_def principal_char_ok_def USERNAME_FORBIDDEN_CHARS_def
      USERNAME_FORBIDDEN_SHELL_CHARS_def isspace_def)

lemma sample_start_succeeds: "\<exists>j w. sample_started_on chan (\<lambda>_ _ _ _ _ _ _ _ _ b. (Inr 4, b)) empty_fs = (Inr j, w)"
proof -
  obtain c where c: "runtime_issue ([5], [6]) 8 (id_username sample_identity) 9 2 (utc 1) = Inr c"
    "iuc_username c = id_username sample_identity"
    using sample_issued by blast
  have fs: "jw_fs (sample_jump_world_on chan empty_fs) = empty_fs" "fs_faults empty_fs = []" "fs_honours_modes empty_fs"
    by (simp_all add: sample_jump_world_on_def empty_fs_def)
  have ids: "jf_session_id sample_fresh = 9" "db_next_serial (jw_db (sample_jump_world_on chan fs)) = 2" for fs
    by (simp_all add: sample_fresh_def sample_jump_world_on_def)
  have iss: "jd_issue (sample_deps m) = runtime_issue ([5], [6]) 8" for m
    by (simp add: sample_deps_def)
  show ?thesis
    unfolding sample_run run_jump_def start_recording_def open_node_connection_def
    by (simp add: sbind_def stry_def jump_fs_def jump_broker_def start_ok fs session_of_def iss ids c)
       (simp add: sample_deps_def sbind_def)
qed

lemma started_jump_is_authorised_witness:
  "\<exists>j w. sample_started (\<lambda>_ _ _ _ _ _ _ _ _ b. (Inr 4, b)) empty_fs = (Inr j, w) \<and>
     strip (str ''web1'') \<in> ni_node_name ` {\<lparr>ni_node_name = str ''web1'', ni_labels = {}\<rparr>} \<and>
     iuc_username (sj_user_certificate j) = str ''bob''"
proof -
  obtain j w where s: "sample_started (\<lambda>_ _ _ _ _ _ _ _ _ b. (Inr 4, b)) empty_fs = (Inr j, w)" using sample_start_succeeds [of "()"] by blast
  from started_jump_is_authorised [OF s [unfolded sample_started_on_def]] s show ?thesis
    by (intro exI [of _ j] exI [of _ w]) (simp add: sample_identity_def)
qed

section \<open>Failed jumps\<close>

text \<open>\<open>raises P m\<close>: whatever \<open>m\<close> raises, in any state, satisfies \<open>P\<close>.\<close>

definition raises :: "(exc \<Rightarrow> bool) \<Rightarrow> ('s, 'a) op \<Rightarrow> bool" where
  "raises P m \<longleftrightarrow> (\<forall>s e t. m s = (Inl e, t) \<longrightarrow> P e)"

named_theorems raises_intros "which exceptions a computation raises, by its structure"

lemma raisesD: "raises P m \<Longrightarrow> m s = (Inl e, t) \<Longrightarrow> P e"
  by (auto simp: raises_def)

lemma raises_basic [raises_intros]:
  "raises P (sret x)" "raises P (sget f)" "raises P (smodify g)" "P e \<Longrightarrow> raises P (sraise e)"
  "(\<not> b \<Longrightarrow> P e) \<Longrightarrow> raises P (srequire b e)" "P (OSError ''input/output error'') \<Longrightarrow> raises P (io h)"
  by (auto simp: raises_def require_def io_def split: list.splits bool.splits)

lemma raises_sbind [raises_intros]:
  "raises P m \<Longrightarrow> (\<And>x. raises P (k x)) \<Longrightarrow> raises P (sbind m k)"
  unfolding raises_def sbind_eq_Inl by blast

lemma raises_stry [raises_intros]:
  "raises (\<lambda>e. p e \<or> P e) m \<Longrightarrow> (\<And>e. p e \<Longrightarrow> raises P (h e)) \<Longrightarrow> raises P (stry m p h)"
  by (fastforce simp: raises_def stry_eq_Inl)

lemma raises_lift [raises_intros]:
  "raises P m \<Longrightarrow> raises P (on_fs m)" "raises P m \<Longrightarrow> raises P (jump_fs m)"
  "raises P q \<Longrightarrow> raises P (jump_db q)" "raises P b \<Longrightarrow> raises P (jump_broker b)"
  "raises P v \<Longrightarrow> raises P (jump_replay ref v)"
  by (auto simp: raises_def on_fs_def jump_fs_def jump_db_def jump_broker_def jump_replay_def
      split: prod.splits)

lemma raises_weaken: "raises P m \<Longrightarrow> (\<And>e. P e \<Longrightarrow> Q e) \<Longrightarrow> raises Q m"
  by (auto simp: raises_def)

text \<open>A method that reads its state first.\<close>

lemma raises_local:
  assumes "\<And>s. (\<exists>x t. m s = (Inr x, t)) \<or> (\<exists>n. raises P n \<and> m s = n s)"
  shows "raises P m"
  unfolding raises_def
proof (intro allI impI)
  fix s e t
  assume "m s = (Inl e, t)"
  moreover from this assms [of s] obtain n where "raises P n" "m s = n s" by auto
  ultimately show "P e" using raisesD [of P n s e t] by simp
qed

lemma raises_run: "raises P n \<Longrightarrow> (\<exists>x t. n s = (Inr x, t)) \<or> (\<exists>n'. raises P n' \<and> n s = n' s)"
  by blast

abbreviation no_jump_error :: "('s, 'a) op \<Rightarrow> bool" where
  "no_jump_error \<equiv> raises (\<lambda>e. \<not> is_jump_error e)"

lemma raises_replay_fail: "raises (\<lambda>e. e = OSError ''input/output error'') (replay_fail err)"
proof -
  let ?P = "\<lambda>e. e = OSError ''input/output error''"
  have flush: "raises ?P flush_recorder"
  proof (rule raises_local)
    fix s :: replay_world
    show "(\<exists>x t. flush_recorder s = (Inr x, t)) \<or> (\<exists>n. raises ?P n \<and> flush_recorder s = n s)"
      unfolding flush_recorder_def
      by (rule raises_run, intro raises_intros) simp
  qed
  have cl: "raises ?P close_file"
  proof (rule raises_local)
    fix s :: replay_world
    show "(\<exists>x t. close_file s = (Inr x, t)) \<or> (\<exists>n. raises ?P n \<and> close_file s = n s)"
    proof (cases "rr_file_closed (rw_recorder s)")
      case True
      then show ?thesis by (simp add: close_file_def)
    next
      case False
      show ?thesis
        unfolding close_file_def if_not_P [OF False]
        by (rule raises_run, intro raises_intros flush)
    qed
  qed
  have un: "raises ?P (unlink_if_exists n)" for n
    by (auto simp: unlink_if_exists_def raises_def io_def split: list.splits bool.splits if_splits)
  show ?thesis
  proof (rule raises_local)
    fix w :: replay_world
    show "(\<exists>x t. replay_fail err w = (Inr x, t)) \<or> (\<exists>n. raises ?P n \<and> replay_fail err w = n w)"
    proof (cases "rr_closed (rw_recorder w)")
      case True
      then show ?thesis by (simp add: replay_fail_def)
    next
      case False
      show ?thesis
        unfolding replay_fail_def if_not_P [OF False]
        by (rule raises_run, intro raises_intros cl un)
    qed
  qed
qed

lemma raises_replay_start: "no_jump_error (replay_start key sink temp sid n w h now)"
proof -
  have w: "no_jump_error (write_line l)" for l
    unfolding write_line_def by (auto intro!: raises_intros split: option.splits)
  have o: "no_jump_error (open_recorder r n w h now)" for r now
    using raisesD [OF w] by (fastforce simp: raises_def open_recorder_def split: prod.splits sum.splits)
  have u: "no_jump_error (unlink_if_exists temp)"
    by (auto simp: unlink_if_exists_def raises_def io_def split: list.splits bool.splits if_splits)
  show ?thesis
    unfolding replay_start_def prepare_replay_directory_def
    by (intro raises_intros o u raises_weaken [OF o]) (simp_all)
qed

lemma raises_pg_close: "raises (\<lambda>e. \<exists>m. e = PostgresError m) (pg_close c)"
  by (auto simp: raises_def pg_close_eq sql_write_def split: if_splits)

lemma raises_audit_denial: "no_jump_error (audit_denial d f a i n r t s)"
  unfolding raises_def using audit_denial_frame by fastforce

lemma raises_runtime_issue: "runtime_issue k ttl u i sn t = Inl e \<Longrightarrow> \<not> is_jump_error e"
  by (auto simp: runtime_issue_def issue_user_ssh_certificate_def validate_username_principal_def Let_def exc_elims
      split: if_splits)

definition failing :: "uuid \<Rightarrow> datetime \<Rightarrow> closing" where
  "failing sid now = \<lparr>cl_session = sid, cl_status = FAILED, cl_ended_at = now,
     cl_path = uuid_text sid @ str ''.cast'', cl_hmac = None\<rparr>"

lemma fail_session_eq: "fail_session sid now = pg_close (failing sid now)"
  by (simp add: fail_session_def pg_close_def failing_def)

text \<open>The two clean-ups of a jump: the row is failed, the recorder closed.\<close>

lemma fail_session_run:
  assumes "jump_db (fail_session sid now) w = (r, w')"
  shows "case r of Inl e \<Rightarrow> \<not> is_jump_error e
    | Inr u \<Rightarrow> w' = w\<lparr>jw_db := closed_db (failing sid now) (jw_db w)\<rparr>"
proof (cases r)
  case (Inl e)
  then show ?thesis
    using assms raisesD [OF raises_lift(3) [OF raises_pg_close], of "failing sid now" w e w']
    by (auto simp: fail_session_eq)
next
  case (Inr u)
  then show ?thesis
    using assms by (auto simp: fail_session_eq jump_db_eq pg_close_eq sql_write_def split: if_splits)
qed

lemma replay_fail_Inr: "replay_fail err v = (Inr u, v') \<Longrightarrow> rr_closed (rw_recorder v')"
proof -
  assume a: "replay_fail err v = (Inr u, v')"
  have flush: "flush_recorder w = (x, w') \<Longrightarrow> rw_recorder w' = rw_recorder w" for w x w'
    by (auto simp: flush_recorder_def on_fs_def split: prod.splits)
  have cl: "close_file w = (x, w') \<Longrightarrow> rr_closed (rw_recorder w') = rr_closed (rw_recorder w)" for w x w'
  proof (cases "flush_recorder w")
    case (Pair y w1)
    then show "close_file w = (x, w') \<Longrightarrow> rr_closed (rw_recorder w') = rr_closed (rw_recorder w)"
      using flush [OF Pair] by (cases y) (auto simp: close_file_def sbind_def set_recorder_def split: if_splits)
  qed
  show ?thesis
  proof (cases "rr_closed (rw_recorder v)")
    case True
    then show ?thesis using a by (simp add: replay_fail_def)
  next
    case False
    let ?v = "set_recorder (\<lambda>r. r\<lparr>rr_closed := True\<rparr>) v"
    obtain w1 where w1: "close_file ?v = (Inr (), w1)"
      using a False by (auto simp: replay_fail_def sbind_eq_Inr)
    have "rr_closed (rw_recorder w1)" using cl [OF w1] by (simp add: set_recorder_def)
    then show ?thesis
      using a False w1 by (auto simp: replay_fail_def sbind_def on_fs_def split: prod.splits if_splits)
  qed
qed

lemma replay_fail_run:
  assumes "jump_replay sid (replay_fail err) w = (r, w')"
  shows "jw_db w' = jw_db w \<and> (case r of Inl e \<Rightarrow> \<not> is_jump_error e
    | Inr u \<Rightarrow> rr_closed (the (jw_recorders w' sid)))"
proof -
  obtain v where v: "replay_fail err \<lparr>rw_recorder = the (jw_recorders w sid), rw_fs = jw_fs w,
      rw_events = jw_events w\<rparr> = (r, v)"
    and w': "w' = w\<lparr>jw_recorders := (jw_recorders w)(sid \<mapsto> rw_recorder v), jw_fs := rw_fs v, jw_events := rw_events v\<rparr>"
    using assms by (auto simp: jump_replay_def split: prod.splits)
  show ?thesis
  proof (cases r)
    case (Inl e)
    with v raisesD [OF raises_replay_fail] have "e = OSError ''input/output error''" by blast
    with Inl w' show ?thesis by simp
  next
    case (Inr u)
    with v replay_fail_Inr have "rr_closed (rw_recorder v)" by blast
    with Inr w' show ?thesis by simp
  qed
qed

text \<open>What a jump that raises \<open>JumpError\<close> after creating its row leaves.\<close>

definition row_failed :: "uuid \<Rightarrow> datetime \<Rightarrow> 'c jump_world \<Rightarrow> 'c jump_world \<Rightarrow> bool" where
  "row_failed sid now w w' \<longleftrightarrow> audit_only (closed_db (failing sid now) (jw_db w)) (jw_db w')"

definition recorder_closed :: "uuid \<Rightarrow> 'c jump_world \<Rightarrow> 'c jump_world \<Rightarrow> bool" where
  "recorder_closed sid w w' \<longleftrightarrow> (\<exists>rec. rr_closed rec \<and> jw_recorders w' = (jw_recorders w)(sid \<mapsto> rec))"

lemma start_recording_fails:
  assumes "start_recording d f identity target session n width height now w = (Inl e, w')" "is_jump_error e"
  shows "row_failed (js_session_id session) now w w' \<and> jw_recorders w' = jw_recorders w"
proof -
  let ?sid = "js_session_id session"
  obtain r fs where rs: "replay_start (jd_replay_key d) (jd_replay_sink d) (jf_temp_name f) ?sid n
      width height (js_started_at session) (jw_fs w) = (r, fs)"
    by (cases "replay_start (jd_replay_key d) (jd_replay_sink d) (jf_temp_name f) ?sid n
      width height (js_started_at session) (jw_fs w)")
  with assms obtain e1 where r: "r = Inl e1"
    by (cases r) (auto simp: start_recording_def sbind_def stry_def jump_fs_def)
  have "is_replay_error e1"
    using assms rs r raisesD [OF raises_replay_start] 
    by (cases "is_replay_error e1") (auto simp: start_recording_def sbind_def stry_def jump_fs_def)
  then have run: "sbind (jump_db (fail_session ?sid now)) (\<lambda>_.
       sbind (audit_denial d f (id_username identity) (Some (jt_agent_id target)) (Some n)
          (str ''replay start failed'') now (Some ?sid)) (\<lambda>_.
       sraise (JumpError ''replay capture is required''))) (w\<lparr>jw_fs := fs\<rparr>) = (Inl e, w')"
    using assms(1) rs r by (auto simp: start_recording_def sbind_def stry_def jump_fs_def split: sum.splits prod.splits)
  obtain r2 w2 where f: "jump_db (fail_session ?sid now) (w\<lparr>jw_fs := fs\<rparr>) = (r2, w2)"
    by (cases "jump_db (fail_session ?sid now) (w\<lparr>jw_fs := fs\<rparr>)")
  with fail_session_run [OF f] run assms(2) obtain u where r2: "r2 = Inr u"
    "w2 = w\<lparr>jw_fs := fs, jw_db := closed_db (failing ?sid now) (jw_db w)\<rparr>"
    by (cases r2) (auto simp: sbind_def)
  obtain r3 w3 where a: "audit_denial d f (id_username identity) (Some (jt_agent_id target)) (Some n)
      (str ''replay start failed'') now (Some ?sid) w2 = (r3, w3)"
    by (cases "audit_denial d f (id_username identity) (Some (jt_agent_id target)) (Some n)
      (str ''replay start failed'') now (Some ?sid) w2")
  have "w' = w3" using run f r2 a by (cases r3) (auto simp: sbind_def)
  then show ?thesis
    using audit_denial_frame [OF a] r2(2) by (auto simp: row_failed_def)
qed

lemma deny_and_raise:
  assumes "sbind (audit_denial d f a i n r t s) (\<lambda>_. sraise x) w = (Inl e, w')"
  shows "\<exists>db. w' = w\<lparr>jw_db := db\<rparr> \<and> audit_only (jw_db w) db"
proof -
  obtain r3 w3 where a: "audit_denial d f a i n r t s w = (r3, w3)"
    by (cases "audit_denial d f a i n r t s w")
  then have "w' = w3" using assms by (cases r3) (auto simp: sbind_def)
  with audit_denial_frame [OF a] show ?thesis by blast
qed

lemma fail_and_clean_up:
  assumes "sbind (jump_replay sid (replay_fail m)) (\<lambda>_. sbind (jump_db (fail_session sid now)) (\<lambda>_. k)) w = (Inl e, w')"
    "is_jump_error e" "\<And>v v'. k v = (Inl e, v') \<Longrightarrow> \<exists>db. v' = v\<lparr>jw_db := db\<rparr> \<and> audit_only (jw_db v) db"
  shows "row_failed sid now w w' \<and> recorder_closed sid w w'"
proof -
  obtain r1 w1 where f: "jump_replay sid (replay_fail m) w = (r1, w1)"
    by (cases "jump_replay sid (replay_fail m) w")
  note fr = replay_fail_run [OF f]
  with assms(1,2) f obtain u where r1: "r1 = Inr u" by (cases r1) (auto simp: sbind_def)
  obtain r2 w2 where g: "jump_db (fail_session sid now) w1 = (r2, w2)"
    by (cases "jump_db (fail_session sid now) w1")
  with fail_session_run [OF g] assms(1,2) f r1 obtain v where r2: "r2 = Inr v"
    "w2 = w1\<lparr>jw_db := closed_db (failing sid now) (jw_db w1)\<rparr>"
    by (cases r2) (auto simp: sbind_def)
  have "k w2 = (Inl e, w')" using assms(1) f r1 g r2 by (simp add: sbind_def)
  from assms(3) [OF this] obtain db where "w' = w2\<lparr>jw_db := db\<rparr>" "audit_only (jw_db w2) db" by blast
  moreover have "jw_recorders w1 = (jw_recorders w)(sid \<mapsto> the (jw_recorders w1 sid))"
    using f by (auto simp: jump_replay_def split: prod.splits)
  ultimately show ?thesis
    using fr r1 r2(2) unfolding row_failed_def recorder_closed_def
    by (intro conjI exI [of _ "the (jw_recorders w1 sid)"]) simp_all
qed

lemma open_node_fails:
  assumes "open_node_connection d f identity target session n cert now w = (Inl e, w')" "is_jump_error e"
  shows "row_failed (js_session_id session) now w w' \<and> recorder_closed (js_session_id session) w w'"
proof -
  let ?open = "jd_open_node d (jf_now f) (jf_request_id f) (jf_close_id f) (jt_agent_id target)
             (uuid_text (jf_channel_id f)) n (jt_node_ssh_host_public_key target) (id_username identity) cert"
  obtain r b where o: "?open (jw_broker w) = (r, b)" by (cases "?open (jw_broker w)")
  let ?w = "w\<lparr>jw_broker := b\<rparr>"
  from assms o obtain e1 where r: "r = Inl e1"
    by (cases r) (auto simp: open_node_connection_def stry_def jump_broker_def)
  have j: "is_jump_error e1"
    using assms o r by (cases "is_jump_error e1") (auto simp: open_node_connection_def stry_def jump_broker_def)
  have "sbind (jump_replay (js_session_id session) (replay_fail (str ''node SSH connection failed''))) (\<lambda>_.
         sbind (jump_db (fail_session (js_session_id session) now)) (\<lambda>_.
         sbind (audit_denial d f (id_username identity) (Some (jt_agent_id target)) (Some n)
                  (str ''node SSH connection failed'') now (Some (js_session_id session))) (\<lambda>_.
         sraise (JumpError ''node SSH connection failed'')))) ?w = (Inl e :: nat result, w')"
    using assms(1) o r j by (simp add: open_node_connection_def stry_def jump_broker_def)
  from fail_and_clean_up [OF this assms(2) deny_and_raise] show ?thesis
    by (simp add: row_failed_def recorder_closed_def)
qed

lemma run_jump_fails:
  assumes "jd_issue d = runtime_issue k ttl"
    "run_jump d f identity target session n width height now w = (Inl e, w')" "is_jump_error e"
  shows "row_failed (js_session_id session) now w w' \<and>
    (jw_recorders w' = jw_recorders w \<or> recorder_closed (js_session_id session) w w')"
proof -
  let ?sid = "js_session_id session"
  obtain r1 w1 where s1: "start_recording d f identity target session n width height now w = (r1, w1)"
    by (cases "start_recording d f identity target session n width height now w")
  show ?thesis
  proof (cases r1)
    case (Inl e1)
    with s1 assms(2) have "e1 = e" "w1 = w'" by (auto simp: run_jump_def sbind_def)
    with start_recording_fails s1 Inl assms(3) show ?thesis by blast
  next
    case (Inr u)
    obtain rec where w1: "jw_db w1 = jw_db w" "jw_recorders w1 = (jw_recorders w)(?sid \<mapsto> rec)"
      using s1 Inr by (auto simp: start_recording_def jump_elims)
    have shift: "row_failed ?sid now w1 w' \<and> recorder_closed ?sid w1 w' \<Longrightarrow> ?thesis"
      using w1 by (auto simp: row_failed_def recorder_closed_def)
    obtain cert where c: "jd_issue d (id_username identity) ?sid (js_user_cert_serial session) now = Inr cert"
    proof (cases "jd_issue d (id_username identity) ?sid (js_user_cert_serial session) now")
      case (Inl e2)
      with assms(2) s1 Inr have "e2 = e" by (auto simp: run_jump_def sbind_def)
      with Inl assms(1,3) raises_runtime_issue show ?thesis by metis
    qed
    show ?thesis
    proof (cases "iuc_username cert = id_username identity")
      case False
      have "sbind (jump_replay ?sid (replay_fail (str ''certificate principal mismatch''))) (\<lambda>_.
          sbind (jump_db (fail_session ?sid now)) (\<lambda>_.
          sraise (JumpError ''user certificate principal mismatch''))) w1 = (Inl e :: StartedJump result, w')"
        using assms(2) s1 Inr c False by (simp add: run_jump_def sbind_Inr)
      moreover have "\<exists>db. v' = v\<lparr>jw_db := db\<rparr> \<and> audit_only (jw_db v) db"
        if "sraise (JumpError ''user certificate principal mismatch'') v = (Inl e :: StartedJump result, v')" for v v'
        using that by (intro exI [of _ "jw_db v"]) simp
      ultimately show ?thesis by (intro shift fail_and_clean_up [OF _ assms(3)])
    next
      case True
      obtain r3 w3 where o: "open_node_connection d f identity target session n cert now w1 = (r3, w3)"
        by (cases "open_node_connection d f identity target session n cert now w1")
      show ?thesis
      proof (cases r3)
        case (Inl e3)
        with assms(2) s1 Inr c True o
        have "open_node_connection d f identity target session n cert now w1 = (Inl e, w')"
          by (auto simp: run_jump_def sbind_def)
        then show ?thesis by (rule shift [OF open_node_fails [OF _ assms(3)]])
      next
        case a: (Inr nc)
        have "jd_audit_sink d"
          using assms(2) s1 Inr c True o a by (cases "jd_audit_sink d") (auto simp: run_jump_def sbind_def)
        then obtain q where q: "jump_audit f q w3 = (Inl e, w')"
          using assms(2) s1 Inr c True o a by (auto simp: run_jump_def sbind_def split: sum.splits prod.splits)
        from jump_audit_frame [OF this] assms(3) show ?thesis by simp
      qed
    qed
  qed
qed

lemma select_node_Inl:
  "select_node d f identity command visible now w = (Inl e, w') \<Longrightarrow>
     \<exists>db. w' = w\<lparr>jw_db := db\<rparr> \<and> audit_only (jw_db w) db"
proof -
  assume a: "select_node d f identity command visible now w = (Inl e, w')"
  let ?p = "parse_restricted_shell_command command (map ni_node_name visible)"
  show ?thesis
  proof (cases "\<exists>e1. ?p = Inl e1 \<and> is_auth_error e1")
    case True
    then show ?thesis using a deny_and_raise by (fastforce simp: select_node_def stry_def)
  next
    case False
    then have "w' = w" using a by (auto simp: select_node_def stry_def split: sum.splits if_splits)
    then show ?thesis by (intro exI [of _ "jw_db w"]) simp
  qed
qed

lemma select_target_Inl:
  "select_target d f identity n presented now w = (Inl e, w') \<Longrightarrow>
     \<exists>db. w' = w\<lparr>jw_db := db\<rparr> \<and> audit_only (jw_db w) db"
proof -
  assume a: "select_target d f identity n presented now w = (Inl e, w')"
  have db: "w\<lparr>jw_db := jw_db w\<rparr> = w" by simp
  obtain r db1 where g: "get_jump_target (jd_heartbeat_seconds d) n (jw_db w) = (r, db1)"
    by (cases "get_jump_target (jd_heartbeat_seconds d) n (jw_db w)")
  then have "db1 = jw_db w" by (auto simp: get_jump_target_def split: option.splits)
  with g have j: "jump_db (get_jump_target (jd_heartbeat_seconds d) n) w = (r, w)" by (simp add: jump_db_def)
  have same: "w' = w \<Longrightarrow> ?thesis" using db by (intro exI [of _ "jw_db w"]) simp
  show ?thesis
  proof (cases r)
    case (Inl e1)
    then show ?thesis using a j same by (simp add: select_target_def sbind_def)
  next
    case r: (Inr found)
    show ?thesis
    proof (cases found)
      case None
      then show ?thesis using a j r deny_and_raise by (fastforce simp: select_target_def sbind_def [of "jump_db _"])
    next
      case (Some target)
      let ?v = "validate_pinned_host_key (Some (jt_node_ssh_host_public_key target)) presented"
      show ?thesis
      proof (cases ?v)
        case (Inl e2)
        then show ?thesis using a j r Some same by (simp add: select_target_def sbind_def)
      next
        case (Inr key)
        show ?thesis
        proof (cases "allows_new_jump now (jt_heartbeat target)")
          case True
          then show ?thesis using a j r Some Inr by (simp add: select_target_def sbind_def)
        next
          case False
          then show ?thesis
            using a j r Some Inr deny_and_raise
            by (fastforce simp: select_target_def sbind_def [of "jump_db _"] sbind_def [of "slift _"])
        qed
      qed
    qed
  qed
qed

lemma failed_new_row:
  assumes "wf_db (with_session f a u now db)"
  shows "db_sessions (closed_db (failing (jf_session_id f) t) (with_session f a u now db)) =
    db_sessions db @ [close_row (failing (jf_session_id f) t) (new_session_row f a u now (db_next_serial db))]"
proof -
  have "\<forall>r \<in> set (db_sessions db). se_id r \<noteq> jf_session_id f"
    using assms by (force simp: wf_db_def sessions_ok_def with_session_def new_session_row_def open_row_def)
  then have "update_where (closable (jf_session_id f)) g (db_sessions db) = db_sessions db" for g
    by (auto simp: update_where_def closable_def intro: map_idI)
  then show ?thesis
    by (simp add: closed_db_def with_session_def failing_def update_where_def closable_def new_session_row_def
        open_row_def)
qed

text \<open>C24: A refused jump leaves no open session.  With the certificate issuer of the server, whatever
  the opener does: if starting a jump raises \<open>JumpError\<close>, then either nothing changed but the audit
  log, or the one session row that was added is \<open>failed\<close> with its end time, and its recorder, if one
  was started, is closed.\<close>

theorem refused_jump_leaves_no_open_session:
  assumes "jd_issue d = runtime_issue key ttl"
    "start_jump d f identity command visible presented width height now w = (Inl e, w')" "is_jump_error e"
  shows "audit_only (jw_db w) (jw_db w') \<and> jw_fs w' = jw_fs w \<and> jw_recorders w' = jw_recorders w \<and>
      jw_broker w' = jw_broker w \<or>
    (\<exists>target. authorised_target (jd_heartbeat_seconds d) presented now (strip command) (jw_db w) target \<and>
      db_sessions (jw_db w') = db_sessions (jw_db w) @ [close_row (failing (jf_session_id f) now)
        (new_session_row f (jt_agent_id target) (id_username identity) now (db_next_serial (jw_db w)))] \<and>
      (jw_recorders w' = jw_recorders w \<or> recorder_closed (jf_session_id f) w w'))"
proof -
  have same: "\<exists>db. w' = w\<lparr>jw_db := db\<rparr> \<and> audit_only (jw_db w) db \<Longrightarrow> ?thesis" by auto
  obtain r1 w1 where s1: "select_node d f identity command visible now w = (r1, w1)"
    by (cases "select_node d f identity command visible now w")
  show ?thesis
  proof (cases r1)
    case (Inl e1)
    with assms(2) s1 select_node_Inl show ?thesis by (intro same) (fastforce simp: start_jump_def sbind_def)
  next
    case n: (Inr n)
    with s1 have w1: "w1 = w" "n = strip command" by (auto simp: select_node_Inr parse_shell_Inr)
    obtain r2 w2 where s2: "select_target d f identity n presented now w = (r2, w2)"
      by (cases "select_target d f identity n presented now w")
    show ?thesis
    proof (cases r2)
      case (Inl e2)
      with assms(2) s1 n w1(1) s2 have "select_target d f identity n presented now w = (Inl e, w')"
        by (auto simp: start_jump_def sbind_def)
      then show ?thesis by (intro same select_target_Inl)
    next
      case t: (Inr target)
      with s2 select_target_Inr have w2: "w2 = w"
        "authorised_target (jd_heartbeat_seconds d) presented now n (jw_db w) target" by blast+
      let ?create = "pg_create_session (jf_session_id f) (jt_agent_id target) (id_username identity)
              (uuid_text (jf_path_id f) @ str ''.cast'') now"
      obtain r3 db3 where s3: "?create (jw_db w) = (r3, db3)" by (cases "?create (jw_db w)")
      show ?thesis
      proof (cases r3)
        case (Inl e3)
        with s3 assms(3) have "e3 \<noteq> e"
          by (auto simp: pg_create_session_def jump_elims require_def split: if_splits)
        with assms(2) s1 n w1(1) s2 t w2(1) s3 Inl show ?thesis
          by (auto simp: start_jump_def sbind_def jump_db_def)
      next
        case (Inr session)
        note c = s3 [unfolded Inr create_session_Inr]
        have db3: "db3 = with_session f (jt_agent_id target) (id_username identity) now (jw_db w)"
          and wf: "wf_db db3" and sid: "js_session_id session = jf_session_id f"
          using c by (auto simp: with_session_def session_of_def)
        have "run_jump d f identity target session n width height now (w\<lparr>jw_db := db3\<rparr>) = (Inl e, w')"
          using assms(2) s1 n w1(1) s2 t w2(1) s3 Inr by (simp add: start_jump_def sbind_def jump_db_def)
        from run_jump_fails [OF assms(1) this assms(3)] have
          "audit_only (closed_db (failing (jf_session_id f) now) db3) (jw_db w')"
          "jw_recorders w' = jw_recorders w \<or> recorder_closed (jf_session_id f) w w'"
          by (auto simp: row_failed_def recorder_closed_def sid)
        moreover from this(1) have "db_sessions (jw_db w') = db_sessions (jw_db w) @
            [close_row (failing (jf_session_id f) now)
              (new_session_row f (jt_agent_id target) (id_username identity) now (db_next_serial (jw_db w)))]"
          using failed_new_row [OF wf [unfolded db3]] audit_only_fields by (simp add: db3)
        ultimately show ?thesis using w2(2) w1(2) by blast
      qed
    qed
  qed
qed

definition loose_fs :: filesystem where
  "loose_fs = \<lparr>fs_files = [], fs_honours_modes = False, fs_faults = []\<rparr>"

lemma sample_refused:
  "\<exists>w'. sample_started m loose_fs = (Inl (JumpError ''replay capture is required''), w') \<and>
     db_sessions (jw_db w') \<noteq> db_sessions (jw_db (sample_jump_world loose_fs))"
proof -
  let ?db = "with_session sample_fresh 3 (id_username sample_identity) (utc 1) (jw_db (sample_jump_world loose_fs))"
  have wf: "wf_db ?db" using sample_session [where chan = "()" and fs = loose_fs] unfolding create_session_Inr by blast
  have rs: "replay_start k s tmp i n w h now loose_fs =
      (Inl (ReplayError ''replay directory must have mode 0700''), loose_fs)" for k s tmp i n w h now
    by (simp add: replay_start_def prepare_replay_directory_def sbind_def loose_fs_def)
  let ?c = "failing 9 (utc 1)"
  have "closing_texts ?c" "wf_db (closed_db ?c ?db)"
    using wf by (simp_all add: closing_texts_def failing_def pg_text_cast wf_closed_db)
  then have cl: "pg_close ?c ?db = (Inr (), closed_db ?c ?db)" by (simp add: pg_close_eq sql_write_def)
  have w: "jw_fs (sample_jump_world loose_fs) = loose_fs" "jf_session_id sample_fresh = 9"
    "\<not> jd_audit_sink (sample_deps m)"
    by (simp_all add: sample_jump_world_on_def sample_fresh_def sample_deps_def)
  have "db_sessions (closed_db ?c ?db) \<noteq> db_sessions (jw_db (sample_jump_world loose_fs))"
    by (simp add: closed_db_def with_session_def update_where_def)
  then show ?thesis
    unfolding sample_run run_jump_def start_recording_def
    by (simp add: sbind_def stry_def jump_fs_def w rs session_of_def fail_session_eq jump_db_def cl audit_denial_def)
qed

lemma refused_jump_leaves_no_open_session_witness:
  "\<exists>w'. sample_started (\<lambda>_ _ _ _ _ _ _ _ _ b. (Inr 4, b)) loose_fs = (Inl (JumpError ''replay capture is required''), w') \<and>
    (\<exists>r. db_sessions (jw_db w') = db_sessions (jw_db (sample_jump_world loose_fs)) @ [r] \<and>
       se_status r = str ''failed'')"
proof -
  obtain w' where w: "sample_started (\<lambda>_ _ _ _ _ _ _ _ _ b. (Inr 4, b)) loose_fs = (Inl (JumpError ''replay capture is required''), w')"
    "db_sessions (jw_db w') \<noteq> db_sessions (jw_db (sample_jump_world loose_fs))"
    using sample_refused by blast
  have "jd_issue (sample_deps (\<lambda>_ _ _ _ _ _ _ _ _ b. (Inr 4, b))) = runtime_issue ([5], [6]) 8" by (simp add: sample_deps_def)
  from refused_jump_leaves_no_open_session [OF this w(1) [unfolded sample_started_on_def]] w audit_only_fields
  show ?thesis by (fastforce simp: close_row_def failing_def)
qed

section \<open>A jump to a disconnected agent\<close>

lemma offline_open_raises:
  assumes "iuc_username cert = username" "key \<noteq> []" "bk_connections b agent_id = None"
  shows "opener_open_session opener now rid cid agent_id (uuid_text ch) n key username cert b =
    (Inl (TunnelStateError ''agent tunnel is not connected''), b)"
proof -
  have "uuid_text ch \<noteq> []" by (simp add: uuid_text_def Let_def)
  then show ?thesis
    using assms by (simp add: opener_open_session_def open_session_def sbind_def require_connection_def)
qed

text \<open>An agent that has just disconnected strands the session.  An agent is seen recently, so the
  checks pass, but the broker has no connection for it any more.  Then starting the jump raises the
  broker's \<open>TunnelStateError\<close>, which no handler of the jump catches: the session row that was created
  stays \<open>open\<close>, the recorder stays open and its temporary file stays in the replay directory.\<close>

theorem offline_agent_strands_the_session:
  assumes "jd_issue d = runtime_issue key ttl" "jd_open_node d = opener_open_session opener"
    "select_node d f identity command visible now w = (Inr n, w)"
    "select_target d f identity n presented now w = (Inr target, w)"
    "pg_create_session (jf_session_id f) (jt_agent_id target) (id_username identity)
       (uuid_text (jf_path_id f) @ str ''.cast'') now (jw_db w) = (Inr session, db)"
    "fs_faults (jw_fs w) = []" "fs_honours_modes (jw_fs w)"
    "runtime_issue key ttl (id_username identity) (jf_session_id f) (js_user_cert_serial session) now = Inr cert"
    "bk_connections (jw_broker w) (jt_agent_id target) = None"
  shows "\<exists>w' row rec. start_jump d f identity command visible presented width height now w =
      (Inl (TunnelStateError ''agent tunnel is not connected''), w') \<and>
    db_sessions (jw_db w') = db_sessions (jw_db w) @ [row] \<and> se_id row = jf_session_id f \<and>
    se_status row = str ''open'' \<and>
    jw_recorders w' (jf_session_id f) = Some rec \<and> \<not> rr_closed rec \<and>
    file_content (jw_fs w') (jf_temp_name f) = Some []"
proof -
  have sid: "js_session_id session = jf_session_id f"
    and db: "db_sessions db = db_sessions (jw_db w) @
      [new_session_row f (jt_agent_id target) (id_username identity) now (db_next_serial (jw_db w))]"
    using assms(5) unfolding create_session_Inr by (auto simp: session_of_def)
  have user: "iuc_username cert = id_username identity"
    using assms(8) by (auto simp: runtime_issue_def issue_user_ssh_certificate_def Let_def exc_elims
        validate_username_principal_def split: if_splits)
  have hk: "jt_node_ssh_host_public_key target \<noteq> []"
    using select_target_Inr [OF assms(4)] by (auto simp: authorised_target_def)
  note off = offline_open_raises [OF user hk assms(9)]
  have "start_jump d f identity command visible presented width height now w =
      run_jump d f identity target session n width height now (w\<lparr>jw_db := db\<rparr>)"
    using assms(3-5) by (simp add: start_jump_def sbind_def jump_db_def)
  also have "\<dots> = (Inl (TunnelStateError ''agent tunnel is not connected''),
      w\<lparr>jw_db := db, jw_fs := put_file (jf_temp_name f) [] (jw_fs w), jw_recorders := (jw_recorders w)(jf_session_id f \<mapsto>
        (new_recorder (jf_session_id f) (jf_temp_name f) (jd_replay_key d) (jd_replay_sink d))
          \<lparr>rr_written := lines_bytes [header_line n width height (as_utc (js_started_at session))]\<rparr>)\<rparr>)"
    using start_ok [OF assms(6,7)] assms(1,2,8) user off
    by (simp add: run_jump_def start_recording_def open_node_connection_def sbind_def stry_def jump_fs_def
        jump_broker_def sid)
  finally show ?thesis by (simp add: db new_session_row_def open_row_def new_recorder_def)
qed

lemma offline_agent_strands_the_session_witness:
  "\<exists>opener w' row. AsyncSshNodeTunnelOpener (\<lambda>_. Inr ()) (\<lambda>_ b. (Inr 4, b)) 2222 = Inr opener \<and>
     sample_started (opener_open_session opener) empty_fs =
       (Inl (TunnelStateError ''agent tunnel is not connected''), w') \<and>
     db_sessions (jw_db w') = db_sessions (jw_db (sample_jump_world empty_fs)) @ [row] \<and>
     se_status row = str ''open''"
proof -
  obtain opener where o: "AsyncSshNodeTunnelOpener (\<lambda>_. Inr ()) (\<lambda>_ b. (Inr 4, b)) 2222 = Inr opener"
    by (simp add: AsyncSshNodeTunnelOpener_def)
  let ?d = "sample_deps (opener_open_session opener)"
  obtain c where c: "runtime_issue ([5], [6]) 8 (id_username sample_identity) (jf_session_id sample_fresh) 2 (utc 1) = Inr c"
    using sample_issued by blast
  have d: "jd_issue ?d = runtime_issue ([5], [6]) 8" "jd_open_node ?d = opener_open_session opener"
    by (simp_all add: sample_deps_def)
  have w: "fs_faults (jw_fs (sample_jump_world empty_fs)) = []" "fs_honours_modes (jw_fs (sample_jump_world empty_fs))"
    "bk_connections (jw_broker (sample_jump_world empty_fs)) a = None"
    "db_next_serial (jw_db (sample_jump_world empty_fs)) = 2" for a
    by (simp_all add: sample_jump_world_on_def empty_fs_def)
  let ?s = "session_of sample_fresh (jw_db (sample_jump_world empty_fs)) (utc 1)"
  have "runtime_issue ([5], [6]) 8 (id_username sample_identity) (jf_session_id sample_fresh)
      (js_user_cert_serial ?s) (utc 1) = Inr c"
    using c w(4) by (simp add: session_of_def)
  then have "\<exists>w' row rec. sample_started (opener_open_session opener) empty_fs =
      (Inl (TunnelStateError ''agent tunnel is not connected''), w') \<and>
    db_sessions (jw_db w') = db_sessions (jw_db (sample_jump_world empty_fs)) @ [row] \<and>
    se_id row = jf_session_id sample_fresh \<and> se_status row = str ''open'' \<and>
    jw_recorders w' (jf_session_id sample_fresh) = Some rec \<and> \<not> rr_closed rec \<and>
    file_content (jw_fs w') (jf_temp_name sample_fresh) = Some []"
    unfolding sample_started_on_def
    by (intro offline_agent_strands_the_session [OF d sample_selected [where chan = "()" and fs = empty_fs] _ w(1,2)])
      (simp_all add: sample_session w)
  with o show ?thesis by blast
qed

end
