(* ===== verification/Bridge_Facts.thy ===== *)
theory Bridge_Facts
  imports Jump_Facts
begin

text \<open>
  Facts of \<open>JumpPtyBridge\<close> and \<open>TunnelStreamAdapter\<close>: what an open bridge records and forwards, what
  closing publishes, what a closed bridge does, and the queue behaviour of the adapter.
\<close>

section \<open>An open bridge records and forwards\<close>

fun bridge_play :: "pty_event list \<Rightarrow> ('c bridge_world, unit) op" where
  "bridge_play [] = sret ()"
| "bridge_play ((is_input, t, payload) # evs) =
     sbind (if is_input then send_user_input t payload
            else sbind (receive_node_output t payload) (\<lambda>_. sret ())) (\<lambda>_. bridge_play evs)"

definition recorder_of :: "'c bridge_world \<Rightarrow> ReplayRecorder" where
  "recorder_of s = the (jw_recorders (bw_world s) (sj_replay (br_jump (bw_bridge s))))"

definition bridge_recording :: "'c bridge_world \<Rightarrow> bool" where
  "bridge_recording s \<longleftrightarrow> \<not> br_closed (bw_bridge s) \<and> \<not> rr_closed (recorder_of s) \<and>
     \<not> rr_file_closed (recorder_of s) \<and> fs_faults (jw_fs (bw_world s)) = [] \<and>
     jw_recorders (bw_world s) (sj_replay (br_jump (bw_bridge s))) \<noteq> None"

text \<open>The state after one event: the line is written and input is sent.\<close>

definition played :: "(bytes \<Rightarrow> 'c \<Rightarrow> 'c) \<Rightarrow> pty_event list \<Rightarrow> 'c bridge_world \<Rightarrow> 'c bridge_world" where
  "played sent evs s = s\<lparr>bw_world := (bw_world s)
     \<lparr>jw_recorders := (jw_recorders (bw_world s))(sj_replay (br_jump (bw_bridge s)) \<mapsto>
        (recorder_of s)\<lparr>rr_written := rr_written (recorder_of s) @ lines_bytes (map event_text evs)\<rparr>),
      jw_channel := fold (\<lambda>ev. if fst ev then sent (snd (snd ev)) else id) evs (jw_channel (bw_world s))\<rparr>\<rparr>"

lemma played_fields [simp]:
  "bw_bridge (played sent evs s) = bw_bridge s"
  "recorder_of (played sent evs s) =
     (recorder_of s)\<lparr>rr_written := rr_written (recorder_of s) @ lines_bytes (map event_text evs)\<rparr>"
  "jw_db (bw_world (played sent evs s)) = jw_db (bw_world s)"
  "jw_fs (bw_world (played sent evs s)) = jw_fs (bw_world s)"
  "jw_channel (bw_world (played sent evs s)) =
     fold (\<lambda>ev. if fst ev then sent (snd (snd ev)) else id) evs (jw_channel (bw_world s))"
  by (simp_all add: played_def recorder_of_def)

lemma played_recording: "bridge_recording s \<Longrightarrow> bridge_recording (played sent evs s)"
  by (simp add: played_def recorder_of_def bridge_recording_def)

lemma lines_bytes_append: "lines_bytes (a @ b) = lines_bytes a @ lines_bytes b"
  by (simp add: lines_bytes_def)

lemma played_played: "played sent evs' (played sent evs s) = played sent (evs @ evs') s"
  by (simp add: played_def recorder_of_def lines_bytes_append)

lemma record_once:
  assumes "float_text t" "fs_faults (rw_fs v) = []" "\<not> rr_closed (rw_recorder v)"
  shows "(if i then record_input else record_output) t (decode_surrogateescape p) v =
    (Inr (), written (lines_bytes [event_text (i, t, p)]) v)"
proof -
  have "play [(i, t, p)] v = (Inr (), written (lines_bytes [event_text (i, t, p)]) v)"
    using play_ok [of "[(i, t, p)]" v] assms by (simp add: events_ok_def no_faults_def)
  then show ?thesis
    by (auto simp: sbind_def split: prod.splits sum.splits)
qed

lemma replay_once:
  assumes "float_text t" "bridge_recording s" "ref = sj_replay (br_jump (bw_bridge s))"
  shows "bridge_do (jump_replay ref ((if i then record_input else record_output) t (decode_surrogateescape p))) s =
    (Inr (), played (\<lambda>_. id) [(i, t, p)] s)"
proof -
  have v: "fs_faults (rw_fs \<lparr>rw_recorder = recorder_of s, rw_fs = jw_fs (bw_world s), rw_events = jw_events (bw_world s)\<rparr>) = []"
    "\<not> rr_closed (rw_recorder \<lparr>rw_recorder = recorder_of s, rw_fs = jw_fs (bw_world s), rw_events = jw_events (bw_world s)\<rparr>)"
    using assms(2) by (simp_all add: bridge_recording_def)
  show ?thesis
    using record_once [OF assms(1) v, of i p]
    by (simp add: bridge_do_def jump_replay_def assms(3) recorder_of_def played_def written_def set_recorder_def
        bridge_world.defs)
qed

lemma bridge_once:
  assumes "float_text t" "bridge_recording s"
    "\<forall>p c. pc_send_data (br_channel (bw_bridge s)) (sj_channel_id (br_jump (bw_bridge s))) p c = (Inr (), sent p c)"
  shows "bridge_play [(i, t, p)] s = (Inr (), played sent [(i, t, p)] s)"
proof -
  have o: "ensure_open s = (Inr (), s)" using assms(2) by (simp add: ensure_open_def bridge_recording_def)
  show ?thesis
  proof (cases i)
    case True
    have "bridge_do (jump_replay (sj_replay (br_jump (bw_bridge s))) (record_input t (decode_surrogateescape p))) s =
        (Inr (), played (\<lambda>_. id) [(True, t, p)] s)"
      using replay_once [OF assms(1,2) refl, of True p] by simp
    then show ?thesis
      using o assms(3) True
      by (simp add: send_user_input_def Let_def sbind_def bridge_do_def [of "jump_channel _"] jump_channel_def)
        (simp add: played_def)
  next
    case False
    have "bridge_do (jump_replay (sj_replay (br_jump (bw_bridge s))) (record_output t (decode_surrogateescape p))) s =
        (Inr (), played (\<lambda>_. id) [(False, t, p)] s)"
      using replay_once [OF assms(1,2) refl, of False p] by simp
    then show ?thesis
      using o False by (simp add: receive_node_output_def Let_def sbind_def) (simp add: played_def)
  qed
qed

lemma bridge_play_ok:
  assumes "\<forall>p c. pc_send_data ch cid p c = (Inr (), sent p c)"
  shows "events_ok evs \<Longrightarrow> bridge_recording s \<Longrightarrow> br_channel (bw_bridge s) = ch \<Longrightarrow>
    sj_channel_id (br_jump (bw_bridge s)) = cid \<Longrightarrow> bridge_play evs s = (Inr (), played sent evs s)"
proof (induction evs arbitrary: s)
  case Nil
  then show ?case by (cases s; cases "bw_world s")
    (auto simp: played_def recorder_of_def bridge_recording_def lines_bytes_simps fun_upd_idem)
next
  case (Cons ev evs)
  obtain i t p where ev: "ev = (i, t, p)" by (cases ev)
  have "bridge_play [ev] s = (Inr (), played sent [ev] s)"
    using bridge_once [of t s sent i p] Cons.prems assms by (simp add: ev events_ok_def)
  then have "bridge_play (ev # evs) s = bridge_play evs (played sent [ev] s)"
    by (cases "(if i then send_user_input t p else sbind (receive_node_output t p) (\<lambda>_. sret ())) s")
      (auto simp: ev sbind_def split: sum.splits)
  also have "\<dots> = (Inr (), played sent evs (played sent [ev] s))"
    using Cons.prems by (intro Cons.IH) (simp_all add: events_ok_def played_recording)
  finally show ?case by (simp add: played_played)
qed

section \<open>Closing publishes the recording\<close>

lemma pg_text_hmac: "pg_text (hmac_sha256_hex key b)"
  using sha256_hexdigest_ascii by (fastforce simp: pg_text_def list_all_iff hmac_sha256_hex_def Let_def scalar_def)

lemma end_recording_ok:
  assumes "bridge_recording s" "rr_temp_path (recorder_of s) \<noteq> rr_path (recorder_of s)"
  shows "\<exists>rec fs evs. end_recording (br_jump (bw_bridge s)) dir CLOSED now err (bw_world s) =
      (Inr (Some \<lparr>rc_path = rr_path (recorder_of s),
                  rc_hmac_hex = hmac_sha256_hex (rr_integrity_key (recorder_of s)) (rr_written (recorder_of s)),
                  rc_ended_at = as_utc now\<rparr>, SESSION_CLOSED,
          PDict [(str ''status'', PStr (str ''closed'')),
                 (str ''replay_path'', PStr (dir @ rr_path (recorder_of s))),
                 (str ''replay_hmac'', PStr (hmac_sha256_hex (rr_integrity_key (recorder_of s)) (rr_written (recorder_of s))))]),
       (bw_world s)\<lparr>jw_recorders := rec, jw_fs := fs, jw_events := evs\<rparr>) \<and>
     file_content fs (rr_path (recorder_of s)) = Some (rr_written (recorder_of s))"
proof -
  let ?v = "\<lparr>rw_recorder = recorder_of s, rw_fs = jw_fs (bw_world s), rw_events = jw_events (bw_world s)\<rparr>"
  have "no_faults ?v" "\<not> rr_closed (rw_recorder ?v)" "\<not> rr_file_closed (rw_recorder ?v)"
    "rr_temp_path (rw_recorder ?v) \<noteq> rr_path (rw_recorder ?v)"
    using assms by (simp_all add: no_faults_def bridge_recording_def)
  from close_ok [OF this, of now] obtain v where v: "replay_close now ?v =
      (Inr \<lparr>rc_path = rr_path (recorder_of s),
            rc_hmac_hex = hmac_sha256_hex (rr_integrity_key (recorder_of s)) (rr_written (recorder_of s)),
            rc_ended_at = as_utc now\<rparr>, v)"
      "file_content (rw_fs v) (rr_path (recorder_of s)) = Some (rr_written (recorder_of s))"
    by auto
  have w: "\<lparr>rw_recorder = the (jw_recorders (bw_world s) (sj_replay (br_jump (bw_bridge s)))),
      rw_fs = jw_fs (bw_world s), rw_events = jw_events (bw_world s)\<rparr> = ?v"
    by (simp add: recorder_of_def)
  have "end_recording (br_jump (bw_bridge s)) dir CLOSED now err (bw_world s) =
      (Inr (Some \<lparr>rc_path = rr_path (recorder_of s),
                  rc_hmac_hex = hmac_sha256_hex (rr_integrity_key (recorder_of s)) (rr_written (recorder_of s)),
                  rc_ended_at = as_utc now\<rparr>, SESSION_CLOSED,
          PDict [(str ''status'', PStr (str ''closed'')),
                 (str ''replay_path'', PStr (dir @ rr_path (recorder_of s))),
                 (str ''replay_hmac'', PStr (hmac_sha256_hex (rr_integrity_key (recorder_of s)) (rr_written (recorder_of s))))]),
       (bw_world s)\<lparr>jw_recorders := (jw_recorders (bw_world s))(sj_replay (br_jump (bw_bridge s)) \<mapsto> rw_recorder v),
          jw_fs := rw_fs v, jw_events := rw_events v\<rparr>)"
    by (simp add: end_recording_def sbind_def jump_replay_def w v(1))
  with v(2) show ?thesis by blast
qed

lemma store_closed:
  assumes "wf_db db" "find (\<lambda>r. se_id r = sid) (db_sessions db) = Some r" "se_status r = str ''open''"
    "pg_text path" "pg_text h"
  shows "\<exists>db'. pg_close_session sid CLOSED now path (Some h) db = (Inr (), db') \<and>
    find (\<lambda>r. se_id r = sid) (db_sessions db') = Some (r\<lparr>se_status := str ''closed'',
      se_ended_at := Some (as_utc now), se_replay_path := path, se_replay_hmac := Some h\<rparr>) \<and>
    db_audit db' = db_audit db"
proof -
  let ?c = "\<lparr>cl_session = sid, cl_status = CLOSED, cl_ended_at = now, cl_path = path, cl_hmac = Some h\<rparr>"
  have "closing_texts ?c" "wf_db (closed_db ?c db)"
    using assms by (simp_all add: closing_texts_def wf_closed_db)
  then have "pg_close ?c db = (Inr (), closed_db ?c db)" by (simp add: pg_close_eq sql_write_def)
  moreover have "se_id r = sid" using find_keyD [OF assms(2)] by simp
  ultimately show ?thesis
    using find_closed [of sid sid ?c "db_sessions db"] assms(2,3)
    by (simp add: pg_close_def closed_db_def closable_def close_row_def)
qed

lemma bridge_close_run:
  assumes "\<not> br_closed (bw_bridge s)" "br_session_state_store (bw_bridge s)"
    "end_recording (br_jump (bw_bridge s)) (br_replay_dir (bw_bridge s)) CLOSED now None (bw_world s) =
      (Inr (Some res, ev, md), w1)"
    "pg_close_session (js_session_id (sj_session (br_jump (bw_bridge s)))) CLOSED now
       (br_replay_dir (bw_bridge s) @ rc_path res) (Some (rc_hmac_hex res)) (jw_db w1) = (Inr (), db)"
    "\<forall>c. pc_close_session (br_channel (bw_bridge s)) (sj_channel_id (br_jump (bw_bridge s))) c = (Inr (), ended c)"
    "bridge_close i clock CLOSED now None s = (r, s')"
  shows "br_closed (bw_bridge s') \<and> jw_fs (bw_world s') = jw_fs w1 \<and>
    jw_channel (bw_world s') = ended (jw_channel w1) \<and> audit_only db (jw_db (bw_world s')) \<and>
    (br_audit_sink (bw_bridge s) \<longrightarrow> r = Inr () \<longrightarrow>
       (\<exists>row. db_audit (jw_db (bw_world s')) = db_audit db @ [row] \<and> au_event_type row = ev \<and>
          au_session_id row = Some (js_session_id (sj_session (br_jump (bw_bridge s)))))) \<and>
    (\<not> br_audit_sink (bw_bridge s) \<longrightarrow> r = Inr ())"
proof -
  let ?w2 = "w1\<lparr>jw_db := db, jw_channel := ended (jw_channel w1)\<rparr>"
  let ?b = "(bw_bridge s)\<lparr>br_closed := True\<rparr>"
  show ?thesis
  proof (cases "br_audit_sink (bw_bridge s)")
    case False
    then have "r = Inr ()" "s' = s\<lparr>bw_bridge := ?b, bw_world := ?w2\<rparr>"
      using assms by (simp_all add: bridge_close_def Let_def sbind_def bridge_do_def jump_db_def jump_channel_def)
    with False show ?thesis by simp
  next
    case True
    obtain q where r: "bridge_close i clock CLOSED now None s =
        (case audit_write i clock q db of (Inl e, d) \<Rightarrow> (Inl e, s\<lparr>bw_bridge := ?b, bw_world := ?w2\<lparr>jw_db := d\<rparr>\<rparr>)
         | (Inr x, d) \<Rightarrow> (Inr (), s\<lparr>bw_bridge := ?b, bw_world := ?w2\<lparr>jw_db := d\<rparr>\<rparr>))"
      and q: "aq_event_type q = ev" "aq_session_id q = Some (js_session_id (sj_session (br_jump (bw_bridge s))))"
    proof (rule that)
      let ?q = "\<lparr>aq_event_type = ev, aq_actor = iuc_username (sj_user_certificate (br_jump (bw_bridge s))),
             aq_metadata = md, aq_agent_id = Some (jt_agent_id (sj_target (br_jump (bw_bridge s)))),
             aq_session_id = Some (js_session_id (sj_session (br_jump (bw_bridge s)))),
             aq_node_name = Some (jt_node_name (sj_target (br_jump (bw_bridge s)))), aq_now = Some now\<rparr>"
      show "bridge_close i clock CLOSED now None s =
        (case audit_write i clock ?q db of (Inl e, d) \<Rightarrow> (Inl e, s\<lparr>bw_bridge := ?b, bw_world := ?w2\<lparr>jw_db := d\<rparr>\<rparr>)
         | (Inr x, d) \<Rightarrow> (Inr (), s\<lparr>bw_bridge := ?b, bw_world := ?w2\<lparr>jw_db := d\<rparr>\<rparr>))"
        using assms True
        by (simp add: bridge_close_def Let_def sbind_def bridge_do_def jump_db_def jump_channel_def
            split: prod.splits sum.splits)
    qed simp_all
    obtain x d where a: "audit_write i clock q db = (x, d)" by (cases "audit_write i clock q db")
    show ?thesis
    proof (cases x)
      case (Inl e)
      then show ?thesis using True a r assms(6) audit_write_frame [OF a] by auto
    next
      case (Inr y)
      from audit_write_Inr [OF a [unfolded Inr]] show ?thesis
        using True a r assms(6) audit_write_frame [OF a] Inr q
        by (auto simp: audit_row_of_def intro!: exI [of _ "audit_row_of y"])
    qed
  qed
qed

text \<open>C25: A closed session has its complete, verified replay.  The bridge of a started jump records
  without faults, its node channel accepts input, and the session row is open.  After any terminal
  events, whatever bytes they carry, and a normal close: every input was sent to the node unchanged and
  in order and then the channel was closed; the published file reads back as exactly the events; and
  the session row is \<open>closed\<close> with the path of this file and the HMAC of its content.  The call can
  only fail in the audit write; when it succeeds with a sink, the last audit event closes this
  session.\<close>

theorem closed_session_has_its_replay:
  assumes "bridge_recording s" "events_ok evs"
    "rr_written (recorder_of s) = lines_bytes [header_line n width height t0]"
    "rr_temp_path (recorder_of s) \<noteq> rr_path (recorder_of s)"
    "\<forall>p c. pc_send_data (br_channel (bw_bridge s)) (sj_channel_id (br_jump (bw_bridge s))) p c = (Inr (), sent p c)"
    "\<forall>c. pc_close_session (br_channel (bw_bridge s)) (sj_channel_id (br_jump (bw_bridge s))) c = (Inr (), ended c)"
    "br_session_state_store (bw_bridge s)" "wf_db (jw_db (bw_world s))"
    "find (\<lambda>r. se_id r = js_session_id (sj_session (br_jump (bw_bridge s)))) (db_sessions (jw_db (bw_world s))) = Some row"
    "se_status row = str ''open''" "pg_text (br_replay_dir (bw_bridge s) @ rr_path (recorder_of s))"
    "sbind (bridge_play evs) (\<lambda>_. bridge_close i clock CLOSED now None) s = (r, s')"
  shows "\<exists>content. file_content (jw_fs (bw_world s')) (rr_path (recorder_of s)) = Some content \<and>
    read_replay content = Some evs \<and>
    find (\<lambda>r. se_id r = js_session_id (sj_session (br_jump (bw_bridge s)))) (db_sessions (jw_db (bw_world s'))) =
      Some (row\<lparr>se_status := str ''closed'', se_ended_at := Some (as_utc now),
        se_replay_path := br_replay_dir (bw_bridge s) @ rr_path (recorder_of s),
        se_replay_hmac := Some (hmac_sha256_hex (rr_integrity_key (recorder_of s)) content)\<rparr>) \<and>
    jw_channel (bw_world s') =
      ended (fold (\<lambda>ev. if fst ev then sent (snd (snd ev)) else id) evs (jw_channel (bw_world s))) \<and>
    br_closed (bw_bridge s') \<and>
    (r = Inr () \<or> br_audit_sink (bw_bridge s)) \<and>
    (br_audit_sink (bw_bridge s) \<longrightarrow> r = Inr () \<longrightarrow>
       au_event_type (last (db_audit (jw_db (bw_world s')))) = SESSION_CLOSED)"
proof -
  define s1 where "s1 = played sent evs s"
  let ?content = "lines_bytes (header_line n width height t0 # map event_text evs)"
  have play: "bridge_play evs s = (Inr (), s1)"
    unfolding s1_def by (rule bridge_play_ok [OF assms(5,2,1) refl refl])
  have rec1: "rr_written (recorder_of s1) = ?content" "rr_path (recorder_of s1) = rr_path (recorder_of s)"
    "rr_temp_path (recorder_of s1) = rr_temp_path (recorder_of s)"
    "rr_integrity_key (recorder_of s1) = rr_integrity_key (recorder_of s)"
    using assms(3) by (simp_all add: s1_def lines_bytes_simps)
  have b1: "bw_bridge s1 = bw_bridge s" "jw_db (bw_world s1) = jw_db (bw_world s)" by (simp_all add: s1_def)
  obtain recs fs evts where er: "end_recording (br_jump (bw_bridge s1)) (br_replay_dir (bw_bridge s1)) CLOSED now None
      (bw_world s1) = (Inr (Some \<lparr>rc_path = rr_path (recorder_of s),
          rc_hmac_hex = hmac_sha256_hex (rr_integrity_key (recorder_of s)) ?content, rc_ended_at = as_utc now\<rparr>,
        SESSION_CLOSED, PDict [(str ''status'', PStr (str ''closed'')),
          (str ''replay_path'', PStr (br_replay_dir (bw_bridge s1) @ rr_path (recorder_of s))),
          (str ''replay_hmac'', PStr (hmac_sha256_hex (rr_integrity_key (recorder_of s)) ?content))]),
      (bw_world s1)\<lparr>jw_recorders := recs, jw_fs := fs, jw_events := evts\<rparr>)"
    and content: "file_content fs (rr_path (recorder_of s)) = Some ?content"
    using end_recording_ok [of s1 "br_replay_dir (bw_bridge s1)" now None] played_recording [OF assms(1)] assms(4)
    unfolding rec1 by (auto simp: s1_def)
  obtain db where st: "pg_close_session (js_session_id (sj_session (br_jump (bw_bridge s1)))) CLOSED now
      (br_replay_dir (bw_bridge s1) @ rr_path (recorder_of s))
      (Some (hmac_sha256_hex (rr_integrity_key (recorder_of s)) ?content)) (jw_db (bw_world s1)) = (Inr (), db)"
    and row: "find (\<lambda>r. se_id r = js_session_id (sj_session (br_jump (bw_bridge s)))) (db_sessions db) =
      Some (row\<lparr>se_status := str ''closed'', se_ended_at := Some (as_utc now),
        se_replay_path := br_replay_dir (bw_bridge s) @ rr_path (recorder_of s),
        se_replay_hmac := Some (hmac_sha256_hex (rr_integrity_key (recorder_of s)) ?content)\<rparr>)"
    using store_closed [OF assms(8-11) pg_text_hmac] b1 by metis
  have cl: "bridge_close i clock CLOSED now None s1 = (r, s')" using assms(12) play by (simp add: sbind_def)
  have pre: "\<not> br_closed (bw_bridge s1)" "br_session_state_store (bw_bridge s1)"
    "\<forall>c. pc_close_session (br_channel (bw_bridge s1)) (sj_channel_id (br_jump (bw_bridge s1))) c = (Inr (), ended c)"
    using assms(1,6,7) b1 by (simp_all add: bridge_recording_def)
  note fin = bridge_close_run [OF pre(1,2) er, simplified, OF st pre(3) cl]
  have f: "br_closed (bw_bridge s')" "jw_fs (bw_world s') = fs"
    "jw_channel (bw_world s') = ended (jw_channel (bw_world s1))" "audit_only db (jw_db (bw_world s'))"
    using fin by blast+
  have chan: "jw_channel (bw_world s1) =
      fold (\<lambda>ev. if fst ev then sent (snd (snd ev)) else id) evs (jw_channel (bw_world s))"
    by (simp add: s1_def)
  have audit: "br_audit_sink (bw_bridge s) \<longrightarrow> r = Inr () \<longrightarrow>
      au_event_type (last (db_audit (jw_db (bw_world s')))) = SESSION_CLOSED"
    "r = Inr () \<or> br_audit_sink (bw_bridge s)"
    using fin b1(1) by auto
  show ?thesis
  proof (intro exI conjI)
    show "file_content (jw_fs (bw_world s')) (rr_path (recorder_of s)) = Some ?content"
      unfolding f(2) by (rule content)
    show "read_replay ?content = Some evs" by (rule read_replay_lines [OF assms(2)])
  qed (use f(1,3) chan audit row audit_only_fields [OF f(4)] in simp_all)
qed

definition sample_channel :: "bytes pty_channel" where
  "sample_channel = \<lparr>pc_send_data = (\<lambda>_ p c. (Inr (), c @ p)), pc_resize_pty = (\<lambda>_ _ _ c. (Inr (), c)),
     pc_close_session = (\<lambda>_ c. (Inr (), c @ [4]))\<rparr>"

definition sample_target :: JumpTarget where
  "sample_target = \<lparr>jt_agent_id = 3, jt_node_name = str ''web1'', jt_node_ssh_host_public_key = str ''ssh-ed25519 AAAA'',
     jt_heartbeat = \<lparr>hb_seconds = 30, hb_last_seen = Some (utc 0)\<rparr>\<rparr>"

definition sample_cert :: IssuedUserCertificate where
  "sample_cert = \<lparr>iuc_private_key = [5], iuc_certificate = \<lparr>s_public_key = [6], s_key_id = uuid_text 7, s_serial = 1,
       s_principals = [str ''bob''], s_valid_after = utc 0, s_valid_before = utc (hours 8),
       s_source_address = [USER_CERT_SOURCE_ADDRESS], s_permit_x11_forwarding = False,
       s_permit_agent_forwarding = False, s_permit_port_forwarding = False, s_permit_pty = True,
       s_permit_user_rc = False\<rparr>, iuc_serial = 1, iuc_username = str ''bob'',
     iuc_valid_after = utc 0, iuc_valid_before = utc (hours 8)\<rparr>"

definition sample_bridge :: "filesystem \<Rightarrow> bytes bridge_world" where
  "sample_bridge fs = \<lparr>bw_bridge = \<lparr>
       br_jump = \<lparr>sj_session = \<lparr>js_session_id = 7, js_user_cert_serial = 1, js_replay_path = str ''r.cast'',
           js_started_at = utc 0\<rparr>, sj_target = sample_target, sj_user_certificate = sample_cert, sj_replay = 7,
           sj_channel_id = [99], sj_node_connection = 1\<rparr>,
       br_channel = sample_channel, br_audit_sink = False, br_session_state_store = True,
       br_replay_dir = str ''/r/'', br_closed = False\<rparr>,
     bw_world = \<lparr>jw_db = sample_jump_db, jw_fs = fs, jw_recorders = [7 \<mapsto> (new_recorder 7 [46] [1] False)
         \<lparr>rr_written := lines_bytes [header_line (str ''web1'') 80 24 (utc 0)]\<rparr>],
       jw_events = [], jw_broker = jw_broker (sample_jump_world fs), jw_channel = []\<rparr>\<rparr>"

lemma sample_float: "float_text (str ''0.5'')"
proof -
  have "digits_of 0 = [48]" by (simp add: digits_of.simps)
  then show ?thesis
    unfolding float_text_def
    by (intro exI [of _ 0] exI [of _ "[53]"]) (simp add: str_def is_ascii_digit_def)
qed

lemma closed_session_has_its_replay_witness:
  "\<exists>s' content. sbind (bridge_play [(True, str ''0.5'', [108, 255]), (False, str ''0.5'', [10])])
       (\<lambda>_. bridge_close 1 (utc 2) CLOSED (utc 2) None) (sample_bridge empty_fs) = (Inr (), s') \<and>
     read_replay content = Some [(True, str ''0.5'', [108, 255]), (False, str ''0.5'', [10])] \<and>
     jw_channel (bw_world s') = [108, 255, 4] \<and>
     (\<exists>r. find (\<lambda>r. se_id r = 7) (db_sessions (jw_db (bw_world s'))) = Some r \<and>
        se_replay_hmac r = Some (hmac_sha256_hex [1] content))"
proof -
  let ?s = "sample_bridge empty_fs"
  let ?evs = "[(True, str ''0.5'', [108, 255]), (False, str ''0.5'', [10])]"
  obtain r s' where run: "sbind (bridge_play ?evs) (\<lambda>_. bridge_close 1 (utc 2) CLOSED (utc 2) None) ?s = (r, s')"
    by (cases "sbind (bridge_play ?evs) (\<lambda>_. bridge_close 1 (utc 2) CLOSED (utc 2) None) ?s")
  have pre: "bridge_recording ?s" "events_ok ?evs"
    "rr_written (recorder_of ?s) = lines_bytes [header_line (str ''web1'') 80 24 (utc 0)]"
    "rr_temp_path (recorder_of ?s) \<noteq> rr_path (recorder_of ?s)"
    "\<forall>p c. pc_send_data (br_channel (bw_bridge ?s)) (sj_channel_id (br_jump (bw_bridge ?s))) p c = (Inr (), c @ p)"
    "\<forall>c. pc_close_session (br_channel (bw_bridge ?s)) (sj_channel_id (br_jump (bw_bridge ?s))) c = (Inr (), c @ [4])"
    "br_session_state_store (bw_bridge ?s)" "wf_db (jw_db (bw_world ?s))"
    "find (\<lambda>r. se_id r = js_session_id (sj_session (br_jump (bw_bridge ?s)))) (db_sessions (jw_db (bw_world ?s)))
       = Some sample_session_row" "se_status sample_session_row = str ''open''"
    "rr_path (recorder_of ?s) = uuid_text 7 @ str ''.cast''" "rr_integrity_key (recorder_of ?s) = [1]"
    using wf_sample_jump_db sample_float
    by (simp_all add: sample_bridge_def bridge_recording_def recorder_of_def new_recorder_def empty_fs_def events_ok_def
        sample_channel_def sample_jump_db_def sample_session_row_def open_row_def uuid_text_def Let_def)
  have "pg_text (br_replay_dir (bw_bridge ?s) @ rr_path (recorder_of ?s))"
    unfolding pre(11) using pg_text_cast [of 7]
    by (simp add: sample_bridge_def pg_text_def str_def scalar_def)
  from closed_session_has_its_replay [OF pre(1-10) this run] obtain content where
    "read_replay content = Some ?evs" "jw_channel (bw_world s') = [108, 255, 4]" "r = Inr ()"
    "\<exists>r. find (\<lambda>r. se_id r = 7) (db_sessions (jw_db (bw_world s'))) = Some r \<and>
        se_replay_hmac r = Some (hmac_sha256_hex [1] content)"
    unfolding pre(12) by (auto simp: sample_bridge_def)
  with run show ?thesis by blast
qed

section \<open>A closed bridge\<close>

text \<open>Everything the server does with a bridge, in any order.\<close>

inductive bridge_step :: "'c bridge_world \<Rightarrow> 'c bridge_world \<Rightarrow> bool" where
  b_input: "send_user_input t payload s = (r, s') \<Longrightarrow> bridge_step s s'"
| b_output: "receive_node_output t payload s = (q, s') \<Longrightarrow> bridge_step s s'"
| b_resize: "bridge_resize_pty width height s = (r, s') \<Longrightarrow> bridge_step s s'"
| b_close: "bridge_close i clock status now err s = (r, s') \<Longrightarrow> bridge_step s s'"
| b_lost: "lifecycle_connection_lost i clock exc now s = (r, s') \<Longrightarrow> bridge_step s s'"
| b_terminate: "lifecycle_terminate i clock reason now s = (r, s') \<Longrightarrow> bridge_step s s'"

lemma bridge_close_closes: "bridge_close i clock status now err s = (r, s') \<Longrightarrow> br_closed (bw_bridge s')"
  by (auto simp: bridge_close_def Let_def sbind_def bridge_do_def split: if_splits prod.splits)

lemma closed_calls:
  assumes "br_closed (bw_bridge s)"
  shows "send_user_input t payload s = (Inl (JumpError ''jump channel is closed''), s)"
    "receive_node_output t payload s = (Inl (JumpError ''jump channel is closed''), s)"
    "bridge_resize_pty width height s = (Inl (JumpError ''jump channel is closed''), s)"
    "bridge_close i clock status now err s = (Inr (), s)"
  using assms
  by (simp_all add: send_user_input_def receive_node_output_def bridge_resize_pty_def bridge_close_def
      ensure_open_def sbind_def Let_def)

lemma closed_stays: "bridge_step\<^sup>*\<^sup>* s s' \<Longrightarrow> br_closed (bw_bridge s) \<Longrightarrow> s' = s"
proof (induction rule: rtranclp_induct)
  case (step y z)
  then have "y = s" by simp
  with step show ?case
    by (auto elim!: bridge_step.cases
        simp: closed_calls lifecycle_connection_lost_def lifecycle_terminate_def split: option.splits prod.splits)
qed simp

text \<open>C26: A replay that cannot be published strands its session.  If the recorder raises while a normal
  close publishes the recording (a full disk, or a recording already ended by a failed write), the
  close raises the same exception, the session row and the node channel are untouched, and nothing
  the server does with this bridge later changes anything: the row stays \<open>open\<close> and the channel is
  never closed through it.\<close>

theorem failed_publish_strands_the_session:
  assumes "\<not> br_closed (bw_bridge s)"
    "replay_close now \<lparr>rw_recorder = recorder_of s, rw_fs = jw_fs (bw_world s), rw_events = jw_events (bw_world s)\<rparr>
       = (Inl e, v)"
    "bridge_close i clock CLOSED now err s = (r, s')" "bridge_step\<^sup>*\<^sup>* s' s''"
  shows "r = Inl e \<and> jw_db (bw_world s'') = jw_db (bw_world s) \<and> jw_channel (bw_world s'') = jw_channel (bw_world s) \<and>
    br_closed (bw_bridge s'')"
proof -
  have "end_recording (br_jump (bw_bridge s)) (br_replay_dir (bw_bridge s)) CLOSED now err (bw_world s) =
      (Inl e, (bw_world s)\<lparr>jw_recorders := (jw_recorders (bw_world s))(sj_replay (br_jump (bw_bridge s)) \<mapsto> rw_recorder v),
         jw_fs := rw_fs v, jw_events := rw_events v\<rparr>)"
    using assms(2) by (simp add: end_recording_def sbind_def jump_replay_def recorder_of_def)
  then have run: "r = Inl e" "jw_db (bw_world s') = jw_db (bw_world s)" "jw_channel (bw_world s') = jw_channel (bw_world s)"
    using assms(1,3) by (auto simp: bridge_close_def Let_def sbind_def bridge_do_def)
  have "br_closed (bw_bridge s')" using assms(3) by (rule bridge_close_closes)
  with closed_stays [OF assms(4)] run show ?thesis by simp
qed

definition full_fs :: filesystem where
  "full_fs = \<lparr>fs_files = [], fs_honours_modes = True, fs_faults = [True]\<rparr>"

lemma failed_publish_strands_the_session_witness:
  "\<exists>s'. bridge_close 1 (utc 2) CLOSED (utc 2) None (sample_bridge full_fs) =
      (Inl (OSError ''input/output error''), s') \<and> jw_db (bw_world s') = sample_jump_db"
proof -
  let ?s = "sample_bridge full_fs"
  let ?v = "\<lparr>rw_recorder = recorder_of ?s, rw_fs = jw_fs (bw_world ?s), rw_events = jw_events (bw_world ?s)\<rparr>"
  have o: "\<not> br_closed (bw_bridge ?s)" "jw_db (bw_world ?s) = sample_jump_db"
    "\<not> rr_closed (recorder_of ?s)" "jw_fs (bw_world ?s) = full_fs"
    by (simp_all add: sample_bridge_def recorder_of_def new_recorder_def)
  then obtain v where v: "replay_close (utc 2) ?v = (Inl (OSError ''input/output error''), v)"
    by (simp add: replay_close_def Let_def sbind_def flush_recorder_def on_fs_def set_recorder_def full_fs_def)
  obtain r s' where "bridge_close 1 (utc 2) CLOSED (utc 2) None ?s = (r, s')"
    by (cases "bridge_close 1 (utc 2) CLOSED (utc 2) None ?s")
  with failed_publish_strands_the_session [OF o(1) v this rtranclp.rtrancl_refl] o(2) show ?thesis by simp
qed

section \<open>The stream adapter is a queue\<close>

text \<open>Reading as often as payloads are there, and at the end once more.\<close>

fun adapter_reads :: "nat \<Rightarrow> TunnelStreamAdapter \<Rightarrow> bytes list option" where
  "adapter_reads 0 a = Some []"
| "adapter_reads (Suc n) a = (case adapter_read a of
     None \<Rightarrow> None | Some (payload, a') \<Rightarrow> map_option (\<lambda>ps. payload # ps) (adapter_reads n a'))"

fun adapter_feeds :: "bytes list \<Rightarrow> (TunnelStreamAdapter, unit) op" where
  "adapter_feeds [] = sret ()"
| "adapter_feeds (p # ps) = sbind (adapter_feed_data p) (\<lambda>_. adapter_feeds ps)"

lemma adapter_feeds_ok:
  "\<not> ts_closed a \<Longrightarrow> \<not> ts_eof a \<Longrightarrow>
     adapter_feeds ps a = (Inr (), a\<lparr>ts_incoming := ts_incoming a @ map Some ps\<rparr>)"
  by (induction ps arbitrary: a) (simp_all add: sbind_def adapter_feed_data_def)

lemma adapter_reads_all:
  "ts_incoming a = map Some ps @ [None] \<Longrightarrow> ts_eof a \<Longrightarrow>
     adapter_reads (length ps + k) a = Some (ps @ replicate k [])"
proof (induction ps arbitrary: a)
  case Nil
  have end': "ts_incoming b = [] \<Longrightarrow> ts_eof b \<Longrightarrow> adapter_reads k b = Some (replicate k [])" for b k
    by (induction k) (simp_all add: adapter_read_def)
  show ?case
  proof (cases k)
    case (Suc m)
    then show ?thesis using Nil end' [of "a\<lparr>ts_incoming := [], ts_eof := True\<rparr>" m] by (simp add: adapter_read_def)
  qed simp
next
  case (Cons p ps)
  then show ?case by (simp add: adapter_read_def)
qed

text \<open>The stream adapter is a first-in first-out queue with one end.  What was fed to a new adapter
  before its end is read back in the same chunks and order, after the end every read returns empty
  bytes without waiting, and feeding after the end or after closing raises \<open>JumpError\<close> and keeps the
  queue; closing closes the tunnel channel exactly once.\<close>

theorem stream_adapter_is_a_queue:
  assumes "new_stream_adapter cid = Inr a"
    "\<forall>c. pc_close_session ch cid c = (Inr (), ended c)"
    "adapter_feeds ps a = (r, a1)" "adapter_close ch \<lparr>aw_adapter = a1, aw_channel = c\<rparr> = (q, s)"
  shows "r = Inr () \<and> q = Inr () \<and> adapter_reads (length ps) a1 = Some ps \<and>
    adapter_reads (length ps + k) (adapter_feed_eof a1) = Some (ps @ replicate k []) \<and>
    adapter_reads (length ps + k) (aw_adapter s) = Some (ps @ replicate k []) \<and> aw_channel s = ended c \<and>
    fst (adapter_feed_data p (adapter_feed_eof a1)) = Inl (JumpError ''jump channel has reached EOF'') \<and>
    fst (adapter_feed_data p (aw_adapter s)) = Inl (JumpError ''jump channel is closed'') \<and>
    adapter_close ch s = (Inr (), s)"
proof -
  have a: "a = \<lparr>ts_channel_id = cid, ts_incoming = [], ts_closed = False, ts_eof = False\<rparr>"
    using assms(1) by (auto simp: new_stream_adapter_def split: if_splits)
  have a1: "r = Inr ()" "a1 = \<lparr>ts_channel_id = cid, ts_incoming = map Some ps, ts_closed = False, ts_eof = False\<rparr>"
    using assms(3) adapter_feeds_ok [of a ps] by (simp_all add: a)
  have s: "q = Inr ()" "s = \<lparr>aw_adapter = \<lparr>ts_channel_id = cid, ts_incoming = map Some ps @ [None],
      ts_closed = True, ts_eof = True\<rparr>, aw_channel = ended c\<rparr>"
    using assms(2,4) by (simp_all add: adapter_close_def a1 sbind_def adapter_feed_eof_def adapter_channel_def)
  have "adapter_reads (length ps) b = Some ps" if "ts_incoming b = map Some ps" "\<not> ts_eof b" for b
    using that by (induction ps arbitrary: b) (simp_all add: adapter_read_def)
  moreover have "adapter_reads (length ps + k) (adapter_feed_eof a1) = Some (ps @ replicate k [])"
    by (rule adapter_reads_all) (simp_all add: a1 adapter_feed_eof_def)
  moreover have "adapter_reads (length ps + k) (aw_adapter s) = Some (ps @ replicate k [])"
    by (rule adapter_reads_all) (simp_all add: s)
  ultimately show ?thesis
    using a1 s by (simp add: adapter_feed_data_def adapter_feed_eof_def adapter_close_def)
qed

lemma stream_adapter_is_a_queue_witness:
  "\<exists>a a1. new_stream_adapter [99] = Inr a \<and> adapter_feeds [[1, 2], [], [3]] a = (Inr (), a1) \<and>
     adapter_reads 5 (adapter_feed_eof a1) = Some [[1, 2], [], [3], [], []]"
proof -
  obtain a where a: "new_stream_adapter [99] = Inr a" by (simp add: new_stream_adapter_def)
  obtain r a1 where f: "adapter_feeds [[1, 2], [], [3]] a = (r, a1)" by (cases "adapter_feeds [[1, 2], [], [3]] a")
  obtain q s where "adapter_close sample_channel \<lparr>aw_adapter = a1, aw_channel = []\<rparr> = (q, s)"
    by (cases "adapter_close sample_channel \<lparr>aw_adapter = a1, aw_channel = []\<rparr>")
  then have c: "adapter_close sample_channel \<lparr>aw_adapter = a1, aw_channel = []\<rparr> = (q, s)" .
  have ch: "\<forall>c. pc_close_session sample_channel [99] c = (Inr (), c @ [4])" by (simp add: sample_channel_def)
  have five: "length [[1, 2], [], [3 :: byte]] + 2 = 5" "replicate 2 ([] :: bytes) = [[], []]"
    by (simp_all add: numeral_2_eq_2)
  from stream_adapter_is_a_queue [OF a ch f c, where k = 2] have
    "r = Inr ()" "adapter_reads 5 (adapter_feed_eof a1) = Some ([[1, 2], [], [3]] @ [[], []])"
    unfolding five by blast+
  with a f show ?thesis by (intro exI [of _ a] exI [of _ a1]) (simp del: adapter_feeds.simps)
qed

end
