(* ===== verification/Config.thy ===== *)
theory Config
  imports Models Crypto Identifiers
begin

unbundle bit_operations_syntax

text \<open>
  \<open>vibeconnect_common/config.py\<close>: loading the server configuration from decoded YAML and validating
  both configurations against the file system.  A file system is what \<open>stat\<close> says of each path;
  \<open>to_path\<close> stands for \<open>Path(text).expanduser()\<close>, which depends on the environment, and \<open>text_of\<close>
  for \<open>str\<close> of YAML values other than strings, integers, booleans and null.
\<close>

section \<open>Files and modes\<close>

record stat_result =
  st_is_file :: bool
  st_is_dir :: bool
  st_uid :: int
  st_mode :: "16 word"

type_synonym stat_fs = "pystr \<Rightarrow> stat_result option"

definition path_stat :: "stat_fs \<Rightarrow> pystr \<Rightarrow> stat_result result" where
  "path_stat fs path = (case fs path of None \<Rightarrow> Inl (FileNotFoundError ''stat'') | Some s \<Rightarrow> Inr s)"

definition S_IMODE :: "16 word \<Rightarrow> 16 word" where "S_IMODE m = m AND 4095"
definition S_IRUSR :: "16 word" where "S_IRUSR = 256"
definition S_IRWXG :: "16 word" where "S_IRWXG = 56"
definition S_IRWXO :: "16 word" where "S_IRWXO = 7"
definition S_IWGRP :: "16 word" where "S_IWGRP = 16"
definition S_IWOTH :: "16 word" where "S_IWOTH = 2"
definition S_IROTH :: "16 word" where "S_IROTH = 4"

definition require_file :: "stat_fs \<Rightarrow> pystr \<Rightarrow> string \<Rightarrow> unit result" where
  "require_file fs path label =
     require (case fs path of None \<Rightarrow> False | Some s \<Rightarrow> st_is_file s) (ConfigError (label @ '' is missing''))"

definition require_dir :: "stat_fs \<Rightarrow> pystr \<Rightarrow> string \<Rightarrow> unit result" where
  "require_dir fs path label =
     require (case fs path of None \<Rightarrow> False | Some s \<Rightarrow> st_is_dir s) (ConfigError (label @ '' is missing''))"

definition require_owner :: "stat_fs \<Rightarrow> pystr \<Rightarrow> int set \<Rightarrow> string \<Rightarrow> unit result" where
  "require_owner fs path allowed_uids label =
     rbind (path_stat fs path) (\<lambda>s.
       require (st_uid s \<in> allowed_uids) (ConfigError (label @ '' has unsafe owner'')))"

definition require_readable_by_uid :: "stat_fs \<Rightarrow> pystr \<Rightarrow> int \<Rightarrow> string \<Rightarrow> unit result" where
  "require_readable_by_uid fs path uid label =
     rbind (path_stat fs path) (\<lambda>s.
       let mode = S_IMODE (st_mode s) in
       if st_uid s = uid \<and> mode AND S_IRUSR \<noteq> 0 then Inr ()
       else if mode AND S_IROTH \<noteq> 0 then Inr ()
       else Inl (ConfigError (label @ '' is not readable by runtime user'')))"

definition reject_group_or_other_accessible :: "stat_fs \<Rightarrow> pystr \<Rightarrow> string \<Rightarrow> unit result" where
  "reject_group_or_other_accessible fs path label =
     rbind (path_stat fs path) (\<lambda>s.
       require (S_IMODE (st_mode s) AND (S_IRWXG OR S_IRWXO) = 0)
         (ConfigError (label @ '' has permissions broader than required'')))"

definition reject_group_or_other_writable :: "stat_fs \<Rightarrow> pystr \<Rightarrow> string \<Rightarrow> unit result" where
  "reject_group_or_other_writable fs path label =
     rbind (path_stat fs path) (\<lambda>s.
       require (S_IMODE (st_mode s) AND (S_IWGRP OR S_IWOTH) = 0)
         (ConfigError (label @ '' is writable by group or other'')))"

definition reject_other_readable :: "stat_fs \<Rightarrow> pystr \<Rightarrow> string \<Rightarrow> unit result" where
  "reject_other_readable fs path label =
     rbind (path_stat fs path) (\<lambda>s.
       require (S_IMODE (st_mode s) AND S_IROTH = 0) (ConfigError (label @ '' is readable by other users'')))"

section \<open>Numbers and addresses in text\<close>

text \<open>
  The zeros of the decimal digit ranges, and the other code points with the digit property, of
  Unicode 14: \<open>str.isdigit\<close> accepts both, \<open>int\<close> reads only the first.
\<close>

definition decimal_zeros :: "nat list" where
  "decimal_zeros = [48, 1632, 1776, 1984, 2406, 2534, 2662, 2790, 2918, 3046, 3174, 3302, 3430, 3558,
     3664, 3792, 3872, 4160, 4240, 6112, 6160, 6470, 6608, 6784, 6800, 6992, 7088, 7232, 7248, 42528,
     43216, 43264, 43472, 43504, 43600, 44016, 65296, 66720, 68912, 69734, 69872, 69942, 70096, 70384,
     70736, 70864, 71248, 71360, 71472, 71904, 72016, 72784, 73040, 73120, 92768, 92864, 93008, 120782,
     120792, 120802, 120812, 120822, 123200, 123632, 125264, 130032]"

definition other_digits :: "(nat \<times> nat) list" where
  "other_digits = [(178, 179), (185, 185), (4969, 4977), (6618, 6618), (8304, 8304), (8308, 8313),
     (8320, 8329), (9312, 9320), (9332, 9340), (9352, 9360), (9450, 9450), (9461, 9469), (9471, 9471),
     (10102, 10110), (10112, 10120), (10122, 10130), (68160, 68163), (69216, 69224), (69714, 69722),
     (127232, 127242)]"

definition decimal_value :: "nat \<Rightarrow> nat option" where
  "decimal_value c = map_option (\<lambda>z. c - z) (find (\<lambda>z. z \<le> c \<and> c < z + 10) decimal_zeros)"

definition isdigit_cp :: "nat \<Rightarrow> bool" where
  "isdigit_cp c \<longleftrightarrow> decimal_value c \<noteq> None \<or> list_ex (\<lambda>(a, b). a \<le> c \<and> c \<le> b) other_digits"

definition isdigit :: "pystr \<Rightarrow> bool" where
  "isdigit s \<longleftrightarrow> s \<noteq> [] \<and> list_all isdigit_cp s"

text \<open>\<open>int(text)\<close>: white space around, a sign, decimal digits with single underscores between them, at
  most 4300 of them.\<close>

fun int_digits :: "nat \<Rightarrow> pystr \<Rightarrow> nat option" where
  "int_digits acc [] = Some acc"
| "int_digits acc (c # s) =
     (if c = 95 then (case s of [] \<Rightarrow> None | d # r \<Rightarrow>
        (case decimal_value d of None \<Rightarrow> None | Some v \<Rightarrow> int_digits (10 * acc + v) r))
      else (case decimal_value c of None \<Rightarrow> None | Some v \<Rightarrow> int_digits (10 * acc + v) s))"

definition py_int :: "pystr \<Rightarrow> int result" where
  "py_int text =
     (let t = strip text;
          neg = (t \<noteq> [] \<and> hd t = 45);
          u = (if t \<noteq> [] \<and> (hd t = 45 \<or> hd t = 43) then tl t else t)
      in if u = [] \<or> hd u = 95 \<or> length (filter (\<lambda>c. c \<noteq> 95) u) > 4300
         then Inl (ValueError ''invalid literal for int()'')
         else (case int_digits 0 u of
            None \<Rightarrow> Inl (ValueError ''invalid literal for int()'')
          | Some n \<Rightarrow> Inr (if neg then - int n else int n)))"

text \<open>\<open>s.split(sep)\<close> for a separator of one character.\<close>

fun split_on :: "nat \<Rightarrow> pystr \<Rightarrow> pystr list" where
  "split_on sep [] = [[]]"
| "split_on sep (c # s) =
     (if c = sep then [] # split_on sep s
      else (case split_on sep s of [] \<Rightarrow> [[c]] | w # ws \<Rightarrow> (c # w) # ws))"

text \<open>\<open>ipaddress.ip_address\<close> as far as IPv4: four decimal octets without leading zeros.  Text that is
  not an IPv4 address is an IPv6 address or raises; neither is an IPv4 loopback address.\<close>

definition ipv4_octet :: "pystr \<Rightarrow> nat option" where
  "ipv4_octet o8 =
     (if o8 = [] \<or> \<not> list_all is_ascii_digit o8 \<or> length o8 > 3 \<or> (hd o8 = 48 \<and> o8 \<noteq> [48])
        \<or> digits_value o8 > 255 then None else Some (digits_value o8))"

definition ipv4_address :: "pystr \<Rightarrow> nat list option" where
  "ipv4_address value =
     (let octets = split_on 46 value
      in if length octets \<noteq> 4 then None else those (map ipv4_octet octets))"

definition is_ipv4_loopback :: "pystr \<Rightarrow> bool" where
  "is_ipv4_loopback value = (case ipv4_address value of None \<Rightarrow> False | Some octets \<Rightarrow> hd octets = 127)"

text \<open>\<open>s.rpartition(":")\<close> as the text before and after the last colon, when there is one.\<close>

definition rpartition_colon :: "pystr \<Rightarrow> (pystr \<times> pystr) option" where
  "rpartition_colon s =
     (if 58 \<notin> set s then None
      else Some (rev (tl (dropWhile (\<lambda>c. c \<noteq> 58) (rev s))), rev (takeWhile (\<lambda>c. c \<noteq> 58) (rev s))))"

definition validate_metrics_listen :: "pystr \<Rightarrow> unit result" where
  "validate_metrics_listen listen = (case rpartition_colon listen of
     None \<Rightarrow> Inl (ConfigError ''metrics.listen must be host:port'')
   | Some (host, port_text) \<Rightarrow>
       if host = [] \<or> \<not> isdigit port_text then Inl (ConfigError ''metrics.listen must be host:port'')
       else if \<not> is_ipv4_loopback host
       then Inl (ConfigError ''metrics.listen must bind to IPv4 loopback by default'')
       else rbind (py_int port_text) (\<lambda>port.
         require (1 \<le> port \<and> port \<le> 65535)
           (ConfigError ''metrics.listen port is outside valid TCP port bounds'')))"

section \<open>Validation of the server configuration\<close>

definition validate_tunnel_bounds :: "TunnelConfig \<Rightarrow> unit result" where
  "validate_tunnel_bounds t =
     rbind (require (1 \<le> tun_max_sessions_per_agent t \<and> tun_max_sessions_per_agent t \<le> 1024)
       (ConfigError ''max_sessions_per_agent is outside documented bounds'')) (\<lambda>_.
     rbind (require (5 \<le> tun_heartbeat_seconds t \<and> tun_heartbeat_seconds t \<le> 300)
       (ConfigError ''heartbeat_seconds is outside documented bounds'')) (\<lambda>_.
     rbind (require (65536 \<le> tun_frame_max_bytes t \<and> tun_frame_max_bytes t \<le> 16777216)
       (ConfigError ''frame_max_bytes is outside documented bounds'')) (\<lambda>_.
     require (1 \<le> tun_node_ssh_port t \<and> tun_node_ssh_port t \<le> 65535)
       (ConfigError ''node_ssh_port is outside valid TCP port bounds''))))"

text \<open>The loop over the keys of one entry and the loop over the entries, with the map \<open>seen\<close>.\<close>

fun check_keys :: "pystr \<Rightarrow> pystr list \<Rightarrow> (pystr \<rightharpoonup> pystr) \<Rightarrow> (pystr \<rightharpoonup> pystr) result" where
  "check_keys username [] seen = Inr seen"
| "check_keys username (k # ks) seen =
     (if seen k \<noteq> None \<and> seen k \<noteq> Some username
      then Inl (ConfigError ''file public-key auth maps a key to multiple users'')
      else check_keys username ks (seen(k \<mapsto> username)))"

fun check_entries :: "FilePublicKeyEntry list \<Rightarrow> (pystr \<rightharpoonup> pystr) \<Rightarrow> (pystr \<rightharpoonup> pystr) result" where
  "check_entries [] seen = Inr seen"
| "check_entries (e # es) seen =
     rbind (validate_username_principal (fpk_username e)) (\<lambda>username.
     if fpk_public_keys e = [] then Inl (ConfigError ''file public-key entry must include at least one key'')
     else rbind (check_keys username (fpk_public_keys e) seen) (check_entries es))"

definition validate_file_public_key_entries :: "FilePublicKeyEntry list \<Rightarrow> unit result" where
  "validate_file_public_key_entries entries = rbind (check_entries entries Map.empty) (\<lambda>_. Inr ())"

definition validate_auth_config :: "stat_fs \<Rightarrow> AuthConfig \<Rightarrow> unit result" where
  "validate_auth_config fs a =
     (let pk = auth_public_keys a in
     if ldap_enabled (auth_ldap a) \<and> (\<not> ldap_use_tls (auth_ldap a) \<or> \<not> ldap_validate_tls (auth_ldap a))
     then Inl (ConfigError ''LDAP requires StartTLS/LDAPS certificate validation'')
     else if auth_keyboard_interactive_verifier a = Some (str ''azure_ad'')
     then Inl (ConfigError ''Azure AD cannot verify keyboard-interactive passwords'')
     else if pk_source pk = str ''file'' then
       (case pk_file_path pk of
          None \<Rightarrow> Inl (ConfigError ''file public-key auth requires file_path'')
        | Some path \<Rightarrow>
            rbind (require_file fs path ''authorized-keys file'') (\<lambda>_.
            rbind (reject_group_or_other_writable fs path ''authorized-keys file'') (\<lambda>_.
            validate_file_public_key_entries (pk_file_entries pk))))
     else Inr ())"

definition validate_server_config :: "stat_fs \<Rightarrow> ServerConfig \<Rightarrow> unit result" where
  "validate_server_config fs config =
     (let certs = cfg_certs config; replay = cfg_replay config in
     rbind (require_file fs (cert_agent_ca_key_path certs) ''agent CA key'') (\<lambda>_.
     rbind (require_file fs (cert_agent_ca_cert_path certs) ''agent CA certificate'') (\<lambda>_.
     rbind (require_file fs (cert_user_ca_key_path certs) ''user CA key'') (\<lambda>_.
     rbind (require_file fs (cert_user_ca_public_key_path certs) ''user CA public key'') (\<lambda>_.
     rbind (require_file fs (tun_tls_ca_bundle (cfg_tunnel config)) ''tunnel TLS CA bundle'') (\<lambda>_.
     rbind (require_dir fs (replay_directory replay) ''replay directory'') (\<lambda>_.
     rbind (require_file fs (replay_integrity_key_path replay) ''replay integrity key'') (\<lambda>_.
     rbind (rmap (\<lambda>path. rbind (require_dir fs path ''install directory'') (\<lambda>_.
              reject_group_or_other_writable fs path ''install directory'')) (cfg_install_dirs config)) (\<lambda>_.
     rbind (rmap (\<lambda>path. rbind (require_file fs path ''secret'') (\<lambda>_.
              reject_group_or_other_accessible fs path ''secret'')) (cfg_secret_paths config)) (\<lambda>_.
     rbind (require (1 \<le> cert_user_cert_ttl_hours certs \<and> cert_user_cert_ttl_hours certs \<le> 12)
              (ConfigError ''user_cert_ttl_hours must be between 1 and 12'')) (\<lambda>_.
     rbind (validate_tunnel_bounds (cfg_tunnel config)) (\<lambda>_.
     rbind (validate_auth_config fs (cfg_auth config)) (\<lambda>_.
     validate_metrics_listen (cfg_metrics_listen config))))))))))))))"

section \<open>Validation of the agent configuration\<close>

text \<open>\<open>Path.parent\<close> of a normalised path.\<close>

definition path_parent :: "pystr \<Rightarrow> pystr" where
  "path_parent p =
     (if 47 \<notin> set p then str ''.''
      else (let d = rev (tl (dropWhile (\<lambda>c. c \<noteq> 47) (rev p))) in if d = [] then str ''/'' else d))"

definition validate_agent_config ::
  "stat_fs \<Rightarrow> int \<Rightarrow> AgentConfig \<Rightarrow> int option \<Rightarrow> int set option \<Rightarrow> unit result" where
  "validate_agent_config fs getuid config runtime_uid allowed_owner_uids =
     (let uid = (case runtime_uid of None \<Rightarrow> getuid | Some u \<Rightarrow> u);
          owners = (case allowed_owner_uids of None \<Rightarrow> {uid} | Some us \<Rightarrow> us);
          path = acfg_config_path config; identity_parent = path_parent (acfg_identity_path config) in
     rbind (require_file fs path ''agent.conf'') (\<lambda>_.
     rbind (require_owner fs path owners ''agent.conf'') (\<lambda>_.
     rbind (reject_other_readable fs path ''agent.conf'') (\<lambda>_.
     rbind (require_readable_by_uid fs path uid ''agent.conf'') (\<lambda>_.
     rbind (require_dir fs identity_parent ''identity directory'') (\<lambda>_.
     rbind (require_owner fs identity_parent {uid} ''identity directory'') (\<lambda>_.
     rbind (reject_group_or_other_accessible fs identity_parent ''identity directory'') (\<lambda>_.
     rbind (require_file fs (acfg_enrollment_tls_ca_bundle config) ''enrollment TLS CA bundle'') (\<lambda>_.
     rbind (require_file fs (acfg_tunnel_tls_ca_bundle config) ''tunnel TLS CA bundle'') (\<lambda>_.
     rbind (require (is_ipv4_loopback (acfg_proxy_target_host config))
       (ConfigError ''proxy target host must be within 127.0.0.0/8'')) (\<lambda>_.
     rbind (require (1 \<le> acfg_proxy_target_port config \<and> acfg_proxy_target_port config \<le> 65535)
       (ConfigError ''proxy target_port is outside valid TCP port bounds'')) (\<lambda>_.
     rbind (require (5 \<le> acfg_heartbeat_seconds config \<and> acfg_heartbeat_seconds config \<le> 300)
       (ConfigError ''heartbeat_seconds is outside documented bounds'')) (\<lambda>_.
     rbind (require (30 \<le> acfg_reconnect_backoff_max_seconds config \<and> acfg_reconnect_backoff_max_seconds config \<le> 1800)
       (ConfigError ''reconnect_backoff_max_seconds is outside documented bounds'')) (\<lambda>_.
     rbind (require (0 \<le> acfg_max_reconnect_attempts config)
       (ConfigError ''max_reconnect_attempts cannot be negative'')) (\<lambda>_.
     require (\<not> (acfg_enrollment_completed config \<and> acfg_enrollment_token config \<notin> {None, Some []}))
       (ConfigError ''enrollment token remains after successful enrollment''))))))))))))))))"

section \<open>Loading the server configuration\<close>

text \<open>A mapping of the decoded YAML with its string keys.\<close>

type_synonym yaml_mapping = "(pystr \<times> pyval) list"

definition yaml_str :: "(pyval \<Rightarrow> pystr) \<Rightarrow> pyval \<Rightarrow> pystr" where
  "yaml_str text_of v = (case v of
     PStr s \<Rightarrow> s | PInt i \<Rightarrow> show_int i | PBool b \<Rightarrow> (if b then str ''True'' else str ''False'')
   | PNone \<Rightarrow> str ''None'' | _ \<Rightarrow> text_of v)"

text \<open>The truth value of a YAML value.\<close>

definition truthy :: "pyval \<Rightarrow> bool" where
  "truthy v = (case v of
     PNone \<Rightarrow> False | PBool b \<Rightarrow> b | PInt i \<Rightarrow> i \<noteq> 0 | PFloat t \<Rightarrow> t \<notin> {str ''0.0'', str ''-0.0''}
   | PStr s \<Rightarrow> s \<noteq> [] | PBytes b \<Rightarrow> b \<noteq> [] | PList xs \<Rightarrow> xs \<noteq> [] | PTuple xs \<Rightarrow> xs \<noteq> []
   | PDict kvs \<Rightarrow> kvs \<noteq> [] | _ \<Rightarrow> True)"

definition load_simple_yaml :: "(pystr \<Rightarrow> pyval option) \<Rightarrow> pystr result \<Rightarrow> yaml_mapping result" where
  "load_simple_yaml safe_load content =
     rbind content (\<lambda>text. case safe_load text of
       None \<Rightarrow> Inl (ConfigError ''server config YAML is invalid'')
     | Some (PDict kvs) \<Rightarrow> Inr kvs
     | Some _ \<Rightarrow> Inl (ConfigError ''server config must be a YAML mapping''))"

definition cfg_mapping :: "yaml_mapping \<Rightarrow> string \<Rightarrow> yaml_mapping option \<Rightarrow> yaml_mapping result" where
  "cfg_mapping m key dflt = (case map_of m (str key) of
     Some (PDict kvs) \<Rightarrow> Inr kvs
   | Some _ \<Rightarrow> Inl (ConfigError (key @ '' section is required''))
   | None \<Rightarrow> (case dflt of Some kvs \<Rightarrow> Inr kvs
              | None \<Rightarrow> Inl (ConfigError (key @ '' section is required''))))"

definition cfg_path ::
  "(pystr \<Rightarrow> pystr result) \<Rightarrow> (pyval \<Rightarrow> pystr) \<Rightarrow> yaml_mapping \<Rightarrow> string \<Rightarrow> pystr result" where
  "cfg_path to_path text_of m key = (case map_of m (str key) of
     None \<Rightarrow> Inl (ConfigError (key @ '' is required''))
   | Some v \<Rightarrow> if truthy v then to_path (yaml_str text_of v)
               else Inl (ConfigError (key @ '' is required'')))"

definition cfg_paths ::
  "(pystr \<Rightarrow> pystr result) \<Rightarrow> (pyval \<Rightarrow> pystr) \<Rightarrow> yaml_mapping \<Rightarrow> string \<Rightarrow> pystr list result" where
  "cfg_paths to_path text_of m key = (case map_of m (str key) of
     None \<Rightarrow> Inr []
   | Some v \<Rightarrow> if truthy v then rmap (\<lambda>item. to_path (strip item)) (split_on 44 (yaml_str text_of v))
               else Inr [])"

definition cfg_int :: "(pyval \<Rightarrow> pystr) \<Rightarrow> yaml_mapping \<Rightarrow> string \<Rightarrow> int \<Rightarrow> int result" where
  "cfg_int text_of m key dflt =
     (let v = (case map_of m (str key) of None \<Rightarrow> PInt dflt | Some v \<Rightarrow> v) in
      case v of PBool _ \<Rightarrow> Inl (ConfigError (key @ '' must be an integer''))
      | _ \<Rightarrow> rewrap (py_int (yaml_str text_of v)) is_value_error
               (\<lambda>e. ConfigError (key @ '' must be an integer'')))"

definition cfg_bool :: "(pyval \<Rightarrow> pystr) \<Rightarrow> yaml_mapping \<Rightarrow> string \<Rightarrow> bool \<Rightarrow> bool result" where
  "cfg_bool text_of m key dflt =
     (let v = (case map_of m (str key) of None \<Rightarrow> PBool dflt | Some v \<Rightarrow> v) in
      case v of PBool b \<Rightarrow> Inr b
      | _ \<Rightarrow> (let t = lower (yaml_str text_of v) in
          if t \<in> {str ''true'', str ''yes'', str ''1''} then Inr True
          else if t \<in> {str ''false'', str ''no'', str ''0''} then Inr False
          else Inl (ConfigError (key @ '' must be a boolean''))))"

text \<open>An optional path, and an optional string: present when the value is truthy.\<close>

definition cfg_optional_path ::
  "(pystr \<Rightarrow> pystr result) \<Rightarrow> (pyval \<Rightarrow> pystr) \<Rightarrow> yaml_mapping \<Rightarrow> string \<Rightarrow> pystr option result" where
  "cfg_optional_path to_path text_of m key = (case map_of m (str key) of
     None \<Rightarrow> Inr None
   | Some v \<Rightarrow> if truthy v then rbind (to_path (yaml_str text_of v)) (\<lambda>p. Inr (Some p)) else Inr None)"

definition cfg_text :: "(pyval \<Rightarrow> pystr) \<Rightarrow> yaml_mapping \<Rightarrow> string \<Rightarrow> string \<Rightarrow> pystr" where
  "cfg_text text_of m key dflt = (case map_of m (str key) of None \<Rightarrow> str dflt | Some v \<Rightarrow> yaml_str text_of v)"

definition load_certs ::
  "(pystr \<Rightarrow> pystr result) \<Rightarrow> (pyval \<Rightarrow> pystr) \<Rightarrow> yaml_mapping \<Rightarrow> CertConfig result" where
  "load_certs to_path text_of certs =
     rbind (cfg_path to_path text_of certs ''agent_ca_key_path'') (\<lambda>agent_ca_key.
     rbind (cfg_path to_path text_of certs ''agent_ca_cert_path'') (\<lambda>agent_ca_cert.
     rbind (cfg_path to_path text_of certs ''user_ca_key_path'') (\<lambda>user_ca_key.
     rbind (cfg_path to_path text_of certs ''user_ca_public_key_path'') (\<lambda>user_ca_public_key.
     rbind (cfg_int text_of certs ''agent_cert_lifetime_days'' 30) (\<lambda>lifetime.
     rbind (cfg_int text_of certs ''user_cert_ttl_hours'' 4) (\<lambda>ttl.
       Inr \<lparr>cert_agent_ca_key_path = agent_ca_key, cert_agent_ca_cert_path = agent_ca_cert,
            cert_user_ca_key_path = user_ca_key, cert_user_ca_public_key_path = user_ca_public_key,
            cert_agent_cert_lifetime_days = lifetime, cert_user_cert_ttl_hours = ttl\<rparr>))))))"

definition load_tunnel ::
  "(pystr \<Rightarrow> pystr result) \<Rightarrow> (pyval \<Rightarrow> pystr) \<Rightarrow> yaml_mapping \<Rightarrow> TunnelConfig result" where
  "load_tunnel to_path text_of tunnel =
     rbind (cfg_int text_of tunnel ''max_sessions_per_agent'' 64) (\<lambda>max_sessions.
     rbind (cfg_int text_of tunnel ''heartbeat_seconds'' 30) (\<lambda>heartbeat.
     rbind (cfg_int text_of tunnel ''frame_max_bytes'' 1048576) (\<lambda>frame_max.
     rbind (cfg_path to_path text_of tunnel ''tls_ca_bundle'') (\<lambda>ca_bundle.
     rbind (cfg_int text_of tunnel ''node_ssh_port'' 2222) (\<lambda>port.
       Inr \<lparr>tun_max_sessions_per_agent = max_sessions, tun_heartbeat_seconds = heartbeat,
            tun_frame_max_bytes = frame_max, tun_tls_ca_bundle = ca_bundle,
            tun_node_ssh_port = port\<rparr>)))))"

definition load_auth ::
  "(pystr \<Rightarrow> pystr result) \<Rightarrow> (pyval \<Rightarrow> pystr) \<Rightarrow> yaml_mapping \<Rightarrow> yaml_mapping \<Rightarrow> yaml_mapping \<Rightarrow>
   yaml_mapping \<Rightarrow> AuthConfig result" where
  "load_auth to_path text_of auth public_keys ldap azure_ad =
     rbind (cfg_optional_path to_path text_of public_keys ''file_path'') (\<lambda>file_path.
     rbind (cfg_bool text_of ldap ''enabled'' False) (\<lambda>ldap_on.
     rbind (cfg_bool text_of ldap ''use_tls'' False) (\<lambda>use_tls.
     rbind (cfg_bool text_of ldap ''validate_tls'' False) (\<lambda>validate_tls.
     rbind (cfg_bool text_of azure_ad ''enabled'' False) (\<lambda>azure_on.
     rbind (cfg_optional_path to_path text_of azure_ad ''client_secret_path'') (\<lambda>client_secret.
     rbind (cfg_bool text_of azure_ad ''use_managed_identity'' False) (\<lambda>managed.
       Inr \<lparr>auth_public_keys = \<lparr>pk_source = cfg_text text_of public_keys ''source'' ''file'',
              pk_file_path = file_path, pk_file_entries = []\<rparr>,
            auth_ldap = \<lparr>ldap_enabled = ldap_on, ldap_use_tls = use_tls, ldap_validate_tls = validate_tls\<rparr>,
            auth_azure_ad = \<lparr>azure_enabled = azure_on, azure_client_secret_path = client_secret,
              azure_use_managed_identity = managed\<rparr>,
            auth_keyboard_interactive_verifier =
              (case map_of auth (str ''keyboard_interactive_verifier'') of
                 None \<Rightarrow> None | Some v \<Rightarrow> if truthy v then Some (yaml_str text_of v) else None)\<rparr>)))))))"

definition load_replay ::
  "(pystr \<Rightarrow> pystr result) \<Rightarrow> (pyval \<Rightarrow> pystr) \<Rightarrow> yaml_mapping \<Rightarrow> ReplayConfig result" where
  "load_replay to_path text_of replay =
     rbind (cfg_path to_path text_of replay ''directory'') (\<lambda>directory.
     rbind (cfg_int text_of replay ''retention_days'' 90) (\<lambda>retention.
     rbind (cfg_path to_path text_of replay ''integrity_key_path'') (\<lambda>key_path.
       Inr \<lparr>replay_directory = directory, replay_retention_days = retention,
            replay_integrity_key_path = key_path\<rparr>)))"

definition load_server_config ::
  "(pystr \<Rightarrow> pystr result) \<Rightarrow> (pyval \<Rightarrow> pystr) \<Rightarrow> (pystr \<Rightarrow> pyval option) \<Rightarrow> pystr result \<Rightarrow> ServerConfig result" where
  "load_server_config to_path text_of safe_load content =
     rbind (load_simple_yaml safe_load content) (\<lambda>raw.
     rbind (cfg_mapping raw ''certs'' None) (\<lambda>certs.
     rbind (cfg_mapping raw ''tunnel'' None) (\<lambda>tunnel.
     rbind (cfg_mapping raw ''auth'' None) (\<lambda>auth.
     rbind (cfg_mapping auth ''public_keys'' (Some [])) (\<lambda>public_keys.
     rbind (cfg_mapping auth ''ldap'' (Some [])) (\<lambda>ldap.
     rbind (cfg_mapping auth ''azure_ad'' (Some [])) (\<lambda>azure_ad.
     rbind (cfg_mapping raw ''replay'' None) (\<lambda>replay.
     rbind (cfg_mapping raw ''metrics'' None) (\<lambda>metrics.
     rbind (load_certs to_path text_of certs) (\<lambda>cert_config.
     rbind (load_tunnel to_path text_of tunnel) (\<lambda>tunnel_config.
     rbind (load_auth to_path text_of auth public_keys ldap azure_ad) (\<lambda>auth_config.
     rbind (load_replay to_path text_of replay) (\<lambda>replay_config.
     rbind (cfg_paths to_path text_of raw ''install_dirs'') (\<lambda>install_dirs.
     rbind (cfg_paths to_path text_of raw ''secret_paths'') (\<lambda>secret_paths.
       Inr \<lparr>cfg_certs = cert_config, cfg_tunnel = tunnel_config, cfg_auth = auth_config,
            cfg_replay = replay_config,
            cfg_metrics_listen = cfg_text text_of metrics ''listen'' ''127.0.0.1:9100'',
            cfg_install_dirs = install_dirs, cfg_secret_paths = secret_paths\<rparr>)))))))))))))))"

section \<open>Loading the agent configuration\<close>

text \<open>
  \<open>urllib.parse.urlparse("//" + value)\<close> as far as \<open>hostname\<close> and \<open>port\<close>: tabs and line ends are
  removed, the network location ends at the first of \<open>/?#\<close>, and its check for brackets and for
  characters that normalise to a delimiter is the argument \<open>netloc_check\<close>.
\<close>

definition url_netloc :: "pystr \<Rightarrow> pystr" where
  "url_netloc value = takeWhile (\<lambda>c. c \<notin> {47, 63, 35}) (filter (\<lambda>c. c \<notin> {9, 10, 13}) value)"

definition after_last :: "nat \<Rightarrow> pystr \<Rightarrow> pystr" where
  "after_last sep s = rev (takeWhile (\<lambda>c. c \<noteq> sep) (rev s))"

definition before_first :: "nat \<Rightarrow> pystr \<Rightarrow> pystr" where
  "before_first sep s = takeWhile (\<lambda>c. c \<noteq> sep) s"

definition after_first :: "nat \<Rightarrow> pystr \<Rightarrow> pystr" where
  "after_first sep s = tl (dropWhile (\<lambda>c. c \<noteq> sep) s)"

definition url_hostinfo :: "pystr \<Rightarrow> pystr \<times> pystr" where
  "url_hostinfo netloc =
     (let hostinfo = after_last 64 netloc in
      if 91 \<in> set hostinfo
      then (let bracketed = after_first 91 hostinfo
            in (before_first 93 bracketed, after_first 58 (after_first 93 bracketed)))
      else (before_first 58 hostinfo, after_first 58 hostinfo))"

text \<open>The host name in lower case up to a zone id, and the port, None when there is none.\<close>

definition url_hostname :: "pystr \<Rightarrow> pystr" where
  "url_hostname netloc =
     (let host = fst (url_hostinfo netloc)
      in lower (before_first 37 host) @ dropWhile (\<lambda>c. c \<noteq> 37) host)"

definition url_port :: "pystr \<Rightarrow> int option result" where
  "url_port netloc =
     (let port = snd (url_hostinfo netloc) in
      if port = [] then Inr None
      else if \<not> list_all is_ascii_digit port then Inl (ValueError ''Port could not be cast to integer value'')
      else rbind (py_int port) (\<lambda>n.
        if 0 \<le> n \<and> n \<le> 65535 then Inr (Some n) else Inl (ValueError ''Port out of range 0-65535'')))"

definition parse_host_port :: "(pystr \<Rightarrow> unit result) \<Rightarrow> pystr \<Rightarrow> (pystr \<times> int) result" where
  "parse_host_port netloc_check value =
     (let netloc = url_netloc value in
      rbind (netloc_check netloc) (\<lambda>_.
      if url_hostname netloc = [] then Inl (ConfigError ''host:port value is required'')
      else rbind (url_port netloc) (\<lambda>port. case port of
          None \<Rightarrow> Inl (ConfigError ''host:port value is required'')
        | Some n \<Rightarrow> Inr (url_hostname netloc, n))))"

text \<open>
  What \<open>ConfigParser.read\<close> leaves: nothing when no file was read, otherwise the value of each key as
  each section sees it (defaults and interpolation included).  What parsing and interpolation raise is
  the other side of the result.
\<close>

type_synonym ini_section = "pystr \<rightharpoonup> pystr"
type_synonym ini_file = "pystr \<rightharpoonup> ini_section"

definition require_config_value :: "ini_section \<Rightarrow> string \<Rightarrow> string \<Rightarrow> pystr result" where
  "require_config_value section_values key display_name = (case section_values (str key) of
     None \<Rightarrow> Inl (ConfigError (display_name @ '' is required''))
   | Some v \<Rightarrow> if v = [] then Inl (ConfigError (display_name @ '' is required'')) else Inr v)"

definition ini_get :: "ini_section \<Rightarrow> string \<Rightarrow> string \<Rightarrow> pystr" where
  "ini_get section_values key dflt = (case section_values (str key) of None \<Rightarrow> str dflt | Some v \<Rightarrow> v)"

definition ini_section_or_empty :: "ini_file \<Rightarrow> string \<Rightarrow> ini_section" where
  "ini_section_or_empty conf name = (case conf (str name) of None \<Rightarrow> (\<lambda>_. None) | Some s \<Rightarrow> s)"

definition load_agent_config ::
  "(pystr \<Rightarrow> pystr result) \<Rightarrow> (pystr \<Rightarrow> unit result) \<Rightarrow> stat_fs \<Rightarrow> pystr \<Rightarrow> ini_file option result \<Rightarrow> AgentConfig result" where
  "load_agent_config to_path netloc_check fs path parsed =
     rbind parsed (\<lambda>read_file. case read_file of
       None \<Rightarrow> Inl (ConfigError ''agent.conf is missing'')
     | Some conf \<Rightarrow>
     (let enrollment = ini_section_or_empty conf ''enrollment'';
          tunnel = ini_section_or_empty conf ''tunnel'';
          identity = ini_section_or_empty conf ''identity'';
          proxy = ini_section_or_empty conf ''proxy'' in
     rbind (require_config_value proxy ''target'' ''proxy.target'') (\<lambda>target.
     rbind (parse_host_port netloc_check target) (\<lambda>(target_host, target_port).
     rbind (to_path (ini_get identity ''path'' ''/var/lib/vibeconnect/identity.json'')) (\<lambda>identity_path.
     rbind (require_config_value enrollment ''tls_ca_bundle'' ''enrollment.tls_ca_bundle'') (\<lambda>enrollment_bundle.
     rbind (to_path enrollment_bundle) (\<lambda>enrollment_ca.
     rbind (require_config_value tunnel ''tls_ca_bundle'' ''tunnel.tls_ca_bundle'') (\<lambda>tunnel_bundle.
     rbind (to_path tunnel_bundle) (\<lambda>tunnel_ca.
     rbind (py_int (ini_get tunnel ''heartbeat_seconds'' ''30'')) (\<lambda>heartbeat.
     rbind (py_int (ini_get tunnel ''reconnect_backoff_max_seconds'' ''300'')) (\<lambda>backoff.
     rbind (py_int (ini_get tunnel ''max_reconnect_attempts'' ''0'')) (\<lambda>attempts.
       Inr \<lparr>acfg_config_path = path, acfg_identity_path = identity_path,
            acfg_enrollment_token = enrollment (str ''token''),
            acfg_enrollment_completed = (fs identity_path \<noteq> None),
            acfg_enrollment_tls_ca_bundle = enrollment_ca, acfg_tunnel_tls_ca_bundle = tunnel_ca,
            acfg_proxy_target_host = target_host, acfg_proxy_target_port = target_port,
            acfg_heartbeat_seconds = heartbeat, acfg_reconnect_backoff_max_seconds = backoff,
            acfg_max_reconnect_attempts = attempts\<rparr>))))))))))))"

end
