(* ===== verification/Config_Facts.thy ===== *)
theory Config_Facts
  imports Config
begin

text \<open>
  Facts of the configuration: which addresses are IPv4 loopback, what the permission checks mean bit
  by bit, which key files have one owner per key, and exactly which configurations are accepted.
\<close>

section \<open>Splitting and joining\<close>

lemma split_on_nonempty [simp]: "split_on c s \<noteq> []"
  by (cases s) (auto split: list.splits)

lemma split_on_none: "c \<notin> set s \<Longrightarrow> split_on c s = [s]"
  by (induction s) auto

lemma split_on_append: "c \<notin> set a \<Longrightarrow> split_on c (a @ c # s) = a # split_on c s"
  by (induction a) auto

lemma split_on_join: "\<forall>p \<in> set ps. c \<notin> set p \<Longrightarrow> ps \<noteq> [] \<Longrightarrow> split_on c (join [c] ps) = ps"
proof (induction ps)
  case (Cons x ps)
  show ?case
  proof (cases ps)
    case Nil
    then show ?thesis using Cons.prems by (simp add: split_on_none)
  next
    case (Cons y ys)
    then show ?thesis using Cons.IH Cons.prems split_on_append [of c x "join [c] ps"] by simp
  qed
qed simp

lemma join_split_on: "join [c] (split_on c s) = s"
proof (induction s)
  case (Cons a s)
  obtain w ws where w: "split_on c s = w # ws" by (metis split_on_nonempty neq_Nil_conv)
  show ?case
  proof (cases ws)
    case Nil
    then show ?thesis using Cons w by auto
  next
    case (Cons v vs)
    then show ?thesis using Cons.IH w by auto
  qed
qed simp

section \<open>Decimal octets\<close>

lemma digits_value_pos: "list_all is_ascii_digit s \<Longrightarrow> s \<noteq> [] \<Longrightarrow> hd s \<noteq> 48 \<Longrightarrow> 0 < digits_value s"
proof (induction s rule: rev_induct)
  case (snoc c s)
  then show ?case
    by (cases "s = []") (auto simp: digits_value_snoc digits_value_def is_ascii_digit_def)
qed simp

lemma digits_of_value:
  "list_all is_ascii_digit s \<Longrightarrow> s \<noteq> [] \<Longrightarrow> hd s \<noteq> 48 \<or> s = [48] \<Longrightarrow> digits_of (digits_value s) = s"
proof (induction s rule: rev_induct)
  case (snoc c s)
  have c: "is_ascii_digit c" using snoc.prems(1) by simp
  show ?case
  proof (cases "s = []")
    case True
    then show ?thesis
      using c by (subst digits_of.simps) (auto simp: digits_value_def is_ascii_digit_def)
  next
    case False
    with snoc.prems have s: "list_all is_ascii_digit s" "s \<noteq> []" "hd s \<noteq> 48" by auto
    obtain d where d: "c = 48 + d" "d < 10" using c by (auto simp: is_ascii_digit_def dest!: le_Suc_ex)
    then have v: "digits_value (s @ [c]) = 10 * digits_value s + d" by (simp add: digits_value_snoc)
    have "0 < digits_value s" using digits_value_pos s by blast
    then show ?thesis
      unfolding v using snoc.IH s d by (subst digits_of.simps) simp
  qed
qed simp

lemma digits_of_length: "n < 1000 \<Longrightarrow> length (digits_of n) \<le> 3"
  by (subst digits_of.simps, subst digits_of.simps, subst digits_of.simps) auto

lemma ipv4_octet_iff: "ipv4_octet s = Some n \<longleftrightarrow> n \<le> 255 \<and> s = digits_of n"
proof
  assume a: "ipv4_octet s = Some n"
  then show "n \<le> 255 \<and> s = digits_of n"
    using digits_of_value [of s] by (auto simp: ipv4_octet_def split: if_splits)
next
  assume a: "n \<le> 255 \<and> s = digits_of n"
  have "hd (digits_of n) = 48 \<Longrightarrow> digits_of n = [48]"
    using digits_of_hd [of n] by (simp add: digits_of.simps)
  then show "ipv4_octet s = Some n"
    using a digits_of_all [of n] digits_of_length [of n] by (simp add: ipv4_octet_def digits_value_of)
qed

lemma digits_of_no_dot: "46 \<notin> set (digits_of n)"
  using digits_of_all [of n] by (auto simp: list_all_iff is_ascii_digit_def)

text \<open>The printed form of four octets.\<close>

definition dotted :: "nat list \<Rightarrow> pystr" where
  "dotted ns = join [46] (map digits_of ns)"

lemma those_iff: "those xs = Some ys \<longleftrightarrow> xs = map Some ys"
  by (induction xs arbitrary: ys) (auto split: option.splits)

lemma octets_of: "map ipv4_octet ss = map Some ns \<Longrightarrow> ss = map digits_of ns \<and> (\<forall>n \<in> set ns. n \<le> 255)"
proof (induction ss arbitrary: ns)
  case (Cons s ss)
  then obtain m ms where "ns = m # ms" by (cases ns) auto
  with Cons show ?case by (simp add: ipv4_octet_iff)
qed simp

lemma ipv4_address_iff:
  "ipv4_address v = Some ns \<longleftrightarrow> length ns = 4 \<and> (\<forall>n \<in> set ns. n \<le> 255) \<and> v = dotted ns"
proof
  assume a: "ipv4_address v = Some ns"
  then have len: "length (split_on 46 v) = 4" and oct: "map ipv4_octet (split_on 46 v) = map Some ns"
    by (auto simp: ipv4_address_def Let_def those_iff split: if_splits)
  then have n4: "length ns = 4" using map_eq_imp_length_eq by fastforce
  have "split_on 46 v = map digits_of ns \<and> (\<forall>n \<in> set ns. n \<le> 255)"
    using octets_of [OF oct] .
  then show "length ns = 4 \<and> (\<forall>n \<in> set ns. n \<le> 255) \<and> v = dotted ns"
    using n4 join_split_on [of 46 v] by (simp add: dotted_def)
next
  assume a: "length ns = 4 \<and> (\<forall>n \<in> set ns. n \<le> 255) \<and> v = dotted ns"
  then have "split_on 46 v = map digits_of ns"
    using digits_of_no_dot by (simp add: dotted_def) (subst split_on_join; auto)
  moreover have "map ipv4_octet (map digits_of ns) = map Some ns" using a ipv4_octet_iff by simp
  ultimately show "ipv4_address v = Some ns"
    using a by (simp add: ipv4_address_def those_iff del: map_map)
qed

lemma is_ipv4_loopback_iff:
  "is_ipv4_loopback v \<longleftrightarrow> (\<exists>b c d. b \<le> 255 \<and> c \<le> 255 \<and> d \<le> 255 \<and> v = dotted [127, b, c, d])"
proof
  assume "is_ipv4_loopback v"
  then obtain ns where "ipv4_address v = Some ns" and hd: "hd ns = 127"
    by (auto simp: is_ipv4_loopback_def split: option.splits)
  then have ns: "length ns = 4" "\<forall>n \<in> set ns. n \<le> 255" "v = dotted ns" by (simp_all add: ipv4_address_iff)
  have "\<exists>a b c d. xs = [a, b, c, d]" if "length xs = 4" for xs :: "nat list"
    using that by (auto simp: numeral_eq_Suc length_Suc_conv)
  with ns(1) hd obtain b c d where "ns = [127, b, c, d]" by fastforce
  with ns(2,3) show "\<exists>b c d. b \<le> 255 \<and> c \<le> 255 \<and> d \<le> 255 \<and> v = dotted [127, b, c, d]" by auto
next
  assume "\<exists>b c d. b \<le> 255 \<and> c \<le> 255 \<and> d \<le> 255 \<and> v = dotted [127, b, c, d]"
  then obtain b c d where "ipv4_address v = Some [127, b, c, d]" unfolding ipv4_address_iff by auto
  then show "is_ipv4_loopback v" by (simp add: is_ipv4_loopback_def)
qed

section \<open>Permission bits\<close>

lemma mode_no_access:
  "S_IMODE m AND (S_IRWXG OR S_IRWXO) = 0 \<longleftrightarrow> (\<forall>i < 6. \<not> bit m i)"
proof -
  have "S_IMODE m AND (S_IRWXG OR S_IRWXO) = take_bit 6 m"
    by (simp add: S_IMODE_def S_IRWXG_def S_IRWXO_def and.assoc take_bit_eq_mask mask_eq_exp_minus_1)
  then show ?thesis by (auto simp: bit_eq_iff bit_simps)
qed

lemma mode_bit: "k < 12 \<Longrightarrow> S_IMODE m AND 2 ^ k = 0 \<longleftrightarrow> \<not> bit m k"
proof -
  assume k: "k < 12"
  have "S_IMODE m = take_bit 12 m" by (simp add: S_IMODE_def take_bit_eq_mask mask_eq_exp_minus_1)
  with k show ?thesis by (simp add: and_exp_eq_0_iff_not_bit bit_take_bit_iff)
qed

lemma mode_not_writable: "S_IMODE m AND (S_IWGRP OR S_IWOTH) = 0 \<longleftrightarrow> \<not> bit m 4 \<and> \<not> bit m 1"
proof -
  have w: "S_IWGRP = 2 ^ 4" "S_IWOTH = 2 ^ 1" by (simp_all add: S_IWGRP_def S_IWOTH_def)
  have "a AND (b OR c) = 0 \<longleftrightarrow> a AND b = 0 \<and> a AND c = 0" for a b c :: "16 word"
    by (auto simp: bit_eq_iff bit_simps)
  with mode_bit [of 4 m] mode_bit [of 1 m] show ?thesis unfolding w by (simp del: power_numeral power_one_right)
qed

lemma mode_read_bits: "S_IMODE m AND S_IROTH = 0 \<longleftrightarrow> \<not> bit m 2" "S_IMODE m AND S_IRUSR = 0 \<longleftrightarrow> \<not> bit m 8"
proof -
  have w: "S_IROTH = 2 ^ 2" "S_IRUSR = 2 ^ 8" by (simp_all add: S_IROTH_def S_IRUSR_def)
  show "S_IMODE m AND S_IROTH = 0 \<longleftrightarrow> \<not> bit m 2" "S_IMODE m AND S_IRUSR = 0 \<longleftrightarrow> \<not> bit m 8"
    unfolding w by (rule mode_bit, simp)+
qed

section \<open>One owner per key\<close>

lemma check_keys_Inr:
  "check_keys u ks seen = Inr seen' \<longleftrightarrow> (\<forall>k \<in> set ks. seen k = None \<or> seen k = Some u) \<and>
     seen' = (\<lambda>k. if k \<in> set ks then Some u else seen k)"
proof (induction ks arbitrary: seen)
  case (Cons k ks)
  let ?s = "seen(k \<mapsto> u)"
  have f: "(\<lambda>j. if j \<in> set ks then Some u else ?s j) = (\<lambda>j. if j \<in> set (k # ks) then Some u else seen j)"
    by auto
  have g: "(\<forall>j \<in> set ks. ?s j = None \<or> ?s j = Some u) \<longleftrightarrow> (\<forall>j \<in> set ks. j = k \<or> seen j = None \<or> seen j = Some u)"
    by auto
  show ?case
  proof (cases "seen k = None \<or> seen k = Some u")
    case True
    then have "check_keys u (k # ks) seen = check_keys u ks ?s" by auto
    moreover have "(\<forall>j \<in> set ks. j = k \<or> seen j = None \<or> seen j = Some u) \<longleftrightarrow>
        (\<forall>j \<in> set (k # ks). seen j = None \<or> seen j = Some u)"
      using True by auto
    ultimately show ?thesis using Cons.IH [of ?s, unfolded f g] by (simp only:)
  qed auto
qed auto

definition same_owner :: "FilePublicKeyEntry \<Rightarrow> FilePublicKeyEntry \<Rightarrow> bool" where
  "same_owner e e' \<longleftrightarrow>
     (set (fpk_public_keys e') \<inter> set (fpk_public_keys e) \<noteq> {} \<longrightarrow> fpk_username e = fpk_username e')"

lemma same_owner_sym: "same_owner e e' = same_owner e' e"
  by (auto simp: same_owner_def)

lemma all_pairs:
  assumes "\<And>a b. R a b = R b a" "R e e"
  shows "(\<forall>a \<in> insert e S. \<forall>b \<in> insert e S. R a b) \<longleftrightarrow> (\<forall>b \<in> S. R b e) \<and> (\<forall>a \<in> S. \<forall>b \<in> S. R a b)"
  using assms by blast

definition entries_ok :: "FilePublicKeyEntry list \<Rightarrow> bool" where
  "entries_ok es \<longleftrightarrow> (\<forall>e \<in> set es. validate_username_principal (fpk_username e) = Inr (fpk_username e) \<and>
      fpk_public_keys e \<noteq> []) \<and>
    (\<forall>e \<in> set es. \<forall>e' \<in> set es. same_owner e e')"

definition fits_seen :: "(pystr \<rightharpoonup> pystr) \<Rightarrow> FilePublicKeyEntry list \<Rightarrow> bool" where
  "fits_seen seen es \<longleftrightarrow> (\<forall>e \<in> set es. \<forall>k \<in> set (fpk_public_keys e). seen k = None \<or> seen k = Some (fpk_username e))"

lemma check_entries_ok: "(\<exists>seen'. check_entries es seen = Inr seen') \<longleftrightarrow> entries_ok es \<and> fits_seen seen es"
proof (induction es arbitrary: seen)
  case (Cons e es)
  let ?u = "fpk_username e" and ?ks = "fpk_public_keys e"
  let ?seen = "\<lambda>k. if k \<in> set ?ks then Some ?u else seen k"
  have step: "(\<exists>seen'. check_entries (e # es) seen = Inr seen') \<longleftrightarrow>
      validate_username_principal ?u = Inr ?u \<and> ?ks \<noteq> [] \<and> (\<forall>k \<in> set ?ks. seen k = None \<or> seen k = Some ?u) \<and>
      (\<exists>seen'. check_entries es ?seen = Inr seen')"
    using validate_username_principal_Inr [of ?u] by (auto simp: rbind_eq_Inr check_keys_Inr)
  let ?shared = "\<forall>e' \<in> set es. set ?ks \<inter> set (fpk_public_keys e') \<noteq> {} \<longrightarrow> fpk_username e' = ?u"
  have seen: "fits_seen ?seen es \<longleftrightarrow> ?shared \<and> fits_seen seen es" if a: "\<forall>k \<in> set ?ks. seen k = None \<or> seen k = Some ?u"
  proof
    assume h: "fits_seen ?seen es"
    have "?shared"
    proof (intro ballI impI)
      fix e'
      assume "e' \<in> set es" "set ?ks \<inter> set (fpk_public_keys e') \<noteq> {}"
      then obtain k where "k \<in> set ?ks" "k \<in> set (fpk_public_keys e')" by blast
      with h \<open>e' \<in> set es\<close> show "fpk_username e' = ?u" by (force simp: fits_seen_def)
    qed
    moreover have "fits_seen seen es"
      unfolding fits_seen_def
    proof (intro ballI)
      fix e' k
      assume "e' \<in> set es" "k \<in> set (fpk_public_keys e')"
      with h have "?seen k = None \<or> ?seen k = Some (fpk_username e')" by (simp add: fits_seen_def)
      with a show "seen k = None \<or> seen k = Some (fpk_username e')" by (cases "k \<in> set ?ks") auto
    qed
    ultimately show "?shared \<and> fits_seen seen es" ..
  next
    assume h: "?shared \<and> fits_seen seen es"
    then show "fits_seen ?seen es" by (fastforce simp: fits_seen_def)
  qed
  have "(\<forall>b \<in> set es. same_owner b e) \<longleftrightarrow> ?shared" by (simp add: same_owner_def)
  moreover have "same_owner e e" by (simp add: same_owner_def)
  ultimately have "entries_ok (e # es) \<longleftrightarrow> validate_username_principal ?u = Inr ?u \<and> ?ks \<noteq> [] \<and> ?shared \<and> entries_ok es"
    using all_pairs [of same_owner e "set es", OF same_owner_sym]
    unfolding entries_ok_def by simp blast
  moreover have "fits_seen seen (e # es) \<longleftrightarrow> (\<forall>k \<in> set ?ks. seen k = None \<or> seen k = Some ?u) \<and> fits_seen seen es"
    by (simp add: fits_seen_def)
  ultimately show ?case unfolding step Cons.IH using seen by blast
qed (simp_all add: entries_ok_def fits_seen_def)

lemma validate_entries_iff: "validate_file_public_key_entries es = Inr () \<longleftrightarrow> entries_ok es"
  using check_entries_ok [of es Map.empty]
  by (auto simp: validate_file_public_key_entries_def rbind_eq_Inr fits_seen_def)

section \<open>Accepted configurations\<close>

lemma rpartition_colon_iff:
  "rpartition_colon s = Some (h, p) \<longleftrightarrow> s = h @ 58 # p \<and> 58 \<notin> set p"
proof
  assume a: "rpartition_colon s = Some (h, p)"
  then have c: "58 \<in> set (rev s)" by (simp add: rpartition_colon_def split: if_splits)
  then obtain d where d: "dropWhile (\<lambda>c. c \<noteq> 58) (rev s) = 58 # d"
    by (metis (mono_tags, lifting) dropWhile_eq_Nil_conv hd_dropWhile list.collapse)
  have "rev s = takeWhile (\<lambda>c. c \<noteq> 58) (rev s) @ 58 # d"
    using takeWhile_dropWhile_id [of "\<lambda>c. c \<noteq> 58" "rev s"] d by simp
  then have "s = rev d @ 58 # rev (takeWhile (\<lambda>c. c \<noteq> 58) (rev s))" by (metis append.assoc append_Cons append_Nil rev.simps(2) rev_append rev_rev_ident)
  moreover have "h = rev d" "p = rev (takeWhile (\<lambda>c. c \<noteq> 58) (rev s))"
    using a d by (auto simp: rpartition_colon_def split: if_splits)
  ultimately show "s = h @ 58 # p \<and> 58 \<notin> set p" by (auto dest: set_takeWhileD)
next
  assume a: "s = h @ 58 # p \<and> 58 \<notin> set p"
  then have w: "\<forall>c \<in> set (rev p). c \<noteq> 58" by auto
  have "takeWhile (\<lambda>c. c \<noteq> 58) (rev p @ 58 # rev h) = rev p" "dropWhile (\<lambda>c. c \<noteq> 58) (rev p @ 58 # rev h) = 58 # rev h"
    using w takeWhile_append2 [of "rev p" "\<lambda>c. c \<noteq> 58" "58 # rev h"]
      dropWhile_append2 [of "rev p" "\<lambda>c. c \<noteq> 58" "58 # rev h"] by auto
  with a show "rpartition_colon s = Some (h, p)" by (simp add: rpartition_colon_def)
qed

lemma colon_no_digit: "isdigit p \<Longrightarrow> 58 \<notin> set p"
proof -
  have "\<not> isdigit_cp 58"
    by (simp add: isdigit_cp_def decimal_value_def decimal_zeros_def other_digits_def)
  then show "isdigit p \<Longrightarrow> 58 \<notin> set p" by (auto simp: isdigit_def list_all_iff)
qed

lemma metrics_listen_iff:
  "validate_metrics_listen listen = Inr () \<longleftrightarrow>
     (\<exists>b c d p n. b \<le> 255 \<and> c \<le> 255 \<and> d \<le> 255 \<and> listen = dotted [127, b, c, d] @ 58 # p \<and>
        isdigit p \<and> py_int p = Inr n \<and> 1 \<le> n \<and> n \<le> 65535)"
proof -
  have "dotted [127, b, c, d] \<noteq> []" for b c d by (simp add: dotted_def)
  moreover have "validate_metrics_listen listen = Inr () \<longleftrightarrow>
      (\<exists>h p n. listen = h @ 58 # p \<and> h \<noteq> [] \<and> isdigit p \<and> is_ipv4_loopback h \<and> py_int p = Inr n \<and> 1 \<le> n \<and> n \<le> 65535)"
  proof (cases "rpartition_colon listen")
    case None
    then have "58 \<notin> set listen" by (simp add: rpartition_colon_def split: if_splits)
    with None show ?thesis by (auto simp: validate_metrics_listen_def)
  next
    case (Some hp)
    obtain h p where hp: "hp = (h, p)" by (cases hp)
    have l: "listen = h @ 58 # p" "58 \<notin> set p" using Some hp rpartition_colon_iff by auto
    have u: "listen = h' @ 58 # p' \<and> isdigit p' \<longleftrightarrow> h' = h \<and> p' = p \<and> isdigit p" for h' p'
    proof
      assume "listen = h' @ 58 # p' \<and> isdigit p'"
      then have "rpartition_colon listen = Some (h', p')" "isdigit p'"
        unfolding rpartition_colon_iff using colon_no_digit by blast+
      with Some hp show "h' = h \<and> p' = p \<and> isdigit p" by simp
    qed (use l in simp)
    have "(\<exists>h p n. listen = h @ 58 # p \<and> h \<noteq> [] \<and> isdigit p \<and> is_ipv4_loopback h \<and> py_int p = Inr n \<and> 1 \<le> n \<and> n \<le> 65535)
        \<longleftrightarrow> h \<noteq> [] \<and> isdigit p \<and> is_ipv4_loopback h \<and> (\<exists>n. py_int p = Inr n \<and> 1 \<le> n \<and> n \<le> 65535)"
      (is "?l \<longleftrightarrow> ?r")
    proof
      assume ?l
      then obtain h' p' n where "listen = h' @ 58 # p' \<and> isdigit p'" "h' \<noteq> []" "is_ipv4_loopback h'"
        "py_int p' = Inr n" "1 \<le> n" "n \<le> 65535" by blast
      with u [of h' p'] show ?r by simp
    qed (use l(1) in blast)
    moreover have "validate_metrics_listen listen = Inr () \<longleftrightarrow> ?r"
      by (cases "py_int p") (auto simp: validate_metrics_listen_def Some hp require_eq)
    ultimately show ?thesis by simp
  qed
  ultimately show ?thesis unfolding is_ipv4_loopback_iff by blast
qed

definition regular :: "stat_fs \<Rightarrow> pystr \<Rightarrow> bool" where
  "regular fs p \<longleftrightarrow> (\<exists>s. fs p = Some s \<and> st_is_file s)"

definition directory_with :: "stat_fs \<Rightarrow> pystr \<Rightarrow> (stat_result \<Rightarrow> bool) \<Rightarrow> bool" where
  "directory_with fs p q \<longleftrightarrow> (\<exists>s. fs p = Some s \<and> st_is_dir s \<and> q s)"

definition file_with :: "stat_fs \<Rightarrow> pystr \<Rightarrow> (stat_result \<Rightarrow> bool) \<Rightarrow> bool" where
  "file_with fs p q \<longleftrightarrow> (\<exists>s. fs p = Some s \<and> st_is_file s \<and> q s)"

definition owner_only :: "stat_result \<Rightarrow> bool" where
  "owner_only s \<longleftrightarrow> (\<forall>i < 6. \<not> bit (st_mode s) i)"

definition not_shared_writable :: "stat_result \<Rightarrow> bool" where
  "not_shared_writable s \<longleftrightarrow> \<not> bit (st_mode s) 4 \<and> \<not> bit (st_mode s) 1"

lemmas check_defs = require_file_def require_dir_def require_owner_def require_readable_by_uid_def
  reject_group_or_other_accessible_def reject_group_or_other_writable_def reject_other_readable_def path_stat_def

lemma require_file_iff: "require_file fs p l = Inr () \<longleftrightarrow> regular fs p"
  by (auto simp: require_file_def require_eq regular_def split: option.splits)

lemma install_dir_iff:
  "rbind (require_dir fs p l) (\<lambda>_. reject_group_or_other_writable fs p l) = Inr () \<longleftrightarrow>
     directory_with fs p not_shared_writable"
  by (auto simp: check_defs require_eq rbind_eq_Inr directory_with_def mode_not_writable not_shared_writable_def
      split: option.splits)

lemma require_dir_iff: "require_dir fs p l = Inr () \<longleftrightarrow> directory_with fs p (\<lambda>_. True)"
  by (auto simp: require_dir_def require_eq directory_with_def split: option.splits)

lemma secret_iff:
  "rbind (require_file fs p l) (\<lambda>_. reject_group_or_other_accessible fs p l) = Inr () \<longleftrightarrow> file_with fs p owner_only"
  by (auto simp: check_defs require_eq rbind_eq_Inr file_with_def mode_no_access owner_only_def split: option.splits)

lemma key_file_iff:
  "rbind (require_file fs p l) (\<lambda>_. rbind (reject_group_or_other_writable fs p l) (\<lambda>_. k)) = Inr () \<longleftrightarrow>
     file_with fs p not_shared_writable \<and> k = Inr ()"
  by (auto simp: check_defs require_eq rbind_eq_Inr file_with_def mode_not_writable not_shared_writable_def
      split: option.splits)

lemma rmap_unit: "(\<exists>us. rmap f ps = Inr us) \<longleftrightarrow> (\<forall>p \<in> set ps. f p = Inr ())"
  by (induction ps) (auto simp: rbind_eq_Inr)

definition auth_config_ok :: "stat_fs \<Rightarrow> AuthConfig \<Rightarrow> bool" where
  "auth_config_ok fs a \<longleftrightarrow>
     (ldap_enabled (auth_ldap a) \<longrightarrow> ldap_use_tls (auth_ldap a) \<and> ldap_validate_tls (auth_ldap a)) \<and>
     auth_keyboard_interactive_verifier a \<noteq> Some (str ''azure_ad'') \<and>
     (pk_source (auth_public_keys a) = str ''file'' \<longrightarrow> (\<exists>p. pk_file_path (auth_public_keys a) = Some p \<and>
        file_with fs p not_shared_writable \<and> entries_ok (pk_file_entries (auth_public_keys a))))"

lemma validate_auth_iff: "validate_auth_config fs a = Inr () \<longleftrightarrow> auth_config_ok fs a"
  by (auto simp: validate_auth_config_def auth_config_ok_def Let_def key_file_iff validate_entries_iff
      split: option.splits)

definition server_files_ok :: "stat_fs \<Rightarrow> ServerConfig \<Rightarrow> bool" where
  "server_files_ok fs c \<longleftrightarrow> regular fs (cert_agent_ca_key_path (cfg_certs c)) \<and>
     regular fs (cert_agent_ca_cert_path (cfg_certs c)) \<and> regular fs (cert_user_ca_key_path (cfg_certs c)) \<and>
     regular fs (cert_user_ca_public_key_path (cfg_certs c)) \<and> regular fs (tun_tls_ca_bundle (cfg_tunnel c)) \<and>
     directory_with fs (replay_directory (cfg_replay c)) (\<lambda>_. True) \<and>
     regular fs (replay_integrity_key_path (cfg_replay c)) \<and>
     (\<forall>p \<in> set (cfg_install_dirs c). directory_with fs p not_shared_writable) \<and>
     (\<forall>p \<in> set (cfg_secret_paths c). file_with fs p owner_only)"

text \<open>C27: Exactly which server configurations are accepted.  Validation succeeds if and only if every
  named file and directory is there, no install directory has a group or other write bit, no secret
  file has any group or other permission bit, the certificate lifetime and the tunnel limits are in
  their bounds, LDAP is used with verified TLS or not at all, Azure AD does not verify passwords, a key
  file is there, not writable by others and gives every key to one user, and the metrics address is
  an address of 127.0.0.0/8 in dotted decimal with a port from 1 to 65535.\<close>

theorem server_config_accepted_exactly:
  "validate_server_config fs c = Inr () \<longleftrightarrow> server_files_ok fs c \<and>
     1 \<le> cert_user_cert_ttl_hours (cfg_certs c) \<and> cert_user_cert_ttl_hours (cfg_certs c) \<le> 12 \<and>
     1 \<le> tun_max_sessions_per_agent (cfg_tunnel c) \<and> tun_max_sessions_per_agent (cfg_tunnel c) \<le> 1024 \<and>
     5 \<le> tun_heartbeat_seconds (cfg_tunnel c) \<and> tun_heartbeat_seconds (cfg_tunnel c) \<le> 300 \<and>
     65536 \<le> tun_frame_max_bytes (cfg_tunnel c) \<and> tun_frame_max_bytes (cfg_tunnel c) \<le> 16777216 \<and>
     1 \<le> tun_node_ssh_port (cfg_tunnel c) \<and> tun_node_ssh_port (cfg_tunnel c) \<le> 65535 \<and>
     auth_config_ok fs (cfg_auth c) \<and>
     (\<exists>b1 b2 b3 p n. b1 \<le> 255 \<and> b2 \<le> 255 \<and> b3 \<le> 255 \<and>
        cfg_metrics_listen c = dotted [127, b1, b2, b3] @ 58 # p \<and> isdigit p \<and> py_int p = Inr n \<and>
        1 \<le> n \<and> n \<le> 65535)"
proof -
  have bounds: "validate_tunnel_bounds t = Inr () \<longleftrightarrow>
     1 \<le> tun_max_sessions_per_agent t \<and> tun_max_sessions_per_agent t \<le> 1024 \<and>
     5 \<le> tun_heartbeat_seconds t \<and> tun_heartbeat_seconds t \<le> 300 \<and>
     65536 \<le> tun_frame_max_bytes t \<and> tun_frame_max_bytes t \<le> 16777216 \<and>
     1 \<le> tun_node_ssh_port t \<and> tun_node_ssh_port t \<le> 65535" for t
    by (auto simp: validate_tunnel_bounds_def rbind_eq_Inr require_eq)
  have unit: "rbind m (\<lambda>_. k) = Inr () \<longleftrightarrow> (\<exists>x. m = Inr x) \<and> k = Inr ()" for m :: "'a result" and k
    by (auto simp: rbind_eq_Inr)
  have single: "(\<exists>x :: unit. m = Inr x) \<longleftrightarrow> m = Inr ()" for m :: "unit result" by auto
  have inst: "(\<exists>us. rmap (\<lambda>path. rbind (require_dir fs path l) (\<lambda>_.
      reject_group_or_other_writable fs path l)) ps = Inr us) \<longleftrightarrow>
      (\<forall>p \<in> set ps. directory_with fs p not_shared_writable)" for ps l
    by (simp only: rmap_unit install_dir_iff)
  have secr: "(\<exists>us. rmap (\<lambda>path. rbind (require_file fs path l) (\<lambda>_.
      reject_group_or_other_accessible fs path l)) ps = Inr us) \<longleftrightarrow>
      (\<forall>p \<in> set ps. file_with fs p owner_only)" for ps l
    by (simp only: rmap_unit secret_iff)
  show ?thesis
    unfolding validate_server_config_def Let_def server_files_ok_def metrics_listen_iff [symmetric]
      validate_auth_iff [symmetric]
    by (simp only: unit single inst secr bounds require_file_iff require_dir_iff require_eq conj_assoc
        simp_thms)
qed

text \<open>What the agent's configuration must be.\<close>

definition agent_files_ok :: "stat_fs \<Rightarrow> int \<Rightarrow> int set \<Rightarrow> AgentConfig \<Rightarrow> bool" where
  "agent_files_ok fs uid owners c \<longleftrightarrow>
     file_with fs (acfg_config_path c) (\<lambda>s. st_uid s \<in> owners \<and> \<not> bit (st_mode s) 2 \<and>
       st_uid s = uid \<and> bit (st_mode s) 8) \<and>
     directory_with fs (path_parent (acfg_identity_path c)) (\<lambda>s. st_uid s = uid \<and> owner_only s) \<and>
     regular fs (acfg_enrollment_tls_ca_bundle c) \<and> regular fs (acfg_tunnel_tls_ca_bundle c)"

text \<open>Exactly which agent configurations are accepted.  Validation succeeds if and only if
  \<open>agent.conf\<close> belongs to the running user, who must be an allowed owner, is readable by its owner and
  not by other users, the directory of the identity file belongs to the running user and has no group
  or other permission bit, the CA bundles are there, the proxy target is an address of 127.0.0.0/8 with
  a valid port, the three numbers are in their bounds, and no enrollment token is left after
  enrollment.\<close>

theorem agent_config_accepted_exactly:
  "validate_agent_config fs getuid c runtime_uid owners = Inr () \<longleftrightarrow>
     agent_files_ok fs (case runtime_uid of None \<Rightarrow> getuid | Some u \<Rightarrow> u)
       (case owners of None \<Rightarrow> {case runtime_uid of None \<Rightarrow> getuid | Some u \<Rightarrow> u} | Some us \<Rightarrow> us) c \<and>
     (\<exists>b1 b2 b3. b1 \<le> 255 \<and> b2 \<le> 255 \<and> b3 \<le> 255 \<and> acfg_proxy_target_host c = dotted [127, b1, b2, b3]) \<and>
     1 \<le> acfg_proxy_target_port c \<and> acfg_proxy_target_port c \<le> 65535 \<and>
     5 \<le> acfg_heartbeat_seconds c \<and> acfg_heartbeat_seconds c \<le> 300 \<and>
     30 \<le> acfg_reconnect_backoff_max_seconds c \<and> acfg_reconnect_backoff_max_seconds c \<le> 1800 \<and>
     0 \<le> acfg_max_reconnect_attempts c \<and>
     \<not> (acfg_enrollment_completed c \<and> acfg_enrollment_token c \<notin> {None, Some []})"
proof -
  define uid where "uid = (case runtime_uid of None \<Rightarrow> getuid | Some u \<Rightarrow> u)"
  define os where "os = (case owners of None \<Rightarrow> {uid} | Some us \<Rightarrow> us)"
  have unit: "rbind m (\<lambda>_. k) = Inr () \<longleftrightarrow> m = Inr () \<and> k = Inr ()" for m k :: "unit result"
    by (auto simp: rbind_eq_Inr)
  have conf: "require_file fs p l = Inr () \<and> require_owner fs p os l = Inr () \<and> reject_other_readable fs p l = Inr () \<and>
      require_readable_by_uid fs p uid l = Inr () \<longleftrightarrow>
      file_with fs p (\<lambda>s. st_uid s \<in> os \<and> \<not> bit (st_mode s) 2 \<and> st_uid s = uid \<and> bit (st_mode s) 8)" for p l
  proof (cases "fs p")
    case None
    then show ?thesis by (simp add: check_defs file_with_def require_def)
  next
    case (Some s)
    then show ?thesis
      using mode_read_bits [of "st_mode s"] by (auto simp: check_defs file_with_def require_eq Let_def)
  qed
  have ident: "require_dir fs p l = Inr () \<and> require_owner fs p {uid} l = Inr () \<and>
      reject_group_or_other_accessible fs p l = Inr () \<longleftrightarrow>
      directory_with fs p (\<lambda>s. st_uid s = uid \<and> owner_only s)" for p l
    by (auto simp: check_defs require_eq rbind_eq_Inr directory_with_def mode_no_access owner_only_def
        split: option.splits)
  show ?thesis
    unfolding validate_agent_config_def Let_def uid_def [symmetric] os_def [symmetric] agent_files_ok_def
      conf [symmetric, of _ "''agent.conf''"] ident [symmetric, of _ "''identity directory''"]
      is_ipv4_loopback_iff [symmetric]
    by (simp only: unit require_file_iff require_eq conj_assoc de_Morgan_conj imp_conv_disj not_not)
qed

section \<open>Defaults\<close>

lemma decimal_value_ascii: "is_ascii_digit c \<Longrightarrow> decimal_value c = Some (c - 48)"
  by (simp add: is_ascii_digit_def decimal_value_def decimal_zeros_def)

lemma int_digits_ascii:
  "list_all is_ascii_digit s \<Longrightarrow> int_digits acc s = Some (foldl (\<lambda>n c. 10 * n + (c - 48)) acc s)"
proof (induction s arbitrary: acc)
  case (Cons c s)
  then have "c \<noteq> 95" by (auto simp: is_ascii_digit_def)
  with Cons show ?case by (simp add: decimal_value_ascii)
qed simp

lemma py_int_digits: "length (digits_of n) \<le> 4300 \<Longrightarrow> py_int (digits_of n) = Inr (int n)"
proof -
  assume len: "length (digits_of n) \<le> 4300"
  have all: "\<forall>c \<in> set (digits_of n). 48 \<le> c \<and> c \<le> 57"
    using digits_of_all [of n] by (simp add: list_all_iff is_ascii_digit_def)
  then have sp: "strip (digits_of n) = digits_of n" by (intro no_space_strip) (fastforce simp: isspace_def)
  have hd: "48 \<le> hd (digits_of n)" "hd (digits_of n) \<le> 57" using all by simp_all
  have "filter (\<lambda>c. c \<noteq> 95) (digits_of n) = digits_of n" using all by (intro filter_True) auto
  then show ?thesis
    using int_digits_ascii [OF digits_of_all, of 0 n] digits_value_of [of n] len hd
    by (simp add: py_int_def Let_def sp digits_value_def)
qed

lemma cfg_int_default:
  assumes "map_of m (str key) = None" "0 \<le> d" "length (digits_of (nat d)) \<le> 4300"
  shows "cfg_int text_of m key d = Inr d"
  using py_int_digits [OF assms(3)] assms(1,2)
  by (simp add: cfg_int_def yaml_str_def show_int_def)

text \<open>A configuration with only the required entries gets the documented defaults.\<close>

definition minimal_yaml :: "pystr \<Rightarrow> pystr \<Rightarrow> pyval" where
  "minimal_yaml p keys = PDict [
     (str ''certs'', PDict [(str ''agent_ca_key_path'', PStr p), (str ''agent_ca_cert_path'', PStr p),
        (str ''user_ca_key_path'', PStr p), (str ''user_ca_public_key_path'', PStr p)]),
     (str ''tunnel'', PDict [(str ''tls_ca_bundle'', PStr p)]),
     (str ''auth'', PDict [(str ''public_keys'', PDict [(str ''file_path'', PStr keys)])]),
     (str ''replay'', PDict [(str ''directory'', PStr p), (str ''integrity_key_path'', PStr p)]),
     (str ''metrics'', PDict [])]"

lemma small_digits: "n < 10000000 \<Longrightarrow> length (digits_of n) \<le> 4300"
  by (simp add: digits_of.simps)

theorem config_defaults:
  assumes "p \<noteq> []" "keys \<noteq> []"
  shows "load_server_config Inr text_of (\<lambda>_. Some (minimal_yaml p keys)) (Inr content) = Inr
    \<lparr>cfg_certs = \<lparr>cert_agent_ca_key_path = p, cert_agent_ca_cert_path = p, cert_user_ca_key_path = p,
       cert_user_ca_public_key_path = p, cert_agent_cert_lifetime_days = 30, cert_user_cert_ttl_hours = 4\<rparr>,
     cfg_tunnel = \<lparr>tun_max_sessions_per_agent = 64, tun_heartbeat_seconds = 30, tun_frame_max_bytes = 1048576,
       tun_tls_ca_bundle = p, tun_node_ssh_port = 2222\<rparr>,
     cfg_auth = \<lparr>auth_public_keys = \<lparr>pk_source = str ''file'', pk_file_path = Some keys, pk_file_entries = []\<rparr>,
       auth_ldap = \<lparr>ldap_enabled = False, ldap_use_tls = False, ldap_validate_tls = False\<rparr>,
       auth_azure_ad = \<lparr>azure_enabled = False, azure_client_secret_path = None, azure_use_managed_identity = False\<rparr>,
       auth_keyboard_interactive_verifier = None\<rparr>,
     cfg_replay = \<lparr>replay_directory = p, replay_retention_days = 90, replay_integrity_key_path = p\<rparr>,
     cfg_metrics_listen = str ''127.0.0.1:9100'', cfg_install_dirs = [], cfg_secret_paths = []\<rparr>"
  using assms
  by (simp add: load_server_config_def load_simple_yaml_def minimal_yaml_def cfg_mapping_def load_certs_def
      load_tunnel_def load_auth_def load_replay_def cfg_path_def cfg_paths_def cfg_optional_path_def cfg_bool_def
      cfg_text_def truthy_def yaml_str_def cfg_int_default small_digits)

end
