(* ===== verification/Ssh.thy ===== *)
theory Ssh
  imports Jump
begin

text \<open>
  \<open>server/ssh.py\<close>: the SSH boundary of the user.  The first part is the authentication and the
  request handler; the second is \<open>RestrictedShellSession\<close>, whose methods run as asyncio tasks.  A task
  runs until it waits, so its program is cut at the awaits that suspend: each piece is one step, and
  \<open>ssh_step\<close> lets the tasks, their callbacks and the callbacks of AsyncSSH interleave.  The node side
  (\<open>process.stdin\<close>, \<open>connection.close\<close>) is the log of the calls made with an arbitrary answer to
  each.
\<close>

section \<open>The listener\<close>

definition start_asyncssh_server ::
  "(pystr \<Rightarrow> int \<Rightarrow> pystr list \<Rightarrow> 'l result) \<Rightarrow> pystr \<Rightarrow> int \<Rightarrow> pystr list \<Rightarrow> 'l result" where
  "start_asyncssh_server listen host port server_host_keys =
     rbind (require (server_host_keys \<noteq> []) (SshServerError ''server host key is required'')) (\<lambda>_.
     rbind (require (1 \<le> port \<and> port \<le> 65535)
       (SshServerError ''SSH listen port is outside valid TCP port bounds'')) (\<lambda>_.
     listen host port server_host_keys))"

section \<open>VibeConnectSshServer\<close>

text \<open>The identity of the connection, and whether a session factory was given.\<close>

record VibeConnectSshServer =
  sv_identity :: "ResolvedIdentity option"
  sv_session_factory :: bool

definition begin_auth :: "pystr \<Rightarrow> bool" where "begin_auth username = True"
definition public_key_auth_supported :: bool where "public_key_auth_supported = True"
definition password_auth_supported :: bool where "password_auth_supported = False"
definition kbdint_auth_supported :: bool where "kbdint_auth_supported = False"

definition decode_ascii :: "bytes \<Rightarrow> pystr option" where
  "decode_ascii b = (if list_all (\<lambda>x. unat x < 128) b then Some (map unat b) else None)"

text \<open>\<open>exported\<close> is \<open>key.export_public_key()\<close>; \<open>resolve_public_key\<close> is the identity resolver.\<close>

definition validate_public_key ::
  "(pystr \<Rightarrow> pystr \<Rightarrow> ResolvedIdentity result) \<Rightarrow> pystr \<Rightarrow> bytes \<Rightarrow> (VibeConnectSshServer, bool) op" where
  "validate_public_key resolve_public_key username exported sv =
     (case decode_ascii exported of
        None \<Rightarrow> (Inr False, sv\<lparr>sv_identity := None\<rparr>)
      | Some text \<Rightarrow>
          (case resolve_public_key username (strip text) of
             Inr identity \<Rightarrow> (Inr True, sv\<lparr>sv_identity := Some identity\<rparr>)
           | Inl e \<Rightarrow> if is_auth_error e then (Inr False, sv\<lparr>sv_identity := None\<rparr>) else (Inl e, sv)))"

text \<open>Whether a session is created for the channel.\<close>

definition session_requested :: "VibeConnectSshServer \<Rightarrow> bool" where
  "session_requested sv \<longleftrightarrow> sv_session_factory sv"

section \<open>RestrictedShellJumpHandler\<close>

text \<open>The node authorizer and the host-key lookup read the database.\<close>

record jump_handler =
  jh_visible_nodes :: "ResolvedIdentity \<Rightarrow> (database, NodeInventoryEntry list) op"
  jh_presented_host_key :: "pystr \<Rightarrow> (database, pystr option) op"
  jh_coordinator :: jump_deps

definition single_requested_node :: "pystr \<Rightarrow> NodeInventoryEntry list \<Rightarrow> pystr result" where
  "single_requested_node command visible_nodes =
     (let requested = strip command in
      if requested \<in> set (map ni_node_name visible_nodes) then Inr requested
      else Inl (AuthError ''restricted shell accepts only an exact node name''))"

text \<open>
  \<open>f\<close> holds what the jump draws, \<open>now\<close> is the reading of the clock.  The database calls in it are one step:
  no other task of this session reads or writes what they use, and a cancellation inside is not modelled.
\<close>

definition start_exec ::
  "jump_handler \<Rightarrow> VibeConnectSshServer \<Rightarrow> jump_fresh \<Rightarrow> datetime \<Rightarrow> pystr \<Rightarrow> int \<Rightarrow> int \<Rightarrow>
   ('c jump_world, StartedJump) op" where
  "start_exec h sv f now command width height = (case sv_identity sv of
     None \<Rightarrow> sraise (SshServerError ''SSH connection is not authenticated'')
   | Some identity \<Rightarrow>
       stry (sbind (slift (validate_ssh_request_policy (id_username identity) (Some command) None False False False)) (\<lambda>_.
             sbind (jump_db (jh_visible_nodes h identity)) (\<lambda>visible_nodes.
             sbind (slift (single_requested_node command visible_nodes)) (\<lambda>node_name.
             sbind (jump_db (jh_presented_host_key h node_name)) (\<lambda>presented_host_key.
             start_jump (jh_coordinator h) f identity command visible_nodes presented_host_key width height now)))))
         (\<lambda>e. is_auth_error e \<or> is_jump_error e)
         (\<lambda>e. sraise (SshServerError ''restricted SSH request denied'')))"

definition subsystem_requested :: "pystr \<Rightarrow> bool result" where
  "subsystem_requested subsystem = Inl (SshServerError ''subsystem denied'')"

definition direct_tcpip_requested :: "bool result" where
  "direct_tcpip_requested = Inl (SshServerError ''direct TCP forwarding denied'')"

definition auth_agent_requested :: "bool result" where
  "auth_agent_requested = Inl (SshServerError ''agent forwarding denied'')"

definition x11_requested :: "bool result" where
  "x11_requested = Inl (SshServerError ''X11 forwarding denied'')"

section \<open>The node side\<close>

datatype node_call =
    CreateProcess pystr "int \<times> int \<times> int \<times> int"
  | StdinWrite bytes
  | StdinEof
  | ChangeTerminalSize int int
  | ConnectionClose
  | ConnectionWaitClosed

record node_side =
  nd_calls :: "node_call list"
  nd_answer :: "node_call list \<Rightarrow> node_call \<Rightarrow> unit result"
  nd_can_resize :: bool

definition node_do :: "node_call \<Rightarrow> (node_side, unit) op" where
  "node_do c nd = (nd_answer nd (nd_calls nd) c, nd\<lparr>nd_calls := nd_calls nd @ [c]\<rparr>)"

text \<open>\<open>_NodeProcessPtyChannel\<close>: the channel id is not used.\<close>

definition node_send_data :: "channel_id \<Rightarrow> bytes \<Rightarrow> (node_side, unit) op" where
  "node_send_data channel_id payload = node_do (StdinWrite payload)"

definition node_resize_pty :: "channel_id \<Rightarrow> int \<Rightarrow> int \<Rightarrow> (node_side, unit) op" where
  "node_resize_pty channel_id width height nd =
     (if nd_can_resize nd then node_do (ChangeTerminalSize width height) nd else (Inr (), nd))"

definition node_close_session :: "channel_id \<Rightarrow> (node_side, unit) op" where
  "node_close_session channel_id =
     sbind (node_do ConnectionClose) (\<lambda>_. node_do ConnectionWaitClosed)"

definition node_process_channel :: "node_side pty_channel" where
  "node_process_channel = \<lparr>pc_send_data = node_send_data, pc_resize_pty = node_resize_pty,
     pc_close_session = node_close_session\<rparr>"

section \<open>RestrictedShellSession\<close>

text \<open>
  \<open>JumpPtyBridge.close\<close> in two pieces: up to the database call, where it first waits, and the rest.
  A close that has begun keeps what the rest needs.  The rest is one step, which begins when the database
  has answered; a close that is cancelled before then is not modelled beyond that point, since the
  database may have committed the row by then.
\<close>

datatype closing =
    BridgeClosing "ReplayCloseResult option" AuditEventType pyval SessionStatus datetime
  | StartClosing pystr datetime

definition bridge_close_begin ::
  "SessionStatus \<Rightarrow> datetime \<Rightarrow> pystr option \<Rightarrow> ('c bridge_world, closing option) op" where
  "bridge_close_begin status now err s =
     (let b = bw_bridge s in
      if br_closed b then (Inr None, s)
      else sbind (smodify (\<lambda>s. s\<lparr>bw_bridge := (bw_bridge s)\<lparr>br_closed := True\<rparr>\<rparr>)) (\<lambda>_.
        bridge_do (
          sbind (end_recording (br_jump b) (br_replay_dir b) status now err) (\<lambda>(replay_result, event_type, metadata).
          sret (Some (BridgeClosing replay_result event_type metadata status now))))) s)"

definition bridge_close_end :: "uuid \<Rightarrow> datetime \<Rightarrow> closing \<Rightarrow> ('c bridge_world, unit) op" where
  "bridge_close_end audit_id clock c s = (case c of
     StartClosing err now \<Rightarrow> (Inr (), s)
   | BridgeClosing replay_result event_type metadata status now \<Rightarrow>
     (let b = bw_bridge s; j = br_jump b in
      bridge_do (
        sbind (if \<not> br_session_state_store b then sret ()
               else jump_db (pg_close_session (js_session_id (sj_session j)) status now
                 (case replay_result of Some r \<Rightarrow> br_replay_dir b @ rc_path r
                                      | None \<Rightarrow> js_replay_path (sj_session j))
                 (map_option rc_hmac_hex replay_result))) (\<lambda>_.
        sbind (jump_channel (pc_close_session (br_channel b) (sj_channel_id j))) (\<lambda>_.
        if \<not> br_audit_sink b then sret ()
        else sbind (jump_db (audit_write audit_id clock
          \<lparr>aq_event_type = event_type, aq_actor = iuc_username (sj_user_certificate j),
           aq_metadata = metadata, aq_agent_id = Some (jt_agent_id (sj_target j)),
           aq_session_id = Some (js_session_id (sj_session j)),
           aq_node_name = Some (jt_node_name (sj_target j)), aq_now = Some now\<rparr>)) (\<lambda>_. sret ())))) s))"

lemma bridge_close_pieces:
  "bridge_close audit_id clock status now err =
     sbind (bridge_close_begin status now err) (\<lambda>c. case c of
       None \<Rightarrow> sret () | Some c \<Rightarrow> bridge_close_end audit_id clock c)"
proof
  fix s :: "'c bridge_world"
  show "bridge_close audit_id clock status now err s =
    sbind (bridge_close_begin status now err) (\<lambda>c. case c of
       None \<Rightarrow> sret () | Some c \<Rightarrow> bridge_close_end audit_id clock c) s"
  proof (cases "br_closed (bw_bridge s)")
    case True
    then show ?thesis by (simp add: bridge_close_def bridge_close_begin_def Let_def sbind_def)
  next
    case False
    obtain r w where e: "end_recording (br_jump (bw_bridge s)) (br_replay_dir (bw_bridge s)) status now err
        (bw_world s) = (r, w)"
      by fastforce
    show ?thesis
      by (cases r) (simp_all add: False e bridge_close_def bridge_close_begin_def bridge_close_end_def Let_def
          sbind_Inr sbind_Inl bridge_do_def sbind_def [of "smodify _"] sbind_def [of "bridge_do _"]
          split_beta cong: option.case_cong)
  qed
qed

text \<open>
  The tasks, each at the point where it runs next.  \<open>StartExec\<close> to \<open>ProcessCreated\<close> are the pieces of
  \<open>_start_exec\<close>; a \<open>Closing\<close> waits for the database inside a close and knows what follows it.
\<close>

datatype reader = Stdout | Stderr

datatype after = ThenExit int | ThenReturn | OfFailure

datatype task =
    StartExec pystr
  | JumpStarted "StartedJump result"
  | ProcessCreated "unit result"
  | SendInput pystr bytes
  | ResizePty int int
  | PumpOutput reader
  | GotChunk reader "bytes result"
  | WaitForProcess
  | ProcessClosed
  | CloseLost "(pystr \<times> pystr) option" datetime
  | FailJump pystr
  | Closing closing after

text \<open>What a suspended task waits for; \<open>Done\<close> is the callback of a task that raised.\<close>

datatype waiting =
    OnJump "StartedJump result"
  | OnProcess "unit result"
  | OnRead reader
  | OnExit
  | OnClose closing after

datatype handle = Run task | Done exc

datatype channel_call = ChannelWrite bytes | ChannelExit int | ChannelClose

record ssh_session =
  ss_channel :: bool
  ss_started :: "StartedJump option"
  ss_process :: bool
  ss_bridge :: "node_side JumpPtyBridge option"
  ss_term_type :: pystr
  ss_term_size :: "int \<times> int \<times> int \<times> int"
  ss_task_failed :: bool
  ss_pending_input :: "bytes list"
  ss_pending_eof :: bool
  ss_ready :: "handle list"
  ss_waiting :: "waiting list"
  ss_user :: "channel_call list"
  ss_world :: "node_side jump_world"

text \<open>
  What \<open>RestrictedShellSession.__init__\<close> is given, the directory text of replay paths, the spelling of
  a float of microseconds and the answers of \<open>channel.write\<close>.
\<close>

record ssh_config =
  sc_start_exec :: "jump_fresh \<Rightarrow> datetime \<Rightarrow> pystr \<Rightarrow> int \<Rightarrow> int \<Rightarrow> (node_side jump_world, StartedJump) op"
  sc_audit_sink :: bool
  sc_session_state_store :: bool
  sc_replay_dir :: pystr
  sc_seconds_text :: "int \<Rightarrow> pystr"
  sc_channel_write :: "channel_call list \<Rightarrow> bytes \<Rightarrow> unit result"

text \<open>A new session after \<open>connection_made\<close>; \<open>is_channel\<close> is what \<open>_is_channel\<close> says of the channel.\<close>

definition new_ssh_session :: "bool \<Rightarrow> node_side jump_world \<Rightarrow> ssh_session" where
  "new_ssh_session is_channel w =
     \<lparr>ss_channel = is_channel, ss_started = None, ss_process = False, ss_bridge = None,
      ss_term_type = str ''xterm'', ss_term_size = (80, 24, 0, 0), ss_task_failed = False,
      ss_pending_input = [], ss_pending_eof = False, ss_ready = [], ss_waiting = [], ss_user = [],
      ss_world = w\<rparr>"

definition create_pump :: "task \<Rightarrow> ssh_session \<Rightarrow> ssh_session" where
  "create_pump t s = s\<lparr>ss_ready := ss_ready s @ [Run t]\<rparr>"

text \<open>\<open>_exit\<close>.\<close>

definition ssh_exit :: "int \<Rightarrow> ssh_session \<Rightarrow> ssh_session" where
  "ssh_exit status s =
     (if ss_channel s then s\<lparr>ss_user := ss_user s @ [ChannelExit status, ChannelClose]\<rparr> else s)"

definition elapsed_seconds :: "ssh_config \<Rightarrow> datetime \<Rightarrow> ssh_session \<Rightarrow> pystr" where
  "elapsed_seconds cfg now s = sc_seconds_text cfg (case ss_started s of
     None \<Rightarrow> 0
   | Some j \<Rightarrow> max 0 (instant now - instant (js_started_at (sj_session j))))"

definition on_world :: "(node_side jump_world, 'a) op \<Rightarrow> (ssh_session, 'a) op" where
  "on_world m s = (case m (ss_world s) of (r, w) \<Rightarrow> (r, s\<lparr>ss_world := w\<rparr>))"

definition on_node :: "(node_side, 'a) op \<Rightarrow> (ssh_session, 'a) op" where
  "on_node m = on_world (jump_channel m)"

text \<open>A method of the bridge, called only when there is one.\<close>

definition on_bridge :: "(node_side bridge_world, 'a) op \<Rightarrow> (ssh_session, 'a) op" where
  "on_bridge m s =
     (case m \<lparr>bw_bridge = the (ss_bridge s), bw_world = ss_world s\<rparr> of
        (r, v) \<Rightarrow> (r, s\<lparr>ss_bridge := Some (bw_bridge v), ss_world := bw_world v\<rparr>))"

subsection \<open>Failing a started jump\<close>

definition fail_started_jump_begin :: "pystr \<Rightarrow> datetime \<Rightarrow> (ssh_session, closing option) op" where
  "fail_started_jump_begin err now s = (case ss_started s of
     None \<Rightarrow> (Inr None, s)
   | Some j \<Rightarrow>
       if ss_bridge s \<noteq> None then on_bridge (bridge_close_begin FAILED now (Some err)) s
       else sbind (on_world (jump_replay (sj_replay j) (replay_fail err))) (\<lambda>_.
            sret (Some (StartClosing err now))) s)"

text \<open>The rest of a close: of the bridge, or of a jump that has no bridge yet.\<close>

definition start_closing_end ::
  "ssh_config \<Rightarrow> uuid \<Rightarrow> datetime \<Rightarrow> StartedJump \<Rightarrow> pystr \<Rightarrow> datetime \<Rightarrow> (node_side jump_world, unit) op" where
  "start_closing_end cfg audit_id clock j err now =
     sbind (if \<not> sc_session_state_store cfg then sret ()
            else jump_db (pg_close_session (js_session_id (sj_session j)) FAILED now
                   (js_replay_path (sj_session j)) None)) (\<lambda>_.
     if \<not> sc_audit_sink cfg then sret ()
     else sbind (jump_db (audit_write audit_id clock
       \<lparr>aq_event_type = SESSION_FAILED, aq_actor = iuc_username (sj_user_certificate j),
        aq_metadata = PDict [(str ''status'', PStr (SessionStatus_value FAILED)), (str ''error'', PStr err)],
        aq_agent_id = Some (jt_agent_id (sj_target j)),
        aq_session_id = Some (js_session_id (sj_session j)),
        aq_node_name = Some (jt_node_name (sj_target j)), aq_now = Some now\<rparr>)) (\<lambda>_. sret ()))"

definition closing_end :: "ssh_config \<Rightarrow> uuid \<Rightarrow> datetime \<Rightarrow> closing \<Rightarrow> (ssh_session, unit) op" where
  "closing_end cfg audit_id clock c s = (case c of
     BridgeClosing _ _ _ _ _ \<Rightarrow> on_bridge (bridge_close_end audit_id clock c) s
   | StartClosing err now \<Rightarrow>
       (case ss_started s of None \<Rightarrow> (Inr (), s)
        | Some j \<Rightarrow> on_world (start_closing_end cfg audit_id clock j err now) s))"

definition then_after :: "after \<Rightarrow> ssh_session \<Rightarrow> ssh_session" where
  "then_after a s = (case a of ThenExit status \<Rightarrow> ssh_exit status s | _ \<Rightarrow> s)"

text \<open>Wait in a close that has begun, or go on at once.\<close>

definition await_close :: "after \<Rightarrow> closing option \<Rightarrow> (ssh_session, waiting option) op" where
  "await_close a c s = (case c of
     None \<Rightarrow> (Inr None, then_after a s) | Some c \<Rightarrow> (Inr (Some (OnClose c a)), s))"

subsection \<open>The tasks\<close>

definition is_ssh_server_error :: "exc \<Rightarrow> bool" where
  "is_ssh_server_error e = (case e of SshServerError _ \<Rightarrow> True | _ \<Rightarrow> False)"

text \<open>The handlers of \<open>_start_exec\<close>.\<close>

definition start_failed :: "datetime \<Rightarrow> exc \<Rightarrow> (ssh_session, waiting option) op" where
  "start_failed now e =
     (if is_ssh_server_error e then await_close (ThenExit 1) None
      else if is_os_error e \<or> is_asyncssh_error e
      then sbind (fail_started_jump_begin (str ''node process start failed'') now) (await_close (ThenExit 1))
      else sraise e)"

fun send_pending :: "pystr \<Rightarrow> bytes list \<Rightarrow> (ssh_session, unit) op" where
  "send_pending secs [] = sret ()"
| "send_pending secs (payload # ps) =
     sbind (on_bridge (send_user_input secs payload)) (\<lambda>_. send_pending secs ps)"

definition flush_pending_input :: "ssh_config \<Rightarrow> datetime \<Rightarrow> (ssh_session, unit) op" where
  "flush_pending_input cfg now s =
     sbind (send_pending (elapsed_seconds cfg now s) (ss_pending_input s)) (\<lambda>_.
     sbind (smodify (\<lambda>s. s\<lparr>ss_pending_input := []\<rparr>)) (\<lambda>_ s.
       if ss_pending_eof s \<and> ss_process s
       then sbind (on_node (node_do StdinEof)) (\<lambda>_. smodify (\<lambda>s. s\<lparr>ss_pending_eof := False\<rparr>)) s
       else (Inr (), s))) s"

definition new_bridge :: "ssh_config \<Rightarrow> StartedJump \<Rightarrow> node_side JumpPtyBridge" where
  "new_bridge cfg j = \<lparr>br_jump = j, br_channel = node_process_channel, br_audit_sink = sc_audit_sink cfg,
     br_session_state_store = sc_session_state_store cfg, br_replay_dir = sc_replay_dir cfg,
     br_closed = False\<rparr>"

text \<open>From the end of \<open>create_process\<close> to the end of \<open>_start_exec\<close>: nothing in it waits.\<close>

definition process_created :: "ssh_config \<Rightarrow> datetime \<Rightarrow> (ssh_session, waiting option) op" where
  "process_created cfg now =
     stry (sbind (smodify (\<lambda>s. s\<lparr>ss_process := True, ss_bridge := map_option (new_bridge cfg) (ss_started s)\<rparr>)) (\<lambda>_.
           sbind (flush_pending_input cfg now) (\<lambda>_.
           sbind (smodify (create_pump (PumpOutput Stdout))) (\<lambda>_.
           sbind (smodify (create_pump (PumpOutput Stderr))) (\<lambda>_.
           sbind (smodify (create_pump WaitForProcess)) (\<lambda>_. sret None))))))
       (\<lambda>e. is_ssh_server_error e \<or> is_os_error e \<or> is_asyncssh_error e) (start_failed now)"

definition jump_started :: "StartedJump result \<Rightarrow> datetime \<Rightarrow> (ssh_session, waiting option) op" where
  "jump_started r now = (case r of
     Inl e \<Rightarrow> start_failed now e
   | Inr j \<Rightarrow> (\<lambda>s.
       (case jump_channel (node_do (CreateProcess (ss_term_type s) (ss_term_size s))) (ss_world s) of
          (created, w) \<Rightarrow> (Inr (Some (OnProcess created)), s\<lparr>ss_started := Some j, ss_world := w\<rparr>))))"

text \<open>One round of \<open>_pump_output\<close>: an empty read ends the task.\<close>

definition got_chunk ::
  "ssh_config \<Rightarrow> datetime \<Rightarrow> reader \<Rightarrow> bytes result \<Rightarrow> (ssh_session, waiting option) op" where
  "got_chunk cfg now reader chunk =
     sbind (slift chunk) (\<lambda>payload.
     if payload = [] then sret None
     else sbind (\<lambda>s. if ss_bridge s \<noteq> None then on_bridge (receive_node_output (elapsed_seconds cfg now s) payload) s
                     else (Inr payload, s)) (\<lambda>out.
          sbind (\<lambda>s. if ss_channel s then (sc_channel_write cfg (ss_user s) out,
                       s\<lparr>ss_user := ss_user s @ [ChannelWrite out]\<rparr>) else (Inr (), s)) (\<lambda>_.
          sret (Some (OnRead reader)))))"

definition process_closed :: "datetime \<Rightarrow> (ssh_session, waiting option) op" where
  "process_closed now s =
     (if ss_bridge s \<noteq> None
      then sbind (on_bridge (bridge_close_begin CLOSED now None)) (await_close (ThenExit 0)) s
      else await_close (ThenExit 0) None s)"

definition close_lost :: "(pystr \<times> pystr) option \<Rightarrow> datetime \<Rightarrow> (ssh_session, waiting option) op" where
  "close_lost exc now =
     sbind (on_bridge (case exc of
         None \<Rightarrow> bridge_close_begin CLOSED now None
       | Some (text, class_name) \<Rightarrow>
           bridge_close_begin FAILED now (Some (if text \<noteq> [] then text else class_name))))
       (await_close ThenReturn)"

text \<open>The task runs until it waits or ends; \<open>f\<close>, \<open>now\<close> and \<open>audit_id\<close> are what it draws.\<close>

definition run_task ::
  "ssh_config \<Rightarrow> jump_fresh \<Rightarrow> datetime \<Rightarrow> uuid \<Rightarrow> task \<Rightarrow> (ssh_session, waiting option) op" where
  "run_task cfg f now audit_id t = (case t of
     StartExec command \<Rightarrow> (\<lambda>s. case sc_start_exec cfg f now command (fst (ss_term_size s))
         (fst (snd (ss_term_size s))) (ss_world s) of (r, w) \<Rightarrow> (Inr (Some (OnJump r)), s\<lparr>ss_world := w\<rparr>))
   | JumpStarted r \<Rightarrow> jump_started r now
   | ProcessCreated r \<Rightarrow> (case r of Inl e \<Rightarrow> start_failed now e | Inr _ \<Rightarrow> process_created cfg now)
   | SendInput secs payload \<Rightarrow> sbind (on_bridge (send_user_input secs payload)) (\<lambda>_. sret None)
   | ResizePty width height \<Rightarrow> sbind (on_bridge (bridge_resize_pty width height)) (\<lambda>_. sret None)
   | PumpOutput reader \<Rightarrow> sret (Some (OnRead reader))
   | GotChunk reader chunk \<Rightarrow> got_chunk cfg now reader chunk
   | WaitForProcess \<Rightarrow> sret (Some OnExit)
   | ProcessClosed \<Rightarrow> process_closed now
   | CloseLost exc lost \<Rightarrow> close_lost exc lost
   | FailJump err \<Rightarrow> sbind (fail_started_jump_begin err now) (await_close OfFailure)
   | Closing c a \<Rightarrow> sbind (closing_end cfg audit_id now c) (\<lambda>_. await_close a None))"

subsection \<open>Cancellation and the callbacks of tasks\<close>

text \<open>
  \<open>task.cancel()\<close> on all of \<open>_pump_tasks\<close>: a cancelled task never runs again, since no handler catches
  \<open>CancelledError\<close>.  A task that has raised is finished, so its callback stays.
\<close>

definition is_done :: "handle \<Rightarrow> bool" where
  "is_done h = (case h of Done _ \<Rightarrow> True | Run _ \<Rightarrow> False)"

definition cancel_all :: "ssh_session \<Rightarrow> ssh_session" where
  "cancel_all s = s\<lparr>ss_ready := filter is_done (ss_ready s), ss_waiting := []\<rparr>"

text \<open>\<open>_pump_done\<close> of a task that raised.  Only \<open>_failure_done\<close> looks at the failing task.\<close>

definition pump_done :: "ssh_session \<Rightarrow> ssh_session" where
  "pump_done s =
     (if ss_task_failed s then s
      else ssh_exit 1 (create_pump (FailJump (str ''jump session task failed''))
             (cancel_all (s\<lparr>ss_task_failed := True\<rparr>))))"

definition of_failure :: "task \<Rightarrow> bool" where
  "of_failure t = (case t of FailJump _ \<Rightarrow> True | Closing _ a \<Rightarrow> a = OfFailure | _ \<Rightarrow> False)"

text \<open>The head of the ready queue runs.\<close>

definition run_handle ::
  "ssh_config \<Rightarrow> jump_fresh \<Rightarrow> datetime \<Rightarrow> uuid \<Rightarrow> handle \<Rightarrow> ssh_session \<Rightarrow> ssh_session" where
  "run_handle cfg f now audit_id h s = (case h of
     Done e \<Rightarrow> pump_done s
   | Run t \<Rightarrow> (case run_task cfg f now audit_id t s of
         (Inr None, s') \<Rightarrow> s'
       | (Inr (Some w), s') \<Rightarrow> s'\<lparr>ss_waiting := ss_waiting s' @ [w]\<rparr>
       | (Inl e, s') \<Rightarrow> if of_failure t then s' else s'\<lparr>ss_ready := ss_ready s' @ [Done e]\<rparr>))"

definition run_next :: "ssh_config \<Rightarrow> jump_fresh \<Rightarrow> datetime \<Rightarrow> uuid \<Rightarrow> ssh_session \<Rightarrow> ssh_session" where
  "run_next cfg f now audit_id s = (case ss_ready s of
     [] \<Rightarrow> s | h # hs \<Rightarrow> run_handle cfg f now audit_id h (s\<lparr>ss_ready := hs\<rparr>))"

text \<open>What a task waits for has happened; a read gives \<open>chunk\<close>.\<close>

definition resumed :: "bytes result \<Rightarrow> waiting \<Rightarrow> task" where
  "resumed chunk w = (case w of
     OnJump r \<Rightarrow> JumpStarted r | OnProcess r \<Rightarrow> ProcessCreated r | OnRead reader \<Rightarrow> GotChunk reader chunk
   | OnExit \<Rightarrow> ProcessClosed | OnClose c a \<Rightarrow> Closing c a)"

definition wake :: "nat \<Rightarrow> bytes result \<Rightarrow> ssh_session \<Rightarrow> ssh_session" where
  "wake i chunk s =
     (if i < length (ss_waiting s)
      then create_pump (resumed chunk (ss_waiting s ! i))
             (s\<lparr>ss_waiting := take i (ss_waiting s) @ drop (Suc i) (ss_waiting s)\<rparr>)
      else s)"

subsection \<open>The callbacks of AsyncSSH\<close>

definition pty_requested :: "pystr \<Rightarrow> int \<times> int \<times> int \<times> int \<Rightarrow> (ssh_session, bool) op" where
  "pty_requested term_type term_size s =
     (Inr True, s\<lparr>ss_term_type := term_type, ss_term_size := term_size\<rparr>)"

definition exec_requested :: "pystr \<Rightarrow> (ssh_session, bool) op" where
  "exec_requested command s = (Inr True, create_pump (StartExec command) s)"

datatype user_data = UserBytes bytes | UserText pystr

definition user_payload :: "user_data \<Rightarrow> bytes result" where
  "user_payload data = (case data of
     UserBytes b \<Rightarrow> Inr b
   | UserText t \<Rightarrow> (case utf8_encode t of None \<Rightarrow> Inl (ValueError ''surrogates not allowed'') | Some b \<Rightarrow> Inr b))"

definition data_received :: "ssh_config \<Rightarrow> datetime \<Rightarrow> user_data \<Rightarrow> (ssh_session, unit) op" where
  "data_received cfg now data =
     sbind (slift (user_payload data)) (\<lambda>payload s.
       (Inr (), if ss_bridge s = None then s\<lparr>ss_pending_input := ss_pending_input s @ [payload]\<rparr>
                else create_pump (SendInput (elapsed_seconds cfg now s) payload) s))"

definition eof_received :: "(ssh_session, bool) op" where
  "eof_received s =
     (if \<not> ss_process s then (Inr False, s\<lparr>ss_pending_eof := True\<rparr>)
      else sbind (on_node (node_do StdinEof)) (\<lambda>_. sret False) s)"

definition terminal_size_changed :: "int \<Rightarrow> int \<Rightarrow> int \<Rightarrow> int \<Rightarrow> (ssh_session, unit) op" where
  "terminal_size_changed width height pixwidth pixheight s =
     (let s' = s\<lparr>ss_term_size := (width, height, pixwidth, pixheight)\<rparr> in
      (Inr (), if ss_bridge s' \<noteq> None then create_pump (ResizePty width height) s' else s'))"

definition connection_lost :: "(pystr \<times> pystr) option \<Rightarrow> datetime \<Rightarrow> (ssh_session, unit) op" where
  "connection_lost exc now s =
     (Inr (), if ss_bridge s \<noteq> None then create_pump (CloseLost exc now) (cancel_all s) else cancel_all s)"

section \<open>Runs\<close>

text \<open>
  The callbacks, the completion of a wait and the next handle of the loop.  What AsyncSSH guarantees of
  its callbacks: one exec request, and none after the connection is lost.
\<close>

datatype ssh_event =
    PtyRequested pystr "int \<times> int \<times> int \<times> int"
  | ExecRequested pystr
  | DataReceived datetime user_data
  | EofReceived
  | TerminalSizeChanged int int int int
  | ConnectionLost "(pystr \<times> pystr) option" datetime
  | Wake nat "bytes result"
  | RunNext jump_fresh datetime uuid

definition ssh_step :: "ssh_config \<Rightarrow> ssh_event \<Rightarrow> ssh_session \<Rightarrow> ssh_session" where
  "ssh_step cfg ev s = (case ev of
     PtyRequested term term_size \<Rightarrow> snd (pty_requested term term_size s)
   | ExecRequested command \<Rightarrow> snd (exec_requested command s)
   | DataReceived now data \<Rightarrow> snd (data_received cfg now data s)
   | EofReceived \<Rightarrow> snd (eof_received s)
   | TerminalSizeChanged w h pw ph \<Rightarrow> snd (terminal_size_changed w h pw ph s)
   | ConnectionLost exc now \<Rightarrow> snd (connection_lost exc now s)
   | Wake i chunk \<Rightarrow> wake i chunk s
   | RunNext f now audit_id \<Rightarrow> run_next cfg f now audit_id s)"

definition is_exec :: "ssh_event \<Rightarrow> bool" where
  "is_exec ev = (case ev of ExecRequested _ \<Rightarrow> True | _ \<Rightarrow> False)"

definition is_lost :: "ssh_event \<Rightarrow> bool" where
  "is_lost ev = (case ev of ConnectionLost _ _ \<Rightarrow> True | _ \<Rightarrow> False)"

definition is_loop :: "ssh_event \<Rightarrow> bool" where
  "is_loop ev = (case ev of Wake _ _ \<Rightarrow> True | RunNext _ _ _ \<Rightarrow> True | _ \<Rightarrow> False)"

definition asyncssh_allows :: "ssh_event list \<Rightarrow> ssh_event \<Rightarrow> bool" where
  "asyncssh_allows evs ev \<longleftrightarrow>
     is_loop ev \<or> ((\<forall>e \<in> set evs. \<not> is_lost e) \<and> \<not> (is_exec ev \<and> (\<exists>e \<in> set evs. is_exec e)))"

inductive ssh_run :: "ssh_config \<Rightarrow> ssh_session \<Rightarrow> ssh_event list \<Rightarrow> ssh_session \<Rightarrow> bool"
  for cfg :: ssh_config and s0 :: ssh_session where
  run_start: "ssh_run cfg s0 [] s0"
| run_step: "ssh_run cfg s0 evs s \<Longrightarrow> asyncssh_allows evs ev \<Longrightarrow> ssh_run cfg s0 (evs @ [ev]) (ssh_step cfg ev s)"

end
