(* ===== verification/Ssh_Facts.thy ===== *)
theory Ssh_Facts
  imports Ssh Bridge_Facts "HOL-Library.Sublist"
begin

text \<open>
  Facts of the SSH boundary: what a request that starts a jump implies, that input reaches the node in
  order, what a closed session tells the user, and what a lost connection leaves behind.
\<close>

section \<open>What an operation keeps\<close>

definition keeps :: "('s \<Rightarrow> 'b) \<Rightarrow> ('s, 'a) op \<Rightarrow> bool" where
  "keeps f m \<longleftrightarrow> (\<forall>s. f (snd (m s)) = f s)"

named_theorems keeps_intros "what an operation keeps, by its structure"

lemma keepsD: "keeps f m \<Longrightarrow> m s = (r, t) \<Longrightarrow> f t = f s"
  by (metis keeps_def snd_conv)

lemma keeps_basic [keeps_intros]:
  "keeps f (sret x)" "keeps f (sraise e)" "keeps f (slift r)" "keeps f (sget g)" "keeps f (srequire b e)"
  by (simp_all add: keeps_def)

lemma keeps_sbind [keeps_intros]: "keeps f m \<Longrightarrow> (\<And>x. keeps f (k x)) \<Longrightarrow> keeps f (sbind m k)"
  unfolding keeps_def sbind_def by (auto split: prod.splits sum.splits) (metis snd_conv)+

lemma keeps_stry [keeps_intros]: "keeps f m \<Longrightarrow> (\<And>e. keeps f (h e)) \<Longrightarrow> keeps f (stry m p h)"
  unfolding keeps_def stry_def by (auto split: prod.splits sum.splits) (metis snd_conv)+

lemma keeps_if [keeps_intros]: "keeps f m \<Longrightarrow> keeps f n \<Longrightarrow> keeps f (if b then m else n)"
  by simp

lemma keeps_option [keeps_intros]:
  "keeps f m \<Longrightarrow> (\<And>x. keeps f (k x)) \<Longrightarrow> keeps f (case v of None \<Rightarrow> m | Some x \<Rightarrow> k x)"
  by (cases v) simp_all

lemma keeps_jump [keeps_intros]:
  "keeps jw_channel (jump_db a)" "keeps jw_channel (jump_fs b)" "keeps jw_channel (jump_broker c)"
  "keeps jw_channel (jump_replay ref d)"
  by (simp_all add: keeps_def jump_db_def jump_fs_def jump_broker_def jump_replay_def split_beta)

lemma keeps_smodify [keeps_intros]: "(\<And>s. f (g s) = f s) \<Longrightarrow> keeps f (smodify g)"
  by (simp add: keeps_def)

lemma start_jump_keeps_channel: "keeps jw_channel (start_jump d f i c v p w h now)"
  unfolding start_jump_def select_node_def select_target_def run_jump_def start_recording_def
    open_node_connection_def audit_denial_def jump_audit_def
  by (intro keeps_intros) (simp_all add: jump_audit_def)

lemma start_exec_keeps_channel: "keeps jw_channel (start_exec h sv f now command width height)"
  unfolding start_exec_def
  by (intro keeps_intros start_jump_keeps_channel)

section \<open>What reaches the node\<close>

text \<open>The contract of \<open>handler.start_exec\<close> the session relies on: it makes no call on a node process.\<close>

locale exec_handler =
  fixes cfg :: ssh_config
  assumes start_keeps_node: "keeps jw_channel (sc_start_exec cfg f now command width height)"

text \<open>The session over the handler of the code.\<close>

definition handler_config :: "jump_handler \<Rightarrow> VibeConnectSshServer \<Rightarrow> ssh_config \<Rightarrow> ssh_config" where
  "handler_config h sv cfg = cfg\<lparr>sc_start_exec := start_exec h sv\<rparr>"

interpretation exec: exec_handler "handler_config h sv cfg" for h sv cfg
  by unfold_locales (simp add: handler_config_def start_exec_keeps_channel)

definition stdin_writes :: "node_call list \<Rightarrow> bytes list" where
  "stdin_writes cs = List.map_filter (\<lambda>c. case c of StdinWrite b \<Rightarrow> Some b | _ \<Rightarrow> None) cs"

definition node_calls :: "ssh_session \<Rightarrow> node_call list" where
  "node_calls s = nd_calls (jw_channel (ss_world s))"

text \<open>The input that has been written to the node process, and the input still on its way.\<close>

definition sent :: "ssh_session \<Rightarrow> bytes list" where
  "sent s = stdin_writes (node_calls s)"

definition task_input :: "handle \<Rightarrow> bytes option" where
  "task_input h = (case h of Run (SendInput secs payload) \<Rightarrow> Some payload | _ \<Rightarrow> None)"

definition queued :: "ssh_session \<Rightarrow> bytes list" where
  "queued s = (if ss_bridge s = None then ss_pending_input s else []) @ List.map_filter task_input (ss_ready s)"

definition received_one :: "ssh_event \<Rightarrow> bytes option" where
  "received_one ev = (case ev of
     DataReceived now data \<Rightarrow> (case user_payload data of Inl e \<Rightarrow> None | Inr p \<Rightarrow> Some p) | _ \<Rightarrow> None)"

definition received :: "ssh_event list \<Rightarrow> bytes list" where
  "received evs = List.map_filter received_one evs"

lemma map_filter_append [simp]: "List.map_filter f (xs @ ys) = List.map_filter f xs @ List.map_filter f ys"
  by (induction xs) (auto simp: List.map_filter_simps split: option.splits)

lemma stdin_writes_simps [simp]:
  "stdin_writes [] = []" "stdin_writes (xs @ ys) = stdin_writes xs @ stdin_writes ys"
  "stdin_writes (StdinWrite b # xs) = b # stdin_writes xs" "stdin_writes (StdinEof # xs) = stdin_writes xs"
  "stdin_writes (ChangeTerminalSize w h # xs) = stdin_writes xs"
  "stdin_writes (ConnectionClose # xs) = stdin_writes xs"
  "stdin_writes (ConnectionWaitClosed # xs) = stdin_writes xs"
  "stdin_writes (CreateProcess t z # xs) = stdin_writes xs"
  by (simp_all add: stdin_writes_def List.map_filter_simps)

text \<open>A bridge is unchanged but for its closed flag.\<close>

definition same_bridge :: "'c JumpPtyBridge \<Rightarrow> 'c JumpPtyBridge \<Rightarrow> bool" where
  "same_bridge b b' \<longleftrightarrow> b' = b\<lparr>br_closed := br_closed b'\<rparr>"

lemma same_bridge_refl [simp]: "same_bridge b b"
  by (simp add: same_bridge_def)

lemma same_bridge_trans: "same_bridge a b \<Longrightarrow> same_bridge b c \<Longrightarrow> same_bridge a c"
  unfolding same_bridge_def by (metis JumpPtyBridge.update_convs(6) JumpPtyBridge.surjective)

lemma same_bridge_fields:
  "same_bridge b b' \<Longrightarrow> br_channel b' = br_channel b \<and> br_jump b' = br_jump b \<and>
     br_session_state_store b' = br_session_state_store b \<and> br_replay_dir b' = br_replay_dir b"
  unfolding same_bridge_def by (metis JumpPtyBridge.select_convs JumpPtyBridge.surjective JumpPtyBridge.update_convs(6))

text \<open>What a bridge method may write to the process: at most \<open>ps\<close>, all of it when it returns.\<close>

definition bridge_writes :: "bytes list \<Rightarrow> (node_side bridge_world, 'a) op \<Rightarrow> bool" where
  "bridge_writes ps m \<longleftrightarrow> (\<forall>v r v'. m v = (r, v') \<longrightarrow> br_channel (bw_bridge v) = node_process_channel \<longrightarrow>
     same_bridge (bw_bridge v) (bw_bridge v') \<and>
     (\<exists>ws. stdin_writes (nd_calls (jw_channel (bw_world v'))) = stdin_writes (nd_calls (jw_channel (bw_world v))) @ ws \<and>
        subseq ws ps \<and> ((\<exists>x. r = Inr x) \<longrightarrow> ws = ps)))"

lemma bridge_writesD:
  assumes "bridge_writes ps m" "m v = (r, v')" "br_channel (bw_bridge v) = node_process_channel"
  obtains ws where "same_bridge (bw_bridge v) (bw_bridge v')"
    "stdin_writes (nd_calls (jw_channel (bw_world v'))) = stdin_writes (nd_calls (jw_channel (bw_world v))) @ ws"
    "subseq ws ps" "\<And>x. r = Inr x \<Longrightarrow> ws = ps"
  using assms unfolding bridge_writes_def by blast

lemma bridge_writes_quiet:
  assumes "\<And>v. jw_channel (bw_world (snd (m v))) = jw_channel (bw_world v)"
    and "\<And>v. same_bridge (bw_bridge v) (bw_bridge (snd (m v)))"
  shows "bridge_writes [] m"
  unfolding bridge_writes_def
proof (intro allI impI)
  fix v r v' assume "m v = (r, v')" "br_channel (bw_bridge v) = node_process_channel"
  with assms(1) [of v] assms(2) [of v]
  show "same_bridge (bw_bridge v) (bw_bridge v') \<and>
     (\<exists>ws. stdin_writes (nd_calls (jw_channel (bw_world v'))) = stdin_writes (nd_calls (jw_channel (bw_world v))) @ ws \<and>
        subseq ws [] \<and> ((\<exists>x. r = Inr x) \<longrightarrow> ws = []))"
    by simp
qed

lemma ensure_open_snd: "snd (ensure_open v) = v" "ensure_open v = (r, v') \<Longrightarrow> v' = v"
  by (simp_all add: ensure_open_def)

lemma send_user_input_writes: "bridge_writes [payload] (send_user_input secs payload)"
  unfolding bridge_writes_def
proof (intro allI impI)
  fix v r and v' :: "node_side bridge_world"
  assume m: "send_user_input secs payload v = (r, v')" and c: "br_channel (bw_bridge v) = node_process_channel"
  let ?w = "\<lambda>v. stdin_writes (nd_calls (jw_channel (bw_world v)))"
  show "same_bridge (bw_bridge v) (bw_bridge v') \<and>
     (\<exists>ws. ?w v' = ?w v @ ws \<and> subseq ws [payload] \<and> ((\<exists>x. r = Inr x) \<longrightarrow> ws = [payload]))"
  proof (cases "ensure_open v")
    case (Pair q v1)
    then have v1: "v1 = v" by (simp add: ensure_open_snd)
    let ?rec = "bridge_do (jump_replay (sj_replay (br_jump (bw_bridge v))) (record_input secs (decode_surrogateescape payload)))"
    obtain q2 v2 where r2: "?rec v = (q2, v2)" by fastforce
    then have v2: "bw_bridge v2 = bw_bridge v" "jw_channel (bw_world v2) = jw_channel (bw_world v)"
      by (auto simp: bridge_do_def jump_replay_def split: prod.splits)
    show ?thesis
    proof (cases "(\<exists>x. q = Inr x) \<and> (\<exists>x. q2 = Inr x)")
      case True
      then obtain x x2 where x: "q = Inr x" "q2 = Inr x2" by blast
      have "send_user_input secs payload v =
          bridge_do (jump_channel (node_send_data (sj_channel_id (br_jump (bw_bridge v))) payload)) v2"
        using Pair v1 x r2 c
        by (simp add: send_user_input_def Let_def sbind_Inr [of ensure_open] sbind_Inr node_process_channel_def)
      with m v2 show ?thesis
        by (auto simp: bridge_do_def jump_channel_def node_send_data_def node_do_def intro!: exI [of _ "[payload]"])
    next
      case False
      then consider e where "q = Inl e" | x e where "q = Inr x" "q2 = Inl e"
        by (cases q; cases q2) auto
      then have "\<exists>e. send_user_input secs payload v = (Inl e, v) \<or> send_user_input secs payload v = (Inl e, v2)"
        using Pair v1 r2
        by cases (auto simp: send_user_input_def Let_def sbind_Inr [of ensure_open] sbind_Inl [of ensure_open] sbind_Inl)
      with m v2 show ?thesis by auto
    qed
  qed
qed

lemma receive_node_output_writes: "bridge_writes [] (receive_node_output secs payload)"
  by (rule bridge_writes_quiet)
     (auto simp: receive_node_output_def Let_def sbind_def bridge_do_def jump_replay_def ensure_open_def
       split: prod.splits sum.splits)

lemma bridge_do_same [simp]: "bw_bridge (snd (bridge_do m v)) = bw_bridge v"
  by (simp add: bridge_do_def split_beta)

lemma bridge_resize_pty_writes: "bridge_writes [] (bridge_resize_pty width height)"
  unfolding bridge_writes_def
proof (intro allI impI)
  fix v r and v' :: "node_side bridge_world"
  assume m: "bridge_resize_pty width height v = (r, v')" and c: "br_channel (bw_bridge v) = node_process_channel"
  have "v' = v \<or> v' = snd (bridge_do (jump_channel (node_resize_pty (sj_channel_id (br_jump (bw_bridge v))) width height)) v)"
    using m c by (auto simp: bridge_resize_pty_def Let_def sbind_def ensure_open_def require_def srequire_def
        node_process_channel_def split: if_splits)
  then show "same_bridge (bw_bridge v) (bw_bridge v') \<and>
     (\<exists>ws. stdin_writes (nd_calls (jw_channel (bw_world v'))) = stdin_writes (nd_calls (jw_channel (bw_world v))) @ ws \<and>
        subseq ws [] \<and> ((\<exists>x. r = Inr x) \<longrightarrow> ws = []))"
    by (auto simp: bridge_do_def jump_channel_def node_resize_pty_def node_do_def)
qed

lemma end_recording_keeps_channel: "keeps jw_channel (end_recording j dir status now err)"
  unfolding end_recording_def by (intro keeps_intros)

lemma bridge_close_begin_writes: "bridge_writes [] (bridge_close_begin status now err)"
proof (rule bridge_writes_quiet)
  fix v :: "node_side bridge_world"
  obtain r w where e: "end_recording (br_jump (bw_bridge v)) (br_replay_dir (bw_bridge v)) status now err (bw_world v) = (r, w)"
    by fastforce
  then have w: "jw_channel w = jw_channel (bw_world v)"
    using keepsD [OF end_recording_keeps_channel] by blast
  show "jw_channel (bw_world (snd (bridge_close_begin status now err v))) = jw_channel (bw_world v)"
    using w e by (cases r) (auto simp: bridge_close_begin_def Let_def sbind_def bridge_do_def split_beta)
  show "same_bridge (bw_bridge v) (bw_bridge (snd (bridge_close_begin status now err v)))"
    by (auto simp: bridge_close_begin_def Let_def sbind_def bridge_do_def split_beta same_bridge_def)
qed

lemma sbind_snd: "snd (sbind m k s) = (case fst (m s) of Inl e \<Rightarrow> snd (m s) | Inr x \<Rightarrow> snd (k x (snd (m s))))"
  by (simp add: sbind_def split_beta split: sum.split)

lemma close_session_no_writes:
  "stdin_writes (nd_calls (jw_channel (snd (jump_channel (node_close_session i) w)))) =
     stdin_writes (nd_calls (jw_channel w))"
  by (auto simp: jump_channel_def node_close_session_def node_do_def sbind_def split_beta split: sum.split)

lemma bridge_close_end_writes: "bridge_writes [] (bridge_close_end audit_id clock c)"
  unfolding bridge_writes_def
proof (intro allI impI)
  fix v r and v' :: "node_side bridge_world"
  assume m: "bridge_close_end audit_id clock c v = (r, v')" and c: "br_channel (bw_bridge v) = node_process_channel"
  have j: "jw_channel (snd (jump_db q w)) = jw_channel w" for q :: "(database, 'x) op" and w :: "node_side jump_world"
    by (simp add: jump_db_def split_beta)
  have "bw_bridge v' = bw_bridge v \<and>
    stdin_writes (nd_calls (jw_channel (bw_world v'))) = stdin_writes (nd_calls (jw_channel (bw_world v)))"
  proof (cases c)
    case (BridgeClosing rr et md status now)
    have "v' = snd (bridge_close_end audit_id clock c v)"
      using m by simp
    then show ?thesis
      using c unfolding BridgeClosing bridge_close_end_def Let_def
      by (simp add: bridge_do_def split_beta sbind_snd j close_session_no_writes node_process_channel_def
          split: sum.split)
  qed (use m in \<open>simp add: bridge_close_end_def\<close>)
  then show "same_bridge (bw_bridge v) (bw_bridge v') \<and>
     (\<exists>ws. stdin_writes (nd_calls (jw_channel (bw_world v'))) = stdin_writes (nd_calls (jw_channel (bw_world v))) @ ws \<and>
        subseq ws [] \<and> ((\<exists>x. r = Inr x) \<longrightarrow> ws = []))"
    by simp
qed

section \<open>The effect of a task\<close>

definition bridge_ok :: "ssh_session \<Rightarrow> bool" where
  "bridge_ok s \<longleftrightarrow> (\<forall>b. ss_bridge s = Some b \<longrightarrow> br_channel b = node_process_channel)"

text \<open>Only the world, what the user sees and the closed flag of the bridge changed; \<open>ps\<close> was written.\<close>

definition local_state where
  "local_state s = (ss_channel s, ss_started s, ss_process s, ss_term_type s, ss_term_size s, ss_task_failed s,
     ss_pending_input s, ss_pending_eof s, ss_ready s, ss_waiting s)"

definition quiet_step :: "bytes list \<Rightarrow> ssh_session \<Rightarrow> 'a result \<Rightarrow> ssh_session \<Rightarrow> bool" where
  "quiet_step ps s r s' \<longleftrightarrow>
     local_state s' = local_state s \<and>
     rel_option same_bridge (ss_bridge s) (ss_bridge s') \<and> prefix (ss_user s) (ss_user s') \<and>
     (\<exists>ws. sent s' = sent s @ ws \<and> subseq ws ps \<and> ((\<exists>x. r = Inr x) \<longrightarrow> ws = ps))"

definition writes_from :: "ssh_session \<Rightarrow> bytes list \<Rightarrow> (ssh_session, 'a) op \<Rightarrow> bool" where
  "writes_from s ps m \<longleftrightarrow> bridge_ok s \<longrightarrow> quiet_step ps s (fst (m s)) (snd (m s))"

lemma quiet_step_refl: "quiet_step [] s r s"
  by (simp add: quiet_step_def option.rel_refl)

lemma rel_bridge_trans:
  "rel_option same_bridge a b \<Longrightarrow> rel_option same_bridge b c \<Longrightarrow> rel_option same_bridge a c"
  by (cases a; cases b; cases c) (auto intro: same_bridge_trans)

lemma quiet_bridge_ok: "quiet_step ps s r s' \<Longrightarrow> bridge_ok s \<Longrightarrow> bridge_ok s'"
  unfolding quiet_step_def bridge_ok_def
  by (cases "ss_bridge s"; cases "ss_bridge s'") (auto simp: same_bridge_fields)

lemma quiet_step_trans:
  assumes "quiet_step ps s (Inr x :: 'a result) t" "quiet_step qs t r u"
  shows "quiet_step (ps @ qs) s r u"
proof -
  obtain ws where w: "sent u = sent t @ ws" "subseq ws qs" "(\<exists>x. r = Inr x) \<longrightarrow> ws = qs"
    using assms(2) by (auto simp: quiet_step_def)
  have t: "sent t = sent s @ ps" using assms(1) by (auto simp: quiet_step_def)
  have "local_state u = local_state s" using assms by (simp add: quiet_step_def)
  moreover have "rel_option same_bridge (ss_bridge s) (ss_bridge u)" "prefix (ss_user s) (ss_user u)"
    using assms rel_bridge_trans prefix_order.trans unfolding quiet_step_def by blast+
  ultimately show ?thesis
    unfolding quiet_step_def using t w list_emb_append_mono [of "(=)" ps ps ws qs]
    by (intro conjI exI [of _ "ps @ ws"]) auto
qed

lemma quiet_step_fail: "quiet_step ps s (Inl e :: 'a result) t \<Longrightarrow> quiet_step (ps @ qs) s (Inl e' :: 'b result) t"
  unfolding quiet_step_def using list_emb_append_mono [of "(=)" _ ps "[]" qs] by auto

named_theorems writes_intros "what a task writes to the node, by its structure"

lemma writes_from_basic [writes_intros]:
  "writes_from s [] (sret x)" "writes_from s [] (sraise e)" "writes_from s [] (slift r)"
  by (simp_all add: writes_from_def quiet_step_refl)

lemma writes_from_sbind:
  assumes m: "writes_from s ps m" and k: "\<And>x t. m s = (Inr x, t) \<Longrightarrow> writes_from t qs (k x)"
  shows "writes_from s (ps @ qs) (sbind m k)"
  unfolding writes_from_def
proof
  assume ok: "bridge_ok s"
  obtain r t where mt: "m s = (r, t)" by fastforce
  with m ok have q: "quiet_step ps s r t" by (simp add: writes_from_def)
  show "quiet_step (ps @ qs) s (fst (sbind m k s)) (snd (sbind m k s))"
  proof (cases r)
    case (Inl e)
    with q show ?thesis by (simp add: sbind_Inl [of m s e t] mt quiet_step_fail)
  next
    case (Inr x)
    with mt k have "writes_from t qs (k x)" by simp
    with quiet_bridge_ok [OF q ok] have "quiet_step qs t (fst (k x t)) (snd (k x t))"
      by (simp add: writes_from_def)
    with q Inr show ?thesis by (simp add: sbind_Inr [of m s x t] mt quiet_step_trans)
  qed
qed

lemma writes_from_sbind_quiet [writes_intros]:
  "writes_from s [] m \<Longrightarrow> (\<And>x t. m s = (Inr x, t) \<Longrightarrow> writes_from t [] (k x)) \<Longrightarrow> writes_from s [] (sbind m k)"
  using writes_from_sbind [of s "[]" m "[]" k] by simp

lemma writes_from_bridge:
  assumes "bridge_writes ps m" "ss_bridge s \<noteq> None"
  shows "writes_from s ps (on_bridge m)"
  unfolding writes_from_def
proof
  assume ok: "bridge_ok s"
  obtain b where b: "ss_bridge s = Some b" using assms(2) by blast
  obtain r v where m: "m \<lparr>bw_bridge = b, bw_world = ss_world s\<rparr> = (r, v)" by fastforce
  obtain ws where "same_bridge b (bw_bridge v)"
    "stdin_writes (nd_calls (jw_channel (bw_world v))) = stdin_writes (nd_calls (jw_channel (ss_world s))) @ ws"
    "subseq ws ps" "\<And>x. r = Inr x \<Longrightarrow> ws = ps"
    using bridge_writesD [OF assms(1) m] ok b by (auto simp: bridge_ok_def)
  then show "quiet_step ps s (fst (on_bridge m s)) (snd (on_bridge m s))"
    using b m by (auto simp: on_bridge_def quiet_step_def sent_def node_calls_def local_state_def)
qed

lemma writes_from_world:
  assumes "keeps jw_channel m"
  shows "writes_from s [] (on_world m)"
  using assms
  by (auto simp: writes_from_def quiet_step_def local_state_def on_world_def sent_def node_calls_def split_beta keeps_def option.rel_refl)

lemma ssh_exit_quiet: "quiet_step [] s r (ssh_exit n s)"
  by (simp add: quiet_step_def local_state_def ssh_exit_def sent_def node_calls_def option.rel_refl)

lemma await_close_writes [writes_intros]: "writes_from s [] (await_close a c)"
  by (cases a; cases c)
     (simp_all add: writes_from_def await_close_def then_after_def ssh_exit_quiet quiet_step_refl)

lemma fail_begin_writes [writes_intros]: "writes_from s [] (fail_started_jump_begin err now)"
proof (cases "ss_started s")
  case None
  then show ?thesis by (simp add: writes_from_def fail_started_jump_begin_def quiet_step_refl)
next
  case (Some j)
  show ?thesis
  proof (cases "ss_bridge s")
    case None
    have "writes_from s [] (sbind (on_world (jump_replay (sj_replay j) (replay_fail err)))
            (\<lambda>_. sret (Some (StartClosing err now))))"
      by (intro writes_intros writes_from_world keeps_intros)
    then show ?thesis using Some None by (simp add: writes_from_def fail_started_jump_begin_def)
  next
    case (Some b)
    with \<open>ss_started s = Some j\<close> show ?thesis
      using writes_from_bridge [OF bridge_close_begin_writes, of s FAILED now "Some err"]
      by (simp add: writes_from_def fail_started_jump_begin_def)
  qed
qed

lemma start_failed_writes [writes_intros]: "writes_from s [] (start_failed now e)"
  unfolding start_failed_def by (auto intro!: writes_intros)

text \<open>The payload a task has to send, whether it calls the bridge, and whether it belongs to the start.\<close>

definition payload_of :: "task \<Rightarrow> bytes list" where
  "payload_of t = (case t of SendInput secs p \<Rightarrow> [p] | _ \<Rightarrow> [])"

definition needs_bridge :: "task \<Rightarrow> bool" where
  "needs_bridge t = (case t of SendInput _ _ \<Rightarrow> True | ResizePty _ _ \<Rightarrow> True | CloseLost _ _ \<Rightarrow> True
     | Closing c _ \<Rightarrow> (case c of BridgeClosing _ _ _ _ _ \<Rightarrow> True | StartClosing _ _ \<Rightarrow> False) | _ \<Rightarrow> False)"

definition starting :: "task \<Rightarrow> bool" where
  "starting t = (case t of StartExec _ \<Rightarrow> True | JumpStarted _ \<Rightarrow> True | ProcessCreated _ \<Rightarrow> True | _ \<Rightarrow> False)"

lemma closing_end_writes:
  assumes "needs_bridge (Closing c a) \<Longrightarrow> ss_bridge s \<noteq> None"
  shows "writes_from s [] (closing_end cfg audit_id clock c)"
proof (cases c)
  case (BridgeClosing rr et md status now)
  with assms have "writes_from s [] (on_bridge (bridge_close_end audit_id clock c))"
    by (intro writes_from_bridge bridge_close_end_writes) (simp add: needs_bridge_def)
  with BridgeClosing show ?thesis by (simp add: writes_from_def closing_end_def)
next
  case (StartClosing err now)
  have "writes_from s [] (on_world (start_closing_end cfg audit_id clock j err now))" for j
    unfolding start_closing_end_def by (intro writes_from_world keeps_intros)
  with StartClosing show ?thesis
    by (cases "ss_started s") (simp_all add: writes_from_def closing_end_def quiet_step_refl)
qed

lemma got_chunk_writes: "writes_from s [] (got_chunk cfg now reader chunk)"
proof -
  have b: "writes_from s [] (\<lambda>s. if ss_bridge s \<noteq> None
      then on_bridge (receive_node_output (elapsed_seconds cfg now s) p) s else (Inr p, s))" for s and p :: bytes
  proof (cases "ss_bridge s")
    case None
    then show ?thesis by (simp add: writes_from_def quiet_step_refl)
  next
    case (Some b)
    with writes_from_bridge [OF receive_node_output_writes, of s "elapsed_seconds cfg now s" p]
    show ?thesis by (simp add: writes_from_def)
  qed
  have u: "writes_from s [] (\<lambda>s. if ss_channel s then (sc_channel_write cfg (ss_user s) out,
      s\<lparr>ss_user := ss_user s @ [ChannelWrite out]\<rparr>) else (Inr (), s))" for s and out :: bytes
    by (auto simp: writes_from_def quiet_step_def local_state_def sent_def node_calls_def option.rel_refl)
  show ?thesis
    unfolding got_chunk_def
  proof (intro writes_intros)
    fix payload :: bytes and t
    show "writes_from t [] (if payload = [] then sret None else
        sbind (\<lambda>s. if ss_bridge s \<noteq> None then on_bridge (receive_node_output (elapsed_seconds cfg now s) payload) s
                   else (Inr payload, s)) (\<lambda>out.
        sbind (\<lambda>s. if ss_channel s then (sc_channel_write cfg (ss_user s) out,
                   s\<lparr>ss_user := ss_user s @ [ChannelWrite out]\<rparr>) else (Inr (), s)) (\<lambda>_.
        sret (Some (OnRead reader)))))"
      by (cases "payload = []") (simp_all only: if_True if_False refl, intro writes_intros, intro writes_intros b u)
  qed
qed

lemma process_closed_writes: "writes_from s [] (process_closed now)"
proof (cases "ss_bridge s")
  case None
  then show ?thesis using await_close_writes [of s "ThenExit 0" None]
    by (simp add: writes_from_def process_closed_def)
next
  case (Some b)
  then have "writes_from s [] (sbind (on_bridge (bridge_close_begin CLOSED now None)) (await_close (ThenExit 0)))"
    by (intro writes_intros writes_from_bridge bridge_close_begin_writes) simp
  with Some show ?thesis by (simp add: writes_from_def process_closed_def)
qed

lemma close_lost_writes: "ss_bridge s \<noteq> None \<Longrightarrow> writes_from s [] (close_lost exc now)"
  unfolding close_lost_def
  by (intro writes_intros writes_from_bridge) (auto simp: bridge_close_begin_writes split: option.split prod.split)

text \<open>What follows the close a task belongs to.\<close>

definition task_after :: "task \<Rightarrow> after option" where
  "task_after t = (case t of CloseLost _ _ \<Rightarrow> Some ThenReturn | FailJump _ \<Rightarrow> Some OfFailure
     | Closing _ a \<Rightarrow> Some a | _ \<Rightarrow> None)"

lemmas task_defs = payload_of_def needs_bridge_def starting_def task_after_def resumed_def

lemma run_task_writes:
  assumes k: "\<And>f now c w h. keeps jw_channel (sc_start_exec cfg f now c w h)"
    and b: "needs_bridge t \<Longrightarrow> ss_bridge s \<noteq> None"
    and t: "\<And>j. t \<noteq> JumpStarted (Inr j)" "\<And>u. t \<noteq> ProcessCreated (Inr u)"
  shows "writes_from s (payload_of t) (run_task cfg f now audit_id t)"
proof (cases t)
  case (StartExec command)
  have "writes_from s [] (on_world (sc_start_exec cfg f now command (fst (ss_term_size s)) (fst (snd (ss_term_size s)))))"
    by (intro writes_from_world k)
  then show ?thesis
    using StartExec
    by (auto simp: writes_from_def run_task_def payload_of_def on_world_def quiet_step_def split_beta)
next
  case (SendInput secs p)
  then have "writes_from s ([p] @ []) (sbind (on_bridge (send_user_input secs p)) (\<lambda>_. sret None))"
    using b by (intro writes_from_sbind writes_from_bridge send_user_input_writes writes_intros)
      (simp add: needs_bridge_def)
  with SendInput show ?thesis by (simp add: run_task_def payload_of_def)
next
  case (ResizePty width height)
  then have "writes_from s [] (sbind (on_bridge (bridge_resize_pty width height)) (\<lambda>_. sret None))"
    using b by (intro writes_intros writes_from_bridge bridge_resize_pty_writes) (simp add: needs_bridge_def)
  with ResizePty show ?thesis by (simp add: run_task_def payload_of_def)
next
  case (JumpStarted r)
  with t(1) show ?thesis
    by (cases r) (auto simp: run_task_def payload_of_def jump_started_def start_failed_writes)
next
  case (ProcessCreated r)
  with t(2) show ?thesis
    by (cases r) (auto simp: run_task_def payload_of_def start_failed_writes)
next
  case (Closing c a)
  then have "writes_from s [] (sbind (closing_end cfg audit_id now c) (\<lambda>_. await_close a None))"
    using b by (intro writes_intros closing_end_writes [where a = a]) simp
  with Closing show ?thesis by (simp add: run_task_def payload_of_def)
next
  case (CloseLost exc lost)
  with b show ?thesis by (simp add: run_task_def payload_of_def close_lost_writes needs_bridge_def)
next
  case (FailJump err)
  then show ?thesis by (simp add: run_task_def payload_of_def) (intro writes_intros)
qed (simp_all add: run_task_def payload_of_def got_chunk_writes process_closed_writes writes_from_basic)

text \<open>The process is there: the bridge is set and the pending input is flushed before anything else.\<close>

definition pumps :: "handle list" where
  "pumps = [Run (PumpOutput Stdout), Run (PumpOutput Stderr), Run WaitForProcess]"

lemma send_pending_writes: "ss_bridge s \<noteq> None \<Longrightarrow> writes_from s ps (send_pending secs ps)"
proof (induction ps arbitrary: s)
  case Nil
  show ?case by (simp only: send_pending.simps writes_from_basic)
next
  case (Cons p ps)
  have "writes_from s ([p] @ ps) (sbind (on_bridge (send_user_input secs p)) (\<lambda>_. send_pending secs ps))"
  proof (rule writes_from_sbind [OF writes_from_bridge [OF send_user_input_writes Cons.prems]])
    fix x t assume "on_bridge (send_user_input secs p) s = (Inr x, t)"
    then have "ss_bridge t \<noteq> None" by (auto simp: on_bridge_def split: prod.splits)
    then show "writes_from t ps (send_pending secs ps)" by (rule Cons.IH)
  qed
  then show ?case by simp
qed

definition exit_waits :: "waiting option result \<Rightarrow> ssh_session \<Rightarrow> bool" where
  "exit_waits r s \<longleftrightarrow> (\<exists>e. r = Inl e) \<or> (\<exists>c n. r = Inr (Some (OnClose c (ThenExit n)))) \<or>
     (r = Inr None \<and> (ss_channel s \<longrightarrow> (\<exists>n. ChannelExit n \<in> set (ss_user s))))"

lemma start_failed_exit: "exit_waits (fst (start_failed now e s)) (snd (start_failed now e s))"
proof -
  have a: "exit_waits (fst (await_close (ThenExit n) c t)) (snd (await_close (ThenExit n) c t))" for n c t
    by (cases c) (auto simp: await_close_def exit_waits_def then_after_def ssh_exit_def)
  have "exit_waits (fst (sbind m (await_close (ThenExit n)) t)) (snd (sbind m (await_close (ThenExit n)) t))"
    for m n t
  proof (cases "m t")
    case (Pair r u)
    then show ?thesis using a [of n _ u]
      by (cases r) (simp_all add: sbind_Inr [of m t] sbind_Inl [of m t] exit_waits_def)
  qed
  then show ?thesis using a by (simp add: start_failed_def) (simp add: exit_waits_def)
qed

lemma start_handler:
  assumes "(if b then start_failed now e u else (Inl e, u)) = (r, s')" "bridge_ok u"
  shows "quiet_step [] u r s' \<and> exit_waits r s'"
  using assms start_failed_writes [of u now e] start_failed_exit [of now e u]
  by (cases b) (auto simp: writes_from_def quiet_step_refl exit_waits_def)

text \<open>What \<open>process_created\<close> and the flush keep.\<close>

definition start_frame :: "StartedJump \<Rightarrow> ssh_session \<Rightarrow> ssh_session \<Rightarrow> bool" where
  "start_frame j s s' \<longleftrightarrow> (\<exists>b. ss_bridge s' = Some b) \<and> bridge_ok s' \<and> ss_process s' \<and> ss_started s' = Some j \<and>
     ss_waiting s' = ss_waiting s \<and> ss_task_failed s' = ss_task_failed s \<and> ss_channel s' = ss_channel s \<and>
     ss_ready s' = ss_ready s \<and> prefix (ss_user s) (ss_user s')"

lemma quiet_start_frame: "start_frame j s t \<Longrightarrow> quiet_step ps t r u \<Longrightarrow> start_frame j s u"
  using quiet_bridge_ok [of ps t r u]
  by (auto simp: start_frame_def quiet_step_def local_state_def option_rel_Some1)

lemma flush_run:
  assumes run: "flush_pending_input cfg now s = (r, u)" and b: "start_frame j s s"
  obtains ws where "start_frame j s u" "sent u = sent s @ ws" "subseq ws (ss_pending_input s)"
    "r = Inr () \<Longrightarrow> ws = ss_pending_input s"
proof -
  let ?ps = "ss_pending_input s"
  obtain q t where fl: "send_pending (elapsed_seconds cfg now s) ?ps s = (q, t)" by fastforce
  have qt: "quiet_step ?ps s q t"
    using send_pending_writes [of s ?ps "elapsed_seconds cfg now s"] b fl
    by (auto simp: writes_from_def start_frame_def)
  then obtain ws where "sent t = sent s @ ws" "subseq ws ?ps" "q = Inr () \<Longrightarrow> ws = ?ps"
    unfolding quiet_step_def by blast
  note t = quiet_start_frame [OF b qt] this
  show ?thesis
  proof (cases q)
    case (Inl e)
    with run fl have "u = t" by (simp add: flush_pending_input_def sbind_Inl [of "send_pending _ _"])
    with t show ?thesis using Inl run fl
      by (intro that [of ws]) (simp_all add: flush_pending_input_def sbind_Inl [of "send_pending _ _"])
  next
    case (Inr x)
    with t have ws: "ws = ?ps" by simp
    have "start_frame j s u \<and> sent u = sent t"
      using run fl Inr t(1)
      by (auto simp: flush_pending_input_def sbind_Inr [of "send_pending _ _"] sbind_def [of "smodify _"]
          on_node_def on_world_def jump_channel_def node_do_def sbind_def split_beta start_frame_def bridge_ok_def
          sent_def node_calls_def split: if_splits sum.splits)
    with t ws show ?thesis by (intro that [of ws]) auto
  qed
qed

lemma process_created_run:
  assumes run: "process_created cfg now s = (r, s')" and j: "ss_started s = Some j" and n: "ss_bridge s = None"
  obtains ws where "start_frame j (s\<lparr>ss_ready := ss_ready s'\<rparr>) s'" "sent s' = sent s @ ws"
    "subseq ws (ss_pending_input s)"
    "(r = Inr None \<and> ss_ready s' = ss_ready s @ pumps \<and> ws = ss_pending_input s) \<or>
     (exit_waits r s' \<and> ss_ready s' = ss_ready s)"
proof -
  define s1 where "s1 = s\<lparr>ss_process := True, ss_bridge := map_option (new_bridge cfg) (ss_started s)\<rparr>"
  have b1: "start_frame j s1 s1" "sent s1 = sent s" "ss_pending_input s1 = ss_pending_input s"
    "ss_ready s1 = ss_ready s"
    using j by (auto simp: s1_def start_frame_def bridge_ok_def new_bridge_def sent_def node_calls_def)
  obtain q u where fl: "flush_pending_input cfg now s1 = (q, u)" by fastforce
  obtain ws where u: "start_frame j s1 u" "sent u = sent s @ ws" "subseq ws (ss_pending_input s)"
    "q = Inr () \<Longrightarrow> ws = ss_pending_input s"
    using flush_run [OF fl b1(1)] b1 by metis
  show ?thesis
  proof (cases q)
    case (Inr x)
    then have "r = Inr None" "s' = u\<lparr>ss_ready := ss_ready u @ pumps\<rparr>"
      using run fl unfolding s1_def
      by (simp_all add: process_created_def stry_def sbind_def create_pump_def pumps_def)
    with u b1 Inr show ?thesis
      by (intro that [of ws]) (auto simp: start_frame_def sent_def node_calls_def bridge_ok_def s1_def)
  next
    case (Inl e)
    let ?p = "is_ssh_server_error e \<or> is_os_error e \<or> is_asyncssh_error e"
    have "(if ?p then start_failed now e u else (Inl e, u)) = (r, s')"
      using run fl Inl unfolding s1_def by (simp add: process_created_def stry_def sbind_def)
    moreover have "bridge_ok u" using u(1) by (simp add: start_frame_def)
    ultimately have h: "quiet_step [] u r s'" "exit_waits r s'" using start_handler by blast+
    then have "sent s' = sent u" by (auto simp: quiet_step_def)
    with quiet_start_frame [OF u(1) h(1)] u(2,3) h(2) show ?thesis
      by (intro that [of ws]) (auto simp: start_frame_def s1_def)
  qed
qed

section \<open>What a task waits for\<close>

definition is_created :: "task \<Rightarrow> bool" where
  "is_created t = (case t of ProcessCreated _ \<Rightarrow> True | _ \<Rightarrow> False)"

text \<open>A wait that is in order after a step of \<open>t\<close>.\<close>

definition wait_ok :: "task \<Rightarrow> waiting \<Rightarrow> ssh_session \<Rightarrow> bool" where
  "wait_ok t w s \<longleftrightarrow> (let u = resumed (Inr []) w in
     (\<forall>a. task_after u = Some a \<longrightarrow> (\<exists>n. a = ThenExit n) \<or> task_after t = Some a) \<and>
     (task_after t \<noteq> None \<longrightarrow> task_after u = task_after t) \<and>
     (starting u \<longrightarrow> (\<exists>command. t = StartExec command) \<or> (\<exists>j. t = JumpStarted (Inr j))) \<and>
     (needs_bridge u \<longrightarrow> ss_bridge s \<noteq> None) \<and> (is_created u \<longrightarrow> ss_started s \<noteq> None))"

lemma resumed_chunk [simp]:
  "needs_bridge (resumed c w) = needs_bridge (resumed (Inr []) w)"
  "starting (resumed c w) = starting (resumed (Inr []) w)"
  "task_after (resumed c w) = task_after (resumed (Inr []) w)"
  "is_created (resumed c w) = is_created (resumed (Inr []) w)"
  if "NO_MATCH (Inr [] :: bytes result) c"
  by (cases w; simp add: task_defs is_created_def)+

lemma await_close_waits:
  assumes "await_close a c s = (Inr (Some w), s')"
    and "\<And>d. c = Some d \<Longrightarrow> needs_bridge (Closing d a) \<Longrightarrow> ss_bridge s \<noteq> None"
    and "(\<exists>n. a = ThenExit n) \<and> task_after t = None \<or> task_after t = Some a"
  shows "wait_ok t w s'"
  using assms by (cases c) (auto simp: await_close_def wait_ok_def Let_def task_defs is_created_def)

lemma close_begin_bridge:
  "on_bridge m s = (r, s') \<Longrightarrow> ss_bridge s' \<noteq> None"
  by (auto simp: on_bridge_def split: prod.splits)

lemma fail_begin_bridge:
  assumes "fail_started_jump_begin err now s = (Inr (Some c), s')" "needs_bridge (Closing c a)"
  shows "ss_bridge s' \<noteq> None"
proof (cases "ss_bridge s")
  case None
  with assms have "c = StartClosing err now"
    by (auto simp: fail_started_jump_begin_def exc_elims split: option.splits)
  with assms(2) show ?thesis by (simp add: needs_bridge_def)
next
  case (Some b)
  with assms(1) show ?thesis
    by (auto simp: fail_started_jump_begin_def split: option.splits dest: close_begin_bridge)
qed

lemma start_failed_waits:
  assumes "start_failed now e s = (Inr (Some w), s')" "task_after t = None"
  shows "wait_ok t w s'"
proof -
  have "\<exists>c u. await_close (ThenExit 1) c u = (Inr (Some w), s') \<and>
      (\<forall>d. c = Some d \<longrightarrow> needs_bridge (Closing d (ThenExit 1)) \<longrightarrow> ss_bridge u \<noteq> None)"
  proof (cases "is_ssh_server_error e")
    case True
    with assms(1) show ?thesis by (auto simp: start_failed_def intro!: exI [of _ None])
  next
    case False
    with assms(1) obtain c u where "fail_started_jump_begin (str ''node process start failed'') now s = (Inr c, u)"
      "await_close (ThenExit 1) c u = (Inr (Some w), s')"
      by (auto simp: start_failed_def exc_elims split: if_splits)
    then show ?thesis using fail_begin_bridge by (intro exI [of _ c] exI [of _ u]) auto
  qed
  with assms(2) show ?thesis by (auto intro: await_close_waits)
qed

lemma run_task_waits:
  assumes run: "run_task cfg f now audit_id t s = (Inr (Some w), s')"
  shows "wait_ok t w s'"
proof (cases t)
  case (StartExec command)
  with run show ?thesis
    by (auto simp: run_task_def wait_ok_def task_defs is_created_def split: prod.splits)
next
  case (JumpStarted r)
  then show ?thesis
  proof (cases r)
    case (Inl e)
    with JumpStarted run show ?thesis
      by (intro start_failed_waits [of now e s]) (simp_all add: run_task_def jump_started_def task_after_def)
  next
    case (Inr j)
    with JumpStarted run show ?thesis
      by (auto simp: run_task_def jump_started_def wait_ok_def task_defs is_created_def split: prod.splits)
  qed
next
  case (ProcessCreated r)
  have a: "task_after t = None" using ProcessCreated by (simp add: task_after_def)
  have "\<exists>e u. start_failed now e u = (Inr (Some w), s')"
    using ProcessCreated run
    by (cases r) (auto simp: run_task_def process_created_def stry_def sbind_def split: prod.splits sum.splits if_splits)
  with a show ?thesis using start_failed_waits by blast
next
  case (ProcessClosed)
  show ?thesis
  proof (cases "ss_bridge s")
    case None
    with run ProcessClosed show ?thesis by (simp add: run_task_def process_closed_def await_close_def)
  next
    case (Some b)
    with run ProcessClosed obtain c u where "on_bridge (bridge_close_begin CLOSED now None) s = (Inr c, u)"
      "await_close (ThenExit 0) c u = (Inr (Some w), s')"
      by (auto simp: run_task_def process_closed_def exc_elims)
    then show ?thesis using close_begin_bridge ProcessClosed
      by (intro await_close_waits [of "ThenExit 0" c u]) (auto simp: task_after_def)
  qed
next
  case (CloseLost exc lost)
  with run obtain m c u where "on_bridge m s = (Inr c, u)" "await_close ThenReturn c u = (Inr (Some w), s')"
    by (auto simp: run_task_def close_lost_def exc_elims)
  then show ?thesis using close_begin_bridge CloseLost
    by (intro await_close_waits [of ThenReturn c u]) (auto simp: task_after_def)
next
  case (FailJump err)
  with run obtain c u where "fail_started_jump_begin err now s = (Inr c, u)" "await_close OfFailure c u = (Inr (Some w), s')"
    by (auto simp: run_task_def exc_elims)
  then show ?thesis using fail_begin_bridge FailJump
    by (intro await_close_waits [of OfFailure c u]) (auto simp: task_after_def)
next
  case (Closing c a)
  with run show ?thesis by (auto simp: run_task_def exc_elims await_close_def)
next
  case (GotChunk reader chunk)
  with run show ?thesis
    by (auto simp: run_task_def got_chunk_def exc_elims wait_ok_def task_defs is_created_def split: if_splits)
qed (use run in \<open>auto simp: run_task_def exc_elims wait_ok_def task_defs is_created_def\<close>)

section \<open>One step of a task\<close>

definition run_step :: "task \<Rightarrow> ssh_session \<Rightarrow> waiting option result \<Rightarrow> ssh_session \<Rightarrow> bool" where
  "run_step t s r s' \<longleftrightarrow> bridge_ok s' \<and> ss_waiting s' = ss_waiting s \<and> ss_task_failed s' = ss_task_failed s \<and>
     ss_channel s' = ss_channel s \<and> prefix (ss_user s) (ss_user s') \<and>
     (ss_bridge s \<noteq> None \<longrightarrow> ss_bridge s' \<noteq> None) \<and> (ss_started s \<noteq> None \<longrightarrow> ss_started s' \<noteq> None) \<and>
     (ss_bridge s = None \<longrightarrow> ss_bridge s' \<noteq> None \<longrightarrow> is_created t) \<and>
     (\<exists>extra. ss_ready s' = ss_ready s @ extra \<and> (extra = [] \<or> extra = pumps)) \<and>
     subseq (sent s' @ queued s') (sent s @ payload_of t @ queued s) \<and>
     (\<not> exit_waits r s' \<longrightarrow> sent s' @ queued s' = sent s @ payload_of t @ queued s)"

lemma pumps_no_input [simp]: "List.map_filter task_input pumps = []"
  by (simp add: pumps_def List.map_filter_simps task_input_def)

lemma quiet_run_step:
  assumes q: "quiet_step (payload_of t) s r s'" and ok: "bridge_ok s"
    and n: "payload_of t \<noteq> [] \<Longrightarrow> ss_bridge s \<noteq> None"
  shows "run_step t s r s'"
proof -
  obtain ws where ws: "sent s' = sent s @ ws" "subseq ws (payload_of t)" "(\<exists>x. r = Inr x) \<longrightarrow> ws = payload_of t"
    using q by (auto simp: quiet_step_def)
  have l: "local_state s' = local_state s" and r: "rel_option same_bridge (ss_bridge s) (ss_bridge s')"
    and u: "prefix (ss_user s) (ss_user s')"
    using q by (simp_all add: quiet_step_def)
  have b: "ss_bridge s' = None \<longleftrightarrow> ss_bridge s = None"
    using r by (cases "ss_bridge s"; cases "ss_bridge s'") auto
  have queue: "queued s' = queued s" using l b by (simp add: queued_def local_state_def)
  have "subseq (sent s' @ queued s') (sent s @ payload_of t @ queued s)"
    using ws queue by (simp add: list_emb_append_mono)
  moreover have "sent s' @ queued s' = sent s @ payload_of t @ queued s" if "\<not> exit_waits r s'"
  proof -
    from that have "\<exists>x. r = Inr x" by (cases r) (auto simp: exit_waits_def)
    with ws queue show ?thesis by simp
  qed
  ultimately show ?thesis
    using quiet_bridge_ok [OF q ok] l b u
    unfolding run_step_def by (auto simp: local_state_def)
qed

lemma run_task_step:
  assumes k: "\<And>f now c w h. keeps jw_channel (sc_start_exec cfg f now c w h)"
    and ok: "bridge_ok s" and nb: "needs_bridge t \<Longrightarrow> ss_bridge s \<noteq> None"
    and st: "starting t \<Longrightarrow> ss_bridge s = None" and cr: "is_created t \<Longrightarrow> ss_started s \<noteq> None"
    and run: "run_task cfg f now audit_id t s = (r, s')"
  shows "run_step t s r s'"
proof (cases "(\<exists>j. t = JumpStarted (Inr j)) \<or> (\<exists>u. t = ProcessCreated (Inr u))")
  case False
  then have "writes_from s (payload_of t) (run_task cfg f now audit_id t)"
    using k nb by (intro run_task_writes) auto
  with ok run have "quiet_step (payload_of t) s r s'" by (simp add: writes_from_def)
  moreover have "ss_bridge s \<noteq> None" if "payload_of t \<noteq> []"
    using that nb by (cases t) (simp_all add: payload_of_def needs_bridge_def)
  ultimately show ?thesis using ok by (intro quiet_run_step)
next
  case True
  then consider j where "t = JumpStarted (Inr j)" | u where "t = ProcessCreated (Inr u)" by blast
  then show ?thesis
  proof cases
    case 1
    with run ok show ?thesis
      by (auto simp: run_task_def jump_started_def jump_channel_def node_do_def run_step_def bridge_ok_def
          sent_def node_calls_def queued_def payload_of_def split: prod.splits)
  next
    case 2
    have n: "ss_bridge s = None" using st 2 by (simp add: starting_def)
    obtain j where j: "ss_started s = Some j" using cr 2 by (auto simp: is_created_def)
    have "process_created cfg now s = (r, s')" using run 2 by (simp add: run_task_def)
    then obtain ws where p: "start_frame j (s\<lparr>ss_ready := ss_ready s'\<rparr>) s'" "sent s' = sent s @ ws"
      "subseq ws (ss_pending_input s)"
      "(r = Inr None \<and> ss_ready s' = ss_ready s @ pumps \<and> ws = ss_pending_input s) \<or>
       (exit_waits r s' \<and> ss_ready s' = ss_ready s)"
      using process_created_run [OF _ j n] by blast
    let ?in = "List.map_filter task_input"
    have q: "queued s = ss_pending_input s @ ?in (ss_ready s)" using n by (simp add: queued_def)
    have q': "queued s' = ?in (ss_ready s)"
      using p(1,4) by (auto simp: queued_def start_frame_def)
    have "subseq (sent s' @ queued s') (sent s @ queued s)"
      using p(2,3) q q' by (simp add: list_emb_append_mono)
    moreover have "\<not> exit_waits r s' \<longrightarrow> sent s' @ queued s' = sent s @ queued s"
      using p(2,4) q q' by auto
    moreover have "\<exists>extra. ss_ready s' = ss_ready s @ extra \<and> (extra = [] \<or> extra = pumps)"
      using p(4) by auto
    ultimately show ?thesis
      using p(1) n 2 unfolding run_step_def
      by (simp add: start_frame_def payload_of_def is_created_def j) 
  qed
qed

lemma closing_result:
  assumes run: "run_task cfg f now audit_id t s = (Inr None, s')" and a: "task_after t = Some (ThenExit n)"
    and ok: "bridge_ok s" and nb: "needs_bridge t \<Longrightarrow> ss_bridge s \<noteq> None" and ch: "ss_channel s"
  shows "ChannelExit n \<in> set (ss_user s')"
proof -
  obtain c where t: "t = Closing c (ThenExit n)"
    using a by (cases t) (auto simp: task_after_def)
  with run obtain u x where e: "closing_end cfg audit_id now c s = (Inr x, u)"
    "await_close (ThenExit n) None u = (Inr None, s')"
    by (auto simp: run_task_def exc_elims)
  have "writes_from s [] (closing_end cfg audit_id now c)"
    using t nb by (intro closing_end_writes) simp
  with ok e(1) have "ss_channel u = ss_channel s"
    by (simp add: writes_from_def quiet_step_def local_state_def)
  with e(2) ch show ?thesis
    by (auto simp: await_close_def then_after_def ssh_exit_def)
qed

section \<open>The invariant of a session\<close>

definition ready_task :: "handle \<Rightarrow> task option" where
  "ready_task h = (case h of Run t \<Rightarrow> Some t | Done _ \<Rightarrow> None)"

definition tasks :: "ssh_session \<Rightarrow> task list" where
  "tasks s = List.map_filter ready_task (ss_ready s) @ map (resumed (Inr [])) (ss_waiting s)"

definition starts :: "ssh_session \<Rightarrow> nat" where
  "starts s = length (filter starting (tasks s))"

definition was_lost :: "ssh_event list \<Rightarrow> bool" where
  "was_lost evs \<longleftrightarrow> (\<exists>e \<in> set evs. is_lost e)"

definition task_fine :: "ssh_event list \<Rightarrow> ssh_session \<Rightarrow> task \<Rightarrow> bool" where
  "task_fine evs s t \<longleftrightarrow> (needs_bridge t \<longrightarrow> ss_bridge s \<noteq> None) \<and> (is_created t \<longrightarrow> ss_started s \<noteq> None) \<and>
     (task_after t = Some ThenReturn \<longrightarrow> was_lost evs) \<and> (task_after t = Some OfFailure \<longrightarrow> ss_task_failed s)"

text \<open>Something has ended the session or is about to.\<close>

definition ending :: "ssh_event list \<Rightarrow> ssh_session \<Rightarrow> bool" where
  "ending evs s \<longleftrightarrow> ss_task_failed s \<or> (\<exists>e. Done e \<in> set (ss_ready s)) \<or> was_lost evs \<or>
     (\<exists>t \<in> set (tasks s). task_after t \<noteq> None) \<or> (\<exists>n. ChannelExit n \<in> set (ss_user s))"

definition session_inv :: "ssh_event list \<Rightarrow> ssh_session \<Rightarrow> bool" where
  "session_inv evs s \<longleftrightarrow> bridge_ok s \<and> ss_channel s \<and> (\<forall>t \<in> set (tasks s). task_fine evs s t) \<and>
     starts s \<le> 1 \<and> (ss_bridge s \<noteq> None \<longrightarrow> starts s = 0) \<and>
     ((\<forall>e \<in> set evs. \<not> is_exec e) \<longrightarrow> starts s = 0 \<and> ss_bridge s = None) \<and>
     subseq (sent s @ queued s) (received evs) \<and>
     (\<not> ending evs s \<longrightarrow> sent s @ queued s = received evs)"

lemma session_invD:
  assumes "session_inv evs s"
  shows "bridge_ok s" "ss_channel s" "\<And>t. t \<in> set (tasks s) \<Longrightarrow> task_fine evs s t" "starts s \<le> 1"
    "ss_bridge s \<noteq> None \<Longrightarrow> starts s = 0"
    "(\<forall>e \<in> set evs. \<not> is_exec e) \<Longrightarrow> starts s = 0 \<and> ss_bridge s = None"
    "subseq (sent s @ queued s) (received evs)" "\<not> ending evs s \<Longrightarrow> sent s @ queued s = received evs"
  using assms unfolding session_inv_def by blast+

lemma tasks_simps:
  "tasks (s\<lparr>ss_ready := Run t # hs\<rparr>) = t # tasks (s\<lparr>ss_ready := hs\<rparr>)"
  "tasks (s\<lparr>ss_ready := Done e # hs\<rparr>) = tasks (s\<lparr>ss_ready := hs\<rparr>)"
  by (simp_all add: tasks_def List.map_filter_simps ready_task_def)

lemma tasks_append: "set (tasks (s\<lparr>ss_waiting := ss_waiting s @ [w]\<rparr>)) = set (tasks s) \<union> {resumed (Inr []) w}"
  by (auto simp: tasks_def)

lemma starts_append:
  "starts (s\<lparr>ss_waiting := ss_waiting s @ [w]\<rparr>) = starts s + (if starting (resumed (Inr []) w) then 1 else 0)"
  by (simp add: starts_def tasks_def)

lemma map_filter_is_done [simp]: "List.map_filter ready_task (filter is_done hs) = []"
  "List.map_filter task_input (filter is_done hs) = []"
  by (induction hs) (auto simp: List.map_filter_simps is_done_def ready_task_def task_input_def split: handle.splits)

lemma cancelled [simp]: "tasks (cancel_all s) = []" "starts (cancel_all s) = 0"
  by (simp_all add: tasks_def cancel_all_def starts_def)

lemma pumps_tasks: "t \<in> set (List.map_filter ready_task pumps) \<Longrightarrow>
    \<not> needs_bridge t \<and> \<not> is_created t \<and> task_after t = None \<and> \<not> starting t"
  "filter starting (List.map_filter ready_task pumps) = []" "Done e \<notin> set pumps"
  by (auto simp: pumps_def List.map_filter_simps ready_task_def task_defs is_created_def)

lemma create_pump_simps:
  "tasks (create_pump t s) = List.map_filter ready_task (ss_ready s) @ t # map (resumed (Inr [])) (ss_waiting s)"
  "ss_bridge (create_pump t s) = ss_bridge s" "ss_started (create_pump t s) = ss_started s"
  "ss_channel (create_pump t s) = ss_channel s" "ss_task_failed (create_pump t s) = ss_task_failed s"
  "ss_user (create_pump t s) = ss_user s" "sent (create_pump t s) = sent s"
  "set (ss_ready (create_pump t s)) = insert (Run t) (set (ss_ready s))"
  "queued (create_pump t s) = queued s @ payload_of t"
  by (simp_all add: tasks_def create_pump_def List.map_filter_simps ready_task_def sent_def node_calls_def
      queued_def task_input_def payload_of_def split: task.split)

lemma starts_create_pump: "starts (create_pump t s) = starts s + (if starting t then 1 else 0)"
  by (simp add: starts_def create_pump_simps) (simp add: tasks_def)

lemma set_tasks_create_pump: "set (tasks (create_pump t s)) = insert t (set (tasks s))"
  unfolding create_pump_simps(1) by (auto simp: tasks_def)

lemma received_snoc: "received (evs @ [ev]) = received evs @ (case received_one ev of None \<Rightarrow> [] | Some p \<Rightarrow> [p])"
  by (simp add: received_def List.map_filter_simps split: option.split)

text \<open>An event that is neither an exec request, nor the loss of the connection, nor input.\<close>

definition plain_event :: "ssh_event \<Rightarrow> bool" where
  "plain_event ev \<longleftrightarrow> \<not> is_exec ev \<and> \<not> is_lost ev \<and> received_one ev = None"

lemma plain_events [simp]:
  "plain_event (PtyRequested tt z)" "plain_event EofReceived" "plain_event (TerminalSizeChanged w h pw ph)"
  "plain_event (Wake i c)" "plain_event (RunNext f now a)"
  by (simp_all add: plain_event_def is_exec_def is_lost_def received_one_def)

lemma inv_plain_event:
  assumes "plain_event ev"
  shows "session_inv (evs @ [ev]) s \<longleftrightarrow> session_inv evs s"
proof -
  have w: "was_lost (evs @ [ev]) = was_lost evs" "received (evs @ [ev]) = received evs"
    "(\<forall>e \<in> set (evs @ [ev]). \<not> is_exec e) = (\<forall>e \<in> set evs. \<not> is_exec e)"
    using assms by (auto simp: plain_event_def was_lost_def received_snoc)
  show ?thesis unfolding session_inv_def task_fine_def ending_def w ..
qed

text \<open>Only the fields the invariant reads matter.\<close>

lemma inv_cong:
  assumes "ss_bridge s' = ss_bridge s" "ss_started s' = ss_started s" "ss_channel s' = ss_channel s"
    "ss_task_failed s' = ss_task_failed s" "ss_user s' = ss_user s" "sent s' = sent s"
    "ss_ready s' = ss_ready s" "ss_waiting s' = ss_waiting s" "ss_pending_input s' = ss_pending_input s"
  shows "session_inv evs s' \<longleftrightarrow> session_inv evs s"
  unfolding session_inv_def task_fine_def ending_def tasks_def starts_def queued_def bridge_ok_def assms ..

lemma wake_inv:
  assumes inv: "session_inv evs s"
  shows "session_inv evs (wake i chunk s)"
proof (cases "i < length (ss_waiting s)")
  case False
  with inv show ?thesis by (simp add: wake_def)
next
  case True
  define w where "w = ss_waiting s ! i"
  define s1 where "s1 = s\<lparr>ss_waiting := take i (ss_waiting s) @ drop (Suc i) (ss_waiting s)\<rparr>"
  have ws: "ss_waiting s = take i (ss_waiting s) @ w # drop (Suc i) (ss_waiting s)"
    unfolding w_def by (rule id_take_nth_drop [OF True])
  have t: "set (tasks s) = insert (resumed (Inr []) w) (set (tasks s1))"
    unfolding tasks_def by (subst ws) (auto simp: s1_def)
  have n: "starts s = starts s1 + (if starting (resumed (Inr []) w) then 1 else 0)"
    unfolding starts_def tasks_def by (subst ws) (simp add: s1_def)
  have s1: "ss_bridge s1 = ss_bridge s" "ss_started s1 = ss_started s" "ss_channel s1 = ss_channel s"
    "ss_task_failed s1 = ss_task_failed s" "ss_user s1 = ss_user s" "sent s1 = sent s" "ss_ready s1 = ss_ready s"
    "queued s1 = queued s"
    by (simp_all add: s1_def sent_def node_calls_def queued_def)
  have p: "payload_of (resumed chunk w) = []" by (cases w) (simp_all add: payload_of_def resumed_def)
  let ?s = "create_pump (resumed chunk w) s1"
  have e: "ending evs ?s = ending evs s"
    by (auto simp: ending_def create_pump_simps(2-8) set_tasks_create_pump t s1)
  have f: "task_fine evs ?s u = task_fine evs s u" for u
    by (simp add: task_fine_def create_pump_simps s1)
  have g: "task_fine evs s (resumed chunk w) = task_fine evs s (resumed (Inr []) w)"
    by (simp add: task_fine_def)
  have "session_inv evs ?s"
    using inv p g unfolding session_inv_def e f bridge_ok_def
    by (simp add: create_pump_simps(2-9) set_tasks_create_pump starts_create_pump n s1 t)
  then show ?thesis using True by (simp add: wake_def w_def s1_def)
qed

lemma queued_head:
  assumes "task_fine evs s t"
  shows "queued (s\<lparr>ss_ready := Run t # hs\<rparr>) = payload_of t @ queued (s\<lparr>ss_ready := hs\<rparr>)"
  using assms
  by (cases t) (auto simp: task_fine_def needs_bridge_def queued_def List.map_filter_simps task_input_def payload_of_def)

lemma ending_mono:
  assumes "ending evs s" "ss_task_failed s \<longrightarrow> ss_task_failed s'"
    "\<And>e. Done e \<in> set (ss_ready s) \<Longrightarrow> ending evs s'"
    "\<And>t. t \<in> set (tasks s) \<Longrightarrow> task_after t \<noteq> None \<Longrightarrow> ending evs s'"
    "prefix (ss_user s) (ss_user s')"
  shows "ending evs s'"
  using assms unfolding ending_def prefix_def by auto

text \<open>The session after a task has run: it waits, has ended, or has raised.\<close>

definition after_run :: "task \<Rightarrow> waiting option result \<Rightarrow> ssh_session \<Rightarrow> ssh_session" where
  "after_run t r s = (case r of
     Inr None \<Rightarrow> s | Inr (Some w) \<Rightarrow> s\<lparr>ss_waiting := ss_waiting s @ [w]\<rparr>
   | Inl e \<Rightarrow> if of_failure t then s else s\<lparr>ss_ready := ss_ready s @ [Done e]\<rparr>)"

lemma run_handle_task: "run_handle cfg f now audit_id (Run t) s =
    (case run_task cfg f now audit_id t s of (r, s') \<Rightarrow> after_run t r s')"
  by (simp add: run_handle_def after_run_def split: prod.split sum.split option.split)

definition new_wait :: "waiting option result \<Rightarrow> waiting list" where
  "new_wait r = (case r of Inr (Some w) \<Rightarrow> [w] | _ \<Rightarrow> [])"

lemma after_run_simps:
  "ss_bridge (after_run t r s) = ss_bridge s" "ss_started (after_run t r s) = ss_started s"
  "ss_channel (after_run t r s) = ss_channel s" "ss_task_failed (after_run t r s) = ss_task_failed s"
  "ss_user (after_run t r s) = ss_user s" "sent (after_run t r s) = sent s" "queued (after_run t r s) = queued s"
  "tasks (after_run t r s) = tasks s @ map (resumed (Inr [])) (new_wait r)"
  "set (ss_ready s) \<subseteq> set (ss_ready (after_run t r s))"
  by (auto simp: after_run_def sent_def node_calls_def queued_def tasks_def List.map_filter_simps task_input_def
      ready_task_def new_wait_def split: sum.split option.split)

lemma extra_tasks:
  assumes "ss_ready s' = ss_ready s @ extra" "extra = [] \<or> extra = pumps" "ss_waiting s' = ss_waiting s"
  shows "set (tasks s') \<subseteq> set (tasks s) \<union> set (List.map_filter ready_task pumps)"
    "set (tasks s) \<subseteq> set (tasks s')" "starts s' = starts s"
  using assms pumps_tasks(2) by (auto simp: tasks_def starts_def List.map_filter_simps)

lemma of_failure_after: "of_failure t \<longleftrightarrow> task_after t = Some OfFailure"
  by (cases t) (auto simp: of_failure_def task_after_def)

text \<open>What is known after the head \<open>t\<close> of the ready queue of \<open>s\<close> has run to \<open>s'\<close>.\<close>

definition ran :: "ssh_event list \<Rightarrow> task \<Rightarrow> ssh_session \<Rightarrow> waiting option result \<Rightarrow> ssh_session \<Rightarrow> bool" where
  "ran evs t s r s' \<longleftrightarrow> (let s1 = s\<lparr>ss_ready := tl (ss_ready s)\<rparr> in
     tasks s = t # tasks s1 \<and> task_fine evs s t \<and> set (ss_ready s1) \<subseteq> set (ss_ready s') \<and>
     set (tasks s1) \<subseteq> set (tasks s') \<and> set (tasks s') \<subseteq> set (tasks s1) \<union> set (List.map_filter ready_task pumps) \<and>
     starts s' = starts s1 \<and> run_step t s1 r s' \<and> queued s = payload_of t @ queued s1 \<and>
     (\<forall>w. r = Inr (Some w) \<longrightarrow> wait_ok t w s') \<and>
     (\<forall>n. r = Inr None \<longrightarrow> task_after t = Some (ThenExit n) \<longrightarrow> ChannelExit n \<in> set (ss_user s')))"

lemma ready_only [simp]:
  "ss_bridge (s\<lparr>ss_ready := hs\<rparr>) = ss_bridge s" "sent (s\<lparr>ss_ready := hs\<rparr>) = sent s"
  "bridge_ok (s\<lparr>ss_ready := hs\<rparr>) = bridge_ok s"
  by (simp_all add: sent_def node_calls_def bridge_ok_def)

lemma run_task_ran:
  assumes k: "\<And>f now c w h. keeps jw_channel (sc_start_exec cfg f now c w h)"
    and inv: "session_inv evs s" and head: "ss_ready s = Run t # hs"
    and run: "run_task cfg f now audit_id t (s\<lparr>ss_ready := hs\<rparr>) = (r, s')"
  shows "ran evs t s r s'"
proof -
  have s: "s\<lparr>ss_ready := Run t # hs\<rparr> = s" using head by simp
  have ts: "tasks s = t # tasks (s\<lparr>ss_ready := hs\<rparr>)"
    using tasks_simps(1) [where s = s and t = t and hs = hs] by (simp only: s)
  note I = session_invD [OF inv]
  have fine: "task_fine evs s t" using I(3) ts by simp
  have q: "queued s = payload_of t @ queued (s\<lparr>ss_ready := hs\<rparr>)"
    using queued_head [of evs s t hs] fine by (simp only: s)
  have "ss_bridge s = None" if "starting t" using that ts I(5) by (cases "ss_bridge s") (auto simp: starts_def)
  then have step: "run_step t (s\<lparr>ss_ready := hs\<rparr>) r s'"
    using run fine I(1) by (intro run_task_step [OF k]) (auto simp: task_fine_def)
  then obtain extra where ex: "ss_ready s' = ss_ready (s\<lparr>ss_ready := hs\<rparr>) @ extra" "extra = [] \<or> extra = pumps"
    "ss_waiting s' = ss_waiting (s\<lparr>ss_ready := hs\<rparr>)"
    unfolding run_step_def by blast
  have ch: "ChannelExit n \<in> set (ss_user s')" if "r = Inr None" "task_after t = Some (ThenExit n)" for n
    using run that I(1,2) fine
    by (intro closing_result [where s = "s\<lparr>ss_ready := hs\<rparr>"]) (auto simp: task_fine_def)
  show ?thesis
    unfolding ran_def Let_def head list.sel
    using ts fine q step extra_tasks [OF ex] ex(1) ch run_task_waits run by auto
qed

lemma ranD:
  assumes "ran evs t s r s'"
  shows "tasks s = t # tasks (s\<lparr>ss_ready := tl (ss_ready s)\<rparr>)" "task_fine evs s t"
    "set (tl (ss_ready s)) \<subseteq> set (ss_ready s')" "set (tasks (s\<lparr>ss_ready := tl (ss_ready s)\<rparr>)) \<subseteq> set (tasks s')"
    "set (tasks s') \<subseteq> set (tasks (s\<lparr>ss_ready := tl (ss_ready s)\<rparr>)) \<union> set (List.map_filter ready_task pumps)"
    "starts s = starts s' + (if starting t then 1 else 0)"
    "\<And>w. r = Inr (Some w) \<Longrightarrow> wait_ok t w s'"
    "\<And>n. r = Inr None \<Longrightarrow> task_after t = Some (ThenExit n) \<Longrightarrow> ChannelExit n \<in> set (ss_user s')"
  using assms unfolding ran_def Let_def by (simp_all add: starts_def)

lemma ran_state:
  assumes "ran evs t s r s'"
  shows "bridge_ok s'" "ss_task_failed s' = ss_task_failed s" "ss_channel s' = ss_channel s"
    "prefix (ss_user s) (ss_user s')" "ss_bridge s \<noteq> None \<Longrightarrow> ss_bridge s' \<noteq> None"
    "ss_started s \<noteq> None \<Longrightarrow> ss_started s' \<noteq> None"
    "ss_bridge s = None \<Longrightarrow> ss_bridge s' \<noteq> None \<Longrightarrow> is_created t"
    "subseq (sent s' @ queued s') (sent s @ queued s)"
    "\<not> exit_waits r s' \<Longrightarrow> sent s' @ queued s' = sent s @ queued s"
  using assms unfolding ran_def Let_def run_step_def by simp_all

lemma ran_fine:
  assumes r: "ran evs t s r s'" and all: "\<And>u. u \<in> set (tasks s) \<Longrightarrow> task_fine evs s u"
    and u: "u \<in> set (tasks (after_run t r s'))"
  shows "task_fine evs (after_run t r s') u"
proof -
  note R = ranD [OF r] and S = ran_state [OF r]
  consider "u \<in> set (tasks (s\<lparr>ss_ready := tl (ss_ready s)\<rparr>))" | "u \<in> set (List.map_filter ready_task pumps)"
    | w where "r = Inr (Some w)" "u = resumed (Inr []) w" "wait_ok t w s'"
    using u R(5,7) by (auto simp: after_run_simps new_wait_def split: sum.splits option.splits)
  then show ?thesis
  proof cases
    case 1
    with all R(1) have "task_fine evs s u" by simp
    then show ?thesis using S(2,5,6) by (auto simp: task_fine_def after_run_simps)
  next
    case 2
    then show ?thesis using pumps_tasks(1) [of u] by (simp add: task_fine_def)
  next
    case 3
    have w: "task_after u = Some a \<Longrightarrow> (\<exists>n. a = ThenExit n) \<or> task_after t = Some a"
      "needs_bridge u \<Longrightarrow> ss_bridge s' \<noteq> None" "is_created u \<Longrightarrow> ss_started s' \<noteq> None" for a
      using 3(3) unfolding wait_ok_def Let_def 3(2) [symmetric] by blast+
    have "task_after u = Some ThenReturn \<Longrightarrow> task_after t = Some ThenReturn"
      "task_after u = Some OfFailure \<Longrightarrow> task_after t = Some OfFailure"
      using w(1) [of ThenReturn] w(1) [of OfFailure] by auto
    with w(2,3) R(2) S(2) show ?thesis by (simp add: task_fine_def after_run_simps)
  qed
qed

lemma ran_close_ending:
  assumes r: "ran evs t s r s'" and a: "task_after t = Some a"
  shows "ending evs (after_run t r s')"
proof -
  note R = ranD [OF r] and S = ran_state [OF r]
  consider (over) "a = ThenReturn \<or> a = OfFailure" | (exit) n where "a = ThenExit n"
    by (cases a) auto
  then show ?thesis
  proof cases
    case over
    then show ?thesis using R(2) a S(2) by (auto simp: ending_def task_fine_def after_run_simps)
  next
    case exit
    consider e where "r = Inl e" | "r = Inr None" | w where "r = Inr (Some w)"
      by (metis option.exhaust sum.exhaust)
    then show ?thesis
    proof cases
      case 1
      then show ?thesis using a exit by (auto simp: ending_def after_run_def of_failure_after)
    next
      case 2
      then show ?thesis using R(8) a exit by (auto simp: ending_def after_run_simps)
    next
      case 3
      then have "task_after (resumed (Inr []) w) \<noteq> None"
        using R(7) [of w] a by (simp add: wait_ok_def Let_def)
      then show ?thesis using 3 by (auto simp: ending_def after_run_simps new_wait_def)
    qed
  qed
qed

lemma ran_ending:
  assumes r: "ran evs t s r s'" and head: "ss_ready s = Run t # hs" and e: "ending evs s"
  shows "ending evs (after_run t r s')"
proof (rule ending_mono [OF e])
  note R = ranD [OF r] and S = ran_state [OF r]
  show "ss_task_failed s \<longrightarrow> ss_task_failed (after_run t r s')" using S(2) by (simp add: after_run_simps)
  show "prefix (ss_user s) (ss_user (after_run t r s'))" using S(4) by (simp add: after_run_simps)
  show "ending evs (after_run t r s')" if "Done e \<in> set (ss_ready s)" for e
    using that head R(3) after_run_simps(9) [of s' t r] by (auto simp: ending_def)
  show "ending evs (after_run t r s')" if "u \<in> set (tasks s)" "task_after u \<noteq> None" for u
  proof (cases "u = t")
    case True
    with that show ?thesis using ran_close_ending [OF r] by blast
  next
    case False
    with that R(1,4) have "u \<in> set (tasks (after_run t r s'))" by (auto simp: after_run_simps)
    with that show ?thesis by (auto simp: ending_def)
  qed
qed

lemma ran_exit_ending:
  assumes r: "ran evs t s r s'" and ch: "ss_channel s" and x: "exit_waits r s'"
  shows "ending evs (after_run t r s')"
proof -
  from x ch ran_state(3) [OF r] consider e where "r = Inl e" | c n where "r = Inr (Some (OnClose c (ThenExit n)))"
    | n where "r = Inr None" "ChannelExit n \<in> set (ss_user s')"
    by (auto simp: exit_waits_def)
  then show ?thesis
  proof cases
    case 1
    then show ?thesis using ranD(2) [OF r] ran_state(2) [OF r]
      by (cases "of_failure t") (auto simp: ending_def after_run_def of_failure_after task_fine_def)
  next
    case 2
    then show ?thesis by (auto simp: ending_def after_run_simps new_wait_def resumed_def task_after_def)
  next
    case 3
    then show ?thesis by (auto simp: ending_def after_run_simps)
  qed
qed

lemma ran_starts:
  assumes r: "ran evs t s r s'" and inv: "session_inv evs s"
  shows "starts (after_run t r s') \<le> starts s" "ss_bridge s' \<noteq> None \<Longrightarrow> starts (after_run t r s') = 0"
proof -
  note R = ranD [OF r] and S = ran_state [OF r] and I = session_invD [OF inv]
  have n: "starts (after_run t r s') =
      starts s' + (if \<exists>w. r = Inr (Some w) \<and> starting (resumed (Inr []) w) then 1 else 0)"
    by (auto simp: starts_def after_run_simps new_wait_def split: sum.split option.split)
  have w: "starting t \<and> \<not> is_created t" if "r = Inr (Some w)" "starting (resumed (Inr []) w)" for w
    using R(7) [OF that(1)] that(2) by (auto simp: wait_ok_def Let_def starting_def is_created_def)
  show le: "starts (after_run t r s') \<le> starts s" using n R(6) w by (auto split: if_splits)
  show "starts (after_run t r s') = 0" if b: "ss_bridge s' \<noteq> None"
  proof (cases "ss_bridge s = None")
    case True
    then have c: "is_created t" using S(7) b by blast
    then have "starting t" by (cases t) (simp_all add: is_created_def starting_def)
    with R(6) I(4) have "starts s' = 0" by simp
    with n w c show ?thesis by auto
  next
    case False
    then show ?thesis using I(5) le by simp
  qed
qed

lemma run_task_inv:
  assumes inv: "session_inv evs s" and head: "ss_ready s = Run t # hs" and r: "ran evs t s r s'"
  shows "session_inv evs (after_run t r s')"
proof -
  note R = ranD [OF r] and S = ran_state [OF r] and I = session_invD [OF inv]
  note A = after_run_simps(1-7)
  have "ss_bridge s' = None" if "\<forall>e\<in>set evs. \<not> is_exec e"
  proof (rule ccontr)
    assume "ss_bridge s' \<noteq> None"
    moreover have "ss_bridge s = None" using I(6) that by simp
    ultimately have "is_created t" using S(7) by simp
    then have "starting t" by (cases t) (simp_all add: is_created_def starting_def)
    with R(6) I(6) that show False by simp
  qed
  moreover have "subseq (sent s' @ queued s') (received evs)"
    using S(8) I(7) subseq_order.trans by blast
  moreover have "sent s' @ queued s' = received evs" if "\<not> ending evs (after_run t r s')"
    using that ran_ending [OF r head] ran_exit_ending [OF r I(2)] S(9) I(8) by metis
  moreover have "starts (after_run t r s') \<le> 1" "(\<forall>e\<in>set evs. \<not> is_exec e) \<longrightarrow> starts (after_run t r s') = 0"
    using ran_starts(1) [OF r inv] I(4,6) by auto
  ultimately show ?thesis
    unfolding session_inv_def A bridge_ok_def
    using ran_starts(2) [OF r inv] ran_fine [OF r I(3)] S(1,3) I(2) by (auto simp: bridge_ok_def)
qed

lemma no_input_queued:
  assumes "\<And>t. t \<in> set (tasks s) \<Longrightarrow> task_fine evs s t" "ss_bridge s = None"
  shows "List.map_filter task_input (ss_ready s) = []"
proof -
  have "task_input h = None" if "h \<in> set (ss_ready s)" for h
  proof (cases h)
    case (Run t)
    with that have "t \<in> set (List.map_filter ready_task (ss_ready s))"
      by (force simp: List.map_filter_def ready_task_def)
    then have "task_fine evs s t" using assms(1) by (simp add: tasks_def)
    with assms(2) Run show ?thesis
      by (cases t) (auto simp: task_fine_def needs_bridge_def task_input_def)
  qed (simp add: task_input_def)
  then show ?thesis by (induction "ss_ready s") (auto simp: List.map_filter_def)
qed

lemma exec_inv:
  assumes inv: "session_inv evs s" and ok: "asyncssh_allows evs (ExecRequested command)"
  shows "session_inv (evs @ [ExecRequested command]) (create_pump (StartExec command) s)"
proof -
  note I = session_invD [OF inv]
  have n: "\<forall>e \<in> set evs. \<not> is_exec e" using ok by (auto simp: asyncssh_allows_def is_loop_def is_exec_def)
  have l: "was_lost (evs @ [ExecRequested command]) = was_lost evs"
    "received (evs @ [ExecRequested command]) = received evs"
    by (simp_all add: was_lost_def is_lost_def received_snoc received_one_def)
  have e: "ending (evs @ [ExecRequested command]) (create_pump (StartExec command) s) = ending evs s"
    by (auto simp: ending_def l create_pump_simps(2-8) set_tasks_create_pump task_after_def)
  have f: "task_fine (evs @ [ExecRequested command]) (create_pump (StartExec command) s) u = task_fine evs s u" for u
    by (simp add: task_fine_def l create_pump_simps)
  show ?thesis
    unfolding session_inv_def e f l
    using I(1,2,3,7,8) I(6) [OF n]
    by (auto simp: create_pump_simps(2-9) set_tasks_create_pump starts_create_pump task_fine_def task_defs
        is_created_def bridge_ok_def is_exec_def)
qed

lemma data_inv:
  assumes inv: "session_inv evs s"
  shows "session_inv (evs @ [DataReceived now d]) (snd (data_received cfg now d s))"
proof -
  note I = session_invD [OF inv]
  let ?ev = "DataReceived now d"
  have l: "was_lost (evs @ [?ev]) = was_lost evs" "(\<forall>e \<in> set (evs @ [?ev]). \<not> is_exec e) = (\<forall>e \<in> set evs. \<not> is_exec e)"
    by (auto simp: was_lost_def is_lost_def is_exec_def)
  show ?thesis
  proof (cases "user_payload d")
    case (Inl e)
    then have "plain_event ?ev" by (simp add: plain_event_def is_exec_def is_lost_def received_one_def)
    with Inl inv show ?thesis by (simp add: inv_plain_event data_received_def sbind_def)
  next
    case (Inr p)
    have r: "received (evs @ [?ev]) = received evs @ [p]" using Inr by (simp add: received_snoc received_one_def)
    have sub: "subseq (sent s @ queued s @ [p]) (received evs @ [p])"
      using list_emb_append_mono [OF I(7), of "[p]" "[p]"] by simp
    show ?thesis
    proof (cases "ss_bridge s")
      case None
      let ?s = "s\<lparr>ss_pending_input := ss_pending_input s @ [p]\<rparr>"
      have q: "queued ?s = queued s @ [p]"
        using None no_input_queued [OF I(3) None] by (simp add: queued_def)
      have t: "tasks ?s = tasks s" "starts ?s = starts s" "sent ?s = sent s"
        by (simp_all add: tasks_def starts_def sent_def node_calls_def)
      have f: "task_fine (evs @ [?ev]) ?s u = task_fine evs s u" "ending (evs @ [?ev]) ?s = ending evs s" for u
        by (simp_all add: task_fine_def ending_def l t)
      have "session_inv (evs @ [?ev]) ?s"
        unfolding session_inv_def l r f t q using I sub by (auto simp: bridge_ok_def)
      then show ?thesis using Inr None by (simp add: data_received_def sbind_def)
    next
      case (Some b)
      let ?t = "SendInput (elapsed_seconds cfg now s) p"
      let ?s = "create_pump ?t s"
      have q: "queued ?s = queued s @ [p]" "starts ?s = starts s"
        by (simp_all add: create_pump_simps(9) payload_of_def starts_create_pump starting_def)
      have f: "task_fine (evs @ [?ev]) ?s u = task_fine evs s u" for u
        by (simp add: task_fine_def l create_pump_simps)
      have e: "ending (evs @ [?ev]) ?s = ending evs s"
        by (auto simp: ending_def l create_pump_simps(2-8) set_tasks_create_pump task_after_def)
      have "task_fine evs s ?t" using Some by (simp add: task_fine_def task_defs is_created_def)
      then have "session_inv (evs @ [?ev]) ?s"
        unfolding session_inv_def l r f e q using I
        by (auto simp: bridge_ok_def create_pump_simps(2-8) set_tasks_create_pump sub)
      then show ?thesis using Inr Some by (simp add: data_received_def sbind_def)
    qed
  qed
qed

lemma lost_inv:
  assumes inv: "session_inv evs s"
  shows "session_inv (evs @ [ConnectionLost exc now]) (snd (connection_lost exc now s))"
proof -
  note I = session_invD [OF inv]
  let ?evs = "evs @ [ConnectionLost exc now]"
  have l: "was_lost ?evs" "received ?evs = received evs" "(\<forall>e \<in> set ?evs. \<not> is_exec e) = (\<forall>e \<in> set evs. \<not> is_exec e)"
    by (auto simp: was_lost_def is_lost_def received_snoc received_one_def is_exec_def)
  have c: "ss_bridge (cancel_all s) = ss_bridge s" "ss_channel (cancel_all s)" "bridge_ok (cancel_all s)"
    "sent (cancel_all s) = sent s" "queued (cancel_all s) = (if ss_bridge s = None then ss_pending_input s else [])"
    using I(1,2) by (auto simp: cancel_all_def bridge_ok_def sent_def node_calls_def queued_def)
  have "subseq (queued (cancel_all s)) (queued s)" unfolding c(5) by (auto simp: queued_def)
  then have q: "subseq (sent s @ queued (cancel_all s)) (received evs)"
    using I(7) list_emb_append_mono [of "(=)" "sent s" "sent s"] subseq_order.trans by blast
  show ?thesis
    using I(6) l c q
    by (auto simp: session_inv_def connection_lost_def ending_def create_pump_simps(2-9) set_tasks_create_pump
        starts_create_pump bridge_ok_def task_fine_def task_defs is_created_def)
qed

lemma pump_done_inv:
  assumes "bridge_ok s" "ss_channel s" "(\<forall>e \<in> set evs. \<not> is_exec e) \<Longrightarrow> ss_bridge s = None"
    and sub: "subseq (sent s @ queued s) (received evs)" and new: "\<not> ss_task_failed s"
  shows "session_inv evs (pump_done s)"
proof -
  define s1 where "s1 = cancel_all (s\<lparr>ss_task_failed := True\<rparr>)"
  define s2 where "s2 = create_pump (FailJump (str ''jump session task failed'')) s1"
  have s1: "tasks s1 = []" "starts s1 = 0" "ss_bridge s1 = ss_bridge s" "sent s1 = sent s" "ss_task_failed s1"
    "ss_channel s1" "queued s1 = (if ss_bridge s = None then ss_pending_input s else [])"
    using assms(2) by (simp_all add: s1_def) (simp_all add: cancel_all_def sent_def node_calls_def queued_def)
  have "subseq (queued s1) (queued s)" unfolding s1(7) by (auto simp: queued_def)
  then have q: "subseq (sent s @ queued s1) (received evs)"
    using sub list_emb_append_mono [of "(=)" "sent s" "sent s"] subseq_order.trans by blast
  have e: "pump_done s = s2\<lparr>ss_user := ss_user s2 @ [ChannelExit 1, ChannelClose]\<rparr>"
    using new s1(6) by (simp add: pump_done_def ssh_exit_def s2_def s1_def create_pump_simps)
  have t: "tasks (s2\<lparr>ss_user := u\<rparr>) = tasks s2" "starts (s2\<lparr>ss_user := u\<rparr>) = starts s2" "sent (s2\<lparr>ss_user := u\<rparr>) = sent s2"
    "queued (s2\<lparr>ss_user := u\<rparr>) = queued s2" for u
    by (simp_all add: tasks_def starts_def sent_def node_calls_def queued_def)
  show ?thesis
    unfolding e session_inv_def t
    using assms(1-3) q s1
    by (auto simp: s2_def create_pump_simps(2-9) set_tasks_create_pump starts_create_pump task_fine_def task_defs
        is_created_def ending_def bridge_ok_def)
qed

lemma done_inv:
  assumes inv: "session_inv evs s" and head: "ss_ready s = Done e # hs"
  shows "session_inv evs (pump_done (s\<lparr>ss_ready := hs\<rparr>))"
proof -
  note I = session_invD [OF inv]
  have s: "s\<lparr>ss_ready := Done e # hs\<rparr> = s" using head by simp
  have t: "tasks (s\<lparr>ss_ready := hs\<rparr>) = tasks s" "starts (s\<lparr>ss_ready := hs\<rparr>) = starts s"
    using tasks_simps(2) [where s = s and e = e and hs = hs] unfolding s by (simp_all add: starts_def)
  have q: "queued (s\<lparr>ss_ready := hs\<rparr>) = queued s"
    using head by (simp add: queued_def List.map_filter_simps task_input_def)
  show ?thesis
  proof (cases "ss_task_failed s")
    case True
    then have "session_inv evs (s\<lparr>ss_ready := hs\<rparr>)"
      unfolding session_inv_def t q using I by (auto simp: task_fine_def ending_def)
    with True show ?thesis by (simp add: pump_done_def)
  next
    case False
    show ?thesis
    proof (rule pump_done_inv)
      show "\<not> ss_task_failed (s\<lparr>ss_ready := hs\<rparr>)" using False by simp
      show "subseq (sent (s\<lparr>ss_ready := hs\<rparr>) @ queued (s\<lparr>ss_ready := hs\<rparr>)) (received evs)" using I(7) by (simp add: q)
    qed (use I(1,2,6) in simp_all)
  qed
qed

lemma run_next_inv:
  assumes k: "\<And>f now c w h. keeps jw_channel (sc_start_exec cfg f now c w h)" and inv: "session_inv evs s"
  shows "session_inv evs (run_next cfg f now audit_id s)"
proof (cases "ss_ready s")
  case Nil
  with inv show ?thesis by (simp add: run_next_def)
next
  case (Cons h hs)
  show ?thesis
  proof (cases h)
    case (Run t)
    obtain r s' where run: "run_task cfg f now audit_id t (s\<lparr>ss_ready := hs\<rparr>) = (r, s')" by fastforce
    have "ran evs t s r s'" using run_task_ran [OF k inv _ run] Cons Run by simp
    then have "session_inv evs (after_run t r s')" using run_task_inv [OF inv] Cons Run by simp
    then show ?thesis using Cons Run run by (simp add: run_next_def run_handle_task)
  next
    case (Done e)
    then show ?thesis using done_inv [OF inv] Cons by (simp add: run_next_def run_handle_def)
  qed
qed

context exec_handler
begin

lemma step_inv:
  assumes inv: "session_inv evs s" and ok: "asyncssh_allows evs ev"
  shows "session_inv (evs @ [ev]) (ssh_step cfg ev s)"
proof (cases ev)
  case (PtyRequested tt z)
  have "session_inv evs (s\<lparr>ss_term_type := tt, ss_term_size := z\<rparr>)"
    using inv by (rule inv_cong [THEN iffD2, rotated 9]) (simp_all add: sent_def node_calls_def)
  with PtyRequested show ?thesis by (simp add: inv_plain_event ssh_step_def pty_requested_def)
next
  case (ExecRequested command)
  with exec_inv [OF inv] ok show ?thesis by (simp add: ssh_step_def exec_requested_def)
next
  case (DataReceived now d)
  with data_inv [OF inv] show ?thesis by (simp add: ssh_step_def)
next
  case EofReceived
  have "session_inv evs (snd (eof_received s))"
    using inv by (rule inv_cong [THEN iffD2, rotated 9])
      (simp_all add: eof_received_def on_node_def on_world_def jump_channel_def
        node_do_def sbind_def sent_def node_calls_def split_beta split: sum.split)
  with EofReceived show ?thesis by (simp add: inv_plain_event ssh_step_def)
next
  case (TerminalSizeChanged w h pw ph)
  let ?s = "s\<lparr>ss_term_size := (w, h, pw, ph)\<rparr>"
  have i: "session_inv evs ?s"
    using inv by (rule inv_cong [THEN iffD2, rotated 9]) (simp_all add: sent_def node_calls_def)
  have "session_inv evs (create_pump (ResizePty w h) ?s)" if "ss_bridge ?s \<noteq> None"
    using session_invD [OF i] that
    by (auto simp: session_inv_def create_pump_simps(2-9) set_tasks_create_pump starts_create_pump task_fine_def
        task_defs is_created_def ending_def bridge_ok_def)
  with i TerminalSizeChanged show ?thesis
    by (simp add: inv_plain_event ssh_step_def terminal_size_changed_def Let_def)
next
  case (ConnectionLost exc now)
  with lost_inv [OF inv] show ?thesis by (simp add: ssh_step_def)
next
  case (Wake i chunk)
  with wake_inv [OF inv] show ?thesis by (simp add: inv_plain_event ssh_step_def)
next
  case (RunNext f now a)
  with run_next_inv [OF start_keeps_node inv] show ?thesis by (simp add: inv_plain_event ssh_step_def)
qed

lemma new_session_inv: "nd_calls (jw_channel w) = [] \<Longrightarrow> session_inv [] (new_ssh_session True w)"
  by (simp add: session_inv_def new_ssh_session_def bridge_ok_def tasks_def starts_def sent_def node_calls_def
      queued_def received_def List.map_filter_simps)

lemma run_inv:
  assumes "ssh_run cfg (new_ssh_session True w) evs s" "nd_calls (jw_channel w) = []"
  shows "session_inv evs s"
  using assms by (induction rule: ssh_run.induct) (simp_all add: new_session_inv step_inv)

end

section \<open>Input order\<close>

text \<open>C28: User input reaches the node in order.  In every interleaving of the callbacks, the tasks and
  their cancellations, what has been written to the node process followed by what is still queued
  (buffered before the process exists, or held by tasks in their order) is a subsequence of the input
  received, so nothing is invented, duplicated or reordered; and as long as no task has failed, the
  connection is up and no exit status was sent, it is all of it.  Once the process exists and no task
  is ready, everything received has been written.\<close>

theorem input_reaches_the_node_in_order:
  assumes "ssh_run (handler_config h sv cfg) (new_ssh_session True w) evs s" "nd_calls (jw_channel w) = []"
  shows "subseq (sent s @ queued s) (received evs) \<and>
    (\<not> ending evs s \<longrightarrow> sent s @ queued s = received evs) \<and>
    (\<not> ending evs s \<and> ss_bridge s \<noteq> None \<and> ss_ready s = [] \<longrightarrow> sent s = received evs)"
proof -
  note I = session_invD [OF exec.run_inv [OF assms]]
  have "queued s = []" if "ss_bridge s \<noteq> None" "ss_ready s = []"
    using that by (auto simp: queued_def List.map_filter_simps)
  then show ?thesis using I(7,8) by auto
qed

definition sample_handler :: jump_handler where
  "sample_handler = \<lparr>jh_visible_nodes = \<lambda>_. sret [], jh_presented_host_key = \<lambda>_. sret None,
     jh_coordinator = sample_deps (\<lambda>_ _ _ _ _ _ _ _ _ b. (Inr 4, b))\<rparr>"

definition sample_config :: ssh_config where
  "sample_config = \<lparr>sc_start_exec = \<lambda>f now c wd ht w. (Inl EOFError, w), sc_audit_sink = True,
     sc_session_state_store = True, sc_replay_dir = [], sc_seconds_text = show_int,
     sc_channel_write = \<lambda>_ _. Inr ()\<rparr>"

definition idle_node :: node_side where
  "idle_node = \<lparr>nd_calls = [], nd_answer = \<lambda>_ _. Inr (), nd_can_resize = True\<rparr>"

definition node_world :: "node_side jump_world" where
  "node_world = \<lparr>jw_db = sample_jump_db, jw_fs = empty_fs, jw_recorders = \<lambda>_. None, jw_events = [],
     jw_broker = jw_broker (sample_jump_world empty_fs), jw_channel = idle_node\<rparr>"

definition sample_session_run :: "ssh_event list" where
  "sample_session_run = [PtyRequested (str ''vt100'') (100, 40, 0, 0), ExecRequested (str ''web1''),
     DataReceived (utc 1) (UserBytes [108]), DataReceived (utc 2) (UserBytes [115]), EofReceived]"

text \<open>A run is determined by its events.\<close>

definition allowed_run :: "ssh_event list \<Rightarrow> bool" where
  "allowed_run evs \<longleftrightarrow> (\<forall>i < length evs. asyncssh_allows (take i evs) (evs ! i))"

lemma allowed_run_snoc: "allowed_run (evs @ [ev]) \<longleftrightarrow> allowed_run evs \<and> asyncssh_allows evs ev"
  by (auto simp: allowed_run_def nth_append less_Suc_eq)

lemma allowed_run_Nil [simp]: "allowed_run []"
  by (simp add: allowed_run_def)

lemma ssh_run_iff: "ssh_run cfg s0 evs s \<longleftrightarrow> allowed_run evs \<and> s = fold (ssh_step cfg) evs s0"
proof
  show "ssh_run cfg s0 evs s \<Longrightarrow> allowed_run evs \<and> s = fold (ssh_step cfg) evs s0"
    by (induction rule: ssh_run.induct) (auto simp: allowed_run_snoc)
  show "allowed_run evs \<and> s = fold (ssh_step cfg) evs s0 \<Longrightarrow> ssh_run cfg s0 evs s"
  proof (induction evs arbitrary: s rule: rev_induct)
    case Nil
    then show ?case by (simp add: run_start)
  next
    case (snoc ev evs)
    then show ?case using run_step [of cfg s0 evs "fold (ssh_step cfg) evs s0" ev]
      by (simp add: allowed_run_snoc)
  qed
qed

lemmas ssh_event_tests = is_loop_def is_exec_def is_lost_def

lemma input_reaches_the_node_in_order_witness:
  "\<exists>s. ssh_run (handler_config sample_handler \<lparr>sv_identity = None, sv_session_factory = True\<rparr> sample_config)
      (new_ssh_session True node_world) sample_session_run s \<and>
    queued s = [[108], [115]] \<and> sent s @ queued s = received sample_session_run"
proof -
  let ?cfg = "handler_config sample_handler \<lparr>sv_identity = None, sv_session_factory = True\<rparr> sample_config"
  let ?s0 = "new_ssh_session True node_world"
  have a: "allowed_run sample_session_run"
    by (simp add: allowed_run_def sample_session_run_def asyncssh_allows_def ssh_event_tests nth_Cons
        split: nat.split)
  then have r: "ssh_run ?cfg ?s0 sample_session_run (fold (ssh_step ?cfg) sample_session_run ?s0)"
    by (simp add: ssh_run_iff)
  define s where "s = fold (ssh_step ?cfg) sample_session_run ?s0"
  have f: "ss_pending_input s = [[108], [115]]" "ss_ready s = [Run (StartExec (str ''web1''))]" "ss_waiting s = []"
    "ss_user s = []" "\<not> ss_task_failed s" "ss_bridge s = None"
    by (simp_all add: s_def sample_session_run_def ssh_step_def pty_requested_def exec_requested_def
        data_received_def eof_received_def user_payload_def sbind_def new_ssh_session_def create_pump_def)
  have "\<not> ending sample_session_run s"
    by (simp add: ending_def f tasks_def List.map_filter_simps ready_task_def task_after_def was_lost_def
        sample_session_run_def is_lost_def)
  then have "sent s @ queued s = received sample_session_run"
    using input_reaches_the_node_in_order [OF r] by (simp add: s_def node_world_def idle_node_def)
  moreover have "queued s = [[108], [115]]"
    by (simp add: queued_def f List.map_filter_simps task_input_def)
  ultimately show ?thesis using r unfolding s_def by blast
qed

end
