(* ===== verification/Ssh_Ends.thy ===== *)
theory Ssh_Ends
  imports Ssh_Facts
begin

text \<open>
  How an SSH session ends: the end of the node process closes it.
\<close>

section \<open>The normal end\<close>

lemma fold_step_lost: "ssh_run cfg s0 (evs @ evs') s' \<Longrightarrow> s' = fold (ssh_step cfg) evs' (fold (ssh_step cfg) evs s0)"
  by (simp add: ssh_run_iff)

lemma wake_at: "i < length (ss_waiting s) \<Longrightarrow> wake i chunk s =
    create_pump (resumed chunk (ss_waiting s ! i))
      (s\<lparr>ss_waiting := take i (ss_waiting s) @ drop (Suc i) (ss_waiting s)\<rparr>)"
  by (simp add: wake_def)

lemma waited_close_ends:
  assumes "ss_waiting s = ws @ [OnClose cl (ThenExit n)]" "ss_ready s = []" "ss_channel s"
    and "ss_bridge s = Some b" "cl = BridgeClosing q et md st t"
    and "bridge_close_end audit_id clock cl \<lparr>bw_bridge = b, bw_world = ss_world s\<rparr> = (Inr (), v)"
  shows "ssh_step cfg (RunNext f clock audit_id) (ssh_step cfg (Wake (length ws) c) s) =
    s\<lparr>ss_waiting := ws, ss_bridge := Some (bw_bridge v), ss_world := bw_world v,
      ss_user := ss_user s @ [ChannelExit n, ChannelClose]\<rparr>"
  using assms
  by (simp add: ssh_step_def wake_def create_pump_def resumed_def run_next_def run_handle_def run_task_def
      closing_end_def on_bridge_def sbind_def await_close_def then_after_def ssh_exit_def)

text \<open>C29: The end of the node process closes the session.  When the process has exited and nothing else
  is ready, four steps of the loop (the exit is noticed, the close begins, the database has answered,
  the close ends) do exactly what \<open>JumpPtyBridge.close\<close> does with status closed and then send the user
  exit status 0 and close the channel.\<close>

theorem process_exit_closes_the_session:
  assumes w: "i < length (ss_waiting s)" "ss_waiting s ! i = OnExit" "ss_ready s = []" "ss_channel s"
    and b: "ss_bridge s = Some b" "\<not> br_closed b"
    and c: "bridge_close audit_id clock CLOSED now None \<lparr>bw_bridge = b, bw_world = ss_world s\<rparr> = (Inr (), v)"
  shows "fold (ssh_step cfg) [Wake i c1, RunNext f1 now a1, Wake (length (ss_waiting s) - 1) c2, RunNext f2 clock audit_id] s
    = s\<lparr>ss_waiting := take i (ss_waiting s) @ drop (Suc i) (ss_waiting s), ss_bridge := Some (bw_bridge v),
        ss_world := bw_world v, ss_user := ss_user s @ [ChannelExit 0, ChannelClose]\<rparr>"
proof -
  let ?ws = "take i (ss_waiting s) @ drop (Suc i) (ss_waiting s)"
  let ?v = "\<lparr>bw_bridge = b, bw_world = ss_world s\<rparr>"
  obtain x u where x: "bridge_close_begin CLOSED now None ?v = (Inr x, u)"
    using c unfolding bridge_close_pieces by (auto simp: exc_elims)
  have "x \<noteq> None" using x b(2) by (auto simp: bridge_close_begin_def Let_def exc_elims bridge_do_def split: prod.splits)
  then obtain cl where x: "bridge_close_begin CLOSED now None ?v = (Inr (Some cl), u)"
    using x by blast
  then have e: "bridge_close_end audit_id clock cl u = (Inr (), v)"
    using c unfolding bridge_close_pieces by (auto simp: sbind_def)
  obtain q et md where cl: "cl = BridgeClosing q et md CLOSED now"
    using x b(2) by (auto simp: bridge_close_begin_def Let_def exc_elims bridge_do_def split: prod.splits)
  have e': "bridge_close_end audit_id clock cl \<lparr>bw_bridge = bw_bridge u, bw_world = bw_world u\<rparr> = (Inr (), v)"
    using e by (cases u) simp
  define s2 where "s2 = s\<lparr>ss_waiting := ?ws @ [OnClose cl (ThenExit 0)], ss_bridge := Some (bw_bridge u), ss_world := bw_world u\<rparr>"
  have "ssh_step cfg (RunNext f1 now a1) (ssh_step cfg (Wake i c1) s) = s2"
    using w b x
    by (simp add: ssh_step_def wake_at create_pump_def resumed_def run_next_def run_handle_def run_task_def
        process_closed_def on_bridge_def sbind_def await_close_def s2_def)
  moreover have "length (ss_waiting s) - 1 = length ?ws" using w(1) by simp
  moreover have "ssh_step cfg (RunNext f2 clock audit_id) (ssh_step cfg (Wake (length ?ws) c2) s2) =
      s2\<lparr>ss_waiting := ?ws, ss_bridge := Some (bw_bridge v), ss_world := bw_world v,
        ss_user := ss_user s2 @ [ChannelExit 0, ChannelClose]\<rparr>"
    using w e' by (intro waited_close_ends [OF _ _ _ _ cl]) (simp_all add: s2_def)
  ultimately show ?thesis by (simp only: fold.simps comp_def id_def) (simp add: s2_def)
qed

definition running_bridge :: "node_side JumpPtyBridge" where
  "running_bridge = \<lparr>br_jump = br_jump (bw_bridge (sample_bridge empty_fs)), br_channel = node_process_channel,
     br_audit_sink = False, br_session_state_store = False, br_replay_dir = str ''/r/'', br_closed = False\<rparr>"

definition running_world :: "node_side jump_world" where
  "running_world = node_world\<lparr>jw_recorders := jw_recorders (bw_world (sample_bridge empty_fs))\<rparr>"

definition running_session :: ssh_session where
  "running_session = (new_ssh_session True running_world)\<lparr>ss_bridge := Some running_bridge, ss_process := True,
     ss_started := Some (br_jump running_bridge), ss_waiting := [OnRead Stdout, OnRead Stderr, OnExit]\<rparr>"

lemma process_exit_closes_the_session_witness:
  "\<exists>v :: node_side bridge_world. fold (ssh_step sample_config) [Wake 2 (Inr []), RunNext sample_fresh (utc 9) 1, Wake 2 (Inr []),
      RunNext sample_fresh (utc 9) 1] running_session =
    running_session\<lparr>ss_waiting := [OnRead Stdout, OnRead Stderr], ss_bridge := Some (bw_bridge v),
      ss_world := bw_world v, ss_user := [ChannelExit 0, ChannelClose]\<rparr> \<and> br_closed (bw_bridge v)"
proof -
  let ?s = "\<lparr>bw_bridge = running_bridge, bw_world = running_world\<rparr>"
  have "bridge_recording ?s" "rr_temp_path (recorder_of ?s) \<noteq> rr_path (recorder_of ?s)"
    by (simp_all add: bridge_recording_def recorder_of_def running_bridge_def running_world_def node_world_def
        sample_bridge_def new_recorder_def empty_fs_def uuid_text_def Let_def)
  from end_recording_ok [OF this, of "str ''/r/''" "utc 9" None] obtain res w1 md where
      e: "end_recording (br_jump running_bridge) (str ''/r/'') CLOSED (utc 9) None running_world =
        (Inr (Some res, SESSION_CLOSED, md), w1)"
    by auto
  have "jw_channel w1 = idle_node"
    using keepsD [OF end_recording_keeps_channel e] by (simp add: running_world_def node_world_def)
  with e obtain v where v: "bridge_close 1 (utc 9) CLOSED (utc 9) None ?s = (Inr (), v)" "br_closed (bw_bridge v)"
    by (simp add: bridge_close_def Let_def sbind_def bridge_do_def running_bridge_def jump_channel_def
        node_process_channel_def node_close_session_def node_do_def idle_node_def)
  have "2 < length (ss_waiting running_session)" "ss_waiting running_session ! 2 = OnExit"
    "ss_ready running_session = []" "ss_channel running_session" "ss_bridge running_session = Some running_bridge"
    "\<not> br_closed running_bridge" "ss_world running_session = running_world"
    by (simp_all add: running_session_def running_bridge_def new_ssh_session_def)
  note r = this
  have w: "length (ss_waiting running_session) - 1 = 2" "ss_user running_session @ xs = xs"
    "take 2 (ss_waiting running_session) @ drop (Suc 2) (ss_waiting running_session) = [OnRead Stdout, OnRead Stderr]" for xs
    by (simp_all add: running_session_def new_ssh_session_def)
  show ?thesis
    using process_exit_closes_the_session [OF r(1-6) v(1) [folded r(7)], of sample_config "Inr []" sample_fresh 1
        "Inr []" sample_fresh, unfolded w] v(2)
    by (intro exI [of _ v] conjI)
qed

end
