(* ===== verification/Server_Main.thy ===== *)
theory Server_Main
  imports Ssh Config Enrollment "HOL-Library.AList"
begin

text \<open>
  \<open>server/main.py\<close>: the stores and the identity resolver the runtime hands to the SSH boundary, the
  runtime settings, the composition of the components, and the command line's decisions.  The YAML
  parser, \<open>expanduser\<close> and \<open>str\<close> of unusual values are the parameters of \<open>Config\<close>; a YAML mapping has
  the \<open>str\<close> of its keys.
\<close>

section \<open>_PostgresNodeInventoryStore\<close>

text \<open>The driver returns the \<open>jsonb\<close> column \<open>labels\<close> as text, \<open>labels_text\<close>.\<close>

definition row_labels :: "(json \<Rightarrow> pystr) \<Rightarrow> json \<Rightarrow> pystr set result" where
  "row_labels text_of v =
     rbind (case v of
         JStr t \<Rightarrow> (case json_loads t of None \<Rightarrow> Inl (AuthError ''agent labels must be valid JSON'') | Some j \<Rightarrow> Inr j)
       | _ \<Rightarrow> Inr v) (\<lambda>loaded. case loaded of
         JArr xs \<Rightarrow> rbind (rmap (\<lambda>label. validate_label (py_str text_of label)) xs) (\<lambda>labels. Inr (set labels))
       | _ \<Rightarrow> Inl (AuthError ''agent labels must be a list''))"

text \<open>The nodes of the rows whose labels intersect the groups.\<close>

definition row_entry :: "(json \<Rightarrow> pystr) \<Rightarrow> pystr set \<Rightarrow> agents_row \<Rightarrow> NodeInventoryEntry list result" where
  "row_entry text_of groups row =
     rbind (row_labels text_of (labels_text (ag_labels row))) (\<lambda>labels.
     if labels \<inter> groups \<noteq> {}
     then rbind (validate_node_name (ag_node_name row)) (\<lambda>name.
          Inr [\<lparr>ni_node_name = name, ni_labels = labels\<rparr>])
     else Inr [])"

definition inventory_visible_nodes ::
  "(json \<Rightarrow> pystr) \<Rightarrow> ResolvedIdentity \<Rightarrow> (database, NodeInventoryEntry list) op" where
  "inventory_visible_nodes text_of identity db =
     (if id_groups identity = {} then Inr []
      else rbind (rmap (row_entry text_of (id_groups identity)) (filter (\<lambda>r. \<not> ag_revoked r) (db_agents db)))
             (\<lambda>nodes. Inr (sort_key ni_node_name (concat nodes))), db)"

definition inventory_presented_host_key :: "pystr \<Rightarrow> (database, pystr option) op" where
  "inventory_presented_host_key node_name db =
     (rbind (validate_node_name node_name) (\<lambda>name.
        Inr (map_option ag_node_ssh_host_public_key
          (find (\<lambda>r. ag_node_name r = name \<and> \<not> ag_revoked r) (db_agents db)))), db)"

section \<open>The identity resolver\<close>

record AuthorizedKeyEntry =
  ae_username :: pystr
  ae_public_keys :: "pystr list"
  ae_groups :: "pystr set"

text \<open>The items of a sequence that is not a string; the items of \<open>bytes\<close> are integers.\<close>

definition sequence_items :: "pyval \<Rightarrow> pyval list option" where
  "sequence_items v = (case v of
     PList xs \<Rightarrow> Some xs | PTuple xs \<Rightarrow> Some xs | PBytes b \<Rightarrow> Some (map (\<lambda>x. PInt (uint x)) b) | _ \<Rightarrow> None)"

definition authorized_key_value :: "(pyval \<Rightarrow> pystr) \<Rightarrow> pyval \<Rightarrow> (pystr list \<times> pystr set) result" where
  "authorized_key_value text_of value =
     rbind (case sequence_items value of
         Some items \<Rightarrow> Inr (map (yaml_str text_of) items, {})
       | None \<Rightarrow> (case value of
           PDict kvs \<Rightarrow>
             (case (case map_of kvs (str ''public_keys'') of None \<Rightarrow> None | Some v \<Rightarrow> sequence_items v) of
                None \<Rightarrow> Inl (AuthError ''authorized-key public_keys must be a list'')
              | Some keys \<Rightarrow>
                  (case (case map_of kvs (str ''groups'') of None \<Rightarrow> Some [] | Some v \<Rightarrow> sequence_items v) of
                     None \<Rightarrow> Inl (AuthError ''authorized-key groups must be a list'')
                   | Some gs \<Rightarrow> rbind (rmap (\<lambda>g. validate_label (yaml_str text_of g)) gs) (\<lambda>groups.
                       Inr (map (yaml_str text_of) keys, set groups))))
         | _ \<Rightarrow> Inl (AuthError ''authorized-key entry must be a list or mapping'')))
       (\<lambda>(public_keys, groups).
          if public_keys = [] then Inl (AuthError ''authorized-key entry must include at least one public key'')
          else Inr (public_keys, groups))"

definition load_authorized_key_entries ::
  "(pyval \<Rightarrow> pystr) \<Rightarrow> (pystr \<Rightarrow> pyval option) \<Rightarrow> pystr result \<Rightarrow> AuthorizedKeyEntry list result" where
  "load_authorized_key_entries text_of safe_load content =
     rbind content (\<lambda>text. case safe_load text of
       None \<Rightarrow> Inl (AuthError ''authorized-keys file is invalid YAML'')
     | Some (PDict raw) \<Rightarrow>
         (case (case map_of raw (str ''users'') of None \<Rightarrow> PDict raw | Some v \<Rightarrow> v) of
            PDict users \<Rightarrow> rmap (\<lambda>(username, value).
              rbind (validate_username_principal username) (\<lambda>safe_username.
              rbind (authorized_key_value text_of value) (\<lambda>(public_keys, groups).
              Inr \<lparr>ae_username = safe_username, ae_public_keys = public_keys, ae_groups = groups\<rparr>))) users
          | _ \<Rightarrow> Inl (AuthError ''authorized-keys users must be a mapping''))
     | Some _ \<Rightarrow> Inl (AuthError ''authorized-keys file must be a mapping''))"

text \<open>A dict comprehension: the last value of a key, at the place of its first.\<close>

definition key_map :: "AuthorizedKeyEntry list \<Rightarrow> (pystr \<times> pystr list) list" where
  "key_map entries = fold (\<lambda>e m. AList.update (ae_username e) (ae_public_keys e) m) entries []"

definition file_resolve_public_key ::
  "(pyval \<Rightarrow> pystr) \<Rightarrow> (pystr \<Rightarrow> pyval option) \<Rightarrow> pystr result \<Rightarrow> pystr \<Rightarrow> pystr \<Rightarrow> ResolvedIdentity result" where
  "file_resolve_public_key text_of safe_load content username public_key =
     rbind (load_authorized_key_entries text_of safe_load content) (\<lambda>entries.
     rbind (resolve_file_public_key_identity username public_key (key_map entries)) (\<lambda>identity.
       Inr \<lparr>id_username = id_username identity, id_public_key = id_public_key identity,
            id_groups = (case find (\<lambda>e. ae_username e = id_username identity) entries of
               None \<Rightarrow> {} | Some e \<Rightarrow> ae_groups e)\<rparr>))"

definition fail_closed_resolve_public_key :: "pystr \<Rightarrow> pystr \<Rightarrow> ResolvedIdentity result" where
  "fail_closed_resolve_public_key username public_key = Inl (AuthError ''SSH identity resolver is not configured'')"

text \<open>\<open>read_file\<close> reads the text of a path.\<close>

definition build_identity_resolver ::
  "(pyval \<Rightarrow> pystr) \<Rightarrow> (pystr \<Rightarrow> pyval option) \<Rightarrow> (pystr \<Rightarrow> pystr result) \<Rightarrow> ServerConfig \<Rightarrow>
   pystr \<Rightarrow> pystr \<Rightarrow> ResolvedIdentity result" where
  "build_identity_resolver text_of safe_load read_file config =
     (let public_keys = auth_public_keys (cfg_auth config) in
      case pk_file_path public_keys of
        None \<Rightarrow> fail_closed_resolve_public_key
      | Some path \<Rightarrow> if pk_source public_keys \<noteq> str ''file'' then fail_closed_resolve_public_key
                     else file_resolve_public_key text_of safe_load (read_file path))"

section \<open>Runtime settings\<close>

record ServerRuntimeSettings =
  rs_postgres_dsn :: pystr
  rs_ssh_listen :: "pystr \<times> int"
  rs_tunnel_listen :: "pystr \<times> int"
  rs_api_listen :: "pystr \<times> int"
  rs_metrics_listen :: "pystr \<times> int"
  rs_tunnel_public_host :: pystr
  rs_ssh_host_key_path :: pystr
  rs_tls_cert_path :: pystr
  rs_tls_key_path :: pystr
  rs_enrollment_tls_ca_bundle_path :: pystr

definition host_port :: "pystr \<Rightarrow> (pystr \<times> int) result" where
  "host_port value = (case rpartition_colon value of
     None \<Rightarrow> Inl (ConfigError ''listener value must be host:port'')
   | Some (host, port_text) \<Rightarrow>
       if host = [] \<or> \<not> isdigit port_text then Inl (ConfigError ''listener value must be host:port'')
       else rbind (py_int port_text) (\<lambda>port.
         rbind (require (1 \<le> port \<and> port \<le> 65535) (ConfigError ''listener port is outside valid TCP bounds''))
           (\<lambda>_. Inr (host, port))))"

definition runtime_mapping :: "yaml_mapping \<Rightarrow> string \<Rightarrow> yaml_mapping result" where
  "runtime_mapping raw key = (case map_of raw (str key) of
     Some (PDict kvs) \<Rightarrow> Inr kvs | _ \<Rightarrow> Inl (ConfigError (key @ '' section is required'')))"

text \<open>A value that is a non-empty string.\<close>

definition nonempty_str :: "yaml_mapping \<Rightarrow> string \<Rightarrow> pystr option" where
  "nonempty_str m key = (case map_of m (str key) of
     Some (PStr s) \<Rightarrow> if s = [] then None else Some s | _ \<Rightarrow> None)"

definition runtime_path :: "(pystr \<Rightarrow> pystr result) \<Rightarrow> yaml_mapping \<Rightarrow> string \<Rightarrow> pystr result" where
  "runtime_path to_path m key = (case nonempty_str m key of
     None \<Rightarrow> Inl (ConfigError (''server.'' @ key @ '' is required'')) | Some s \<Rightarrow> to_path s)"

text \<open>\<open>env\<close> is \<open>os.environ.get\<close>; messages leave out the name of the variable.\<close>

definition postgres_dsn ::
  "(pystr \<Rightarrow> pystr result) \<Rightarrow> (pystr \<Rightarrow> pystr result) \<Rightarrow> (pystr \<Rightarrow> pystr option) \<Rightarrow> yaml_mapping \<Rightarrow> pystr result" where
  "postgres_dsn to_path read_file env postgres = (case nonempty_str postgres ''dsn'' of
     Some dsn \<Rightarrow> Inr dsn
   | None \<Rightarrow> (case nonempty_str postgres ''dsn_file'' of
       Some dsn_file \<Rightarrow>
         rbind (to_path dsn_file) (\<lambda>path. rbind (read_file path) (\<lambda>text.
           if strip text \<noteq> [] then Inr (strip text) else Inl (ConfigError ''postgres.dsn_file is empty'')))
     | None \<Rightarrow> (case nonempty_str postgres ''dsn_env'' of
         Some dsn_env \<Rightarrow> (case env dsn_env of
             None \<Rightarrow> Inl (ConfigError ''dsn_env is not set'')
           | Some v \<Rightarrow> if v = [] then Inl (ConfigError ''dsn_env is not set'') else Inr v)
       | None \<Rightarrow> Inl (ConfigError ''postgres.dsn, postgres.dsn_file, or postgres.dsn_env is required''))))"

definition load_runtime_settings ::
  "(pystr \<Rightarrow> pystr result) \<Rightarrow> (pyval \<Rightarrow> pystr) \<Rightarrow> (pystr \<Rightarrow> pyval option) \<Rightarrow> (pystr \<Rightarrow> pystr result) \<Rightarrow>
   (pystr \<Rightarrow> pystr option) \<Rightarrow> pystr \<Rightarrow> ServerRuntimeSettings result" where
  "load_runtime_settings to_path text_of safe_load read_file env path =
     rbind (load_simple_yaml safe_load (read_file path)) (\<lambda>raw.
     rbind (runtime_mapping raw ''server'') (\<lambda>server.
     rbind (runtime_mapping raw ''postgres'') (\<lambda>postgres.
     rbind (postgres_dsn to_path read_file env postgres) (\<lambda>dsn.
     rbind (host_port (cfg_text text_of server ''listen_ssh'' ''0.0.0.0:22'')) (\<lambda>ssh.
     rbind (host_port (cfg_text text_of server ''listen_tunnel'' ''0.0.0.0:4444'')) (\<lambda>tunnel.
     rbind (host_port (cfg_text text_of server ''listen_api'' ''0.0.0.0:4443'')) (\<lambda>api.
     rbind (runtime_mapping raw ''metrics'') (\<lambda>metrics_section.
     rbind (host_port (cfg_text text_of metrics_section ''listen'' ''127.0.0.1:9100'')) (\<lambda>metrics.
     rbind (runtime_path to_path server ''ssh_host_key_path'') (\<lambda>ssh_key.
     rbind (runtime_path to_path server ''tls_cert_path'') (\<lambda>cert.
     rbind (runtime_path to_path server ''tls_key_path'') (\<lambda>tls_key.
     rbind (runtime_path to_path server ''enrollment_tls_ca_bundle_path'') (\<lambda>bundle.
       Inr \<lparr>rs_postgres_dsn = dsn, rs_ssh_listen = ssh, rs_tunnel_listen = tunnel, rs_api_listen = api,
            rs_metrics_listen = metrics,
            rs_tunnel_public_host = cfg_text text_of server ''tunnel_public_host'' ''localhost'',
            rs_ssh_host_key_path = ssh_key, rs_tls_cert_path = cert, rs_tls_key_path = tls_key,
            rs_enrollment_tls_ca_bundle_path = bundle\<rparr>)))))))))))))"

text \<open>The option, then the environment, then the configuration file.\<close>

definition admin_postgres_dsn ::
  "pystr option \<Rightarrow> (pystr \<Rightarrow> pystr option) \<Rightarrow> ServerRuntimeSettings result \<Rightarrow> pystr result" where
  "admin_postgres_dsn option env settings =
     (let dsn = (if option \<noteq> None \<and> option \<noteq> Some [] then option else env (str ''VIBECONNECT_POSTGRES_DSN'')) in
      if dsn \<noteq> None \<and> dsn \<noteq> Some [] then Inr (the dsn)
      else rbind (rewrap settings is_os_error (\<lambda>e. ConfigError ''server config is missing or unreadable''))
             (\<lambda>s. Inr (rs_postgres_dsn s)))"

definition check_aiohttp_site :: "pystr \<Rightarrow> int \<Rightarrow> unit result" where
  "check_aiohttp_site host port =
     rbind (require (host \<noteq> []) (ConfigError ''HTTP listener host is required'')) (\<lambda>_.
     require (1 \<le> port \<and> port \<le> 65535) (ConfigError ''HTTP listener port is outside valid TCP bounds''))"

section \<open>connect-agent\<close>

definition validate_ssh_target_part :: "pystr \<Rightarrow> string \<Rightarrow> pystr result" where
  "validate_ssh_target_part value field =
     (if value = [] \<or> startswith value (str ''-'') \<or> list_ex isspace value
      then Inl (ValueError (''invalid '' @ field)) else Inr value)"

record connect_args =
  ca_server :: pystr
  ca_node_name :: pystr
  ca_user :: "pystr option"
  ca_port :: int
  ca_identity_file :: "pystr option"

definition build_connect_command ::
  "(pystr \<Rightarrow> pystr result) \<Rightarrow> stat_fs \<Rightarrow> connect_args \<Rightarrow> pystr list result" where
  "build_connect_command to_path fs args =
     rbind (validate_node_name (ca_node_name args)) (\<lambda>node_name.
     rbind (validate_ssh_target_part (ca_server args) ''server'') (\<lambda>server.
     rbind (case ca_user args of None \<Rightarrow> Inr server
            | Some u \<Rightarrow> rbind (validate_username_principal u) (\<lambda>user. Inr (user @ str ''@'' @ server))) (\<lambda>target.
     rbind (require (1 \<le> ca_port args \<and> ca_port args \<le> 65535) (ValueError ''port must be between 1 and 65535'')) (\<lambda>_.
     rbind (case ca_identity_file args of None \<Rightarrow> Inr []
            | Some f \<Rightarrow> rbind (to_path f) (\<lambda>path.
                rbind (require (case fs path of None \<Rightarrow> False | Some s \<Rightarrow> st_is_file s)
                  (ValueError ''identity file must exist and be a regular file'')) (\<lambda>_. Inr [str ''-i'', path]))) (\<lambda>identity.
       Inr ([str ''ssh'', str ''-p'', show_int (ca_port args), str ''-o'', str ''ForwardAgent=no'',
             str ''-o'', str ''ClearAllForwardings=yes''] @ identity @ [target, node_name]))))))"

text \<open>\<open>shlex.quote\<close>: plain words stay, everything else is quoted with single quotes.\<close>

definition shell_safe :: "nat \<Rightarrow> bool" where
  "shell_safe c \<longleftrightarrow> c < 128 \<and> (is_ascii_digit c \<or> (65 \<le> c \<and> c \<le> 90) \<or> (97 \<le> c \<and> c \<le> 122) \<or> c \<in> set (str ''_@%+=:,./-''))"

definition shell_quote :: "pystr \<Rightarrow> pystr" where
  "shell_quote s =
     (if s = [] then [39, 39]
      else if list_all shell_safe s then s
      else [39] @ concat (map (\<lambda>c. if c = 39 then [39, 34, 39, 34, 39] else [c]) s) @ [39])"

fun join_with :: "pystr \<Rightarrow> pystr list \<Rightarrow> pystr" where
  "join_with sep [] = []"
| "join_with sep [w] = w"
| "join_with sep (w # ws) = w @ sep @ join_with sep ws"

definition render_shell_command :: "pystr list \<Rightarrow> pystr" where
  "render_shell_command command = join_with [32] (map shell_quote command)"

section \<open>The runtime\<close>

text \<open>
  What \<open>_run_server_runtime\<close> builds from the configuration: the broker, the coordinator with its
  certificate issuer, opener and audit sink (the replay writer has none), and per connection the SSH
  server, its handler and the session.  The environment gives the parsers and the loaded keys.
\<close>

record runtime_env =
  re_json_text :: "json \<Rightarrow> pystr"
  re_yaml_text :: "pyval \<Rightarrow> pystr"
  re_safe_load :: "pystr \<Rightarrow> pyval option"
  re_read_file :: "pystr \<Rightarrow> pystr result"
  re_user_ca_key :: "bytes \<times> bytes"
  re_replay_key :: bytes
  re_import_known_hosts :: "pystr \<Rightarrow> unit result"
  re_connect :: "node_connect \<Rightarrow> (ServerTunnelBroker, nat) op"
  re_seconds_text :: "int \<Rightarrow> pystr"
  re_channel_write :: "channel_call list \<Rightarrow> bytes \<Rightarrow> unit result"

definition runtime_broker :: "ServerConfig \<Rightarrow> ServerTunnelBroker result" where
  "runtime_broker config = (let t = cfg_tunnel config in
     new_broker (tun_max_sessions_per_agent t) (tun_heartbeat_seconds t) (tun_frame_max_bytes t))"

definition runtime_jump_deps :: "runtime_env \<Rightarrow> ServerConfig \<Rightarrow> jump_deps result" where
  "runtime_jump_deps env config =
     rbind (AsyncSshNodeTunnelOpener (re_import_known_hosts env) (re_connect env)
              (tun_node_ssh_port (cfg_tunnel config))) (\<lambda>opener.
     Inr \<lparr>jd_heartbeat_seconds = tun_heartbeat_seconds (cfg_tunnel config), jd_replay_key = re_replay_key env,
          jd_replay_sink = False,
          jd_issue = runtime_issue (re_user_ca_key env) (cert_user_cert_ttl_hours (cfg_certs config)),
          jd_open_node = opener_open_session opener, jd_audit_sink = True\<rparr>)"

definition runtime_handler :: "runtime_env \<Rightarrow> jump_deps \<Rightarrow> jump_handler" where
  "runtime_handler env deps = \<lparr>jh_visible_nodes = inventory_visible_nodes (re_json_text env),
     jh_presented_host_key = inventory_presented_host_key, jh_coordinator = deps\<rparr>"

definition runtime_ssh_server :: VibeConnectSshServer where
  "runtime_ssh_server = \<lparr>sv_identity = None, sv_session_factory = True\<rparr>"

definition runtime_ssh_config ::
  "runtime_env \<Rightarrow> ServerConfig \<Rightarrow> jump_deps \<Rightarrow> VibeConnectSshServer \<Rightarrow> ssh_config" where
  "runtime_ssh_config env config deps sv = \<lparr>sc_start_exec = start_exec (runtime_handler env deps) sv,
     sc_audit_sink = True, sc_session_state_store = True,
     sc_replay_dir = replay_directory (cfg_replay config) @ str ''/'',
     sc_seconds_text = re_seconds_text env, sc_channel_write = re_channel_write env\<rparr>"

text \<open>\<open>validate_public_key\<close> of a connection of the runtime.\<close>

definition runtime_authenticate ::
  "runtime_env \<Rightarrow> ServerConfig \<Rightarrow> pystr \<Rightarrow> bytes \<Rightarrow> (VibeConnectSshServer, bool) op" where
  "runtime_authenticate env config =
     validate_public_key (build_identity_resolver (re_yaml_text env) (re_safe_load env) (re_read_file env) config)"

section \<open>The command line\<close>

text \<open>The decisions of \<open>main\<close> over what its calls do; \<open>parser.error\<close> ends with status 2.\<close>

datatype server_command = CmdNone | CmdStart | CmdMigrate | CmdConnectAgent bool | CmdAdmin

record main_calls =
  mc_start :: "unit result"
  mc_dsn :: "pystr result"
  mc_migrate :: "pystr \<Rightarrow> unit result"
  mc_connect_command :: "pystr list result"
  mc_run :: "pystr list \<Rightarrow> int result"
  mc_admin :: "pystr \<Rightarrow> pystr result"

fun is_config_error :: "exc \<Rightarrow> bool" where
  "is_config_error (ConfigError _) = True"
| "is_config_error _ = False"

fun is_admin_error :: "exc \<Rightarrow> bool" where
  "is_admin_error (AdminError _) = True"
| "is_admin_error _ = False"

fun is_postgres_error :: "exc \<Rightarrow> bool" where
  "is_postgres_error (PostgresError _) = True"
| "is_postgres_error _ = False"

definition exit_status :: "'a result \<Rightarrow> (exc \<Rightarrow> bool) \<Rightarrow> int \<Rightarrow> ('a \<Rightarrow> (int \<times> pystr list) result) \<Rightarrow> (int \<times> pystr list) result" where
  "exit_status r caught status k = (case r of
     Inr x \<Rightarrow> k x | Inl e \<Rightarrow> if caught e then Inr (status, []) else Inl e)"

text \<open>The exit status and the lines printed to standard output.\<close>

definition server_main :: "main_calls \<Rightarrow> server_command \<Rightarrow> (int \<times> pystr list) result" where
  "server_main c command = (case command of
     CmdNone \<Rightarrow> Inr (0, [])
   | CmdStart \<Rightarrow> exit_status (mc_start c)
       (\<lambda>e. is_config_error e \<or> is_os_error e \<or> is_runtime_error e \<or> is_postgres_error e) 1 (\<lambda>_. Inr (0, []))
   | CmdMigrate \<Rightarrow> exit_status (mc_dsn c) is_config_error 2 (\<lambda>dsn.
       exit_status (mc_migrate c dsn) (\<lambda>e. is_os_error e \<or> is_postgres_error e) 1 (\<lambda>_. Inr (0, [])))
   | CmdConnectAgent dry_run \<Rightarrow> exit_status (mc_connect_command c) is_value_error 2 (\<lambda>command.
       if dry_run then Inr (0, [render_shell_command command])
       else exit_status (mc_run c command) is_os_error 1 (\<lambda>code. Inr (code, [])))
   | CmdAdmin \<Rightarrow> exit_status (mc_dsn c) is_config_error 2 (\<lambda>dsn.
       exit_status (mc_admin c dsn) (\<lambda>e. is_admin_error e \<or> is_os_error e \<or> is_postgres_error e) 1
         (\<lambda>output. Inr (0, if output = [] then [] else [output]))))"

end
