(* ===== verification/Server_Main_Facts.thy ===== *)
theory Server_Main_Facts
  imports Server_Main Jump_Facts Enrollment_Facts
begin

text \<open>
  Facts of the runtime: whom the authorized-keys file authenticates, which nodes an identity sees, what
  both together imply for a jump that starts, and the command line of \<open>connect-agent\<close>.
\<close>

section \<open>The inventory\<close>

lemma row_labels_text:
  assumes "labels_valid ls"
  shows "row_labels f (labels_text ls) = Inr (set ls)"
proof -
  have p: "plain (JArr (map JStr ls))"
    using assms by (auto simp: labels_valid_def label_scalar)
  have "rmap (\<lambda>x. validate_label (py_str f x)) (map JStr ls) = Inr ls"
    using assms by (auto simp: rmap_eq_Inr list_all2_conv_all_nth labels_valid_def validate_label_Inr)
  with json_loads_print [OF p] show ?thesis
    by (simp add: row_labels_def labels_text_def)
qed

lemma rmap_concat_mem:
  assumes "rmap g xs = Inr yss" "y \<in> set (concat yss)"
  obtains x ys where "x \<in> set xs" "g x = Inr ys" "y \<in> set ys"
  using assms unfolding rmap_eq_Inr
  by (induction rule: list_all2_induct) auto

lemma visible_row:
  assumes v: "inventory_visible_nodes f identity db = (Inr nodes, db')" and n: "node \<in> set nodes"
    and l: "\<forall>r \<in> set (db_agents db). labels_valid (ag_labels r)"
  obtains row where "row \<in> set (db_agents db)" "\<not> ag_revoked row" "ag_node_name row = ni_node_name node"
    "ni_labels node = set (ag_labels row)" "set (ag_labels row) \<inter> id_groups identity \<noteq> {}"
proof -
  obtain yss where y: "rmap (row_entry f (id_groups identity)) (filter (\<lambda>r. \<not> ag_revoked r) (db_agents db)) = Inr yss"
    "node \<in> set (concat yss)"
    using v n by (auto simp: inventory_visible_nodes_def exc_elims split: if_splits)
  then obtain row ys where r: "row \<in> set (filter (\<lambda>r. \<not> ag_revoked r) (db_agents db))"
    "row_entry f (id_groups identity) row = Inr ys" "node \<in> set ys"
    by (rule rmap_concat_mem)
  moreover have "row_labels f (labels_text (ag_labels row)) = Inr (set (ag_labels row))"
    using l r(1) by (intro row_labels_text) auto
  ultimately show ?thesis
    by (intro that [of row]) (auto simp: row_entry_def exc_elims split: if_splits)
qed

section \<open>The authorized-keys file\<close>

lemma key_map_mem: "(u, ks) \<in> set (key_map es) \<Longrightarrow> \<exists>e \<in> set es. ae_username e = u \<and> ae_public_keys e = ks"
proof -
  have "(u, ks) \<in> set (fold (\<lambda>e m. AList.update (ae_username e) (ae_public_keys e) m) es m) \<Longrightarrow>
      (u, ks) \<in> set m \<or> (\<exists>e \<in> set es. ae_username e = u \<and> ae_public_keys e = ks)" for m
  proof (induction es arbitrary: m)
    case (Cons e es)
    have upd: "(u, ks) \<in> set (AList.update k v m) \<Longrightarrow> (u, ks) = (k, v) \<or> (u, ks) \<in> set m" for k v
      by (induction m) (auto split: if_splits)
    from Cons.IH [of "AList.update (ae_username e) (ae_public_keys e) m"] Cons.prems upd show ?case by auto
  qed simp
  then show "(u, ks) \<in> set (key_map es) \<Longrightarrow> \<exists>e \<in> set es. ae_username e = u \<and> ae_public_keys e = ks"
    by (fastforce simp: key_map_def)
qed

lemma validated_names: "rmap (\<lambda>e. validate_username_principal (fst e)) xs = Inr ys \<Longrightarrow> ys = map fst xs"
  by (induction xs arbitrary: ys) (auto simp: exc_elims)

lemma file_identity_Inr:
  assumes "resolve_file_public_key_identity username key m = Inr i"
  shows "i = \<lparr>id_username = username, id_public_key = key, id_groups = {}\<rparr> \<and> (\<exists>ks. (username, ks) \<in> set m \<and> key \<in> set ks) \<and>
    (\<forall>(u, ks) \<in> set m. key \<in> set ks \<longrightarrow> u = username)"
proof -
  let ?f = "filter (\<lambda>entry. key \<in> set (snd entry)) m"
  obtain l names where v: "validate_username_principal username = Inr l"
    and n: "rmap (\<lambda>entry. validate_username_principal (fst entry)) ?f = Inr names"
    and r: "(if card (set names) > 1 then Inl (AuthError ''public key maps to multiple usernames'')
       else if set names \<noteq> {l} then Inl (AuthError ''public key identity mismatch'')
       else Inr \<lparr>id_username = l, id_public_key = key, id_groups = {}\<rparr>) = Inr i"
    using assms unfolding resolve_file_public_key_identity_def rbind_eq_Inr by (elim exE conjE) (rule that)
  have l: "l = username" using v by (simp add: validate_username_principal_Inr)
  have s: "set names = {username}" and i: "i = \<lparr>id_username = username, id_public_key = key, id_groups = {}\<rparr>"
    using r unfolding l by (simp_all split: if_splits)
  have "names = map fst ?f" using n by (rule validated_names)
  with s have f: "fst ` set ?f = {username}" by (metis set_map)
  then obtain p where p: "p \<in> set ?f" "fst p = username"
    using imageE [of username fst "set ?f"] by (metis insertI1)
  then have "p \<in> set m" "key \<in> set (snd p)" by simp_all
  with p(2) have "\<exists>ks. (username, ks) \<in> set m \<and> key \<in> set ks" by (cases p) auto
  moreover have "u = username" if "(u, ks) \<in> set m" "key \<in> set ks" for u ks
  proof -
    from that have "u \<in> fst ` set ?f" by force
    with f show ?thesis by simp
  qed
  ultimately show ?thesis using i by auto
qed

lemma file_resolve_Inr:
  assumes "file_resolve_public_key text_of safe_load content username key = Inr i"
  obtains entries e g where "load_authorized_key_entries text_of safe_load content = Inr entries"
    "e \<in> set entries" "ae_username e = username" "key \<in> set (ae_public_keys e)"
    "g \<in> set entries" "ae_username g = username" "id_groups i = ae_groups g" "id_username i = username"
    "id_public_key i = key"
proof -
  obtain entries i0 where l: "load_authorized_key_entries text_of safe_load content = Inr entries"
    and r: "resolve_file_public_key_identity username key (key_map entries) = Inr i0"
    and i: "i = \<lparr>id_username = id_username i0, id_public_key = id_public_key i0,
      id_groups = (case find (\<lambda>e. ae_username e = id_username i0) entries of None \<Rightarrow> {} | Some e \<Rightarrow> ae_groups e)\<rparr>"
    using assms by (auto simp: file_resolve_public_key_def exc_elims)
  note f = file_identity_Inr [OF r]
  then obtain ks where "(username, ks) \<in> set (key_map entries)" "key \<in> set ks" by blast
  then obtain e where e: "e \<in> set entries" "ae_username e = username" "key \<in> set (ae_public_keys e)"
    using key_map_mem by blast
  then have "find (\<lambda>e. ae_username e = username) entries \<noteq> None" by (auto simp: find_None_iff)
  then obtain g where g: "find (\<lambda>e. ae_username e = username) entries = Some g" by blast
  then have "g \<in> set entries" "ae_username g = username" by (auto simp: find_Some_iff)
  with that [OF l e] f i g show ?thesis by auto
qed

section \<open>A jump of the runtime\<close>

lemma authenticate_Inr:
  assumes "runtime_authenticate env config username exported sv = (Inr True, sv')"
  obtains identity line where "sv_identity sv' = Some identity" "decode_ascii exported = Some line"
    "build_identity_resolver (re_yaml_text env) (re_safe_load env) (re_read_file env) config username (strip line)
       = Inr identity"
  using assms unfolding runtime_authenticate_def validate_public_key_def
  by (auto split: option.splits sum.splits if_splits)

lemma resolver_Inr:
  assumes "build_identity_resolver text_of safe_load read_file config username key = Inr identity"
  obtains path where "pk_file_path (auth_public_keys (cfg_auth config)) = Some path"
    "pk_source (auth_public_keys (cfg_auth config)) = str ''file''"
    "file_resolve_public_key text_of safe_load (read_file path) username key = Inr identity"
  using assms unfolding build_identity_resolver_def Let_def
  by (auto simp: fail_closed_resolve_public_key_def split: option.splits if_splits)

lemma start_exec_Inr:
  assumes "start_exec h sv f now command width height w = (Inr j, w')"
  obtains identity visible db1 db2 key where "sv_identity sv = Some identity"
    "validate_ssh_request_policy (id_username identity) (Some command) None False False False = Inr ()"
    "jh_visible_nodes h identity (jw_db w) = (Inr visible, db1)"
    "strip command \<in> ni_node_name ` set visible"
    "jh_presented_host_key h (strip command) db1 = (Inr key, db2)"
    "start_jump (jh_coordinator h) f identity command visible key width height now (w\<lparr>jw_db := db2\<rparr>) = (Inr j, w')"
proof -
  obtain identity where i: "sv_identity sv = Some identity"
    using assms by (cases "sv_identity sv") (simp_all add: start_exec_def)
  from assms i obtain w1 w2 visible key n where
    "validate_ssh_request_policy (id_username identity) (Some command) None False False False = Inr ()"
    "jump_db (jh_visible_nodes h identity) w = (Inr visible, w1)" "single_requested_node command visible = Inr n"
    "jump_db (jh_presented_host_key h n) w1 = (Inr key, w2)"
    "start_jump (jh_coordinator h) f identity command visible key width height now w2 = (Inr j, w')"
    by (auto simp: start_exec_def stry_eq_Inr sbind_eq_Inr)
  with i that show ?thesis
    by (auto simp: single_requested_node_def Let_def jump_db_eq split: if_splits)
qed

text \<open>C31: Who gets a shell where.  When the SSH server of the runtime has authenticated a connection by
  its public key and a jump then starts, the authorized-keys file lists this key for this login name;
  the node named by the command is an enrolled, unrevoked agent one of whose labels is a group the file
  gives the login name; its last contact is less than two heartbeat periods old; the command is neither
  \<open>scp\<close> nor \<open>sftp\<close>; and the only change to the tables besides the audit log is one open session row
  for this agent and login name, with a certificate issued for that name.\<close>

theorem ssh_jump_is_authorised:
  assumes auth: "runtime_authenticate env config username exported sv = (Inr True, sv')"
    and start: "start_exec (runtime_handler env deps) sv' f now command width height w = (Inr j, w')"
    and wf: "wf_db (jw_db w)" "\<forall>r \<in> set (db_agents (jw_db w)). labels_valid (ag_labels r)"
  shows "\<exists>path line entries e g row. pk_file_path (auth_public_keys (cfg_auth config)) = Some path \<and>
    decode_ascii exported = Some line \<and>
    load_authorized_key_entries (re_yaml_text env) (re_safe_load env) (re_read_file env path) = Inr entries \<and>
    e \<in> set entries \<and> ae_username e = username \<and> strip line \<in> set (ae_public_keys e) \<and>
    g \<in> set entries \<and> ae_username g = username \<and>
    row \<in> set (db_agents (jw_db w)) \<and> ag_node_name row = strip command \<and> \<not> ag_revoked row \<and>
    set (ag_labels row) \<inter> ae_groups g \<noteq> {} \<and>
    (\<exists>t. ag_last_seen row = Some t \<and> instant now < instant t + seconds (2 * jd_heartbeat_seconds deps)) \<and>
    command \<notin> {str ''scp'', str ''sftp''} \<and> jt_agent_id (sj_target j) = ag_id row \<and>
    iuc_username (sj_user_certificate j) = username \<and> db_agents (jw_db w') = db_agents (jw_db w) \<and>
    db_sessions (jw_db w') = db_sessions (jw_db w) @
      [new_session_row f (ag_id row) username now (db_next_serial (jw_db w))]"
proof -
  obtain identity line where a: "sv_identity sv' = Some identity" "decode_ascii exported = Some line"
    "build_identity_resolver (re_yaml_text env) (re_safe_load env) (re_read_file env) config username (strip line)
       = Inr identity"
    using authenticate_Inr [OF auth] .
  obtain path where p: "pk_file_path (auth_public_keys (cfg_auth config)) = Some path"
    "file_resolve_public_key (re_yaml_text env) (re_safe_load env) (re_read_file env path) username (strip line) = Inr identity"
    using resolver_Inr [OF a(3)] by blast
  obtain entries e g where k: "load_authorized_key_entries (re_yaml_text env) (re_safe_load env) (re_read_file env path) = Inr entries"
    "e \<in> set entries" "ae_username e = username" "strip line \<in> set (ae_public_keys e)"
    "g \<in> set entries" "ae_username g = username" "id_groups identity = ae_groups g" "id_username identity = username"
    using file_resolve_Inr [OF p(2)] by blast
  obtain visible key where s: "validate_ssh_request_policy username (Some command) None False False False = Inr ()"
    "inventory_visible_nodes (re_json_text env) identity (jw_db w) = (Inr visible, jw_db w)"
    "strip command \<in> ni_node_name ` set visible"
    "start_jump deps f identity command visible key width height now w = (Inr j, w')"
  proof (rule start_exec_Inr [OF start])
    fix i visible db1 db2 key
    assume "sv_identity sv' = Some i"
      "validate_ssh_request_policy (id_username i) (Some command) None False False False = Inr ()"
      "jh_visible_nodes (runtime_handler env deps) i (jw_db w) = (Inr visible, db1)"
      "strip command \<in> ni_node_name ` set visible"
      "jh_presented_host_key (runtime_handler env deps) (strip command) db1 = (Inr key, db2)"
      "start_jump (jh_coordinator (runtime_handler env deps)) f i command visible key width height now (w\<lparr>jw_db := db2\<rparr>)
         = (Inr j, w')"
    with a(1) k(8) that show thesis
      by (auto simp: runtime_handler_def inventory_visible_nodes_def inventory_presented_host_key_def)
  qed
  obtain node where node: "node \<in> set visible" "ni_node_name node = strip command" using s(3) by force
  obtain row where row: "row \<in> set (db_agents (jw_db w))" "\<not> ag_revoked row" "ag_node_name row = strip command"
    "set (ag_labels row) \<inter> ae_groups g \<noteq> {}"
    using visible_row [OF s(2) node(1) wf(2)] k(7) node(2) by metis
  obtain target where t: "authorised_target (jd_heartbeat_seconds deps) key now (strip command) (jw_db w) target"
    and run: "run_jump deps f identity target (session_of f (jw_db w) now) (strip command) width height now
       (w\<lparr>jw_db := with_session f (jt_agent_id target) (id_username identity) now (jw_db w)\<rparr>) = (Inr j, w')"
    using start_jump_Inr [OF s(4)] by blast
  obtain row' where row': "row' \<in> set (db_agents (jw_db w))" "ag_id row' = jt_agent_id target" "ag_node_name row' = strip command"
    "\<exists>t. ag_last_seen row' = Some t \<and> instant now < instant t + seconds (2 * jd_heartbeat_seconds deps)"
    using t unfolding authorised_target_def by blast
  have "distinct (map ag_node_name (db_agents (jw_db w)))" using wf(1) by (simp add: wf_db_def agents_ok_def)
  with row row' have same: "row' = row" by (auto simp: distinct_map inj_on_def)
  from run_jump_Inr [OF run] obtain db where
    j: "iuc_username (sj_user_certificate j) = username" "sj_target j = target" "jw_db w' = db"
      "audit_only (with_session f (jt_agent_id target) username now (jw_db w)) db"
    using k(8) by auto
  have db: "db_agents db = db_agents (jw_db w)" "db_sessions db = db_sessions (jw_db w) @
      [new_session_row f (ag_id row) username now (db_next_serial (jw_db w))]"
    using j(4) row'(2) same by (simp_all add: audit_only_fields with_session_def)
  have "command \<notin> {str ''scp'', str ''sftp''}"
    using s(1) by (auto simp: validate_ssh_request_policy_def exc_elims split: if_splits)
  with p(1) a(2) k row row' same j db show ?thesis
    by (intro exI [of _ path] exI [of _ line] exI [of _ entries] exI [of _ e] exI [of _ g] exI [of _ row]) simp
qed

definition sample_server_config :: ServerConfig where
  "sample_server_config =
    \<lparr>cfg_certs = \<lparr>cert_agent_ca_key_path = [112], cert_agent_ca_cert_path = [112], cert_user_ca_key_path = [112],
       cert_user_ca_public_key_path = [112], cert_agent_cert_lifetime_days = 30, cert_user_cert_ttl_hours = 4\<rparr>,
     cfg_tunnel = \<lparr>tun_max_sessions_per_agent = 64, tun_heartbeat_seconds = 30, tun_frame_max_bytes = 1048576,
       tun_tls_ca_bundle = [112], tun_node_ssh_port = 2222\<rparr>,
     cfg_auth = \<lparr>auth_public_keys = \<lparr>pk_source = str ''file'', pk_file_path = Some (str ''keys''), pk_file_entries = []\<rparr>,
       auth_ldap = \<lparr>ldap_enabled = False, ldap_use_tls = False, ldap_validate_tls = False\<rparr>,
       auth_azure_ad = \<lparr>azure_enabled = False, azure_client_secret_path = None, azure_use_managed_identity = False\<rparr>,
       auth_keyboard_interactive_verifier = None\<rparr>,
     cfg_replay = \<lparr>replay_directory = str ''r'', replay_retention_days = 90, replay_integrity_key_path = [112]\<rparr>,
     cfg_metrics_listen = str ''127.0.0.1:9100'', cfg_install_dirs = [], cfg_secret_paths = []\<rparr>"

definition sample_keys :: pyval where
  "sample_keys = PDict [(str ''bob'', PDict [(str ''public_keys'', PList [PStr (str ''AAAA'')]),
     (str ''groups'', PList [PStr (str ''web'')])])]"

definition sample_env :: runtime_env where
  "sample_env = \<lparr>re_json_text = \<lambda>_. [], re_yaml_text = \<lambda>_. [], re_safe_load = \<lambda>_. Some sample_keys,
     re_read_file = \<lambda>_. Inr (str ''bob: ...''), re_user_ca_key = ([5], [6]), re_replay_key = [1],
     re_import_known_hosts = \<lambda>_. Inr (), re_connect = \<lambda>_. sret 4, re_seconds_text = \<lambda>_. [],
     re_channel_write = \<lambda>_ _. Inr ()\<rparr>"

lemma sample_authenticated:
  "runtime_authenticate sample_env sample_server_config (str ''bob'') [65, 65, 65, 65, 10] runtime_ssh_server =
    (Inr True, runtime_ssh_server\<lparr>sv_identity := Some \<lparr>id_username = str ''bob'', id_public_key = str ''AAAA'',
       id_groups = {str ''web''}\<rparr>\<rparr>)"
proof -
  have b: "validate_username_principal (str ''bob'') = Inr (str ''bob'')"
    by (simp add: validate_username_principal_def str_def Let_def principal_char_ok_def
        USERNAME_FORBIDDEN_CHARS_def USERNAME_FORBIDDEN_SHELL_CHARS_def isspace_def)
  have l: "load_authorized_key_entries (\<lambda>_. []) (\<lambda>_. Some sample_keys) (Inr (str ''bob: ...'')) =
      Inr [\<lparr>ae_username = str ''bob'', ae_public_keys = [str ''AAAA''], ae_groups = {str ''web''}\<rparr>]"
    by (simp add: load_authorized_key_entries_def sample_keys_def authorized_key_value_def sequence_items_def
        yaml_str_def str_def validate_label_def label_closed is_alnum_cp_def label_char_def
        b [unfolded str_def, simplified])
  have d: "decode_ascii [65, 65, 65, 65, 10] = Some [65, 65, 65, 65, 10]"
    "strip [65, 65, 65, 65, 10 :: nat] = str ''AAAA''"
    by (simp_all add: decode_ascii_def strip_def lstrip_def rstrip_def isspace_def str_def)
  show ?thesis
    by (simp add: runtime_authenticate_def validate_public_key_def d build_identity_resolver_def Let_def
        sample_server_config_def sample_env_def file_resolve_public_key_def l key_map_def
        resolve_file_public_key_identity_def b runtime_ssh_server_def)
qed

lemma start_jump_cong:
  "id_username i = id_username i' \<Longrightarrow> map ni_node_name vs = map ni_node_name vs' \<Longrightarrow>
    start_jump d f i c vs k wd ht now = start_jump d f i' c vs' k wd ht now"
  by (simp add: start_jump_def select_node_def select_target_def run_jump_def start_recording_def
      open_node_connection_def fun_eq_iff cong: if_cong option.case_cong)

abbreviation sample_opener :: open_node where
  "sample_opener \<equiv> (\<lambda>_ _ _ _ _ _ _ _ _ b. (Inr 4, b))"

lemma sample_exec:
  assumes i: "sv_identity sv = Some \<lparr>id_username = str ''bob'', id_public_key = k, id_groups = {str ''web''}\<rparr>"
  shows "start_exec (runtime_handler sample_env (sample_deps sample_opener)) sv sample_fresh (utc 1) (str ''web1'') 80 24
    (sample_jump_world_on chan empty_fs) = sample_started_on chan sample_opener empty_fs"
proof -
  let ?id = "\<lparr>id_username = str ''bob'', id_public_key = k, id_groups = {str ''web''}\<rparr>"
  let ?db = "jw_db (sample_jump_world_on chan empty_fs)"
  have a: "db_agents ?db = [sample_agent_row]" by (simp add: sample_jump_world_on_def sample_jump_db_def)
  have n: "validate_node_name (str ''web1'') = Inr (str ''web1'')" "strip (str ''web1'') = str ''web1''"
    by (simp_all add: validate_node_name_def node_name_closed str_def is_alnum_cp_def node_char_def strip_def
        lstrip_def rstrip_def isspace_def)
  have l: "labels_valid [str ''web'']"
    by (simp add: labels_valid_def str_def label_closed is_alnum_cp_def label_char_def)
  have v: "inventory_visible_nodes g ?id ?db = (Inr [\<lparr>ni_node_name = str ''web1'', ni_labels = {str ''web''}\<rparr>], ?db)" for g
    by (simp add: inventory_visible_nodes_def a sample_agent_row_def row_entry_def row_labels_text [OF l] n(1) sort_key_def)
  have k: "inventory_presented_host_key (str ''web1'') ?db = (Inr (Some (str ''ssh-ed25519 AAAA'')), ?db)"
    by (simp add: inventory_presented_host_key_def n(1) a sample_agent_row_def)
  have p: "validate_ssh_request_policy (str ''bob'') (Some (str ''web1'')) None False False False = Inr ()"
    by (simp add: validate_ssh_request_policy_def validate_username_principal_def str_def Let_def principal_char_ok_def
        USERNAME_FORBIDDEN_CHARS_def USERNAME_FORBIDDEN_SHELL_CHARS_def isspace_def)
  have "\<exists>j w. sample_started_on chan sample_opener empty_fs = (Inr j, w)" by (rule sample_start_succeeds)
  then obtain j w where s: "sample_started_on chan sample_opener empty_fs = (Inr j, w)" by blast
  moreover have "start_jump (sample_deps sample_opener) sample_fresh ?id (str ''web1'')
      [\<lparr>ni_node_name = str ''web1'', ni_labels = {str ''web''}\<rparr>] (Some (str ''ssh-ed25519 AAAA'')) 80 24 (utc 1)
      (sample_jump_world_on chan empty_fs) = sample_started_on chan sample_opener empty_fs"
    unfolding sample_started_on_def by (rule start_jump_cong [THEN fun_cong]) (simp_all add: sample_identity_def)
  ultimately show ?thesis
    by (simp add: start_exec_def i runtime_handler_def stry_def sbind_def p jump_db_def sample_env_def v
        single_requested_node_def Let_def n k)
qed

lemma ssh_jump_is_authorised_witness:
  "\<exists>sv' j w path line entries row. runtime_authenticate sample_env sample_server_config (str ''bob'')
      [65, 65, 65, 65, 10] runtime_ssh_server = (Inr True, sv') \<and>
    start_exec (runtime_handler sample_env (sample_deps sample_opener)) sv' sample_fresh (utc 1) (str ''web1'') 80 24
      (sample_jump_world empty_fs) = (Inr j, w) \<and>
    load_authorized_key_entries (re_yaml_text sample_env) (re_safe_load sample_env) (re_read_file sample_env path) = Inr entries \<and>
    row \<in> set (db_agents sample_jump_db) \<and> jt_agent_id (sj_target j) = ag_id row \<and>
    iuc_username (sj_user_certificate j) = str ''bob''"
proof -
  define sv' where "sv' = runtime_ssh_server\<lparr>sv_identity := Some \<lparr>id_username = str ''bob'', id_public_key = str ''AAAA'',
       id_groups = {str ''web''}\<rparr>\<rparr>"
  have auth: "runtime_authenticate sample_env sample_server_config (str ''bob'') [65, 65, 65, 65, 10] runtime_ssh_server
      = (Inr True, sv')"
    unfolding sv'_def by (rule sample_authenticated)
  obtain j w where s: "sample_started sample_opener empty_fs = (Inr j, w)" using sample_start_succeeds [of "()"] by blast
  then have start: "start_exec (runtime_handler sample_env (sample_deps sample_opener)) sv' sample_fresh (utc 1)
      (str ''web1'') 80 24 (sample_jump_world empty_fs) = (Inr j, w)"
    by (subst sample_exec) (simp_all add: sv'_def)
  have db: "db_agents (jw_db (sample_jump_world empty_fs)) = [sample_agent_row]"
    "db_agents sample_jump_db = [sample_agent_row]"
    by (simp_all add: sample_jump_world_on_def sample_jump_db_def)
  have wf: "wf_db (jw_db (sample_jump_world empty_fs))"
    by (simp add: wf_db_def sample_jump_world_on_def sample_jump_db_def empty_db_def agents_ok_def tokens_ok_def
        sessions_ok_def audit_ok_def session_row_ok_def sample_session_row_def sample_agent_row_def open_row_def)
  have l: "\<forall>r \<in> set (db_agents (jw_db (sample_jump_world empty_fs))). labels_valid (ag_labels r)"
    by (simp add: db sample_agent_row_def labels_valid_def str_def label_closed is_alnum_cp_def label_char_def)
  from ssh_jump_is_authorised [OF auth start wf l] auth start show ?thesis
    unfolding db by blast
qed

section \<open>connect-agent\<close>

text \<open>
  The quoting rules of a POSIX shell for words without expansions: \<open>shell_read\<close> reads the words of a
  line from a quoting mode and the word under construction, if any.
\<close>

datatype shell_mode = Unquoted | Single_quoted | Double_quoted

fun shell_read :: "shell_mode \<Rightarrow> pystr option \<Rightarrow> pystr \<Rightarrow> pystr list option" where
  "shell_read Unquoted None [] = Some []"
| "shell_read Unquoted (Some w) [] = Some [w]"
| "shell_read Single_quoted w [] = None"
| "shell_read Double_quoted w [] = None"
| "shell_read Unquoted w (c # cs) =
    (if c = 32 then (case w of None \<Rightarrow> shell_read Unquoted None cs
       | Some v \<Rightarrow> map_option (\<lambda>ws. v # ws) (shell_read Unquoted None cs))
     else if c = 39 then shell_read Single_quoted (Some (case_option [] id w)) cs
     else if c = 34 then shell_read Double_quoted (Some (case_option [] id w)) cs
     else if shell_safe c then shell_read Unquoted (Some (case_option [] id w @ [c])) cs
     else None)"
| "shell_read Single_quoted w (c # cs) =
    (if c = 39 then shell_read Unquoted w cs
     else shell_read Single_quoted (Some (case_option [] id w @ [c])) cs)"
| "shell_read Double_quoted w (c # cs) =
    (if c = 34 then shell_read Unquoted w cs
     else if c \<in> {36, 96, 92} then None
     else shell_read Double_quoted (Some (case_option [] id w @ [c])) cs)"

declare shell_read.simps [simp del]

lemmas shell_read_steps = shell_read.simps(1,2,5,6,7)

lemma shell_safe_plain: "shell_safe c \<Longrightarrow> c \<noteq> 32 \<and> c \<noteq> 39 \<and> c \<noteq> 34"
  by (auto simp: shell_safe_def is_ascii_digit_def str_def)

lemma shell_read_safe:
  "list_all shell_safe s \<Longrightarrow> shell_read Unquoted (Some w) (s @ cs) = shell_read Unquoted (Some (w @ s)) cs"
  by (induction s arbitrary: w) (simp_all add: shell_read_steps shell_safe_plain)

lemma shell_read_single:
  "shell_read Single_quoted (Some w) (concat (map (\<lambda>c. if c = 39 then [39, 34, 39, 34, 39] else [c]) s) @ 39 # cs) =
    shell_read Unquoted (Some (w @ s)) cs"
  by (induction s arbitrary: w) (simp_all add: shell_read_steps)

lemma shell_read_quoted: "shell_read Unquoted None (shell_quote s @ cs) = shell_read Unquoted (Some s) cs"
proof (cases "s \<noteq> [] \<and> list_all shell_safe s")
  case True
  then obtain c t where s: "s = c # t" "shell_safe c" "list_all shell_safe t" by (cases s) auto
  then show ?thesis
    using shell_read_safe [of t "[c]" cs] True
    by (simp add: shell_quote_def shell_read_steps shell_safe_plain)
next
  case False
  then show ?thesis
    using shell_read_single [of "[]" s cs] by (auto simp: shell_quote_def shell_read_steps)
qed

text \<open>The command line that \<open>connect-agent --dry-run\<close> prints, read by the quoting rules of a shell,
  is the argument list that would be run, whatever characters the arguments contain.\<close>

theorem printed_command_reads_back: "shell_read Unquoted None (render_shell_command command) = Some command"
proof (induction command rule: induct_list012)
  case 1
  show ?case by (simp add: render_shell_command_def shell_read_steps)
next
  case (2 w)
  show ?case using shell_read_quoted [of w "[]"] by (simp add: render_shell_command_def shell_read_steps)
next
  case (3 v w ws)
  then show ?case
    using shell_read_quoted [of v "32 # render_shell_command (w # ws)"]
    by (simp add: render_shell_command_def shell_read_steps)
qed

text \<open>What \<open>connect-agent\<close> runs: \<open>ssh\<close> with the port, agent forwarding off and the forwardings
  cleared, the identity file if one is given, the target and the node name.  The node name, a server
  alone, and the server after a user are never options; the target is an option for \<open>ssh\<close> exactly when
  the \<open>--user\<close> value starts with a hyphen, which \<open>validate_username_principal\<close> accepts.\<close>

theorem connect_command_options:
  assumes "build_connect_command to_path fs args = Inr command"
  shows "\<exists>identity target. command = [str ''ssh'', str ''-p'', show_int (ca_port args), str ''-o'', str ''ForwardAgent=no'',
      str ''-o'', str ''ClearAllForwardings=yes''] @ identity @ [target, ca_node_name args] \<and>
    1 \<le> ca_port args \<and> ca_port args \<le> 65535 \<and>
    (identity = [] \<or> (\<exists>path s. identity = [str ''-i'', path] \<and> fs path = Some s \<and> st_is_file s)) \<and>
    target = (case ca_user args of None \<Rightarrow> ca_server args | Some u \<Rightarrow> u @ str ''@'' @ ca_server args) \<and>
    \<not> startswith (ca_node_name args) (str ''-'') \<and> \<not> startswith (ca_server args) (str ''-'') \<and>
    (startswith target (str ''-'') \<longleftrightarrow> (\<exists>u. ca_user args = Some u \<and> startswith u (str ''-'')))"
proof -
  obtain node server target identity where c: "validate_node_name (ca_node_name args) = Inr node"
    "validate_ssh_target_part (ca_server args) ''server'' = Inr server"
    "(case ca_user args of None \<Rightarrow> Inr server
      | Some u \<Rightarrow> rbind (validate_username_principal u) (\<lambda>user. Inr (user @ str ''@'' @ server))) = Inr target"
    "1 \<le> ca_port args" "ca_port args \<le> 65535"
    "(case ca_identity_file args of None \<Rightarrow> Inr []
      | Some f \<Rightarrow> rbind (to_path f) (\<lambda>path.
          rbind (require (case fs path of None \<Rightarrow> False | Some s \<Rightarrow> st_is_file s)
            (ValueError ''identity file must exist and be a regular file'')) (\<lambda>_. Inr [str ''-i'', path]))) = Inr identity"
    "command = [str ''ssh'', str ''-p'', show_int (ca_port args), str ''-o'', str ''ForwardAgent=no'',
      str ''-o'', str ''ClearAllForwardings=yes''] @ identity @ [target, node]"
    using assms unfolding build_connect_command_def rbind_eq_Inr require_eq(1) by (elim exE conjE) (rule that, (assumption | simp)+)
  have node: "node = ca_node_name args" "\<not> startswith (ca_node_name args) (str ''-'')"
    using c(1) by (auto simp: validate_node_name_Inr node_name_closed startswith_def str_def is_alnum_cp_def split: list.splits)
  have server: "server = ca_server args" "\<not> startswith (ca_server args) (str ''-'')"
    using c(2) by (auto simp: validate_ssh_target_part_def split: if_splits)
  have target: "target = (case ca_user args of None \<Rightarrow> ca_server args | Some u \<Rightarrow> u @ str ''@'' @ ca_server args)"
    "ca_user args = Some u \<Longrightarrow> u \<noteq> []" for u
    using c(3) server(1) by (auto simp: exc_elims split: option.splits)
  have option: "startswith target (str ''-'') \<longleftrightarrow> (\<exists>u. ca_user args = Some u \<and> startswith u (str ''-''))"
    using server(2) target by (cases "ca_user args") (auto simp: startswith_def str_def take_Suc neq_Nil_conv)
  have "identity = [] \<or> (\<exists>path s. identity = [str ''-i'', path] \<and> fs path = Some s \<and> st_is_file s)"
    using c(6) by (auto simp: exc_elims split: option.splits)
  with c(4,5,7) node server target(1) option show ?thesis by blast
qed

lemma connect_command_options_witness:
  "\<exists>command. build_connect_command Inr (\<lambda>_. None) \<lparr>ca_server = str ''bastion'', ca_node_name = str ''web1'',
      ca_user = Some (str ''-oProxyCommand=id''), ca_port = 22, ca_identity_file = None\<rparr> = Inr command \<and>
    str ''-oProxyCommand=id@bastion'' \<in> set command \<and> startswith (str ''-oProxyCommand=id@bastion'') (str ''-'')"
proof -
  let ?args = "\<lparr>ca_server = str ''bastion'', ca_node_name = str ''web1'', ca_user = Some (str ''-oProxyCommand=id''),
    ca_port = 22, ca_identity_file = None\<rparr>"
  have "\<exists>command. build_connect_command Inr (\<lambda>_. None) ?args = Inr command"
    by (simp add: build_connect_command_def validate_node_name_def node_name_closed validate_ssh_target_part_def
        validate_username_principal_def str_def Let_def principal_char_ok_def USERNAME_FORBIDDEN_CHARS_def
        USERNAME_FORBIDDEN_SHELL_CHARS_def isspace_def is_alnum_cp_def node_char_def startswith_def)
  then obtain command where c: "build_connect_command Inr (\<lambda>_. None) ?args = Inr command" by blast
  from connect_command_options [OF c] c show ?thesis
    by (intro exI [of _ command]) (auto simp: str_def startswith_def)
qed

end
