(* ===== verification/Lost_Connection.thy ===== *)
theory Lost_Connection
  imports Ssh_Ends Server_Main_Facts
begin

text \<open>
  The user disconnects while the node process of a started jump is being created: nothing ends the jump.
\<close>

section \<open>Events that only wait\<close>

definition is_typing :: "ssh_event \<Rightarrow> bool" where
  "is_typing ev = (case ev of DataReceived _ _ \<Rightarrow> True | EofReceived \<Rightarrow> True | TerminalSizeChanged _ _ _ _ \<Rightarrow> True | _ \<Rightarrow> False)"

text \<open>A session whose start waits for something, and one in which nothing is left to run.\<close>

definition waits_only :: "node_side jump_world \<Rightarrow> waiting list \<Rightarrow> ssh_session \<Rightarrow> bool" where
  "waits_only w ws s \<longleftrightarrow> ss_world s = w \<and> ss_bridge s = None \<and> \<not> ss_process s \<and> ss_ready s = [] \<and> ss_waiting s = ws"

lemma typing_waits:
  assumes "waits_only w ws s" "is_typing ev"
  shows "waits_only w ws (ssh_step cfg ev s)"
  using assms
  by (cases ev) (auto simp: is_typing_def waits_only_def ssh_step_def data_received_def eof_received_def
      terminal_size_changed_def sbind_def slift_def Let_def split: sum.splits)

lemma typed_waits: "\<forall>ev \<in> set typed. is_typing ev \<Longrightarrow> waits_only w ws s \<Longrightarrow> waits_only w ws (fold (ssh_step cfg) typed s)"
  by (induction typed arbitrary: s) (simp_all add: typing_waits)

lemma lost_waits: "waits_only w ws s \<Longrightarrow> waits_only w [] (ssh_step cfg (ConnectionLost exc lost) s)"
  by (simp add: waits_only_def ssh_step_def connection_lost_def cancel_all_def)

lemma loop_idle: "waits_only w [] s \<Longrightarrow> is_loop ev \<Longrightarrow> waits_only w [] (ssh_step cfg ev s)"
  by (cases ev) (simp_all add: is_loop_def waits_only_def ssh_step_def wake_def run_next_def)

lemma loops_idle: "\<forall>ev \<in> set evs. is_loop ev \<Longrightarrow> waits_only w [] s \<Longrightarrow> waits_only w [] (fold (ssh_step cfg) evs s)"
  by (induction evs arbitrary: s) (simp_all add: loop_idle)

lemma only_loop_after_lost:
  assumes "allowed_run (evs @ ev # evs')" "is_lost ev"
  shows "\<forall>e \<in> set evs'. is_loop e"
proof
  fix e assume "e \<in> set evs'"
  then obtain i where i: "i < length evs'" "evs' ! i = e" by (auto simp: in_set_conv_nth)
  let ?n = "length evs + Suc i"
  have "asyncssh_allows (take ?n (evs @ ev # evs')) ((evs @ ev # evs') ! ?n)"
    using assms(1) [unfolded allowed_run_def, rule_format, of ?n] i(1) by simp
  moreover have "(evs @ ev # evs') ! ?n = e" "ev \<in> set (take ?n (evs @ ev # evs'))"
    using i by (simp_all add: nth_append)
  ultimately show "is_loop e" using assms(2) unfolding asyncssh_allows_def by metis
qed

text \<open>What a start that succeeded leaves: an open row, and a recorder that is not closed.\<close>

lemma started_exec:
  assumes "start_exec h sv f now command width height w = (Inr j, w1)"
  obtains agent username serial rec where
    "new_session_row f agent username now serial \<in> set (db_sessions (jw_db w1))"
    "js_session_id (sj_session j) = jf_session_id f" "jw_recorders w1 (sj_replay j) = Some rec" "\<not> rr_closed rec"
proof -
  obtain identity visible key w0 where "start_jump (jh_coordinator h) f identity command visible key width height now w0 = (Inr j, w1)"
    by (rule start_exec_Inr [OF assms]) blast
  from start_jump_Inr [OF this] obtain target where
    run: "run_jump (jh_coordinator h) f identity target (session_of f (jw_db w0) now) (strip command) width height now
      (w0\<lparr>jw_db := with_session f (jt_agent_id target) (id_username identity) now (jw_db w0)\<rparr>) = (Inr j, w1)"
    by blast
  let ?row = "new_session_row f (jt_agent_id target) (id_username identity) now (db_next_serial (jw_db w0))"
  from run_jump_Inr [OF run] obtain rec fs b db where
    r: "replay_start (jd_replay_key (jh_coordinator h)) (jd_replay_sink (jh_coordinator h)) (jf_temp_name f)
        (js_session_id (session_of f (jw_db w0) now)) (strip command) width height (js_started_at (session_of f (jw_db w0) now)) (jw_fs w0)
        = (Inr rec, fs)"
    and w1: "w1 = w0\<lparr>jw_db := with_session f (jt_agent_id target) (id_username identity) now (jw_db w0),
        jw_fs := fs, jw_recorders := (jw_recorders w0)(js_session_id (session_of f (jw_db w0) now) \<mapsto> rec), jw_broker := b, jw_db := db\<rparr>"
    and a: "audit_only (with_session f (jt_agent_id target) (id_username identity) now (jw_db w0)) db"
    and j: "sj_session j = session_of f (jw_db w0) now" "sj_replay j = js_session_id (session_of f (jw_db w0) now)"
    by auto
  show thesis
  proof
    show "?row \<in> set (db_sessions (jw_db w1))" using audit_only_fields [OF a] by (simp add: w1 with_session_def)
    show "js_session_id (sj_session j) = jf_session_id f" by (simp add: j session_of_def)
    show "jw_recorders w1 (sj_replay j) = Some rec" by (simp add: w1 j)
    show "\<not> rr_closed rec" using replay_start_Inr [OF r] by (simp add: new_recorder_def)
  qed
qed

text \<open>C30: a user who disconnects while the node process is being created leaves the session open for good.
  The handler has started the jump and AsyncSSH has been asked for the node process; meanwhile the user
  types, sends an end of file or changes the size of the terminal.  When the connection is lost then,
  the only task is cancelled, and whatever the loop does afterwards, the row of this session is in the
  database with status open and without an end, its recorder is not closed, and the node connection has
  had no call but the request of the process: what was typed is not sent and the connection is not closed.\<close>

theorem disconnect_during_start_strands_the_session:
  assumes cfg: "sc_start_exec cfg = start_exec h sv"
    and start: "start_exec h sv f now command cols rows w = (Inr j, w1)"
    and typed: "\<forall>ev \<in> set typed. is_typing ev"
    and run: "ssh_run cfg (new_ssh_session is_channel w)
      ([PtyRequested term (cols, rows, pw, ph), ExecRequested command, RunNext f now a1, Wake 0 c, RunNext f2 now2 a2] @
        typed @ ConnectionLost exc lost # evs) s'"
  shows "(\<exists>row \<in> set (db_sessions (jw_db (ss_world s'))).
      se_id row = js_session_id (sj_session j) \<and> se_status row = str ''open'' \<and> se_ended_at row = None) \<and>
    db_sessions (jw_db (ss_world s')) = db_sessions (jw_db w1) \<and>
    (\<exists>rec. jw_recorders (ss_world s') (sj_replay j) = Some rec \<and> \<not> rr_closed rec) \<and>
    nd_calls (jw_channel (ss_world s')) = nd_calls (jw_channel w) @ [CreateProcess term (cols, rows, pw, ph)]"
proof -
  let ?pre = "[PtyRequested term (cols, rows, pw, ph), ExecRequested command, RunNext f now a1, Wake 0 c, RunNext f2 now2 a2]"
  let ?p = "CreateProcess term (cols, rows, pw, ph)"
  define w2 where "w2 = w1\<lparr>jw_channel := (jw_channel w1)\<lparr>nd_calls := nd_calls (jw_channel w1) @ [?p]\<rparr>\<rparr>"
  define ws where "ws = [OnProcess (nd_answer (jw_channel w1) (nd_calls (jw_channel w1)) ?p)]"
  have s': "s' = fold (ssh_step cfg) evs (ssh_step cfg (ConnectionLost exc lost)
      (fold (ssh_step cfg) typed (fold (ssh_step cfg) ?pre (new_ssh_session is_channel w))))"
    and allowed: "allowed_run ((?pre @ typed) @ ConnectionLost exc lost # evs)"
    using run by (simp_all add: ssh_run_iff)
  have pre: "waits_only w2 ws (fold (ssh_step cfg) ?pre (new_ssh_session is_channel w))"
    by (simp add: waits_only_def ssh_step_def pty_requested_def exec_requested_def create_pump_def run_next_def run_handle_def
        run_task_def cfg start wake_def resumed_def jump_started_def jump_channel_def node_do_def new_ssh_session_def
        w2_def ws_def)
  have "\<forall>e \<in> set evs. is_loop e" using only_loop_after_lost [OF allowed] by (simp add: is_lost_def)
  from loops_idle [OF this lost_waits [OF typed_waits [OF typed pre]]] have world: "ss_world s' = w2"
    by (simp add: s' waits_only_def)
  have "jw_channel w1 = jw_channel w" using keepsD [OF start_exec_keeps_channel start] .
  moreover obtain agent username serial rec where
    "new_session_row f agent username now serial \<in> set (db_sessions (jw_db w1))"
    "js_session_id (sj_session j) = jf_session_id f" "jw_recorders w1 (sj_replay j) = Some rec" "\<not> rr_closed rec"
    using started_exec [OF start] .
  ultimately show ?thesis
    by (auto simp: world w2_def new_session_row_def open_row_def intro!: bexI [of _ "new_session_row f agent username now serial"])
qed

definition bob_server :: VibeConnectSshServer where
  "bob_server = runtime_ssh_server\<lparr>sv_identity :=
     Some \<lparr>id_username = str ''bob'', id_public_key = str ''AAAA'', id_groups = {str ''web''}\<rparr>\<rparr>"

definition bob_config :: ssh_config where
  "bob_config = runtime_ssh_config sample_env sample_server_config (sample_deps sample_opener) bob_server"

definition lost_while_starting :: "ssh_event list" where
  "lost_while_starting = [PtyRequested (str ''xterm'') (80, 24, 0, 0), ExecRequested (str ''web1''),
     RunNext sample_fresh (utc 1) 1, Wake 0 (Inr []), RunNext sample_fresh (utc 2) 1,
     DataReceived (utc 3) (UserBytes [108, 115]), ConnectionLost None (utc 4), Wake 0 (Inr []),
     RunNext sample_fresh (utc 5) 1]"

theorem disconnect_during_start_strands_the_session_witness:
  "\<exists>s'. ssh_run bob_config (new_ssh_session True (sample_jump_world_on idle_node empty_fs)) lost_while_starting s' \<and>
    (\<exists>row \<in> set (db_sessions (jw_db (ss_world s'))). se_status row = str ''open'' \<and> se_ended_at row = None)"
proof -
  let ?w = "sample_jump_world_on idle_node empty_fs"
  let ?h = "runtime_handler sample_env (sample_deps sample_opener)"
  let ?s = "fold (ssh_step bob_config) lost_while_starting (new_ssh_session True ?w)"
  have cfg: "sc_start_exec bob_config = start_exec ?h bob_server" by (simp add: bob_config_def runtime_ssh_config_def)
  obtain j w1 where "sample_started_on idle_node sample_opener empty_fs = (Inr j, w1)"
    using sample_start_succeeds [of idle_node] by blast
  then have start: "start_exec ?h bob_server sample_fresh (utc 1) (str ''web1'') 80 24 ?w = (Inr j, w1)"
    by (subst sample_exec) (simp_all add: bob_server_def)
  have run: "ssh_run bob_config (new_ssh_session True ?w) lost_while_starting ?s"
    by (simp add: ssh_run_iff allowed_run_def lost_while_starting_def asyncssh_allows_def ssh_event_tests nth_Cons
        split: nat.split)
  have typed: "\<forall>ev \<in> set [DataReceived (utc 3) (UserBytes [108, 115])]. is_typing ev" by (simp add: is_typing_def)
  have run': "ssh_run bob_config (new_ssh_session True ?w)
      ([PtyRequested (str ''xterm'') (80, 24, 0, 0), ExecRequested (str ''web1''), RunNext sample_fresh (utc 1) 1,
        Wake 0 (Inr []), RunNext sample_fresh (utc 2) 1] @ [DataReceived (utc 3) (UserBytes [108, 115])] @
       ConnectionLost None (utc 4) # [Wake 0 (Inr []), RunNext sample_fresh (utc 5) 1]) ?s"
    using run by (simp add: lost_while_starting_def)
  from disconnect_during_start_strands_the_session [OF cfg start typed run'] run show ?thesis by blast
qed

end
