(* ===== verification/Admin.thy ===== *)
theory Admin
  imports Audit_Log Enrollment Host_Keys Config "HOL-Library.List_Lexorder"
begin

text \<open>
  \<open>server/admin.py\<close>: the local commands that create, list and revoke what the server trusts, and their
  dispatch in \<open>_run_admin_command\<close> of \<open>server/main.py\<close>.  What a command draws (random bytes, ids, the
  clock) is an \<open>admin_fresh\<close>; the world is the database and the table \<open>key_rotation_events\<close>.  Columns
  have their SQL types, so the \<open>isinstance\<close> checks of rows have no other branch here; names order by
  code point.
\<close>

section \<open>Generated secrets\<close>

text \<open>\<open>secrets.token_urlsafe\<close> of the drawn bytes: base 64 with the URL alphabet and no padding.\<close>

definition b64_char :: "nat \<Rightarrow> nat" where
  "b64_char n = (if n < 26 then 65 + n else if n < 52 then 71 + n else if n < 62 then n - 4
     else if n = 62 then 45 else 95)"

fun token_urlsafe :: "bytes \<Rightarrow> pystr" where
  "token_urlsafe (a # b # c # s) =
     [b64_char (unat a div 4), b64_char (unat a mod 4 * 16 + unat b div 16),
      b64_char (unat b mod 16 * 4 + unat c div 64), b64_char (unat c mod 64)] @ token_urlsafe s"
| "token_urlsafe [a, b] =
     [b64_char (unat a div 4), b64_char (unat a mod 4 * 16 + unat b div 16), b64_char (unat b mod 16 * 4)]"
| "token_urlsafe [a] = [b64_char (unat a div 4), b64_char (unat a mod 4 * 16)]"
| "token_urlsafe [] = []"

definition GENERATED_SECRET_BYTES :: nat where
  "GENERATED_SECRET_BYTES = 32"

definition generate_enrollment_token :: "bytes \<Rightarrow> secret result" where
  "generate_enrollment_token drawn = SecretValue (token_urlsafe (take GENERATED_SECRET_BYTES drawn))"

definition generate_tunnel_secret :: "bytes \<Rightarrow> secret result" where
  "generate_tunnel_secret drawn = SecretValue (token_urlsafe (take GENERATED_SECRET_BYTES drawn))"

section \<open>Time stamps as text\<close>

text \<open>The year, month and day of a day counted from 1970-01-01, as \<open>datetime\<close> computes them.\<close>

definition days_in_month :: "bool \<Rightarrow> int \<Rightarrow> int" where
  "days_in_month leap m = (if m = 2 then (if leap then 29 else 28) else if m \<in> {4, 6, 9, 11} then 30 else 31)"

function month_day :: "bool \<Rightarrow> int \<Rightarrow> int \<Rightarrow> int \<times> int" where
  "month_day leap m n =
     (if m \<ge> 12 \<or> n < days_in_month leap m then (m, n + 1) else month_day leap (m + 1) (n - days_in_month leap m))"
  by pat_completeness auto
termination by (relation "measure (\<lambda>(leap, m, n). nat (12 - m))") auto

definition year_month_day :: "int \<Rightarrow> int \<times> int \<times> int" where
  "year_month_day day =
     (let n = day + 719162; n400 = n div 146097; n = n mod 146097;
          n100 = n div 36524; n = n mod 36524; n4 = n div 1461; n = n mod 1461; n1 = n div 365; n = n mod 365;
          year = n400 * 400 + n100 * 100 + n4 * 4 + n1 + 1
      in if n1 = 4 \<or> n100 = 4 then (year - 1, 12, 31)
         else (year, month_day (n1 = 3 \<and> (n4 \<noteq> 24 \<or> n100 = 3)) 1 n))"

definition zero_pad :: "nat \<Rightarrow> int \<Rightarrow> pystr" where
  "zero_pad k i = (let t = show_int i in replicate (k - length t) 48 @ t)"

text \<open>\<open>value.isoformat()\<close> of an aware UTC time stamp.\<close>

definition isoformat_utc :: "datetime \<Rightarrow> pystr" where
  "isoformat_utc v =
     (let t = wall v; us = t mod 1000000; s = t div 1000000; (year, month, day) = year_month_day (s div 86400);
          r = s mod 86400
      in zero_pad 4 year @ [45] @ zero_pad 2 month @ [45] @ zero_pad 2 day @ [84] @
         zero_pad 2 (r div 3600) @ [58] @ zero_pad 2 (r mod 3600 div 60) @ [58] @ zero_pad 2 (r mod 60) @
         (if us = 0 then [] else [46] @ zero_pad 6 us) @ str ''+00:00'')"

definition format_datetime :: "datetime option \<Rightarrow> json" where
  "format_datetime v = (case v of None \<Rightarrow> JNull | Some t \<Rightarrow> JStr (isoformat_utc (as_utc t)))"

section \<open>The world of the commands\<close>

record rotation_row =
  ro_id :: uuid
  ro_key_name :: pystr
  ro_old_fingerprint :: pystr
  ro_new_fingerprint :: pystr
  ro_started_at :: datetime
  ro_completed_at :: "datetime option"
  ro_status :: pystr

record admin_world =
  aw_db :: database
  aw_rotations :: "rotation_row list"

record admin_fresh =
  af_audit_id :: uuid
  af_clock :: datetime
  af_random :: bytes
  af_rotation_id :: uuid

definition admin_db :: "(database, 'a) op \<Rightarrow> (admin_world, 'a) op" where
  "admin_db m w = (case m (aw_db w) of (r, db) \<Rightarrow> (r, w\<lparr>aw_db := db\<rparr>))"

record CreatedAgentPackage =
  cap_node_name :: pystr
  cap_labels :: "pystr list"
  cap_agent_conf :: pystr

record AgentSummary =
  as_node_name :: pystr
  as_hostname :: "pystr option"
  as_labels :: "pystr list"
  as_enrolled_at :: "datetime option"
  as_last_seen :: "datetime option"
  as_revoked :: bool

record SessionSummary =
  ss_session_id :: uuid
  ss_node_name :: pystr
  ss_user_name :: pystr
  ss_started_at :: datetime
  ss_ended_at :: "datetime option"
  ss_status :: pystr

record RotationState =
  ro_state_key_name :: pystr
  ro_state_old_fingerprint :: pystr
  ro_state_new_fingerprint :: pystr
  ro_state_trusted_fingerprints :: "pystr list"
  ro_state_status :: pystr

section \<open>PostgresAdminStore\<close>

text \<open>Two statements, each a transaction of its own; the second fails for text PostgreSQL cannot store.\<close>

definition admin_create_enrollment_token ::
  "pystr \<Rightarrow> pystr \<Rightarrow> pystr list \<Rightarrow> pystr \<Rightarrow> pystr \<Rightarrow> datetime \<Rightarrow> datetime \<Rightarrow> (database, unit) op" where
  "admin_create_enrollment_token token_hash node_name labels created_by host_key expires_at now =
     sbind (pg_disable_tokens now node_name) (\<lambda>_.
     sbind (srequire (pg_text created_by \<and> pg_text host_key) (PostgresError ''invalid text'')) (\<lambda>_.
     sql_write (\<lambda>db. db\<lparr>db_tokens := db_tokens db @
       [\<lparr>tk_token_hash = token_hash, tk_node_name = node_name, tk_labels = labels,
         tk_node_ssh_host_public_key = host_key, tk_created_by = created_by, tk_created_at = now,
         tk_expires_at = as_utc expires_at, tk_used = False, tk_used_at = None,
         tk_disabled_at = None, tk_agent_id = None\<rparr>]\<rparr>)))"

definition admin_labels :: "(json \<Rightarrow> pystr) \<Rightarrow> json \<Rightarrow> pystr list result" where
  "admin_labels text_of v =
     rbind (case v of
         JStr t \<Rightarrow> (case json_loads t of None \<Rightarrow> Inl (ValueError ''JSONDecodeError'') | Some j \<Rightarrow> Inr j)
       | _ \<Rightarrow> Inr v) (\<lambda>loaded. case loaded of
         JArr xs \<Rightarrow> Inr (map (py_str text_of) xs)
       | _ \<Rightarrow> Inl (AdminError ''agent labels must be an array''))"

definition agent_summary :: "(json \<Rightarrow> pystr) \<Rightarrow> agents_row \<Rightarrow> AgentSummary result" where
  "agent_summary text_of row =
     rbind (admin_labels text_of (labels_text (ag_labels row))) (\<lambda>labels.
       Inr \<lparr>as_node_name = ag_node_name row, as_hostname = ag_hostname row, as_labels = labels,
            as_enrolled_at = Some (as_utc (ag_enrolled_at row)), as_last_seen = map_option as_utc (ag_last_seen row),
            as_revoked = ag_revoked row\<rparr>)"

definition admin_list_agents :: "(json \<Rightarrow> pystr) \<Rightarrow> (database, AgentSummary list) op" where
  "admin_list_agents text_of db = (rmap (agent_summary text_of) (sort_key ag_node_name (db_agents db)), db)"

text \<open>\<open>UPDATE agents ... WHERE node_name = $1 AND revoked = false RETURNING id\<close>.\<close>

definition update_agent ::
  "pystr \<Rightarrow> (agents_row \<Rightarrow> agents_row) \<Rightarrow> exc \<Rightarrow> (database, uuid) op" where
  "update_agent node_name change missing db =
     (let live = (\<lambda>r. ag_node_name r = node_name \<and> \<not> ag_revoked r) in
      case find live (db_agents db) of
        None \<Rightarrow> (Inl missing, db)
      | Some row \<Rightarrow> sbind (sql_write (\<lambda>db. db\<lparr>db_agents := update_where live change (db_agents db)\<rparr>))
          (\<lambda>_. sret (ag_id row)) db)"

definition admin_revoke_agent :: "pystr \<Rightarrow> datetime \<Rightarrow> (database, uuid) op" where
  "admin_revoke_agent node_name now =
     update_agent node_name (\<lambda>r. r\<lparr>ag_revoked := True, ag_revoked_at := Some now\<rparr>)
       (AdminError ''agent not found or already revoked'')"

definition admin_rotate_tunnel_secret :: "pystr \<Rightarrow> pystr \<Rightarrow> (database, uuid) op" where
  "admin_rotate_tunnel_secret node_name tunnel_secret_hash =
     update_agent node_name (\<lambda>r. r\<lparr>ag_tunnel_secret_hash := tunnel_secret_hash\<rparr>)
       (AdminError ''agent not found or revoked'')"

definition admin_update_node_host_key :: "pystr \<Rightarrow> pystr \<Rightarrow> (database, uuid) op" where
  "admin_update_node_host_key node_name host_key =
     sbind (srequire (pg_text host_key) (PostgresError ''invalid text'')) (\<lambda>_.
     update_agent node_name (\<lambda>r. r\<lparr>ag_node_ssh_host_public_key := host_key\<rparr>)
       (AdminError ''agent not found or revoked''))"

text \<open>The count in the status text of an \<open>UPDATE\<close>.\<close>

definition updated_count :: "pystr \<Rightarrow> int result" where
  "updated_count status = (let parts = split_ws status in
     if length parts < 2 \<or> \<not> isdigit (List.last parts) then Inr 0 else py_int (List.last parts))"

definition admin_expire_token :: "pystr \<Rightarrow> datetime \<Rightarrow> (database, int) op" where
  "admin_expire_token node_name now db =
     (let n = length (filter (\<lambda>t. tk_node_name t = node_name \<and> \<not> tk_used t \<and> tk_disabled_at t = None) (db_tokens db)) in
      sbind (pg_disable_tokens now node_name) (\<lambda>_. slift (updated_count (str ''UPDATE '' @ digits_of n))) db)"

definition session_summary :: "agents_row \<Rightarrow> sessions_row \<Rightarrow> SessionSummary" where
  "session_summary agent row =
     \<lparr>ss_session_id = se_id row, ss_node_name = ag_node_name agent, ss_user_name = se_user_name row,
      ss_started_at = as_utc (se_started_at row), ss_ended_at = map_option as_utc (se_ended_at row),
      ss_status = se_status row\<rparr>"

definition admin_list_sessions :: "pystr option \<Rightarrow> pystr option \<Rightarrow> (database, SessionSummary list) op" where
  "admin_list_sessions node_name user_name =
     sbind (srequire (case user_name of None \<Rightarrow> True | Some u \<Rightarrow> pg_text u) (PostgresError ''invalid text'')) (\<lambda>_.
     sget (\<lambda>db. concat (map (\<lambda>s. case agent_by_id db (se_agent_id s) of
         None \<Rightarrow> []
       | Some a \<Rightarrow> if (node_name = None \<or> node_name = Some (ag_node_name a)) \<and>
                       (user_name = None \<or> user_name = Some (se_user_name s))
                    then [session_summary a s] else [])
       (sort_key (\<lambda>s. - instant (se_started_at s)) (db_sessions db)))))"

definition store_start_ca_rotation :: "uuid \<Rightarrow> pystr \<Rightarrow> pystr \<Rightarrow> pystr \<Rightarrow> datetime \<Rightarrow> (admin_world, uuid) op" where
  "store_start_ca_rotation rotation_id key_name old_fingerprint new_fingerprint now =
     sbind (srequire (pg_text key_name \<and> pg_text old_fingerprint \<and> pg_text new_fingerprint)
       (PostgresError ''invalid text'')) (\<lambda>_.
     sbind (sget aw_rotations) (\<lambda>rows.
     sbind (srequire (rotation_id \<notin> ro_id ` set rows) (PostgresError ''constraint violation'')) (\<lambda>_.
     sbind (smodify (\<lambda>w. w\<lparr>aw_rotations := rows @ [\<lparr>ro_id = rotation_id, ro_key_name = key_name,
        ro_old_fingerprint = old_fingerprint, ro_new_fingerprint = new_fingerprint, ro_started_at = now,
        ro_completed_at = None, ro_status = str ''started''\<rparr>]\<rparr>)) (\<lambda>_.
     sret rotation_id))))"

definition rotation_active :: "uuid \<Rightarrow> rotation_row \<Rightarrow> bool" where
  "rotation_active rotation_id row \<longleftrightarrow> ro_id row = rotation_id \<and> ro_status row = str ''started''"

definition rotation_state :: "rotation_row \<Rightarrow> pystr list \<Rightarrow> pystr \<Rightarrow> RotationState" where
  "rotation_state row trusted status =
     \<lparr>ro_state_key_name = ro_key_name row, ro_state_old_fingerprint = ro_old_fingerprint row,
      ro_state_new_fingerprint = ro_new_fingerprint row, ro_state_trusted_fingerprints = trusted,
      ro_state_status = status\<rparr>"

definition store_complete_ca_rotation :: "uuid \<Rightarrow> pystr list \<Rightarrow> datetime \<Rightarrow> (admin_world, RotationState) op" where
  "store_complete_ca_rotation rotation_id trusted now w =
     (case find (rotation_active rotation_id) (aw_rotations w) of
        None \<Rightarrow> (Inl (AdminError ''CA rotation is not active''), w)
      | Some row \<Rightarrow> (Inr (rotation_state row trusted (str ''completed'')),
          w\<lparr>aw_rotations := update_where (rotation_active rotation_id)
            (\<lambda>r. r\<lparr>ro_completed_at := Some now, ro_status := str ''completed''\<rparr>) (aw_rotations w)\<rparr>))"

definition store_get_ca_rotation :: "uuid \<Rightarrow> (admin_world, RotationState) op" where
  "store_get_ca_rotation rotation_id w =
     (case find (rotation_active rotation_id) (aw_rotations w) of
        None \<Rightarrow> (Inl (AdminError ''CA rotation is not active''), w)
      | Some row \<Rightarrow> (Inr (rotation_state row [] (ro_status row)), w))"

section \<open>Validation and output\<close>

definition validate_server_host :: "pystr \<Rightarrow> pystr result" where
  "validate_server_host value =
     (if value = [] \<or> startswith value (str ''-'') \<or> list_ex isspace value then Inl (AdminError ''invalid server host'')
      else if 47 \<in> set value \<or> 58 \<in> set value \<or> 64 \<in> set value then Inl (AdminError ''invalid server host'')
      else Inr value)"

definition validate_proxy_host :: "pystr \<Rightarrow> pystr result" where
  "validate_proxy_host value =
     (if \<not> startswith value (str ''127.'') \<or> list_ex isspace value then Inl (AdminError ''invalid proxy host'')
      else Inr value)"

text \<open>\<open>AdminError(str(exc))\<close>.\<close>

fun admin_error :: "exc \<Rightarrow> exc" where
  "admin_error (ValueError message) = AdminError message"
| "admin_error e = e"

definition validate_node_host_key :: "(pystr \<Rightarrow> unit result) \<Rightarrow> pystr \<Rightarrow> pystr result" where
  "validate_node_host_key import_key value =
     rewrap (validate_node_ssh_host_public_key import_key value) is_value_error admin_error"

definition validate_port :: "int \<Rightarrow> string \<Rightarrow> unit result" where
  "validate_port value label = require (1 \<le> value \<and> value \<le> 65535) (AdminError (label @ '' is outside valid TCP port bounds''))"

definition require_overlap :: "pystr \<Rightarrow> pystr \<Rightarrow> pystr list \<Rightarrow> unit result" where
  "require_overlap old_fingerprint new_fingerprint trusted_fingerprints =
     (if old_fingerprint \<notin> set trusted_fingerprints \<or> new_fingerprint \<notin> set trusted_fingerprints
      then Inl (AdminError ''CA rotation requires overlapping trust bundle'') else Inr ())"

record create_agent_args =
  cr_node_name :: pystr
  cr_labels :: "pystr list"
  cr_actor :: pystr
  cr_node_ssh_host_public_key :: pystr
  cr_server_host :: pystr
  cr_enrollment_port :: int
  cr_tunnel_port :: int
  cr_proxy_host :: pystr
  cr_proxy_port :: int
  cr_heartbeat_seconds :: int

definition render_created_conf :: "create_agent_args \<Rightarrow> secret \<Rightarrow> pystr" where
  "render_created_conf a token = join [10]
     [str ''[enrollment]'',
      str ''node_name = '' @ cr_node_name a,
      str ''token = '' @ reveal token,
      str ''api_url = https://'' @ cr_server_host a @ [58] @ show_int (cr_enrollment_port a) @ str ''/enroll'',
      str ''tls_ca_bundle = /etc/vibeconnect/ca.crt'',
      str ''node_ssh_host_public_key = '' @ cr_node_ssh_host_public_key a,
      [],
      str ''[tunnel]'',
      str ''server_url = https://'' @ cr_server_host a @ [58] @ show_int (cr_tunnel_port a) @ str ''/tunnel'',
      str ''tls_ca_bundle = /etc/vibeconnect/ca.crt'',
      str ''heartbeat_seconds = '' @ show_int (cr_heartbeat_seconds a),
      [],
      str ''[proxy]'',
      str ''target = '' @ cr_proxy_host a @ [58] @ show_int (cr_proxy_port a),
      [],
      str ''[identity]'',
      str ''path = /var/lib/vibeconnect/identity.json'',
      []]"

definition agent_json :: "AgentSummary \<Rightarrow> json" where
  "agent_json a = JObj
     [(str ''node_name'', JStr (as_node_name a)),
      (str ''hostname'', case as_hostname a of None \<Rightarrow> JNull | Some h \<Rightarrow> JStr h),
      (str ''labels'', JArr (map JStr (as_labels a))),
      (str ''enrolled_at'', format_datetime (as_enrolled_at a)),
      (str ''last_seen'', format_datetime (as_last_seen a)),
      (str ''revoked'', JBool (as_revoked a))]"

definition session_json :: "SessionSummary \<Rightarrow> json" where
  "session_json s = JObj
     [(str ''session_id'', JStr (uuid_text (ss_session_id s))),
      (str ''node_name'', JStr (ss_node_name s)),
      (str ''user_name'', JStr (ss_user_name s)),
      (str ''started_at'', format_datetime (Some (ss_started_at s))),
      (str ''ended_at'', format_datetime (ss_ended_at s)),
      (str ''status'', JStr (ss_status s))]"

text \<open>\<open>json.dumps(value, sort_keys=True)\<close> with the default separators.\<close>

fun json_print_spaced :: "json \<Rightarrow> pystr" where
  "json_print_spaced (JArr xs) = 91 # join [44, 32] (map json_print_spaced xs) @ [93]"
| "json_print_spaced (JObj kvs) =
     123 # join [44, 32] (map (\<lambda>(k, v). print_string k @ [58, 32] @ json_print_spaced v) kvs) @ [125]"
| "json_print_spaced j = json_print j"

definition json_line :: "json \<Rightarrow> pystr" where
  "json_line j = json_print_spaced (sort_keys j)"

definition render_agents :: "AgentSummary list \<Rightarrow> pystr" where
  "render_agents agents = join [10] (map (\<lambda>a. json_line (agent_json a)) agents)"

definition render_sessions :: "SessionSummary list \<Rightarrow> pystr" where
  "render_sessions sessions = join [10] (map (\<lambda>s. json_line (session_json s)) sessions)"

section \<open>AdminService\<close>

text \<open>\<open>audited\<close>: whether the service has an audit writer.\<close>

record admin_service =
  sv_audited :: bool
  sv_text_of :: "json \<Rightarrow> pystr"
  sv_import_key :: "pystr \<Rightarrow> unit result"

definition SECRET_OUTPUT :: pystr where
  "SECRET_OUTPUT = str ''[not printed]''"

definition ADMIN_TOKEN_LIFETIME_DAYS :: int where
  "ADMIN_TOKEN_LIFETIME_DAYS = 7"

definition admin_now :: "admin_fresh \<Rightarrow> datetime option \<Rightarrow> datetime" where
  "admin_now f now = (case now of None \<Rightarrow> af_clock f | Some t \<Rightarrow> as_utc t)"

definition admin_audit :: "admin_service \<Rightarrow> admin_fresh \<Rightarrow> audit_request \<Rightarrow> (admin_world, unit) op" where
  "admin_audit sv f q =
     (if \<not> sv_audited sv then sret ()
      else (let scrubbed = scrub_secret_metadata (aq_metadata q) in
        if \<not> is_dict scrubbed then sraise (AdminError ''audit metadata must be an object'')
        else sbind (admin_db (audit_write (af_audit_id f) (af_clock f) (q\<lparr>aq_metadata := scrubbed\<rparr>))) (\<lambda>_. sret ())))"

definition admin_create_agent ::
  "admin_service \<Rightarrow> admin_fresh \<Rightarrow> create_agent_args \<Rightarrow> datetime option \<Rightarrow> (admin_world, CreatedAgentPackage) op" where
  "admin_create_agent sv f a now =
     sbind (slift (validate_node_name (cr_node_name a))) (\<lambda>node_name.
     sbind (slift (rmap validate_label (cr_labels a))) (\<lambda>labels.
     sbind (slift (validate_server_host (cr_server_host a))) (\<lambda>server_host.
     sbind (slift (validate_node_host_key (sv_import_key sv) (cr_node_ssh_host_public_key a))) (\<lambda>host_key.
     sbind (slift (validate_port (cr_enrollment_port a) ''enrollment_port'')) (\<lambda>_.
     sbind (slift (validate_port (cr_tunnel_port a) ''tunnel_port'')) (\<lambda>_.
     sbind (slift (validate_port (cr_proxy_port a) ''proxy_port'')) (\<lambda>_.
     sbind (slift (validate_proxy_host (cr_proxy_host a))) (\<lambda>proxy_host.
     sbind (srequire (5 \<le> cr_heartbeat_seconds a \<and> cr_heartbeat_seconds a \<le> 300)
       (AdminError ''heartbeat_seconds is outside documented bounds'')) (\<lambda>_.
     sbind (slift (generate_enrollment_token (af_random f))) (\<lambda>token.
     sbind (slift (sha256_hex token)) (\<lambda>token_hash.
     sbind (admin_db (admin_create_enrollment_token token_hash node_name labels (cr_actor a) host_key
       (plus_delta (admin_now f now) (days ADMIN_TOKEN_LIFETIME_DAYS)) (admin_now f now))) (\<lambda>_.
     sbind (admin_audit sv f \<lparr>aq_event_type = ENROLLMENT_TOKEN_CREATED, aq_actor = cr_actor a,
       aq_metadata = PDict [(str ''labels'', PList (map PStr labels)), (str ''token_hash'', PStr token_hash)],
       aq_agent_id = None, aq_session_id = None, aq_node_name = Some node_name, aq_now = Some (admin_now f now)\<rparr>) (\<lambda>_.
     sret \<lparr>cap_node_name = node_name, cap_labels = labels,
       cap_agent_conf = render_created_conf (a\<lparr>cr_node_name := node_name, cr_server_host := server_host,
         cr_proxy_host := proxy_host, cr_node_ssh_host_public_key := host_key\<rparr>) token\<rparr>)))))))))))))"

definition list_agents :: "admin_service \<Rightarrow> (admin_world, AgentSummary list) op" where
  "list_agents sv = admin_db (admin_list_agents (sv_text_of sv))"

definition revoke_agent ::
  "admin_service \<Rightarrow> admin_fresh \<Rightarrow> pystr \<Rightarrow> pystr \<Rightarrow> datetime option \<Rightarrow> (admin_world, uuid) op" where
  "revoke_agent sv f node_name actor now =
     sbind (slift (validate_node_name node_name)) (\<lambda>name.
     sbind (admin_db (admin_revoke_agent name (admin_now f now))) (\<lambda>agent_id.
     sbind (admin_audit sv f \<lparr>aq_event_type = AGENT_REVOKED, aq_actor = actor,
       aq_metadata = PDict [(str ''status'', PStr (str ''revoked''))], aq_agent_id = Some agent_id, aq_session_id = None,
       aq_node_name = Some name, aq_now = Some (admin_now f now)\<rparr>) (\<lambda>_.
     sret agent_id)))"

definition rotate_tunnel_secret ::
  "admin_service \<Rightarrow> admin_fresh \<Rightarrow> pystr \<Rightarrow> pystr \<Rightarrow> datetime option \<Rightarrow> (admin_world, uuid) op" where
  "rotate_tunnel_secret sv f node_name actor now =
     sbind (slift (validate_node_name node_name)) (\<lambda>name.
     sbind (slift (generate_tunnel_secret (af_random f))) (\<lambda>tunnel_secret.
     sbind (slift (sha256_hex tunnel_secret)) (\<lambda>tunnel_secret_hash.
     sbind (admin_db (admin_rotate_tunnel_secret name tunnel_secret_hash)) (\<lambda>agent_id.
     sbind (admin_audit sv f \<lparr>aq_event_type = TUNNEL_SECRET_ROTATED, aq_actor = actor,
       aq_metadata = PDict [(str ''tunnel_secret'', PStr SECRET_OUTPUT)], aq_agent_id = Some agent_id, aq_session_id = None,
       aq_node_name = Some name, aq_now = Some (admin_now f now)\<rparr>) (\<lambda>_.
     sret agent_id)))))"

definition update_node_host_key ::
  "admin_service \<Rightarrow> admin_fresh \<Rightarrow> pystr \<Rightarrow> pystr \<Rightarrow> pystr \<Rightarrow> datetime option \<Rightarrow> (admin_world, uuid) op" where
  "update_node_host_key sv f node_name host_key_text actor now =
     sbind (slift (validate_node_name node_name)) (\<lambda>name.
     sbind (slift (validate_node_host_key (sv_import_key sv) host_key_text)) (\<lambda>host_key.
     sbind (admin_db (admin_update_node_host_key name host_key)) (\<lambda>agent_id.
     sbind (admin_audit sv f \<lparr>aq_event_type = NODE_HOST_KEY_UPDATED, aq_actor = actor,
       aq_metadata = PDict [(str ''node_ssh_host_public_key'', PStr (str ''[pinned]''))], aq_agent_id = Some agent_id,
       aq_session_id = None, aq_node_name = Some name, aq_now = Some (admin_now f now)\<rparr>) (\<lambda>_.
     sret agent_id))))"

definition expire_token ::
  "admin_service \<Rightarrow> admin_fresh \<Rightarrow> pystr \<Rightarrow> pystr \<Rightarrow> datetime option \<Rightarrow> (admin_world, int) op" where
  "expire_token sv f node_name actor now =
     sbind (slift (validate_node_name node_name)) (\<lambda>name.
     sbind (admin_db (admin_expire_token name (admin_now f now))) (\<lambda>count.
     sbind (admin_audit sv f \<lparr>aq_event_type = ENROLLMENT_TOKEN_EXPIRED, aq_actor = actor,
       aq_metadata = PDict [(str ''expired'', PInt count)], aq_agent_id = None, aq_session_id = None,
       aq_node_name = Some name, aq_now = Some (admin_now f now)\<rparr>) (\<lambda>_.
     sret count)))"

definition list_sessions :: "pystr option \<Rightarrow> pystr option \<Rightarrow> (admin_world, SessionSummary list) op" where
  "list_sessions node_name user_name =
     sbind (slift (if node_name = None \<or> node_name = Some [] then Inr None
       else rbind (validate_node_name (the node_name)) (\<lambda>name. Inr (Some name)))) (\<lambda>name.
     admin_db (admin_list_sessions name user_name))"

definition start_ca_rotation ::
  "admin_service \<Rightarrow> admin_fresh \<Rightarrow> pystr \<Rightarrow> pystr \<Rightarrow> pystr \<Rightarrow> pystr list \<Rightarrow> pystr \<Rightarrow> datetime option \<Rightarrow>
   (admin_world, uuid) op" where
  "start_ca_rotation sv f key_name old_fingerprint new_fingerprint trusted_fingerprints actor now =
     sbind (srequire (old_fingerprint \<noteq> new_fingerprint) (AdminError ''CA rotation requires distinct fingerprints'')) (\<lambda>_.
     sbind (slift (require_overlap old_fingerprint new_fingerprint trusted_fingerprints)) (\<lambda>_.
     sbind (store_start_ca_rotation (af_rotation_id f) key_name old_fingerprint new_fingerprint (admin_now f now)) (\<lambda>rotation_id.
     sbind (admin_audit sv f \<lparr>aq_event_type = CA_ROTATION_STARTED, aq_actor = actor,
       aq_metadata = PDict [(str ''key_name'', PStr key_name), (str ''old_fingerprint'', PStr old_fingerprint),
         (str ''new_fingerprint'', PStr new_fingerprint)], aq_agent_id = None, aq_session_id = None,
       aq_node_name = None, aq_now = Some (admin_now f now)\<rparr>) (\<lambda>_.
     sret rotation_id))))"

definition complete_ca_rotation ::
  "admin_service \<Rightarrow> admin_fresh \<Rightarrow> uuid \<Rightarrow> pystr list \<Rightarrow> pystr \<Rightarrow> datetime option \<Rightarrow> (admin_world, RotationState) op" where
  "complete_ca_rotation sv f rotation_id trusted_fingerprints actor now =
     sbind (store_get_ca_rotation rotation_id) (\<lambda>active.
     sbind (srequire (ro_state_old_fingerprint active \<notin> set trusted_fingerprints)
       (AdminError ''old CA fingerprint remains trusted'')) (\<lambda>_.
     sbind (srequire (ro_state_new_fingerprint active \<in> set trusted_fingerprints)
       (AdminError ''new CA fingerprint is not trusted'')) (\<lambda>_.
     sbind (store_complete_ca_rotation rotation_id trusted_fingerprints (admin_now f now)) (\<lambda>state.
     sbind (admin_audit sv f \<lparr>aq_event_type = CA_ROTATION_COMPLETED, aq_actor = actor,
       aq_metadata = PDict [(str ''key_name'', PStr (ro_state_key_name state)), (str ''status'', PStr (ro_state_status state))],
       aq_agent_id = None, aq_session_id = None, aq_node_name = None, aq_now = Some (admin_now f now)\<rparr>) (\<lambda>_.
     sret state)))))"

section \<open>_run_admin_command\<close>

text \<open>The arguments of a command; a key file is the result of reading its text.\<close>

datatype admin_command =
    CreateAgent create_agent_args "pystr result"
  | ListAgents
  | RevokeAgent pystr pystr
  | RotateTunnelSecret pystr pystr
  | UpdateNodeHostKey pystr "pystr result" pystr
  | ExpireToken pystr pystr
  | ListSessions "pystr option" "pystr option"

definition run_admin_command :: "admin_service \<Rightarrow> admin_fresh \<Rightarrow> admin_command \<Rightarrow> (admin_world, pystr) op" where
  "run_admin_command sv f command = (case command of
     CreateAgent a key_file \<Rightarrow>
       sbind (slift key_file) (\<lambda>key.
       sbind (admin_create_agent sv f (a\<lparr>cr_node_ssh_host_public_key := key\<rparr>) None) (\<lambda>package. sret (cap_agent_conf package)))
   | ListAgents \<Rightarrow> sbind (list_agents sv) (\<lambda>agents. sret (render_agents agents))
   | RevokeAgent node_name actor \<Rightarrow>
       sbind (revoke_agent sv f node_name actor None) (\<lambda>_. sret (str ''revoked '' @ node_name))
   | RotateTunnelSecret node_name actor \<Rightarrow>
       sbind (rotate_tunnel_secret sv f node_name actor None) (\<lambda>_.
         sret (str ''rotated tunnel secret for '' @ node_name @ str ''; secret not printed''))
   | UpdateNodeHostKey node_name key_file actor \<Rightarrow>
       sbind (slift key_file) (\<lambda>key.
       sbind (update_node_host_key sv f node_name (strip key) actor None) (\<lambda>_.
         sret (str ''updated node host key for '' @ node_name)))
   | ExpireToken node_name actor \<Rightarrow>
       sbind (expire_token sv f node_name actor None) (\<lambda>expired.
         sret (str ''expired '' @ show_int expired @ str '' active token(s) for '' @ node_name))
   | ListSessions node_name user_name \<Rightarrow>
       sbind (list_sessions node_name user_name) (\<lambda>sessions. sret (render_sessions sessions)))"

end
