(* ===== verification/Admin_Facts.thy ===== *)
theory Admin_Facts
  imports Admin Server_Main_Facts Enrollment_Facts Tunnel_State
begin

text \<open>
  Facts of the admin commands: what no sequence of them undoes, what revoking an agent and rotating its
  secret mean for the tunnel, the inventory and the jumps, that a created package enrolls, the rotation
  of a CA key, and what the listings can show.
\<close>

section \<open>What every command keeps\<close>

text \<open>
  From one state to a later one: revoked agents keep their row, no agent is added or renamed, tokens that
  were used or disabled keep their row, no session changes, the audit log grows by safe rows, and the
  constraints hold if they did.
\<close>

definition admin_keeps :: "database \<Rightarrow> database \<Rightarrow> bool" where
  "admin_keeps db db' \<longleftrightarrow>
     (\<forall>r \<in> set (db_agents db). ag_revoked r \<longrightarrow> r \<in> set (db_agents db')) \<and>
     map (\<lambda>r. (ag_id r, ag_node_name r)) (db_agents db') = map (\<lambda>r. (ag_id r, ag_node_name r)) (db_agents db) \<and>
     (\<forall>t \<in> set (db_tokens db). \<not> token_active t \<longrightarrow> t \<in> set (db_tokens db')) \<and>
     db_sessions db' = db_sessions db \<and>
     (\<exists>rs. db_audit db' = db_audit db @ rs \<and> list_all row_safe rs) \<and>
     (wf_db db \<longrightarrow> wf_db db')"

lemma admin_keeps_refl [simp]: "admin_keeps db db"
  by (simp add: admin_keeps_def)

lemma admin_keeps_trans: "admin_keeps a b \<Longrightarrow> admin_keeps b c \<Longrightarrow> admin_keeps a c"
  unfolding admin_keeps_def
  by (elim conjE exE, intro conjI)
     (auto intro!: exI [of _ "_ @ _"])

named_theorems kept "operations of the admin commands keep what was revoked, spent or recorded"

definition db_kept :: "(database, 'a) op \<Rightarrow> bool" where
  "db_kept m \<longleftrightarrow> (\<forall>db r db'. m db = (r, db') \<longrightarrow> admin_keeps db db')"

definition admin_kept :: "(admin_world, 'a) op \<Rightarrow> bool" where
  "admin_kept m \<longleftrightarrow> (\<forall>w r w'. m w = (r, w') \<longrightarrow> admin_keeps (aw_db w) (aw_db w'))"

lemma kept_basic [kept]:
  "db_kept (sret x)" "db_kept (slift r)" "db_kept (srequire b e)" "db_kept (sget f)"
  "admin_kept (sret x)" "admin_kept (slift r)" "admin_kept (srequire b e)" "admin_kept (sraise e)"
  "admin_kept (sget g)"
  by (auto simp: db_kept_def admin_kept_def slift_def sraise_def)

lemma kept_sbind [kept]:
  "db_kept m \<Longrightarrow> (\<And>x. db_kept (k x)) \<Longrightarrow> db_kept (sbind m k)"
  "admin_kept m' \<Longrightarrow> (\<And>x. admin_kept (k' x)) \<Longrightarrow> admin_kept (sbind m' k')"
proof -
  show "db_kept m \<Longrightarrow> (\<And>x. db_kept (k x)) \<Longrightarrow> db_kept (sbind m k)"
    unfolding db_kept_def sbind_def by (clarsimp split: prod.splits sum.splits) (meson admin_keeps_trans)
  show "admin_kept m' \<Longrightarrow> (\<And>x. admin_kept (k' x)) \<Longrightarrow> admin_kept (sbind m' k')"
    unfolding admin_kept_def sbind_def by (clarsimp split: prod.splits sum.splits) (meson admin_keeps_trans)
qed

lemma kept_admin_db [kept]: "db_kept m \<Longrightarrow> admin_kept (admin_db m)"
  by (auto simp: db_kept_def admin_kept_def admin_db_def split: prod.splits)

lemma kept_smodify [kept]: "(\<And>w. aw_db (f w) = aw_db w) \<Longrightarrow> admin_kept (smodify f)"
  by (simp add: admin_kept_def)

lemma kept_sql_write:
  assumes "\<And>db. wf_db (f db) \<Longrightarrow> admin_keeps db (f db)"
  shows "db_kept (sql_write f)"
  using assms by (auto simp: db_kept_def sql_write_def split: if_splits)

lemma kept_audit_write [kept]: "db_kept (audit_write i c q)"
  unfolding db_kept_def
proof (intro allI impI)
  fix db r db'
  assume a: "audit_write i c q db = (r, db')"
  show "admin_keeps db db'"
  proof (cases r)
    case (Inl e)
    with a have "db' = db" using audit_write_Inl by blast
    then show ?thesis by simp
  next
    case (Inr ev)
    note w = audit_write_Inr [OF a [unfolded Inr]]
    from w(1-3) show ?thesis by (simp add: admin_keeps_def)
  qed
qed

lemma keeps_update_tokens:
  assumes "\<And>t. p t \<Longrightarrow> token_active t" "wf_db (db\<lparr>db_tokens := update_where p f (db_tokens db)\<rparr>)"
  shows "admin_keeps db (db\<lparr>db_tokens := update_where p f (db_tokens db)\<rparr>)"
  using assms by (force simp: admin_keeps_def set_update_where)

lemma kept_disable [kept]: "db_kept (pg_disable_tokens now n)"
  unfolding pg_disable_tokens_def
  by (intro kept_sql_write keeps_update_tokens) (auto simp: token_active_def)

lemma kept_create_token [kept]: "db_kept (admin_create_enrollment_token h n ls cb k ex now)"
proof -
  have "db_kept (sql_write (\<lambda>db. db\<lparr>db_tokens := db_tokens db @ ts\<rparr>))" for ts
    by (rule kept_sql_write) (simp add: admin_keeps_def)
  then show ?thesis unfolding admin_create_enrollment_token_def by (intro kept)
qed

lemma kept_update_agent:
  assumes "\<And>r. ag_id (f r) = ag_id r \<and> ag_node_name (f r) = ag_node_name r"
  shows "db_kept (update_agent n f e)"
proof -
  let ?p = "\<lambda>r. ag_node_name r = n \<and> \<not> ag_revoked r"
  have k: "admin_keeps db (db\<lparr>db_agents := update_where ?p f (db_agents db)\<rparr>)"
    if "wf_db (db\<lparr>db_agents := update_where ?p f (db_agents db)\<rparr>)" for db
  proof -
    have "map (\<lambda>r. (ag_id r, ag_node_name r)) (update_where ?p f (db_agents db)) =
        map (\<lambda>r. (ag_id r, ag_node_name r)) (db_agents db)"
      using assms by (intro map_update_where) simp
    moreover have "r \<in> set (update_where ?p f (db_agents db))" if "r \<in> set (db_agents db)" "ag_revoked r" for r
      using that by (force simp: set_update_where)
    ultimately show ?thesis using that by (simp add: admin_keeps_def)
  qed
  show ?thesis
    unfolding db_kept_def update_agent_def Let_def
    by (auto simp: sbind_def sql_write_def k split: option.splits if_splits)
qed

lemma kept_agent_updates [kept]:
  "db_kept (admin_revoke_agent n now)" "db_kept (admin_rotate_tunnel_secret n h)"
  "db_kept (admin_update_node_host_key n k)"
  unfolding admin_revoke_agent_def admin_rotate_tunnel_secret_def admin_update_node_host_key_def
  by (intro kept kept_update_agent, simp)+

lemma kept_expire [kept]: "db_kept (admin_expire_token n now)"
  unfolding db_kept_def admin_expire_token_def Let_def
proof (intro allI impI)
  fix db r db'
  assume "sbind (pg_disable_tokens now n) (\<lambda>_. slift (updated_count (str ''UPDATE '' @
      digits_of (length (filter (\<lambda>t. tk_node_name t = n \<and> \<not> tk_used t \<and> tk_disabled_at t = None) (db_tokens db)))))) db = (r, db')"
  moreover have "db_kept (sbind (pg_disable_tokens now n) (\<lambda>_. slift x))" for x :: "int result" by (intro kept)
  ultimately show "admin_keeps db db'" unfolding db_kept_def by blast
qed

lemma kept_lists [kept]: "db_kept (admin_list_agents g)" "db_kept (admin_list_sessions n u)"
  by (simp add: db_kept_def admin_list_agents_def) (unfold admin_list_sessions_def, intro kept)

lemma kept_admin_audit [kept]: "admin_kept (admin_audit sv f q)"
  unfolding admin_audit_def Let_def by (auto intro!: kept)

lemma kept_command [kept]: "admin_kept (run_admin_command sv f c)"
  by (cases c; simp only: run_admin_command_def admin_create_agent_def list_agents_def revoke_agent_def
      rotate_tunnel_secret_def update_node_host_key_def expire_token_def list_sessions_def admin_command.case; intro kept)

text \<open>The world after a sequence of commands, each with what it draws.\<close>

definition admin_after :: "admin_service \<Rightarrow> (admin_fresh \<times> admin_command) list \<Rightarrow> admin_world \<Rightarrow> admin_world" where
  "admin_after sv commands w = fold (\<lambda>(f, c) w. snd (run_admin_command sv f c w)) commands w"

lemma after_kept: "admin_keeps (aw_db w) (aw_db (admin_after sv commands w))"
proof (induction commands arbitrary: w)
  case (Cons fc commands)
  obtain f c where fc: "fc = (f, c)" by (cases fc)
  have "admin_keeps (aw_db w) (aw_db (snd (run_admin_command sv f c w)))"
    using kept_command [of sv f c] unfolding admin_kept_def by (metis prod.collapse)
  with Cons.IH show ?case by (auto simp: fc admin_after_def intro: admin_keeps_trans)
qed (simp add: admin_after_def)

text \<open>C33: No sequence of admin commands undoes a revocation or revives a token: every revoked agent keeps
  its row, so it stays revoked with the same time, as does every used or disabled token.  Agents are never
  added or renamed, no session row changes, the audit log only grows, by rows without secrets, and the
  constraints of the tables keep holding, also when a command fails half-way.\<close>

theorem admin_commands_undo_nothing: "admin_keeps (aw_db w) (aw_db (admin_after sv commands w))"
  by (rule after_kept)

section \<open>Changing an agent\<close>

definition live_agent :: "pystr \<Rightarrow> agents_row \<Rightarrow> bool" where
  "live_agent n r \<longleftrightarrow> ag_node_name r = n \<and> \<not> ag_revoked r"

lemma update_agent_Inr:
  "update_agent n f e db = (Inr a, db') \<longleftrightarrow> (\<exists>row. find (live_agent n) (db_agents db) = Some row \<and> a = ag_id row \<and>
    wf_db db' \<and> db' = db\<lparr>db_agents := update_where (live_agent n) f (db_agents db)\<rparr>)"
  by (auto simp: update_agent_def Let_def live_agent_def [abs_def] exc_elims split: option.splits)

lemma admin_db_Inr: "admin_db m w = (r, w') \<longleftrightarrow> (\<exists>db. m (aw_db w) = (r, db) \<and> w' = w\<lparr>aw_db := db\<rparr>)"
  by (auto simp: admin_db_def split: prod.splits)

lemma admin_audit_Inr:
  assumes "admin_audit sv f q w = (Inr u, w')"
  shows "audit_only (aw_db w) (aw_db w') \<and> (wf_db (aw_db w) \<longrightarrow> wf_db (aw_db w')) \<and> aw_rotations w' = aw_rotations w"
  using assms by (auto simp: admin_audit_def Let_def exc_elims admin_db_Inr sraise_def split: if_splits dest: audit_write_frame)

text \<open>The row a change of an agent leaves, and how the tunnel server reads it.\<close>

lemma changed_agent:
  assumes wf: "wf_db db" and u: "update_agent n f e db = (Inr a, db')" and f: "\<And>r. ag_id (f r) = ag_id r"
  obtains row where "row \<in> set (db_agents db)" "ag_id row = a" "ag_node_name row = n" "\<not> ag_revoked row"
    "f row \<in> set (db_agents db')" "wf_db db'" "pg_get_agent db' a = Some (record_of_row (f row))"
proof -
  obtain row where row: "find (live_agent n) (db_agents db) = Some row" "a = ag_id row" "wf_db db'"
    "db' = db\<lparr>db_agents := update_where (live_agent n) f (db_agents db)\<rparr>"
    using u unfolding update_agent_Inr by blast
  then have r: "row \<in> set (db_agents db)" "live_agent n row"
    by (auto simp: find_Some_iff in_set_conv_nth)
  have "f row \<in> set (db_agents db')" using r by (force simp: row(4) set_update_where)
  moreover have "find (\<lambda>x. ag_id x = a) (db_agents db') = Some (f row)"
  proof -
    have "distinct (map ag_id (db_agents db'))" using row(3) by (simp add: wf_db_def agents_ok_def)
    from find_distinct [OF this \<open>f row \<in> set (db_agents db')\<close>] f row(2) show ?thesis by simp
  qed
  ultimately show ?thesis
    using that [of row] r row(2,3) by (simp add: live_agent_def pg_get_agent_def agent_by_id_def)
qed

lemma audit_only_agents: "audit_only db db' \<Longrightarrow> db_agents db' = db_agents db"
  by (simp add: audit_only_fields)

section \<open>Revocation\<close>

lemma get_agent_id: "pg_get_agent db i = Some r \<Longrightarrow> tr_agent_id r = i"
  by (auto simp: pg_get_agent_def agent_by_id_def record_of_row_def find_Some_iff)

lemma revoke_agent_Inr:
  assumes "revoke_agent sv f name actor now w = (Inr a, w')" "wf_db (aw_db w)"
  obtains row where "row \<in> set (db_agents (aw_db w))" "ag_id row = a" "ag_node_name row = name" "\<not> ag_revoked row"
    "row\<lparr>ag_revoked := True, ag_revoked_at := Some (admin_now f now)\<rparr> \<in> set (db_agents (aw_db w'))" "wf_db (aw_db w')"
proof -
  obtain n w1 where n: "n = name" "admin_db (admin_revoke_agent n (admin_now f now)) w = (Inr a, w1)"
    "admin_audit sv f \<lparr>aq_event_type = AGENT_REVOKED, aq_actor = actor,
       aq_metadata = PDict [(str ''status'', PStr (str ''revoked''))], aq_agent_id = Some a, aq_session_id = None,
       aq_node_name = Some n, aq_now = Some (admin_now f now)\<rparr> w1 = (Inr (), w')"
    using assms(1) by (auto simp: revoke_agent_def sbind_eq_Inr validate_node_name_Inr slift_def)
  from n(2) obtain db1 where d: "admin_revoke_agent name (admin_now f now) (aw_db w) = (Inr a, db1)" "aw_db w1 = db1"
    by (auto simp: admin_db_Inr n(1))
  show ?thesis
    using d(1) unfolding admin_revoke_agent_def
    by (rule changed_agent [OF assms(2)])
       (use admin_audit_Inr [OF n(3)] d(2) that in \<open>auto simp: audit_only_agents\<close>)
qed

lemma visible_name:
  assumes "inventory_visible_nodes g identity db = (Inr nodes, db')" "node \<in> set nodes"
  shows "\<exists>row \<in> set (db_agents db). \<not> ag_revoked row \<and> ag_node_name row = ni_node_name node"
proof -
  obtain yss where y: "rmap (row_entry g (id_groups identity)) (filter (\<lambda>r. \<not> ag_revoked r) (db_agents db)) = Inr yss"
    "node \<in> set (concat yss)"
    using assms by (auto simp: inventory_visible_nodes_def exc_elims split: if_splits)
  then obtain row ys where r: "row \<in> set (filter (\<lambda>r. \<not> ag_revoked r) (db_agents db))"
    "row_entry g (id_groups identity) row = Inr ys" "node \<in> set ys"
    by (rule rmap_concat_mem)
  then show ?thesis by (auto simp: row_entry_def exc_elims split: if_splits)
qed

text \<open>C32: After \<open>revoke-agent\<close> has succeeded, and whatever admin commands follow, the agent gets no new
  access: the tunnel authenticator rejects every request of it as revoked, no handshake on any stream
  ends with its record, the jump store has no target for its name, no jump to its name starts, and no user
  sees the node.  This is about new tunnels and new jumps only: the command does not reach the server's
  registry of active tunnels, so a tunnel that is open when the agent is revoked stays open.\<close>

theorem revoked_agent_gets_no_new_access:
  assumes "revoke_agent sv f name actor now w = (Inr a, w')" "wf_db (aw_db w)"
  shows "(\<exists>row \<in> set (db_agents (aw_db w)). ag_id row = a \<and> ag_node_name row = name \<and> \<not> ag_revoked row) \<and>
    authenticate (pg_get_agent (aw_db (admin_after sv commands w'))) (q\<lparr>rq_agent_id := a\<rparr>) t = Inl (TunnelAuthError ''agent is revoked'') \<and>
    (\<forall>peer t m s r rid rest. tunnel_handshake text_of peer t m (aw_db (admin_after sv commands w')) s = (Inr (r, rid), rest) \<longrightarrow>
       tr_agent_id r \<noteq> a) \<and>
    fst (get_jump_target heartbeat name (aw_db (admin_after sv commands w'))) = Inr None \<and>
    (\<forall>command j jw'. strip command = name \<longrightarrow> start_jump d jf identity command visible presented width height t
       (jw\<lparr>jw_db := aw_db (admin_after sv commands w')\<rparr>) \<noteq> (Inr j, jw')) \<and>
    (case fst (inventory_visible_nodes g identity (aw_db (admin_after sv commands w'))) of
       Inl e \<Rightarrow> True | Inr nodes \<Rightarrow> name \<notin> ni_node_name ` set nodes)"
proof -
  let ?db = "aw_db (admin_after sv commands w')"
  obtain row where row: "row \<in> set (db_agents (aw_db w))" "ag_id row = a" "ag_node_name row = name" "\<not> ag_revoked row"
    "row\<lparr>ag_revoked := True, ag_revoked_at := Some (admin_now f now)\<rparr> \<in> set (db_agents (aw_db w'))" "wf_db (aw_db w')"
    using revoke_agent_Inr [OF assms] .
  define gone where "gone = row\<lparr>ag_revoked := True, ag_revoked_at := Some (admin_now f now)\<rparr>"
  have g: "ag_id gone = a" "ag_node_name gone = name" "ag_revoked gone" "ag_revoked_at gone \<noteq> None"
    by (simp_all add: gone_def row)
  have "admin_keeps (aw_db w') ?db" by (rule after_kept)
  then have k: "gone \<in> set (db_agents ?db)" "wf_db ?db"
    using row(5,6) by (auto simp: admin_keeps_def gone_def)
  have d: "distinct (map ag_id (db_agents ?db))" "distinct (map ag_node_name (db_agents ?db))"
    using k(2) by (simp_all add: wf_db_def agents_ok_def)
  have only: "ag_revoked r" if "r \<in> set (db_agents ?db)" "ag_node_name r = name" for r
    using d(2) k(1) that g by (auto simp: distinct_map inj_on_def)
  have "agent_by_id ?db a = Some gone"
    using find_distinct [OF d(1) k(1)] by (simp add: agent_by_id_def g(1))
  then have stored: "pg_get_agent ?db a = Some (record_of_row gone)" by (simp add: pg_get_agent_def)
  then have "authenticate (pg_get_agent ?db) (q\<lparr>rq_agent_id := a\<rparr>) t = Inl (TunnelAuthError ''agent is revoked'')"
    using g(4) by (auto simp: authenticate_def record_of_row_def)
  moreover have "tr_agent_id r \<noteq> a" if hs: "tunnel_handshake text_of peer t m ?db s = (Inr (r, rid), rest)" for peer t m s r rid rest
  proof
    assume "tr_agent_id r = a"
    obtain q :: TunnelAuthRequest where q: "pg_get_agent ?db (rq_agent_id q) = Some r" "tr_revoked_at r = None"
      using hs by (auto simp: tunnel_handshake_def exc_elims authenticate_iff)
    with get_agent_id [OF q(1)] stored g(4) \<open>tr_agent_id r = a\<close> show False by (simp add: record_of_row_def)
  qed
  moreover have "start_jump d jf identity command visible presented width height t (jw\<lparr>jw_db := ?db\<rparr>) \<noteq> (Inr j, jw')"
    if "strip command = name" for command j jw'
    using start_jump_Inr [of d jf identity command visible presented width height t "jw\<lparr>jw_db := ?db\<rparr>" j jw'] only that
    by (auto simp: authorised_target_def)
  moreover have "find (\<lambda>r. ag_node_name r = name \<and> \<not> ag_revoked r) (db_agents ?db) = None"
    using only by (auto simp: find_None_iff)
  then have "fst (get_jump_target heartbeat name ?db) = Inr None" by (simp add: get_jump_target_def)
  moreover have "name \<notin> ni_node_name ` set nodes" if "fst (inventory_visible_nodes g identity ?db) = Inr nodes" for nodes
    using visible_name [of g identity ?db nodes "snd (inventory_visible_nodes g identity ?db)"] that only
    by (metis imageE prod.collapse)
  ultimately show ?thesis using row(1-4) by (auto split: sum.split)
qed

section \<open>Rotating a tunnel secret\<close>

text \<open>C35: After \<open>rotate-tunnel-secret\<close> the stored hash is that of a freshly drawn secret, and the tunnel
  authenticator accepts the agent only with a secret of that hash.  The text the command prints says
  nothing of the secret and the audit row holds a placeholder, so nothing the command leaves behind lets
  the enrolled agent authenticate again.\<close>

theorem rotated_secret_is_required:
  assumes "run_admin_command sv f (RotateTunnelSecret name actor) w = (Inr text_out, w')" "wf_db (aw_db w)"
  shows "text_out = str ''rotated tunnel secret for '' @ name @ str ''; secret not printed'' \<and>
    (\<exists>secret hash row. generate_tunnel_secret (af_random f) = Inr secret \<and> sha256_hex secret = Inr hash \<and>
      row \<in> set (db_agents (aw_db w)) \<and> ag_node_name row = name \<and> \<not> ag_revoked row \<and>
      pg_get_agent (aw_db w') (ag_id row) = Some (record_of_row (row\<lparr>ag_tunnel_secret_hash := hash\<rparr>)) \<and>
      (\<forall>q t r. rq_agent_id q = ag_id row \<and> authenticate (pg_get_agent (aw_db w')) q t = Inr r \<longrightarrow>
         sha256_hex (Secret (rq_tunnel_secret q)) = Inr hash))"
proof -
  obtain a secret hash w1 where c: "generate_tunnel_secret (af_random f) = Inr secret" "sha256_hex secret = Inr hash"
    "admin_db (admin_rotate_tunnel_secret name hash) w = (Inr a, w1)"
    "admin_audit sv f \<lparr>aq_event_type = TUNNEL_SECRET_ROTATED, aq_actor = actor,
       aq_metadata = PDict [(str ''tunnel_secret'', PStr SECRET_OUTPUT)], aq_agent_id = Some a, aq_session_id = None,
       aq_node_name = Some name, aq_now = Some (admin_now f None)\<rparr> w1 = (Inr (), w')"
    and out: "text_out = str ''rotated tunnel secret for '' @ name @ str ''; secret not printed''"
    using assms(1) by (auto simp: run_admin_command_def rotate_tunnel_secret_def sbind_eq_Inr validate_node_name_Inr slift_def)
  from c(3) obtain db1 where d: "admin_rotate_tunnel_secret name hash (aw_db w) = (Inr a, db1)" "aw_db w1 = db1"
    by (auto simp: admin_db_Inr)
  obtain row where row: "row \<in> set (db_agents (aw_db w))" "ag_id row = a" "ag_node_name row = name" "\<not> ag_revoked row"
    "pg_get_agent db1 a = Some (record_of_row (row\<lparr>ag_tunnel_secret_hash := hash\<rparr>))"
    using d(1) unfolding admin_rotate_tunnel_secret_def by (rule changed_agent [OF assms(2)]) auto
  have "db_agents (aw_db w') = db_agents db1"
    using admin_audit_Inr [OF c(4)] d(2) by (simp add: audit_only_agents)
  then have g: "pg_get_agent (aw_db w') (ag_id row) = Some (record_of_row (row\<lparr>ag_tunnel_secret_hash := hash\<rparr>))"
    using row(2,5) by (simp add: pg_get_agent_def agent_by_id_def)
  moreover have "sha256_hex (Secret (rq_tunnel_secret q)) = Inr hash"
    if "rq_agent_id q = ag_id row" "authenticate (pg_get_agent (aw_db w')) q t = Inr r" for q t r
    using that g by (auto simp: authenticate_iff binds_def record_of_row_def)
  ultimately show ?thesis using out c(1,2) row(1,3,4) by blast
qed

section \<open>A created package\<close>

lemma created_token:
  assumes "admin_create_enrollment_token h n ls cb k ex now db = (Inr u, db')"
  shows "pg_create_enrollment_token now h n ls k cb ex db = (Inr u, db')"
  using assms by (auto simp: admin_create_enrollment_token_def pg_create_enrollment_token_def sbind_eq_Inr require_eq(1))

text \<open>What \<open>create-agent\<close> returns, and the usable tokens after it: the hash of the token in the package is the only
  one of the node, for seven days.\<close>

lemma created_package:
  assumes "admin_create_agent sv f a now w = (Inr package, w')" "pg_tokens_inv (aw_db w)"
  obtains token hash host_key where "generate_enrollment_token (af_random f) = Inr token" "sha256_hex token = Inr hash"
    "validate_node_host_key (sv_import_key sv) (cr_node_ssh_host_public_key a) = Inr host_key"
    "cap_agent_conf package = render_created_conf (a\<lparr>cr_node_ssh_host_public_key := host_key\<rparr>) token"
    "py_fullmatch NODE_NAME_PATTERN (cr_node_name a)" "pg_tokens_inv (aw_db w')"
    "pg_view (aw_db w') = (without_node (cr_node_name a) (pg_view (aw_db w)))
       (hash \<mapsto> (cr_node_name a, cr_labels a, host_key, instant (admin_now f now) + days 7))"
    "db_agents (aw_db w') = db_agents (aw_db w)"
proof -
  let ?n = "cr_node_name a" and ?now = "admin_now f now"
  have name: "py_fullmatch NODE_NAME_PATTERN ?n"
    using assms(1) by (auto simp: admin_create_agent_def sbind_eq_Inr slift_def validate_node_name_Inr)
  obtain labels host_key token hash w1 where c: "rmap validate_label (cr_labels a) = Inr labels"
    "validate_node_host_key (sv_import_key sv) (cr_node_ssh_host_public_key a) = Inr host_key"
    "generate_enrollment_token (af_random f) = Inr token" "sha256_hex token = Inr hash"
    "admin_db (admin_create_enrollment_token hash ?n labels (cr_actor a) host_key
       (plus_delta ?now (days ADMIN_TOKEN_LIFETIME_DAYS)) ?now) w = (Inr (), w1)"
    "admin_audit sv f \<lparr>aq_event_type = ENROLLMENT_TOKEN_CREATED, aq_actor = cr_actor a,
       aq_metadata = PDict [(str ''labels'', PList (map PStr labels)), (str ''token_hash'', PStr hash)],
       aq_agent_id = None, aq_session_id = None, aq_node_name = Some ?n, aq_now = Some ?now\<rparr> w1 = (Inr (), w')"
    "cap_agent_conf package = render_created_conf (a\<lparr>cr_node_ssh_host_public_key := host_key\<rparr>) token"
    using assms(1)
    by (auto simp: admin_create_agent_def sbind_eq_Inr slift_def validate_node_name_Inr validate_server_host_def
        validate_proxy_host_def split: if_splits)
  have labels: "labels = cr_labels a" "labels_valid labels"
    using c(1) by (auto simp: rmap_eq_Inr labels_valid_def validate_label_Inr list_all2_conv_all_nth in_set_conv_nth
        intro: nth_equalityI)
  from c(5) obtain db1 where "aw_db w1 = db1"
    "pg_create_enrollment_token ?now hash ?n labels host_key (cr_actor a)
       (plus_delta ?now (days ADMIN_TOKEN_LIFETIME_DAYS)) (aw_db w) = (Inr (), db1)"
    by (auto simp: admin_db_Inr created_token)
  with pg_create_ok [OF assms(2) labels(2)] have d: "pg_tokens_inv (aw_db w1)"
    "pg_view (aw_db w1) = (without_node ?n (pg_view (aw_db w)))(hash \<mapsto> (?n, labels, host_key, instant ?now + days 7))"
    by (simp_all add: ADMIN_TOKEN_LIFETIME_DAYS_def) 
  note au = admin_audit_Inr [OF c(6)]
  then have tok: "db_tokens (aw_db w') = db_tokens (aw_db w1)" by (simp add: audit_only_fields)
  then have v: "pg_view (aw_db w') = pg_view (aw_db w1)" "token_row (aw_db w') = token_row (aw_db w1)"
    by (simp_all add: pg_view_def token_row_def fun_eq_iff)
  have inv: "pg_tokens_inv (aw_db w')" using d(1) au tok by (auto simp: pg_tokens_inv_def)
  have view: "pg_view (aw_db w') = (without_node ?n (pg_view (aw_db w)))(hash \<mapsto> (?n, cr_labels a, host_key, instant ?now + days 7))"
    by (simp add: v(1) d(2) labels(1))
  have "db_agents (aw_db w') = db_agents (aw_db w)"
    using c(5) au by (auto simp: admin_db_Inr created_token pg_create_enrollment_token_def pg_disable_tokens_def
        audit_only_agents exc_elims admin_create_enrollment_token_def)
  then show thesis by (rule that [OF c(3,4,2,7) name inv view])
qed

section \<open>Rotating a CA key\<close>

text \<open>A CA rotation completes once, and only when the new trust bundle has the new fingerprint and no
  longer the old one.  After that every further attempt is refused as not active.\<close>

theorem ca_rotation_completes_once:
  assumes "complete_ca_rotation sv f rotation_id trusted actor now w = (Inr state, w')"
  shows "(\<exists>row \<in> set (aw_rotations w). ro_id row = rotation_id \<and> ro_status row = str ''started'' \<and>
      ro_old_fingerprint row \<notin> set trusted \<and> ro_new_fingerprint row \<in> set trusted \<and>
      state = rotation_state row trusted (str ''completed'')) \<and>
    fst (complete_ca_rotation sv f' rotation_id trusted' actor' now' w') = Inl (AdminError ''CA rotation is not active'')"
proof -
  let ?p = "rotation_active rotation_id"
  let ?f = "\<lambda>r. r\<lparr>ro_completed_at := Some (admin_now f now), ro_status := str ''completed''\<rparr>"
  obtain row where found: "find ?p (aw_rotations w) = Some row"
    using assms by (cases "find ?p (aw_rotations w)") (simp_all add: complete_ca_rotation_def sbind_def store_get_ca_rotation_def)
  define w1 where "w1 = w\<lparr>aw_rotations := update_where ?p ?f (aw_rotations w)\<rparr>"
  have get: "store_get_ca_rotation rotation_id w = (Inr (rotation_state row [] (ro_status row)), w)"
    "store_complete_ca_rotation rotation_id trusted (admin_now f now) w = (Inr (rotation_state row trusted (str ''completed'')), w1)"
    by (simp_all add: store_get_ca_rotation_def store_complete_ca_rotation_def found w1_def)
  have first: "complete_ca_rotation sv f rotation_id trusted actor now w =
      (if ro_old_fingerprint row \<in> set trusted then (Inl (AdminError ''old CA fingerprint remains trusted''), w)
       else if ro_new_fingerprint row \<notin> set trusted then (Inl (AdminError ''new CA fingerprint is not trusted''), w)
       else sbind (store_complete_ca_rotation rotation_id trusted (admin_now f now)) (\<lambda>state.
         sbind (admin_audit sv f \<lparr>aq_event_type = CA_ROTATION_COMPLETED, aq_actor = actor,
           aq_metadata = PDict [(str ''key_name'', PStr (ro_state_key_name state)), (str ''status'', PStr (ro_state_status state))],
           aq_agent_id = None, aq_session_id = None, aq_node_name = None, aq_now = Some (admin_now f now)\<rparr>) (\<lambda>_.
         sret state)) w)"
    unfolding complete_ca_rotation_def
    by (subst sbind_Inr, rule get(1)) (simp add: sbind_Inl sbind_Inr rotation_state_def)
  then have old: "ro_old_fingerprint row \<notin> set trusted" and new: "ro_new_fingerprint row \<in> set trusted"
    using assms by (auto split: if_splits)
  let ?q = "\<lparr>aq_event_type = CA_ROTATION_COMPLETED, aq_actor = actor,
       aq_metadata = PDict [(str ''key_name'', PStr (ro_key_name row)), (str ''status'', PStr (str ''completed''))],
       aq_agent_id = None, aq_session_id = None, aq_node_name = None, aq_now = Some (admin_now f now)\<rparr>"
  have "complete_ca_rotation sv f rotation_id trusted actor now w =
      sbind (admin_audit sv f ?q) (\<lambda>_. sret (rotation_state row trusted (str ''completed''))) w1"
    unfolding first if_not_P [OF old]
      sbind_Inr [where m = "store_complete_ca_rotation rotation_id trusted (admin_now f now)" and s = w, OF get(2)]
    using new by (simp add: rotation_state_def)
  with assms have row: "state = rotation_state row trusted (str ''completed'')" "admin_audit sv f ?q w1 = (Inr (), w')"
    by (simp_all add: sbind_eq_Inr)
  have w': "aw_rotations w' = update_where ?p ?f (aw_rotations w)"
    using admin_audit_Inr [OF row(2)] by (simp add: w1_def)
  have "row \<in> set (aw_rotations w)" "rotation_active rotation_id row"
    using found by (auto simp: find_Some_iff in_set_conv_nth)
  moreover have "find (rotation_active rotation_id) (aw_rotations w') = None"
  proof -
    have "str ''completed'' \<noteq> str ''started''" by (simp add: str_def)
    then have "\<not> ?p (if ?p r then ?f r else r)" for r by (simp add: rotation_active_def)
    then show ?thesis unfolding find_None_iff w' set_update_where by blast
  qed
  ultimately show ?thesis
    using old new row(1)
    by (intro conjI bexI [of _ row]) (simp_all add: rotation_active_def complete_ca_rotation_def store_get_ca_rotation_def sbind_def)
qed

section \<open>The listings\<close>

text \<open>The columns the listings read.\<close>

definition listed_agent :: "agents_row \<Rightarrow> uuid \<times> pystr \<times> pystr option \<times> pystr list \<times> datetime \<times> datetime option \<times> bool" where
  "listed_agent r = (ag_id r, ag_node_name r, ag_hostname r, ag_labels r, ag_enrolled_at r, ag_last_seen r, ag_revoked r)"

definition listed_session :: "sessions_row \<Rightarrow> uuid \<times> uuid \<times> pystr \<times> datetime \<times> datetime option \<times> pystr" where
  "listed_session s = (se_id s, se_agent_id s, se_user_name s, se_started_at s, se_ended_at s, se_status s)"

lemma map_sort_key: "map g (sort_key (\<lambda>x. k (g x)) xs) = sort_key k (map g xs)"
proof -
  have "map g (insort_key (\<lambda>x. k (g x)) x ys) = insort_key k (g x) (map g ys)" for x ys
    by (induction ys) auto
  then show ?thesis by (induction xs) simp_all
qed

lemma rmap_listed: "rmap (agent_summary t) rs = rmap (\<lambda>(a, n, h, ls, e, s, rv). rbind (admin_labels t (labels_text ls))
    (\<lambda>labels. Inr \<lparr>as_node_name = n, as_hostname = h, as_labels = labels, as_enrolled_at = Some (as_utc e),
       as_last_seen = map_option as_utc s, as_revoked = rv\<rparr>)) (map listed_agent rs)"
  by (induction rs) (simp_all add: agent_summary_def listed_agent_def)

lemma listed_agents:
  assumes "map listed_agent (db_agents db) = map listed_agent (db_agents db')"
  shows "fst (admin_list_agents t db) = fst (admin_list_agents t db')"
    "map_option ag_node_name (agent_by_id db a) = map_option ag_node_name (agent_by_id db' a)"
proof -
  have "map listed_agent (sort_key ag_node_name rs) = sort_key (fst \<circ> snd) (map listed_agent rs)" for rs
    using map_sort_key [of listed_agent "fst \<circ> snd" rs] by (simp add: listed_agent_def)
  with assms show "fst (admin_list_agents t db) = fst (admin_list_agents t db')"
    by (simp add: admin_list_agents_def rmap_listed)
  have "map_option ag_node_name (find (\<lambda>r. ag_id r = a) rs) =
      map_option (fst \<circ> snd) (find (\<lambda>p. fst p = a) (map listed_agent rs))" for rs
    by (induction rs) (auto simp: listed_agent_def)
  with assms show "map_option ag_node_name (agent_by_id db a) = map_option ag_node_name (agent_by_id db' a)"
    by (simp add: agent_by_id_def)
qed

text \<open>The listings show no secret-bearing column: two databases that agree on the ids, names, host names,
  labels, times and revocation flags of the agents give the same \<open>list-agents\<close> output, and if they also
  agree on the ids, agents, users, times and states of the sessions, the same \<open>list-sessions\<close> output, whatever
  their keys, hashes, certificates, replay paths, tokens and audit rows are.\<close>

theorem listings_show_no_secrets:
  assumes agents: "map listed_agent (db_agents (aw_db w)) = map listed_agent (db_agents (aw_db v))"
    and sessions: "map listed_session (db_sessions (aw_db w)) = map listed_session (db_sessions (aw_db v))"
  shows "fst (run_admin_command sv f ListAgents w) = fst (run_admin_command sv f ListAgents v) \<and>
    fst (run_admin_command sv f (ListSessions node_name user_name) w) =
    fst (run_admin_command sv f (ListSessions node_name user_name) v)"
proof -
  have r: "fst (sbind (admin_db m) (\<lambda>x. sret (h x)) u) = rbind (fst (m (aw_db u))) (\<lambda>x. Inr (h x))"
    for m :: "(database, 'a) op" and h :: "'a \<Rightarrow> pystr" and u
    by (auto simp: sbind_def admin_db_def rbind_def split: prod.splits sum.splits)
  define out where "out n db s = (case map_option ag_node_name (agent_by_id db (se_agent_id s)) of None \<Rightarrow> [] | Some a \<Rightarrow>
      if (n = None \<or> n = Some a) \<and> (user_name = None \<or> user_name = Some (se_user_name s))
      then [\<lparr>ss_session_id = se_id s, ss_node_name = a, ss_user_name = se_user_name s, ss_started_at = as_utc (se_started_at s),
        ss_ended_at = map_option as_utc (se_ended_at s), ss_status = se_status s\<rparr>] else [])" for n db and s :: sessions_row
  have lists: "fst (admin_list_sessions n user_name db) =
      (if case user_name of None \<Rightarrow> True | Some u \<Rightarrow> pg_text u
       then Inr (concat (map (out n db) (sort_key (\<lambda>s. - instant (se_started_at s)) (db_sessions db))))
       else Inl (PostgresError ''invalid text''))" for n db
    by (auto simp: admin_list_sessions_def sbind_def require_def out_def session_summary_def
        intro!: arg_cong [of _ _ concat] map_cong split: option.splits)
  have same: "out n (aw_db w) = out n (aw_db v)" for n
    using listed_agents(2) [OF agents] by (simp add: out_def fun_eq_iff)
  have listed: "map (out n db) (sort_key (\<lambda>s. - instant (se_started_at s)) ss) = map (\<lambda>(i, a, u, st, en, x).
      out n db \<lparr>se_id = i, se_agent_id = a, se_user_name = u, se_user_cert_serial = 0, se_started_at = st, se_ended_at = en,
        se_replay_path = [], se_replay_hmac = None, se_status = x\<rparr>) (sort_key (\<lambda>p. - instant (fst (snd (snd (snd p))))) (map listed_session ss))"
    for n db ss
  proof -
    have "sort_key (\<lambda>p. - instant (fst (snd (snd (snd p))))) (map listed_session ss) =
        map listed_session (sort_key (\<lambda>s. - instant (se_started_at s)) ss)"
      using map_sort_key [of listed_session "\<lambda>p. - instant (fst (snd (snd (snd p))))" ss] by (simp add: listed_session_def)
    then show ?thesis by (simp add: listed_session_def out_def split: option.split)
  qed
  have "fst (admin_list_sessions n user_name (aw_db w)) = fst (admin_list_sessions n user_name (aw_db v))" for n
    unfolding lists listed same sessions ..
  moreover have "fst (sbind (list_sessions node_name user_name) (\<lambda>x. sret (h x)) u) =
      rbind (if node_name = None \<or> node_name = Some [] then Inr None
       else rbind (validate_node_name (the node_name)) (\<lambda>name. Inr (Some name)))
      (\<lambda>n. rbind (fst (admin_list_sessions n user_name (aw_db u))) (\<lambda>x. Inr (h x)))" for h :: "SessionSummary list \<Rightarrow> pystr" and u
    by (auto simp: list_sessions_def sbind_def slift_def rbind_def admin_db_def split: prod.splits sum.splits)
  ultimately show ?thesis
    using listed_agents(1) [OF agents] by (simp add: run_admin_command_def list_agents_def r)
qed

section \<open>The statements at a concrete world\<close>

definition sample_service :: admin_service where
  "sample_service = \<lparr>sv_audited = False, sv_text_of = (\<lambda>_. []), sv_import_key = (\<lambda>_. Inr ())\<rparr>"

definition sample_admin_fresh :: admin_fresh where
  "sample_admin_fresh = \<lparr>af_audit_id = 20, af_clock = utc 1, af_random = replicate 32 0, af_rotation_id = 21\<rparr>"

definition sample_rotation :: rotation_row where
  "sample_rotation = \<lparr>ro_id = 30, ro_key_name = [107], ro_old_fingerprint = [1], ro_new_fingerprint = [2],
     ro_started_at = utc 0, ro_completed_at = None, ro_status = str ''started''\<rparr>"

definition sample_admin_world :: admin_world where
  "sample_admin_world = \<lparr>aw_db = sample_jump_db, aw_rotations = [sample_rotation]\<rparr>"

lemma sample_drawn:
  "token_urlsafe (take GENERATED_SECRET_BYTES (af_random sample_admin_fresh)) = replicate 43 65"
  by code_simp

lemma sample_secret:
  "generate_enrollment_token (af_random sample_admin_fresh) = Inr (Secret (replicate 43 65))"
  "generate_tunnel_secret (af_random sample_admin_fresh) = Inr (Secret (replicate 43 65))"
  "\<exists>h. sha256_hex (Secret (replicate 43 65)) = Inr h"
  by (simp_all add: generate_enrollment_token_def generate_tunnel_secret_def sample_drawn SecretValue_Inr
      sha256_hex_def utf8_encode_def list_all_iff scalar_def)

lemma sample_node_name: "validate_node_name (str ''web1'') = Inr (str ''web1'')"
  by (simp add: validate_node_name_def node_name_closed str_def is_alnum_cp_def node_char_def)

lemma wf_sample_agent_change:
  "(\<And>r. ag_id (g r) = ag_id r \<and> ag_node_name (g r) = ag_node_name r \<and> ag_cert_serial (g r) = ag_cert_serial r) \<Longrightarrow>
    wf_db (sample_jump_db\<lparr>db_agents := update_where p g (db_agents sample_jump_db)\<rparr>)"
  by (rule wf_update_agents [OF wf_sample_jump_db])

lemma sample_update:
  assumes "\<And>r. ag_id (g r) = ag_id r \<and> ag_node_name (g r) = ag_node_name r \<and> ag_cert_serial (g r) = ag_cert_serial r"
  shows "\<exists>db. update_agent (str ''web1'') g e sample_jump_db = (Inr 3, db)"
proof -
  have "find (live_agent (str ''web1'')) (db_agents sample_jump_db) = Some sample_agent_row"
    by (simp add: sample_jump_db_def live_agent_def sample_agent_row_def)
  with wf_sample_agent_change [of g "live_agent (str ''web1'')"] assms show ?thesis
    unfolding update_agent_Inr by (simp add: sample_agent_row_def)
qed

lemma sample_admin_db: "aw_db sample_admin_world = sample_jump_db"
  by (simp add: sample_admin_world_def)

lemma revoked_agent_gets_no_new_access_witness:
  "\<exists>w'. revoke_agent sample_service sample_admin_fresh (str ''web1'') (str ''root'') None sample_admin_world = (Inr 3, w') \<and>
    fst (get_jump_target 30 (str ''web1'') (aw_db w')) = Inr None"
proof -
  obtain db where "admin_revoke_agent (str ''web1'') (admin_now sample_admin_fresh None) sample_jump_db = (Inr 3, db)"
    unfolding admin_revoke_agent_def
    using sample_update [of "\<lambda>r. r\<lparr>ag_revoked := True, ag_revoked_at := Some (admin_now sample_admin_fresh None)\<rparr>"] by auto
  then have "\<exists>w'. revoke_agent sample_service sample_admin_fresh (str ''web1'') (str ''root'') None sample_admin_world = (Inr 3, w')"
    by (simp add: revoke_agent_def sbind_def slift_def sample_node_name admin_db_def sample_admin_db admin_audit_def sample_service_def)
  then obtain w' where r: "revoke_agent sample_service sample_admin_fresh (str ''web1'') (str ''root'') None sample_admin_world = (Inr 3, w')"
    by blast
  have "wf_db (aw_db sample_admin_world)" by (simp add: sample_admin_db wf_sample_jump_db)
  then have "fst (get_jump_target 30 (str ''web1'') (aw_db w')) = Inr None"
    using revoked_agent_gets_no_new_access [OF r, of "[]", THEN conjunct2, THEN conjunct2, THEN conjunct2, THEN conjunct1]
    by (simp add: admin_after_def)
  with r show ?thesis by blast
qed

lemma rotated_secret_is_required_witness:
  "\<exists>out w'. run_admin_command sample_service sample_admin_fresh (RotateTunnelSecret (str ''web1'') (str ''root'')) sample_admin_world
      = (Inr out, w') \<and> out = str ''rotated tunnel secret for web1; secret not printed''"
proof -
  obtain h where h: "sha256_hex (Secret (replicate 43 65)) = Inr h" using sample_secret(3) by blast
  obtain db where "admin_rotate_tunnel_secret (str ''web1'') h sample_jump_db = (Inr 3, db)"
    unfolding admin_rotate_tunnel_secret_def using sample_update [of "\<lambda>r. r\<lparr>ag_tunnel_secret_hash := h\<rparr>"] by auto
  then have "\<exists>out w'. run_admin_command sample_service sample_admin_fresh (RotateTunnelSecret (str ''web1'') (str ''root''))
      sample_admin_world = (Inr out, w')"
    by (simp add: run_admin_command_def rotate_tunnel_secret_def sbind_def slift_def sample_node_name sample_secret h
        admin_db_def sample_admin_db admin_audit_def sample_service_def)
  then obtain out w' where r: "run_admin_command sample_service sample_admin_fresh (RotateTunnelSecret (str ''web1'') (str ''root''))
      sample_admin_world = (Inr out, w')" by blast
  have "wf_db (aw_db sample_admin_world)" by (simp add: sample_admin_db wf_sample_jump_db)
  from rotated_secret_is_required [OF r this] r show ?thesis
    by (intro exI [of _ out] exI [of _ w']) (simp add: str_def)
qed

definition sample_create_args :: create_agent_args where
  "sample_create_args = \<lparr>cr_node_name = str ''db1'', cr_labels = [], cr_actor = str ''root'',
     cr_node_ssh_host_public_key = [97, 32, 98], cr_server_host = str ''server'', cr_enrollment_port = 4443,
     cr_tunnel_port = 4444, cr_proxy_host = str ''127.0.0.1'', cr_proxy_port = 2222, cr_heartbeat_seconds = 30\<rparr>"

lemma sample_created:
  "\<exists>p w'. admin_create_agent sample_service sample_admin_fresh sample_create_args None sample_admin_world = (Inr p, w')"
proof -
  obtain h where h: "sha256_hex (Secret (replicate 43 65)) = Inr h" using sample_secret(3) by blast
  have n: "validate_node_name (str ''db1'') = Inr (str ''db1'')"
    by (simp add: validate_node_name_def node_name_closed str_def is_alnum_cp_def node_char_def)
  have k: "validate_node_host_key (\<lambda>_. Inr ()) [97, 32, 98] = Inr [97, 32, 98]"
    by (simp add: validate_node_host_key_def validate_node_ssh_host_public_key_def rewrap_def Let_def strip_def
        lstrip_def rstrip_def isspace_def)
  have tok: "db_tokens sample_jump_db = []" by (simp add: sample_jump_db_def empty_db_def)
  have "wf_db (sample_jump_db\<lparr>db_tokens := ts\<rparr>)" if "tokens_ok (db_agents sample_jump_db) ts" for ts
    using wf_sample_jump_db that by (simp add: wf_db_def)
  then have "\<exists>db. admin_create_enrollment_token h (str ''db1'') [] (str ''root'') [97, 32, 98] ex now sample_jump_db = (Inr (), db)" for ex now
    by (simp add: admin_create_enrollment_token_def pg_disable_tokens_def sbind_def sql_write_def update_where_def tok
        tokens_ok_def token_active_def pg_text_def scalar_def str_def)
  then obtain db where "admin_create_enrollment_token h (str ''db1'') [] (str ''root'') [97, 32, 98]
      (plus_delta (admin_now sample_admin_fresh None) (days ADMIN_TOKEN_LIFETIME_DAYS)) (admin_now sample_admin_fresh None)
      sample_jump_db = (Inr (), db)" by blast
  moreover have "validate_server_host (str ''server'') = Inr (str ''server'')"
    "validate_proxy_host (str ''127.0.0.1'') = Inr (str ''127.0.0.1'')"
    by (simp_all add: validate_server_host_def validate_proxy_host_def str_def startswith_def isspace_def)
  ultimately show ?thesis
    by (simp add: admin_create_agent_def sbind_def slift_def sample_create_args_def n sample_service_def k
        validate_port_def sample_secret h admin_db_def sample_admin_db admin_audit_def)
qed

lemma ca_rotation_completes_once_witness:
  "\<exists>state w'. complete_ca_rotation sample_service sample_admin_fresh 30 [[2]] (str ''root'') None sample_admin_world = (Inr state, w') \<and>
    fst (complete_ca_rotation sample_service sample_admin_fresh 30 [[2]] (str ''root'') None w') = Inl (AdminError ''CA rotation is not active'')"
proof -
  have "\<exists>state w'. complete_ca_rotation sample_service sample_admin_fresh 30 [[2]] (str ''root'') None sample_admin_world = (Inr state, w')"
    by (simp add: complete_ca_rotation_def sbind_def store_get_ca_rotation_def store_complete_ca_rotation_def sample_admin_world_def
        sample_rotation_def rotation_active_def rotation_state_def admin_audit_def sample_service_def)
  then obtain state w' where c: "complete_ca_rotation sample_service sample_admin_fresh 30 [[2]] (str ''root'') None
      sample_admin_world = (Inr state, w')" by blast
  from ca_rotation_completes_once [OF c, of sample_admin_fresh "[[2]]" "str ''root''" None] c show ?thesis by blast
qed

lemma listings_show_no_secrets_witness:
  "fst (run_admin_command sample_service sample_admin_fresh ListAgents sample_admin_world) =
   fst (run_admin_command sample_service sample_admin_fresh ListAgents (sample_admin_world\<lparr>aw_db :=
     sample_jump_db\<lparr>db_agents := [sample_agent_row\<lparr>ag_tunnel_secret_hash := [1, 2, 3]\<rparr>]\<rparr>\<rparr>))"
  using listings_show_no_secrets [of sample_admin_world "sample_admin_world\<lparr>aw_db :=
     sample_jump_db\<lparr>db_agents := [sample_agent_row\<lparr>ag_tunnel_secret_hash := [1, 2, 3]\<rparr>]\<rparr>\<rparr>" sample_service sample_admin_fresh None None]
  by (simp add: sample_admin_world_def sample_jump_db_def listed_agent_def)

end
