(* ===== verification/Created_Package.thy ===== *)
theory Created_Package
  imports Admin_Facts Enrollment_Service
begin

text \<open>
  From \<open>create-agent\<close> to the enrollment service: which requests the token in a created package lets in.
\<close>

section \<open>An enrollment that succeeds\<close>

definition new_agent :: "StoredAgent \<Rightarrow> database \<Rightarrow> bool" where
  "new_agent a db \<longleftrightarrow> sa_agent_id a \<notin> ag_id ` set (db_agents db) \<and>
     sa_node_name a \<notin> ag_node_name ` set (db_agents db) \<and> sa_cert_serial a \<notin> ag_cert_serial ` set (db_agents db)"

lemma wf_add_agent:
  assumes "wf_db db" "ag_id r \<notin> ag_id ` set (db_agents db)" "ag_node_name r \<notin> ag_node_name ` set (db_agents db)"
    "ag_cert_serial r \<notin> ag_cert_serial ` set (db_agents db)"
  shows "wf_db (db\<lparr>db_agents := db_agents db @ [r]\<rparr>)"
proof -
  have "agents_ok (db_agents db @ [r])" using assms by (simp add: wf_db_def agents_ok_def)
  moreover have "tokens_ok (db_agents db @ [r]) (db_tokens db)" using assms(1) by (auto simp: wf_db_def tokens_ok_def)
  moreover have "sessions_ok (db_agents db @ [r]) (db_sessions db)" using assms(1) by (auto simp: wf_db_def sessions_ok_def)
  moreover have "audit_ok (db_agents db @ [r]) (db_sessions db) (db_audit db)"
    using assms(1) by (auto simp: wf_db_def audit_ok_def)
  ultimately show ?thesis by (simp add: wf_db_def)
qed

lemma active_update:
  assumes "\<And>t. p t \<Longrightarrow> \<not> token_active t \<and> \<not> token_active (f t)"
  shows "filter token_active (update_where p f ts) = filter token_active ts"
  using assms by (induction ts) (auto simp: update_where_def)

lemma wf_link_tokens:
  assumes "wf_db db" "a \<in> ag_id ` set (db_agents db)"
  shows "wf_db (db\<lparr>db_tokens := update_where (\<lambda>t. tk_node_name t = n \<and> tk_used t \<and> tk_agent_id t = None)
    (\<lambda>t. t\<lparr>tk_agent_id := Some a\<rparr>) (db_tokens db)\<rparr>)" (is "wf_db (db\<lparr>db_tokens := ?ts\<rparr>)")
proof -
  have "map tk_token_hash ?ts = map tk_token_hash (db_tokens db)" by (rule map_update_where) simp
  moreover have "filter token_active ?ts = filter token_active (db_tokens db)"
    by (rule active_update) (simp add: token_active_def)
  moreover have "x \<in> ag_id ` set (db_agents db)" if "t \<in> set ?ts" "tk_agent_id t = Some x" for t x
    using that assms by (auto simp: set_update_where wf_db_def tokens_ok_def split: if_splits)
  ultimately have "tokens_ok (db_agents db) ?ts" using assms(1) by (simp add: wf_db_def tokens_ok_def)
  then show ?thesis using assms(1) by (simp add: wf_db_def)
qed

lemma persist_succeeds:
  assumes "wf_db db" "new_agent a db"
  obtains e where "pg_persist_agent c a db = (Inr (), e)" "sa_agent_id a \<in> ag_id ` set (db_agents e)"
    "db_audit e = db_audit db" "wf_db e"
proof -
  define d where "d = db\<lparr>db_agents := db_agents db @
       [\<lparr>ag_id = sa_agent_id a, ag_node_name = sa_node_name a, ag_hostname = None,
         ag_labels = sa_labels a, ag_x509_public_key = sa_x509_public_key a,
         ag_node_ssh_host_public_key = sa_node_ssh_host_public_key a,
         ag_tunnel_secret_hash = sa_tunnel_secret_hash a, ag_enrolled_at = c,
         ag_last_seen = None, ag_revoked = False, ag_revoked_at = None,
         ag_cert_serial = sa_cert_serial a,
         ag_cert_expires_at = as_utc (sa_cert_expires_at a)\<rparr>]\<rparr>"
  have d: "wf_db d" "sa_agent_id a \<in> ag_id ` set (db_agents d)" "db_audit d = db_audit db"
    using wf_add_agent [OF assms(1)] assms(2) by (simp_all add: d_def new_agent_def)
  have p: "pg_persist_agent c a db = (Inr (), d\<lparr>db_tokens := update_where
      (\<lambda>t. tk_node_name t = sa_node_name a \<and> tk_used t \<and> tk_agent_id t = None)
      (\<lambda>t. t\<lparr>tk_agent_id := Some (sa_agent_id a)\<rparr>) (db_tokens d)\<rparr>)"
    unfolding pg_persist_agent_def sbind_def sql_write_def d_def [symmetric]
    using d(1) wf_link_tokens [OF d(1,2)] by simp
  show thesis by (rule that [OF p]) (use d wf_link_tokens [OF d(1,2)] in simp_all)
qed

text \<open>
  What an enrollment needs besides its token: the request is not rate limited, its public key is an Ed25519
  key, the generated secret can be hashed, the agent's id, name and certificate serial are new, and the audit
  writer accepts the success row in any database that holds the agent and has this audit log.
\<close>

definition success_row :: "fresh_values \<Rightarrow> EnrollmentRequest \<Rightarrow> audit_request" where
  "success_row fr q = \<lparr>aq_event_type = ENROLLMENT_SUCCEEDED, aq_actor = str ''enrollment-api'',
     aq_metadata = PDict [(str ''source_address'', PStr (er_source_address q))],
     aq_agent_id = Some (fr_agent_id fr), aq_session_id = None, aq_node_name = Some (er_node_name q), aq_now = None\<rparr>"

definition can_enroll ::
  "database enrollment_deps \<Rightarrow> fresh_values \<Rightarrow> EnrollmentRequest \<Rightarrow> pystr \<Rightarrow> datetime \<Rightarrow> database enrollment_state \<Rightarrow> bool" where
  "can_enroll deps fr q h now st \<longleftrightarrow>
     \<not> fst (is_limited (er_source_address q) h (as_utc now) (st_limiter st)) \<and>
     (\<exists>key. load_agent_public_key (ed_load_pem deps) (er_agent_x509_public_key q) = Inr key) \<and>
     (\<exists>sh. sha256_hex (fr_tunnel_secret fr) = Inr sh) \<and>
     fr_agent_id fr \<notin> ag_id ` set (db_agents (st_store st)) \<and>
     er_node_name q \<notin> ag_node_name ` set (db_agents (st_store st)) \<and>
     hex_of (fr_serial fr) \<notin> ag_cert_serial ` set (db_agents (st_store st)) \<and>
     (\<forall>d. wf_db d \<and> fr_agent_id fr \<in> ag_id ` set (db_agents d) \<and> db_audit d = db_audit (st_store st) \<longrightarrow>
        (\<exists>d'. write_audit deps (success_row fr q) d = (Inr (), d')))"

lemma consume_keeps:
  "pg_consume_enrollment_token g h n t db = (r, d) \<Longrightarrow> db_agents d = db_agents db \<and> db_audit d = db_audit db"
  by (cases r) (auto simp: pg_consume_enrollment_token_def exc_elims split: option.splits)

lemma issue_succeeds:
  "py_fullmatch NODE_NAME_PATTERN n \<Longrightarrow> \<exists>c. issue_agent_client_certificate i key n u s t AGENT_CERT_DEFAULT_LIFETIME_DAYS = Inr c \<and>
    iac_serial c = hex_of s"
  by (simp add: issue_agent_client_certificate_def AGENT_CERT_DEFAULT_LIFETIME_DAYS_def validate_node_name_Inr [THEN iffD2] Let_def)

lemma enroll_succeeds:
  assumes pg: "pg_service deps" "pg_tokens_inv (st_store st)"
    and q: "request_identity q = Inr (n, h)" "can_enroll deps fr q h now st"
    and tok: "pg_view (st_store st) h = Some (n, ls, k, ex)" "instant now < ex"
      "validate_node_ssh_host_public_key (ed_import_key deps) (er_node_ssh_host_public_key q) = Inr k"
  shows "\<exists>resp st'. enroll deps cn fr q now st = (Inr resp, st')"
proof -
  let ?db = "st_store st" and ?now = "as_utc now"
  obtain g where g: "ed_consume deps = pg_consume_enrollment_token g" "ed_persist deps = pg_persist_agent"
    using pg(1) by (auto simp: pg_service_def)
  have n: "n = er_node_name q" "py_fullmatch NODE_NAME_PATTERN n" using q(1) by (auto simp: request_identity_Inr)
  obtain row where row: "token_row ?db h = Some row" "token_matches h n ?now row"
    using pg_view_matches [of ?db h n ?now] tok by auto
  have k: "tk_node_ssh_host_public_key row = k"
    using row(1) tok(1) by (auto simp: pg_view_def pg_token_view_def split: if_splits)
  obtain d where d: "ed_consume deps h n ?now ?db = (Inr (Some \<lparr>et_token_hash = h, et_node_name = n,
      et_labels = tk_labels row, et_node_ssh_host_public_key = k\<rparr>), d)" "wf_db d"
    using pg_consume_found [OF pg(2) row, of g] g k by (auto simp: pg_tokens_inv_def)
  note same = consume_keeps [OF d(1) [unfolded g]]
  obtain key sh where ks: "load_agent_public_key (ed_load_pem deps) (er_agent_x509_public_key q) = Inr key"
    "sha256_hex (fr_tunnel_secret fr) = Inr sh" using q(2) unfolding can_enroll_def by blast
  obtain c where c: "issue_agent_client_certificate (ed_issuer deps) key n (uuid_text (fr_agent_id fr)) (fr_serial fr)
      ?now AGENT_CERT_DEFAULT_LIFETIME_DAYS = Inr c" "iac_serial c = hex_of (fr_serial fr)"
    using issue_succeeds [OF n(2)] by blast
  let ?a = "\<lparr>sa_agent_id = fr_agent_id fr, sa_node_name = n, sa_labels = tk_labels row,
    sa_x509_public_key = er_agent_x509_public_key q, sa_node_ssh_host_public_key = k,
    sa_tunnel_secret_hash = sh, sa_cert_serial = iac_serial c, sa_cert_expires_at = iac_expires_at c\<rparr>"
  have new: "new_agent ?a d" using q(2) by (simp add: new_agent_def can_enroll_def same c(2) n(1))
  obtain e where e: "pg_persist_agent (fr_now fr) ?a d = (Inr (), e)" "fr_agent_id fr \<in> ag_id ` set (db_agents e)"
    "db_audit e = db_audit d" "wf_db e" using persist_succeeds [OF d(2) new] by auto
  obtain d' where "write_audit deps (success_row fr q) e = (Inr (), d')"
    using q(2) e(2-4) same unfolding can_enroll_def by auto
  then have "\<exists>resp. complete_enrollment deps fr q ?now n h ?db = (Inr resp, d')"
    using tok(3) ks c(1) e(1) by (simp add: complete_enrollment_def sbind_def d(1) [unfolded n(1)] slift_def success_row_def n(1) g(2))
  then obtain resp where "complete_enrollment deps fr q ?now n h ?db = (Inr resp, d')" by blast
  moreover obtain l where "is_limited (er_source_address q) h ?now (st_limiter st) = (False, l)"
    using q(2) unfolding can_enroll_def by (metis (full_types) prod.collapse)
  ultimately show ?thesis by (simp add: enroll_Inr try_enroll_def q(1) in_store_def)
qed

section \<open>The package\<close>

lemma consume_outcome:
  assumes "pg_tokens_inv db"
  shows "fst (pg_consume_enrollment_token g h n t db) = Inr (case pg_view db h of
    None \<Rightarrow> None
  | Some (m, ls, k, ex) \<Rightarrow> if n = m \<and> instant t < ex then Some \<lparr>et_token_hash = h, et_node_name = n, et_labels = ls,
      et_node_ssh_host_public_key = k\<rparr> else None)"
proof (cases "\<exists>row. token_row db h = Some row \<and> token_matches h n t row")
  case True
  then obtain row where row: "token_row db h = Some row" "token_matches h n t row" by blast
  have "fst (pg_consume_enrollment_token g h n t db) = Inr (Some \<lparr>et_token_hash = h, et_node_name = n,
      et_labels = tk_labels row, et_node_ssh_host_public_key = tk_node_ssh_host_public_key row\<rparr>)"
    using pg_consume_found [OF assms row, of g] by auto
  with row show ?thesis by (simp add: pg_view_def pg_token_view_def token_matches_def)
next
  case False
  then show ?thesis using pg_consume_missing [OF assms False, of g] pg_view_matches [of db h n t]
    by (auto split: option.split)
qed

text \<open>A successful enrollment presents a usable token of its node, and the host key pinned to it.\<close>

lemma enroll_uses_token:
  assumes "pg_service deps" "pg_tokens_inv (st_store st)" "enroll deps cn fr q t st = (Inr resp, st')"
  obtains h ls k ex where "sha256_hex (Secret (er_token q)) = Inr h"
    "pg_view (st_store st) h = Some (er_node_name q, ls, k, ex)" "instant t < ex"
    "validate_node_ssh_host_public_key (ed_import_key deps) (er_node_ssh_host_public_key q) = Inr k"
proof -
  have t: "try_enroll deps fr q (as_utc t) st = (Inr resp, st')" using assms(3) by (simp add: enroll_Inr)
  obtain n h where n: "request_identity q = Inr (n, h)"
    "complete_enrollment deps fr q (as_utc t) n h (st_store st) = (Inr resp, st_store st')"
    using t by (rule try_enroll_Inr)
  then show thesis
    using complete_row [OF assms(1,2) aware_as_utc n(2)] that by (auto simp: request_identity_Inr)
qed

text \<open>C34: The package \<open>create-agent\<close> returns lets in exactly the node it was made for, for seven days.  The token
  store hands the token of the returned \<open>agent.conf\<close> out for the name of the node before the seven days are over,
  with the labels and the normalised host key of the command, and refuses it for every other name and afterwards;
  it hands out no other token for that node.  The enrollment service on this database therefore accepts a request
  for the node only with this token, in time and with a host key that normalises to the pinned one, and accepts the
  token for no other node; and it does accept such a request when nothing else stands in the way (\<open>can_enroll\<close>:
  the rate limit, the agent's public key, a new name, id and serial, the audit writer).\<close>

theorem created_package_enrolls_its_node:
  assumes "admin_create_agent sv f a now w = (Inr package, w')" "pg_tokens_inv (aw_db w)"
  shows "\<exists>token hash host_key. generate_enrollment_token (af_random f) = Inr token \<and> sha256_hex token = Inr hash \<and>
    validate_node_host_key (sv_import_key sv) (cr_node_ssh_host_public_key a) = Inr host_key \<and>
    cap_agent_conf package = render_created_conf (a\<lparr>cr_node_ssh_host_public_key := host_key\<rparr>) token \<and>
    (\<forall>g n t. fst (pg_consume_enrollment_token g hash n t (aw_db w')) =
       Inr (if n = cr_node_name a \<and> instant t < instant (admin_now f now) + days 7
            then Some \<lparr>et_token_hash = hash, et_node_name = n, et_labels = cr_labels a,
                       et_node_ssh_host_public_key = host_key\<rparr> else None)) \<and>
    (\<forall>g other t. other \<noteq> hash \<longrightarrow> fst (pg_consume_enrollment_token g other (cr_node_name a) t (aw_db w')) = Inr None) \<and>
    (\<forall>deps cn fr q t st resp st'. pg_service deps \<and> st_store st = aw_db w' \<and> enroll deps cn fr q t st = (Inr resp, st') \<and>
         (er_node_name q = cr_node_name a \<or> Secret (er_token q) = token) \<longrightarrow>
       er_node_name q = cr_node_name a \<and> sha256_hex (Secret (er_token q)) = Inr hash \<and>
       instant t < instant (admin_now f now) + days 7 \<and>
       validate_node_ssh_host_public_key (ed_import_key deps) (er_node_ssh_host_public_key q) = Inr host_key) \<and>
    (\<forall>deps cn fr q t st. pg_service deps \<and> st_store st = aw_db w' \<and> er_node_name q = cr_node_name a \<and>
         Secret (er_token q) = token \<and> instant t < instant (admin_now f now) + days 7 \<and>
         validate_node_ssh_host_public_key (ed_import_key deps) (er_node_ssh_host_public_key q) = Inr host_key \<and>
         can_enroll deps fr q hash t st \<longrightarrow>
       (\<exists>resp st'. enroll deps cn fr q t st = (Inr resp, st')))"
proof -
  obtain token hash host_key where p: "generate_enrollment_token (af_random f) = Inr token" "sha256_hex token = Inr hash"
    "validate_node_host_key (sv_import_key sv) (cr_node_ssh_host_public_key a) = Inr host_key"
    "cap_agent_conf package = render_created_conf (a\<lparr>cr_node_ssh_host_public_key := host_key\<rparr>) token"
    "py_fullmatch NODE_NAME_PATTERN (cr_node_name a)" "pg_tokens_inv (aw_db w')"
    and view: "pg_view (aw_db w') = (without_node (cr_node_name a) (pg_view (aw_db w)))
       (hash \<mapsto> (cr_node_name a, cr_labels a, host_key, instant (admin_now f now) + days 7))"
    using created_package [OF assms] .
  have only: "h = hash" if "pg_view (aw_db w') h = Some (cr_node_name a, ls, k, ex)" for h ls k ex
    using that by (auto simp: view without_node_def split: if_splits option.splits)
  have "fst (pg_consume_enrollment_token g hash n t (aw_db w')) =
       Inr (if n = cr_node_name a \<and> instant t < instant (admin_now f now) + days 7
            then Some \<lparr>et_token_hash = hash, et_node_name = n, et_labels = cr_labels a,
                       et_node_ssh_host_public_key = host_key\<rparr> else None)" for g n t
    unfolding consume_outcome [OF p(6)] by (simp add: view)
  moreover have "fst (pg_consume_enrollment_token g other (cr_node_name a) t (aw_db w')) = Inr None" if "other \<noteq> hash" for g other t
    unfolding consume_outcome [OF p(6)] using only [of other] that by (auto split: option.split)
  moreover have "er_node_name q = cr_node_name a \<and> sha256_hex (Secret (er_token q)) = Inr hash \<and>
       instant t < instant (admin_now f now) + days 7 \<and>
       validate_node_ssh_host_public_key (ed_import_key deps) (er_node_ssh_host_public_key q) = Inr host_key"
    if e: "pg_service deps" "st_store st = aw_db w'" "enroll deps cn fr q t st = (Inr resp, st')"
      "er_node_name q = cr_node_name a \<or> Secret (er_token q) = token" for deps cn fr q t st resp st'
  proof -
    obtain h ls k ex where u: "sha256_hex (Secret (er_token q)) = Inr h" "pg_view (aw_db w') h = Some (er_node_name q, ls, k, ex)"
      "instant t < ex" "validate_node_ssh_host_public_key (ed_import_key deps) (er_node_ssh_host_public_key q) = Inr k"
      using enroll_uses_token [OF e(1) _ e(3), unfolded e(2), OF p(6)] .
    have "h = hash" using e(4) only [of h] u(1,2) p(2) by auto
    with u show ?thesis by (simp add: view)
  qed
  moreover have "\<exists>resp st'. enroll deps cn fr q t st = (Inr resp, st')"
    if s: "pg_service deps" "st_store st = aw_db w'" "er_node_name q = cr_node_name a" "Secret (er_token q) = token"
      "instant t < instant (admin_now f now) + days 7"
      "validate_node_ssh_host_public_key (ed_import_key deps) (er_node_ssh_host_public_key q) = Inr host_key"
      "can_enroll deps fr q hash t st" for deps cn fr q t st
  proof (rule enroll_succeeds [OF s(1) _ _ s(7) _ s(5,6)])
    show "pg_tokens_inv (st_store st)" using p(6) s(2) by simp
    show "request_identity q = Inr (cr_node_name a, hash)"
      using p(1,2,5) s(3,4) by (auto simp: request_identity_Inr generate_enrollment_token_def SecretValue_Inr)
    show "pg_view (st_store st) hash = Some (cr_node_name a, cr_labels a, host_key, instant (admin_now f now) + days 7)"
      by (simp add: s(2) view)
  qed
  ultimately show ?thesis using p(1-4) by blast
qed

text \<open>A package made for a new node, and the request of that node five seconds later.\<close>

definition package_request :: EnrollmentRequest where
  "package_request = \<lparr>er_node_name = str ''db1'', er_token = replicate 43 65, er_agent_x509_public_key = [80],
     er_node_ssh_host_public_key = [97, 32, 98], er_source_address = [115]\<rparr>"

lemma package_request_enrolls:
  assumes "db_agents (st_store st) = [sample_agent_row]" "st_limiter st = new_rate_limiter"
  shows "can_enroll Enrollment_Service.sample_deps Enrollment_Service.sample_fresh package_request h (utc 5) st"
proof -
  have "hex_of 9 = [57]" by (simp add: hex_of.simps hex_char_def)
  then show ?thesis
    using assms sample_hash
    by (simp add: can_enroll_def package_request_def is_limited_def new_rate_limiter_def deque_at_def drop_old_def
        Let_def load_agent_public_key_def Enrollment_Service.sample_deps_def Enrollment_Service.sample_fresh_def ascii_def
        sample_agent_row_def write_audit_def str_def sample_token_def)
qed

lemma created_package_enrolls_its_node_witness:
  "\<exists>package w' resp st'. admin_create_agent sample_service sample_admin_fresh sample_create_args None sample_admin_world
      = (Inr package, w') \<and>
    enroll Enrollment_Service.sample_deps (\<lambda>_. []) Enrollment_Service.sample_fresh package_request (utc 5)
      \<lparr>st_store = aw_db w', st_limiter = new_rate_limiter\<rparr> = (Inr resp, st')"
proof -
  obtain p w' where c: "admin_create_agent sample_service sample_admin_fresh sample_create_args None sample_admin_world = (Inr p, w')"
    using sample_created by blast
  have i: "pg_tokens_inv (aw_db sample_admin_world)"
    using wf_sample_jump_db by (simp add: pg_tokens_inv_def sample_admin_db) (simp add: sample_jump_db_def empty_db_def)
  have t: "instant (utc 5) < instant (admin_now sample_admin_fresh None) + days 7"
    by (simp add: admin_now_def sample_admin_fresh_def days_def seconds_def)
  have k: "validate_node_host_key (\<lambda>_. Inr ()) [97, 32, 98] = Inr [97, 32, 98]"
    "validate_node_ssh_host_public_key (\<lambda>_. Inr ()) [97, 32, 98] = Inr [97, 32, 98]"
    by (simp_all add: validate_node_host_key_def validate_node_ssh_host_public_key_def rewrap_def Let_def strip_def
        lstrip_def rstrip_def isspace_def)
  have a: "sv_import_key sample_service = (\<lambda>_. Inr ())" "cr_node_ssh_host_public_key sample_create_args = [97, 32, 98]"
    "cr_node_name sample_create_args = str ''db1''" "ed_import_key Enrollment_Service.sample_deps = (\<lambda>_. Inr ())"
    "er_node_name package_request = str ''db1''" "er_token package_request = replicate 43 65"
    "er_node_ssh_host_public_key package_request = [97, 32, 98]"
    by (simp_all add: Admin_Facts.sample_service_def sample_create_args_def Enrollment_Service.sample_deps_def package_request_def)
  let ?st = "\<lparr>st_store = aw_db w', st_limiter = new_rate_limiter\<rparr>"
  have "db_agents (aw_db w') = [sample_agent_row]"
    by (rule created_package [OF c i]) (simp add: sample_admin_db sample_jump_db_def)
  then have can: "can_enroll Enrollment_Service.sample_deps Enrollment_Service.sample_fresh package_request h (utc 5) ?st" for h
    by (intro package_request_enrolls) simp_all
  obtain token hash host_key where p: "generate_enrollment_token (af_random sample_admin_fresh) = Inr token"
    "validate_node_host_key (sv_import_key sample_service) (cr_node_ssh_host_public_key sample_create_args) = Inr host_key"
    "\<forall>deps cn fr q t st. pg_service deps \<and> st_store st = aw_db w' \<and> er_node_name q = cr_node_name sample_create_args \<and>
         Secret (er_token q) = token \<and> instant t < instant (admin_now sample_admin_fresh None) + days 7 \<and>
         validate_node_ssh_host_public_key (ed_import_key deps) (er_node_ssh_host_public_key q) = Inr host_key \<and>
         can_enroll deps fr q hash t st \<longrightarrow> (\<exists>resp st'. enroll deps cn fr q t st = (Inr resp, st'))"
    using created_package_enrolls_its_node [OF c i] by (elim exE conjE) (rule that)
  have "token = Secret (replicate 43 65)" "host_key = [97, 32, 98]"
    using p(1,2) sample_secret(1) by (simp_all add: a k)
  then have "\<exists>resp st'. enroll Enrollment_Service.sample_deps (\<lambda>_. []) Enrollment_Service.sample_fresh package_request (utc 5) ?st = (Inr resp, st')"
    using t by (intro p(3) [rule_format]) (simp add: a k can Enrollment_Service.sample_service)
  with c show ?thesis by blast
qed

end
