(* ===== verification/Agent_Enrollment.thy ===== *)
theory Agent_Enrollment
  imports Agent_Tunnel Config Host_Keys
begin

text \<open>
  \<open>agent/enrollment.py\<close> and the commands of \<open>agent/main.py\<close>: the request an agent sends, the two files it
  writes when it is accepted, and what the tunnel mode reads back.  The node's files are a map from paths
  to contents and permission bits; every file operation may raise \<open>OSError\<close>, as \<open>nf_faults\<close> says of the
  next ones, and then changes nothing.  Text files are UTF-8.  The drawn key pair, the random part of the temporary name, the parsed
  \<open>agent.conf\<close>, the output of \<open>ssh-keyscan\<close>, the TLS contexts and the HTTP exchange are arguments.
\<close>

section \<open>Files\<close>

record node_file =
  nf_content :: bytes
  nf_mode :: nat

record node_fs =
  nf_files :: "pystr \<rightharpoonup> node_file"
  nf_dirs :: "pystr \<rightharpoonup> nat"
  nf_default_mode :: nat
  nf_faults :: "bool list"

definition nio :: "(node_fs \<Rightarrow> node_fs) \<Rightarrow> (node_fs, unit) op" where
  "nio f fs = (case nf_faults fs of
     [] \<Rightarrow> (Inr (), f fs)
   | True # r \<Rightarrow> (Inl (OSError ''input/output error''), fs\<lparr>nf_faults := r\<rparr>)
   | False # r \<Rightarrow> (Inr (), f (fs\<lparr>nf_faults := r\<rparr>)))"

text \<open>Opening a file for writing truncates it; a new file has the mode given.\<close>

definition node_write :: "pystr \<Rightarrow> nat \<Rightarrow> bytes \<Rightarrow> node_fs \<Rightarrow> node_fs" where
  "node_write path mode content fs = fs\<lparr>nf_files := (nf_files fs)(path \<mapsto>
     \<lparr>nf_content = content, nf_mode = (case nf_files fs path of None \<Rightarrow> mode | Some f \<Rightarrow> nf_mode f)\<rparr>)\<rparr>"

definition node_chmod :: "pystr \<Rightarrow> nat \<Rightarrow> node_fs \<Rightarrow> node_fs" where
  "node_chmod path mode fs = fs\<lparr>nf_files := (\<lambda>p. if p = path
     then map_option (\<lambda>f. f\<lparr>nf_mode := mode\<rparr>) (nf_files fs p) else nf_files fs p)\<rparr>"

definition node_remove :: "pystr \<Rightarrow> node_fs \<Rightarrow> node_fs" where
  "node_remove path fs = fs\<lparr>nf_files := (nf_files fs)(path := None)\<rparr>"

definition node_replace :: "pystr \<Rightarrow> pystr \<Rightarrow> node_fs \<Rightarrow> node_fs" where
  "node_replace a b fs = (case nf_files fs a of None \<Rightarrow> fs
     | Some f \<Rightarrow> fs\<lparr>nf_files := (nf_files fs)(a := None, b \<mapsto> f)\<rparr>)"

definition unlink_quietly :: "pystr \<Rightarrow> (node_fs, unit) op" where
  "unlink_quietly path fs = (if nf_files fs path = None then (Inr (), fs) else nio (node_remove path) fs)"

text \<open>The permission bits \<open>0o700\<close> and \<open>0o600\<close>.\<close>

definition MODE_700 :: nat where "MODE_700 = 448"
definition MODE_600 :: nat where "MODE_600 = 384"

text \<open>Another name in the directory of a path.\<close>

definition beside :: "pystr \<Rightarrow> pystr \<Rightarrow> pystr" where
  "beside path name = rev (dropWhile (\<lambda>c. c \<noteq> 47) (rev path)) @ name"

definition make_dir :: "pystr \<Rightarrow> nat \<Rightarrow> node_fs \<Rightarrow> node_fs" where
  "make_dir dir mode fs = (if nf_dirs fs dir = None then fs\<lparr>nf_dirs := (nf_dirs fs)(dir \<mapsto> mode)\<rparr> else fs)"

definition chmod_dir :: "pystr \<Rightarrow> nat \<Rightarrow> node_fs \<Rightarrow> node_fs" where
  "chmod_dir dir mode fs = fs\<lparr>nf_dirs := (nf_dirs fs)(dir \<mapsto> mode)\<rparr>"

text \<open>\<open>path.read_text()\<close> with universal newlines.\<close>

fun universal_newlines :: "pystr \<Rightarrow> pystr" where
  "universal_newlines [] = []"
| "universal_newlines (c # s) =
     (if c = 13 then 10 # universal_newlines (if take 1 s = [10] then tl s else s)
      else c # universal_newlines s)"

definition node_read :: "pystr \<Rightarrow> (node_fs, pystr) op" where
  "node_read path =
     sbind (nio id) (\<lambda>_. sbind (sget (\<lambda>fs. nf_files fs path)) (\<lambda>f. case f of
       None \<Rightarrow> sraise (FileNotFoundError ''no such file'')
     | Some file \<Rightarrow> (case utf8_decode (nf_content file) of
         None \<Rightarrow> sraise (ValueError ''invalid start byte'')
       | Some text \<Rightarrow> sret (universal_newlines text))))"

text \<open>\<open>path.write_text(text)\<close>: the file is opened, then written.\<close>

definition node_write_text :: "pystr \<Rightarrow> pystr \<Rightarrow> (node_fs, unit) op" where
  "node_write_text path text =
     sbind (nio (\<lambda>fs. node_write path (nf_default_mode fs) [] fs)) (\<lambda>_. case utf8_encode text of
       None \<Rightarrow> sraise (ValueError ''surrogates not allowed'')
     | Some b \<Rightarrow> nio (\<lambda>fs. node_write path (nf_default_mode fs) b fs))"

section \<open>The request\<close>

record AgentEnrollmentConfig =
  aec_node_name :: pystr
  aec_token :: pystr
  aec_api_url :: pystr
  aec_enrollment_tls_ca_bundle :: pystr
  aec_expected_node_ssh_host_public_key :: pystr
  aec_identity_path :: pystr
  aec_agent_conf_path :: pystr
  aec_proxy_target_host :: pystr
  aec_proxy_target_port :: int

record AgentEnrollmentPayload =
  aep_node_name :: pystr
  aep_token :: pystr
  aep_agent_x509_public_key :: pystr
  aep_node_ssh_host_public_key :: pystr
  aep_private_key_pem :: pystr

definition payload_json :: "AgentEnrollmentPayload \<Rightarrow> json" where
  "payload_json p = JObj
     [(str ''node_name'', JStr (aep_node_name p)), (str ''token'', JStr (aep_token p)),
      (str ''agent_x509_public_key'', JStr (aep_agent_x509_public_key p)),
      (str ''node_ssh_host_public_key'', JStr (aep_node_ssh_host_public_key p))]"

text \<open>\<open>keys\<close> are the PEM texts of a fresh private key and its public key.\<close>

definition build_enrollment_payload ::
  "pystr \<times> pystr \<Rightarrow> AgentEnrollmentConfig \<Rightarrow> pystr \<Rightarrow> AgentEnrollmentPayload result" where
  "build_enrollment_payload keys config host_key =
     rbind (validate_node_name (aec_node_name config)) (\<lambda>safe_node_name.
       Inr \<lparr>aep_node_name = safe_node_name, aep_token = aec_token config, aep_agent_x509_public_key = snd keys,
            aep_node_ssh_host_public_key = host_key, aep_private_key_pem = fst keys\<rparr>)"

text \<open>A TLS context is its \<open>check_hostname\<close>.\<close>

definition require_enrollment_tls_context :: "bool option \<Rightarrow> bool result" where
  "require_enrollment_tls_context context = (case context of
     None \<Rightarrow> Inl (AgentEnrollmentError ''enrollment TLS validation is required'')
   | Some check_hostname \<Rightarrow>
       if \<not> check_hostname then Inl (AgentEnrollmentError ''enrollment TLS hostname validation is required'')
       else Inr check_hostname)"

definition require_tunnel_tls_context :: "bool option \<Rightarrow> bool result" where
  "require_tunnel_tls_context context = (case context of
     None \<Rightarrow> Inl (AgentTunnelError ''tunnel TLS validation is required'')
   | Some check_hostname \<Rightarrow>
       if \<not> check_hostname then Inl (AgentTunnelError ''tunnel TLS hostname validation is required'')
       else Inr check_hostname)"

definition capture_node_ssh_host_public_key ::
  "(pystr \<Rightarrow> int \<Rightarrow> pystr result) \<Rightarrow> pystr \<Rightarrow> pystr \<Rightarrow> int \<Rightarrow> pystr result" where
  "capture_node_ssh_host_public_key probe expected host port =
     (if \<not> startswith host (str ''127.'')
      then Inl (AgentEnrollmentError ''node sshd host key must be read from IPv4 loopback'')
      else if \<not> (1 \<le> port \<and> port \<le> 65535)
      then Inl (AgentEnrollmentError ''node sshd host key port is outside TCP bounds'')
      else rbind (probe host port) (\<lambda>probed.
        let public_key = strip probed in
        if public_key = [] then Inl (AgentEnrollmentError ''node sshd host public key is empty'')
        else if public_key \<noteq> strip expected
        then Inl (AgentEnrollmentError ''node sshd host key does not match pinned key'')
        else Inr public_key))"

section \<open>The identity file\<close>

record agent_identity =
  ai_agent_id :: pystr
  ai_private_key_pem :: pystr
  ai_agent_x509_cert :: pystr
  ai_tunnel_ca_bundle :: pystr
  ai_tunnel_host :: pystr
  ai_tunnel_port :: int
  ai_tunnel_secret :: pystr

definition identity_json :: "agent_identity \<Rightarrow> json" where
  "identity_json d = JObj
     [(str ''agent_id'', JStr (ai_agent_id d)), (str ''private_key'', JStr (ai_private_key_pem d)),
      (str ''agent_x509_cert'', JStr (ai_agent_x509_cert d)), (str ''tunnel_ca_bundle'', JStr (ai_tunnel_ca_bundle d)),
      (str ''tunnel_host'', JStr (ai_tunnel_host d)), (str ''tunnel_port'', JInt (ai_tunnel_port d)),
      (str ''tunnel_secret'', JStr (ai_tunnel_secret d))]"

definition identity_bytes :: "agent_identity \<Rightarrow> bytes" where
  "identity_bytes d = ascii_bytes (json_dumps (identity_json d) @ [10])"

text \<open>\<open>mkstemp\<close> creates a file of mode \<open>0600\<close> under a name that is not in use.\<close>

definition mkstemp :: "pystr \<Rightarrow> (node_fs, unit) op" where
  "mkstemp temp_name =
     sbind (sget (\<lambda>fs. nf_files fs temp_name)) (\<lambda>f.
     sbind (srequire (f = None) (OSError ''file exists'')) (\<lambda>_. nio (node_write temp_name MODE_600 [])))"

definition identity_temp :: "pystr \<Rightarrow> pystr \<Rightarrow> pystr" where
  "identity_temp identity_path random =
     beside identity_path (46 # after_last 47 identity_path @ [46] @ random @ str ''.tmp'')"

definition write_identity_json :: "pystr \<Rightarrow> pystr \<Rightarrow> agent_identity \<Rightarrow> (node_fs, unit) op" where
  "write_identity_json random identity_path d =
     (let temp_name = identity_temp identity_path random in
      sbind (nio (make_dir (path_parent identity_path) MODE_700)) (\<lambda>_.
      sbind (nio (chmod_dir (path_parent identity_path) MODE_700)) (\<lambda>_.
      sbind (mkstemp temp_name) (\<lambda>_.
      stry (sbind (nio (node_chmod temp_name MODE_600)) (\<lambda>_.
            sbind (nio (node_write temp_name MODE_600 (identity_bytes d))) (\<lambda>_.
            sbind (nio id) (\<lambda>_.
            sbind (nio (node_replace temp_name identity_path)) (\<lambda>_.
            nio (node_chmod identity_path MODE_600))))))
        (\<lambda>e. True)
        (\<lambda>e. sbind (unlink_quietly temp_name) (\<lambda>_. sraise e))))))"

section \<open>The configuration without the token\<close>

definition line_break :: "nat \<Rightarrow> bool" where
  "line_break c \<longleftrightarrow> c \<in> {10, 11, 12, 13, 28, 29, 30, 133, 8232, 8233}"

fun lines_from :: "pystr \<Rightarrow> pystr \<Rightarrow> pystr list" where
  "lines_from acc [] = (if acc = [] then [] else [acc])"
| "lines_from acc (c # s) =
     (if c = 13 \<and> take 1 s = [10] then lines_from acc s
      else if line_break c then acc # lines_from [] s
      else lines_from (acc @ [c]) s)"

definition splitlines :: "pystr \<Rightarrow> pystr list" where
  "splitlines s = lines_from [] s"

definition token_line :: "pystr \<Rightarrow> bool" where
  "token_line line \<longleftrightarrow> startswith (lower (strip line)) (str ''token'')"

definition conf_temp :: "pystr \<Rightarrow> pystr" where
  "conf_temp path = beside path (46 # after_last 47 path @ str ''.tmp'')"

definition rewrite_agent_conf_without_token :: "pystr \<Rightarrow> (node_fs, unit) op" where
  "rewrite_agent_conf_without_token path =
     sbind (node_read path) (\<lambda>original.
     let rewritten_lines = filter (\<lambda>l. \<not> token_line l) (splitlines original) in
     sbind (srequire (length rewritten_lines \<noteq> length (splitlines original))
       (AgentEnrollmentError ''agent.conf did not contain enrollment token'')) (\<lambda>_.
     sbind (node_write_text (conf_temp path) (join [10] rewritten_lines @ [10])) (\<lambda>_.
     sbind (nio (node_chmod (conf_temp path) MODE_600)) (\<lambda>_.
     nio (node_replace (conf_temp path) path)))))"

section \<open>Completing an enrollment\<close>

definition response_str :: "(pystr \<times> json) list \<Rightarrow> string \<Rightarrow> pystr result" where
  "response_str response key = (case map_of response (str key) of
     Some (JStr s) \<Rightarrow> if s = []
       then Inl (AgentEnrollmentError (''enrollment response field '' @ key @ '' must be a non-empty string'')) else Inr s
   | _ \<Rightarrow> Inl (AgentEnrollmentError (''enrollment response field '' @ key @ '' must be a non-empty string'')))"

definition response_int :: "(pystr \<times> json) list \<Rightarrow> string \<Rightarrow> int result" where
  "response_int response key = (case map_of response (str key) of
     Some (JInt i) \<Rightarrow> Inr i
   | _ \<Rightarrow> Inl (AgentEnrollmentError (''enrollment response field '' @ key @ '' must be an integer'')))"

definition response_identity :: "AgentEnrollmentPayload \<Rightarrow> json \<Rightarrow> agent_identity result" where
  "response_identity payload response = (case response of
     JObj kvs \<Rightarrow>
       rbind (response_int kvs ''tunnel_port'') (\<lambda>tunnel_port.
       rbind (response_str kvs ''agent_id'') (\<lambda>agent_id.
       rbind (response_str kvs ''agent_x509_cert'') (\<lambda>agent_x509_cert.
       rbind (response_str kvs ''tunnel_ca_bundle'') (\<lambda>tunnel_ca_bundle.
       rbind (response_str kvs ''tunnel_host'') (\<lambda>tunnel_host.
       rbind (response_str kvs ''tunnel_secret'') (\<lambda>tunnel_secret.
         Inr \<lparr>ai_agent_id = agent_id, ai_private_key_pem = aep_private_key_pem payload,
              ai_agent_x509_cert = agent_x509_cert, ai_tunnel_ca_bundle = tunnel_ca_bundle,
              ai_tunnel_host = tunnel_host, ai_tunnel_port = tunnel_port, ai_tunnel_secret = tunnel_secret\<rparr>))))))
   | _ \<Rightarrow> Inl (AgentEnrollmentError ''enrollment response must be a JSON object''))"

definition agent_complete_enrollment ::
  "pystr \<Rightarrow> AgentEnrollmentConfig \<Rightarrow> AgentEnrollmentPayload \<Rightarrow> json \<Rightarrow> (node_fs, unit) op" where
  "agent_complete_enrollment random config payload response =
     sbind (slift (response_identity payload response)) (\<lambda>identity.
     stry (sbind (write_identity_json random (aec_identity_path config) identity) (\<lambda>_.
           rewrite_agent_conf_without_token (aec_agent_conf_path config)))
       (\<lambda>e. True)
       (\<lambda>e. sbind (unlink_quietly (aec_identity_path config)) (\<lambda>_.
            sraise (AgentEnrollmentError ''enrollment did not complete safely''))))"

section \<open>Commands of the agent\<close>

definition config_section :: "ini_file \<Rightarrow> string \<Rightarrow> ini_section result" where
  "config_section conf name = (case conf (str name) of
     None \<Rightarrow> Inl (ConfigError (name @ '' section is required'')) | Some s \<Rightarrow> Inr s)"

text \<open>\<open>_parse_host_port\<close> of \<open>agent/main.py\<close>.\<close>

definition proxy_host_port :: "pystr \<Rightarrow> (pystr \<times> int) result" where
  "proxy_host_port value = (case rpartition_colon value of
     None \<Rightarrow> Inl (ConfigError ''proxy.target must be host:port'')
   | Some (host, port_text) \<Rightarrow>
       if host = [] \<or> \<not> isdigit port_text then Inl (ConfigError ''proxy.target must be host:port'')
       else rbind (py_int port_text) (\<lambda>port.
         if 1 \<le> port \<and> port \<le> 65535 then Inr (host, port)
         else Inl (ConfigError ''proxy target_port is outside valid TCP port bounds'')))"

definition load_enrollment_config ::
  "(pystr \<Rightarrow> pystr result) \<Rightarrow> pystr \<Rightarrow> ini_file option result \<Rightarrow> AgentEnrollmentConfig result" where
  "load_enrollment_config to_path path parsed =
     rbind parsed (\<lambda>read_file. case read_file of
       None \<Rightarrow> Inl (ConfigError ''agent.conf is missing'')
     | Some conf \<Rightarrow>
       rbind (config_section conf ''enrollment'') (\<lambda>enrollment.
       rbind (config_section conf ''proxy'') (\<lambda>proxy.
       rbind (require_config_value proxy ''target'' ''proxy.target'') (\<lambda>target.
       rbind (proxy_host_port target) (\<lambda>(proxy_host, proxy_port).
       rbind (require_config_value enrollment ''node_name'' ''enrollment.node_name'') (\<lambda>node_name.
       rbind (require_config_value enrollment ''token'' ''enrollment.token'') (\<lambda>token.
       rbind (require_config_value enrollment ''api_url'' ''enrollment.api_url'') (\<lambda>api_url.
       rbind (require_config_value enrollment ''tls_ca_bundle'' ''enrollment.tls_ca_bundle'') (\<lambda>bundle.
       rbind (to_path bundle) (\<lambda>tls_ca_bundle.
       rbind (require_config_value enrollment ''node_ssh_host_public_key'' ''enrollment.node_ssh_host_public_key'') (\<lambda>key.
       rbind (to_path (ini_get (ini_section_or_empty conf ''identity'') ''path'' ''/var/lib/vibeconnect/identity.json'')) (\<lambda>identity_path.
         Inr \<lparr>aec_node_name = node_name, aec_token = token, aec_api_url = api_url,
              aec_enrollment_tls_ca_bundle = tls_ca_bundle, aec_expected_node_ssh_host_public_key = key,
              aec_identity_path = identity_path, aec_agent_conf_path = path,
              aec_proxy_target_host = proxy_host, aec_proxy_target_port = proxy_port\<rparr>))))))))))))"

text \<open>\<open>_host_key_from_keyscan\<close>: the second and third word of each line of a key.\<close>

definition keyscan_line :: "pystr \<Rightarrow> bool" where
  "keyscan_line line \<longleftrightarrow> line \<noteq> [] \<and> \<not> startswith line (str ''#'') \<and> substring (str ''ssh-'') line"

definition keyscan_key :: "pystr \<Rightarrow> pystr" where
  "keyscan_key line = join [32] (take 2 (drop 1 (split_ws line)))"

definition host_key_from_keyscan :: "pystr \<Rightarrow> pystr result" where
  "host_key_from_keyscan scanned =
     (let keys = map keyscan_key (filter keyscan_line (splitlines scanned)) in
      if keys = [] then Inl (AgentEnrollmentError ''node sshd host public key is empty'')
      else case find (\<lambda>key. startswith key (str ''ssh-ed25519 '')) keys of
        Some key \<Rightarrow> Inr key | None \<Rightarrow> Inr (hd keys))"

text \<open>\<open>scan\<close> is the exit status and standard output of \<open>ssh-keyscan\<close>.\<close>

definition run_ssh_keyscan :: "(pystr \<Rightarrow> int \<Rightarrow> (int \<times> bytes) result) \<Rightarrow> pystr \<Rightarrow> int \<Rightarrow> pystr result" where
  "run_ssh_keyscan scan host port =
     rbind (scan host port) (\<lambda>(status, stdout).
     if status \<noteq> 0 then Inl (AgentEnrollmentError ''node sshd host key probe failed'')
     else (case utf8_decode stdout of None \<Rightarrow> Inl (ValueError ''invalid start byte'') | Some text \<Rightarrow> Inr text))"

record enroll_env =
  ee_to_path :: "pystr \<Rightarrow> pystr result"
  ee_keyscan :: "pystr \<Rightarrow> int \<Rightarrow> (int \<times> bytes) result"
  ee_keys :: "pystr \<times> pystr"
  ee_tls_context :: "pystr \<Rightarrow> bool result"
  ee_post :: "pystr \<Rightarrow> json \<Rightarrow> (int \<times> json result) result"
  ee_random :: pystr

definition enroll_exchange ::
  "enroll_env \<Rightarrow> AgentEnrollmentConfig \<Rightarrow> (AgentEnrollmentPayload \<times> json) result" where
  "enroll_exchange env config =
     rbind (run_ssh_keyscan (ee_keyscan env) (aec_proxy_target_host config) (aec_proxy_target_port config)) (\<lambda>scanned.
     rbind (host_key_from_keyscan scanned) (\<lambda>host_key.
     rbind (require (host_key = aec_expected_node_ssh_host_public_key config)
       (AgentEnrollmentError ''node sshd host key does not match pinned key'')) (\<lambda>_.
     rbind (build_enrollment_payload (ee_keys env) config host_key) (\<lambda>payload.
     rbind (ee_tls_context env (aec_enrollment_tls_ca_bundle config)) (\<lambda>context.
     rbind (require_enrollment_tls_context (Some context)) (\<lambda>_.
     rbind (ee_post env (aec_api_url config) (payload_json payload)) (\<lambda>(status, body).
     rbind (require (status = 200) (AgentEnrollmentError ''enrollment request failed'')) (\<lambda>_.
     rbind body (\<lambda>response. Inr (payload, response))))))))))"

definition run_enroll :: "enroll_env \<Rightarrow> pystr \<Rightarrow> ini_file option result \<Rightarrow> (node_fs, unit) op" where
  "run_enroll env config_path parsed =
     sbind (slift (load_enrollment_config (ee_to_path env) config_path parsed)) (\<lambda>config.
     sbind (slift (enroll_exchange env config)) (\<lambda>(payload, response).
     agent_complete_enrollment (ee_random env) config payload response))"

text \<open>\<open>_load_identity\<close>: the object in \<open>identity.json\<close>, with the seven keys present.\<close>

definition IDENTITY_KEYS :: "pystr list" where
  "IDENTITY_KEYS = map str [''agent_id'', ''private_key'', ''agent_x509_cert'', ''tunnel_ca_bundle'',
     ''tunnel_host'', ''tunnel_port'', ''tunnel_secret'']"

definition load_identity :: "pystr \<Rightarrow> (node_fs, (pystr \<times> json) list) op" where
  "load_identity path =
     sbind (node_read path) (\<lambda>text. case json_loads text of
       None \<Rightarrow> sraise (ValueError ''JSONDecodeError'')
     | Some (JObj kvs) \<Rightarrow> (case find (\<lambda>key. map_of kvs key = None) IDENTITY_KEYS of
         Some key \<Rightarrow> sraise (AgentTunnelError ''identity.json missing key'')
       | None \<Rightarrow> sret kvs)
     | Some _ \<Rightarrow> sraise (AgentTunnelError ''identity.json must contain an object''))"

definition identity_text :: "(json \<Rightarrow> pystr) \<Rightarrow> (pystr \<times> json) list \<Rightarrow> string \<Rightarrow> pystr" where
  "identity_text text_of identity key = (case map_of identity (str key) of None \<Rightarrow> [] | Some v \<Rightarrow> py_str text_of v)"

text \<open>
  \<open>_auth_frame\<close>.  \<open>load_cert\<close> gives the serial number and the PEM text of the public key of a certificate
  in PEM; the configuration is read again for the node name.
\<close>

definition identity_auth_frame ::
  "(json \<Rightarrow> pystr) \<Rightarrow> (pystr \<Rightarrow> (nat \<times> pystr) result) \<Rightarrow> ini_file option result \<Rightarrow> (pystr \<times> json) list \<Rightarrow> bytes result" where
  "identity_auth_frame text_of load_cert parsed identity =
     rbind (load_cert (identity_text text_of identity ''agent_x509_cert'')) (\<lambda>(serial, public_key_pem).
     rbind parsed (\<lambda>read_file. case read_file of
       None \<Rightarrow> Inl (ConfigError ''agent.conf is missing'')
     | Some conf \<Rightarrow> rbind (config_section conf ''enrollment'') (\<lambda>enrollment.
         auth_frame (identity_text text_of identity ''agent_id'') (enrollment (str ''node_name'')) serial public_key_pem
           (identity_text text_of identity ''tunnel_secret''))))"

text \<open>
  What \<open>_run_tunnel_once\<close> does before the frames flow: the proxy target, the address it connects to and the
  first bytes it writes.  \<open>load_chain\<close> loads a certificate and its private key into the TLS context.
\<close>

definition tunnel_once_begin ::
  "(json \<Rightarrow> pystr) \<Rightarrow> (pystr \<Rightarrow> (nat \<times> pystr) result) \<Rightarrow> (pystr \<Rightarrow> bool result) \<Rightarrow>
   (pystr \<Rightarrow> pystr \<Rightarrow> unit result) \<Rightarrow> ini_file option result \<Rightarrow> AgentConfig \<Rightarrow> (node_fs, ProxyTarget \<times> pystr \<times> int \<times> bytes) op" where
  "tunnel_once_begin text_of load_cert tls_context load_chain parsed config =
     sbind (load_identity (acfg_identity_path config)) (\<lambda>identity.
     sbind (slift (validate_proxy_target (acfg_proxy_target_host config) (acfg_proxy_target_port config))) (\<lambda>target.
     sbind (slift (tls_context (acfg_tunnel_tls_ca_bundle config))) (\<lambda>context.
     sbind (slift (require_tunnel_tls_context (Some context))) (\<lambda>_.
     sbind (slift (load_chain (identity_text text_of identity ''agent_x509_cert'')
       (identity_text text_of identity ''private_key''))) (\<lambda>_.
     sbind (slift (py_int (identity_text text_of identity ''tunnel_port''))) (\<lambda>tunnel_port.
     sbind (slift (identity_auth_frame text_of load_cert parsed identity)) (\<lambda>frame.
     sret (target, identity_text text_of identity ''tunnel_host'', tunnel_port, frame))))))))"

datatype agent_command = AgentNone | AgentEnroll | AgentRun

fun is_client_error :: "exc \<Rightarrow> bool" where
  "is_client_error (ClientError _) = True"
| "is_client_error _ = False"

text \<open>The exit status of \<open>main\<close>, with what the command raised, if anything.\<close>

definition agent_main :: "agent_command \<Rightarrow> unit result \<Rightarrow> int result" where
  "agent_main command outcome = (case command of
     AgentNone \<Rightarrow> Inr 0
   | _ \<Rightarrow> (case outcome of Inr _ \<Rightarrow> Inr 0
      | Inl e \<Rightarrow> if is_client_error e \<or> is_os_error e \<or> is_runtime_error e \<or> is_value_error e then Inr 1 else Inl e))"

end
