(* ===== verification/Agent_Enrollment_Facts.thy ===== *)
theory Agent_Enrollment_Facts
  imports Agent_Enrollment
begin

text \<open>
  Facts of the agent's enrollment: what a completed and a failed enrollment leave on the node's disk,
  whichever file operations fail, and that the identity read back is the one the server sent.
\<close>

section \<open>File operations\<close>

lemma nio_Inr [exc_elims]: "nio f fs = (Inr u, fs') \<longleftrightarrow> (nf_faults fs = [] \<or> nf_faults fs \<noteq> [] \<and> \<not> hd (nf_faults fs)) \<and>
    fs' = f (fs\<lparr>nf_faults := tl (nf_faults fs)\<rparr>)"
  by (cases fs) (auto simp: nio_def split: list.splits bool.splits)

lemma nio_Inl [exc_elims]: "nio f fs = (Inl e, fs') \<longleftrightarrow> nf_faults fs \<noteq> [] \<and> hd (nf_faults fs) \<and>
    e = OSError ''input/output error'' \<and> fs' = fs\<lparr>nf_faults := tl (nf_faults fs)\<rparr>"
  by (auto simp: nio_def split: list.splits bool.splits)

lemma node_files [simp]:
  "nf_files (node_write p m c fs) = (nf_files fs)(p \<mapsto>
     \<lparr>nf_content = c, nf_mode = (case nf_files fs p of None \<Rightarrow> m | Some f \<Rightarrow> nf_mode f)\<rparr>)"
  "nf_files (node_chmod p m fs) = (\<lambda>q. if q = p then map_option (\<lambda>f. f\<lparr>nf_mode := m\<rparr>) (nf_files fs q) else nf_files fs q)"
  "nf_files (node_remove p fs) = (nf_files fs)(p := None)"
  "nf_files (make_dir d m fs) = nf_files fs" "nf_files (chmod_dir d m fs) = nf_files fs"
  by (simp_all add: node_write_def node_chmod_def node_remove_def make_dir_def chmod_dir_def)

lemma node_replace_files [simp]: "nf_files (node_replace a b fs) =
    (case nf_files fs a of None \<Rightarrow> nf_files fs | Some f \<Rightarrow> (nf_files fs)(a := None, b \<mapsto> f))"
  by (simp add: node_replace_def split: option.split)

lemma node_dirs [simp]:
  "nf_dirs (node_write p m c fs) = nf_dirs fs" "nf_dirs (node_chmod p m fs) = nf_dirs fs"
  "nf_dirs (node_remove p fs) = nf_dirs fs" "nf_dirs (node_replace p q fs) = nf_dirs fs"
  "nf_dirs (chmod_dir d m fs) = (nf_dirs fs)(d \<mapsto> m)"
  "(nf_dirs (make_dir d m fs))(d \<mapsto> n) = (nf_dirs fs)(d \<mapsto> n)"
  by (auto simp: node_write_def node_chmod_def node_remove_def node_replace_def chmod_dir_def make_dir_def
      split: option.splits)

lemma node_faults [simp]:
  "nf_faults (node_write p m c fs) = nf_faults fs" "nf_faults (node_chmod p m fs) = nf_faults fs"
  "nf_faults (node_remove p fs) = nf_faults fs" "nf_faults (node_replace p q fs) = nf_faults fs"
  "nf_faults (chmod_dir d m fs) = nf_faults fs" "nf_faults (make_dir d m fs) = nf_faults fs"
  by (auto simp: node_write_def node_chmod_def node_remove_def node_replace_def chmod_dir_def make_dir_def
      split: option.splits)

text \<open>\<open>touches S m\<close>: whatever happens, \<open>m\<close> leaves the files outside \<open>S\<close> as they were, and makes no operation fail
  that would not have failed anyway.\<close>

definition touches :: "pystr set \<Rightarrow> (node_fs, 'a) op \<Rightarrow> bool" where
  "touches S m \<longleftrightarrow> (\<forall>fs r fs'. m fs = (r, fs') \<longrightarrow>
     (\<forall>p. p \<notin> S \<longrightarrow> nf_files fs' p = nf_files fs p) \<and> set (nf_faults fs') \<subseteq> set (nf_faults fs))"

named_theorems touches_intros "which files an operation may change, by its structure"

lemma touchesD: "touches S m \<Longrightarrow> m fs = (r, fs') \<Longrightarrow> p \<notin> S \<Longrightarrow> nf_files fs' p = nf_files fs p"
  by (simp add: touches_def)

lemma touches_faults: "touches S m \<Longrightarrow> m fs = (r, fs') \<Longrightarrow> set (nf_faults fs') \<subseteq> set (nf_faults fs)"
  by (simp add: touches_def)

lemma touches_basic [touches_intros]:
  "touches S (sret x)" "touches S (sraise e)" "touches S (sget f)" "touches S (srequire b e)" "touches S (slift r)"
  by (auto simp: touches_def slift_def sraise_def)

lemma touches_sbind [touches_intros]: "touches S m \<Longrightarrow> (\<And>x. touches S (k x)) \<Longrightarrow> touches S (sbind m k)"
  unfolding touches_def sbind_def by (fastforce split: prod.splits sum.splits)

lemma touches_stry [touches_intros]: "touches S m \<Longrightarrow> (\<And>e. touches S (h e)) \<Longrightarrow> touches S (stry m p h)"
  unfolding touches_def stry_def by (fastforce split: prod.splits sum.splits if_splits)

lemma touches_nio [touches_intros]:
  assumes "\<And>fs p. p \<notin> S \<Longrightarrow> nf_files (f fs) p = nf_files fs p" "\<And>fs. nf_faults (f fs) = nf_faults fs"
  shows "touches S (nio f)"
  using assms by (auto simp: touches_def nio_def split: list.splits bool.splits)

lemma touches_unlink [touches_intros]: "p \<in> S \<Longrightarrow> touches S (unlink_quietly p)"
  by (auto simp: touches_def unlink_quietly_def nio_def split: if_splits list.splits bool.splits)

lemma touches_mkstemp [touches_intros]: "p \<in> S \<Longrightarrow> touches S (mkstemp p)"
  unfolding mkstemp_def by (intro touches_intros) auto

lemma touches_read [touches_intros]: "touches S (node_read p)"
  unfolding node_read_def by (intro touches_intros) (auto intro!: touches_intros split: option.splits)

lemma touches_write_text [touches_intros]: "p \<in> S \<Longrightarrow> touches S (node_write_text p t)"
  unfolding node_write_text_def
  by (cases "utf8_encode t") (auto intro!: touches_intros)

lemma write_identity_touches: "touches {identity_temp path random, path} (write_identity_json random path d)"
  unfolding write_identity_json_def Let_def
  by (intro touches_intros) (auto split: option.splits)

text \<open>A rewritten configuration is put in place by the last operation: until then only the new file is touched.\<close>

lemma rewrite_conf_Inl:
  assumes "rewrite_agent_conf_without_token path fs = (Inl e, fs')" "p \<noteq> conf_temp path"
  shows "nf_files fs' p = nf_files fs p"
proof -
  let ?T = "{conf_temp path}"
  define before where "before = sbind (node_read path) (\<lambda>original.
     let rewritten_lines = filter (\<lambda>l. \<not> token_line l) (splitlines original) in
     sbind (srequire (length rewritten_lines \<noteq> length (splitlines original))
       (AgentEnrollmentError ''agent.conf did not contain enrollment token'')) (\<lambda>_.
     sbind (node_write_text (conf_temp path) (join [10] rewritten_lines @ [10])) (\<lambda>_.
     nio (node_chmod (conf_temp path) MODE_600))))"
  have t: "touches ?T before"
    unfolding before_def Let_def by (intro touches_intros) auto
  have "rewrite_agent_conf_without_token path fs = sbind before (\<lambda>_. nio (node_replace (conf_temp path) path)) fs"
    unfolding before_def rewrite_agent_conf_without_token_def Let_def sbind_def
    by (auto split: prod.splits sum.splits)
  with assms(1) consider "before fs = (Inl e, fs')"
    | u fs1 where "before fs = (Inr u, fs1)" "nio (node_replace (conf_temp path) path) fs1 = (Inl e, fs')"
    by (auto simp: sbind_eq_Inl)
  then show ?thesis
  proof cases
    case 1
    with t assms(2) show ?thesis by (auto dest: touchesD)
  next
    case 2
    then have "nf_files fs1 p = nf_files fs p" using touchesD [OF t 2(1), of p] assms(2) by simp
    with 2(2) show ?thesis by (auto simp: nio_Inl)
  qed
qed

lemma touches_mono: "touches S m \<Longrightarrow> S \<subseteq> S' \<Longrightarrow> touches S' m"
  unfolding touches_def by blast

lemma rewrite_conf_touches: "touches UNIV (rewrite_agent_conf_without_token path)"
  unfolding rewrite_agent_conf_without_token_def Let_def by (intro touches_intros) auto

lemma rewrite_conf_Inr:
  assumes "rewrite_agent_conf_without_token path fs = (Inr u, fs')" "conf_temp path \<noteq> path"
  obtains f tx lines where "nf_files fs path = Some f" "utf8_decode (nf_content f) = Some tx"
    "lines = splitlines (universal_newlines tx)" "\<exists>l \<in> set lines. token_line l"
    "utf8_encode (join [10] (filter (\<lambda>l. \<not> token_line l) lines) @ [10]) \<noteq> None"
    "nf_files fs' = (nf_files fs)(conf_temp path := None, path \<mapsto>
       \<lparr>nf_content = the (utf8_encode (join [10] (filter (\<lambda>l. \<not> token_line l) lines) @ [10])), nf_mode = MODE_600\<rparr>)"
    "nf_dirs fs' = nf_dirs fs"
proof -
  obtain original fs1 where r: "node_read path fs = (Inr original, fs1)"
    and rest: "sbind (srequire (length (filter (\<lambda>l. \<not> token_line l) (splitlines original)) \<noteq> length (splitlines original))
       (AgentEnrollmentError ''agent.conf did not contain enrollment token'')) (\<lambda>_.
     sbind (node_write_text (conf_temp path) (join [10] (filter (\<lambda>l. \<not> token_line l) (splitlines original)) @ [10])) (\<lambda>_.
     sbind (nio (node_chmod (conf_temp path) MODE_600)) (\<lambda>_.
     nio (node_replace (conf_temp path) path)))) fs1 = (Inr u, fs')"
    using assms(1) unfolding rewrite_agent_conf_without_token_def Let_def by (auto simp: sbind_eq_Inr)
  obtain f tx where f: "nf_files fs path = Some f" "utf8_decode (nf_content f) = Some tx"
    "original = universal_newlines tx" "nf_files fs1 = nf_files fs" "nf_dirs fs1 = nf_dirs fs"
    using r by (auto simp: node_read_def exc_elims sraise_def split: option.splits)
  let ?ls = "splitlines original" and ?t = "join [10] (filter (\<lambda>l. \<not> token_line l) (splitlines original)) @ [10]"
  have tok: "\<exists>l \<in> set ?ls. token_line l"
  proof (rule ccontr)
    assume "\<not> ?thesis"
    then have "filter (\<lambda>l. \<not> token_line l) ?ls = ?ls" by (intro filter_True) blast
    with rest show False by (simp add: sbind_def)
  qed
  obtain b where b: "utf8_encode ?t = Some b"
    "nf_files fs' = (nf_files fs1)(conf_temp path := None, path \<mapsto> \<lparr>nf_content = b, nf_mode = MODE_600\<rparr>)"
    "nf_dirs fs' = nf_dirs fs1"
    using rest assms(2)
    by (cases "utf8_encode ?t") (auto simp: exc_elims node_write_text_def sraise_def fun_eq_iff)
  show ?thesis
    using that [OF f(1,2) refl] tok b f by simp
qed

lemma identity_temp_ne: "identity_temp path random \<noteq> path"
proof
  assume a: "identity_temp path random = path"
  let ?d = "rev (dropWhile (\<lambda>c. c \<noteq> 47) (rev path))"
  have "path = ?d @ after_last 47 path"
    unfolding after_last_def using takeWhile_dropWhile_id [of "\<lambda>c. c \<noteq> 47" "rev path"]
    by (metis rev_append rev_rev_ident)
  with a have "?d @ 46 # after_last 47 path @ [46] @ random @ str ''.tmp'' = ?d @ after_last 47 path"
    by (simp add: identity_temp_def beside_def)
  then show False by (auto dest!: arg_cong [of _ _ length])
qed

lemma conf_temp_ne: "conf_temp path \<noteq> path"
proof
  assume a: "conf_temp path = path"
  let ?d = "rev (dropWhile (\<lambda>c. c \<noteq> 47) (rev path))"
  have "path = ?d @ after_last 47 path"
    unfolding after_last_def using takeWhile_dropWhile_id [of "\<lambda>c. c \<noteq> 47" "rev path"]
    by (metis rev_append rev_rev_ident)
  with a have "?d @ 46 # after_last 47 path @ str ''.tmp'' = ?d @ after_last 47 path"
    by (simp add: conf_temp_def beside_def)
  then show False by (auto dest!: arg_cong [of _ _ length])
qed

lemma write_identity_Inr:
  assumes "write_identity_json random path d fs = (Inr u, fs')"
  shows "nf_files fs (identity_temp path random) = None \<and>
    nf_files fs' = (nf_files fs)(identity_temp path random := None, path \<mapsto> \<lparr>nf_content = identity_bytes d, nf_mode = MODE_600\<rparr>) \<and>
    nf_dirs fs' = (nf_dirs fs)(path_parent path \<mapsto> MODE_700)"
proof -
  let ?t = "identity_temp path random"
  let ?body = "sbind (nio (node_chmod ?t MODE_600)) (\<lambda>_.
            sbind (nio (node_write ?t MODE_600 (identity_bytes d))) (\<lambda>_.
            sbind (nio id) (\<lambda>_.
            sbind (nio (node_replace ?t path)) (\<lambda>_.
            nio (node_chmod path MODE_600)))))"
  obtain fs1 where m: "sbind (nio (make_dir (path_parent path) MODE_700)) (\<lambda>_.
      sbind (nio (chmod_dir (path_parent path) MODE_700)) (\<lambda>_. mkstemp ?t)) fs = (Inr (), fs1)"
    and b: "?body fs1 = (Inr u, fs')"
    using assms unfolding write_identity_json_def Let_def
    by (auto simp: sbind_def stry_def sraise_def split: prod.splits sum.splits if_splits)
  have f1: "nf_files fs ?t = None" "nf_files fs1 = (nf_files fs)(?t \<mapsto> \<lparr>nf_content = [], nf_mode = MODE_600\<rparr>)"
    "nf_dirs fs1 = (nf_dirs fs)(path_parent path \<mapsto> MODE_700)"
    using m by (auto simp: sbind_eq_Inr nio_Inr mkstemp_def require_eq)
  have "nf_files fs' = (nf_files fs)(?t := None, path \<mapsto> \<lparr>nf_content = identity_bytes d, nf_mode = MODE_600\<rparr>)"
    "nf_dirs fs' = nf_dirs fs1"
    using b identity_temp_ne [of path random] by (auto simp: sbind_eq_Inr nio_Inr f1(2) fun_eq_iff)
  with f1 show ?thesis by simp
qed

lemma write_identity_value:
  assumes "write_identity_json random path d fs = (r, fs')"
  shows "nf_files fs' path \<in> {nf_files fs path, Some \<lparr>nf_content = identity_bytes d, nf_mode = MODE_600\<rparr>}"
proof (cases r)
  case (Inr u)
  then show ?thesis using write_identity_Inr [of random path d fs u fs'] assms by simp
next
  case (Inl e)
  let ?t = "identity_temp path random"
  let ?open = "sbind (nio (make_dir (path_parent path) MODE_700)) (\<lambda>_.
      sbind (nio (chmod_dir (path_parent path) MODE_700)) (\<lambda>_. mkstemp ?t))"
  let ?body = "sbind (nio (node_chmod ?t MODE_600)) (\<lambda>_.
            sbind (nio (node_write ?t MODE_600 (identity_bytes d))) (\<lambda>_.
            sbind (nio id) (\<lambda>_.
            sbind (nio (node_replace ?t path)) (\<lambda>_.
            nio (node_chmod path MODE_600)))))"
  note ne = identity_temp_ne [of path random]
  from assms Inl consider "?open fs = (Inl e, fs')"
    | fs1 e1 fs2 where "?open fs = (Inr (), fs1)" "?body fs1 = (Inl e1, fs2)" "nf_files fs' path = nf_files fs2 path"
    unfolding write_identity_json_def Let_def
    by (auto simp: sbind_def stry_def sraise_def split: prod.splits sum.splits if_splits)
      (metis touchesD [OF touches_unlink [of ?t "{?t}"]] ne singletonD singletonI)+
  then show ?thesis
  proof cases
    case 1
    then show ?thesis
      by (auto simp: sbind_eq_Inl nio_Inr nio_Inl mkstemp_def require_eq)
  next
    case 2
    have f1: "nf_files fs1 = (nf_files fs)(?t \<mapsto> \<lparr>nf_content = [], nf_mode = MODE_600\<rparr>)"
      using 2(1) by (auto simp: sbind_eq_Inr nio_Inr mkstemp_def require_eq)
    have "nf_files fs2 path \<in> {nf_files fs path, Some \<lparr>nf_content = identity_bytes d, nf_mode = MODE_600\<rparr>}"
      using 2(2) ne by (auto simp: sbind_eq_Inl nio_Inr nio_Inl f1)
    then show ?thesis using 2(3) by simp
  qed
qed

section \<open>Lines\<close>

abbreviation unbroken :: "pystr \<Rightarrow> bool" where
  "unbroken \<equiv> list_all (\<lambda>c. \<not> line_break c)"

lemma lines_from_no_break: "unbroken acc \<Longrightarrow> list_all unbroken (lines_from acc s)"
  by (induction s arbitrary: acc) simp_all

lemma splitlines_no_break: "list_all unbroken (splitlines s)"
  by (simp add: splitlines_def lines_from_no_break)

lemma lines_from_take:
  "unbroken l \<Longrightarrow> lines_from acc (l @ 10 # s) = (acc @ l) # lines_from [] s"
  by (induction l arbitrary: acc) (auto simp: line_break_def)

lemma splitlines_join:
  "list_all unbroken ls \<Longrightarrow>
   splitlines (join [10] ls @ [10]) = (if ls = [] then [[]] else ls)"
proof (induction ls rule: induct_list012)
  case (3 x y zs)
  then show ?case using lines_from_take [of x "[]" "join [10] (y # zs) @ [10]"]
    by (simp add: splitlines_def del: lines_from.simps)
qed (auto simp: splitlines_def lines_from_take [where s = "[]"] line_break_def)

lemma blank_line_kept: "\<not> token_line []"
  by code_simp

section \<open>A completed and a failed enrollment\<close>

text \<open>\<open>conf_lines fs path\<close>: the lines of a configuration file as \<open>read_text().splitlines()\<close> gives them.\<close>

definition conf_lines :: "node_fs \<Rightarrow> pystr \<Rightarrow> pystr list option" where
  "conf_lines fs path = Option.bind (nf_files fs path) (\<lambda>f.
     map_option (\<lambda>t. splitlines (universal_newlines t)) (utf8_decode (nf_content f)))"

lemma universal_newlines_id: "13 \<notin> set s \<Longrightarrow> universal_newlines s = s"
  by (induction s) auto

lemma join_set: "set (join sep ls) \<subseteq> set sep \<union> (\<Union>l \<in> set ls. set l)"
  by (induction sep ls rule: join.induct) auto

lemma rewritten_lines:
  assumes "nf_files fs' path = Some \<lparr>nf_content = b, nf_mode = m\<rparr>"
    and "utf8_encode (join [10] ls @ [10]) = Some b" "list_all unbroken ls"
  shows "conf_lines fs' path = Some (if ls = [] then [[]] else ls)"
proof -
  have "13 \<notin> set (join [10] ls @ [10])"
    using join_set [of "[10]" ls] assms(3) by (fastforce simp: line_break_def subset_iff list_all_iff)
  then show ?thesis
    using assms(1) utf8_roundtrip [OF assms(2)] splitlines_join [OF assms(3)]
    by (simp add: conf_lines_def universal_newlines_id)
qed

lemma agent_complete_Inr:
  assumes "distinct [aec_identity_path config, aec_agent_conf_path config,
      identity_temp (aec_identity_path config) random, conf_temp (aec_agent_conf_path config)]"
    and "agent_complete_enrollment random config payload response fs = (Inr u, fs')"
  obtains d ls b where "response_identity payload response = Inr d"
    "conf_lines fs (aec_agent_conf_path config) = Some ls" "\<exists>l \<in> set ls. token_line l"
    "utf8_encode (join [10] (filter (\<lambda>l. \<not> token_line l) ls) @ [10]) = Some b"
    "nf_files fs' = (nf_files fs)(identity_temp (aec_identity_path config) random := None,
       aec_identity_path config \<mapsto> \<lparr>nf_content = identity_bytes d, nf_mode = MODE_600\<rparr>,
       conf_temp (aec_agent_conf_path config) := None,
       aec_agent_conf_path config \<mapsto> \<lparr>nf_content = b, nf_mode = MODE_600\<rparr>)"
    "nf_dirs fs' = (nf_dirs fs)(path_parent (aec_identity_path config) \<mapsto> MODE_700)"
proof -
  let ?I = "aec_identity_path config" and ?C = "aec_agent_conf_path config"
  obtain d fs1 where d: "response_identity payload response = Inr d"
    and w: "write_identity_json random ?I d fs = (Inr (), fs1)"
    and r: "rewrite_agent_conf_without_token ?C fs1 = (Inr (), fs')"
    using assms(2) unfolding agent_complete_enrollment_def
    by (auto simp: sbind_def stry_def slift_def sraise_def split: prod.splits sum.splits if_splits)
  note wf = write_identity_Inr [OF w]
  show ?thesis
  proof (rule rewrite_conf_Inr [OF r conf_temp_ne])
    fix f tx lines
    assume r: "nf_files fs1 ?C = Some f" "utf8_decode (nf_content f) = Some tx"
      "lines = splitlines (universal_newlines tx)" "\<exists>l \<in> set lines. token_line l"
      "utf8_encode (join [10] (filter (\<lambda>l. \<not> token_line l) lines) @ [10]) \<noteq> None"
      "nf_files fs' = (nf_files fs1)(conf_temp ?C := None, ?C \<mapsto>
         \<lparr>nf_content = the (utf8_encode (join [10] (filter (\<lambda>l. \<not> token_line l) lines) @ [10])), nf_mode = MODE_600\<rparr>)"
      "nf_dirs fs' = nf_dirs fs1"
    have "nf_files fs ?C = Some f" using r(1) wf assms(1) by auto
    then have c: "conf_lines fs ?C = Some lines" using r(2,3) by (simp add: conf_lines_def)
    obtain b where b: "utf8_encode (join [10] (filter (\<lambda>l. \<not> token_line l) lines) @ [10]) = Some b"
      using r(5) by blast
    show ?thesis
      by (rule that [OF d c r(4) b]) (use r(6,7) wf b in simp_all)
  qed
qed

lemma agent_complete_Inl:
  assumes "distinct [aec_identity_path config, aec_agent_conf_path config,
      identity_temp (aec_identity_path config) random, conf_temp (aec_agent_conf_path config)]"
    and "agent_complete_enrollment random config payload response fs = (Inl e, fs')"
  shows "nf_files fs' (aec_agent_conf_path config) = nf_files fs (aec_agent_conf_path config) \<and>
    (\<forall>p. p \<notin> {aec_identity_path config, identity_temp (aec_identity_path config) random,
              conf_temp (aec_agent_conf_path config)} \<longrightarrow> nf_files fs' p = nf_files fs p) \<and>
    (case response_identity payload response of Inl e' \<Rightarrow> e = e' \<and> fs' = fs
     | Inr d \<Rightarrow> e = AgentEnrollmentError ''enrollment did not complete safely'' \<and>
           nf_files fs' (aec_identity_path config) = None \<or>
         e = OSError ''input/output error'' \<and> True \<in> set (nf_faults fs) \<and>
           nf_files fs' (aec_identity_path config) \<in> {nf_files fs (aec_identity_path config),
             Some \<lparr>nf_content = identity_bytes d, nf_mode = MODE_600\<rparr>})"
proof (cases "response_identity payload response")
  case (Inl e')
  with assms(2) show ?thesis
    by (simp add: agent_complete_enrollment_def sbind_def slift_def)
next
  case (Inr d)
  let ?I = "aec_identity_path config" and ?C = "aec_agent_conf_path config"
  let ?w = "sbind (write_identity_json random ?I d) (\<lambda>_. rewrite_agent_conf_without_token ?C)"
  obtain e1 fs1 where w: "?w fs = (Inl e1, fs1)"
    and h: "sbind (unlink_quietly ?I)
        (\<lambda>_. sraise (AgentEnrollmentError ''enrollment did not complete safely'')) fs1 = (Inl e, fs')"
    using assms(2) Inr unfolding agent_complete_enrollment_def
    by (auto simp: sbind_def stry_def slift_def split: prod.splits sum.splits if_splits)
  have same: "nf_files fs1 p = nf_files fs p" if "p \<notin> {?I, identity_temp ?I random, conf_temp ?C}" for p
  proof -
    consider "write_identity_json random ?I d fs = (Inl e1, fs1)"
      | u fs0 where "write_identity_json random ?I d fs = (Inr u, fs0)"
          "rewrite_agent_conf_without_token ?C fs0 = (Inl e1, fs1)"
      using w by (auto simp: sbind_eq_Inl)
    then show ?thesis
    proof cases
      case 1
      then show ?thesis using that touchesD [OF write_identity_touches] by auto
    next
      case 2
      have "nf_files fs0 p = nf_files fs p"
        using that touchesD [OF write_identity_touches 2(1)] by auto
      moreover have "nf_files fs1 p = nf_files fs0 p" using rewrite_conf_Inl [OF 2(2)] that by auto
      ultimately show ?thesis by simp
    qed
  qed
  have I: "nf_files fs' p = nf_files fs1 p" if "p \<noteq> ?I" for p
    using h that by (auto simp: unlink_quietly_def nio_def sraise_def exc_elims sbind_def
        split: if_splits list.splits bool.splits)
  have identity: "nf_files fs1 ?I \<in> {nf_files fs ?I, Some \<lparr>nf_content = identity_bytes d, nf_mode = MODE_600\<rparr>}"
  proof -
    consider "write_identity_json random ?I d fs = (Inl e1, fs1)"
      | u fs0 where "write_identity_json random ?I d fs = (Inr u, fs0)"
          "rewrite_agent_conf_without_token ?C fs0 = (Inl e1, fs1)"
      using w by (auto simp: sbind_eq_Inl)
    then show ?thesis
    proof cases
      case 2
      then have "nf_files fs1 ?I = nf_files fs0 ?I" using rewrite_conf_Inl [OF 2(2), of ?I] assms(1) by auto
      with write_identity_value [OF 2(1)] show ?thesis by simp
    qed (rule write_identity_value)
  qed
  have faults: "set (nf_faults fs1) \<subseteq> set (nf_faults fs)"
    by (rule touches_faults [OF touches_sbind [OF _ rewrite_conf_touches] w])
      (rule touches_mono [OF write_identity_touches], simp)
  have "e = AgentEnrollmentError ''enrollment did not complete safely'' \<and> nf_files fs' ?I = None \<or>
      e = OSError ''input/output error'' \<and> True \<in> set (nf_faults fs1) \<and> nf_files fs' ?I = nf_files fs1 ?I"
    using h by (auto simp: unlink_quietly_def nio_def sraise_def sbind_def
        split: if_splits list.splits bool.splits)
  moreover have "nf_files fs' p = nf_files fs p" if "p \<notin> {?I, identity_temp ?I random, conf_temp ?C}" for p
    using I same that by auto
  ultimately show ?thesis using assms(1) Inr identity faults by auto
qed

section \<open>The file reads back\<close>

definition visible :: "pystr \<Rightarrow> bool" where
  "visible s \<longleftrightarrow> (\<forall>c \<in> set s. 32 \<le> c)"

lemma visible_simps [simp]: "visible []" "visible (c # s) \<longleftrightarrow> 32 \<le> c \<and> visible s" "visible (s @ t) \<longleftrightarrow> visible s \<and> visible t"
  by (auto simp: visible_def)

lemma visible_hex4: "visible (hex4 n)"
proof -
  have "32 \<le> hex_digit k" for k by (auto simp: hex_digit_def)
  then show ?thesis by (simp add: hex4_def)
qed

lemma visible_print_string: "visible (print_string s)"
proof -
  have "visible (escape_char c)" for c
    using visible_hex4 by (auto simp: escape_char_def u_escape_def)
  then show ?thesis by (auto simp: print_string_def visible_def)
qed

lemma visible_join: "\<forall>x \<in> set xs. visible x \<Longrightarrow> visible (join [44] xs)"
  by (induction xs rule: induct_list012) simp_all

lemma visible_json_print: "plain j \<Longrightarrow> visible (json_print j)"
proof (induction j)
  case (JInt i)
  have "visible (digits_of n)" for n
    using digits_of_all [of n] by (auto simp: visible_def list_all_iff is_ascii_digit_def dest!: bspec)
  then show ?case by (simp add: show_int_def)
next
  case (JArr xs)
  then have "visible (join [44] (map json_print xs))" by (intro visible_join) auto
  then show ?case by simp
next
  case (JObj kvs)
  then have "\<forall>kv \<in> set kvs. visible (member_text kv)"
    using visible_print_string by (fastforce simp: member_text_def)
  then have "visible (join [44] (map member_text kvs))" by (intro visible_join) auto
  then show ?case unfolding json_print_obj by simp
qed (auto simp: str_def visible_print_string)

lemma json_loads_line: "plain j \<Longrightarrow> json_loads (json_dumps j @ [10]) = Some (sort_keys j)"
proof -
  assume p: "plain j"
  let ?j = "sort_keys j"
  have "scan_value (json_fuel (json_print ?j @ [10])) (json_print ?j @ [10]) = Some (?j, [10])"
    using scan_value_print [OF plain_sort_keys [OF p]]
    by (intro scansD) (simp_all add: json_fuel_def number_end_def is_ascii_digit_def)
  then show ?thesis
    using skip_ws_print [OF plain_sort_keys [OF p], of "[10]"]
    by (simp add: json_loads_def json_dumps_def skip_ws_def json_ws_def)
qed

lemma load_identity_written:
  assumes "nf_faults fs = []" "plain (identity_json d)"
    and "nf_files fs path = Some \<lparr>nf_content = identity_bytes d, nf_mode = m\<rparr>"
  obtains kvs where "load_identity path fs = (Inr kvs, fs)"
    "\<And>key. map_of kvs key = (case identity_json d of JObj sent \<Rightarrow> map_of sent key | _ \<Rightarrow> None)"
proof -
  let ?t = "json_dumps (identity_json d) @ [10]"
  obtain sent where sent: "identity_json d = JObj sent" "map fst sent = IDENTITY_KEYS"
    "\<forall>kv \<in> set sent. sort_keys (snd kv) = snd kv"
    by (simp add: identity_json_def IDENTITY_KEYS_def)
  have dist: "distinct (map fst sent)" using sent(2) by (simp add: IDENTITY_KEYS_def str_def)
  obtain kvs where k: "sort_keys (JObj sent) = JObj kvs"
    "\<And>key. map_of kvs key = map_option sort_keys (map_of sent key)"
    using sort_keys_obj [OF dist] by auto
  have same: "map_of kvs key = map_of sent key" for key
    using sent(3) k(2) [of key] by (cases "map_of sent key") (auto dest!: map_of_SomeD)
  have "ascii ?t" using json_dumps_ascii [OF assms(2)] by (simp add: ascii_def)
  then have "utf8_decode (identity_bytes d) = Some ?t"
    by (simp add: identity_bytes_def utf8_decode_ascii)
  moreover have "universal_newlines ?t = ?t"
    using visible_json_print [OF plain_sort_keys [OF assms(2)]]
    by (intro universal_newlines_id) (auto simp: json_dumps_def visible_def)
  ultimately have r: "node_read path fs = (Inr ?t, fs)"
    using assms(1,3) by (simp add: node_read_def sbind_def nio_def)
  have present: "find (\<lambda>key. map_of kvs key = None) IDENTITY_KEYS = None"
    using same by (auto simp: find_None_iff map_of_eq_None_iff simp flip: sent(2))
  have "load_identity path fs = (Inr kvs, fs)"
    using r json_loads_line [OF assms(2)] k(1) present sent(1) by (simp add: load_identity_def sbind_def)
  then show ?thesis using that same sent(1) by simp
qed

lemma write_identity_succeeds:
  assumes "nf_faults fs = []" "nf_files fs (identity_temp path random) = None"
  shows "\<exists>fs'. write_identity_json random path d fs = (Inr (), fs') \<and> nf_faults fs' = []"
  using assms by (simp add: write_identity_json_def Let_def sbind_def stry_def nio_def mkstemp_def sget_def require_eq)

lemma rewrite_conf_succeeds:
  assumes "nf_faults fs = []" "conf_lines fs path = Some ls" "\<exists>l \<in> set ls. token_line l"
    and "utf8_encode (join [10] (filter (\<lambda>l. \<not> token_line l) ls) @ [10]) \<noteq> None"
  shows "\<exists>fs'. rewrite_agent_conf_without_token path fs = (Inr (), fs') \<and> nf_faults fs' = []"
proof -
  obtain f t where f: "nf_files fs path = Some f" "utf8_decode (nf_content f) = Some t" "ls = splitlines (universal_newlines t)"
    using assms(2) by (auto simp: conf_lines_def bind_eq_Some_conv)
  have "length (filter (\<lambda>l. \<not> token_line l) ls) < length ls"
    using assms(3) by (auto intro: length_filter_less)
  then show ?thesis
    using assms(1,4) f by (auto simp: rewrite_agent_conf_without_token_def Let_def sbind_def node_read_def nio_def
        sget_def node_write_text_def require_def)
qed

lemma complete_succeeds:
  assumes "distinct [aec_identity_path config, aec_agent_conf_path config,
      identity_temp (aec_identity_path config) random, conf_temp (aec_agent_conf_path config)]"
    and "nf_faults fs = []" "response_identity payload response = Inr d"
    and "nf_files fs (identity_temp (aec_identity_path config) random) = None"
    and "conf_lines fs (aec_agent_conf_path config) = Some ls" "\<exists>l \<in> set ls. token_line l"
    and "utf8_encode (join [10] (filter (\<lambda>l. \<not> token_line l) ls) @ [10]) \<noteq> None"
  shows "\<exists>fs'. agent_complete_enrollment random config payload response fs = (Inr (), fs') \<and> nf_faults fs' = []"
proof -
  obtain fs1 where w: "write_identity_json random (aec_identity_path config) d fs = (Inr (), fs1)" "nf_faults fs1 = []"
    using write_identity_succeeds [OF assms(2,4)] by blast
  have "nf_files fs1 (aec_agent_conf_path config) = nf_files fs (aec_agent_conf_path config)"
    using touchesD [OF write_identity_touches w(1)] assms(1) by auto
  then have "conf_lines fs1 (aec_agent_conf_path config) = Some ls" using assms(5) by (simp add: conf_lines_def)
  then obtain fs' where "rewrite_agent_conf_without_token (aec_agent_conf_path config) fs1 = (Inr (), fs')" "nf_faults fs' = []"
    using rewrite_conf_succeeds w(2) assms(6,7) by blast
  then show ?thesis using w assms(3) by (simp add: agent_complete_enrollment_def sbind_def slift_def stry_def)
qed

lemma response_str_Inr: "response_str kvs key = Inr v \<longleftrightarrow> map_of kvs (str key) = Some (JStr v) \<and> v \<noteq> []"
  by (auto simp: response_str_def split: option.splits json.splits)

lemma response_int_Inr: "response_int kvs key = Inr v \<longleftrightarrow> map_of kvs (str key) = Some (JInt v)"
  by (auto simp: response_int_def split: option.splits json.splits)

lemma response_identity_fields:
  assumes "response_identity payload (JObj kvs) = Inr d"
  shows "ai_private_key_pem d = aep_private_key_pem payload \<and>
    map_of kvs (str ''agent_id'') = Some (JStr (ai_agent_id d)) \<and>
    map_of kvs (str ''agent_x509_cert'') = Some (JStr (ai_agent_x509_cert d)) \<and>
    map_of kvs (str ''tunnel_ca_bundle'') = Some (JStr (ai_tunnel_ca_bundle d)) \<and>
    map_of kvs (str ''tunnel_host'') = Some (JStr (ai_tunnel_host d)) \<and>
    map_of kvs (str ''tunnel_port'') = Some (JInt (ai_tunnel_port d)) \<and>
    map_of kvs (str ''tunnel_secret'') = Some (JStr (ai_tunnel_secret d))"
  using assms by (auto simp: response_identity_def rbind_eq_Inr response_str_Inr response_int_Inr)

lemma response_identity_plain:
  assumes "response_identity payload (JObj kvs) = Inr d" "plain (JObj kvs)"
    and "list_all scalar (aep_private_key_pem payload)"
  shows "plain (identity_json d)"
proof -
  have "plain v" if "map_of kvs key = Some v" for key v
    using that assms(2) by (fastforce dest: map_of_SomeD)
  then have "plain (JStr (ai_agent_id d)) \<and> plain (JStr (ai_agent_x509_cert d)) \<and> plain (JStr (ai_tunnel_ca_bundle d)) \<and>
      plain (JStr (ai_tunnel_host d)) \<and> plain (JStr (ai_tunnel_secret d))"
    using response_identity_fields [OF assms(1)] by blast
  then show ?thesis
    using response_identity_fields [OF assms(1)] assms(3) by (simp add: identity_json_def str_def scalar_def)
qed

lemma stored_identity:
  assumes "distinct [aec_identity_path config, aec_agent_conf_path config,
      identity_temp (aec_identity_path config) random, conf_temp (aec_agent_conf_path config)]"
    and "agent_complete_enrollment random config payload (JObj response) fs = (Inr u, fs')"
    and "plain (JObj response)" "list_all scalar (aep_private_key_pem payload)" "nf_faults fs' = []"
  shows "\<exists>kvs. load_identity (aec_identity_path config) fs' = (Inr kvs, fs') \<and>
    map_of kvs (str ''private_key'') = Some (JStr (aep_private_key_pem payload)) \<and>
    (\<forall>key \<in> set (map str [''agent_id'', ''agent_x509_cert'', ''tunnel_ca_bundle'', ''tunnel_host'', ''tunnel_port'', ''tunnel_secret'']).
       map_of kvs key = map_of response key \<and> map_of response key \<noteq> None)"
proof (rule agent_complete_Inr [OF assms(1,2)])
  fix d ls b
  assume d: "response_identity payload (JObj response) = Inr d"
    and f: "nf_files fs' = (nf_files fs)(identity_temp (aec_identity_path config) random := None,
         aec_identity_path config \<mapsto> \<lparr>nf_content = identity_bytes d, nf_mode = MODE_600\<rparr>,
         conf_temp (aec_agent_conf_path config) := None,
         aec_agent_conf_path config \<mapsto> \<lparr>nf_content = b, nf_mode = MODE_600\<rparr>)"
  note fields = response_identity_fields [OF d]
  have i: "nf_files fs' (aec_identity_path config) = Some \<lparr>nf_content = identity_bytes d, nf_mode = MODE_600\<rparr>"
    using f assms(1) by auto
  show ?thesis
    by (rule load_identity_written [OF assms(5) response_identity_plain [OF d assms(3,4)] i])
      (use fields in \<open>simp add: identity_json_def str_def\<close>)
qed

section \<open>Properties\<close>


definition sample_enroll_config :: AgentEnrollmentConfig where
  "sample_enroll_config = \<lparr>aec_node_name = str ''web-1'', aec_token = str ''t'', aec_api_url = str ''https://h/enroll'',
     aec_enrollment_tls_ca_bundle = str ''/ca'', aec_expected_node_ssh_host_public_key = str ''ssh-ed25519 A'',
     aec_identity_path = str ''/v/i'', aec_agent_conf_path = str ''/e/a'',
     aec_proxy_target_host = str ''127.0.0.1'', aec_proxy_target_port = 22\<rparr>"

definition sample_payload :: AgentEnrollmentPayload where
  "sample_payload = \<lparr>aep_node_name = str ''web-1'', aep_token = str ''t'', aep_agent_x509_public_key = str ''P'',
     aep_node_ssh_host_public_key = str ''ssh-ed25519 A'', aep_private_key_pem = str ''K''\<rparr>"

definition sample_response :: json where
  "sample_response = JObj [(str ''agent_id'', JStr (str ''a'')), (str ''agent_x509_cert'', JStr (str ''c'')),
     (str ''tunnel_ca_bundle'', JStr (str ''b'')), (str ''tunnel_host'', JStr (str ''h'')),
     (str ''tunnel_port'', JInt 1), (str ''tunnel_secret'', JStr (str ''s''))]"

definition sample_node_fs :: node_fs where
  "sample_node_fs = \<lparr>nf_files = [str ''/e/a'' \<mapsto> \<lparr>nf_content = ascii_bytes (str ''[e]'' @ 10 # str ''token=t'' @ [10]), nf_mode = MODE_600\<rparr>],
     nf_dirs = Map.empty, nf_default_mode = MODE_600, nf_faults = []\<rparr>"

lemma sample_distinct:
  "distinct [aec_identity_path sample_enroll_config, aec_agent_conf_path sample_enroll_config,
     identity_temp (aec_identity_path sample_enroll_config) (str ''r''), conf_temp (aec_agent_conf_path sample_enroll_config)]"
  by code_simp

lemma sample_completes_with:
  assumes "response_identity payload response = Inr d"
  shows "\<exists>fs'. agent_complete_enrollment (str ''r'') sample_enroll_config payload response sample_node_fs = (Inr (), fs') \<and>
     nf_faults fs' = []"
proof -
  let ?t = "str ''[e]'' @ 10 # str ''token=t'' @ [10]" and ?ls = "[str ''[e]'', str ''token=t'']"
  have t: "ascii ?t \<and> splitlines (universal_newlines ?t) = ?ls"
    by (simp add: ascii_def str_def splitlines_def line_break_def)
  have f: "filter (\<lambda>l. \<not> token_line l) ?ls = [str ''[e]''] \<and> ascii (join [10] [str ''[e]''] @ [10])"
    by (simp add: token_line_def strip_def rstrip_def lstrip_def isspace_def lower_def lower_cp_def startswith_def str_def ascii_def)
  have "conf_lines sample_node_fs (aec_agent_conf_path sample_enroll_config) = Some ?ls"
    using t by (simp add: conf_lines_def sample_node_fs_def sample_enroll_config_def utf8_decode_ascii)
  moreover have "\<exists>l \<in> set ?ls. token_line l"
    using f by (metis filter_True not_Cons_self2 list.inject)
  moreover have "utf8_encode (join [10] (filter (\<lambda>l. \<not> token_line l) ?ls) @ [10]) \<noteq> None"
    using f utf8_encode_ascii by simp
  moreover have "nf_files sample_node_fs (identity_temp (aec_identity_path sample_enroll_config) (str ''r'')) = None" by code_simp
  moreover have "nf_faults sample_node_fs = []" by (simp add: sample_node_fs_def)
  ultimately show ?thesis using complete_succeeds [OF sample_distinct] assms by blast
qed

lemma sample_completes:
  "\<exists>fs'. agent_complete_enrollment (str ''r'') sample_enroll_config sample_payload sample_response sample_node_fs = (Inr (), fs') \<and>
     nf_faults fs' = []"
proof -
  have "response_identity sample_payload sample_response \<noteq> Inl e" for e by code_simp
  then show ?thesis
    using sample_completes_with by (cases "response_identity sample_payload sample_response") auto
qed


text \<open>What a successful enrollment wrote is what the tunnel mode reads: after \<open>complete_enrollment\<close>,
  \<open>_load_identity\<close> finds all seven keys, with the values of the server's response and the private key
  that belongs to the public key that was sent.\<close>

theorem enrolled_identity_loads:
  assumes "distinct [aec_identity_path config, aec_agent_conf_path config,
      identity_temp (aec_identity_path config) random, conf_temp (aec_agent_conf_path config)]"
    and "agent_complete_enrollment random config payload (JObj response) fs = (Inr u, fs')"
    and "plain (JObj response)" "list_all scalar (aep_private_key_pem payload)" "nf_faults fs' = []"
  shows "\<exists>kvs. load_identity (aec_identity_path config) fs' = (Inr kvs, fs') \<and>
    map_of kvs (str ''private_key'') = Some (JStr (aep_private_key_pem payload)) \<and>
    (\<forall>key \<in> set (map str [''agent_id'', ''agent_x509_cert'', ''tunnel_ca_bundle'', ''tunnel_host'', ''tunnel_port'', ''tunnel_secret'']).
       map_of kvs key = map_of response key \<and> map_of response key \<noteq> None)"
  using assms by (rule stored_identity)

theorem enrolled_identity_loads_witness:
  "\<exists>fs' kvs. load_identity (str ''/v/i'') fs' = (Inr kvs, fs') \<and> map_of kvs (str ''tunnel_port'') = Some (JInt 1)"
proof -
  obtain fs' where r: "agent_complete_enrollment (str ''r'') sample_enroll_config sample_payload sample_response sample_node_fs = (Inr (), fs')"
    "nf_faults fs' = []"
    using sample_completes by blast
  have p: "plain sample_response \<and> list_all scalar (aep_private_key_pem sample_payload)"
    by (simp add: sample_response_def sample_payload_def str_def scalar_def)
  obtain kvs where "load_identity (aec_identity_path sample_enroll_config) fs' = (Inr kvs, fs')"
    "map_of kvs (str ''tunnel_port'') = Some (JInt 1)"
    using enrolled_identity_loads [OF sample_distinct r(1) [unfolded sample_response_def]] p r(2)
    by (auto simp: sample_response_def str_def)
  then show ?thesis by (auto simp: sample_enroll_config_def)
qed

section \<open>The classes of exceptions\<close>

text \<open>
  What the \<open>except\<close> clause of the agent's \<open>main\<close> catches.  \<open>typed X r\<close>: what \<open>r\<close> raises is caught, or is one of
  the exceptions in \<open>X\<close>.
\<close>

definition handled :: "exc \<Rightarrow> bool" where
  "handled e \<longleftrightarrow> is_client_error e \<or> is_os_error e \<or> is_runtime_error e \<or> is_value_error e"

lemma handled_classes [simp]:
  "handled (ConfigError m)" "handled (AgentEnrollmentError m)" "handled (AgentTunnelError m)" "handled (ValueError m)"
  "handled (OSError m)" "handled (FileNotFoundError m)" "handled (IdentifierError m)" "handled (TunnelProtocolError m)"
  by (simp_all add: handled_def)

definition typed :: "exc set \<Rightarrow> 'a result \<Rightarrow> bool" where
  "typed X r \<longleftrightarrow> (\<forall>e. r = Inl e \<longrightarrow> handled e \<or> e \<in> X)"

definition typed_op :: "exc set \<Rightarrow> ('s, 'a) op \<Rightarrow> bool" where
  "typed_op X m \<longleftrightarrow> (\<forall>s. typed X (fst (m s)))"

named_theorems typed_intros "operations that raise handled exceptions only, by their structure"

lemma typed_basic [typed_intros]:
  "typed X (Inr x)" "handled e \<Longrightarrow> typed X (Inl e)" "handled e \<Longrightarrow> typed X (require b e)"
  by (auto simp: typed_def require_def split: if_splits)

lemma typed_rbind [typed_intros]: "typed X r \<Longrightarrow> (\<And>x. typed X (k x)) \<Longrightarrow> typed X (rbind r k)"
  by (cases r) (auto simp: typed_def)

lemma typed_op_basic [typed_intros]:
  "typed_op X (sret x)" "handled e \<Longrightarrow> typed_op X (sraise e)" "typed_op X (sget f)" "handled e \<Longrightarrow> typed_op X (srequire b e)"
  "typed X r \<Longrightarrow> typed_op X (slift r)"
  by (auto simp: typed_op_def slift_def sraise_def typed_def require_def split: if_splits)

lemma typed_op_sbind [typed_intros]: "typed_op X m \<Longrightarrow> (\<And>x. typed_op X (k x)) \<Longrightarrow> typed_op X (sbind m k)"
  unfolding typed_op_def typed_def sbind_def by (auto split: prod.splits sum.splits) (metis fst_conv)+

lemma typed_op_stry [typed_intros]:
  "typed_op X m \<Longrightarrow> (\<And>e. handled e \<or> e \<in> X \<Longrightarrow> typed_op X (h e)) \<Longrightarrow> typed_op X (stry m p h)"
  unfolding typed_op_def typed_def stry_def by (auto split: prod.splits sum.splits if_splits) (metis fst_conv)+

lemma typed_op_again [typed_intros]: "handled e \<or> e \<in> X \<Longrightarrow> typed_op X (sraise e)"
  by (auto simp: typed_op_def sraise_def typed_def)

lemma typed_op_nio [typed_intros]: "typed_op X (nio f)"
  by (auto simp: typed_op_def typed_def nio_def split: list.splits bool.splits)

lemma typed_op_unlink [typed_intros]: "typed_op X (unlink_quietly path)"
  using typed_op_nio by (auto simp: typed_op_def unlink_quietly_def typed_def)

lemma typed_require_config_value [typed_intros]: "typed X (require_config_value s k l)"
  by (auto simp: require_config_value_def intro!: typed_intros split: option.split)

lemma typed_config_section [typed_intros]: "typed X (config_section conf name)"
  by (auto simp: config_section_def intro!: typed_intros split: option.split)

lemma typed_py_int [typed_intros]: "typed X (py_int t)"
  by (auto simp: py_int_def Let_def intro!: typed_intros split: option.split)

lemma typed_proxy_host_port [typed_intros]: "typed X (proxy_host_port v)"
  by (auto simp: proxy_host_port_def intro!: typed_intros split: option.split)

lemma typed_validate_node_name [typed_intros]: "typed X (validate_node_name n)"
  by (auto simp: validate_node_name_def intro!: typed_intros)

lemma typed_response_identity [typed_intros]: "typed X (response_identity payload response)"
proof -
  have "typed X (response_str kvs key)" for kvs key
    by (auto simp: response_str_def intro!: typed_intros split: option.split json.split)
  moreover have "typed X (response_int kvs key)" for kvs key
    by (auto simp: response_int_def intro!: typed_intros split: option.split json.split)
  ultimately show ?thesis
    by (auto simp: response_identity_def intro!: typed_intros split: json.split)
qed

text \<open>The exceptions of the libraries: parsing \<open>agent.conf\<close>, \<open>Path\<close>, \<open>ssh-keyscan\<close>, the TLS context and the
  HTTP exchange.\<close>

definition library_errors :: "enroll_env \<Rightarrow> ini_file option result \<Rightarrow> exc set" where
  "library_errors env parsed = {e. parsed = Inl e \<or> (\<exists>p. ee_to_path env p = Inl e) \<or> (\<exists>h p. ee_keyscan env h p = Inl e) \<or>
     (\<exists>p. ee_tls_context env p = Inl e) \<or> (\<exists>u j. ee_post env u j = Inl e) \<or>
     (\<exists>u j status. ee_post env u j = Inr (status, Inl e))}"

lemma typed_libraries [typed_intros]:
  "typed (library_errors env parsed) parsed" "typed (library_errors env parsed) (ee_to_path env p)"
  "typed (library_errors env parsed) (ee_keyscan env h n)" "typed (library_errors env parsed) (ee_tls_context env p)"
  "typed (library_errors env parsed) (ee_post env u j)"
  by (auto simp: typed_def library_errors_def)

lemma typed_load_enrollment_config:
  "typed (library_errors env parsed) (load_enrollment_config (ee_to_path env) path parsed)"
  unfolding load_enrollment_config_def
  by (intro typed_intros) (auto intro!: typed_intros split: option.split prod.split)

lemma typed_rbind_eq: "typed X r \<Longrightarrow> (\<And>x. r = Inr x \<Longrightarrow> typed X (k x)) \<Longrightarrow> typed X (rbind r k)"
  by (cases r) (auto simp: typed_def)

lemma typed_enroll_exchange: "typed (library_errors env parsed) (enroll_exchange env config)"
proof -
  have scan: "typed (library_errors env parsed) (run_ssh_keyscan (ee_keyscan env) h p)" for h p
    unfolding run_ssh_keyscan_def
    by (intro typed_intros) (auto intro!: typed_intros split: option.split)
  have key: "typed (library_errors env parsed) (host_key_from_keyscan s)" for s
    by (auto simp: host_key_from_keyscan_def Let_def intro!: typed_intros split: option.split)
  have post: "typed (library_errors env parsed) (rbind (ee_post env u j) (\<lambda>(status, body).
      rbind (require (status = 200) (AgentEnrollmentError m)) (\<lambda>_. rbind body k)))"
    if "\<And>x. typed (library_errors env parsed) (k x)" for u j m k
  proof (intro typed_rbind_eq)
    fix x assume x: "ee_post env u j = Inr x"
    obtain status body where b: "x = (status, body)" by force
    then have "typed (library_errors env parsed) body" using x by (auto simp: typed_def library_errors_def)
    then show "typed (library_errors env parsed) (case x of (status, body) \<Rightarrow>
        rbind (require (status = 200) (AgentEnrollmentError m)) (\<lambda>_. rbind body k))"
      using that by (auto simp: b intro!: typed_intros)
  qed (rule typed_intros)
  show ?thesis
    unfolding enroll_exchange_def build_enrollment_payload_def require_enrollment_tls_context_def
    by (intro typed_intros scan key post) (auto intro!: typed_intros)
qed

lemma typed_complete: "typed_op X (agent_complete_enrollment random config payload response)"
  unfolding agent_complete_enrollment_def write_identity_json_def rewrite_agent_conf_without_token_def mkstemp_def
    node_read_def node_write_text_def Let_def
  by (intro typed_intros) (auto intro!: typed_intros split: option.split)

lemma typed_run_enroll: "typed_op (library_errors env parsed) (run_enroll env path parsed)"
  unfolding run_enroll_def
  by (intro typed_intros typed_load_enrollment_config typed_enroll_exchange)
    (auto intro: typed_complete split: prod.split)

text \<open>C40: how the \<open>enroll\<close> command ends.  It ends with status 0 when the enrollment completed and with status 1
  when an exception was raised that \<open>main\<close> catches.  An exception that leaves \<open>main\<close> was raised by one of
  the libraries and has none of the caught classes: all exceptions of the agent's own code are caught.  A
  configuration file that cannot be parsed is such a case: \<open>configparser.Error\<close> is not caught, and the
  command ends in a traceback before it has done anything.\<close>

theorem enroll_exit_status:
  "(case agent_main AgentEnroll (fst (run_enroll env path parsed fs)) of
      Inr status \<Rightarrow> status = (if fst (run_enroll env path parsed fs) = Inr () then 0 else 1)
    | Inl e \<Rightarrow> \<not> handled e \<and> e \<in> library_errors env parsed \<and> fst (run_enroll env path parsed fs) = Inl e) \<and>
   (\<forall>m. parsed = Inl (ConfigParserError m) \<longrightarrow>
      agent_main AgentEnroll (fst (run_enroll env path parsed fs)) = Inl (ConfigParserError m) \<and>
      snd (run_enroll env path parsed fs) = fs)"
proof (intro conjI allI impI)
  have t: "typed (library_errors env parsed) (fst (run_enroll env path parsed fs))"
    using typed_run_enroll by (auto simp: typed_op_def)
  then show "case agent_main AgentEnroll (fst (run_enroll env path parsed fs)) of
      Inr status \<Rightarrow> status = (if fst (run_enroll env path parsed fs) = Inr () then 0 else 1)
    | Inl e \<Rightarrow> \<not> handled e \<and> e \<in> library_errors env parsed \<and> fst (run_enroll env path parsed fs) = Inl e"
    by (cases "fst (run_enroll env path parsed fs)") (auto simp: agent_main_def typed_def handled_def)
next
  fix m assume p: "parsed = Inl (ConfigParserError m)"
  show "agent_main AgentEnroll (fst (run_enroll env path parsed fs)) = Inl (ConfigParserError m)"
    "snd (run_enroll env path parsed fs) = fs"
    by (simp_all add: p run_enroll_def load_enrollment_config_def sbind_def slift_def agent_main_def)
qed

theorem enroll_exit_status_witness:
  "agent_main AgentEnroll (fst (run_enroll
     \<lparr>ee_to_path = Inr, ee_keyscan = (\<lambda>h p. Inl (OSError [])), ee_keys = ([], []), ee_tls_context = (\<lambda>p. Inr True),
      ee_post = (\<lambda>u j. Inl (OSError [])), ee_random = []\<rparr> [] (Inl (ConfigParserError [])) sample_node_fs)) =
     Inl (ConfigParserError [])"
  using enroll_exit_status [where parsed = "Inl (ConfigParserError [])"] by blast

end
