(* ===== verification/Agent_Lifecycle.thy ===== *)
theory Agent_Lifecycle
  imports End_To_End Enrollment_Service Config_Facts Agent_Enrollment_Facts
begin

text \<open>
  The two halves of an agent's life put together: \<open>agent/main.py enroll\<close> against the server's
  \<open>POST /enroll\<close>, then \<open>agent/main.py run\<close> against the server's tunnel handshake.  The X.509 library is
  arguments: \<open>pem_of\<close> and \<open>load_cert\<close> print and load a certificate, \<open>key_pem\<close> prints a public key,
  and \<open>load_der\<close> loads the certificate that TLS has verified.
\<close>

section \<open>What the server stored\<close>

lemma find_distinct_key: "distinct (map f xs) \<Longrightarrow> x \<in> set xs \<Longrightarrow> find (\<lambda>y. f y = f x) xs = Some x"
  by (induction xs) (auto simp: image_iff)

lemma persisted_row:
  assumes "pg_persist_agent c a db = (Inr u, t)"
  shows "\<exists>row \<in> set (db_agents t). ag_id row = sa_agent_id a \<and> ag_node_name row = sa_node_name a \<and>
    ag_x509_public_key row = sa_x509_public_key a \<and> ag_tunnel_secret_hash row = sa_tunnel_secret_hash a \<and>
    ag_cert_serial row = sa_cert_serial a \<and> instant (ag_cert_expires_at row) = instant (sa_cert_expires_at a) \<and>
    ag_revoked_at row = None"
  using assms by (auto simp: pg_persist_agent_def exc_elims)

lemma enrolled_record:
  assumes "pg_service deps" "pg_tokens_inv (st_store st)" "enroll deps cn fr q now st = (Inr resp, st')"
  obtains r where "pg_get_agent (st_store st') (es_agent_id resp) = Some r" "tr_revoked_at r = None"
    "tr_node_name r = er_node_name q" "py_fullmatch NODE_NAME_PATTERN (er_node_name q)"
    "tr_x509_public_key r = er_agent_x509_public_key q"
    "tr_cert_serial r = hex_of (x_serial (es_agent_x509_cert resp))"
    "sha256_hex (es_tunnel_secret resp) = Inr (tr_tunnel_secret_hash r)"
    "instant (tr_cert_expires_at r) = instant now + days 90"
    "instant (x_not_before (es_agent_x509_cert resp)) = instant now"
    "instant (x_not_after (es_agent_x509_cert resp)) = instant now + days 90"
    "load_agent_public_key (ed_load_pem deps) (er_agent_x509_public_key q) =
       Inr (x_public_key (es_agent_x509_cert resp))"
    "es_agent_id resp = fr_agent_id fr" "es_tunnel_secret resp = fr_tunnel_secret fr"
    "x_serial (es_agent_x509_cert resp) = fr_serial fr"
    "es_tunnel_host resp = ed_tunnel_host deps" "es_tunnel_port resp = ed_tunnel_port deps"
    "es_tunnel_ca_bundle resp = ed_tunnel_ca_bundle deps"
proof -
  have t: "try_enroll deps fr q (as_utc now) st = (Inr resp, st')" using assms(3) by (simp add: enroll_Inr)
  obtain n h where n: "request_identity q = Inr (n, h)"
    "complete_enrollment deps fr q (as_utc now) n h (st_store st) = (Inr resp, st_store st')"
    using t by (rule try_enroll_Inr)
  have name: "n = er_node_name q" "py_fullmatch NODE_NAME_PATTERN n" using n(1) by (auto simp: request_identity_Inr)
  obtain rec d key cert sh e where c:
    "ed_consume deps h n (as_utc now) (st_store st) = (Inr (Some rec), d)"
    "load_agent_public_key (ed_load_pem deps) (er_agent_x509_public_key q) = Inr key"
    "issue_agent_client_certificate (ed_issuer deps) key n (uuid_text (fr_agent_id fr)) (fr_serial fr)
       (as_utc now) AGENT_CERT_DEFAULT_LIFETIME_DAYS = Inr cert"
    "sha256_hex (fr_tunnel_secret fr) = Inr sh"
    "ed_persist deps (fr_now fr)
       \<lparr>sa_agent_id = fr_agent_id fr, sa_node_name = n, sa_labels = et_labels rec,
        sa_x509_public_key = er_agent_x509_public_key q,
        sa_node_ssh_host_public_key = et_node_ssh_host_public_key rec,
        sa_tunnel_secret_hash = sh, sa_cert_serial = iac_serial cert,
        sa_cert_expires_at = iac_expires_at cert\<rparr> d = (Inr (), e)"
    "\<exists>req. write_audit deps req e = (Inr (), st_store st')"
    "es_agent_id resp = fr_agent_id fr" "es_tunnel_secret resp = fr_tunnel_secret fr"
    "es_agent_x509_cert resp = iac_certificate cert"
    using n(2) by (rule complete_Inr)
  obtain f where f: "ed_consume deps = pg_consume_enrollment_token f"
    using assms(1) by (auto simp: pg_service_def)
  note cs = ptok.consume_some [OF assms(2) aware_as_utc c(1) [unfolded f]]
  have p: "pg_persist_agent (fr_now fr)
       \<lparr>sa_agent_id = fr_agent_id fr, sa_node_name = n, sa_labels = et_labels rec,
        sa_x509_public_key = er_agent_x509_public_key q,
        sa_node_ssh_host_public_key = et_node_ssh_host_public_key rec,
        sa_tunnel_secret_hash = sh, sa_cert_serial = iac_serial cert,
        sa_cert_expires_at = iac_expires_at cert\<rparr> d = (Inr (), e)"
    using c(5) assms(1) by (simp add: pg_service_def)
  have inv: "pg_tokens_inv e" using pg_persist_ok [OF _ p] cs by simp
  then have ea: "db_agents (st_store st') = db_agents e" "pg_tokens_inv (st_store st')"
    using c(6) write_audit_frame [OF assms(1)] by blast+
  obtain row where row: "row \<in> set (db_agents e)" "ag_id row = fr_agent_id fr" "ag_node_name row = n"
    "ag_x509_public_key row = er_agent_x509_public_key q" "ag_tunnel_secret_hash row = sh"
    "ag_cert_serial row = iac_serial cert" "instant (ag_cert_expires_at row) = instant (iac_expires_at cert)"
    "ag_revoked_at row = None"
    using persisted_row [OF p] by auto
  have "distinct (map ag_id (db_agents (st_store st')))"
    using ea(2) by (simp add: pg_tokens_inv_def wf_db_def agents_ok_def)
  then have "agent_by_id (st_store st') (fr_agent_id fr) = Some row"
    using find_distinct_key [of ag_id "db_agents (st_store st')" row] row(1,2) ea(1) by (simp add: agent_by_id_def)
  then have g: "pg_get_agent (st_store st') (es_agent_id resp) = Some (record_of_row row)"
    by (simp add: pg_get_agent_def c(7))
  have hp: "es_tunnel_host resp = ed_tunnel_host deps" "es_tunnel_port resp = ed_tunnel_port deps"
    "es_tunnel_ca_bundle resp = ed_tunnel_ca_bundle deps"
    using n(2) unfolding complete_enrollment_def by (auto simp: exc_elims split: option.splits)
  note w = issue_agent_window [OF c(3)]
  have ser: "iac_serial cert = hex_of (x_serial (iac_certificate cert))" "x_serial (iac_certificate cert) = fr_serial fr"
    "x_public_key (iac_certificate cert) = key"
    using c(3) by (auto simp: issue_agent_client_certificate_def Let_def exc_elims split: if_splits)
  show ?thesis
    by (rule that [OF g])
      (use row name c w ser hp in \<open>auto simp: record_of_row_def AGENT_CERT_DEFAULT_LIFETIME_DAYS_def\<close>)
qed

section \<open>From enrollment to the tunnel\<close>

text \<open>The certificate that TLS shows the server.\<close>

definition tls_view :: "(bytes \<Rightarrow> pystr) \<Rightarrow> x509_cert \<Rightarrow> peer_cert" where
  "tls_view key_pem c = \<lparr>pc_not_before = x_not_before c, pc_not_after = x_not_after c, pc_serial = x_serial c,
     pc_public_key_pem = key_pem (x_public_key c)\<rparr>"

lemma handler_enrolls:
  assumes "enroll_handler deps cn text_of pem_of fr (payload_json payload) remote now st = (Inr (200, body), st')"
  obtains q resp where "enroll deps cn fr q now st = (Inr resp, st')" "body = response_json pem_of resp"
    "er_node_name q = aep_node_name payload" "er_agent_x509_public_key q = aep_agent_x509_public_key payload"
  using assms
  by (auto simp: enroll_handler_def payload_json_def stry_def sbind_def body_field_def str_def
      split: prod.splits sum.splits if_splits)

lemma node_name_scalar: "py_fullmatch NODE_NAME_PATTERN n \<Longrightarrow> n \<noteq> [] \<and> list_all scalar n"
  using valid_node_name_chars [of n]
  by (auto simp: list_all_iff node_char_def is_alnum_cp_def scalar_def str_def)

lemma response_plain:
  assumes "list_all scalar (pem_of (es_agent_x509_cert resp))" "list_all scalar (es_tunnel_ca_bundle resp)"
    "list_all scalar (es_tunnel_host resp)" "list_all scalar (reveal (es_tunnel_secret resp))"
  shows "plain (response_json pem_of resp)"
proof -
  have "list_all scalar (uuid_text a)" for a
    using uuid_text_chars by (fastforce simp: list_all_iff scalar_def)
  with assms show ?thesis by (simp add: response_json_def str_def scalar_def)
qed

lemma identity_text_str: "map_of kvs (str key) = Some (JStr s) \<Longrightarrow> identity_text text_of kvs key = s"
  by (simp add: identity_text_def)

text \<open>What the tunnel mode begins with, once the identity is read.\<close>

lemma tunnel_once_begins:
  assumes "load_identity (acfg_identity_path acfg) fs = (Inr kvs, fs)"
    "map_of kvs (str ''agent_id'') = Some (JStr (uuid_text a))" "map_of kvs (str ''private_key'') = Some (JStr key)"
    "map_of kvs (str ''agent_x509_cert'') = Some (JStr cert)" "map_of kvs (str ''tunnel_host'') = Some (JStr host)"
    "map_of kvs (str ''tunnel_port'') = Some (JInt (int port))" "map_of kvs (str ''tunnel_secret'') = Some (JStr sec)"
    "validate_proxy_target (acfg_proxy_target_host acfg) (acfg_proxy_target_port acfg) = Inr target"
    "tls_context (acfg_tunnel_tls_ca_bundle acfg) = Inr True" "load_chain cert key = Inr ()" "port \<le> 65535"
    "load_cert cert = Inr (sn, pk)" "conf (str ''enrollment'') = Some enr" "enr (str ''node_name'') = Some n" "n \<noteq> []"
    "int (length (dumps_bytes (auth_payload (uuid_text a) n sn pk sec))) \<le> DEFAULT_FRAME_MAX_BYTES"
  shows "\<exists>b. tunnel_once_begin text_of load_cert tls_context load_chain (Inr (Some conf)) acfg fs =
       (Inr (target, host, int port, b), fs) \<and> auth_frame (uuid_text a) (Some n) sn pk sec = Inr b"
proof -
  let ?p = "dumps_bytes (auth_payload (uuid_text a) n sn pk sec)"
  have "int (length ?p) < 10 ^ 100" using assms(16) by (simp add: DEFAULT_FRAME_MAX_BYTES_def)
  then have "length ?p < 10 ^ 100" by simp
  then obtain b where "encode_frame AUTH (str ''agent-auth'') None ?p DEFAULT_FRAME_MAX_BYTES = Inr b"
    using encode_frame_accepts [of "str ''agent-auth''" None DEFAULT_FRAME_MAX_BYTES ?p AUTH] assms(16)
    by (auto simp: DEFAULT_FRAME_MAX_BYTES_def opt_length_def)
  then have b: "auth_frame (uuid_text a) (Some n) sn pk sec = Inr b" using assms(15) by (simp add: auth_frame_def)
  have "py_int (show_int (int port)) = Inr (int port)"
    using py_int_digits [OF small_digits, of port] assms(11) by (simp add: show_int_def)
  then have "identity_text text_of kvs ''tunnel_port'' = show_int (int port)"
    "py_int (identity_text text_of kvs ''tunnel_port'') = Inr (int port)"
    using assms(6) by (simp_all add: identity_text_def)
  then show ?thesis
    using assms b by (simp add: tunnel_once_begin_def sbind_def slift_def identity_text_str require_tunnel_tls_context_def
        identity_auth_frame_def config_section_def)
qed

text \<open>C1: an agent that has enrolled gets in.  Let both sides complete an enrollment: the server answers
  200 to the agent's request and the agent stores the answer.  Then the tunnel mode, run on what is on the
  agent's disk, connects to the host and port the server sent, with the issued certificate, and writes a first
  frame with which the server's handshake succeeds at any time within the 90 days of the certificate, for
  the record of this very agent and the binding the server takes from that certificate.\<close>

theorem enrolled_agent_gets_in:
  assumes server: "pg_service deps" "pg_tokens_inv (st_store st)"
      "enroll_handler deps cn text_of pem_of fr (payload_json payload) remote now st = (Inr (200, body), st')"
      "fr_agent_id fr < 2 ^ 128" "43 \<le> length (reveal (fr_tunnel_secret fr))" "list_all scalar (reveal (fr_tunnel_secret fr))"
      "ed_tunnel_port deps = int port" "port \<le> 65535"
      "list_all scalar (ed_tunnel_host deps)" "list_all scalar (ed_tunnel_ca_bundle deps)"
    and agent: "distinct [aec_identity_path config, aec_agent_conf_path config,
        identity_temp (aec_identity_path config) random, conf_temp (aec_agent_conf_path config)]"
      "agent_complete_enrollment random config payload body fs = (Inr u, fs')" "nf_faults fs' = []"
      "list_all scalar (aep_private_key_pem payload)"
      "acfg_identity_path acfg = aec_identity_path config"
      "validate_proxy_target (acfg_proxy_target_host acfg) (acfg_proxy_target_port acfg) = Inr target"
      "tls_context (acfg_tunnel_tls_ca_bundle acfg) = Inr True"
      "conf (str ''enrollment'') = Some enr" "enr (str ''node_name'') = Some (aep_node_name payload)"
    and x509: "aep_agent_x509_public_key payload = key_pem k" "list_all scalar (key_pem k)"
      "ed_load_pem deps (key_pem k) = Inr (True, k)"
      "\<And>c. load_cert (pem_of c) = Inr (x_serial c, key_pem (x_public_key c))" "\<And>c. list_all scalar (pem_of c)"
      "\<And>c. x_public_key c = k \<Longrightarrow> load_chain (pem_of c) (aep_private_key_pem payload) = Inr ()"
    and limit: "int (length (dumps_bytes (auth_payload (uuid_text (fr_agent_id fr)) (aep_node_name payload)
        (fr_serial fr) (key_pem k) (reveal (fr_tunnel_secret fr))))) \<le> m" "0 < m" "m \<le> DEFAULT_FRAME_MAX_BYTES"
    and time: "instant now \<le> instant later" "instant later < instant now + days 90"
  shows "\<exists>c b peer r. tunnel_once_begin text_of' load_cert tls_context load_chain (Inr (Some conf)) acfg fs' =
      (Inr (target, ed_tunnel_host deps, ed_tunnel_port deps, b), fs') \<and>
    (\<exists>kvs. load_identity (acfg_identity_path acfg) fs' = (Inr kvs, fs') \<and>
       map_of kvs (str ''agent_x509_cert'') = Some (JStr (pem_of c))) \<and>
    (\<forall>load_der der. der \<noteq> [] \<and> load_der der = Inr (tls_view key_pem c) \<longrightarrow>
       peer_certificate_binding load_der (Some der) later = Inr peer) \<and>
    tr_agent_id r = fr_agent_id fr \<and> tr_node_name r = aep_node_name payload \<and>
    (\<forall>rest. tunnel_handshake text_of' peer later m (st_store st') (b @ rest) = (Inr (r, str ''agent-auth''), rest))"
proof (rule handler_enrolls [OF server(3)])
  fix q resp
  assume e: "enroll deps cn fr q now st = (Inr resp, st')" and body: "body = response_json pem_of resp"
    and q: "er_node_name q = aep_node_name payload" "er_agent_x509_public_key q = aep_agent_x509_public_key payload"
  show ?thesis
  proof (rule enrolled_record [OF server(1,2) e])
    fix r
    assume r: "pg_get_agent (st_store st') (es_agent_id resp) = Some r" "tr_revoked_at r = None"
      "tr_node_name r = er_node_name q" "py_fullmatch NODE_NAME_PATTERN (er_node_name q)"
      "tr_x509_public_key r = er_agent_x509_public_key q"
      "tr_cert_serial r = hex_of (x_serial (es_agent_x509_cert resp))"
      "sha256_hex (es_tunnel_secret resp) = Inr (tr_tunnel_secret_hash r)"
      "instant (tr_cert_expires_at r) = instant now + days 90"
      "instant (x_not_before (es_agent_x509_cert resp)) = instant now"
      "instant (x_not_after (es_agent_x509_cert resp)) = instant now + days 90"
      "load_agent_public_key (ed_load_pem deps) (er_agent_x509_public_key q) =
         Inr (x_public_key (es_agent_x509_cert resp))"
      "es_agent_id resp = fr_agent_id fr" "es_tunnel_secret resp = fr_tunnel_secret fr"
      "x_serial (es_agent_x509_cert resp) = fr_serial fr"
      "es_tunnel_host resp = ed_tunnel_host deps" "es_tunnel_port resp = ed_tunnel_port deps"
      "es_tunnel_ca_bundle resp = ed_tunnel_ca_bundle deps"
    let ?c = "es_agent_x509_cert resp" and ?n = "aep_node_name payload" and ?sec = "reveal (fr_tunnel_secret fr)"
    have key: "x_public_key ?c = k"
      using r(11) x509(1,3) q(2) by (auto simp: load_agent_public_key_def split: if_splits)
    have pl: "plain (response_json pem_of resp)"
      using response_plain [of pem_of resp] x509(5) server(6,9,10) r(13,15,17) by simp
    obtain kvs where kvs: "load_identity (aec_identity_path config) fs' = (Inr kvs, fs')"
      "map_of kvs (str ''private_key'') = Some (JStr (aep_private_key_pem payload))"
      "map_of kvs (str ''agent_id'') = Some (JStr (uuid_text (fr_agent_id fr)))"
      "map_of kvs (str ''agent_x509_cert'') = Some (JStr (pem_of ?c))"
      "map_of kvs (str ''tunnel_host'') = Some (JStr (ed_tunnel_host deps))"
      "map_of kvs (str ''tunnel_port'') = Some (JInt (int port))" "map_of kvs (str ''tunnel_secret'') = Some (JStr ?sec)"
      using stored_identity [OF agent(1) agent(2) [unfolded body response_json_def] pl [unfolded response_json_def] agent(4,3)]
        r(12,13,15,16) server(7) by (auto simp: str_def)
    obtain b where b: "tunnel_once_begin text_of' load_cert tls_context load_chain (Inr (Some conf)) acfg fs' =
        (Inr (target, ed_tunnel_host deps, int port, b), fs')"
      "auth_frame (uuid_text (fr_agent_id fr)) (Some ?n) (fr_serial fr) (key_pem k) ?sec = Inr b"
      using tunnel_once_begins [where load_chain = load_chain and load_cert = load_cert and tls_context = tls_context
          and conf = conf and enr = enr and acfg = acfg, OF kvs(1) [folded agent(5)] kvs(3,2,4,5,6,7) agent(6,7) x509(6) [OF key] server(8)
          x509(4) [of ?c, unfolded key r(14)] agent(8,9)] node_name_scalar [OF r(4)] limit(1,3) q(1) by auto
    let ?peer = "\<lparr>pb_cert_serial = hex_of (fr_serial fr), pb_cert_public_key = key_pem k\<rparr>"
    have peer: "peer_certificate_binding load_der (Some der) later = Inr ?peer"
      if "der \<noteq> []" "load_der der = Inr (tls_view key_pem ?c)" for load_der der
      using that time r(9,10,14) key by (simp add: peer_certificate_binding_def rewrap_def tls_view_def)
    have acc: "auth_accepted_record (st_store st') (fr_agent_id fr) ?n (fr_serial fr) (key_pem k) ?sec later r"
      using r q x509(1) server(5) time(2)
      by (cases "fr_tunnel_secret fr") (simp add: auth_accepted_record_def)
    have h: "tunnel_handshake text_of' ?peer later m (st_store st') (b @ rest) = (Inr (r, str ''agent-auth''), rest)" for rest
      by (rule agent_handshake [OF b(2) server(4) _ x509(2) server(6) limit(2,1) acc])
        (use node_name_scalar [OF r(4)] q(1) in simp_all)
    have "tr_agent_id r = fr_agent_id fr"
      using r(1,12) agent_by_idD by (fastforce simp: pg_get_agent_def record_of_row_def)
    then show ?thesis
      using b(1) peer h r(3) q(1) server(7) kvs(1,4) agent(5)
      by (intro exI [of _ ?c] exI [of _ b] exI [of _ ?peer] exI [of _ r]) auto
  qed
qed

section \<open>A concrete enrollment\<close>

definition sample_agent_payload :: AgentEnrollmentPayload where
  "sample_agent_payload = \<lparr>aep_node_name = [119], aep_token = sample_token, aep_agent_x509_public_key = [80],
     aep_node_ssh_host_public_key = sample_request_key, aep_private_key_pem = [75]\<rparr>"

definition sample_pem_of :: "x509_cert \<Rightarrow> pystr" where
  "sample_pem_of c = replicate (Suc (x_serial c)) 65"

definition sample_load_cert :: "pystr \<Rightarrow> (nat \<times> pystr) result" where
  "sample_load_cert t = Inr (length t - 1, [80])"

definition sample_run_config :: AgentConfig where
  "sample_run_config = \<lparr>acfg_config_path = str ''/e/a'', acfg_identity_path = str ''/v/i'',
     acfg_enrollment_token = None, acfg_enrollment_completed = True, acfg_enrollment_tls_ca_bundle = str ''/ca'',
     acfg_tunnel_tls_ca_bundle = str ''/ca'', acfg_proxy_target_host = str ''127.0.0.1'', acfg_proxy_target_port = 22,
     acfg_heartbeat_seconds = 15, acfg_reconnect_backoff_max_seconds = 60, acfg_max_reconnect_attempts = 0\<rparr>"

definition sample_conf :: ini_file where
  "sample_conf = [str ''enrollment'' \<mapsto> [str ''node_name'' \<mapsto> [119]]]"

lemma sample_request_enrolls:
  assumes "sha256_hex (Secret sample_token) = Inr h"
  shows "\<exists>resp st'. enroll_handler sample_deps (\<lambda>e. []) (\<lambda>j. []) sample_pem_of sample_fresh
      (payload_json sample_agent_payload) (Some [115]) (utc 0) \<lparr>st_store = token_db h, st_limiter = new_rate_limiter\<rparr> =
      (Inr (200, response_json sample_pem_of resp), st') \<and>
    es_tunnel_secret resp = Secret sample_token \<and> es_tunnel_host resp = [104] \<and> es_tunnel_ca_bundle resp = [98] \<and>
    es_tunnel_port resp = 4444"
proof -
  let ?st = "\<lparr>st_store = token_db h, st_limiter = new_rate_limiter\<rparr>"
  obtain resp st' where e: "enroll sample_deps (\<lambda>e. []) sample_fresh sample_enrollment (utc 0) ?st = (Inr resp, st')"
    using sample_enrolls [OF assms] by blast
  have inv: "pg_tokens_inv (st_store ?st)" by (simp add: token_db_inv)
  have q: "sample_enrollment = \<lparr>er_node_name = body_field (\<lambda>j. []) kvs ''node_name'', er_token = body_field (\<lambda>j. []) kvs ''token'',
      er_agent_x509_public_key = body_field (\<lambda>j. []) kvs ''agent_x509_public_key'',
      er_node_ssh_host_public_key = body_field (\<lambda>j. []) kvs ''node_ssh_host_public_key'', er_source_address = [115]\<rparr>"
    if "payload_json sample_agent_payload = JObj kvs" for kvs
    using that by (auto simp: sample_enrollment_def payload_json_def sample_agent_payload_def body_field_def str_def)
  obtain kvs where kvs: "payload_json sample_agent_payload = JObj kvs" by (simp add: payload_json_def)
  have h: "enroll_handler sample_deps (\<lambda>e. []) (\<lambda>j. []) sample_pem_of sample_fresh
      (payload_json sample_agent_payload) (Some [115]) (utc 0) ?st = (Inr (200, response_json sample_pem_of resp), st')"
    using e q [OF kvs] by (simp add: enroll_handler_def kvs stry_def sbind_def)
  show ?thesis
  proof (rule enrolled_record [OF sample_service inv e])
    assume "es_tunnel_secret resp = fr_tunnel_secret sample_fresh" "es_tunnel_host resp = ed_tunnel_host sample_deps"
      "es_tunnel_port resp = ed_tunnel_port sample_deps" "es_tunnel_ca_bundle resp = ed_tunnel_ca_bundle sample_deps"
    with h show ?thesis by (intro exI [of _ resp] exI [of _ st']) (simp add: sample_fresh_def sample_deps_def)
  qed
qed

lemma sample_auth_payload_length:
  "length (dumps_bytes (auth_payload (uuid_text 5) [119] 9 [80] sample_token)) \<le> 4000"
proof -
  have l: "length (uuid_text 5) = 36" by (simp add: uuid_text_def Let_def)
  have x: "hex_of 9 = [57]" by (simp add: hex_of.simps hex_char_def)
  show ?thesis
    using length_print_string [of "str ''agent_id''"] length_print_string [of "uuid_text 5"]
      length_print_string [of "str ''node_name''"] length_print_string [of "[119]"]
      length_print_string [of "str ''cert_serial''"] length_print_string [of "[57]"]
      length_print_string [of "str ''cert_public_key''"] length_print_string [of "[80]"]
      length_print_string [of "str ''tunnel_secret''"] length_print_string [of sample_token] l
    by (simp add: auth_payload_def dumps_bytes_def json_dumps_def str_def x sample_token_def)
qed

theorem enrolled_agent_gets_in_witness:
  "\<exists>fs b db peer r. tunnel_once_begin (\<lambda>j. []) sample_load_cert (\<lambda>p. Inr True) (\<lambda>c k. Inr ()) (Inr (Some sample_conf))
      sample_run_config fs = (Inr (\<lparr>px_host = str ''127.0.0.1'', px_port = 22\<rparr>, [104], 4444, b), fs) \<and>
    tr_node_name r = [119] \<and>
    tunnel_handshake (\<lambda>j. []) peer (utc 50) 4096 db b = (Inr (r, str ''agent-auth''), [])"
proof -
  obtain h where h: "sha256_hex (Secret sample_token) = Inr h" using sample_hash by blast
  let ?st = "\<lparr>st_store = token_db h, st_limiter = new_rate_limiter\<rparr>"
  obtain resp st' where e: "enroll_handler sample_deps (\<lambda>e. []) (\<lambda>j. []) sample_pem_of sample_fresh
      (payload_json sample_agent_payload) (Some [115]) (utc 0) ?st = (Inr (200, response_json sample_pem_of resp), st')"
    "es_tunnel_secret resp = Secret sample_token" "es_tunnel_host resp = [104]" "es_tunnel_ca_bundle resp = [98]"
    "es_tunnel_port resp = 4444"
    using sample_request_enrolls [OF h] by blast
  have "uuid_text a \<noteq> []" for a by (simp add: uuid_text_def Let_def)
  then obtain d where "response_identity sample_agent_payload (response_json sample_pem_of resp) = Inr d"
    using e(2-5) by (auto simp: response_identity_def response_json_def response_str_def response_int_def str_def
        sample_pem_of_def sample_token_def)
  then obtain fs' where f: "agent_complete_enrollment (str ''r'') sample_enroll_config sample_agent_payload
      (response_json sample_pem_of resp) sample_node_fs = (Inr (), fs')" "nf_faults fs' = []"
    using sample_completes_with by blast
  have inv: "pg_tokens_inv (st_store ?st)" by (simp add: token_db_inv)
  have "\<exists>c b peer r. tunnel_once_begin (\<lambda>j. []) sample_load_cert (\<lambda>p. Inr True) (\<lambda>c k. Inr ()) (Inr (Some sample_conf))
      sample_run_config fs' = (Inr (\<lparr>px_host = str ''127.0.0.1'', px_port = 22\<rparr>, ed_tunnel_host sample_deps, ed_tunnel_port sample_deps, b), fs') \<and>
    (\<exists>kvs. load_identity (acfg_identity_path sample_run_config) fs' = (Inr kvs, fs') \<and>
       map_of kvs (str ''agent_x509_cert'') = Some (JStr (sample_pem_of c))) \<and>
    (\<forall>load_der der. der \<noteq> [] \<and> load_der der = Inr (tls_view (\<lambda>k. [80]) c) \<longrightarrow>
       peer_certificate_binding load_der (Some der) (utc 50) = Inr peer) \<and>
    tr_agent_id r = fr_agent_id sample_fresh \<and> tr_node_name r = aep_node_name sample_agent_payload \<and>
    (\<forall>rest. tunnel_handshake (\<lambda>j. []) peer (utc 50) 4096 (st_store st') (b @ rest) = (Inr (r, str ''agent-auth''), rest))"
    by (rule enrolled_agent_gets_in [OF sample_service inv e(1) _ _ _ _ _ _ _ sample_distinct f, where port = 4444 and k = "[]"
          and enr = "[str ''node_name'' \<mapsto> [119]]"])
      (use sample_auth_payload_length in \<open>simp_all add: sample_fresh_def sample_deps_def sample_token_def sample_agent_payload_def
        sample_run_config_def sample_enroll_config_def sample_conf_def sample_load_cert_def sample_pem_of_def
        scalar_def list_all_iff validate_proxy_target_def startswith_def str_def DEFAULT_FRAME_MAX_BYTES_def instant_def utc_def days_def seconds_def\<close>)
  then obtain b peer r where t: "tunnel_once_begin (\<lambda>j. []) sample_load_cert (\<lambda>p. Inr True) (\<lambda>c k. Inr ()) (Inr (Some sample_conf))
      sample_run_config fs' = (Inr (\<lparr>px_host = str ''127.0.0.1'', px_port = 22\<rparr>, [104], 4444, b), fs')" "tr_node_name r = [119]"
    "\<forall>rest. tunnel_handshake (\<lambda>j. []) peer (utc 50) 4096 (st_store st') (b @ rest) = (Inr (r, str ''agent-auth''), rest)"
    by (auto simp: sample_deps_def sample_agent_payload_def)
  then show ?thesis using t(1,2) t(3) [THEN spec, of "[]"]
    by (intro exI [of _ fs'] exI [of _ b] exI [of _ "st_store st'"] exI [of _ peer] exI [of _ r]) simp
qed

end
