(* ===== verification/Migrations.thy ===== *)
theory Migrations
  imports Config Regex "HOL-Library.List_Lexorder" "HOL-Library.Sublist" "HOL-Library.Multiset"
begin

text \<open>
  \<open>vibeconnect_common/db.py\<close>: the migration files and the runner.  The database is the rows of
  \<open>schema_migrations\<close>, if the table exists, and the rest, of a type of its own; what the SQL text of a
  migration does to the rest is the parameter \<open>change\<close> (of the repository's migrations only
  the first names \<open>schema_migrations\<close>, to create it if it does not exist).  Every statement can fail, before or after the server
  has carried it out; a transaction that does not reach its commit leaves no trace.
\<close>

section \<open>Migration files\<close>

record Migration =
  mig_version :: int
  mig_path :: pystr
  mig_sql :: pystr

definition slug_char :: "nat \<Rightarrow> bool" where
  "slug_char c \<longleftrightarrow> 97 \<le> c \<and> c \<le> 122 \<or> 48 \<le> c \<and> c \<le> 57"

text \<open>\<open>[a-z0-9]+\<close>, and the pattern between \<open>^\<close> and \<open>$\<close>; \<open>\d\<close> is any decimal digit of Unicode.\<close>

definition SLUG_WORD :: rx where
  "SLUG_WORD = RSeq (RCls slug_char) (RStar (RCls slug_char))"

definition MIGRATION_FILENAME_RE :: rx where
  "MIGRATION_FILENAME_RE =
     RSeq (RRep (RCls (\<lambda>c. decimal_value c \<noteq> None)) 3 3)
       (RAlt REps (RSeq (RCls (\<lambda>c. c = 95)) (RSeq SLUG_WORD (RStar (RSeq (RCls (\<lambda>c. c = 95)) SLUG_WORD)))))"

text \<open>\<open>path.stem\<close> of a name that ends in \<open>.sql\<close>.\<close>

definition sql_stem :: "pystr \<Rightarrow> pystr" where
  "sql_stem name = (if name = str ''.sql'' then name else take (length name - 4) name)"

definition sql_file :: "pystr \<Rightarrow> bool" where
  "sql_file name \<longleftrightarrow> suffix (str ''.sql'') name"

definition parse_migration_version :: "pystr \<Rightarrow> int result" where
  "parse_migration_version name =
     (if py_match_dollar MIGRATION_FILENAME_RE (sql_stem name) then py_int (take 3 (sql_stem name))
      else Inl (MigrationError ''invalid migration filename''))"

fun load_files :: "(pystr \<Rightarrow> pystr result) \<Rightarrow> int set \<Rightarrow> pystr list \<Rightarrow> Migration list result" where
  "load_files read_text seen [] = Inr []"
| "load_files read_text seen (name # names) =
     rbind (parse_migration_version name) (\<lambda>version.
     if version \<in> seen then Inl (MigrationError ''duplicate migration version'')
     else rbind (read_text name) (\<lambda>sql.
       rbind (load_files read_text (insert version seen) names) (\<lambda>migrations.
         Inr (\<lparr>mig_version = version, mig_path = name, mig_sql = sql\<rparr> # migrations))))"

text \<open>\<open>names\<close> are the entries of the directory, in the order the system lists them.\<close>

definition load_migrations :: "pystr list \<Rightarrow> (pystr \<Rightarrow> pystr result) \<Rightarrow> Migration list result" where
  "load_migrations names read_text =
     rbind (load_files read_text {} (sort (filter sql_file names))) (\<lambda>migrations.
       Inr (sort_key mig_version migrations))"

section \<open>The database\<close>

text \<open>A statement is carried out, or fails before that, or fails after that.\<close>

datatype statement = Carried_Out | Refused | Reply_Lost

record 'd mig_db =
  md_versions :: "int list option"
  md_data :: 'd
  md_faults :: "statement list"

definition next_fault :: "'d mig_db \<Rightarrow> statement \<times> 'd mig_db" where
  "next_fault db = (case md_faults db of [] \<Rightarrow> (Carried_Out, db) | f # fs \<Rightarrow> (f, db\<lparr>md_faults := fs\<rparr>))"

definition sql :: "('d mig_db \<Rightarrow> 'd mig_db result) \<Rightarrow> ('d mig_db, unit) op" where
  "sql f db = (case next_fault db of
     (Refused, db) \<Rightarrow> (Inl (PostgresError ''connection lost''), db)
   | (Carried_Out, db) \<Rightarrow> (case f db of Inl e \<Rightarrow> (Inl e, db) | Inr db' \<Rightarrow> (Inr (), db'))
   | (Reply_Lost, db) \<Rightarrow> (Inl (PostgresError ''connection lost''), case f db of Inl e \<Rightarrow> db | Inr db' \<Rightarrow> db'))"

text \<open>\<open>async with connection.transaction()\<close>: \<open>BEGIN\<close>, the body and \<open>COMMIT\<close>; an exception rolls back.\<close>

definition rolled_back :: "'d mig_db \<Rightarrow> 'd mig_db \<Rightarrow> 'd mig_db" where
  "rolled_back before db = before\<lparr>md_faults := md_faults db\<rparr>"

definition in_transaction :: "('d mig_db, unit) op \<Rightarrow> ('d mig_db, unit) op" where
  "in_transaction body db = (case sql Inr db of
     (Inl e, db1) \<Rightarrow> (Inl e, rolled_back db db1)
   | (Inr _, db1) \<Rightarrow> (case body db1 of
       (Inl e, db2) \<Rightarrow> (Inl e, rolled_back db db2)
     | (Inr _, db2) \<Rightarrow> (case next_fault db2 of
         (Refused, db3) \<Rightarrow> (Inl (PostgresError ''connection lost''), rolled_back db db3)
       | (Carried_Out, db3) \<Rightarrow> (Inr (), db3)
       | (Reply_Lost, db3) \<Rightarrow> (Inl (PostgresError ''connection lost''), db3))))"

section \<open>The runner\<close>

definition create_schema_migrations :: "('d mig_db, unit) op" where
  "create_schema_migrations = sql (\<lambda>db. Inr (case md_versions db of
     None \<Rightarrow> db\<lparr>md_versions := Some []\<rparr> | Some _ \<Rightarrow> db))"

definition fetch_applied_versions :: "('d mig_db, int list) op" where
  "fetch_applied_versions =
     sbind (sql Inr) (\<lambda>_. sbind (sget md_versions) (\<lambda>rows. case rows of
       None \<Rightarrow> sraise (PostgresError ''relation schema_migrations does not exist'')
     | Some versions \<Rightarrow> sret (sort versions)))"

definition validate_applied_versions :: "int list \<Rightarrow> int list \<Rightarrow> unit result" where
  "validate_applied_versions applied expected =
     rbind (require (length (remdups applied) = length applied)
       (MigrationError ''schema_migrations contains duplicate versions'')) (\<lambda>_.
     rbind (require (applied = sort applied) (MigrationError ''schema_migrations is out of order'')) (\<lambda>_.
     require (applied = take (length applied) expected)
       (MigrationError ''schema_migrations is partial or out of order'')))"

definition insert_version :: "int \<Rightarrow> ('d mig_db, unit) op" where
  "insert_version version = sql (\<lambda>db. case md_versions db of
     None \<Rightarrow> Inl (PostgresError ''relation schema_migrations does not exist'')
   | Some vs \<Rightarrow> if version \<in> set vs then Inl (PostgresError ''duplicate key'')
       else Inr (db\<lparr>md_versions := Some (vs @ [version])\<rparr>))"

definition exec_script :: "(pystr \<Rightarrow> 'd \<Rightarrow> 'd result) \<Rightarrow> pystr \<Rightarrow> ('d mig_db, unit) op" where
  "exec_script change script = sql (\<lambda>db. rbind (change script (md_data db)) (\<lambda>d. Inr (db\<lparr>md_data := d\<rparr>)))"

definition apply_migration :: "(pystr \<Rightarrow> 'd \<Rightarrow> 'd result) \<Rightarrow> Migration \<Rightarrow> ('d mig_db, unit) op" where
  "apply_migration change m =
     in_transaction (sbind (exec_script change (mig_sql m)) (\<lambda>_. insert_version (mig_version m)))"

fun apply_pending ::
  "(Migration \<Rightarrow> ('d mig_db, unit) op) \<Rightarrow> int set \<Rightarrow> Migration list \<Rightarrow> ('d mig_db, unit) op" where
  "apply_pending apply_one applied [] = sret ()"
| "apply_pending apply_one applied (m # ms) =
     (if mig_version m \<in> applied then apply_pending apply_one applied ms
      else sbind (apply_one m) (\<lambda>_. apply_pending apply_one applied ms))"

definition run_migrations ::
  "(pystr \<Rightarrow> 'd \<Rightarrow> 'd result) \<Rightarrow> Migration list \<Rightarrow> ('d mig_db, unit) op" where
  "run_migrations change migrations =
     sbind create_schema_migrations (\<lambda>_.
     sbind fetch_applied_versions (\<lambda>applied.
     sbind (slift (validate_applied_versions applied (map mig_version migrations))) (\<lambda>_.
     apply_pending (apply_migration change) (set applied) migrations)))"

section \<open>What a run leaves\<close>

text \<open>The data after the migrations, each applied once and in order.\<close>

fun migrate :: "(pystr \<Rightarrow> 'd \<Rightarrow> 'd result) \<Rightarrow> Migration list \<Rightarrow> 'd \<Rightarrow> 'd result" where
  "migrate change [] d = Inr d"
| "migrate change (m # ms) d = rbind (change (mig_sql m) d) (migrate change ms)"

lemma migrate_append: "migrate change (xs @ ys) d = rbind (migrate change xs d) (migrate change ys)"
  by (induction xs arbitrary: d) (auto simp: rbind_def split: sum.splits)

text \<open>\<open>migrated change d0 ms k db\<close>: of the migrations \<open>ms\<close>, exactly the first \<open>k\<close> have been applied to
  \<open>d0\<close>, and the table says so.\<close>

definition migrated :: "(pystr \<Rightarrow> 'd \<Rightarrow> 'd result) \<Rightarrow> 'd \<Rightarrow> Migration list \<Rightarrow> nat \<Rightarrow> 'd mig_db \<Rightarrow> bool" where
  "migrated change d0 ms k db \<longleftrightarrow> k \<le> length ms \<and>
     (md_versions db = Some (map mig_version (take k ms)) \<or> md_versions db = None \<and> k = 0) \<and>
     migrate change (take k ms) d0 = Inr (md_data db)"

text \<open>Two databases that differ at most in what is to fail.\<close>

lemma migrated_cong:
  "md_versions db' = md_versions db \<Longrightarrow> md_data db' = md_data db \<Longrightarrow> migrated change d0 ms k db' = migrated change d0 ms k db"
  by (simp add: migrated_def)

lemma next_fault_fields: "next_fault db = (f, db') \<Longrightarrow> md_versions db' = md_versions db \<and> md_data db' = md_data db"
  by (auto simp: next_fault_def split: list.splits)

lemma rolled_back_fields [simp]:
  "md_versions (rolled_back db db') = md_versions db" "md_data (rolled_back db db') = md_data db"
  by (simp_all add: rolled_back_def)

lemma sql_Inr:
  assumes "sql f db = (Inr u, db')"
  obtains db1 where "md_versions db1 = md_versions db" "md_data db1 = md_data db" "f db1 = Inr db'"
  using assms that by (auto simp: sql_def split: prod.splits statement.splits sum.splits dest: next_fault_fields)

text \<open>One migration: either it is in the data and in the table, or in neither.\<close>

lemma apply_migration_cases:
  assumes "apply_migration change m db = (r, db')" "md_versions db = Some vs" "mig_version m \<notin> set vs"
  shows "md_versions db' = Some vs \<and> md_data db' = md_data db \<and> (\<exists>e. r = Inl e) \<or>
    md_versions db' = Some (vs @ [mig_version m]) \<and> change (mig_sql m) (md_data db) = Inr (md_data db')"
proof -
  let ?body = "sbind (exec_script change (mig_sql m)) (\<lambda>_. insert_version (mig_version m))"
  have body: "md_versions db2 = Some (vs @ [mig_version m]) \<and> change (mig_sql m) (md_data db) = Inr (md_data db2)"
    if b: "?body db1 = (Inr (), db2)" "md_versions db1 = md_versions db" "md_data db1 = md_data db" for db1 db2
  proof -
    obtain db3 where 1: "exec_script change (mig_sql m) db1 = (Inr (), db3)" "insert_version (mig_version m) db3 = (Inr (), db2)"
      using b(1) by (auto simp: sbind_eq_Inr)
    obtain db4 where 4: "md_versions db4 = md_versions db1" "md_data db4 = md_data db1"
      "rbind (change (mig_sql m) (md_data db4)) (\<lambda>d. Inr (db4\<lparr>md_data := d\<rparr>)) = Inr db3"
      using 1(1) unfolding exec_script_def by (rule sql_Inr)
    obtain db5 where 5: "md_versions db5 = md_versions db3" "md_data db5 = md_data db3"
      "(case md_versions db5 of None \<Rightarrow> Inl (PostgresError ''relation schema_migrations does not exist'')
        | Some vs \<Rightarrow> if mig_version m \<in> set vs then Inl (PostgresError ''duplicate key'')
            else Inr (db5\<lparr>md_versions := Some (vs @ [mig_version m])\<rparr>)) = Inr db2"
      using 1(2) unfolding insert_version_def by (rule sql_Inr)
    show ?thesis using 4 5 b(2,3) assms(2,3) by (auto simp: rbind_eq_Inr)
  qed
  show ?thesis
    using assms(1,2) unfolding apply_migration_def in_transaction_def
    by (auto split: prod.splits sum.splits statement.splits dest!: next_fault_fields dest: body elim!: sql_Inr)
qed

lemma apply_migration_succeeds:
  assumes "md_faults db = []" "md_versions db = Some vs" "mig_version m \<notin> set vs" "change (mig_sql m) (md_data db) = Inr d"
  shows "apply_migration change m db = (Inr (), db\<lparr>md_versions := Some (vs @ [mig_version m]), md_data := d\<rparr>)"
  using assms by (simp add: apply_migration_def in_transaction_def sql_def next_fault_def sbind_def
      exec_script_def insert_version_def)

lemma pending_skips: "\<forall>m \<in> set xs. mig_version m \<in> A \<Longrightarrow> apply_pending apply_one A (xs @ ys) = apply_pending apply_one A ys"
  by (induction xs) simp_all

text \<open>
  The contract the loop relies on: one migration is applied and recorded as a whole or not at all.  The
  transaction provides it.
\<close>

locale migration_step =
  fixes apply_one :: "Migration \<Rightarrow> ('d mig_db, unit) op"
    and change :: "pystr \<Rightarrow> 'd \<Rightarrow> 'd result"
  assumes atomic: "apply_one m db = (r, db') \<Longrightarrow> md_versions db = Some vs \<Longrightarrow> mig_version m \<notin> set vs \<Longrightarrow>
    md_versions db' = Some vs \<and> md_data db' = md_data db \<and> (\<exists>e. r = Inl e) \<or>
    md_versions db' = Some (vs @ [mig_version m]) \<and> change (mig_sql m) (md_data db) = Inr (md_data db')"
begin

lemma pending_extends:
  assumes "migrated change d0 (xs @ ys) (length xs) db" "md_versions db \<noteq> None" "distinct (map mig_version (xs @ ys))"
    and "A \<inter> mig_version ` set ys = {}" "apply_pending apply_one A ys db = (r, db')"
  shows "\<exists>k \<ge> length xs. migrated change d0 (xs @ ys) k db' \<and> (r = Inr () \<longrightarrow> k = length (xs @ ys))"
  using assms
proof (induction ys arbitrary: xs db)
  case Nil
  then show ?case by (intro exI [of _ "length xs"]) simp
next
  case (Cons m ys)
  have m: "mig_version m \<notin> A" "mig_version m \<notin> set (map mig_version xs)" using Cons.prems(3,4) by auto
  have vs: "md_versions db = Some (map mig_version xs)" "migrate change xs d0 = Inr (md_data db)"
    using Cons.prems(1,2) by (auto simp: migrated_def)
  obtain r1 db1 where s: "apply_one m db = (r1, db1)" by (cases "apply_one m db")
  from atomic [OF s vs(1) m(2)]
  show ?case
  proof (elim disjE conjE exE)
    fix e assume f: "md_versions db1 = Some (map mig_version xs)" "md_data db1 = md_data db" "r1 = Inl e"
    then have "db' = db1" "r = Inl e" using Cons.prems(5) s m(1) by (auto simp: sbind_def)
    then show ?thesis using Cons.prems(1) f vs migrated_cong [of db1 db]
      by (intro exI [of _ "length xs"]) simp
  next
    assume f: "md_versions db1 = Some (map mig_version xs @ [mig_version m])" "change (mig_sql m) (md_data db) = Inr (md_data db1)"
    have 1: "migrated change d0 ((xs @ [m]) @ ys) (length (xs @ [m])) db1"
      using f vs by (simp add: migrated_def migrate_append)
    show ?thesis
    proof (cases r1)
      case (Inl e)
      then have "db' = db1" "r = Inl e" using Cons.prems(5) s m(1) by (auto simp: sbind_def)
      then show ?thesis using 1 by (intro exI [of _ "length (xs @ [m])"]) simp
    next
      case (Inr u)
      then have rest: "apply_pending apply_one A ys db1 = (r, db')" using Cons.prems(5) s m(1) by (simp add: sbind_def)
      have "md_versions db1 \<noteq> None" "distinct (map mig_version ((xs @ [m]) @ ys))" "A \<inter> mig_version ` set ys = {}"
        using f(1) Cons.prems(3,4) by auto
      from Cons.IH [OF 1 this rest] show ?thesis by (auto intro: Suc_leD)
    qed
  qed
qed

end

interpretation tx: migration_step "apply_migration change" change for change
  by unfold_locales (rule apply_migration_cases)

lemma pending_succeeds:
  assumes "md_faults db = []" "md_versions db = Some vs" "distinct (vs @ map mig_version ys)" "A \<inter> mig_version ` set ys = {}"
    and "migrate change ys (md_data db) = Inr d"
  shows "\<exists>db'. apply_pending (apply_migration change) A ys db = (Inr (), db')"
  using assms
proof (induction ys arbitrary: db vs)
  case (Cons m ys)
  obtain d1 where d: "change (mig_sql m) (md_data db) = Inr d1" "migrate change ys d1 = Inr d"
    using Cons.prems(5) by (auto simp: rbind_eq_Inr)
  have "apply_migration change m db = (Inr (), db\<lparr>md_versions := Some (vs @ [mig_version m]), md_data := d1\<rparr>)"
    using Cons.prems d by (intro apply_migration_succeeds) auto
  then show ?case
    using Cons.prems d Cons.IH [of "db\<lparr>md_versions := Some (vs @ [mig_version m]), md_data := d1\<rparr>" "vs @ [mig_version m]"]
    by (simp add: sbind_def)
qed simp

section \<open>Loaded migrations\<close>

lemma load_files_Inr:
  "load_files read_text seen names = Inr ms \<Longrightarrow>
     map mig_path ms = names \<and> distinct (map mig_version ms) \<and> set (map mig_version ms) \<inter> seen = {}"
proof (induction names arbitrary: seen ms)
  case (Cons name names)
  obtain v sql rest where v: "v \<notin> seen" "load_files read_text (insert v seen) names = Inr rest"
    "ms = \<lparr>mig_version = v, mig_path = name, mig_sql = sql\<rparr> # rest"
    using Cons.prems by (auto simp: rbind_eq_Inr split: if_splits)
  from Cons.IH [OF v(2)] v(1,3) show ?case by auto
qed simp

lemma load_migrations_Inr:
  assumes "load_migrations names read_text = Inr ms"
  shows "sorted (map mig_version ms)" "distinct (map mig_version ms)" "set (map mig_path ms) = {n \<in> set names. sql_file n}"
proof -
  obtain ls where l: "load_files read_text {} (sort (filter sql_file names)) = Inr ls" "ms = sort_key mig_version ls"
    using assms by (auto simp: load_migrations_def rbind_eq_Inr)
  note f = load_files_Inr [OF l(1)]
  show "sorted (map mig_version ms)" by (simp add: l(2))
  have "mset (map mig_version ms) = mset (map mig_version ls)" by (simp only: l(2) mset_map mset_sort)
  then show "distinct (map mig_version ms)" using f mset_eq_imp_distinct_iff by blast
  have "set (map mig_path ms) = set (map mig_path ls)" by (simp add: l(2))
  then show "set (map mig_path ms) = {n \<in> set names. sql_file n}" using f by simp
qed

section \<open>A run\<close>

lemma create_fields:
  assumes "create_schema_migrations db = (r, db')"
  shows "md_data db' = md_data db \<and> (md_versions db' = md_versions db \<or> md_versions db = None \<and> md_versions db' = Some []) \<and>
    (r = Inr () \<longrightarrow> md_versions db' \<noteq> None)"
  using assms by (auto simp: create_schema_migrations_def sql_def split: prod.splits statement.splits option.splits
      dest!: next_fault_fields)

lemma fetch_fields:
  assumes "fetch_applied_versions db = (r, db')"
  shows "md_data db' = md_data db \<and> md_versions db' = md_versions db \<and>
    (\<forall>vs. r = Inr vs \<longrightarrow> (\<exists>rows. md_versions db = Some rows \<and> vs = sort rows))"
  using assms by (auto simp: fetch_applied_versions_def sql_def sbind_def sraise_def split: prod.splits statement.splits
      option.splits sum.splits dest!: next_fault_fields)

lemma validate_Inr: "validate_applied_versions applied expected = Inr () \<longleftrightarrow>
    distinct applied \<and> sorted applied \<and> applied = take (length applied) expected"
proof -
  have "length (remdups applied) = length applied \<longleftrightarrow> distinct applied" by (metis length_remdups_eq remdups_id_iff_distinct)
  moreover have "applied = sort applied \<longleftrightarrow> sorted applied" by (metis sorted_sort_id sorted_sort)
  ultimately show ?thesis by (auto simp: validate_applied_versions_def rbind_eq_Inr require_def split: if_splits)
qed

text \<open>The checks of a run change no data, and create at most the empty table.\<close>

lemma run_cases:
  assumes "run_migrations change ms db = (r, db')"
  obtains (stopped) e where "r = Inl e" "md_data db' = md_data db"
      "md_versions db' = md_versions db \<or> md_versions db = None \<and> md_versions db' = Some []"
    | (applied) db1 rows where "md_data db1 = md_data db" "md_versions db1 = Some rows"
      "md_versions db = Some rows \<or> md_versions db = None \<and> rows = []"
      "validate_applied_versions (sort rows) (map mig_version ms) = Inr ()"
      "apply_pending (apply_migration change) (set rows) ms db1 = (r, db')"
proof -
  obtain r1 db1 where c: "create_schema_migrations db = (r1, db1)" by (cases "create_schema_migrations db")
  obtain r2 db2 where f: "fetch_applied_versions db1 = (r2, db2)" by (cases "fetch_applied_versions db1")
  note cf = create_fields [OF c] and ff = fetch_fields [OF f]
  show thesis
  proof (cases r1)
    case (Inl e)
    then show ?thesis using assms c cf by (intro stopped [of e]) (auto simp: run_migrations_def sbind_def)
  next
    case (Inr u)
    note r1 = this
    show ?thesis
    proof (cases r2)
      case (Inl e)
      then show ?thesis using assms c cf f ff r1 by (intro stopped [of e]) (auto simp: run_migrations_def sbind_def)
    next
      case (Inr vs)
      obtain rows where rows: "md_versions db2 = Some rows" "vs = sort rows" using ff Inr by auto
      show ?thesis
      proof (cases "validate_applied_versions vs (map mig_version ms)")
        case (Inl e)
        then show ?thesis using assms c cf f ff r1 Inr
          by (intro stopped [of e]) (auto simp: run_migrations_def sbind_def slift_def)
      next
        case v: (Inr u2)
        then have a: "apply_pending (apply_migration change) (set rows) ms db2 = (r, db')"
          using assms c f r1 Inr rows by (simp add: run_migrations_def sbind_def slift_def)
        show ?thesis
          by (rule applied [OF _ rows(1) _ _ a]) (use cf ff rows v in auto)
      qed
    qed
  qed
qed

lemma validated_prefix:
  assumes "validate_applied_versions (sort rows) (map mig_version ms) = Inr ()"
  shows "set rows = mig_version ` set (take (length rows) ms) \<and> length rows \<le> length ms"
proof -
  have t: "sort rows = map mig_version (take (length rows) ms)"
    using assms by (simp add: validate_Inr take_map)
  then have "length rows \<le> length ms" using arg_cong [OF t, of length] by (metis length_map length_sort length_take min.cobounded1)
  then show ?thesis using arg_cong [OF t, of set] by simp
qed

lemma migrated_prefix: "migrated change d0 old k db \<Longrightarrow> prefix old ms \<Longrightarrow> migrated change d0 ms k db"
  by (auto simp: migrated_def prefix_def)

lemma run_pending:
  assumes "distinct (map mig_version ms)" "migrated change d0 (take k ms @ drop k ms) (length (take k ms)) db"
    and "set rows = mig_version ` set (take k ms)" "md_versions db \<noteq> None" "apply_pending (apply_migration change) (set rows) ms db = (r, db')"
  shows "k \<le> length ms \<Longrightarrow> \<exists>k' \<ge> k. migrated change d0 ms k' db' \<and> (r = Inr () \<longrightarrow> k' = length ms)"
proof -
  assume k: "k \<le> length ms"
  have d: "distinct (map mig_version (take k ms @ drop k ms))" using assms(1) by simp
  then have dis: "set rows \<inter> mig_version ` set (drop k ms) = {}" unfolding assms(3) map_append distinct_append by simp
  have "apply_pending (apply_migration change) (set rows) (take k ms @ drop k ms) db = apply_pending (apply_migration change) (set rows) (drop k ms) db"
    by (rule fun_cong, rule pending_skips) (simp add: assms(3))
  then have "apply_pending (apply_migration change) (set rows) (drop k ms) db = (r, db')" using assms(5) by simp
  from tx.pending_extends [OF assms(2,4) d dis this] show ?thesis using k by simp
qed

lemma run_succeeds:
  assumes "md_faults db = []" "migrated change d0 ms k db" "sorted (map mig_version ms)" "distinct (map mig_version ms)"
    and "migrate change ms d0 = Inr d"
  shows "fst (run_migrations change ms db) = Inr ()"
proof -
  let ?vs = "map mig_version (take k ms)" and ?db = "db\<lparr>md_versions := Some (map mig_version (take k ms))\<rparr>"
  have k: "k \<le> length ms" "migrate change (take k ms) d0 = Inr (md_data db)" using assms(2) by (auto simp: migrated_def)
  have db: "md_versions db = Some ?vs \<or> md_versions db = None \<and> k = 0" using assms(2) by (simp add: migrated_def)
  have c: "create_schema_migrations db = (Inr (), ?db)"
    using db assms(1) by (auto simp: create_schema_migrations_def sql_def next_fault_def)
  have srt: "sorted ?vs" "distinct ?vs" using assms(3,4) by (auto simp: sorted_wrt_take take_map [symmetric])
  then have f: "fetch_applied_versions ?db = (Inr ?vs, ?db)"
    using assms(1) by (simp add: fetch_applied_versions_def sql_def next_fault_def sbind_def sorted_sort_id)
  have v: "validate_applied_versions ?vs (map mig_version ms) = Inr ()"
    using srt k(1) by (simp add: validate_Inr take_map min_absorb2)
  have d: "distinct (map mig_version (take k ms @ drop k ms))" using assms(4) by simp
  then have dis: "set ?vs \<inter> mig_version ` set (drop k ms) = {}" unfolding map_append distinct_append by simp
  have "migrate change (drop k ms) (md_data ?db) = Inr d"
    using assms(5) k(2) migrate_append [of change "take k ms" "drop k ms" d0] by simp
  then obtain db' where "apply_pending (apply_migration change) (set ?vs) (drop k ms) ?db = (Inr (), db')"
    using pending_succeeds [of ?db ?vs "drop k ms" "set ?vs" change d] assms(1) d [unfolded map_append] dis by auto
  moreover have "apply_pending (apply_migration change) (set ?vs) (take k ms @ drop k ms) = apply_pending (apply_migration change) (set ?vs) (drop k ms)"
    by (rule pending_skips) simp
  ultimately have "apply_pending (apply_migration change) (set ?vs) ms ?db = (Inr (), db')" by simp
  then show ?thesis using c f v by (simp add: run_migrations_def sbind_def slift_def)
qed

text \<open>C38: however a migration run ends, the applied migrations stay a prefix.  Let the database hold
  exactly the first \<open>k\<close> migrations of an earlier release whose list the present files extend.  After a
  run in which any statement may fail, before or after the server carried it out, the database
  holds exactly the first \<open>k'\<close> of the present migrations, applied once and in version order, with \<open>k' \<ge> k\<close>:
  a failed run loses nothing and can be repeated.  A run that returns has applied them all, and a run in
  which no statement fails returns.\<close>

theorem migrations_stay_a_prefix:
  assumes "load_migrations names read_text = Inr ms" "migrated change d0 old k db" "prefix old ms"
    and "run_migrations change ms db = (r, db')"
  shows "(\<exists>k' \<ge> k. migrated change d0 ms k' db' \<and> (r = Inr () \<longrightarrow> k' = length ms)) \<and>
    (md_faults db = [] \<and> migrate change ms d0 = Inr d \<longrightarrow> r = Inr ())"
proof -
  note ms = load_migrations_Inr [OF assms(1)] and k = migrated_prefix [OF assms(2,3)]
  have "\<exists>k' \<ge> k. migrated change d0 ms k' db' \<and> (r = Inr () \<longrightarrow> k' = length ms)"
    using assms(4)
  proof (cases rule: run_cases)
    case (stopped e)
    then have "migrated change d0 ms k db'" using k by (auto simp: migrated_def)
    with stopped(1) show ?thesis by auto
  next
    case (applied db1 rows)
    from applied(3) have "rows = map mig_version (take k ms)" using k by (auto simp: migrated_def)
    then have "migrated change d0 (take k ms @ drop k ms) (length (take k ms)) db1"
      "set rows = mig_version ` set (take k ms)" "k \<le> length ms"
      using k applied(1,2) by (auto simp: migrated_def)
    then show ?thesis using run_pending [OF ms(2) _ _ _ applied(5)] applied(2) by simp
  qed
  moreover have "r = Inr ()" if "md_faults db = []" "migrate change ms d0 = Inr d"
    using run_succeeds [OF that(1) k ms(1,2) that(2)] assms(4) by simp
  ultimately show ?thesis by blast
qed

definition sample_migrations :: "Migration list" where
  "sample_migrations = [\<lparr>mig_version = 1, mig_path = str ''001_a.sql'', mig_sql = [49]\<rparr>,
     \<lparr>mig_version = 2, mig_path = str ''002.sql'', mig_sql = [50]\<rparr>]"

lemma sample_names:
  "parse_migration_version (str ''001_a.sql'') = Inr 1" "parse_migration_version (str ''002.sql'') = Inr 2"
  by (simp_all add: parse_migration_version_def sql_stem_def str_def py_match_dollar_def MIGRATION_FILENAME_RE_def
      SLUG_WORD_def decimal_value_def decimal_zeros_def slug_char_def py_int_def strip_def lstrip_def rstrip_def isspace_def Let_def)

lemma sample_loads:
  "load_migrations [str ''002.sql'', str ''001_a.sql'', str ''README''] (\<lambda>n. Inr (if n = str ''002.sql'' then [50] else [49])) =
     Inr sample_migrations"
proof -
  have "sort (filter sql_file [str ''002.sql'', str ''001_a.sql'', str ''README'']) = [str ''001_a.sql'', str ''002.sql'']"
    by (simp add: sql_file_def str_def suffix_def)
  moreover have "str ''001_a.sql'' \<noteq> str ''002.sql''" by (simp add: str_def)
  ultimately show ?thesis by (simp del: filter.simps add: load_migrations_def sample_names sample_migrations_def)
qed

theorem migrations_stay_a_prefix_witness:
  "\<exists>db'. run_migrations (\<lambda>s d. Inr (d @ s)) sample_migrations \<lparr>md_versions = Some [1], md_data = [49], md_faults = []\<rparr> = (Inr (), db') \<and>
     md_versions db' = Some [1, 2] \<and> md_data db' = [49, 50]"
proof -
  let ?change = "\<lambda>s d. Inr (d @ s)" and ?db = "\<lparr>md_versions = Some [1], md_data = [49], md_faults = []\<rparr>"
  have m: "migrated ?change [] [hd sample_migrations] 1 ?db" "prefix [hd sample_migrations] sample_migrations"
    by (simp_all add: migrated_def sample_migrations_def)
  have d: "migrate ?change sample_migrations [] = Inr [49, 50]" by (simp add: sample_migrations_def)
  obtain r db' where r: "run_migrations ?change sample_migrations ?db = (r, db')"
    by (cases "run_migrations ?change sample_migrations ?db")
  note t = migrations_stay_a_prefix [OF sample_loads m r, of "[49, 50]"]
  then have "r = Inr ()" using d by simp
  moreover have "migrated ?change [] sample_migrations 2 db'"
    using t calculation by (auto simp: sample_migrations_def numeral_2_eq_2)
  then have "md_versions db' = Some [1, 2] \<and> md_data db' = [49, 50]" by (simp add: migrated_def sample_migrations_def)
  ultimately show ?thesis using r by blast
qed

text \<open>a database with a history of its own is refused untouched.  If the recorded versions are not
  the first versions of the given migrations, the run raises, and neither the rows nor the data change;
  when no statement fails, it is a \<open>MigrationError\<close>.\<close>

theorem foreign_history_is_refused:
  assumes "md_versions db = Some rows" "\<not> prefix (sort rows) (map mig_version ms)"
    and "run_migrations change ms db = (r, db')"
  shows "md_versions db' = Some rows \<and> md_data db' = md_data db \<and>
    (\<exists>e. r = Inl e \<and> (md_faults db = [] \<longrightarrow> (\<exists>m. e = MigrationError m)))"
  using assms(3)
proof (cases rule: run_cases)
  case (stopped e)
  have "\<exists>m. e = MigrationError m" if n: "md_faults db = []"
  proof -
    have c: "create_schema_migrations db = (Inr (), db)" "fetch_applied_versions db = (Inr (sort rows), db)"
      using assms(1) n by (auto simp: create_schema_migrations_def fetch_applied_versions_def sql_def next_fault_def sbind_def)
    have "validate_applied_versions (sort rows) (map mig_version ms) \<noteq> Inr ()"
      using assms(2) take_is_prefix [of "length rows" "map mig_version ms"] by (auto simp: validate_Inr)
    then obtain e2 m where "validate_applied_versions (sort rows) (map mig_version ms) = Inl e2" "e2 = MigrationError m"
      by (auto simp: validate_applied_versions_def rbind_def require_def split: if_splits)
    then show ?thesis using c stopped(1) assms(3) by (auto simp: run_migrations_def sbind_def slift_def)
  qed
  with stopped assms(1) show ?thesis by auto
next
  case (applied db1 rows')
  have "prefix (sort rows) (map mig_version ms)"
    using applied(3,4) assms(1) take_is_prefix [of "length rows" "map mig_version ms"] by (auto simp: validate_Inr)
  with assms(2) show ?thesis by simp
qed

theorem foreign_history_is_refused_witness:
  "\<exists>m. fst (run_migrations (\<lambda>s d. Inr (d @ s)) sample_migrations \<lparr>md_versions = Some [2], md_data = [], md_faults = []\<rparr>) =
     Inl (MigrationError m)"
proof -
  let ?db = "\<lparr>md_versions = Some [2], md_data = [], md_faults = []\<rparr>"
  have "\<not> prefix (sort [2]) (map mig_version sample_migrations)" by (simp add: sample_migrations_def)
  from foreign_history_is_refused [of ?db "[2]", OF _ this prod.collapse [symmetric]]
  show ?thesis by (metis mig_db.select_convs(1,3))
qed

end
