(* ===== verification/Transport.thy ===== *)
theory Transport
  imports Broker "HOL-Library.Sublist"
begin

text \<open>
  \<open>_BrokerTunnelTransport\<close> of \<open>server/tunnel.py\<close> and \<open>BrokerTunnelStream.create_connection\<close>: AsyncSSH's
  transport over one stream of the broker.  A call of \<open>write\<close> only makes a task; tasks start in the order
  they were made.  The protocol may call the transport back while it is being called; what it does and
  whether it returns is an argument.  Between the steps the broker may change in any way.
\<close>

section \<open>State\<close>

datatype callback = Connection_Made | Data_Received bytes | Eof_Received | Connection_Lost "exc option"

datatype reader_task = Not_Started | Reading | Ended

text \<open>
  A write task has not started, waits in \<open>drain\<close>, or is done and its callback is due.
  \<open>tt_callbacks\<close> and \<open>tt_taken\<close> are histories: the calls of the protocol, and the writes that were not ignored.
\<close>

datatype write_task = Waiting | Draining | Done "exc option"

record BrokerTunnelTransport =
  tt_stream :: stream_ref
  tt_peername :: "pystr \<times> int"
  tt_closing :: bool
  tt_read_task :: reader_task
  tt_write_tasks :: "(bytes \<times> write_task) list"
  tt_close_task :: "write_task option"
  tt_callbacks :: "callback list"
  tt_taken :: "bytes list"

definition new_transport :: "stream_ref \<Rightarrow> pystr \<times> int \<Rightarrow> BrokerTunnelTransport" where
  "new_transport stream peername =
     \<lparr>tt_stream = stream, tt_peername = peername, tt_closing = False, tt_read_task = Not_Started,
      tt_write_tasks = [], tt_close_task = None, tt_callbacks = [], tt_taken = []\<rparr>"

definition call_protocol :: "callback \<Rightarrow> BrokerTunnelTransport \<Rightarrow> BrokerTunnelTransport" where
  "call_protocol c t = t\<lparr>tt_callbacks := tt_callbacks t @ [c]\<rparr>"

definition transport_start :: "BrokerTunnelTransport \<Rightarrow> BrokerTunnelTransport" where
  "transport_start t = t\<lparr>tt_read_task := Reading\<rparr>"

definition transport_write :: "bytes \<Rightarrow> BrokerTunnelTransport \<Rightarrow> BrokerTunnelTransport" where
  "transport_write data t =
     (if tt_closing t \<or> data = [] then t
      else t\<lparr>tt_write_tasks := tt_write_tasks t @ [(data, Waiting)], tt_taken := tt_taken t @ [data]\<rparr>)"

text \<open>Cancelling a task that has not started, or waits, ends it without a trace.\<close>

definition transport_close :: "BrokerTunnelTransport \<Rightarrow> BrokerTunnelTransport" where
  "transport_close t =
     (if tt_closing t then t
      else call_protocol (Connection_Lost None)
        (t\<lparr>tt_closing := True, tt_close_task := Some Waiting,
           tt_read_task := (if tt_read_task t = Reading then Ended else tt_read_task t), tt_write_tasks := []\<rparr>))"

definition transport_abort :: "BrokerTunnelTransport \<Rightarrow> BrokerTunnelTransport" where
  "transport_abort t = transport_close t"

definition transport_write_done :: "nat \<Rightarrow> BrokerTunnelTransport \<Rightarrow> BrokerTunnelTransport" where
  "transport_write_done i t =
     (let t' = t\<lparr>tt_write_tasks := take i (tt_write_tasks t) @ drop (Suc i) (tt_write_tasks t)\<rparr>
      in case snd (tt_write_tasks t ! i) of Done (Some e) \<Rightarrow> transport_close t' | _ \<Rightarrow> t')"

text \<open>\<open>get_extra_info\<close>, for the names it knows.\<close>

definition get_extra_info :: "pystr \<Rightarrow> (pystr \<times> int) option \<Rightarrow> BrokerTunnelTransport \<Rightarrow> (pystr \<times> int) option" where
  "get_extra_info name fallback t =
     (if name = str ''peername'' then Some (tt_peername t)
      else if name = str ''sockname'' then Some (str ''127.0.0.1'', 0) else fallback)"

section \<open>The protocol\<close>

datatype action = Do_Write bytes | Do_Close

fun react :: "action list \<Rightarrow> BrokerTunnelTransport \<Rightarrow> BrokerTunnelTransport" where
  "react [] t = t"
| "react (Do_Write data # acts) t = react acts (transport_write data t)"
| "react (Do_Close # acts) t = react acts (transport_close t)"

record response =
  rs_actions :: "action list"
  rs_result :: "bool result"

text \<open>\<open>create_connection\<close>; it fails if \<open>connection_made\<close> does.\<close>

definition create_connection :: "response \<Rightarrow> stream_ref \<Rightarrow> int \<Rightarrow> BrokerTunnelTransport result" where
  "create_connection made stream port =
     (let t = react (rs_actions made) (call_protocol Connection_Made (new_transport stream (str ''127.0.0.1'', port)))
      in rbind (rs_result made) (\<lambda>_. Inr (transport_start t)))"

section \<open>The reader\<close>

text \<open>
  One round of \<open>_read_loop\<close>: \<open>None\<close> is a wait in \<open>read\<close>.  The argument is the protocol's response to the
  callback of the round.
\<close>

definition end_of_stream :: "response \<Rightarrow> BrokerTunnelTransport \<Rightarrow> BrokerTunnelTransport" where
  "end_of_stream rs t =
     (let t1 = react (rs_actions rs) (call_protocol Eof_Received (t\<lparr>tt_closing := True\<rparr>));
          t2 = (case rs_result rs of
                  Inl e \<Rightarrow> t1
                | Inr eof_handled \<Rightarrow> if eof_handled then t1 else call_protocol (Connection_Lost None) t1)
      in t2\<lparr>tt_read_task := Ended\<rparr>)"

definition data_arrived :: "response \<Rightarrow> bytes \<Rightarrow> BrokerTunnelTransport \<Rightarrow> BrokerTunnelTransport" where
  "data_arrived rs data t =
     (let t1 = react (rs_actions rs) (call_protocol (Data_Received data) t) in
      case rs_result rs of
        Inr _ \<Rightarrow> t1
      | Inl e \<Rightarrow> (if tt_closing t1 then t1 else call_protocol (Connection_Lost (Some e)) (t1\<lparr>tt_closing := True\<rparr>))
                  \<lparr>tt_read_task := Ended\<rparr>)"

definition read_round ::
  "response \<Rightarrow> BrokerTunnelTransport \<times> ServerTunnelBroker \<Rightarrow> (BrokerTunnelTransport \<times> ServerTunnelBroker) option" where
  "read_round rs s = (case s of (t, b) \<Rightarrow>
     if tt_closing t then Some (t\<lparr>tt_read_task := Ended\<rparr>, b)
     else Option.bind (bk_streams b (tt_stream t)) (\<lambda>stream.
       Option.bind (stream_read 32768 stream) (\<lambda>(data, stream').
         Some (if data = [] then end_of_stream rs t else data_arrived rs data t,
           update_stream (tt_stream t) (\<lambda>_. stream') b))))"

section \<open>All interleavings\<close>

text \<open>\<open>tr_sent\<close> are the writes that became a frame of the channel.  A task starts after all made before it.\<close>

record transport_run =
  tr_transport :: BrokerTunnelTransport
  tr_broker :: ServerTunnelBroker
  tr_sent :: "bytes list"

inductive transport_step :: "transport_run \<Rightarrow> transport_run \<Rightarrow> bool" where
  act: "transport_step r (r\<lparr>tr_transport := react acts (tr_transport r)\<rparr>)"
| read: "tt_read_task (tr_transport r) = Reading \<Longrightarrow> read_round rs (tr_transport r, tr_broker r) = Some (t, b) \<Longrightarrow>
   transport_step r (r\<lparr>tr_transport := t, tr_broker := b\<rparr>)"
| send: "tt_write_tasks (tr_transport r) = before @ (data, Waiting) # after \<Longrightarrow> \<forall>w \<in> set before. snd w \<noteq> Waiting \<Longrightarrow>
   stream_write (tt_stream (tr_transport r)) data request_id (tr_broker r) = (res, b) \<Longrightarrow>
   transport_step r (r\<lparr>tr_transport := (tr_transport r)\<lparr>tt_write_tasks := before @
        (data, case res of Inl e \<Rightarrow> Done (Some e) | Inr _ \<Rightarrow> Draining) # after\<rparr>,
      tr_broker := b, tr_sent := tr_sent r @ (case res of Inl e \<Rightarrow> [] | Inr _ \<Rightarrow> [data])\<rparr>)"
| drained: "tt_write_tasks (tr_transport r) = before @ (data, Draining) # after \<Longrightarrow>
   transport_step r (r\<lparr>tr_transport := (tr_transport r)\<lparr>tt_write_tasks := before @ (data, Done failure) # after\<rparr>\<rparr>)"
| write_done: "i < length (tt_write_tasks (tr_transport r)) \<Longrightarrow> snd (tt_write_tasks (tr_transport r) ! i) = Done failure \<Longrightarrow>
   transport_step r (r\<lparr>tr_transport := transport_write_done i (tr_transport r)\<rparr>)"
| close_stream: "tt_close_task (tr_transport r) = Some Waiting \<Longrightarrow>
   stream_close (tt_stream (tr_transport r)) request_id (tr_broker r) = (res, b) \<Longrightarrow>
   transport_step r (r\<lparr>tr_transport := (tr_transport r)\<lparr>tt_close_task := Some (Done None)\<rparr>, tr_broker := b\<rparr>)"
| others: "transport_step r (r\<lparr>tr_broker := b\<rparr>)"

inductive transport_reachable :: "transport_run \<Rightarrow> bool" where
  made: "create_connection made ref port = Inr t \<Longrightarrow>
    transport_reachable \<lparr>tr_transport = t, tr_broker = b, tr_sent = []\<rparr>"
| step: "transport_reachable r \<Longrightarrow> transport_step r r' \<Longrightarrow> transport_reachable r'"

section \<open>The contract of a protocol\<close>

definition final_calls :: "callback list \<Rightarrow> bool" where
  "final_calls tail \<longleftrightarrow> (\<exists>x. tail = [Connection_Lost x]) \<or> tail = [Eof_Received] \<or> tail = [Eof_Received, Connection_Lost None]"

definition protocol_ok :: "BrokerTunnelTransport \<Rightarrow> bool" where
  "protocol_ok t \<longleftrightarrow> (\<exists>ds tail. tt_callbacks t = Connection_Made # map Data_Received ds @ tail \<and>
     (if tt_closing t then final_calls tail else tail = []))"

abbreviation unsent :: "BrokerTunnelTransport \<Rightarrow> bytes list" where
  "unsent t \<equiv> map fst (filter (\<lambda>w. snd w = Waiting) (tt_write_tasks t))"

definition no_failure :: "BrokerTunnelTransport \<Rightarrow> bool" where
  "no_failure t \<longleftrightarrow> (\<forall>w \<in> set (tt_write_tasks t). \<forall>e. snd w \<noteq> Done (Some e))"

definition queue_ok :: "bytes list \<Rightarrow> BrokerTunnelTransport \<Rightarrow> bool" where
  "queue_ok sent t \<longleftrightarrow> subseq (sent @ unsent t) (tt_taken t) \<and>
     (\<not> tt_closing t \<and> no_failure t \<longrightarrow> tt_taken t = sent @ unsent t)"

definition transport_ok :: "bytes list \<Rightarrow> BrokerTunnelTransport \<Rightarrow> bool" where
  "transport_ok sent t \<longleftrightarrow> protocol_ok t \<and> queue_ok sent t"

lemma subseq_front: "subseq (xs @ ys) zs \<Longrightarrow> subseq xs zs"
proof -
  have "subseq xs (xs @ ys)" by (induction xs) simp_all
  then show "subseq (xs @ ys) zs \<Longrightarrow> subseq xs zs" by (rule subseq_order.trans)
qed

lemma transport_write_ok: "transport_ok sent t \<Longrightarrow> transport_ok sent (transport_write data t)"
  by (auto simp: transport_ok_def protocol_ok_def queue_ok_def no_failure_def transport_write_def simp flip: append_assoc)

lemma protocol_okI:
  "tt_callbacks t = Connection_Made # map Data_Received ds @ tail \<Longrightarrow>
   (if tt_closing t then final_calls tail else tail = []) \<Longrightarrow> protocol_ok t"
  unfolding protocol_ok_def by blast

lemma protocol_ok_open: "protocol_ok t \<Longrightarrow> \<not> tt_closing t \<Longrightarrow> \<exists>ds. tt_callbacks t = Connection_Made # map Data_Received ds"
  by (auto simp: protocol_ok_def)

lemma transport_close_ok:
  assumes "transport_ok sent t"
  shows "transport_ok sent (transport_close t)"
proof (cases "tt_closing t")
  case True
  with assms show ?thesis by (simp add: transport_close_def)
next
  case False
  then obtain ds where "tt_callbacks t = Connection_Made # map Data_Received ds"
    using assms protocol_ok_open by (auto simp: transport_ok_def)
  then have "protocol_ok (transport_close t)"
    using False by (intro protocol_okI [of _ ds "[Connection_Lost None]"])
      (auto simp: transport_close_def call_protocol_def final_calls_def)
  moreover have "queue_ok sent (transport_close t)"
    using assms False subseq_front by (auto simp: transport_ok_def queue_ok_def transport_close_def call_protocol_def)
  ultimately show ?thesis by (simp add: transport_ok_def)
qed

lemma react_ok: "transport_ok sent t \<Longrightarrow> transport_ok sent (react acts t)"
  by (induction acts t rule: react.induct) (simp_all add: transport_write_ok transport_close_ok)

lemma react_closing: "tt_closing t \<Longrightarrow> react acts t = t"
  by (induction acts t rule: react.induct) (simp_all add: transport_write_def transport_close_def)

lemma queue_ok_fields:
  "tt_write_tasks t' = tt_write_tasks t \<Longrightarrow> tt_taken t' = tt_taken t \<Longrightarrow> (tt_closing t \<Longrightarrow> tt_closing t') \<Longrightarrow>
   queue_ok sent t \<Longrightarrow> queue_ok sent t'"
  by (auto simp: queue_ok_def no_failure_def)

lemma transport_ok_fields:
  assumes "transport_ok sent t" "tt_callbacks t' = tt_callbacks t" "tt_closing t' = tt_closing t"
    and "tt_write_tasks t' = tt_write_tasks t" "tt_taken t' = tt_taken t"
  shows "transport_ok sent t'"
  using assms by (simp add: transport_ok_def protocol_ok_def queue_ok_def no_failure_def)

lemma end_of_stream_ok:
  assumes "transport_ok sent t" "\<not> tt_closing t"
  shows "transport_ok sent (end_of_stream rs t)"
proof -
  obtain ds where ds: "tt_callbacks t = Connection_Made # map Data_Received ds"
    using assms protocol_ok_open by (auto simp: transport_ok_def)
  have "queue_ok sent (end_of_stream rs t)"
    using assms by (intro queue_ok_fields [of "end_of_stream rs t" t])
      (auto simp: transport_ok_def end_of_stream_def react_closing call_protocol_def Let_def split: sum.splits)
  moreover have "protocol_ok (end_of_stream rs t)"
    by (rule protocol_okI [of _ ds "if rs_result rs = Inr False then [Eof_Received, Connection_Lost None] else [Eof_Received]"])
      (use ds in \<open>auto simp: end_of_stream_def react_closing call_protocol_def final_calls_def Let_def split: sum.splits\<close>)
  ultimately show ?thesis by (simp add: transport_ok_def)
qed

lemma called_ok: "transport_ok sent t \<Longrightarrow> \<not> tt_closing t \<Longrightarrow> transport_ok sent (call_protocol (Data_Received data) t)"
proof -
  assume a: "transport_ok sent t" "\<not> tt_closing t"
  then obtain ds where "tt_callbacks t = Connection_Made # map Data_Received ds"
    by (auto simp: transport_ok_def protocol_ok_def)
  then have "protocol_ok (call_protocol (Data_Received data) t)"
    using a(2) by (intro protocol_okI [of _ "ds @ [data]" "[]"]) (simp_all add: call_protocol_def)
  moreover have "queue_ok sent (call_protocol (Data_Received data) t)"
    using a by (intro queue_ok_fields [of "call_protocol (Data_Received data) t" t]) (simp_all add: call_protocol_def transport_ok_def)
  ultimately show ?thesis by (simp add: transport_ok_def)
qed

lemma data_arrived_ok:
  assumes "transport_ok sent t" "\<not> tt_closing t"
  shows "transport_ok sent (data_arrived rs data t)"
proof -
  define t1 where "t1 = react (rs_actions rs) (call_protocol (Data_Received data) t)"
  have t1: "transport_ok sent t1" unfolding t1_def by (intro react_ok called_ok assms)
  have "transport_ok sent ((if tt_closing t1 then t1 else call_protocol (Connection_Lost (Some e)) (t1\<lparr>tt_closing := True\<rparr>))
      \<lparr>tt_read_task := Ended\<rparr>)" for e
  proof (cases "tt_closing t1")
    case True
    then show ?thesis using transport_ok_fields [OF t1] by simp
  next
    case False
    then obtain ds where "tt_callbacks t1 = Connection_Made # map Data_Received ds"
      using t1 protocol_ok_open by (auto simp: transport_ok_def)
    then have "protocol_ok ((call_protocol (Connection_Lost (Some e)) (t1\<lparr>tt_closing := True\<rparr>))\<lparr>tt_read_task := Ended\<rparr>)"
      by (intro protocol_okI [of _ ds "[Connection_Lost (Some e)]"]) (auto simp: call_protocol_def final_calls_def)
    with False t1 show ?thesis by (simp add: transport_ok_def queue_ok_def no_failure_def call_protocol_def)
  qed
  with t1 show ?thesis by (auto simp: data_arrived_def t1_def [symmetric] Let_def split: sum.splits)
qed

lemma read_round_ok:
  assumes "read_round rs (t, b) = Some (t', b')" "transport_ok sent t"
  shows "transport_ok sent t'"
proof (cases "tt_closing t")
  case True
  with assms(1) have "t' = t\<lparr>tt_read_task := Ended\<rparr>" by (simp add: read_round_def)
  then show ?thesis using transport_ok_fields [OF assms(2)] by simp
next
  case False
  with assms show ?thesis
    by (auto simp: read_round_def bind_eq_Some_conv intro: end_of_stream_ok data_arrived_ok split: if_splits)
qed

lemma send_ok:
  assumes "transport_ok sent t" "tt_write_tasks t = before @ (data, Waiting) # after" "\<forall>w \<in> set before. snd w \<noteq> Waiting"
  shows "transport_ok (sent @ [data]) (t\<lparr>tt_write_tasks := before @ (data, Draining) # after\<rparr>)"
    and "transport_ok sent (t\<lparr>tt_write_tasks := before @ (data, Done (Some e)) # after\<rparr>)"
proof -
  have f: "filter (\<lambda>w. snd w = Waiting) before = []" using assms(3) by (simp add: filter_empty_conv)
  have p: "protocol_ok (t\<lparr>tt_write_tasks := ws\<rparr>)" for ws
    using assms(1) by (simp add: transport_ok_def protocol_ok_def)
  show "transport_ok (sent @ [data]) (t\<lparr>tt_write_tasks := before @ (data, Draining) # after\<rparr>)"
    using assms(1,2) f p by (simp add: transport_ok_def queue_ok_def no_failure_def ball_Un)
  have "subseq (sent @ map fst (filter (\<lambda>w. snd w = Waiting) after)) (sent @ data # map fst (filter (\<lambda>w. snd w = Waiting) after))"
    by (intro list_emb_append_mono) auto
  then have "subseq (sent @ map fst (filter (\<lambda>w. snd w = Waiting) after)) (tt_taken t)"
    using assms(1,2) f by (auto simp: transport_ok_def queue_ok_def elim: subseq_order.trans)
  then show "transport_ok sent (t\<lparr>tt_write_tasks := before @ (data, Done (Some e)) # after\<rparr>)"
    using f p by (auto simp: transport_ok_def queue_ok_def no_failure_def)
qed

lemma write_done_ok:
  assumes "transport_ok sent t" "i < length (tt_write_tasks t)" "snd (tt_write_tasks t ! i) = Done failure"
  shows "transport_ok sent (transport_write_done i t)"
proof -
  obtain before x after where w: "tt_write_tasks t = before @ x # after" "length before = i"
    using id_take_nth_drop [OF assms(2)] assms(2) by (metis length_take less_imp_le min_absorb2)
  let ?t = "t\<lparr>tt_write_tasks := before @ after\<rparr>"
  have x: "snd x = Done failure" using assms(3) w by (simp add: nth_append)
  have d: "transport_write_done i t = (case failure of Some e \<Rightarrow> transport_close ?t | None \<Rightarrow> ?t)"
    using w x by (simp add: transport_write_done_def nth_append split: option.split)
  show ?thesis
  proof (cases failure)
    case None
    then show ?thesis
      using assms(1) d w(1) x by (auto simp: transport_ok_def protocol_ok_def queue_ok_def no_failure_def)
  next
    case (Some e)
    have "transport_close ?t = (if tt_closing t then ?t else transport_close t)"
      by (simp add: transport_close_def call_protocol_def)
    moreover have "transport_ok sent ?t" if "tt_closing t"
      using that assms(1) w(1) x by (simp add: transport_ok_def protocol_ok_def queue_ok_def)
    ultimately show ?thesis using d Some transport_close_ok [OF assms(1)] by simp
  qed
qed

lemma drained_ok:
  assumes "transport_ok sent t" "tt_write_tasks t = before @ (data, Draining) # after"
  shows "transport_ok sent (t\<lparr>tt_write_tasks := before @ (data, Done failure) # after\<rparr>)"
  using assms by (auto simp: transport_ok_def protocol_ok_def queue_ok_def no_failure_def)

lemma transport_step_ok:
  "transport_step r r' \<Longrightarrow> transport_ok (tr_sent r) (tr_transport r) \<Longrightarrow> transport_ok (tr_sent r') (tr_transport r')"
proof (induction rule: transport_step.induct)
  case (act r acts)
  then show ?case by (simp add: react_ok)
next
  case (read r rs t b)
  then show ?case using read_round_ok by simp
next
  case (send r before data after request_id res b)
  then show ?case using send_ok [of "tr_sent r" "tr_transport r" before data after] by (cases res) simp_all
next
  case (drained r before data after failure)
  then show ?case using drained_ok by simp
next
  case (write_done i r failure)
  then show ?case using write_done_ok by simp
next
  case (close_stream r request_id res b)
  then show ?case using transport_ok_fields by simp
next
  case (others r b)
  then show ?case by simp
qed

lemma created_ok: "create_connection made ref port = Inr t \<Longrightarrow> transport_ok [] t"
proof -
  assume c: "create_connection made ref port = Inr t"
  let ?t0 = "call_protocol Connection_Made (new_transport ref (str ''127.0.0.1'', port))"
  have "transport_ok [] ?t0"
    by (auto simp: transport_ok_def queue_ok_def no_failure_def call_protocol_def new_transport_def
        intro!: protocol_okI [of _ "[]" "[]"])
  then have "transport_ok [] (react (rs_actions made) ?t0)" by (rule react_ok)
  then show "transport_ok [] t"
    using c transport_ok_fields by (auto simp: create_connection_def Let_def rbind_eq_Inr transport_start_def)
qed

lemma reachable_ok: "transport_reachable r \<Longrightarrow> transport_ok (tr_sent r) (tr_transport r)"
  by (induction rule: transport_reachable.induct) (simp_all add: created_ok transport_step_ok)

text \<open>C36: the transport keeps asyncio's contract with its protocol, in every interleaving.  The protocol
  is called with \<open>connection_made\<close> first, then data, then, once the transport is closing, \<open>connection_lost\<close> or
  \<open>eof_received\<close>, at most once each and nothing after them.  The frames on the channel carry the writes it
  took in their order, none twice; while it is not closing and no write has failed, none is missing but
  those whose task has not started.\<close>

theorem transport_keeps_the_contract:
  assumes "transport_reachable r"
  shows "(\<exists>ds tail. tt_callbacks (tr_transport r) = Connection_Made # map Data_Received ds @ tail \<and>
       (if tt_closing (tr_transport r)
        then (\<exists>x. tail = [Connection_Lost x]) \<or> tail = [Eof_Received] \<or> tail = [Eof_Received, Connection_Lost None]
        else tail = [])) \<and>
     subseq (tr_sent r) (tt_taken (tr_transport r)) \<and>
     (\<not> tt_closing (tr_transport r) \<and> (\<forall>w \<in> set (tt_write_tasks (tr_transport r)). \<forall>e. snd w \<noteq> Done (Some e)) \<longrightarrow>
        tt_taken (tr_transport r) = tr_sent r @ map fst (filter (\<lambda>w. snd w = Waiting) (tt_write_tasks (tr_transport r))))"
proof -
  note ok = reachable_ok [OF assms, unfolded transport_ok_def]
  show ?thesis
    using ok [THEN conjunct1, unfolded protocol_ok_def final_calls_def]
      ok [THEN conjunct2, unfolded queue_ok_def no_failure_def]
    by (intro conjI) (assumption | elim conjE | rule subseq_front)+
qed

definition sample_ref :: stream_ref where
  "sample_ref = ([], str ''c'')"

definition sample_stream_broker :: ServerTunnelBroker where
  "sample_stream_broker = \<lparr>bk_max_sessions = 1, bk_heartbeat_seconds = 15, bk_max_frame_bytes = 4096, bk_registry = Map.empty,
     bk_connections = Map.empty, bk_channel_agents = Map.empty, bk_conns = Map.empty,
     bk_streams = [sample_ref \<mapsto> \<lparr>bs_agent_id = 1, bs_channel_id = str ''c'', bs_buffer = [7], bs_closed = False\<rparr>],
     bk_written = (\<lambda>_. []), bk_writer_closed = {}\<rparr>"

definition quiet :: response where
  "quiet = \<lparr>rs_actions = [], rs_result = Inr False\<rparr>"

definition raising :: response where
  "raising = \<lparr>rs_actions = [Do_Write [1]], rs_result = Inl (ValueError [])\<rparr>"

definition sample_transport :: BrokerTunnelTransport where
  "sample_transport = transport_start (call_protocol Connection_Made (new_transport sample_ref (str ''127.0.0.1'', 22)))"

lemma sample_transport_made: "create_connection quiet sample_ref 22 = Inr sample_transport"
  by (simp add: create_connection_def quiet_def sample_transport_def)

lemma sample_read:
  "read_round raising (sample_transport, sample_stream_broker) = Some (data_arrived raising [7] sample_transport,
     update_stream sample_ref (\<lambda>_. \<lparr>bs_agent_id = 1, bs_channel_id = str ''c'', bs_buffer = [], bs_closed = False\<rparr>) sample_stream_broker)"
  by (simp add: read_round_def sample_transport_def transport_start_def call_protocol_def new_transport_def
      sample_stream_broker_def stream_read_def)

theorem transport_keeps_the_contract_witness:
  "\<exists>r. transport_reachable r \<and> tt_callbacks (tr_transport r) =
     [Connection_Made, Data_Received [7], Connection_Lost (Some (ValueError []))] \<and> subseq (tr_sent r) (tt_taken (tr_transport r))"
proof -
  let ?r0 = "\<lparr>tr_transport = sample_transport, tr_broker = sample_stream_broker, tr_sent = []\<rparr>"
  let ?r1 = "?r0\<lparr>tr_transport := data_arrived raising [7] sample_transport, tr_broker := snd (the (read_round raising (sample_transport, sample_stream_broker)))\<rparr>"
  have 0: "transport_reachable ?r0" by (rule transport_reachable.made [OF sample_transport_made])
  have "transport_step ?r0 ?r1"
    by (rule transport_step.read [where rs = raising]) (simp_all add: sample_read, simp add: sample_transport_def transport_start_def)
  with 0 have 1: "transport_reachable ?r1" by (rule transport_reachable.step)
  from transport_keeps_the_contract [OF 1] have "subseq (tr_sent ?r1) (tt_taken (tr_transport ?r1))" by (elim conjE)
  moreover have "tt_callbacks (tr_transport ?r1) = [Connection_Made, Data_Received [7], Connection_Lost (Some (ValueError []))]"
    by (simp add: data_arrived_def raising_def sample_transport_def transport_start_def call_protocol_def new_transport_def
        transport_write_def Let_def)
  ultimately show ?thesis using 1 by blast
qed

text \<open>Once the reader has ended the transport, nothing closes the stream.\<close>

definition ended_by_reader :: "BrokerTunnelTransport \<Rightarrow> bool" where
  "ended_by_reader t \<longleftrightarrow> tt_closing t \<and> tt_close_task t = None"

lemma ended_by_reader_cong:
  "tt_closing t' = tt_closing t \<Longrightarrow> tt_close_task t' = tt_close_task t \<Longrightarrow> ended_by_reader t \<Longrightarrow> ended_by_reader t'"
  by (simp add: ended_by_reader_def)

lemma ended_step: "transport_step r r' \<Longrightarrow> ended_by_reader (tr_transport r) \<Longrightarrow> ended_by_reader (tr_transport r')"
proof (induction rule: transport_step.induct)
  case (act r acts)
  then show ?case by (simp add: ended_by_reader_def react_closing)
next
  case (read r rs t b)
  then have "t = (tr_transport r)\<lparr>tt_read_task := Ended\<rparr>" by (simp add: read_round_def ended_by_reader_def)
  with read show ?case by (simp add: ended_by_reader_def)
next
  case (write_done i r failure)
  then show ?case
    by (simp add: ended_by_reader_def transport_write_done_def transport_close_def Let_def split: option.split)
next
  case (close_stream r request_id res b)
  then show ?case by (simp add: ended_by_reader_def)
qed (simp_all add: ended_by_reader_def)

lemma ended_steps:
  assumes "transport_step\<^sup>*\<^sup>* r r'" "ended_by_reader (tr_transport r)"
  shows "ended_by_reader (tr_transport r')"
  using assms
proof (induction rule: rtranclp_induct)
  case (step y z)
  then show ?case by (intro ended_step [OF step.hyps(2)])
qed

lemma react_no_close: "Do_Close \<notin> set acts \<Longrightarrow> tt_close_task (react acts t) = tt_close_task t \<and> tt_closing (react acts t) = tt_closing t"
  by (induction acts t rule: react.induct) (simp_all add: transport_write_def)

lemma end_of_stream_ends: "tt_close_task t = None \<Longrightarrow> ended_by_reader (end_of_stream rs t)"
  by (simp add: ended_by_reader_def end_of_stream_def react_closing call_protocol_def Let_def split: sum.split)

lemma data_arrived_ends:
  assumes "tt_close_task t = None" "Do_Close \<notin> set (rs_actions rs)" "tt_closing (data_arrived rs data t)"
  shows "ended_by_reader (data_arrived rs data t)"
  using assms react_no_close [OF assms(2), of "call_protocol (Data_Received data) t"]
  by (simp add: ended_by_reader_def data_arrived_def call_protocol_def Let_def split: sum.splits)

lemma read_round_ends:
  assumes "read_round rs (t, b) = Some (t', b')" "\<not> tt_closing t" "tt_close_task t = None" "Do_Close \<notin> set (rs_actions rs)" "tt_closing t'"
  shows "ended_by_reader t'"
proof -
  obtain data where "t' = (if data = [] then end_of_stream rs t else data_arrived rs data t)"
    using assms(1,2) by (auto simp: read_round_def bind_eq_Some_conv)
  with assms(3-5) show ?thesis using end_of_stream_ends data_arrived_ends by (cases "data = []") simp_all
qed

lemma react_close_task: "(tt_close_task t \<noteq> None \<longrightarrow> tt_closing t) \<Longrightarrow>
    tt_close_task (react acts t) \<noteq> None \<longrightarrow> tt_closing (react acts t)"
  by (induction acts t rule: react.induct) (auto simp: transport_write_def transport_close_def call_protocol_def)

lemma close_task_step:
  "transport_step r r' \<Longrightarrow> tt_close_task (tr_transport r) \<noteq> None \<longrightarrow> tt_closing (tr_transport r) \<Longrightarrow>
   tt_close_task (tr_transport r') \<noteq> None \<longrightarrow> tt_closing (tr_transport r')"
proof (induction rule: transport_step.induct)
  case (act r acts)
  then show ?case using react_close_task by simp
next
  case (read r rs t b)
  have "tt_close_task (react acts u) \<noteq> None \<longrightarrow> tt_closing (react acts u)"
    if "\<not> tt_closing (tr_transport r)" "tt_close_task u = tt_close_task (tr_transport r)" for acts u
    using react_close_task [of u acts] that read.prems by auto
  with read show ?case
    by (auto simp: read_round_def end_of_stream_def data_arrived_def call_protocol_def bind_eq_Some_conv react_closing
        Let_def split: if_splits sum.splits)
qed (auto simp: transport_write_done_def transport_close_def call_protocol_def Let_def split: write_task.split option.split)

lemma open_has_no_close_task:
  assumes "transport_reachable r" "\<not> tt_closing (tr_transport r)"
  shows "tt_close_task (tr_transport r) = None"
proof -
  have "tt_close_task (tr_transport r) \<noteq> None \<longrightarrow> tt_closing (tr_transport r)"
    using assms(1)
  proof induction
    case (made made ref port t b)
    then show ?case
      using react_close_task [of "call_protocol Connection_Made (new_transport ref (str ''127.0.0.1'', port))" "rs_actions made"]
      by (auto simp: create_connection_def Let_def rbind_eq_Inr transport_start_def call_protocol_def new_transport_def)
  next
    case (step r r')
    then show ?case using close_task_step by blast
  qed
  with assms(2) show ?thesis by blast
qed

text \<open>C37: a transport whose reader ends it never closes its channel.  If a round of the reader puts the
  transport into the closing state and the protocol did not call \<open>close\<close> in it, because the stream ended or
  the protocol raised, then whatever happens later, no close of the stream is ever started, and
  \<open>close\<close> and \<open>abort\<close> do nothing: the broker keeps the channel until the tunnel ends.\<close>

theorem reader_end_leaves_the_channel_open:
  assumes "transport_reachable r" "\<not> tt_closing (tr_transport r)"
    and "read_round rs (tr_transport r, tr_broker r) = Some (t, b)" "tt_closing t" "Do_Close \<notin> set (rs_actions rs)"
    and "transport_step\<^sup>*\<^sup>* (r\<lparr>tr_transport := t, tr_broker := b\<rparr>) r'"
  shows "tt_close_task (tr_transport r') = None \<and> transport_close (tr_transport r') = tr_transport r' \<and>
    transport_abort (tr_transport r') = tr_transport r'"
proof -
  have "ended_by_reader t"
    using assms(2-5) open_has_no_close_task [OF assms(1)] by (intro read_round_ends) auto
  then have "ended_by_reader (tr_transport r')" using ended_steps [OF assms(6)] by simp
  then show ?thesis by (simp add: ended_by_reader_def transport_close_def transport_abort_def)
qed

theorem reader_end_leaves_the_channel_open_witness:
  "transport_close (data_arrived raising [7] sample_transport) = data_arrived raising [7] sample_transport"
proof -
  let ?r0 = "\<lparr>tr_transport = sample_transport, tr_broker = sample_stream_broker, tr_sent = []\<rparr>"
  have 0: "transport_reachable ?r0" by (rule transport_reachable.made [OF sample_transport_made])
  have c: "\<not> tt_closing sample_transport" "tt_closing (data_arrived raising [7] sample_transport)"
    by (simp_all add: data_arrived_def raising_def sample_transport_def transport_start_def call_protocol_def new_transport_def
        transport_write_def Let_def)
  have "Do_Close \<notin> set (rs_actions raising)" by (simp add: raising_def)
  with reader_end_leaves_the_channel_open [OF 0 _ _ _ _ rtranclp.rtrancl_refl, of raising "data_arrived raising [7] sample_transport"
      "update_stream sample_ref (\<lambda>_. \<lparr>bs_agent_id = 1, bs_channel_id = str ''c'', bs_buffer = [], bs_closed = False\<rparr>) sample_stream_broker"]
  show ?thesis using sample_read c by simp
qed

end
