(* ===== verification/Server_Runtime.thy ===== *)
theory Server_Runtime
  imports Server_Main
begin

text \<open>
  \<open>server/health.py\<close>, and the start and the end of \<open>_run_server_runtime\<close> in \<open>server/main.py\<close>: which of its
  calls may fail, in which order they come, what they leave open, and what the \<open>finally\<close> block releases.
  The outcome of every call is an argument; how the objects it builds work together is in
  \<open>Server_Main\<close>.
\<close>

section \<open>Health, readiness and metrics\<close>

record HealthSnapshot =
  hs_database_ready :: bool
  hs_replay_ready :: bool
  hs_tunnel_ready :: bool
  hs_live_tunnels :: int
  hs_active_sessions :: int
  hs_failed_enrollments :: int
  hs_failed_logins :: int
  hs_issued_certificates :: int
  hs_replay_write_failures :: int
  hs_auth_provider_failures :: int

definition health_payload :: "HealthSnapshot \<Rightarrow> json" where
  "health_payload snapshot = JObj
     [(str ''status'', JStr (str ''ok'')),
      (str ''tunnel'', JStr (if hs_tunnel_ready snapshot then str ''ready'' else str ''degraded''))]"

definition snapshot_ready :: "HealthSnapshot \<Rightarrow> bool" where
  "snapshot_ready snapshot \<longleftrightarrow> hs_database_ready snapshot \<and> hs_replay_ready snapshot \<and> hs_tunnel_ready snapshot"

definition readiness_payload :: "HealthSnapshot \<Rightarrow> json" where
  "readiness_payload snapshot = JObj
     [(str ''ready'', JBool (snapshot_ready snapshot)),
      (str ''dependencies'', JObj
         [(str ''database'', JBool (hs_database_ready snapshot)),
          (str ''replay'', JBool (hs_replay_ready snapshot)),
          (str ''tunnel'', JBool (hs_tunnel_ready snapshot))])]"

definition metric_line :: "string \<Rightarrow> int \<Rightarrow> pystr" where
  "metric_line name v = str name @ 32 # show_int v"

definition render_metrics :: "HealthSnapshot \<Rightarrow> pystr" where
  "render_metrics snapshot = join [10]
     [metric_line ''vibeconnect_live_tunnels'' (hs_live_tunnels snapshot),
      metric_line ''vibeconnect_active_sessions'' (hs_active_sessions snapshot),
      metric_line ''vibeconnect_failed_enrollments'' (hs_failed_enrollments snapshot),
      metric_line ''vibeconnect_failed_logins'' (hs_failed_logins snapshot),
      metric_line ''vibeconnect_issued_certificates'' (hs_issued_certificates snapshot),
      metric_line ''vibeconnect_replay_write_failures'' (hs_replay_write_failures snapshot),
      metric_line ''vibeconnect_auth_provider_failures'' (hs_auth_provider_failures snapshot)] @ [10]"

text \<open>The answers of the three routes: a status and a body.\<close>

definition get_health :: "HealthSnapshot \<Rightarrow> int \<times> json" where
  "get_health snapshot = (200, health_payload snapshot)"

definition get_ready :: "HealthSnapshot \<Rightarrow> int \<times> json" where
  "get_ready snapshot = (if snapshot_ready snapshot then 200 else 503, readiness_payload snapshot)"

definition get_metrics :: "HealthSnapshot \<Rightarrow> int \<times> pystr" where
  "get_metrics snapshot = (200, render_metrics snapshot)"

text \<open>The one snapshot the runtime builds.\<close>

definition runtime_snapshot :: "bool \<Rightarrow> HealthSnapshot" where
  "runtime_snapshot replay_directory_exists =
     \<lparr>hs_database_ready = True, hs_replay_ready = replay_directory_exists, hs_tunnel_ready = True,
      hs_live_tunnels = 0, hs_active_sessions = 0, hs_failed_enrollments = 0, hs_failed_logins = 0,
      hs_issued_certificates = 0, hs_replay_write_failures = 0, hs_auth_provider_failures = 0\<rparr>"

section \<open>The runtime\<close>

datatype resource = Pool | Tunnel_Listener | Enrollment_Runner | Metrics_Runner | Ssh_Listener

text \<open>The calls of the runtime that may raise, by what they are for.\<close>

datatype runtime_call =
    Create_Pool | Pool_Acquire | Migrate | Load_Ca_Key | Load_Ca_Cert | New_Broker | Tunnel_Tls | Start_Tunnel
  | Read_Tunnel_Ca | Read_Enrollment_Ca | Https_Tls | Check_Api | Setup_Enrollment | Bind_Enrollment
  | Load_User_Ca | Read_Integrity_Key | New_Opener | Check_Metrics | Setup_Metrics | Bind_Metrics | Start_Ssh | Wait_Forever
  | Close_Listener resource | Wait_Closed resource | Cleanup resource | Close_Pool

record runtime =
  rt_open :: "resource set"
  rt_listeners :: "resource list"
  rt_enrollment_runner :: bool
  rt_metrics_runner :: bool
  rt_calls :: "runtime_call list"

definition new_runtime :: runtime where
  "new_runtime = \<lparr>rt_open = {}, rt_listeners = [], rt_enrollment_runner = False, rt_metrics_runner = False, rt_calls = []\<rparr>"

text \<open>
  What a call that returns changes: what is open, and the local variables of the \<open>finally\<close> block.  A runner
  is open once it is set up; the variable has it once its site has started.
\<close>

fun call_effect :: "runtime_call \<Rightarrow> runtime \<Rightarrow> runtime" where
  "call_effect Create_Pool s = s\<lparr>rt_open := insert Pool (rt_open s)\<rparr>"
| "call_effect Start_Tunnel s =
     s\<lparr>rt_open := insert Tunnel_Listener (rt_open s), rt_listeners := rt_listeners s @ [Tunnel_Listener]\<rparr>"
| "call_effect Setup_Enrollment s = s\<lparr>rt_open := insert Enrollment_Runner (rt_open s)\<rparr>"
| "call_effect Bind_Enrollment s = s\<lparr>rt_enrollment_runner := True\<rparr>"
| "call_effect Setup_Metrics s = s\<lparr>rt_open := insert Metrics_Runner (rt_open s)\<rparr>"
| "call_effect Bind_Metrics s = s\<lparr>rt_metrics_runner := True\<rparr>"
| "call_effect Start_Ssh s =
     s\<lparr>rt_open := insert Ssh_Listener (rt_open s), rt_listeners := rt_listeners s @ [Ssh_Listener]\<rparr>"
| "call_effect (Close_Listener r) s = s\<lparr>rt_open := rt_open s - {r}\<rparr>"
| "call_effect (Cleanup r) s = s\<lparr>rt_open := rt_open s - {r}\<rparr>"
| "call_effect Close_Pool s = s\<lparr>rt_open := rt_open s - {Pool}\<rparr>"
| "call_effect c s = s"

definition do_call :: "(runtime_call \<Rightarrow> unit result) \<Rightarrow> runtime_call \<Rightarrow> (runtime, unit) op" where
  "do_call env c s = (let s' = s\<lparr>rt_calls := rt_calls s @ [c]\<rparr> in
     case env c of Inl e \<Rightarrow> (Inl e, s') | Inr _ \<Rightarrow> (Inr (), call_effect c s'))"

fun do_calls :: "(runtime_call \<Rightarrow> unit result) \<Rightarrow> runtime_call list \<Rightarrow> (runtime, unit) op" where
  "do_calls env [] = sret ()"
| "do_calls env (c # cs) = sbind (do_call env c) (\<lambda>_. do_calls env cs)"

text \<open>\<open>try: m finally: f\<close>.\<close>

definition sfinally :: "('s, 'a) op \<Rightarrow> ('s, unit) op \<Rightarrow> ('s, 'a) op" where
  "sfinally m f s = (case m s of (r, s1) \<Rightarrow> (case f s1 of (Inl e, s2) \<Rightarrow> (Inl e, s2) | (Inr _, s2) \<Rightarrow> (r, s2)))"

definition start_calls :: "runtime_call list" where
  "start_calls = [Pool_Acquire, Migrate, Load_Ca_Key, Load_Ca_Cert, New_Broker, Tunnel_Tls, Start_Tunnel,
     Read_Tunnel_Ca, Read_Enrollment_Ca, Https_Tls, Check_Api, Setup_Enrollment, Bind_Enrollment,
     Load_User_Ca, Read_Integrity_Key, New_Opener, Check_Metrics, Setup_Metrics, Bind_Metrics, Start_Ssh, Wait_Forever]"

definition release_calls :: "runtime \<Rightarrow> runtime_call list" where
  "release_calls s =
     concat (map (\<lambda>r. [Close_Listener r, Wait_Closed r]) (rt_listeners s)) @
     (if rt_enrollment_runner s then [Cleanup Enrollment_Runner] else []) @
     (if rt_metrics_runner s then [Cleanup Metrics_Runner] else []) @ [Close_Pool]"

definition run_server_runtime :: "(runtime_call \<Rightarrow> unit result) \<Rightarrow> bool \<Rightarrow> (runtime, unit) op" where
  "run_server_runtime env pool_is_none =
     (if pool_is_none then sraise (RuntimeError ''database pool was not created'')
      else sbind (do_call env Create_Pool) (\<lambda>_.
        sfinally (do_calls env start_calls) (\<lambda>s. do_calls env (release_calls s) s)))"

section \<open>What a run leaves open\<close>

definition returned :: "runtime_call \<Rightarrow> runtime \<Rightarrow> runtime" where
  "returned c s = call_effect c (s\<lparr>rt_calls := rt_calls s @ [c]\<rparr>)"

lemma do_calls_ok: "\<forall>c \<in> set cs. env c = Inr () \<Longrightarrow> do_calls env cs s = (Inr (), fold returned cs s)"
  by (induction cs arbitrary: s) (simp_all add: sbind_def do_call_def returned_def Let_def)

text \<open>A sequence of calls stops at the first that raises.\<close>

lemma do_calls_cases:
  assumes "do_calls env cs s = (r, s')"
  obtains (all) "\<forall>c \<in> set cs. env c = Inr ()" "r = Inr ()" "s' = fold returned cs s"
    | (stops) e before c after where "cs = before @ c # after" "\<forall>d \<in> set before. env d = Inr ()" "env c = Inl e" "r = Inl e"
        "s' = (fold returned before s)\<lparr>rt_calls := rt_calls (fold returned before s) @ [c]\<rparr>"
proof -
  have "(\<forall>c \<in> set cs. env c = Inr ()) \<and> r = Inr () \<and> s' = fold returned cs s \<or>
    (\<exists>e before c after. cs = before @ c # after \<and> (\<forall>d \<in> set before. env d = Inr ()) \<and> env c = Inl e \<and> r = Inl e \<and>
       s' = (fold returned before s)\<lparr>rt_calls := rt_calls (fold returned before s) @ [c]\<rparr>)"
    using assms
  proof (induction cs arbitrary: s)
    case (Cons c cs)
    show ?case
    proof (cases "env c")
      case (Inl e)
      with Cons.prems show ?thesis
        by (intro disjI2 exI [of _ e] exI [of _ "[]"] exI [of _ c] exI [of _ cs]) (simp add: sbind_def do_call_def Let_def)
    next
      case (Inr u)
      then have "do_calls env cs (returned c s) = (r, s')"
        using Cons.prems by (simp add: sbind_def do_call_def returned_def Let_def)
      from Cons.IH [OF this] show ?thesis
      proof (elim disjE exE conjE)
        fix e before d after
        assume h: "cs = before @ d # after" "\<forall>d \<in> set before. env d = Inr ()" "env d = Inl e" "r = Inl e"
          "s' = (fold returned before (returned c s))\<lparr>rt_calls := rt_calls (fold returned before (returned c s)) @ [d]\<rparr>"
        then show ?thesis using Inr
          by (intro disjI2 exI [of _ e] exI [of _ "c # before"] exI [of _ d] exI [of _ after]) simp
      qed (use Inr in auto)
    qed
  qed simp
  then show thesis using all stops by blast
qed

definition tidy :: "runtime \<Rightarrow> bool" where
  "tidy s \<longleftrightarrow> rt_open s = insert Pool (set (rt_listeners s) \<union> (if rt_enrollment_runner s then {Enrollment_Runner} else {}) \<union>
     (if rt_metrics_runner s then {Metrics_Runner} else {}))"

lemma release_tidy:
  assumes "\<And>x. env (Close_Listener x) = Inr ()" "\<And>x. env (Wait_Closed x) = Inr ()" "\<And>x. env (Cleanup x) = Inr ()"
    "env Close_Pool = Inr ()"
  shows "\<exists>s'. do_calls env (release_calls s) s = (Inr (), s') \<and>
    rt_open s' = rt_open s - insert Pool (set (rt_listeners s) \<union> (if rt_enrollment_runner s then {Enrollment_Runner} else {}) \<union>
      (if rt_metrics_runner s then {Metrics_Runner} else {})) \<and> (\<exists>cs. rt_calls s' = rt_calls s @ cs \<and> set cs \<inter> set start_calls = {})"
proof -
  have l: "rt_open (fold returned (concat (map (\<lambda>r. [Close_Listener r, Wait_Closed r]) rs)) t) = rt_open t - set rs" for rs t
    by (induction rs arbitrary: t) (auto simp: returned_def)
  have c: "rt_calls (fold returned cs t) = rt_calls t @ cs" for cs t
  proof (induction cs arbitrary: t)
    case (Cons x cs)
    then show ?case by (cases x) (simp_all add: returned_def)
  qed simp
  have e: "\<forall>x \<in> set (release_calls s). env x = Inr ()"
    using assms by (auto simp: release_calls_def split: if_splits)
  have o: "rt_open (fold returned (release_calls s) s) = rt_open s - insert Pool (set (rt_listeners s) \<union>
      (if rt_enrollment_runner s then {Enrollment_Runner} else {}) \<union> (if rt_metrics_runner s then {Metrics_Runner} else {}))"
    by (auto simp: release_calls_def l returned_def)
  have "set (release_calls s) \<inter> set start_calls = {}" by (auto simp: release_calls_def start_calls_def split: if_splits)
  with do_calls_ok [OF e, of s] o c show ?thesis by auto
qed

lemma find_append_none: "\<forall>x \<in> set xs. \<not> P x \<Longrightarrow> find P (xs @ ys) = find P ys"
  by (induction xs) simp_all

lemma prefix_is_take: "xs = before @ c # after \<Longrightarrow> length before < length xs \<and> before = take (length before) xs \<and> c = xs ! length before"
  by simp

text \<open>What is open when the start stops before call \<open>c\<close>: the runner of a site that does not start is nowhere registered.\<close>

definition untracked :: "runtime_call \<Rightarrow> resource set" where
  "untracked c = (if c = Bind_Enrollment then {Enrollment_Runner} else if c = Bind_Metrics then {Metrics_Runner} else {})"

lemma start_state:
  assumes "start_calls = before @ c # after" "t = fold returned before (returned Create_Pool new_runtime)"
  shows "rt_open t - insert Pool (set (rt_listeners t) \<union> (if rt_enrollment_runner t then {Enrollment_Runner} else {}) \<union>
      (if rt_metrics_runner t then {Metrics_Runner} else {})) = untracked c \<and> rt_calls t = Create_Pool # before"
proof -
  define k where "k = length before"
  have k: "before = take k start_calls" "c = start_calls ! k" "k < 21"
    using prefix_is_take [OF assms(1)] by (simp_all add: k_def start_calls_def)
  have "k \<in> {0, 1, 2, 3, 4, 5, 6, 7, 8, 9, 10, 11, 12, 13, 14, 15, 16, 17, 18, 19, 20}" using k(3) unfolding insert_iff empty_iff by presburger
  then show ?thesis
    unfolding assms(2) k(1,2)
    by (elim insertE emptyE) (simp_all add: start_calls_def returned_def new_runtime_def untracked_def insert_commute, auto)
qed

lemma started_state:
  assumes "t = fold returned start_calls (returned Create_Pool new_runtime)"
  shows "rt_open t - insert Pool (set (rt_listeners t) \<union> (if rt_enrollment_runner t then {Enrollment_Runner} else {}) \<union>
      (if rt_metrics_runner t then {Metrics_Runner} else {})) = {} \<and> rt_calls t = Create_Pool # start_calls"
  unfolding assms by (simp add: start_calls_def returned_def new_runtime_def insert_commute)

definition opening_calls :: "runtime_call set" where
  "opening_calls = {Start_Tunnel, Setup_Enrollment, Setup_Metrics, Start_Ssh}"

lemma migrate_comes_first:
  assumes "start_calls = before @ c # after" "x \<in> opening_calls" "x \<in> set (before @ [c])"
  shows "Migrate \<in> set before"
proof -
  define k where "k = length before"
  have k: "before = take k start_calls" "c = start_calls ! k" "k < 21"
    using prefix_is_take [OF assms(1)] by (simp_all add: k_def start_calls_def)
  have "k \<in> {0, 1, 2, 3, 4, 5, 6, 7, 8, 9, 10, 11, 12, 13, 14, 15, 16, 17, 18, 19, 20}" using k(3) unfolding insert_iff empty_iff by presburger
  then show ?thesis
    using assms(2,3) unfolding k(1,2) opening_calls_def
    by (elim insertE emptyE) (simp_all add: start_calls_def)
qed

text \<open>C39: the server releases what it opened, whatever ends it.  Let the calls of the \<open>finally\<close> block
  return.  Then a run ends with the exception of the first call that raises, and nothing is left open
  but, if a site could not start, the runner that was set up for it.  No listener or runner is opened
  before the migrations have succeeded.\<close>

theorem runtime_releases_what_it_opened:
  assumes "\<And>x. env (Close_Listener x) = Inr ()" "\<And>x. env (Wait_Closed x) = Inr ()" "\<And>x. env (Cleanup x) = Inr ()"
    "env Close_Pool = Inr ()" and run: "run_server_runtime env False new_runtime = (r, s)"
  shows "r = (case find (\<lambda>c. env c \<noteq> Inr ()) (Create_Pool # start_calls) of None \<Rightarrow> Inr () | Some c \<Rightarrow> env c) \<and>
    rt_open s = (case find (\<lambda>c. env c \<noteq> Inr ()) (Create_Pool # start_calls) of
      Some Bind_Enrollment \<Rightarrow> {Enrollment_Runner} | Some Bind_Metrics \<Rightarrow> {Metrics_Runner} | _ \<Rightarrow> {}) \<and>
    (set (rt_calls s) \<inter> {Start_Tunnel, Setup_Enrollment, Setup_Metrics, Start_Ssh} \<noteq> {} \<longrightarrow> env Migrate = Inr ())"
proof (cases "env Create_Pool")
  case (Inl e)
  with run have "r = Inl e" "s = new_runtime\<lparr>rt_calls := [Create_Pool]\<rparr>"
    by (auto simp: run_server_runtime_def sbind_def do_call_def new_runtime_def Let_def)
  with Inl show ?thesis by (simp add: new_runtime_def)
next
  case (Inr u)
  obtain r1 t where d: "do_calls env start_calls (returned Create_Pool new_runtime) = (r1, t)"
    by (cases "do_calls env start_calls (returned Create_Pool new_runtime)")
  obtain s' cs where rel: "do_calls env (release_calls t) t = (Inr (), s')"
    "rt_open s' = rt_open t - insert Pool (set (rt_listeners t) \<union> (if rt_enrollment_runner t then {Enrollment_Runner} else {}) \<union>
      (if rt_metrics_runner t then {Metrics_Runner} else {}))" "rt_calls s' = rt_calls t @ cs" "set cs \<inter> set start_calls = {}"
    using release_tidy [of env t] assms(1-4) by blast
  have rs: "r = r1" "s = s'"
    using run Inr d rel(1) by (simp_all add: run_server_runtime_def sbind_def do_call_def sfinally_def returned_def Let_def)
  have cs: "set cs \<inter> {Start_Tunnel, Setup_Enrollment, Setup_Metrics, Start_Ssh} = {}"
    using rel(4) by (auto simp: start_calls_def)
  from d show ?thesis
  proof (cases rule: do_calls_cases)
    case all
    have "find (\<lambda>c. env c \<noteq> Inr ()) (Create_Pool # start_calls) = None" using all(1) Inr by (simp add: find_None_iff)
    moreover have "env Migrate = Inr ()" using all(1) by (simp add: start_calls_def)
    ultimately show ?thesis using started_state [OF all(3)] all(2) rel(2) rs by simp
  next
    case (stops e before c after)
    define t0 where "t0 = fold returned before (returned Create_Pool new_runtime)"
    have "find (\<lambda>c. env c \<noteq> Inr ()) (before @ c # after) = Some c"
      using stops(2,3) by (subst find_append_none) simp_all
    then have f: "find (\<lambda>c. env c \<noteq> Inr ()) (Create_Pool # start_calls) = Some c" using stops(1) Inr by simp
    have o: "rt_open s = untracked c" "rt_calls s = (Create_Pool # before) @ [c] @ cs"
      using start_state [OF stops(1) t0_def] rel(2,3) rs stops(5) by (simp_all add: t0_def)
    have "env Migrate = Inr ()" if x: "x \<in> set (rt_calls s) \<inter> {Start_Tunnel, Setup_Enrollment, Setup_Metrics, Start_Ssh}" for x
    proof -
      have "x \<in> opening_calls" "x \<in> set (before @ [c])" using x o(2) cs by (auto simp: opening_calls_def)
      from migrate_comes_first [OF stops(1) this] show ?thesis using stops(2) by blast
    qed
    then show ?thesis
      using f o(1) stops(3,4) rs by (auto simp: untracked_def split: runtime_call.split)
  qed
qed

theorem runtime_releases_what_it_opened_witness:
  "rt_open (snd (run_server_runtime (\<lambda>c. if c = Start_Ssh then Inl (OSError []) else Inr ()) False new_runtime)) = {}"
proof -
  let ?env = "\<lambda>c. if c = Start_Ssh then Inl (OSError []) else Inr () :: unit result"
  let ?r = "run_server_runtime ?env False new_runtime"
  have "find (\<lambda>c. ?env c \<noteq> Inr ()) (Create_Pool # start_calls) = Some Start_Ssh" by (simp add: start_calls_def)
  with runtime_releases_what_it_opened [of ?env "fst ?r" "snd ?r"] show ?thesis by simp
qed

end
