(* ===== verification/Listeners.thy ===== *)
theory Listeners
  imports Server_Runtime Agent_Enrollment
begin

text \<open>
  The key files the server loads, and the TLS contexts of both ends of a tunnel with the listeners that use
  them: \<open>load_ed25519_private_key\<close> and \<open>load_ssh_private_key\<close> of \<open>crypto.py\<close>,
  \<open>build_tunnel_server_ssl_context\<close> and \<open>start_tunnel_listener\<close> of \<open>server/tunnel.py\<close>,
  \<open>_build_https_server_ssl_context\<close> and \<open>_start_aiohttp_site\<close> of \<open>server/main.py\<close>, and
  \<open>_build_tunnel_tls_context\<close> of \<open>agent/main.py\<close>.  A context is its settings; the files it reads and the
  sockets it is bound to are arguments.
\<close>

section \<open>Private keys on disk\<close>

text \<open>
  \<open>read_bytes\<close> and \<open>read_text\<close> stand for the file, \<open>load_pem\<close> and \<open>import_key\<close> for the cryptography and
  asyncssh libraries; \<open>load_pem\<close> says whether the key is an Ed25519 key.
\<close>

definition load_ed25519_private_key ::
  "(pystr \<Rightarrow> bytes result) \<Rightarrow> (bytes \<Rightarrow> (bool \<times> 'key) result) \<Rightarrow> pystr \<Rightarrow> 'key result" where
  "load_ed25519_private_key read_bytes load_pem path =
     rbind (read_bytes path) (\<lambda>content. rbind (load_pem content) (\<lambda>(is_ed25519, key).
       if \<not> is_ed25519 then Inl (SecretError ''private key must be Ed25519'') else Inr key))"

definition load_ssh_private_key ::
  "(pystr \<Rightarrow> pystr result) \<Rightarrow> (pystr \<Rightarrow> 'key result) \<Rightarrow> pystr \<Rightarrow> 'key result" where
  "load_ssh_private_key read_text import_key path = rbind (read_text path) import_key"

section \<open>TLS contexts\<close>

datatype verify_mode = CERT_NONE | CERT_OPTIONAL | CERT_REQUIRED

datatype tls_purpose = SERVER_AUTH | CLIENT_AUTH

record SSLContext =
  ctx_verify_mode :: verify_mode
  ctx_check_hostname :: bool
  ctx_system_cas :: bool
  ctx_ca_files :: "pystr list"
  ctx_cert_chains :: "(pystr \<times> pystr) list"

text \<open>The outcome of loading CA certificates from a file, and a certificate with its key.\<close>

record tls_files =
  tf_verify_locations :: "pystr \<Rightarrow> unit result"
  tf_cert_chain :: "pystr \<Rightarrow> pystr \<Rightarrow> unit result"

definition load_verify_locations :: "tls_files \<Rightarrow> pystr \<Rightarrow> SSLContext \<Rightarrow> SSLContext result" where
  "load_verify_locations files cafile context =
     rbind (tf_verify_locations files cafile) (\<lambda>_. Inr (context\<lparr>ctx_ca_files := ctx_ca_files context @ [cafile]\<rparr>))"

definition load_cert_chain :: "tls_files \<Rightarrow> pystr \<Rightarrow> pystr \<Rightarrow> SSLContext \<Rightarrow> SSLContext result" where
  "load_cert_chain files certfile keyfile context =
     rbind (tf_cert_chain files certfile keyfile)
       (\<lambda>_. Inr (context\<lparr>ctx_cert_chains := ctx_cert_chains context @ [(certfile, keyfile)]\<rparr>))"

text \<open>
  \<open>ssl.create_default_context\<close>: a context for a client verifies the server and its name; one for a server
  verifies nothing.  Without a CA file, a context that verifies trusts the CAs of the system.
\<close>

definition create_default_context :: "tls_files \<Rightarrow> tls_purpose \<Rightarrow> pystr option \<Rightarrow> SSLContext result" where
  "create_default_context files purpose cafile =
     (let verifies = (purpose = SERVER_AUTH);
          context = \<lparr>ctx_verify_mode = (if verifies then CERT_REQUIRED else CERT_NONE), ctx_check_hostname = verifies,
                     ctx_system_cas = False, ctx_ca_files = [], ctx_cert_chains = []\<rparr>
      in case cafile of
           Some file \<Rightarrow> load_verify_locations files file context
         | None \<Rightarrow> Inr (context\<lparr>ctx_system_cas := verifies\<rparr>))"

definition build_tunnel_server_ssl_context :: "tls_files \<Rightarrow> pystr \<Rightarrow> pystr \<Rightarrow> pystr \<Rightarrow> SSLContext result" where
  "build_tunnel_server_ssl_context files cert_path key_path ca_bundle_path =
     rbind (create_default_context files CLIENT_AUTH None) (\<lambda>context.
     rbind (load_cert_chain files cert_path key_path context) (\<lambda>context.
     rbind (load_verify_locations files ca_bundle_path context) (\<lambda>context.
     Inr (context\<lparr>ctx_verify_mode := CERT_REQUIRED, ctx_check_hostname := False\<rparr>))))"

definition build_https_server_ssl_context :: "tls_files \<Rightarrow> pystr \<Rightarrow> pystr \<Rightarrow> SSLContext result" where
  "build_https_server_ssl_context files cert_path key_path =
     rbind (create_default_context files CLIENT_AUTH None) (load_cert_chain files cert_path key_path)"

text \<open>
  The agent's context.  The certificate and the key of \<open>identity.json\<close> are written to the files \<open>agent.crt\<close>
  and \<open>agent.key\<close> of a temporary directory, and loaded from there.
\<close>

definition build_tunnel_tls_context ::
  "tls_files \<Rightarrow> pystr \<Rightarrow> (pystr \<Rightarrow> pystr \<Rightarrow> unit result) \<Rightarrow> AgentConfig \<Rightarrow> (string \<Rightarrow> pystr) \<Rightarrow> SSLContext result" where
  "build_tunnel_tls_context files temp_dir write_text config identity =
     rbind (create_default_context files SERVER_AUTH (Some (acfg_tunnel_tls_ca_bundle config))) (\<lambda>context.
     rbind (require_tunnel_tls_context (Some (ctx_check_hostname context))) (\<lambda>_.
     let cert_path = temp_dir @ str ''/agent.crt''; key_path = temp_dir @ str ''/agent.key'' in
     rbind (write_text cert_path (identity ''agent_x509_cert'')) (\<lambda>_.
     rbind (write_text key_path (identity ''private_key'')) (\<lambda>_.
     load_cert_chain files cert_path key_path context))))"

section \<open>Listeners\<close>

record listener =
  li_host :: pystr
  li_port :: int
  li_context :: "SSLContext option"

definition start_tunnel_listener ::
  "(pystr \<Rightarrow> int \<Rightarrow> unit result) \<Rightarrow> pystr \<Rightarrow> int \<Rightarrow> SSLContext \<Rightarrow> listener result" where
  "start_tunnel_listener bind_server host port ssl_context =
     (if host = [] then Inl (TunnelStateError ''tunnel listener host is required'')
      else if \<not> (1 \<le> port \<and> port \<le> 65535)
      then Inl (TunnelStateError ''tunnel listener port is outside valid TCP bounds'')
      else if ctx_verify_mode ssl_context \<noteq> CERT_REQUIRED
      then Inl (TunnelStateError ''tunnel listener requires client certificates'')
      else rbind (bind_server host port)
        (\<lambda>_. Inr \<lparr>li_host = host, li_port = port, li_context = Some ssl_context\<rparr>))"

definition start_aiohttp_site ::
  "unit result \<Rightarrow> (pystr \<Rightarrow> int \<Rightarrow> unit result) \<Rightarrow> pystr \<Rightarrow> int \<Rightarrow> SSLContext option \<Rightarrow> listener result" where
  "start_aiohttp_site setup start_site host port ssl_context =
     rbind (check_aiohttp_site host port) (\<lambda>_. rbind setup (\<lambda>_. rbind (start_site host port)
       (\<lambda>_. Inr \<lparr>li_host = host, li_port = port, li_context = ssl_context\<rparr>)))"

section \<open>Both ends of a tunnel authenticate the other\<close>

text \<open>Only a key that is an Ed25519 key signs the certificates of agents.\<close>

lemma loaded_ca_key_is_ed25519:
  "load_ed25519_private_key rd ld path = Inr key \<longleftrightarrow> (\<exists>content. rd path = Inr content \<and> ld content = Inr (True, key))"
  by (auto simp: load_ed25519_private_key_def exc_elims split: if_splits)

lemmas tls_defs = create_default_context_def load_cert_chain_def load_verify_locations_def Let_def

lemma server_context:
  assumes "build_tunnel_server_ssl_context files cert key ca = Inr context"
  shows "context = \<lparr>ctx_verify_mode = CERT_REQUIRED, ctx_check_hostname = False, ctx_system_cas = False,
    ctx_ca_files = [ca], ctx_cert_chains = [(cert, key)]\<rparr>"
  using assms by (auto simp: build_tunnel_server_ssl_context_def tls_defs exc_elims)

lemma agent_context:
  assumes "build_tunnel_tls_context files dir wr config identity = Inr context"
  shows "context = \<lparr>ctx_verify_mode = CERT_REQUIRED, ctx_check_hostname = True, ctx_system_cas = False,
    ctx_ca_files = [acfg_tunnel_tls_ca_bundle config],
    ctx_cert_chains = [(dir @ str ''/agent.crt'', dir @ str ''/agent.key'')]\<rparr>"
  using assms by (auto simp: build_tunnel_tls_context_def require_tunnel_tls_context_def tls_defs exc_elims)

text \<open>A listener for agents runs with client certificates or not at all; the context of the HTTPS port is refused.\<close>

lemma tunnel_listener_requires_certificates:
  "start_tunnel_listener bnd host port context = Inr l \<longleftrightarrow>
     host \<noteq> [] \<and> 1 \<le> port \<and> port \<le> 65535 \<and> ctx_verify_mode context = CERT_REQUIRED \<and> bnd host port = Inr () \<and>
     l = \<lparr>li_host = host, li_port = port, li_context = Some context\<rparr>"
  by (auto simp: start_tunnel_listener_def exc_elims split: if_splits)

lemma https_context_is_refused:
  "build_https_server_ssl_context files cert key = Inr context \<Longrightarrow> start_tunnel_listener bnd host port context \<noteq> Inr l"
  by (auto simp: tunnel_listener_requires_certificates build_https_server_ssl_context_def tls_defs exc_elims)

text \<open>
  The tunnel listener the runtime starts trusts the CAs of the tunnel bundle and no others, and the agent
  that connects to it trusts the bundle of its configuration and no others and checks the host name.
\<close>

theorem tunnels_use_mutual_tls:
  assumes "build_tunnel_server_ssl_context files cert key ca = Inr server"
    and "start_tunnel_listener bnd host port server = Inr l"
    and "build_tunnel_tls_context files' dir wr config identity = Inr agent"
  shows "\<exists>context. li_context l = Some context \<and>
    ctx_verify_mode context = CERT_REQUIRED \<and> ctx_ca_files context = [ca] \<and> \<not> ctx_system_cas context \<and>
    ctx_cert_chains context = [(cert, key)] \<and>
    ctx_verify_mode agent = CERT_REQUIRED \<and> ctx_check_hostname agent \<and>
    ctx_ca_files agent = [acfg_tunnel_tls_ca_bundle config] \<and> \<not> ctx_system_cas agent \<and>
    ctx_cert_chains agent \<noteq> []"
  using assms(2) by (simp add: tunnel_listener_requires_certificates server_context [OF assms(1)] agent_context [OF assms(3)])

text \<open>The three steps succeed when the files load and the port can be bound.\<close>

lemma tunnel_listener_starts:
  assumes "\<And>p. tf_verify_locations files p = Inr ()" "\<And>c k. tf_cert_chain files c k = Inr ()" "\<And>h p. bnd h p = Inr ()"
    and "host \<noteq> []" "1 \<le> port" "port \<le> 65535"
  shows "\<exists>l. rbind (build_tunnel_server_ssl_context files cert key ca) (start_tunnel_listener bnd host port) = Inr l"
  using assms by (simp add: build_tunnel_server_ssl_context_def start_tunnel_listener_def tls_defs)

end
