(* ===== verification/Command_Line.thy ===== *)
theory Command_Line
  imports Server_Main Admin
begin

text \<open>
  The command lines of \<open>server/main.py\<close> and \<open>agent/main.py\<close>: the options \<open>_build_parser\<close> declares, the namespace
  argparse makes of the options it has matched on a command line, and what \<open>main\<close>, \<open>_build_connect_command\<close> and
  \<open>_run_admin_command\<close> read from it.  How argparse splits a command line (abbreviations, \<open>--option=value\<close>, help) is
  not modelled: a command line is the list of its options with their texts, in order.
\<close>

section \<open>Options\<close>

datatype option_action = Store | StoreTrue | Append

datatype option_type = TextType | IntType | PathType

text \<open>A path is its text.\<close>

datatype arg_value = VNone | VText pystr | VInt int | VPath pystr | VBool bool | VTexts "pystr list"

record option_spec =
  os_flag :: string
  os_action :: option_action
  os_type :: option_type
  os_default :: arg_value
  os_required :: bool

text \<open>The calls of \<open>add_argument\<close>, by the keywords they have.\<close>

definition opt :: "string \<Rightarrow> option_type \<Rightarrow> arg_value \<Rightarrow> option_spec" where
  "opt flag type value = \<lparr>os_flag = flag, os_action = Store, os_type = type, os_default = value, os_required = False\<rparr>"

definition req :: "string \<Rightarrow> option_type \<Rightarrow> option_spec" where
  "req flag type = \<lparr>os_flag = flag, os_action = Store, os_type = type, os_default = VNone, os_required = True\<rparr>"

section \<open>The parsers\<close>

definition SERVER_CONFIG_DEFAULT :: pystr where
  "SERVER_CONFIG_DEFAULT = str ''/etc/vibeconnectd/config.yaml''"

definition ADMIN_COMMANDS :: "string list" where
  "ADMIN_COMMANDS = [''create-agent'', ''list-agents'', ''revoke-agent'', ''rotate-tunnel-secret'',
     ''update-node-host-key'', ''expire-token'', ''list-sessions'']"

text \<open>The body of the loop over the admin commands.\<close>

definition admin_options :: "string \<Rightarrow> option_spec list" where
  "admin_options command =
     [opt ''--postgres-dsn'' TextType VNone,
      opt ''--config'' PathType (VPath SERVER_CONFIG_DEFAULT),
      opt ''--actor'' TextType (VText (str ''local-admin''))] @
     (if command \<in> set [''create-agent'', ''revoke-agent'', ''rotate-tunnel-secret'', ''update-node-host-key'', ''expire-token'']
      then [req ''--node-name'' TextType] else []) @
     (if command = ''create-agent''
      then [req ''--node-host-key-file'' PathType,
            \<lparr>os_flag = ''--label'', os_action = Append, os_type = TextType, os_default = VTexts [], os_required = False\<rparr>,
            opt ''--server-host'' TextType (VText (str ''server'')),
            opt ''--enrollment-port'' IntType (VInt 4443),
            opt ''--tunnel-port'' IntType (VInt 4444),
            opt ''--proxy-host'' TextType (VText (str ''127.0.0.1'')),
            opt ''--proxy-port'' IntType (VInt 2222),
            opt ''--heartbeat-seconds'' IntType (VInt 30)] else []) @
     (if command = ''update-node-host-key'' then [req ''--host-key-file'' PathType] else []) @
     (if command = ''list-sessions''
      then [opt ''--node-name'' TextType VNone, opt ''--user'' TextType VNone] else [])"

definition build_parser :: "pystr \<Rightarrow> (string \<times> option_spec list) list" where
  "build_parser default_migrations_dir =
     [(''start'', [opt ''--config'' PathType (VPath SERVER_CONFIG_DEFAULT)]),
      (''migrate'',
       [opt ''--postgres-dsn'' TextType VNone,
        opt ''--config'' PathType (VPath SERVER_CONFIG_DEFAULT),
        opt ''--migrations-dir'' PathType (VPath default_migrations_dir)]),
      (''connect-agent'',
       [req ''--server'' TextType, req ''--node-name'' TextType, opt ''--user'' TextType VNone,
        opt ''--port'' IntType (VInt 22), opt ''--identity-file'' PathType VNone,
        \<lparr>os_flag = ''--dry-run'', os_action = StoreTrue, os_type = TextType, os_default = VBool False, os_required = False\<rparr>])] @
     map (\<lambda>command. (command, admin_options command)) ADMIN_COMMANDS"

definition agent_build_parser :: "(string \<times> option_spec list) list" where
  "agent_build_parser =
     map (\<lambda>command. (command, [opt ''--config'' PathType (VPath (str ''/etc/vibeconnect/agent.conf''))])) [''enroll'', ''run'']"

section \<open>What argparse makes of the options\<close>

type_synonym namespace = "string \<rightharpoonup> arg_value"

definition dest :: "option_spec \<Rightarrow> string" where
  "dest spec = map (\<lambda>c. if c = CHR ''-'' then CHR ''_'' else c) (drop 2 (os_flag spec))"

text \<open>\<open>None\<close>: argparse prints the usage and exits with status 2.\<close>

definition convert :: "option_type \<Rightarrow> pystr \<Rightarrow> arg_value option" where
  "convert type text = (case type of
     TextType \<Rightarrow> Some (VText text)
   | PathType \<Rightarrow> Some (VPath text)
   | IntType \<Rightarrow> (case py_int text of Inr i \<Rightarrow> Some (VInt i) | Inl _ \<Rightarrow> None))"

fun take_action :: "option_spec \<Rightarrow> pystr option \<Rightarrow> arg_value \<Rightarrow> arg_value option" where
  "take_action spec given old = (case (os_action spec, given) of
     (Store, Some text) \<Rightarrow> convert (os_type spec) text
   | (StoreTrue, None) \<Rightarrow> Some (VBool True)
   | (Append, Some text) \<Rightarrow> (case old of VTexts ts \<Rightarrow> Some (VTexts (ts @ [text])) | _ \<Rightarrow> None)
   | _ \<Rightarrow> None)"

fun take_options :: "option_spec list \<Rightarrow> (string \<times> pystr option) list \<Rightarrow> namespace \<Rightarrow> namespace option" where
  "take_options specs [] ns = Some ns"
| "take_options specs ((flag, given) # rest) ns =
     (case find (\<lambda>spec. os_flag spec = flag) specs of
        None \<Rightarrow> None
      | Some spec \<Rightarrow> (case Option.bind (ns (dest spec)) (take_action spec given) of
          None \<Rightarrow> None
        | Some v \<Rightarrow> take_options specs rest (ns(dest spec \<mapsto> v))))"

definition default_namespace :: "option_spec list \<Rightarrow> namespace" where
  "default_namespace specs = map_of (map (\<lambda>spec. (dest spec, os_default spec)) specs)"

definition parse_options :: "option_spec list \<Rightarrow> (string \<times> pystr option) list \<Rightarrow> namespace option" where
  "parse_options specs given =
     (if \<forall>spec \<in> set specs. os_required spec \<longrightarrow> os_flag spec \<in> fst ` set given
      then take_options specs given (default_namespace specs) else None)"

section \<open>What the commands read\<close>

text \<open>
  An attribute of the type its reader uses.  \<open>None\<close> is an attribute that is not there or has another type:
  an \<open>AttributeError\<close> or \<open>TypeError\<close> that no handler of \<open>main\<close> catches.
\<close>

definition ns_text :: "namespace \<Rightarrow> string \<Rightarrow> pystr option" where
  "ns_text ns name = (case ns name of Some (VText t) \<Rightarrow> Some t | _ \<Rightarrow> None)"

definition ns_path :: "namespace \<Rightarrow> string \<Rightarrow> pystr option" where
  "ns_path ns name = (case ns name of Some (VPath p) \<Rightarrow> Some p | _ \<Rightarrow> None)"

definition ns_int :: "namespace \<Rightarrow> string \<Rightarrow> int option" where
  "ns_int ns name = (case ns name of Some (VInt i) \<Rightarrow> Some i | _ \<Rightarrow> None)"

definition ns_bool :: "namespace \<Rightarrow> string \<Rightarrow> bool option" where
  "ns_bool ns name = (case ns name of Some (VBool b) \<Rightarrow> Some b | _ \<Rightarrow> None)"

definition ns_texts :: "namespace \<Rightarrow> string \<Rightarrow> pystr list option" where
  "ns_texts ns name = (case ns name of Some (VTexts ts) \<Rightarrow> Some ts | _ \<Rightarrow> None)"

text \<open>An attribute that may be \<open>None\<close> in the program too.\<close>

definition ns_maybe :: "(namespace \<Rightarrow> string \<Rightarrow> 'a option) \<Rightarrow> namespace \<Rightarrow> string \<Rightarrow> 'a option option" where
  "ns_maybe get ns name = (if ns name = Some VNone then Some None else map_option Some (get ns name))"

definition connect_args_of :: "namespace \<Rightarrow> connect_args option" where
  "connect_args_of ns =
     Option.bind (ns_text ns ''server'') (\<lambda>server.
     Option.bind (ns_text ns ''node_name'') (\<lambda>node_name.
     Option.bind (ns_maybe ns_text ns ''user'') (\<lambda>user.
     Option.bind (ns_int ns ''port'') (\<lambda>port.
     Option.bind (ns_maybe ns_path ns ''identity_file'') (\<lambda>identity_file.
       Some \<lparr>ca_server = server, ca_node_name = node_name, ca_user = user, ca_port = port, ca_identity_file = identity_file\<rparr>)))))"

definition create_args_of :: "namespace \<Rightarrow> (create_agent_args \<times> pystr) option" where
  "create_args_of ns =
     Option.bind (ns_text ns ''node_name'') (\<lambda>node_name.
     Option.bind (ns_texts ns ''label'') (\<lambda>labels.
     Option.bind (ns_text ns ''actor'') (\<lambda>actor.
     Option.bind (ns_path ns ''node_host_key_file'') (\<lambda>key_file.
     Option.bind (ns_text ns ''server_host'') (\<lambda>server_host.
     Option.bind (ns_int ns ''enrollment_port'') (\<lambda>enrollment_port.
     Option.bind (ns_int ns ''tunnel_port'') (\<lambda>tunnel_port.
     Option.bind (ns_text ns ''proxy_host'') (\<lambda>proxy_host.
     Option.bind (ns_int ns ''proxy_port'') (\<lambda>proxy_port.
     Option.bind (ns_int ns ''heartbeat_seconds'') (\<lambda>heartbeat_seconds.
       Some (\<lparr>cr_node_name = node_name, cr_labels = labels, cr_actor = actor, cr_node_ssh_host_public_key = [],
              cr_server_host = server_host, cr_enrollment_port = enrollment_port, cr_tunnel_port = tunnel_port,
              cr_proxy_host = proxy_host, cr_proxy_port = proxy_port, cr_heartbeat_seconds = heartbeat_seconds\<rparr>,
             key_file)))))))))))"

text \<open>The command \<open>_run_admin_command\<close> runs; \<open>None\<close> also stands for its \<open>AssertionError\<close>.\<close>

definition admin_command_of :: "(pystr \<Rightarrow> pystr result) \<Rightarrow> string \<Rightarrow> namespace \<Rightarrow> admin_command option" where
  "admin_command_of read_text command ns =
     (if command = ''create-agent'' then
        Option.bind (create_args_of ns) (\<lambda>(args, key_file). Some (CreateAgent args (read_text key_file)))
      else if command = ''list-agents'' then Some ListAgents
      else if command = ''revoke-agent'' then
        Option.bind (ns_text ns ''node_name'') (\<lambda>node_name.
        Option.bind (ns_text ns ''actor'') (\<lambda>actor. Some (RevokeAgent node_name actor)))
      else if command = ''rotate-tunnel-secret'' then
        Option.bind (ns_text ns ''node_name'') (\<lambda>node_name.
        Option.bind (ns_text ns ''actor'') (\<lambda>actor. Some (RotateTunnelSecret node_name actor)))
      else if command = ''update-node-host-key'' then
        Option.bind (ns_path ns ''host_key_file'') (\<lambda>key_file.
        Option.bind (ns_text ns ''node_name'') (\<lambda>node_name.
        Option.bind (ns_text ns ''actor'') (\<lambda>actor. Some (UpdateNodeHostKey node_name (read_text key_file) actor))))
      else if command = ''expire-token'' then
        Option.bind (ns_text ns ''node_name'') (\<lambda>node_name.
        Option.bind (ns_text ns ''actor'') (\<lambda>actor. Some (ExpireToken node_name actor)))
      else if command = ''list-sessions'' then
        Option.bind (ns_maybe ns_text ns ''node_name'') (\<lambda>node_name.
        Option.bind (ns_maybe ns_text ns ''user'') (\<lambda>user. Some (ListSessions node_name user)))
      else None)"

section \<open>main\<close>

text \<open>
  What the commands call, by the paths and names they pass: the runtime, the settings in a file, the migrations
  from a directory, the ssh process and the admin command over a connection.
\<close>

record cli_env =
  ce_start :: "pystr \<Rightarrow> unit result"
  ce_environ :: "pystr \<Rightarrow> pystr option"
  ce_settings :: "pystr \<Rightarrow> ServerRuntimeSettings result"
  ce_migrate :: "pystr \<Rightarrow> pystr \<Rightarrow> unit result"
  ce_to_path :: "pystr \<Rightarrow> pystr result"
  ce_files :: stat_fs
  ce_run :: "pystr list \<Rightarrow> int result"
  ce_read_text :: "pystr \<Rightarrow> pystr result"
  ce_admin :: "pystr \<Rightarrow> admin_command \<Rightarrow> pystr result"

definition no_calls :: main_calls where
  "no_calls = (let e = AttributeError ''Namespace'' in
     \<lparr>mc_start = Inl e, mc_dsn = Inl e, mc_migrate = (\<lambda>_. Inl e), mc_connect_command = Inl e, mc_run = (\<lambda>_. Inl e),
      mc_admin = (\<lambda>_. Inl e)\<rparr>)"

definition dsn_of :: "cli_env \<Rightarrow> namespace \<Rightarrow> pystr result option" where
  "dsn_of env ns =
     Option.bind (ns_maybe ns_text ns ''postgres_dsn'') (\<lambda>option.
     Option.bind (ns_path ns ''config'') (\<lambda>config.
       Some (admin_postgres_dsn option (ce_environ env) (ce_settings env config))))"

text \<open>The branch of \<open>main\<close> and the calls in it.\<close>

definition main_branch :: "cli_env \<Rightarrow> string \<Rightarrow> namespace \<Rightarrow> (server_command \<times> main_calls) option" where
  "main_branch env command ns =
     (if command = ''start'' then
        Option.bind (ns_path ns ''config'') (\<lambda>config. Some (CmdStart, no_calls\<lparr>mc_start := ce_start env config\<rparr>))
      else if command = ''migrate'' then
        Option.bind (dsn_of env ns) (\<lambda>dsn.
        Option.bind (ns_path ns ''migrations_dir'') (\<lambda>migrations_dir.
          Some (CmdMigrate, no_calls\<lparr>mc_dsn := dsn, mc_migrate := (\<lambda>d. ce_migrate env d migrations_dir)\<rparr>)))
      else if command = ''connect-agent'' then
        Option.bind (connect_args_of ns) (\<lambda>args.
        Option.bind (ns_bool ns ''dry_run'') (\<lambda>dry_run.
          Some (CmdConnectAgent dry_run,
            no_calls\<lparr>mc_connect_command := build_connect_command (ce_to_path env) (ce_files env) args, mc_run := ce_run env\<rparr>)))
      else
        Option.bind (dsn_of env ns) (\<lambda>dsn.
        Option.bind (admin_command_of (ce_read_text env) command ns) (\<lambda>admin.
          Some (CmdAdmin, no_calls\<lparr>mc_dsn := dsn, mc_admin := (\<lambda>d. ce_admin env d admin)\<rparr>))))"

definition server_cli ::
  "cli_env \<Rightarrow> pystr \<Rightarrow> string option \<Rightarrow> (string \<times> pystr option) list \<Rightarrow> (int \<times> pystr list) result" where
  "server_cli env default_migrations_dir command given = (case command of
     None \<Rightarrow> server_main no_calls CmdNone
   | Some name \<Rightarrow> (case map_of (build_parser default_migrations_dir) name of
       None \<Rightarrow> Inr (2, [])
     | Some specs \<Rightarrow> (case parse_options specs given of
         None \<Rightarrow> Inr (2, [])
       | Some ns \<Rightarrow> (case main_branch env name ns of
           None \<Rightarrow> Inl (AttributeError ''Namespace'')
         | Some (cmd, calls) \<Rightarrow> server_main calls cmd))))"

section \<open>A namespace has every attribute, of its type\<close>

fun of_type :: "option_type \<Rightarrow> arg_value \<Rightarrow> bool" where
  "of_type TextType (VText t) = True"
| "of_type IntType (VInt i) = True"
| "of_type PathType (VPath p) = True"
| "of_type _ _ = False"

definition fits :: "option_spec \<Rightarrow> arg_value \<Rightarrow> bool" where
  "fits spec v \<longleftrightarrow> v = os_default spec \<or> (case os_action spec of
     Store \<Rightarrow> of_type (os_type spec) v | StoreTrue \<Rightarrow> v = VBool True | Append \<Rightarrow> (\<exists>ts. v = VTexts ts))"

definition typed_namespace :: "option_spec list \<Rightarrow> string set \<Rightarrow> namespace \<Rightarrow> bool" where
  "typed_namespace specs seen ns \<longleftrightarrow> (\<forall>spec \<in> set specs. \<exists>v. ns (dest spec) = Some v \<and> fits spec v \<and>
     (os_flag spec \<in> seen \<and> os_action spec = Store \<longrightarrow> of_type (os_type spec) v))"

definition proper_specs :: "option_spec list \<Rightarrow> bool" where
  "proper_specs specs \<longleftrightarrow> distinct (map dest specs) \<and> (\<forall>spec \<in> set specs. os_action spec = Append \<longrightarrow> os_default spec = VTexts [])"

lemma convert_typed: "convert t text = Some v \<Longrightarrow> of_type t v"
  by (cases t) (auto simp: convert_def split: sum.splits)

lemma take_action_fits:
  "take_action spec given old = Some v \<Longrightarrow> fits spec v \<and> (os_action spec = Store \<longrightarrow> of_type (os_type spec) v)"
  by (cases "os_action spec"; cases given) (auto simp: fits_def dest: convert_typed split: arg_value.splits)

lemma take_options_typed:
  assumes "distinct (map dest specs)" "typed_namespace specs seen ns" "take_options specs given ns = Some ns'"
  shows "typed_namespace specs (seen \<union> fst ` set given) ns'"
  using assms(2,3)
proof (induction given arbitrary: seen ns)
  case (Cons g rest)
  obtain flag val where g: "g = (flag, val)" by (cases g)
  from Cons.prems(2) obtain spec v where v: "find (\<lambda>spec. os_flag spec = flag) specs = Some spec"
    "Option.bind (ns (dest spec)) (take_action spec val) = Some v" "take_options specs rest (ns(dest spec \<mapsto> v)) = Some ns'"
    by (auto simp: g split: option.splits)
  then have s: "spec \<in> set specs" "os_flag spec = flag" by (auto simp: find_Some_iff)
  have f: "fits spec v \<and> (os_action spec = Store \<longrightarrow> of_type (os_type spec) v)"
    using v(2) take_action_fits by (auto simp: bind_eq_Some_conv)
  have "typed_namespace specs (insert flag seen) (ns(dest spec \<mapsto> v))"
    unfolding typed_namespace_def
  proof
    fix other assume o: "other \<in> set specs"
    show "\<exists>w. (ns(dest spec \<mapsto> v)) (dest other) = Some w \<and> fits other w \<and>
      (os_flag other \<in> insert flag seen \<and> os_action other = Store \<longrightarrow> of_type (os_type other) w)"
    proof (cases "other = spec")
      case True
      then show ?thesis using f by simp
    next
      case False
      then have "dest other \<noteq> dest spec" using assms(1) o s(1) by (auto simp: distinct_map inj_on_def)
      moreover have "os_flag other \<noteq> flag" using calculation s(2) by (auto simp: dest_def)
      ultimately show ?thesis using Cons.prems(1) o by (auto simp: typed_namespace_def)
    qed
  qed
  from Cons.IH [OF this v(3)] show ?case by (simp add: g insert_commute Un_commute)
qed simp

definition has_attribute :: "namespace \<Rightarrow> option_spec \<Rightarrow> bool" where
  "has_attribute ns spec \<longleftrightarrow> (\<exists>v. ns (dest spec) = Some v \<and> fits spec v \<and>
     (os_required spec \<and> os_action spec = Store \<longrightarrow> of_type (os_type spec) v))"

lemma parse_options_typed:
  assumes "proper_specs specs" "parse_options specs given = Some ns"
  shows "\<forall>spec \<in> set specs. has_attribute ns spec"
proof -
  have d: "typed_namespace specs {} (default_namespace specs)"
    using assms(1) by (force simp: typed_namespace_def default_namespace_def fits_def proper_specs_def comp_def intro: map_of_is_SomeI)
  have p: "\<forall>spec \<in> set specs. os_required spec \<longrightarrow> os_flag spec \<in> fst ` set given"
    "take_options specs given (default_namespace specs) = Some ns"
    using assms(2) by (auto simp: parse_options_def split: if_splits)
  have "distinct (map dest specs)" using assms(1) by (simp add: proper_specs_def)
  from take_options_typed [OF this d p(2)] have "typed_namespace specs (fst ` set given) ns" by simp
  with p(1) show ?thesis unfolding typed_namespace_def has_attribute_def by blast
qed

lemma of_type_iff [simp]:
  "of_type TextType v \<longleftrightarrow> (\<exists>t. v = VText t)"
  "of_type IntType v \<longleftrightarrow> (\<exists>i. v = VInt i)"
  "of_type PathType v \<longleftrightarrow> (\<exists>p. v = VPath p)"
  by (cases v; simp)+

lemma has_attribute_simps:
  "has_attribute ns (req flag t) \<longleftrightarrow> (\<exists>v. ns (dest (req flag t)) = Some v \<and> of_type t v)"
  "has_attribute ns (opt flag TextType (VText x)) \<longleftrightarrow> (\<exists>t. ns (dest (opt flag TextType (VText x))) = Some (VText t))"
  "has_attribute ns (opt flag IntType (VInt i)) \<longleftrightarrow> (\<exists>t. ns (dest (opt flag IntType (VInt i))) = Some (VInt t))"
  "has_attribute ns (opt flag PathType (VPath p)) \<longleftrightarrow> (\<exists>t. ns (dest (opt flag PathType (VPath p))) = Some (VPath t))"
  "has_attribute ns (opt flag TextType VNone) \<longleftrightarrow> (\<exists>t. ns_maybe ns_text ns (dest (opt flag TextType VNone)) = Some t)"
  "has_attribute ns (opt flag PathType VNone) \<longleftrightarrow> (\<exists>t. ns_maybe ns_path ns (dest (opt flag PathType VNone)) = Some t)"
  by (auto simp: has_attribute_def req_def opt_def fits_def ns_maybe_def ns_text_def ns_path_def split: option.splits arg_value.splits)

lemmas dest_defs = opt_def req_def dest_def

lemma parser_proper: "(command, specs) \<in> set (build_parser dir) \<Longrightarrow> proper_specs specs"
  by (auto simp: build_parser_def ADMIN_COMMANDS_def admin_options_def proper_specs_def dest_defs)

lemma label_attribute:
  "has_attribute ns \<lparr>os_flag = ''--label'', os_action = Append, os_type = TextType, os_default = VTexts [], os_required = False\<rparr>
     \<Longrightarrow> \<exists>ts. ns ''label'' = Some (VTexts ts)"
  by (auto simp: has_attribute_def fits_def dest_def)

lemma dry_run_attribute:
  "has_attribute ns \<lparr>os_flag = ''--dry-run'', os_action = StoreTrue, os_type = TextType, os_default = VBool False, os_required = False\<rparr>
     \<Longrightarrow> \<exists>b. ns ''dry_run'' = Some (VBool b)"
  by (auto simp: has_attribute_def fits_def dest_def)

lemma dest_opt:
  "dest (opt flag t v) = map (\<lambda>c. if c = CHR ''-'' then CHR ''_'' else c) (drop 2 flag)"
  "dest (req flag t) = map (\<lambda>c. if c = CHR ''-'' then CHR ''_'' else c) (drop 2 flag)"
  by (simp_all add: dest_defs)

lemmas attribute_simps = has_attribute_simps dest_opt ns_text_def ns_path_def ns_int_def ns_bool_def ns_texts_def

lemma admin_has_dsn:
  "\<forall>spec \<in> set (admin_options command). has_attribute ns spec \<Longrightarrow>
     (\<exists>dsn. dsn_of env ns = Some dsn) \<and> (\<exists>actor. ns_text ns ''actor'' = Some actor)"
  by (auto simp: admin_options_def attribute_simps dsn_of_def)

lemma create_has_args:
  "\<forall>spec \<in> set (admin_options ''create-agent''). has_attribute ns spec \<Longrightarrow> \<exists>args. create_args_of ns = Some args"
  by (auto simp: admin_options_def attribute_simps create_args_of_def dest: label_attribute)

lemma admin_has_command:
  assumes "command \<in> set ADMIN_COMMANDS" "\<forall>spec \<in> set (admin_options command). has_attribute ns spec"
  shows "\<exists>admin. admin_command_of read_text command ns = Some admin"
proof -
  have "command = ''create-agent'' \<or> command = ''list-agents'' \<or> command = ''revoke-agent'' \<or>
      command = ''rotate-tunnel-secret'' \<or> command = ''update-node-host-key'' \<or> command = ''expire-token'' \<or>
      command = ''list-sessions''"
    using assms(1) by (simp only: ADMIN_COMMANDS_def list.set insert_iff empty_iff simp_thms)
  then show ?thesis
  proof (elim disjE)
    assume "command = ''create-agent''"
    then show ?thesis using create_has_args [of ns] assms(2) by (auto simp: admin_command_of_def)
  qed (use assms(2) in \<open>auto simp: admin_command_of_def admin_options_def attribute_simps\<close>)
qed

lemma parser_commands:
  assumes "(command, specs) \<in> set (build_parser dir)"
  shows "command = ''start'' \<and> specs = [opt ''--config'' PathType (VPath SERVER_CONFIG_DEFAULT)] \<or>
    command = ''migrate'' \<and> specs = [opt ''--postgres-dsn'' TextType VNone, opt ''--config'' PathType (VPath SERVER_CONFIG_DEFAULT),
      opt ''--migrations-dir'' PathType (VPath dir)] \<or>
    command = ''connect-agent'' \<and> specs = snd (build_parser dir ! 2) \<or>
    command \<in> set ADMIN_COMMANDS \<and> specs = admin_options command"
  using assms unfolding build_parser_def set_append by (elim UnE) auto

lemma connect_has_args:
  assumes "\<forall>spec \<in> set (snd (build_parser dir ! 2)). has_attribute ns spec"
  shows "\<exists>args b. connect_args_of ns = Some args \<and> ns_bool ns ''dry_run'' = Some b"
  using assms
  by (auto simp: build_parser_def attribute_simps connect_args_of_def dest: dry_run_attribute)

lemma main_branch_exists:
  assumes "(command, specs) \<in> set (build_parser dir)" "parse_options specs given = Some ns"
  shows "\<exists>cmd calls. main_branch env command ns = Some (cmd, calls)"
proof -
  note t = parse_options_typed [OF parser_proper [OF assms(1)] assms(2)]
  from parser_commands [OF assms(1)] show ?thesis
  proof (elim disjE conjE)
    assume c: "command \<in> set ADMIN_COMMANDS" "specs = admin_options command"
    obtain dsn admin where o: "dsn_of env ns = Some dsn" "admin_command_of (ce_read_text env) command ns = Some admin"
      using admin_has_dsn [of command ns env] admin_has_command [OF c(1), of ns "ce_read_text env"] t c(2) by blast
    have "command \<noteq> ''start''" "command \<noteq> ''migrate''" "command \<noteq> ''connect-agent''"
      using c(1) by (auto simp: ADMIN_COMMANDS_def)
    with o show ?thesis by (simp add: main_branch_def)
  next
    assume c: "command = ''connect-agent''" "specs = snd (build_parser dir ! 2)"
    obtain args b where "connect_args_of ns = Some args" "ns_bool ns ''dry_run'' = Some b"
      using connect_has_args [of dir ns] t c(2) by blast
    with c(1) show ?thesis by (simp add: main_branch_def)
  qed (use t in \<open>auto simp: main_branch_def attribute_simps dsn_of_def\<close>)
qed

section \<open>How the server command ends\<close>

lemma exit_status_Inl:
  "exit_status r caught n k = Inl e \<longleftrightarrow> r = Inl e \<and> \<not> caught e \<or> (\<exists>x. r = Inr x \<and> k x = Inl e)"
  by (auto simp: exit_status_def split: sum.splits)

lemma connect_errors:
  "build_connect_command to_path fs args = Inl e \<Longrightarrow> is_value_error e \<or> (\<exists>p. to_path p = Inl e)"
  by (auto simp: build_connect_command_def validate_node_name_def validate_username_principal_def validate_ssh_target_part_def
    require_def exc_elims split: if_splits option.splits)

lemma postgres_dsn_errors:
  "admin_postgres_dsn option environ settings = Inl e \<Longrightarrow> is_config_error e \<or> settings = Inl e"
  by (cases settings) (auto simp: admin_postgres_dsn_def Let_def rewrap_def split: if_splits)

lemma dsn_errors: "dsn_of env ns = Some (Inl e) \<Longrightarrow> is_config_error e \<or> (\<exists>p. ce_settings env p = Inl e)"
  by (auto simp: dsn_of_def bind_eq_Some_conv dest!: postgres_dsn_errors)

lemma main_branch_cases:
  assumes "main_branch env name ns = Some (cmd, calls)"
  obtains (start) p where "cmd = CmdStart" "mc_start calls = ce_start env p"
    | (migrate) dsn dir where "cmd = CmdMigrate" "dsn_of env ns = Some dsn" "mc_dsn calls = dsn" "mc_migrate calls = (\<lambda>d. ce_migrate env d dir)"
    | (connect) args dry_run where "cmd = CmdConnectAgent dry_run"
        "mc_connect_command calls = build_connect_command (ce_to_path env) (ce_files env) args" "mc_run calls = ce_run env"
    | (admin) dsn a where "cmd = CmdAdmin" "dsn_of env ns = Some dsn" "mc_dsn calls = dsn" "mc_admin calls = (\<lambda>d. ce_admin env d a)"
proof -
  consider "name = ''start''" | "name = ''migrate''" | "name = ''connect-agent''"
    | "name \<noteq> ''start''" "name \<noteq> ''migrate''" "name \<noteq> ''connect-agent''" by blast
  then show thesis
  proof cases
    case 1
    then show thesis using assms by (auto simp: main_branch_def bind_eq_Some_conv intro: start)
  next
    case 2
    then show thesis using assms migrate by (auto simp: main_branch_def bind_eq_Some_conv)
  next
    case 3
    then show thesis using assms connect by (auto simp: main_branch_def bind_eq_Some_conv)
  next
    case 4
    then show thesis using assms admin by (auto simp: main_branch_def bind_eq_Some_conv)
  qed
qed

text \<open>
  A command line ends with a status, or with an exception of a call that the handler around the call does not
  name: every option the commands read is there, with the type they use it at.
\<close>

theorem server_command_ends_with_a_status:
  assumes "server_cli env dir command given = Inl e"
  shows "(\<exists>p. ce_start env p = Inl e \<and> \<not> (is_config_error e \<or> is_os_error e \<or> is_runtime_error e \<or> is_postgres_error e)) \<or>
    (\<exists>p. ce_settings env p = Inl e \<and> \<not> is_config_error e) \<or>
    (\<exists>d m. ce_migrate env d m = Inl e \<and> \<not> (is_os_error e \<or> is_postgres_error e)) \<or>
    (\<exists>p. ce_to_path env p = Inl e \<and> \<not> is_value_error e) \<or>
    (\<exists>c. ce_run env c = Inl e \<and> \<not> is_os_error e) \<or>
    (\<exists>d a. ce_admin env d a = Inl e \<and> \<not> (is_admin_error e \<or> is_os_error e \<or> is_postgres_error e))"
proof -
  obtain name specs where n: "command = Some name" "map_of (build_parser dir) name = Some specs"
    using assms by (auto simp: server_cli_def server_main_def split: option.splits)
  then obtain ns where ns: "parse_options specs given = Some ns"
    using assms by (auto simp: server_cli_def split: option.splits)
  obtain cmd calls where b: "main_branch env name ns = Some (cmd, calls)"
    using main_branch_exists [OF map_of_SomeD [OF n(2)] ns] by blast
  then have m: "server_main calls cmd = Inl e" using assms n ns by (simp add: server_cli_def)
  from b show ?thesis
  proof (cases rule: main_branch_cases)
    case start
    then show ?thesis using m by (auto simp: server_main_def exit_status_Inl)
  next
    case migrate
    then show ?thesis using m dsn_errors [of env ns e] by (auto simp: server_main_def exit_status_Inl)
  next
    case connect
    then show ?thesis using m by (auto simp: server_main_def exit_status_Inl split: if_splits dest!: connect_errors)
  next
    case admin
    then show ?thesis using m dsn_errors [of env ns e] by (auto simp: server_main_def exit_status_Inl)
  qed
qed

text \<open>\<open>migrate\<close> with a partial history: the error of the migrations is a \<open>RuntimeError\<close>, which is not caught.\<close>

lemma migrate_lets_migration_errors_out:
  assumes "ce_migrate env (str ''dsn'') dir = Inl (MigrationError m)"
  shows "server_cli env dir (Some ''migrate'') [(''--postgres-dsn'', Some (str ''dsn''))] = Inl (MigrationError m)"
  using assms
  by (simp add: server_cli_def build_parser_def parse_options_def default_namespace_def dest_defs convert_def main_branch_def
    dsn_of_def ns_maybe_def ns_text_def ns_path_def admin_postgres_dsn_def str_def server_main_def exit_status_def no_calls_def)

text \<open>\<open>create-agent\<close> with the two options it requires: the defaults of the others.\<close>

lemma create_agent_defaults:
  "map_option create_args_of (parse_options (admin_options ''create-agent'')
     [(''--node-name'', Some n), (''--node-host-key-file'', Some f)]) =
   Some (Some (\<lparr>cr_node_name = n, cr_labels = [], cr_actor = str ''local-admin'', cr_node_ssh_host_public_key = [],
     cr_server_host = str ''server'', cr_enrollment_port = 4443, cr_tunnel_port = 4444, cr_proxy_host = str ''127.0.0.1'',
     cr_proxy_port = 2222, cr_heartbeat_seconds = 30\<rparr>, f))"
  by (simp add: admin_options_def parse_options_def default_namespace_def dest_defs convert_def create_args_of_def
    ns_text_def ns_path_def ns_int_def ns_texts_def)

end
