(* ===== verification/Spec2Isabelle.thy ===== *)
theory Spec2Isabelle
  imports End_To_End Auth Enrollment_Service Bridge_Facts Config_Facts Ssh_Ends Lost_Connection Server_Main_Facts
    Admin_Facts Created_Package Agent_Lifecycle Migrations Transport Listeners Command_Line
begin

text \<open>
  A verification development for VibeConnect, an SSH jump service: a server that users reach by SSH, the
  agents that keep a framed tunnel to it from the nodes, and the code they share.  Paths below are relative
  to \<open>src/src/\<close>.

  \<^bold>\<open>The program.\<close>  A user connects to the server (\<open>server/ssh.py\<close>), is resolved to an identity by public key
  (\<open>server/main.py\<close>, \<open>server/auth.py\<close>) and names a node.  The coordinator (\<open>server/jump.py\<close>) checks that the
  node is visible to the identity and its tunnel fresh, opens a session row, a replay recording
  (\<open>vibeconnect_common/replay.py\<close>) and a user certificate (\<open>vibeconnect_common/crypto.py\<close>), and asks the broker
  (\<open>server/tunnel.py\<close>) for a channel.  The broker multiplexes channels over the one authenticated tunnel of the
  agent (\<open>agent/tunnel.py\<close>), whose other end is the node's sshd.  AsyncSSH speaks to that sshd through a
  transport over the broker's stream; a bridge copies the terminal bytes and records them.  Agents join by
  a one-time token (\<open>server/enrollment.py\<close>, \<open>agent/enrollment.py\<close>); an operator creates tokens, revokes agents and
  rotates keys (\<open>server/admin.py\<close>).  Everything that matters is audited (\<open>vibeconnect_common/audit.py\<close>), stored in
  tables that \<open>vibeconnect_common/db.py\<close> migrates, and configured by \<open>vibeconnect_common/config.py\<close>.

  \<^bold>\<open>How it is modelled.\<close>  A Python \<open>str\<close> is the list of its code points, \<open>bytes\<close> a list of 8-bit words, a time
  stamp its microseconds with or without a zone (\<open>Prelude\<close>).  An exception is a value of the type \<open>exc\<close>, one
  constructor for each class, with the class hierarchy as predicates; code that may raise returns
  \<open>exc + 'a\<close> and code that also changes state is an \<open>('s, 'a) op\<close>, whose state survives the exception.
  Objects that several parts share (connections, streams, recorders) live in stores under references.
  A coroutine is cut at the awaits that suspend, and one step of a step relation is what runs between two
  of them; the reachability predicates allow every interleaving.  Random draws, clocks, fresh ids and the
  answers of libraries and of the operating system are arguments.  SQL statements are functions on the
  tables, which check the constraints of the schema.

  \<^bold>\<open>Theories and sources.\<close>
  \<^item> \<open>Prelude\<close>, \<open>Regex\<close>, \<open>Utf8\<close>, \<open>Json\<close>, \<open>Json_Facts\<close>, \<open>Sha256\<close>: what the program uses of Python and its
    standard library.  \<open>json.loads\<close> takes fuel; \<open>json_fuel\<close>, twice the length and two, is proved enough.
    The regular expression matcher works by derivatives and is proved equal to membership.
  \<^item> \<open>Identifiers\<close>, \<open>Models\<close>, \<open>Crypto\<close>, \<open>Tunnel_Protocol\<close>, \<open>Audit_Log\<close>, \<open>Replay\<close>, \<open>Replay_Facts\<close>, \<open>Config\<close>,
    \<open>Config_Facts\<close>, \<open>Migrations\<close>: \<open>vibeconnect_common/\<close> \<open>identifiers.py\<close>, \<open>models.py\<close>, \<open>crypto.py\<close>, \<open>tunnel.py\<close>,
    \<open>audit.py\<close>, \<open>replay.py\<close>, \<open>config.py\<close> and \<open>db.py\<close>.  \<open>Database\<close> has the tables of
    \<open>migrations/001_initial_schema.sql\<close> with their constraints, and UUIDs.
  \<^item> \<open>Tunnel_State\<close>, \<open>Tunnel_Stream\<close>, \<open>Broker\<close>, \<open>Broker_Facts\<close>, \<open>Transport\<close>: \<open>server/tunnel.py\<close>; the agent stores and
    the authenticator, the channel and tunnel registries, the frame reader, the broker, and the transport
    that AsyncSSH runs on.
  \<^item> \<open>Agent_Tunnel\<close>, \<open>Agent_Facts\<close>: \<open>agent/tunnel.py\<close> and the reconnect loop of \<open>agent/main.py\<close>.
    \<open>Agent_Enrollment\<close>, \<open>Agent_Enrollment_Facts\<close>: \<open>agent/enrollment.py\<close> and the commands of \<open>agent/main.py\<close>.
  \<^item> \<open>Auth\<close>, \<open>Host_Keys\<close>, \<open>Enrollment\<close>, \<open>Enrollment_Facts\<close>, \<open>Enrollment_Service\<close>: \<open>server/\<close> \<open>auth.py\<close>, \<open>host_keys.py\<close> and
    \<open>enrollment.py\<close>.
  \<^item> \<open>Jump\<close>, \<open>Jump_Facts\<close>, \<open>Bridge_Facts\<close>: \<open>server/jump.py\<close>.  \<open>Ssh\<close>, \<open>Ssh_Facts\<close>, \<open>Ssh_Ends\<close>, \<open>Lost_Connection\<close>:
    \<open>server/ssh.py\<close>.
  \<^item> \<open>Server_Main\<close>, \<open>Server_Main_Facts\<close>, \<open>Server_Runtime\<close>, \<open>Listeners\<close>, \<open>Command_Line\<close>: \<open>server/main.py\<close>
    and \<open>server/health.py\<close>, the TLS contexts of both ends and the command lines of both commands.  \<open>Admin\<close>,
    \<open>Admin_Facts\<close>: \<open>server/admin.py\<close> and \<open>_run_admin_command\<close>; \<open>Created_Package\<close> follows a package to the service.
  \<^item> \<open>End_To_End\<close> and \<open>Agent_Lifecycle\<close> put the server and the agent together.

  Definitions have the names of the source, with a prefix where two classes have a method of the same name
  (\<open>pg_\<close> and \<open>mem_\<close> for the two stores, \<open>stream_\<close>, \<open>transport_\<close>, \<open>admin_\<close>, \<open>agent_\<close>) and without a leading underscore.

  \<^bold>\<open>Interfaces.\<close>  \<open>frame_codec\<close> and \<open>frame_reader\<close>: what a codec owes a reader of frames, interpreted on the codec
  and on the readers of both sides.  \<open>tunnel_store\<close>: what the authenticator needs of a store, interpreted on
  the PostgreSQL and the in-memory store.  \<open>channel_ids\<close>: single use of channel ids.  \<open>token_store\<close>: the abstract
  table of usable tokens that both enrollment stores refine.  \<open>exec_handler\<close>: what the SSH session needs of the
  jump handler.  \<open>migration_step\<close>: a migration is applied and recorded as a whole or not at all.

  \<^bold>\<open>What is shown.\<close>
  \<^item> Protocol: decoding inverts encoding; reading frames off a stream gives back what was written.
  \<^item> Tunnel: the authenticator accepts exactly the requests that match a stored, unrevoked, unexpired agent;
    in every interleaving an agent has at most one running tunnel, data reach only streams of the tunnel they came
    from, and the end of a tunnel closes its sessions; payload arrives unchanged in both directions; the
    transport keeps asyncio's contract.
  \<^item> Enrollment: a token is single use and authorises exactly what it pins; the limiter counts the
    window; a created package lets in its node and no other, for seven days; the agent's side leaves an identity
    without a token or a token without an identity, unless the cleanup fails too; an agent that has enrolled
    gets in for the life of its certificate; after its revocation it gets no new tunnel and no new jump.
  \<^item> Jumps: a jump that starts was authorised; its session row is closed once; a closed session has its
    replay, which gives every byte back; input reaches the node in order; the end of the process closes
    the session; a user who leaves while the process is being created strands it.
  \<^item> Server: accepted configurations are characterised; the audit log never holds secrets; admin commands
    undo nothing; migrations stay a prefix; the runtime releases what it opened; both ends of a tunnel verify
    the other against their own bundle; a command line ends with a status, or with an exception that the
    handler around its call does not name.
  \<^item> Errors: what the code leaves behind where it does not do what it means to; the theorems say exactly what.

  \<^bold>\<open>Bounds and fuel.\<close>  The reconnect loop of the agent does not end by itself and takes fuel; that it ends after
  the configured number of failures is proved as such.  The paging loop of the Graph client takes fuel, and
  its result is characterised by the existence of enough fuel.  Frame sizes, ports and header lengths keep the bounds
  of the source; the length field is a 32-bit word.

  \<^bold>\<open>Not modelled.\<close>  How argparse splits a command line (a command line is the list of its options, and a parser is
  the table of them) and the wording of messages; sockets, and the files a TLS context loads (their outcomes are
  arguments of \<open>Server_Runtime\<close> and \<open>Listeners\<close>); the parsing of PEM, X.509 and OpenSSH keys, signatures and
  key generation (parameters, with what the theorems need of them as hypotheses); LDAP and Graph requests;
  the routing of aiohttp; \<open>Protocol\<close> classes, which have no code; the recursion and digit limits of the
  interpreter; cancellation inside \<open>start_exec\<close> and inside a close: \<open>start_exec\<close> is one step although it has
  several awaits, and the end of a close (the \<open>UPDATE\<close> of the session row, the wait for the connection and the
  audit row) is one step after the wait, where the server may have committed the \<open>UPDATE\<close> before; no theorem is
  about a cancellation there; the interpolation errors of \<open>ConfigParser\<close>, which count as parse errors; the
  \<open>PermissionError\<close> of \<open>Path.is_file\<close>; the truncation of certificate times to seconds (times keep their
  microseconds); the ten-second timeout of the handshake; a process that is killed between two file operations.
\<close>

end
